(* ===== verification/Prelude.thy ===== *)
theory Prelude
  imports Main "HOL-Library.Char_ord" "HOL-Library.List_Lexorder" "HOL-Library.Sublist" "HOL-Library.Multiset"
begin

text \<open>
  Shared vocabulary of the development: the result type of fallible Python code, its
  sequencing operator, and the generic lemmas on lists and association lists the components
  use. A Python function that may raise is a HOL function into \<open>'e + 'a\<close>: \<open>Inl e\<close> is
  the raised exception, \<open>Inr v\<close> the returned value. Statements in sequence are chained with
  \<open>rbind\<close>, which stops at the first exception, as Python does.
\<close>

named_theorems ok_elims "elimination rules for a successful call of a fallible operation"
named_theorems ok_simps "characterisations of a successful call of a fallible operation"

section \<open>Fallible results\<close>

definition rbind :: "'e + 'a \<Rightarrow> ('a \<Rightarrow> 'e + 'b) \<Rightarrow> 'e + 'b" where
  "rbind r f = (case r of Inl e \<Rightarrow> Inl e | Inr a \<Rightarrow> f a)"

lemma rbind_simps [simp, code]:
  "rbind (Inl e) f = Inl e"
  "rbind (Inr a) f = f a"
  by (simp_all add: rbind_def)

lemma rbind_eq_Inr_iff [ok_simps]:
  "rbind r f = Inr b \<longleftrightarrow> (\<exists>a. r = Inr a \<and> f a = Inr b)"
  by (cases r) auto

lemma rbind_eq_Inl_iff:
  "rbind r f = Inl e \<longleftrightarrow> r = Inl e \<or> (\<exists>a. r = Inr a \<and> f a = Inl e)"
  by (cases r) auto

lemma rbind_cong [fundef_cong]:
  "r = r' \<Longrightarrow> (\<And>a. r' = Inr a \<Longrightarrow> f a = g a) \<Longrightarrow> rbind r f = rbind r' g"
  by (cases r') auto

lemma rbind_assoc: "rbind (rbind r f) g = rbind r (\<lambda>a. rbind (f a) g)"
  by (cases r) auto

text \<open>\<open>check b e\<close> is Python's \<open>if not b: raise e\<close>.\<close>

definition check :: "bool \<Rightarrow> 'e \<Rightarrow> 'e + unit" where
  "check b e = (if b then Inr () else Inl e)"

lemma check_simps [simp]:
  "check True e = Inr ()"
  "check False e = Inl e"
  by (simp_all add: check_def)

lemma check_eq_Inr_iff [ok_simps]: "check b e = Inr u \<longleftrightarrow> b"
  by (cases b) auto

lemma check_eq_Inl_iff: "check b e = Inl e' \<longleftrightarrow> \<not> b \<and> e' = e"
  by (cases b) auto

text \<open>\<open>on_err h r\<close> is \<open>try: r except E: raise h(E)\<close>.\<close>

definition on_err :: "('e \<Rightarrow> 'f) \<Rightarrow> 'e + 'a \<Rightarrow> 'f + 'a" where
  "on_err h r = (case r of Inl e \<Rightarrow> Inl (h e) | Inr a \<Rightarrow> Inr a)"

lemma on_err_simps [simp]:
  "on_err h (Inl e) = Inl (h e)"
  "on_err h (Inr a) = Inr a"
  by (simp_all add: on_err_def)

lemma on_err_eq_Inr_iff [ok_simps]: "on_err h r = Inr a \<longleftrightarrow> r = Inr a"
  by (cases r) auto

lemma on_err_eq_Inl_iff: "on_err h r = Inl f \<longleftrightarrow> (\<exists>e. r = Inl e \<and> f = h e)"
  by (cases r) auto

definition of_option :: "'e \<Rightarrow> 'a option \<Rightarrow> 'e + 'a" where
  "of_option e x = (case x of None \<Rightarrow> Inl e | Some a \<Rightarrow> Inr a)"

lemma of_option_simps [simp]:
  "of_option e None = Inl e"
  "of_option e (Some a) = Inr a"
  by (simp_all add: of_option_def)

lemma of_option_eq_Inr_iff [ok_simps]: "of_option e x = Inr a \<longleftrightarrow> x = Some a"
  by (cases x) auto

definition is_ok :: "'e + 'a \<Rightarrow> bool" where
  "is_ok r = (case r of Inl _ \<Rightarrow> False | Inr _ \<Rightarrow> True)"

lemma is_ok_simps [simp]: "\<not> is_ok (Inl e)" "is_ok (Inr a)"
  by (simp_all add: is_ok_def)

lemma is_ok_iff: "is_ok r \<longleftrightarrow> (\<exists>a. r = Inr a)"
  by (cases r) auto

text \<open>A comprehension \<open>[f(x) for x in xs]\<close> whose body may raise.\<close>

fun mapr :: "('a \<Rightarrow> 'e + 'b) \<Rightarrow> 'a list \<Rightarrow> 'e + 'b list" where
  "mapr f [] = Inr []"
| "mapr f (x # xs) = rbind (f x) (\<lambda>y. rbind (mapr f xs) (\<lambda>ys. Inr (y # ys)))"

lemma mapr_cong [fundef_cong]:
  "xs = ys \<Longrightarrow> (\<And>x. x \<in> set ys \<Longrightarrow> f x = g x) \<Longrightarrow> mapr f xs = mapr g ys"
proof (induction ys arbitrary: xs)
  case (Cons y ys)
  then show ?case by (auto intro: rbind_cong)
qed simp

lemma mapr_Inr_iff:
  "mapr f xs = Inr ys \<longleftrightarrow> list_all2 (\<lambda>x y. f x = Inr y) xs ys"
proof (induction xs arbitrary: ys)
  case Nil
  then show ?case by auto
next
  case (Cons x xs)
  then show ?case
    by (cases ys) (auto simp: rbind_eq_Inr_iff)
qed

lemma mapr_length: "mapr f xs = Inr ys \<Longrightarrow> length ys = length xs"
  by (auto simp: mapr_Inr_iff dest: list_all2_lengthD)

lemma mapr_map_id:
  "(\<And>y. y \<in> set ys \<Longrightarrow> f (g y) = Inr y) \<Longrightarrow> mapr f (map g ys) = Inr ys"
  by (induction ys) auto

lemma mapr_Inr_setD:
  "mapr f xs = Inr ys \<Longrightarrow> y \<in> set ys \<Longrightarrow> \<exists>x \<in> set xs. f x = Inr y"
proof (induction xs arbitrary: ys)
  case (Cons x xs)
  then show ?case by (auto simp: rbind_eq_Inr_iff)
qed simp

lemma mapr_left_inverse:
  assumes "mapr f xs = Inr ys" and "\<And>x y. x \<in> set xs \<Longrightarrow> f x = Inr y \<Longrightarrow> g y = x"
  shows "map g ys = xs"
  using assms
proof (induction xs arbitrary: ys)
  case (Cons x xs)
  then show ?case by (auto simp: rbind_eq_Inr_iff)
qed simp

section \<open>Lists\<close>

lemma sort_key_map_fst:
  "map fst (sort_key fst xs) = sort (map fst xs)"
proof (rule properties_for_sort [symmetric])
  show "mset (map fst (sort_key fst xs)) = mset (map fst xs)"
    by (metis mset_map mset_sort)
  show "sorted (map fst (sort_key fst xs))"
    by simp
qed

lemma map_of_sort_key:
  assumes "distinct (map fst xs)"
  shows "map_of (sort_key fst xs) = map_of xs"
proof (rule map_of_inject_set [THEN iffD2])
  show "distinct (map fst (sort_key fst xs))"
    using assms by (simp add: sort_key_map_fst)
qed (use assms in auto)

lemma sorted_key_list_unique:
  fixes xs ys :: "('k::linorder \<times> 'v) list"
  assumes "sorted (map fst xs)" "distinct (map fst xs)"
    and "sorted (map fst ys)" "distinct (map fst ys)"
    and "map_of xs = map_of ys"
  shows "xs = ys"
proof -
  have sets: "set xs = set ys"
    using assms(2,4,5) by (metis map_of_inject_set)
  then have "set (map fst xs) = set (map fst ys)"
    by simp
  with assms have keys: "map fst xs = map fst ys"
    by (metis sorted_distinct_set_unique)
  then have len: "length xs = length ys"
    by (metis length_map)
  show ?thesis
  proof (rule nth_equalityI [OF len])
    fix i
    assume i: "i < length xs"
    have x: "map_of xs (fst (xs ! i)) = Some (snd (xs ! i))"
      using assms(2) i by (simp add: map_of_is_SomeI)
    have y: "map_of ys (fst (ys ! i)) = Some (snd (ys ! i))"
      using assms(4) i len by (simp add: map_of_is_SomeI)
    have "fst (xs ! i) = fst (ys ! i)"
      using keys i len by (metis nth_map)
    with x y assms(5) show "xs ! i = ys ! i"
      by (simp add: prod_eq_iff)
  qed
qed

text \<open>Insertion-ordered dictionaries: \<open>d[k] = v\<close> keeps the place of an existing key.\<close>

fun dict_put :: "'k \<Rightarrow> 'v \<Rightarrow> ('k \<times> 'v) list \<Rightarrow> ('k \<times> 'v) list" where
  "dict_put k v [] = [(k, v)]"
| "dict_put k v ((a, b) # d) = (if a = k then (k, v) # d else (a, b) # dict_put k v d)"

lemma map_of_dict_put: "map_of (dict_put k v d) = (map_of d)(k \<mapsto> v)"
  by (induction k v d rule: dict_put.induct) (auto simp: fun_upd_twist)

lemma dict_put_keys: "fst ` set (dict_put k v d) = insert k (fst ` set d)"
  by (induction k v d rule: dict_put.induct) auto

lemma distinct_dict_put: "distinct (map fst d) \<Longrightarrow> distinct (map fst (dict_put k v d))"
  by (induction k v d rule: dict_put.induct) (auto simp: dict_put_keys)

lemma dict_put_new: "k \<notin> fst ` set d \<Longrightarrow> dict_put k v d = d @ [(k, v)]"
  by (induction k v d rule: dict_put.induct) auto

lemma set_dict_put: "q \<in> set (dict_put k v d) \<Longrightarrow> q = (k, v) \<or> q \<in> set d"
  by (induction k v d rule: dict_put.induct) (auto split: if_splits)

lemma set_dict_put_snd: "snd ` set (dict_put k v d) \<subseteq> insert v (snd ` set d)"
  by (induction k v d rule: dict_put.induct) auto

end
