(* ===== verification/Errors.thy ===== *)
theory Errors
  imports Prelude
begin

text \<open>
  The error taxonomy of \<open>src/leanctx_sdk/errors.py\<close> and the builtin exceptions the modelled
  code can meet. A constructor is an exception class; the message of an exception is not
  modelled, its class and the attributes the class defines or inherits are. \<open>parent\<close> is the
  first base class, so that attribute lookup and \<open>except\<close> clauses follow the class hierarchy.
\<close>

datatype exn =
    SDKError | ValidationError | ConfigurationError | SessionStateError
  | WorkspaceError | WorkspaceNotFoundError | WorkspaceAlreadyExistsError
  | WorkspaceValidationError | WorkspacePolicyError | WorkspaceSensitiveDataError
  | WorkspaceLifecycleError | WorkspaceCorruptError | WorkspaceIncompatibleError
  | WorkspaceConflictError | WorkspaceLockError | WorkspaceIOError
  | InstanceError | InstanceUnavailable | InstanceTimeout | InstanceCrashed
  | AgentPermissionError | UnsupportedCapabilityError | InstanceProtocolError
  | CompatibilityError | UnsupportedInstanceError | InstanceRejected
  | PolicyAdmissionError | InstanceExecutionError | SourceUnavailableError
  | RecoveryUnavailableError | FrameworkIntegrationError | FrameworkCompatibilityError
  | ArtifactIntegrityError
  | PyTypeError | PyValueError | PyKeyError | PyAttributeError | PyUnicodeEncodeError
  | PyOSError | PyOther

type_synonym 'a res = "exn + 'a"

section \<open>The class hierarchy\<close>

definition parent :: "exn \<Rightarrow> exn option" where
  "parent c = (case c of
     ValidationError \<Rightarrow> Some SDKError
   | ConfigurationError \<Rightarrow> Some SDKError
   | SessionStateError \<Rightarrow> Some SDKError
   | WorkspaceError \<Rightarrow> Some SDKError
   | WorkspaceNotFoundError \<Rightarrow> Some WorkspaceError
   | WorkspaceAlreadyExistsError \<Rightarrow> Some WorkspaceError
   | WorkspaceValidationError \<Rightarrow> Some WorkspaceError
   | WorkspacePolicyError \<Rightarrow> Some WorkspaceError
   | WorkspaceSensitiveDataError \<Rightarrow> Some WorkspaceError
   | WorkspaceLifecycleError \<Rightarrow> Some WorkspaceError
   | WorkspaceCorruptError \<Rightarrow> Some WorkspaceError
   | WorkspaceIncompatibleError \<Rightarrow> Some WorkspaceError
   | WorkspaceConflictError \<Rightarrow> Some WorkspaceError
   | WorkspaceLockError \<Rightarrow> Some WorkspaceError
   | WorkspaceIOError \<Rightarrow> Some WorkspaceError
   | InstanceError \<Rightarrow> Some SDKError
   | InstanceUnavailable \<Rightarrow> Some InstanceError
   | InstanceTimeout \<Rightarrow> Some InstanceError
   | InstanceCrashed \<Rightarrow> Some InstanceError
   | AgentPermissionError \<Rightarrow> Some InstanceError
   | UnsupportedCapabilityError \<Rightarrow> Some InstanceError
   | InstanceProtocolError \<Rightarrow> Some InstanceError
   | CompatibilityError \<Rightarrow> Some InstanceProtocolError
   | UnsupportedInstanceError \<Rightarrow> Some CompatibilityError
   | InstanceRejected \<Rightarrow> Some InstanceError
   | PolicyAdmissionError \<Rightarrow> Some InstanceRejected
   | InstanceExecutionError \<Rightarrow> Some InstanceError
   | SourceUnavailableError \<Rightarrow> Some InstanceExecutionError
   | RecoveryUnavailableError \<Rightarrow> Some InstanceExecutionError
   | ArtifactIntegrityError \<Rightarrow> Some InstanceExecutionError
   | FrameworkIntegrationError \<Rightarrow> Some SDKError
   | FrameworkCompatibilityError \<Rightarrow> Some FrameworkIntegrationError
   | _ \<Rightarrow> None)"

text \<open>The class and its bases, nearest first; four steps reach the root of every chain.\<close>

fun bases_upto :: "nat \<Rightarrow> exn \<Rightarrow> exn list" where
  "bases_upto 0 c = [c]"
| "bases_upto (Suc n) c =
     c # (case parent c of None \<Rightarrow> [] | Some p \<Rightarrow> bases_upto n p)"

definition mro :: "exn \<Rightarrow> exn list" where
  "mro c = bases_upto 4 c"

text \<open>\<open>isinstance(e, C)\<close>; the second bases (\<open>ValueError\<close>) are written out.\<close>

definition is_instance :: "exn \<Rightarrow> exn \<Rightarrow> bool" where
  "is_instance e c \<longleftrightarrow>
     c \<in> set (mro e) \<or>
     (c = PyValueError \<and>
       e \<in> {ValidationError, WorkspaceValidationError, PyUnicodeEncodeError})"

abbreviation is_workspace_error :: "exn \<Rightarrow> bool" where
  "is_workspace_error e \<equiv> is_instance e WorkspaceError"

section \<open>Class attributes\<close>

definition own_code :: "exn \<Rightarrow> string option" where
  "own_code c = (case c of
     SDKError \<Rightarrow> Some ''sdk_error''
   | ValidationError \<Rightarrow> Some ''validation_error''
   | ConfigurationError \<Rightarrow> Some ''configuration_error''
   | SessionStateError \<Rightarrow> Some ''session_state_error''
   | WorkspaceError \<Rightarrow> Some ''workspace_error''
   | WorkspaceNotFoundError \<Rightarrow> Some ''workspace_not_found''
   | WorkspaceAlreadyExistsError \<Rightarrow> Some ''workspace_already_exists''
   | WorkspaceValidationError \<Rightarrow> Some ''workspace_invalid''
   | WorkspacePolicyError \<Rightarrow> Some ''workspace_policy_rejected''
   | WorkspaceSensitiveDataError \<Rightarrow> Some ''workspace_sensitive_data''
   | WorkspaceLifecycleError \<Rightarrow> Some ''workspace_lifecycle''
   | WorkspaceCorruptError \<Rightarrow> Some ''workspace_corrupt''
   | WorkspaceIncompatibleError \<Rightarrow> Some ''workspace_incompatible''
   | WorkspaceConflictError \<Rightarrow> Some ''workspace_conflict''
   | WorkspaceLockError \<Rightarrow> Some ''workspace_lock''
   | WorkspaceIOError \<Rightarrow> Some ''workspace_io''
   | InstanceError \<Rightarrow> Some ''engine_error''
   | InstanceUnavailable \<Rightarrow> Some ''engine_unavailable''
   | InstanceTimeout \<Rightarrow> Some ''engine_timeout''
   | InstanceCrashed \<Rightarrow> Some ''engine_crashed''
   | AgentPermissionError \<Rightarrow> Some ''agent_permission_denied''
   | UnsupportedCapabilityError \<Rightarrow> Some ''unsupported_capability''
   | InstanceProtocolError \<Rightarrow> Some ''engine_protocol_error''
   | CompatibilityError \<Rightarrow> Some ''compatibility_error''
   | UnsupportedInstanceError \<Rightarrow> Some ''unsupported_engine''
   | InstanceRejected \<Rightarrow> Some ''engine_rejected''
   | PolicyAdmissionError \<Rightarrow> Some ''policy_admission_rejected''
   | InstanceExecutionError \<Rightarrow> Some ''engine_execution_error''
   | SourceUnavailableError \<Rightarrow> Some ''source_unavailable''
   | RecoveryUnavailableError \<Rightarrow> Some ''recovery_unavailable''
   | FrameworkIntegrationError \<Rightarrow> Some ''framework_integration_error''
   | FrameworkCompatibilityError \<Rightarrow> Some ''framework_compatibility_error''
   | ArtifactIntegrityError \<Rightarrow> Some ''artifact_integrity_error''
   | _ \<Rightarrow> None)"

definition own_guidance :: "exn \<Rightarrow> string option" where
  "own_guidance c = (case c of
     SDKError \<Rightarrow> Some ''inspect the stable error code and preserve original evidence''
   | ValidationError \<Rightarrow> Some ''fix caller input before retrying''
   | ConfigurationError \<Rightarrow> Some ''fix SDK configuration before retrying''
   | SessionStateError \<Rightarrow> Some ''fix lifecycle ordering or create a new session''
   | InstanceError \<Rightarrow> Some ''preserve instance evidence and classify the concrete error''
   | InstanceUnavailable \<Rightarrow> Some ''restore the configured instance binary or use explicit bounded fail-open''
   | InstanceTimeout \<Rightarrow> Some ''retry within host policy or use explicit bounded fail-open''
   | InstanceCrashed \<Rightarrow> Some ''create a new AgentContext; mutation and execution calls are never retried''
   | AgentPermissionError \<Rightarrow> Some ''create a new AgentContext with the required explicit permission''
   | UnsupportedCapabilityError \<Rightarrow> Some ''install a compatible instance or choose a negotiated capability''
   | InstanceProtocolError \<Rightarrow> Some ''fail closed and verify Engine interface, schema, and transport''
   | CompatibilityError \<Rightarrow> Some ''install a supported version from the compatibility matrix''
   | UnsupportedInstanceError \<Rightarrow> Some ''install an instance identity and capability supported by this SDK''
   | InstanceRejected \<Rightarrow> Some ''fail closed and satisfy the reported instance policy''
   | PolicyAdmissionError \<Rightarrow> Some ''abort or change the request to satisfy the reported instance policy''
   | InstanceExecutionError \<Rightarrow> Some ''fail closed and retain the factual instance failure evidence''
   | SourceUnavailableError \<Rightarrow> Some ''restore source access or select another source before retrying''
   | RecoveryUnavailableError \<Rightarrow> Some ''abort and restore the exact source and recovery binding''
   | FrameworkIntegrationError \<Rightarrow> Some ''fix the framework installation or adapter lifecycle before retrying''
   | FrameworkCompatibilityError \<Rightarrow> Some ''install the exact certified framework version''
   | ArtifactIntegrityError \<Rightarrow> Some ''abort and replace the artifact with a digest-verified copy''
   | _ \<Rightarrow> None)"

definition own_retryable :: "exn \<Rightarrow> bool option" where
  "own_retryable c = (case c of
     SDKError \<Rightarrow> Some False
   | InstanceUnavailable \<Rightarrow> Some True
   | InstanceTimeout \<Rightarrow> Some True
   | _ \<Rightarrow> None)"

definition own_degrade_allowed :: "exn \<Rightarrow> bool option" where
  "own_degrade_allowed c = (case c of
     SDKError \<Rightarrow> Some False
   | InstanceUnavailable \<Rightarrow> Some True
   | InstanceTimeout \<Rightarrow> Some True
   | _ \<Rightarrow> None)"

definition own_abort_required :: "exn \<Rightarrow> bool option" where
  "own_abort_required c = (case c of
     SDKError \<Rightarrow> Some True
   | InstanceUnavailable \<Rightarrow> Some False
   | InstanceTimeout \<Rightarrow> Some False
   | _ \<Rightarrow> None)"

definition own_configuration_fix :: "exn \<Rightarrow> bool option" where
  "own_configuration_fix c = (case c of
     SDKError \<Rightarrow> Some False
   | ConfigurationError \<Rightarrow> Some True
   | InstanceUnavailable \<Rightarrow> Some True
   | AgentPermissionError \<Rightarrow> Some True
   | PolicyAdmissionError \<Rightarrow> Some True
   | FrameworkIntegrationError \<Rightarrow> Some True
   | _ \<Rightarrow> None)"

definition own_version_change :: "exn \<Rightarrow> bool option" where
  "own_version_change c = (case c of
     SDKError \<Rightarrow> Some False
   | UnsupportedCapabilityError \<Rightarrow> Some True
   | CompatibilityError \<Rightarrow> Some True
   | FrameworkCompatibilityError \<Rightarrow> Some True
   | _ \<Rightarrow> None)"

text \<open>Attribute lookup: the nearest class of the chain that defines the attribute.\<close>

fun first_some :: "('a \<Rightarrow> 'b option) \<Rightarrow> 'a list \<Rightarrow> 'b option" where
  "first_some f [] = None"
| "first_some f (x # xs) = (case f x of Some y \<Rightarrow> Some y | None \<Rightarrow> first_some f xs)"

definition attr :: "(exn \<Rightarrow> 'b option) \<Rightarrow> exn \<Rightarrow> 'b option" where
  "attr f e = first_some f (mro e)"

definition exn_code :: "exn \<Rightarrow> string option" where
  "exn_code e = attr own_code e"

definition guidance :: "exn \<Rightarrow> string option" where
  "guidance e = attr own_guidance e"

definition degrade_allowed :: "exn \<Rightarrow> bool" where
  "degrade_allowed e \<longleftrightarrow> attr own_degrade_allowed e = Some True"

definition abort_required :: "exn \<Rightarrow> bool" where
  "abort_required e \<longleftrightarrow> attr own_abort_required e = Some True"

definition retryable :: "exn \<Rightarrow> bool" where
  "retryable e \<longleftrightarrow> attr own_retryable e = Some True"

definition configuration_fix :: "exn \<Rightarrow> bool" where
  "configuration_fix e \<longleftrightarrow> attr own_configuration_fix e = Some True"

definition version_change :: "exn \<Rightarrow> bool" where
  "version_change e \<longleftrightarrow> attr own_version_change e = Some True"

text \<open>\<open>getattr(error, "code", "engine_error")\<close> of an exception of any class.\<close>

definition code_or_engine_error :: "exn \<Rightarrow> string" where
  "code_or_engine_error e = (case exn_code e of Some c \<Rightarrow> c | None \<Rightarrow> ''engine_error'')"

lemmas exn_attr_defs =
  attr_def mro_def numeral_eq_Suc parent_def own_code_def own_retryable_def
  own_degrade_allowed_def own_abort_required_def own_configuration_fix_def
  own_version_change_def exn_code_def degrade_allowed_def abort_required_def
  retryable_def configuration_fix_def version_change_def code_or_engine_error_def

lemma parent_chain_ends: "bases_upto (4 + n) e = bases_upto 4 e"
  by (cases e) (cases n; simp add: numeral_eq_Suc parent_def)+

lemma degrade_allowed_iff: "degrade_allowed e \<longleftrightarrow> e = InstanceUnavailable \<or> e = InstanceTimeout"
  by (cases e) (simp_all add: exn_attr_defs)

lemma is_workspace_error_simps [simp]:
  "is_workspace_error WorkspaceError"
  "is_workspace_error WorkspaceNotFoundError"
  "is_workspace_error WorkspaceAlreadyExistsError"
  "is_workspace_error WorkspaceValidationError"
  "is_workspace_error WorkspacePolicyError"
  "is_workspace_error WorkspaceSensitiveDataError"
  "is_workspace_error WorkspaceLifecycleError"
  "is_workspace_error WorkspaceCorruptError"
  "is_workspace_error WorkspaceIncompatibleError"
  "is_workspace_error WorkspaceConflictError"
  "is_workspace_error WorkspaceLockError"
  "is_workspace_error WorkspaceIOError"
  "\<not> is_workspace_error ValidationError"
  "\<not> is_workspace_error PyTypeError"
  "\<not> is_workspace_error PyValueError"
  "\<not> is_workspace_error PyKeyError"
  "\<not> is_workspace_error PyAttributeError"
  "\<not> is_workspace_error PyUnicodeEncodeError"
  by (simp_all add: is_instance_def mro_def numeral_eq_Suc parent_def)

end
