(* ===== verification/PyText.thy ===== *)
theory PyText
  imports Errors Unicode_Words
begin

text \<open>
  Python strings. A \<open>str\<close> is represented by its UTF-8 encoding, with a lone surrogate encoded
  as the three bytes \<open>surrogatepass\<close> gives it. The representation is faithful for what the
  code does with strings: \<open>len(value.encode("utf-8"))\<close> is \<open>length\<close>, a strict encoding fails
  exactly where a surrogate occurs (\<open>encodable\<close>), a test \<open>ord(ch) < 0x20\<close> is a test of a byte
  (every byte of a non-ASCII character is at least 128), and Python's order of strings by code
  point is the order of the encodings byte by byte, which is \<open>sort\<close> here.

  The second half is the sensitive-value detector of \<open>src/leanctx_sdk/workspace.py\<close>: its six
  regular expressions over code points, with a small matcher for the constructs they use.
\<close>

type_synonym pystr = string

abbreviation byte :: "char \<Rightarrow> nat" where
  "byte c \<equiv> of_char c"

section \<open>Encoding\<close>

fun encodable :: "pystr \<Rightarrow> bool" where
  "encodable (a # b # s) = (\<not> (byte a = 237 \<and> 160 \<le> byte b) \<and> encodable (b # s))"
| "encodable s = True"

definition cont_byte :: "pystr \<Rightarrow> nat \<Rightarrow> nat" where
  "cont_byte s i = (if i < length s then byte (s ! i) - 128 else 0)"

function code_points :: "pystr \<Rightarrow> nat list" where
  "code_points [] = []"
| "code_points (x # s) =
     (let b = byte x in
      if b < 128 then b # code_points s
      else if b < 224 then ((b - 192) * 64 + cont_byte s 0) # code_points (drop 1 s)
      else if b < 240 then
        ((b - 224) * 4096 + cont_byte s 0 * 64 + cont_byte s 1) # code_points (drop 2 s)
      else ((b - 240) * 262144 + cont_byte s 0 * 4096 + cont_byte s 1 * 64 + cont_byte s 2)
        # code_points (drop 3 s))"
  by pat_completeness auto
termination
  by (relation "measure length") auto

lemma encodable_append_ascii:
  "(\<forall>c \<in> set s. byte c < 128) \<Longrightarrow> encodable s"
  by (induction s rule: encodable.induct) auto

definition is_ascii :: "pystr \<Rightarrow> bool" where
  "is_ascii s \<longleftrightarrow> list_all (\<lambda>c. byte c < 128) s"

lemma is_ascii_encodable: "is_ascii s \<Longrightarrow> encodable s"
  by (auto simp: is_ascii_def list_all_iff intro: encodable_append_ascii)

lemma encodable_Cons_ascii: "byte c < 128 \<Longrightarrow> encodable (c # s) = encodable s"
  by (cases s) auto

lemma encodable_app_ascii: "is_ascii p \<Longrightarrow> encodable (p @ s) = encodable s"
  by (induction p) (auto simp: is_ascii_def encodable_Cons_ascii)

lemma encodable_app_sep:
  "byte c < 128 \<Longrightarrow> encodable (s @ c # t) \<longleftrightarrow> encodable s \<and> encodable t"
proof (induction s rule: encodable.induct)
  case (1 a b s)
  then show ?case by auto
qed (auto simp: encodable_Cons_ascii)

section \<open>Character classes and formats\<close>

definition has_control :: "pystr \<Rightarrow> bool" where
  "has_control s \<longleftrightarrow> list_ex (\<lambda>c. byte c < 32) s"

definition has_nul :: "pystr \<Rightarrow> bool" where
  "has_nul s \<longleftrightarrow> list_ex (\<lambda>c. byte c = 0) s"

definition is_hex :: "char \<Rightarrow> bool" where
  "is_hex c \<longleftrightarrow> 48 \<le> byte c \<and> byte c \<le> 57 \<or> 97 \<le> byte c \<and> byte c \<le> 102"

definition is_digit :: "char \<Rightarrow> bool" where
  "is_digit c \<longleftrightarrow> 48 \<le> byte c \<and> byte c \<le> 57"

definition printable_ascii :: "pystr \<Rightarrow> bool" where
  "printable_ascii s \<longleftrightarrow> list_all (\<lambda>c. 32 \<le> byte c \<and> byte c \<le> 126) s"

text \<open>A literal prefix followed by exactly \<open>n\<close> lower-case hexadecimal digits.\<close>

definition prefixed_hex :: "pystr \<Rightarrow> nat \<Rightarrow> pystr \<Rightarrow> bool" where
  "prefixed_hex p n s \<longleftrightarrow>
     length s = length p + n \<and> take (length p) s = p \<and> list_all is_hex (drop (length p) s)"

definition is_digest :: "pystr \<Rightarrow> bool" where
  "is_digest s \<longleftrightarrow> prefixed_hex ''sha256:'' 64 s"

definition is_uuid :: "pystr \<Rightarrow> bool" where
  "is_uuid s \<longleftrightarrow>
     length s = 36 \<and>
     list_all (\<lambda>i. if i = 8 \<or> i = 13 \<or> i = 18 \<or> i = 23 then s ! i = CHR ''-'' else is_hex (s ! i))
       [0..<36]"

definition starts_with :: "pystr \<Rightarrow> pystr \<Rightarrow> bool" where
  "starts_with p s \<longleftrightarrow> take (length p) s = p"

text \<open>\<open>value.removeprefix(p)\<close>.\<close>

definition remove_prefix :: "pystr \<Rightarrow> pystr \<Rightarrow> pystr" where
  "remove_prefix p s = (if starts_with p s then drop (length p) s else s)"

lemma is_hex_ascii: "is_hex c \<Longrightarrow> 32 \<le> byte c \<and> byte c \<le> 126"
  by (auto simp: is_hex_def)

lemma prefixed_hex_decomp:
  "prefixed_hex p n s \<longleftrightarrow> (\<exists>h. s = p @ h \<and> length h = n \<and> list_all is_hex h)"
proof
  assume a: "prefixed_hex p n s"
  then have "s = p @ drop (length p) s"
    by (metis append_take_drop_id prefixed_hex_def)
  with a show "\<exists>h. s = p @ h \<and> length h = n \<and> list_all is_hex h"
    by (auto simp: prefixed_hex_def)
qed (auto simp: prefixed_hex_def)

lemma is_digest_printable: "is_digest s \<Longrightarrow> printable_ascii s"
  by (auto simp: is_digest_def prefixed_hex_decomp printable_ascii_def list_all_iff is_hex_ascii)

lemma is_digest_length: "is_digest s \<Longrightarrow> length s = 71"
  by (auto simp: is_digest_def prefixed_hex_def)

lemma is_uuid_printable:
  assumes "is_uuid s"
  shows "printable_ascii s"
  unfolding printable_ascii_def list_all_length
proof (intro allI impI)
  fix i
  assume "i < length s"
  with assms have "(if i = 8 \<or> i = 13 \<or> i = 18 \<or> i = 23 then s ! i = CHR ''-'' else is_hex (s ! i))"
    by (auto simp: is_uuid_def list_all_iff)
  then show "32 \<le> byte (s ! i) \<and> byte (s ! i) \<le> 126"
    by (auto split: if_splits dest: is_hex_ascii)
qed

lemma printable_encodable: "printable_ascii s \<Longrightarrow> encodable s"
  by (rule is_ascii_encodable) (auto simp: is_ascii_def printable_ascii_def list_all_iff)

lemma printable_no_control: "printable_ascii s \<Longrightarrow> \<not> has_control s"
  by (auto simp: printable_ascii_def has_control_def list_all_iff list_ex_iff)

lemma printable_no_nul: "printable_ascii s \<Longrightarrow> \<not> has_nul s"
  by (auto simp: printable_ascii_def has_nul_def list_all_iff list_ex_iff)

lemma nul_is_control: "has_nul s \<Longrightarrow> has_control s"
  unfolding has_control_def has_nul_def list_ex_iff by (metis zero_less_numeral)

lemmas printable_facts = printable_encodable printable_no_control printable_no_nul

section \<open>Regular expressions\<close>

text \<open>
  A position is the code point before it (none at the start) and the code points after it.
  \<open>rmatch r\<close> lists the positions a match of \<open>r\<close> from a position can end at.
\<close>

type_synonym re_pos = "nat option \<times> nat list"

datatype regex =
    RChr "nat \<Rightarrow> bool"
  | RSeq regex regex
  | RAlt regex regex
  | RStar regex
  | RTest "nat option \<Rightarrow> nat list \<Rightarrow> bool"
  | REps

fun star_from :: "nat \<Rightarrow> (re_pos \<Rightarrow> re_pos list) \<Rightarrow> re_pos \<Rightarrow> re_pos list" where
  "star_from 0 f p = [p]"
| "star_from (Suc n) f p =
     p # concat (map (star_from n f) (filter (\<lambda>q. length (snd q) < length (snd p)) (f p)))"

fun rchr :: "(nat \<Rightarrow> bool) \<Rightarrow> re_pos \<Rightarrow> re_pos list" where
  "rchr P (prev, []) = []"
| "rchr P (prev, c # cs) = (if P c then [(Some c, cs)] else [])"

primrec rmatch :: "regex \<Rightarrow> re_pos \<Rightarrow> re_pos list" where
  "rmatch (RChr P) = rchr P"
| "rmatch (RSeq r q) = (\<lambda>p. concat (map (rmatch q) (rmatch r p)))"
| "rmatch (RAlt r q) = (\<lambda>p. rmatch r p @ rmatch q p)"
| "rmatch (RStar r) = (\<lambda>p. star_from (length (snd p)) (rmatch r) p)"
| "rmatch (RTest t) = (\<lambda>p. if t (fst p) (snd p) then [p] else [])"
| "rmatch REps = (\<lambda>p. [p])"

text \<open>\<open>re.search\<close>: a match from some position.\<close>

fun search_from :: "regex \<Rightarrow> nat option \<Rightarrow> nat list \<Rightarrow> bool" where
  "search_from r prev [] = (rmatch r (prev, []) \<noteq> [])"
| "search_from r prev (c # cs) =
     (rmatch r (prev, c # cs) \<noteq> [] \<or> search_from r (Some c) cs)"

definition re_search :: "regex \<Rightarrow> pystr \<Rightarrow> bool" where
  "re_search r s = search_from r None (code_points s)"

definition rlit :: "pystr \<Rightarrow> regex" where
  "rlit s = foldr (\<lambda>c r. RSeq (RChr (\<lambda>x. x = byte c)) r) s REps"

text \<open>A literal under \<open>(?i)\<close>; a letter of the literal is given in lower case.\<close>

definition rlit_ci :: "pystr \<Rightarrow> regex" where
  "rlit_ci s =
     foldr (\<lambda>c r. RSeq (RChr (if 97 \<le> byte c \<and> byte c \<le> 122 then re_letter_ci (byte c)
                              else (\<lambda>x. x = byte c))) r) s REps"

definition rone_of :: "pystr \<Rightarrow> regex" where
  "rone_of s = RChr (\<lambda>x. x \<in> set (map byte s))"

definition rplus :: "regex \<Rightarrow> regex" where
  "rplus r = RSeq r (RStar r)"

definition ropt :: "regex \<Rightarrow> regex" where
  "ropt r = RAlt r REps"

fun rtimes :: "nat \<Rightarrow> regex \<Rightarrow> regex" where
  "rtimes 0 r = REps"
| "rtimes (Suc n) r = RSeq r (rtimes n r)"

fun next_word :: "nat list \<Rightarrow> bool" where
  "next_word [] = False"
| "next_word (c # cs) = re_word c"

definition rbound :: regex where
  "rbound = RTest (\<lambda>prev rest.
     (case prev of None \<Rightarrow> False | Some c \<Rightarrow> re_word c) \<noteq> next_word rest)"

definition rnot_after_alnum :: regex where
  "rnot_after_alnum = RTest (\<lambda>prev rest.
     case prev of None \<Rightarrow> True | Some c \<Rightarrow> \<not> ascii_alnum c)"

definition rstart :: regex where
  "rstart = RTest (\<lambda>prev rest. prev = None)"

definition rupper_digit :: regex where
  "rupper_digit = RChr (\<lambda>c. 65 \<le> c \<and> c \<le> 90 \<or> 48 \<le> c \<and> c \<le> 57)"

definition rkey_char :: regex where
  "rkey_char = RChr (\<lambda>c. ascii_alnum c \<or> c = 95 \<or> c = 45)"

section \<open>Sensitive values\<close>

definition pem_re :: regex where
  "pem_re = RSeq (rlit ''-----BEGIN'')
     (RSeq (RStar (RSeq (rlit '' '') (rplus rupper_digit))) (rlit '' PRIVATE KEY-----''))"

definition aws_re :: regex where
  "aws_re = RSeq rbound (RSeq (rlit ''AKIA'') (RSeq (rtimes 16 rupper_digit) rbound))"

definition openai_re :: regex where
  "openai_re = RSeq rnot_after_alnum (RSeq (rlit ''sk-'') (rplus rkey_char))"

definition github_re :: regex where
  "github_re = RSeq rnot_after_alnum
     (RSeq (rlit ''gh'') (RSeq (rone_of ''pousr'') (RSeq (rlit ''_'') (rplus rkey_char))))"

definition bearer_re :: regex where
  "bearer_re = RSeq rbound (RSeq (rlit_ci ''bearer'')
     (RSeq (rplus (RChr re_space)) (rplus (RChr (\<lambda>c. \<not> re_space c)))))"

text \<open>The code points of the double quote (34) and the apostrophe (39) are written as numbers.\<close>

definition assignment_key_re :: regex where
  "assignment_key_re =
     RAlt (RSeq (rlit_ci ''api'') (RSeq (ropt (rone_of ''-_ '')) (rlit_ci ''key'')))
    (RAlt (rlit_ci ''apikey'')
    (RAlt (rlit_ci ''secret'')
    (RAlt (rlit_ci ''token'')
    (RAlt (rlit_ci ''password'')
          (RSeq (rlit_ci ''private'') (RSeq (ropt (rone_of ''-_ '')) (rlit_ci ''key'')))))))"

definition assignment_re :: regex where
  "assignment_re =
     RSeq (RAlt rstart (RChr (\<lambda>c. re_space c \<or> c = 34 \<or> c = 39 \<or> c \<in> set (map byte ''/?&#;''))))
    (RSeq assignment_key_re
    (RSeq (RStar (RChr re_space))
    (RSeq (RAlt (rone_of '':='') (RAlt (rlit_ci ''%3a'') (rlit_ci ''%3d'')))
    (RSeq (RStar (RChr re_space))
          (rplus (RChr (\<lambda>c. \<not> (re_space c \<or> c = 34 \<or> c = 39 \<or> c \<in> set (map byte '',;}&'')))))))))"

definition sensitive_text :: "pystr \<Rightarrow> bool" where
  "sensitive_text s \<longleftrightarrow>
     re_search pem_re s \<or> re_search aws_re s \<or> re_search openai_re s \<or>
     re_search github_re s \<or> re_search bearer_re s \<or> re_search assignment_re s"

end
