(* ===== verification/Sha256.thy ===== *)
theory Sha256
  imports PyText "HOL-Library.Word"
begin

text \<open>
  \<open>hashlib.sha256(data).hexdigest()\<close> (FIPS 180-4) and \<open>hmac.new(key, data, sha256)\<close> (RFC 2104)
  on byte strings. They belong to Python's standard library and are written out here so that
  the digests of the model are concrete values: no property of the hash function is assumed
  anywhere, and a statement that needs collision resistance exhibits the collision instead.
\<close>

unbundle bit_operations_syntax

type_synonym w32 = "32 word"

text \<open>The round constants of the standard, in decimal.\<close>

definition sha_k :: "w32 list" where
  "sha_k = [
    1116352408, 1899447441, 3049323471, 3921009573, 961987163, 1508970993,
    2453635748, 2870763221, 3624381080, 310598401, 607225278, 1426881987,
    1925078388, 2162078206, 2614888103, 3248222580, 3835390401, 4022224774,
    264347078, 604807628, 770255983, 1249150122, 1555081692, 1996064986,
    2554220882, 2821834349, 2952996808, 3210313671, 3336571891, 3584528711,
    113926993, 338241895, 666307205, 773529912, 1294757372, 1396182291,
    1695183700, 1986661051, 2177026350, 2456956037, 2730485921, 2820302411,
    3259730800, 3345764771, 3516065817, 3600352804, 4094571909, 275423344,
    430227734, 506948616, 659060556, 883997877, 958139571, 1322822218,
    1537002063, 1747873779, 1955562222, 2024104815, 2227730452, 2361852424,
    2428436474, 2756734187, 3204031479, 3329325298]"

definition sha_init :: "w32 list" where
  "sha_init = [0x6a09e667, 0xbb67ae85, 0x3c6ef372, 0xa54ff53a,
               0x510e527f, 0x9b05688c, 0x1f83d9ab, 0x5be0cd19]"

definition rotr :: "nat \<Rightarrow> w32 \<Rightarrow> w32" where
  "rotr n x = drop_bit n x OR push_bit (32 - n) x"

definition sha_ch :: "w32 \<Rightarrow> w32 \<Rightarrow> w32 \<Rightarrow> w32" where
  "sha_ch x y z = (x AND y) XOR (NOT x AND z)"

definition sha_maj :: "w32 \<Rightarrow> w32 \<Rightarrow> w32 \<Rightarrow> w32" where
  "sha_maj x y z = (x AND y) XOR (x AND z) XOR (y AND z)"

definition sha_S0 :: "w32 \<Rightarrow> w32" where
  "sha_S0 x = rotr 2 x XOR rotr 13 x XOR rotr 22 x"

definition sha_S1 :: "w32 \<Rightarrow> w32" where
  "sha_S1 x = rotr 6 x XOR rotr 11 x XOR rotr 25 x"

definition sha_s0 :: "w32 \<Rightarrow> w32" where
  "sha_s0 x = rotr 7 x XOR rotr 18 x XOR drop_bit 3 x"

definition sha_s1 :: "w32 \<Rightarrow> w32" where
  "sha_s1 x = rotr 17 x XOR rotr 19 x XOR drop_bit 10 x"

text \<open>Padding: a one bit, zeros, and the bit length as a 64-bit big-endian number.\<close>

definition be_bytes :: "nat \<Rightarrow> nat \<Rightarrow> nat list" where
  "be_bytes n x = map (\<lambda>i. (x div 256 ^ i) mod 256) (rev [0..<n])"

definition sha_pad :: "nat list \<Rightarrow> nat list" where
  "sha_pad bs =
     (let n = length bs
      in bs @ [128] @ replicate ((119 - n mod 64) mod 64) 0 @ be_bytes 8 (8 * n))"

fun be_words :: "nat list \<Rightarrow> w32 list" where
  "be_words (a # b # c # d # r) =
     of_nat (((a * 256 + b) * 256 + c) * 256 + d) # be_words r"
| "be_words _ = []"

fun chunks16 :: "nat \<Rightarrow> w32 list \<Rightarrow> w32 list list" where
  "chunks16 0 ws = []"
| "chunks16 (Suc n) ws = take 16 ws # chunks16 n (drop 16 ws)"

text \<open>The message schedule, kept in reverse: the newest word is the head.\<close>

fun sha_schedule :: "nat \<Rightarrow> w32 list \<Rightarrow> w32 list" where
  "sha_schedule 0 ws = ws"
| "sha_schedule (Suc n) ws =
     sha_schedule n ((sha_s1 (ws ! 1) + ws ! 6 + sha_s0 (ws ! 14) + ws ! 15) # ws)"

fun sha_round :: "w32 list \<Rightarrow> w32 \<times> w32 \<Rightarrow> w32 list" where
  "sha_round [a, b, c, d, e, f, g, h] (k, w) =
     (let t1 = h + sha_S1 e + sha_ch e f g + k + w; t2 = sha_S0 a + sha_maj a b c
      in [t1 + t2, a, b, c, d + t1, e, f, g])"
| "sha_round st kw = st"

definition sha_compress :: "w32 list \<Rightarrow> w32 list \<Rightarrow> w32 list" where
  "sha_compress hs block =
     map2 (+) hs (foldl sha_round hs (zip sha_k (rev (sha_schedule 48 (rev block)))))"

definition hex_digit :: "nat \<Rightarrow> char" where
  "hex_digit n = char_of (if n < 10 then 48 + n else 87 + n)"

definition hex_word :: "w32 \<Rightarrow> pystr" where
  "hex_word w = map (\<lambda>i. hex_digit (unat (drop_bit (4 * i) w) mod 16)) [7, 6, 5, 4, 3, 2, 1, 0]"

definition sha256_words :: "nat list \<Rightarrow> w32 list" where
  "sha256_words bs =
     (let p = sha_pad bs in foldl sha_compress sha_init (chunks16 (length p div 64) (be_words p)))"

definition sha256_hex :: "pystr \<Rightarrow> pystr" where
  "sha256_hex s = concat (map hex_word (sha256_words (map byte s)))"

section \<open>HMAC\<close>

definition word_bytes :: "w32 \<Rightarrow> nat list" where
  "word_bytes w = be_bytes 4 (unat w)"

definition xor_bytes :: "nat \<Rightarrow> nat list \<Rightarrow> nat list" where
  "xor_bytes m = map (\<lambda>b. b XOR m)"

definition hmac_block :: "nat list \<Rightarrow> nat list" where
  "hmac_block key =
     (let k = (if length key > 64 then concat (map word_bytes (sha256_words key)) else key)
      in k @ replicate (64 - length k) 0)"

definition hmac_sha256_hex :: "nat list \<Rightarrow> pystr \<Rightarrow> pystr" where
  "hmac_sha256_hex key msg =
     (let k = hmac_block key;
          inner = concat (map word_bytes (sha256_words (xor_bytes 54 k @ map byte msg)))
      in concat (map hex_word (sha256_words (xor_bytes 92 k @ inner))))"

section \<open>The shape of a digest\<close>

lemma length_sha_round: "length st = 8 \<Longrightarrow> length (sha_round st kw) = 8"
  by (cases "(st, kw)" rule: sha_round.cases) (auto simp: Let_def)

lemma length_sha_rounds: "length st = 8 \<Longrightarrow> length (foldl sha_round st kws) = 8"
  by (induction kws arbitrary: st) (auto simp: length_sha_round)

lemma length_sha_compress: "length hs = 8 \<Longrightarrow> length (sha_compress hs b) = 8"
  by (simp add: sha_compress_def length_sha_rounds)

lemma length_sha_blocks: "length hs = 8 \<Longrightarrow> length (foldl sha_compress hs bs) = 8"
  by (induction bs arbitrary: hs) (auto simp: length_sha_compress)

lemma length_sha256_words: "length (sha256_words bs) = 8"
  by (simp add: sha256_words_def Let_def length_sha_blocks sha_init_def)

lemma is_hex_hex_digit: "n < 16 \<Longrightarrow> is_hex (hex_digit n)"
  by (auto simp: is_hex_def hex_digit_def)

lemma hex_word_shape: "length (hex_word w) = 8" "list_all is_hex (hex_word w)"
  by (simp_all add: hex_word_def is_hex_hex_digit)

lemma hex_words_shape:
  "length (concat (map hex_word ws)) = 8 * length ws"
  "list_all is_hex (concat (map hex_word ws))"
  by (induction ws) (auto simp: hex_word_shape)

lemma sha256_hex_shape: "length (sha256_hex s) = 64" "list_all is_hex (sha256_hex s)"
  by (simp_all add: sha256_hex_def hex_words_shape length_sha256_words)

lemma hmac_shape:
  "length (hmac_sha256_hex k m) = 64" "list_all is_hex (hmac_sha256_hex k m)"
  by (simp_all add: hmac_sha256_hex_def Let_def hex_words_shape length_sha256_words)

text \<open>\<open>"sha256:" + hashlib.sha256(data).hexdigest()\<close>, written in several modules.\<close>

definition sha256_ref :: "pystr \<Rightarrow> pystr" where
  "sha256_ref s = ''sha256:'' @ sha256_hex s"

lemma is_digest_sha256_ref [simp]: "is_digest (sha256_ref s)"
  by (auto simp: is_digest_def prefixed_hex_decomp sha256_ref_def sha256_hex_shape)

lemma sha256_ref_printable [simp]: "printable_ascii (sha256_ref s)"
  by (rule is_digest_printable) simp

lemma sha256_ref_eq_iff: "sha256_ref s = sha256_ref t \<longleftrightarrow> sha256_hex s = sha256_hex t"
  by (simp add: sha256_ref_def)

text \<open>A collision is a concrete pair: what a digest cannot tell apart.\<close>

definition sha256_collision :: "pystr \<Rightarrow> pystr \<Rightarrow> bool" where
  "sha256_collision s t \<longleftrightarrow> s \<noteq> t \<and> sha256_hex s = sha256_hex t"

lemma sha256_ref_eqD: "sha256_ref s = sha256_ref t \<Longrightarrow> s = t \<or> sha256_collision s t"
  by (auto simp: sha256_ref_eq_iff sha256_collision_def)

end
