(* ===== verification/PyFloat.thy ===== *)
theory PyFloat
  imports PyText
begin

text \<open>
  \<open>repr(float(text))\<close> for the text of a JSON number with a fraction or an exponent: Python reads
  the decimal to the nearest binary64 value (ties to even) and prints the shortest decimal that
  reads back to it. Both are written out on integers. A float of the model is its \<open>repr\<close>.
\<close>

function bit_len :: "nat \<Rightarrow> nat" where
  "bit_len n = (if n = 0 then 0 else Suc (bit_len (n div 2)))"
  by pat_completeness auto
termination
  by (relation "measure id") auto

declare bit_len.simps [simp del]

text \<open>\<open>p / q\<close> rounded to the nearest integer, ties to even.\<close>

definition round_half_even :: "nat \<Rightarrow> nat \<Rightarrow> nat" where
  "round_half_even p q =
     (let d = p div q; r = p mod q
      in if 2 * r < q \<or> (2 * r = q \<and> even d) then d else Suc d)"

text \<open>The binary64 value \<open>m * 2 ^ e\<close> nearest to \<open>p / q\<close>, as the pair \<open>(m, e)\<close>.\<close>

definition floor_log2 :: "nat \<Rightarrow> nat \<Rightarrow> int" where
  "floor_log2 p q =
     (let k = int (bit_len p) - int (bit_len q)
      in if p * 2 ^ nat (- k) < q * 2 ^ nat k then k - 1 else k)"

definition to_binary64 :: "nat \<Rightarrow> nat \<Rightarrow> nat \<times> int" where
  "to_binary64 p q =
     (if p = 0 then (0, 0)
      else let e = max (- 1074) (floor_log2 p q - 52);
               m = round_half_even (p * 2 ^ nat (- e)) (q * 2 ^ nat e)
           in if m = 2 ^ 53 then (2 ^ 52, e + 1) else (m, e))"

definition is_inf64 :: "nat \<times> int \<Rightarrow> bool" where
  "is_inf64 x \<longleftrightarrow> snd x > 971"

fun nat_text :: "nat \<Rightarrow> pystr" where
  "nat_text n = (if n < 10 then [char_of (48 + n)] else nat_text (n div 10) @ [char_of (48 + n mod 10)])"

declare nat_text.simps [simp del]

fun digits_value :: "nat \<Rightarrow> pystr \<Rightarrow> nat" where
  "digits_value acc [] = acc"
| "digits_value acc (c # s) = digits_value (10 * acc + (byte c - 48)) s"

definition floor_log10 :: "nat \<Rightarrow> nat \<Rightarrow> int" where
  "floor_log10 p q =
     (if q \<le> p then int (length (nat_text (p div q))) - 1
      else - int (length (nat_text ((q - 1) div p))))"

text \<open>
  Shortest digits: for each number of digits the decimals just below and above are tried, and
  the nearer one that reads back is taken.
\<close>

definition reads_back :: "nat \<times> int \<Rightarrow> int \<Rightarrow> nat \<Rightarrow> bool" where
  "reads_back x s n = (to_binary64 (n * 10 ^ nat (- s)) (10 ^ nat s) = x)"

definition shortest_upto :: "nat \<Rightarrow> nat \<Rightarrow> nat \<times> int \<Rightarrow> nat \<Rightarrow> (nat \<times> int) option" where
  "shortest_upto p q x nd =
     (let s = int nd - 1 - floor_log10 p q;
          num = p * 10 ^ nat s; den = q * 10 ^ nat (- s);
          lo = num div den; hi = Suc lo;
          near = round_half_even num den; far = (if near = lo then hi else lo)
      in if reads_back x s near then Some (near, s)
         else if reads_back x s far then Some (far, s) else None)"

fun shortest_from :: "nat \<Rightarrow> nat \<Rightarrow> nat \<Rightarrow> nat \<Rightarrow> nat \<times> int \<Rightarrow> nat \<times> int" where
  "shortest_from 0 nd p q x = (0, 0)"
| "shortest_from (Suc k) nd p q x =
     (case shortest_upto p q x nd of Some r \<Rightarrow> r | None \<Rightarrow> shortest_from k (Suc nd) p q x)"

fun strip_zeros :: "pystr \<Rightarrow> pystr" where
  "strip_zeros s = (if s \<noteq> [] \<and> last s = CHR ''0'' then strip_zeros (butlast s) else s)"

declare strip_zeros.simps [simp del]

definition exp_text :: "int \<Rightarrow> pystr" where
  "exp_text e =
     (let t = nat_text (nat \<bar>e\<bar>)
      in (if e < 0 then ''e-'' else ''e+'') @ (if length t < 2 then CHR ''0'' # t else t))"

text \<open>Digits \<open>ds\<close> with value \<open>0.ds * 10 ^ decpt\<close>, in the style of \<open>repr\<close>.\<close>

definition float_layout :: "pystr \<Rightarrow> int \<Rightarrow> pystr" where
  "float_layout ds decpt =
     (if 16 < decpt \<or> decpt < - 3 then
        (hd ds # (if tl ds = [] then [] else CHR ''.'' # tl ds)) @ exp_text (decpt - 1)
      else if decpt \<le> 0 then ''0.'' @ replicate (nat (- decpt)) (CHR ''0'') @ ds
      else if int (length ds) \<le> decpt then
        ds @ replicate (nat (decpt - int (length ds))) (CHR ''0'') @ ''.0''
      else take (nat decpt) ds @ ''.'' @ drop (nat decpt) ds)"

text \<open>Sign, decimal digits, and power of ten of a number text.\<close>

definition float_repr :: "bool \<Rightarrow> pystr \<Rightarrow> int \<Rightarrow> pystr" where
  "float_repr neg ds e10 =
     (let d = digits_value 0 ds;
          p = d * 10 ^ nat e10; q = 10 ^ nat (- e10); x = to_binary64 p q
      in (if neg then ''-'' else []) @
         (if is_inf64 x then ''inf''
          else if fst x = 0 then ''0.0''
          else let p' = fst x * 2 ^ nat (snd x); q' = 2 ^ nat (- snd x);
                   (n, s) = shortest_from 17 1 p' q' x; t = nat_text n
               in float_layout (strip_zeros t) (int (length t) - s)))"

section \<open>Decimal text of integers\<close>

lemma digit_char: "(n :: nat) < 10 \<Longrightarrow> is_digit (char_of (48 + n))"
  by (simp add: is_digit_def)

lemma zero_char: "char_of (48 :: nat) = CHR ''0''"
proof -
  have "byte (char_of (48 :: nat)) = byte (CHR ''0'')" by simp
  then show ?thesis by (simp only: of_char_eq_iff)
qed

lemma nat_text_digits: "list_all is_digit (nat_text n)"
proof (induction n rule: nat_text.induct)
  case (1 n)
  then show ?case
    by (subst nat_text.simps) (auto simp: digit_char)
qed

lemma nat_text_nonempty [simp]: "nat_text n \<noteq> []"
  by (subst nat_text.simps) simp

lemma digits_value_append: "digits_value a (s @ t) = digits_value (digits_value a s) t"
  by (induction s arbitrary: a) auto

lemma digits_value_nat_text: "digits_value 0 (nat_text n) = n"
proof (induction n rule: nat_text.induct)
  case (1 n)
  show ?case
  proof (cases "n < 10")
    case True
    then show ?thesis by (simp add: nat_text.simps)
  next
    case False
    with 1 show ?thesis
      by (subst nat_text.simps) (simp add: digits_value_append)
  qed
qed

lemma nat_text_hd_zero: "hd (nat_text n) = CHR ''0'' \<longleftrightarrow> n = 0"
proof (induction n rule: nat_text.induct)
  case (1 n)
  have ch: "of_char (CHR ''0'') = (48 :: nat)" by simp
  show ?case
  proof (cases "n < 10")
    case True
    have "char_of (48 + n) = CHR ''0'' \<longleftrightarrow> n = 0"
    proof
      assume "char_of (48 + n) = CHR ''0''"
      then have "of_char (char_of (48 + n)) = (48 :: nat)" by (simp only: ch)
      with True show "n = 0" by simp
    next
      assume "n = 0"
      then show "char_of (48 + n) = CHR ''0''" by (simp add: zero_char)
    qed
    with True show ?thesis by (simp add: nat_text.simps)
  next
    case False
    with 1 have "hd (nat_text (n div 10)) = CHR ''0'' \<longleftrightarrow> n div 10 = 0" by simp
    with False show ?thesis by (subst nat_text.simps) (simp add: hd_append)
  qed
qed

lemma nat_text_zero: "nat_text 0 = ''0''"
  by (simp add: nat_text.simps zero_char)

lemma is_digit_ascii: "is_digit c \<Longrightarrow> byte c < 128"
  by (auto simp: is_digit_def)

end
