(* ===== verification/Json.thy ===== *)
theory Json
  imports Sha256 PyFloat
begin

text \<open>
  JSON data as Python holds it, its canonical text and the strict decoder of
  \<open>src/leanctx_sdk/protocol.py\<close>. A dictionary is the list of its items in insertion order, with
  distinct keys (\<open>json_ok\<close>); a float is its \<open>repr\<close>. \<open>dumps\<close> is \<open>json.dumps\<close> with the options
  \<open>canonical_json\<close> passes; \<open>loads\<close> is \<open>json.loads\<close> with the two hooks \<open>strict_json_loads\<close>
  passes, which raise on a duplicate key and on \<open>NaN\<close> and \<open>Infinity\<close>. The recursion limit and
  the digit limit of the interpreter are not modelled; bytes are UTF-8.
\<close>

datatype json =
    JNull
  | JBool bool
  | JInt int
  | JFloat pystr
  | JStr pystr
  | JArr "json list"
  | JObj "(pystr \<times> json) list"

lemma json_induct [case_names Null Bool Int Float Str Arr Obj]:
  assumes "P JNull" "\<And>b. P (JBool b)" "\<And>i. P (JInt i)" "\<And>f. P (JFloat f)" "\<And>s. P (JStr s)"
    and "\<And>xs. (\<And>x. x \<in> set xs \<Longrightarrow> P x) \<Longrightarrow> P (JArr xs)"
    and "\<And>kvs. (\<And>k v. (k, v) \<in> set kvs \<Longrightarrow> P v) \<Longrightarrow> P (JObj kvs)"
  shows "P v"
  by (induction v rule: json.induct) (use assms in \<open>fastforce+\<close>)

section \<open>Access and equality\<close>

definition obj_items :: "json \<Rightarrow> (pystr \<times> json) list" where
  "obj_items v = (case v of JObj kvs \<Rightarrow> kvs | _ \<Rightarrow> [])"

definition is_obj :: "json \<Rightarrow> bool" where
  "is_obj v = (case v of JObj _ \<Rightarrow> True | _ \<Rightarrow> False)"

definition is_arr :: "json \<Rightarrow> bool" where
  "is_arr v = (case v of JArr _ \<Rightarrow> True | _ \<Rightarrow> False)"

definition is_str :: "json \<Rightarrow> bool" where
  "is_str v = (case v of JStr _ \<Rightarrow> True | _ \<Rightarrow> False)"

lemmas json_test_defs = obj_items_def is_obj_def is_arr_def is_str_def

lemma json_test_simps [simp]:
  "obj_items (JObj kvs) = kvs"
  "is_obj (JObj kvs)" "\<not> is_obj JNull" "\<not> is_obj (JBool b)" "\<not> is_obj (JInt i)"
  "\<not> is_obj (JFloat f)" "\<not> is_obj (JStr s)" "\<not> is_obj (JArr xs)"
  "is_arr (JArr xs)" "\<not> is_arr JNull" "\<not> is_arr (JObj kvs)" "\<not> is_arr (JStr s)"
  "is_str (JStr s)" "\<not> is_str JNull" "\<not> is_str (JObj kvs)" "\<not> is_str (JArr xs)"
  by (simp_all add: json_test_defs)

text \<open>\<open>value.get(key)\<close> on a mapping; \<open>jfield\<close> is \<open>value[key]\<close>, which raises \<open>KeyError\<close>.\<close>

definition jget :: "pystr \<Rightarrow> json \<Rightarrow> json option" where
  "jget k v = map_of (obj_items v) k"

definition jfield :: "pystr \<Rightarrow> json \<Rightarrow> json res" where
  "jfield k v = of_option PyKeyError (jget k v)"

definition jkeys :: "json \<Rightarrow> pystr list" where
  "jkeys v = map fst (obj_items v)"

text \<open>
  Python's \<open>==\<close>: booleans and integral floats equal the integer, and dictionaries are equal when
  they hold the same items in any order. Both sides are brought to a normal form. (A float whose
  \<open>repr\<close> has an exponent is kept apart from integers; the code compares numbers with small
  constants only.)
\<close>

definition float_int :: "pystr \<Rightarrow> int option" where
  "float_int r =
     (let neg = starts_with ''-'' r; u = (if neg then drop 1 r else r);
          ds = take (length u - 2) u
      in if 2 < length u \<and> drop (length u - 2) u = ''.0'' \<and> list_all is_digit ds
         then Some (if neg then - int (digits_value 0 ds) else int (digits_value 0 ds))
         else None)"

primrec py_norm :: "json \<Rightarrow> json" where
  "py_norm JNull = JNull"
| "py_norm (JBool b) = JInt (if b then 1 else 0)"
| "py_norm (JInt i) = JInt i"
| "py_norm (JFloat r) = (case float_int r of Some i \<Rightarrow> JInt i | None \<Rightarrow> JFloat r)"
| "py_norm (JStr s) = JStr s"
| "py_norm (JArr xs) = JArr (map py_norm xs)"
| "py_norm (JObj kvs) = JObj (sort_key fst (map (map_prod id py_norm) kvs))"

definition py_eq :: "json \<Rightarrow> json \<Rightarrow> bool" where
  "py_eq a b \<longleftrightarrow> py_norm a = py_norm b"

lemma py_eq_refl [simp]: "py_eq a a"
  by (simp add: py_eq_def)

lemma py_eq_sym: "py_eq a b \<Longrightarrow> py_eq b a"
  by (simp add: py_eq_def)

lemma py_eq_trans: "py_eq a b \<Longrightarrow> py_eq b c \<Longrightarrow> py_eq a c"
  by (simp add: py_eq_def)

lemma py_eq_str_iff [simp]:
  "py_eq (JStr s) v \<longleftrightarrow> v = JStr s"
  "py_eq v (JStr s) \<longleftrightarrow> v = JStr s"
  by (cases v; auto simp: py_eq_def split: option.splits)+

lemma py_eq_null_iff [simp]:
  "py_eq JNull v \<longleftrightarrow> v = JNull"
  "py_eq v JNull \<longleftrightarrow> v = JNull"
  by (cases v; auto simp: py_eq_def split: option.splits)+

text \<open>
  A dictionary put in the order of its keys, at every depth: what a value becomes when it is
  written canonically and read again.
\<close>

primrec jsort :: "json \<Rightarrow> json" where
  "jsort JNull = JNull"
| "jsort (JBool b) = JBool b"
| "jsort (JInt i) = JInt i"
| "jsort (JFloat r) = JFloat r"
| "jsort (JStr s) = JStr s"
| "jsort (JArr xs) = JArr (map jsort xs)"
| "jsort (JObj kvs) = JObj (sort_key fst (map (map_prod id jsort) kvs))"

text \<open>Well-formed data without floats: distinct keys, and strings that are encodings.\<close>

function utf8_valid :: "pystr \<Rightarrow> bool" where
  "utf8_valid [] = True"
| "utf8_valid (x # s) =
     (let b = byte x; c = (\<lambda>i lo hi. i < length s \<and> lo \<le> byte (s ! i) \<and> byte (s ! i) \<le> hi)
      in if b < 128 then utf8_valid s
         else if 194 \<le> b \<and> b < 224 then c 0 128 191 \<and> utf8_valid (drop 1 s)
         else if 224 \<le> b \<and> b < 240 then
           c 0 (if b = 224 then 160 else 128) 191 \<and> c 1 128 191 \<and> utf8_valid (drop 2 s)
         else if 240 \<le> b \<and> b < 245 then
           c 0 (if b = 240 then 144 else 128) (if b = 244 then 143 else 191) \<and>
           c 1 128 191 \<and> c 2 128 191 \<and> utf8_valid (drop 3 s)
         else False)"
  by pat_completeness auto
termination
  by (relation "measure length") auto

primrec json_ok :: "json \<Rightarrow> bool" where
  "json_ok JNull = True"
| "json_ok (JBool b) = True"
| "json_ok (JInt i) = True"
| "json_ok (JFloat r) = False"
| "json_ok (JStr s) = (utf8_valid s \<and> encodable s)"
| "json_ok (JArr xs) = list_all json_ok xs"
| "json_ok (JObj kvs) =
     (distinct (map fst kvs) \<and> list_all (\<lambda>k. utf8_valid k \<and> encodable k) (map fst kvs) \<and>
      list_all (\<lambda>p. snd p) (map (map_prod id json_ok) kvs))"

text \<open>The part of \<open>json_ok\<close> the canonical text needs to determine the value.\<close>

primrec json_wf :: "json \<Rightarrow> bool" where
  "json_wf JNull = True"
| "json_wf (JBool b) = True"
| "json_wf (JInt i) = True"
| "json_wf (JFloat r) = False"
| "json_wf (JStr s) = True"
| "json_wf (JArr xs) = list_all json_wf xs"
| "json_wf (JObj kvs) =
     (distinct (map fst kvs) \<and> list_all (\<lambda>p. snd p) (map (map_prod id json_wf) kvs))"

section \<open>Canonical text\<close>

definition int_text :: "int \<Rightarrow> pystr" where
  "int_text i = (if i < 0 then CHR ''-'' # nat_text (nat (- i)) else nat_text (nat i))"

definition hex2 :: "nat \<Rightarrow> pystr" where
  "hex2 n = [hex_digit (n div 16), hex_digit (n mod 16)]"

definition esc_char :: "char \<Rightarrow> pystr" where
  "esc_char c =
     (let b = byte c
      in if b = 34 then [CHR 0x5C, CHR 0x22]
         else if b = 92 then [CHR 0x5C, CHR 0x5C]
         else if b = 10 then [CHR 0x5C, CHR ''n'']
         else if b = 13 then [CHR 0x5C, CHR ''r'']
         else if b = 9 then [CHR 0x5C, CHR ''t'']
         else if b = 12 then [CHR 0x5C, CHR ''f'']
         else if b = 8 then [CHR 0x5C, CHR ''b'']
         else if b < 32 then CHR 0x5C # ''u00'' @ hex2 b
         else [c])"

definition quote :: "pystr \<Rightarrow> pystr" where
  "quote s = CHR 0x22 # concat (map esc_char s) @ [CHR 0x22]"

fun join_with :: "char \<Rightarrow> pystr list \<Rightarrow> pystr" where
  "join_with sep [] = []"
| "join_with sep [x] = x"
| "join_with sep (x # y # xs) = x @ sep # join_with sep (y # xs)"

primrec dumps :: "json \<Rightarrow> pystr" where
  "dumps JNull = ''null''"
| "dumps (JBool b) = (if b then ''true'' else ''false'')"
| "dumps (JInt i) = int_text i"
| "dumps (JFloat r) = r"
| "dumps (JStr s) = quote s"
| "dumps (JArr xs) = CHR ''['' # join_with (CHR '','') (map dumps xs) @ '']''"
| "dumps (JObj kvs) =
     CHR ''{'' # join_with (CHR '','')
       (map (\<lambda>p. quote (fst p) @ CHR '':'' # snd p) (sort_key fst (map (map_prod id dumps) kvs)))
       @ ''}''"

text \<open>\<open>allow_nan=False\<close> raises on a float that is not finite.\<close>

primrec has_nonfinite :: "json \<Rightarrow> bool" where
  "has_nonfinite JNull = False"
| "has_nonfinite (JBool b) = False"
| "has_nonfinite (JInt i) = False"
| "has_nonfinite (JFloat r) = (r \<in> {''nan'', ''inf'', ''-inf''})"
| "has_nonfinite (JStr s) = False"
| "has_nonfinite (JArr xs) = list_ex (\<lambda>b. b) (map has_nonfinite xs)"
| "has_nonfinite (JObj kvs) = list_ex snd (map (map_prod id has_nonfinite) kvs)"

definition canonical_json :: "json \<Rightarrow> pystr res" where
  "canonical_json v =
     rbind (check (\<not> has_nonfinite v) ValidationError) (\<lambda>_.
     rbind (check (encodable (dumps v)) ValidationError) (\<lambda>_.
     Inr (dumps v)))"

definition canonical_bytes :: "json \<Rightarrow> pystr res" where
  "canonical_bytes v = canonical_json v"

definition sha256_digest :: "pystr \<Rightarrow> pystr" where
  "sha256_digest data = sha256_ref data"

section \<open>The strict decoder\<close>

definition is_ws :: "char \<Rightarrow> bool" where
  "is_ws c \<longleftrightarrow> byte c = 32 \<or> byte c = 9 \<or> byte c = 10 \<or> byte c = 13"

definition skip_ws :: "pystr \<Rightarrow> pystr" where
  "skip_ws s = dropWhile is_ws s"

definition hex_value :: "char \<Rightarrow> nat option" where
  "hex_value c =
     (let b = byte c
      in if 48 \<le> b \<and> b \<le> 57 then Some (b - 48)
         else if 97 \<le> b \<and> b \<le> 102 then Some (b - 87)
         else if 65 \<le> b \<and> b \<le> 70 then Some (b - 55)
         else None)"

fun hex4 :: "pystr \<Rightarrow> (nat \<times> pystr) option" where
  "hex4 (a # b # c # d # r) =
     (case (hex_value a, hex_value b, hex_value c, hex_value d) of
       (Some w, Some x, Some y, Some z) \<Rightarrow> Some (((w * 16 + x) * 16 + y) * 16 + z, r)
     | _ \<Rightarrow> None)"
| "hex4 _ = None"

text \<open>The encoding of one code point (a surrogate takes three bytes).\<close>

definition encode_cp :: "nat \<Rightarrow> pystr" where
  "encode_cp n =
     map char_of
       (if n < 128 then [n]
        else if n < 2048 then [192 + n div 64, 128 + n mod 64]
        else if n < 65536 then [224 + n div 4096, 128 + n div 64 mod 64, 128 + n mod 64]
        else [240 + n div 262144, 128 + n div 4096 mod 64, 128 + n div 64 mod 64, 128 + n mod 64])"

definition simple_escape :: "char \<Rightarrow> char option" where
  "simple_escape c =
     (let b = byte c
      in if b = 34 \<or> b = 92 \<or> b = 47 then Some c
         else if b = 98 then Some (CHR 0x08)
         else if b = 102 then Some (CHR 0x0C)
         else if b = 110 then Some (CHR 0x0A)
         else if b = 114 then Some (CHR 0x0D)
         else if b = 116 then Some (CHR 0x09)
         else None)"

text \<open>After \<open>\uXXXX\<close>: a high surrogate joins a low one that follows it as an escape.\<close>

definition unicode_escape :: "pystr \<Rightarrow> (pystr \<times> pystr) option" where
  "unicode_escape s =
     (case hex4 s of
       None \<Rightarrow> None
     | Some (u, r) \<Rightarrow>
         if 55296 \<le> u \<and> u \<le> 56319 \<and> take 2 r = [CHR 0x5C, CHR ''u''] then
           (case hex4 (drop 2 r) of
             Some (v, r') \<Rightarrow>
               if 56320 \<le> v \<and> v \<le> 57343
               then Some (encode_cp (65536 + (u - 55296) * 1024 + (v - 56320)), r')
               else Some (encode_cp u, r)
           | None \<Rightarrow> None)
         else Some (encode_cp u, r))"

text \<open>The rest of a string after its opening quote. Fuel bounds the number of characters.\<close>

fun scan_string :: "nat \<Rightarrow> pystr \<Rightarrow> (pystr \<times> pystr) option" where
  "scan_string 0 s = None"
| "scan_string (Suc n) t0 =
     (case t0 of [] \<Rightarrow> None | c # s \<Rightarrow>
      if byte c = 34 then Some ([], s)
      else if byte c = 92 then
        (case s of
          [] \<Rightarrow> None
        | e # t \<Rightarrow>
            if byte e = 117 then
              (case unicode_escape t of
                None \<Rightarrow> None
              | Some (u, t') \<Rightarrow> map_option (map_prod ((@) u) id) (scan_string n t'))
            else
              (case simple_escape e of
                None \<Rightarrow> None
              | Some x \<Rightarrow> map_option (map_prod ((#) x) id) (scan_string n t)))
      else if byte c < 32 then None
      else map_option (map_prod ((#) c) id) (scan_string n s))"

definition parse_string :: "pystr \<Rightarrow> (pystr \<times> pystr) option" where
  "parse_string s = scan_string (Suc (length s)) s"

definition signed_digits :: "pystr \<Rightarrow> (int \<times> pystr) option" where
  "signed_digits s =
     (let neg = starts_with ''-'' s;
          r = (if neg \<or> starts_with ''+'' s then drop 1 s else s);
          ds = takeWhile is_digit r; v = int (digits_value 0 ds)
      in if ds = [] then None else Some (if neg then - v else v, dropWhile is_digit r))"

definition scan_int :: "pystr \<Rightarrow> pystr" where
  "scan_int r =
     (let ds = takeWhile is_digit r in if starts_with ''0'' ds then ''0'' else ds)"

definition scan_frac :: "pystr \<Rightarrow> pystr" where
  "scan_frac r = (if starts_with ''.'' r then takeWhile is_digit (drop 1 r) else [])"

definition scan_exp :: "pystr \<Rightarrow> (int \<times> pystr) option" where
  "scan_exp r =
     (if starts_with ''e'' r \<or> starts_with ''E'' r then signed_digits (drop 1 r) else None)"

definition parse_unsigned :: "bool \<Rightarrow> pystr \<Rightarrow> (json \<times> pystr) option" where
  "parse_unsigned neg r =
     (let ds = scan_int r;
          r1 = drop (length ds) r;
          fr = scan_frac r1;
          r2 = (if fr = [] then r1 else drop (Suc (length fr)) r1);
          i = int (digits_value 0 ds)
      in if ds = [] then None
         else (case scan_exp r2 of
           None \<Rightarrow>
             if fr = [] then Some (JInt (if neg then - i else i), r1)
             else Some (JFloat (float_repr neg (ds @ fr) (- int (length fr))), r2)
         | Some (e, r3) \<Rightarrow> Some (JFloat (float_repr neg (ds @ fr) (e - int (length fr))), r3)))"

definition parse_number :: "pystr \<Rightarrow> (json \<times> pystr) option" where
  "parse_number s =
     (if starts_with ''-'' s then parse_unsigned True (drop 1 s) else parse_unsigned False s)"

definition parse_lit :: "pystr \<Rightarrow> json \<Rightarrow> pystr \<Rightarrow> (json \<times> pystr) option" where
  "parse_lit l v s = (if starts_with l s then Some (v, drop (length l) s) else None)"

text \<open>
  Values, the elements after a \<open>[\<close> or a comma, and the members after the opening quote of a
  key. One unit of fuel is spent per call; the decoder starts with more than the input's length.
\<close>

fun parse_value :: "nat \<Rightarrow> pystr \<Rightarrow> (json \<times> pystr) option"
and parse_elems :: "nat \<Rightarrow> pystr \<Rightarrow> (json list \<times> pystr) option"
and parse_members :: "nat \<Rightarrow> pystr \<Rightarrow> ((pystr \<times> json) list \<times> pystr) option" where
  "parse_value 0 s = None"
| "parse_value (Suc n) s =
     (case s of
       [] \<Rightarrow> None
     | c # r \<Rightarrow>
         if c = CHR 0x22 then map_option (map_prod JStr id) (parse_string r)
         else if c = CHR ''{'' then
           (case skip_ws r of
             [] \<Rightarrow> None
           | d # r' \<Rightarrow>
               if d = CHR ''}'' then Some (JObj [], r')
               else if d = CHR 0x22 then
                 (case parse_members n r' of
                   None \<Rightarrow> None
                 | Some (kvs, r'') \<Rightarrow>
                     if distinct (map fst kvs) then Some (JObj kvs, r'') else None)
               else None)
         else if c = CHR ''['' then
           (case skip_ws r of
             [] \<Rightarrow> None
           | d # r' \<Rightarrow>
               if d = CHR '']'' then Some (JArr [], r')
               else map_option (map_prod JArr id) (parse_elems n (d # r')))
         else if c = CHR ''n'' then parse_lit ''null'' JNull s
         else if c = CHR ''t'' then parse_lit ''true'' (JBool True) s
         else if c = CHR ''f'' then parse_lit ''false'' (JBool False) s
         else parse_number s)"
| "parse_elems 0 s = None"
| "parse_elems (Suc n) s =
     (case parse_value n s of
       None \<Rightarrow> None
     | Some (v, r) \<Rightarrow>
         (case skip_ws r of
           [] \<Rightarrow> None
         | d # r' \<Rightarrow>
             if d = CHR '','' then map_option (map_prod ((#) v) id) (parse_elems n (skip_ws r'))
             else if d = CHR '']'' then Some ([v], r')
             else None))"
| "parse_members 0 s = None"
| "parse_members (Suc n) s =
     (case parse_string s of
       None \<Rightarrow> None
     | Some (k, r) \<Rightarrow>
         (case skip_ws r of
           [] \<Rightarrow> None
         | d # r1 \<Rightarrow>
             if d \<noteq> CHR '':'' then None
             else (case parse_value n (skip_ws r1) of
               None \<Rightarrow> None
             | Some (v, r2) \<Rightarrow>
                 (case skip_ws r2 of
                   [] \<Rightarrow> None
                 | d' # r3 \<Rightarrow>
                     if d' = CHR '','' then
                       (case skip_ws r3 of
                         [] \<Rightarrow> None
                       | q # r4 \<Rightarrow>
                           if q = CHR 0x22
                           then map_option (map_prod ((#) (k, v)) id) (parse_members n r4)
                           else None)
                     else if d' = CHR ''}'' then Some ([(k, v)], r3)
                     else None))))"

text \<open>Decoding starts at the byte order mark \<open>json.loads\<close> strips from UTF-8 bytes.\<close>

definition loads :: "pystr \<Rightarrow> json option" where
  "loads data =
     (let s = (if take 3 data = map char_of [239, 187, 191 :: nat] then drop 3 data else data)
      in if \<not> utf8_valid s then None
         else (case parse_value (Suc (length s)) (skip_ws s) of
           None \<Rightarrow> None
         | Some (v, r) \<Rightarrow> if skip_ws r = [] then Some v else None))"

definition strict_json_loads :: "pystr \<Rightarrow> json res" where
  "strict_json_loads data =
     rbind (of_option ValidationError (loads data)) (\<lambda>v.
     rbind (check (is_obj v) ValidationError) (\<lambda>_. Inr v))"

end
