(* ===== verification/Json_Roundtrip.thy ===== *)
theory Json_Roundtrip
  imports Json
begin

text \<open>
  What the canonical text of a JSON value determines. Decoding the canonical text gives the
  value back, its dictionaries in key order; so two values with one canonical text are equal up
  to the order of their items, and a digest of the canonical text binds the value.
\<close>

section \<open>Strings\<close>

lemma hex_value_hex_digit: "n < 16 \<Longrightarrow> hex_value (hex_digit n) = Some n"
  by (auto simp: hex_value_def hex_digit_def Let_def)

lemma unicode_escape_control:
  assumes "byte c < 32"
  shows "unicode_escape (''00'' @ hex2 (byte c) @ r) = Some ([c], r)"
proof -
  have z: "hex_value (CHR ''0'') = Some 0"
    by (simp add: hex_value_def)
  have "hex4 (''00'' @ hex2 (byte c) @ r) = Some (byte c, r)"
    using assms by (simp add: hex2_def hex_value_hex_digit z)
  then show ?thesis
    using assms by (simp add: unicode_escape_def encode_cp_def)
qed

lemma esc_char_special:
  "esc_char (CHR 0x22) = [CHR 0x5C, CHR 0x22]" "esc_char (CHR 0x5C) = [CHR 0x5C, CHR 0x5C]"
  "esc_char (CHR 0x0A) = [CHR 0x5C, CHR ''n'']" "esc_char (CHR 0x0D) = [CHR 0x5C, CHR ''r'']"
  "esc_char (CHR 0x09) = [CHR 0x5C, CHR ''t'']" "esc_char (CHR 0x0C) = [CHR 0x5C, CHR ''f'']"
  "esc_char (CHR 0x08) = [CHR 0x5C, CHR ''b'']"
  by (simp_all add: esc_char_def)

lemma scan_string_esc:
  "length s < n \<Longrightarrow> scan_string n (concat (map esc_char s) @ CHR 0x22 # r) = Some (s, r)"
proof (induction s arbitrary: n)
  case Nil
  then show ?case by (cases n) simp_all
next
  case (Cons c s)
  then obtain m where n: "n = Suc m" and m: "length s < m"
    by (cases n) auto
  have IH: "scan_string m (concat (map esc_char s) @ CHR 0x22 # r) = Some (s, r)"
    using Cons.IH m by blast
  have ch: "c = d" if "byte c = byte d" for d
    using that by (simp only: of_char_eq_iff)
  consider "byte c \<in> {34, 92, 10, 13, 9, 12, 8}"
    | "byte c < 32" "byte c \<notin> {34, 92, 10, 13, 9, 12, 8}"
    | "32 \<le> byte c" "byte c \<notin> {34, 92, 10, 13, 9, 12, 8}"
    by linarith
  then show ?case
  proof cases
    case 1
    have "c \<in> {CHR 0x22, CHR 0x5C, CHR 0x0A, CHR 0x0D, CHR 0x09, CHR 0x0C, CHR 0x08}"
      using 1 ch [of "CHR 0x22"] ch [of "CHR 0x5C"] ch [of "CHR 0x0A"] ch [of "CHR 0x0D"]
        ch [of "CHR 0x09"] ch [of "CHR 0x0C"] ch [of "CHR 0x08"] by auto
    then show ?thesis
      using IH by (auto simp: n esc_char_special simple_escape_def)
  next
    case 2
    then have "esc_char c = CHR 0x5C # CHR ''u'' # ''00'' @ hex2 (byte c)"
      by (auto simp: esc_char_def Let_def)
    then show ?thesis
      using 2 IH unicode_escape_control [of c "concat (map esc_char s) @ CHR 0x22 # r"]
      by (simp add: n)
  next
    case 3
    then have "esc_char c = [c]"
      by (auto simp: esc_char_def Let_def)
    then show ?thesis
      using 3 IH by (simp add: n)
  qed
qed

lemma parse_string_quote:
  "parse_string (concat (map esc_char s) @ CHR 0x22 # r) = Some (s, r)"
proof -
  have ge: "1 \<le> length (esc_char c)" for c
    by (simp add: esc_char_def Let_def)
  have "length s \<le> length (concat (map esc_char s))"
  proof (induction s)
    case (Cons c s)
    then show ?case using ge [of c] by simp
  qed simp
  then show ?thesis
    unfolding parse_string_def by (intro scan_string_esc) simp
qed

section \<open>Numbers\<close>

definition ends_token :: "pystr \<Rightarrow> bool" where
  "ends_token r \<longleftrightarrow> r = [] \<or> hd r \<in> {CHR '','', CHR '']'', CHR ''}'', CHR 0x0A}"

lemma ends_token_Nil [simp]: "ends_token []"
  by (simp add: ends_token_def)

lemma ends_token_Cons [simp]:
  "ends_token (CHR '','' # r)" "ends_token (CHR '']'' # r)" "ends_token (CHR ''}'' # r)"
  "ends_token (CHR 0x0A # r)"
  by (simp_all add: ends_token_def)

lemma ends_token_not_digit: "ends_token r \<Longrightarrow> takeWhile is_digit r = []"
  by (cases r) (auto simp: ends_token_def is_digit_def)

lemma takeWhile_digits:
  "list_all is_digit ds \<Longrightarrow> ends_token r \<Longrightarrow> takeWhile is_digit (ds @ r) = ds"
  by (simp add: takeWhile_append2 list_all_iff ends_token_not_digit)

lemma starts_with_Cons [simp]:
  "starts_with [c] (d # s) = (d = c)" "starts_with [c] [] = False"
  by (auto simp: starts_with_def)

lemma ends_token_not_number:
  "ends_token r \<Longrightarrow> \<not> starts_with ''.'' r \<and> \<not> starts_with ''e'' r \<and> \<not> starts_with ''E'' r"
  by (cases r) (auto simp: ends_token_def)

lemma nat_text_unsigned:
  "\<not> starts_with ''-'' (nat_text n @ r)"
  "(if starts_with ''0'' (nat_text n) then ''0'' else nat_text n) = nat_text n"
proof -
  obtain d ds where t: "nat_text n = d # ds"
    using nat_text_nonempty [of n] by (cases "nat_text n") auto
  then have "is_digit d"
    using nat_text_digits [of n] by simp
  then show "\<not> starts_with ''-'' (nat_text n @ r)"
    using t by (auto simp: is_digit_def)
  show "(if starts_with ''0'' (nat_text n) then ''0'' else nat_text n) = nat_text n"
    using nat_text_hd_zero [of n] t by (auto simp: nat_text_zero)
qed

lemma scan_nat_text:
  assumes "ends_token r"
  shows "scan_int (nat_text n @ r) = nat_text n" "scan_frac r = []" "scan_exp r = None"
  using ends_token_not_number [OF assms] nat_text_unsigned(2) [of n]
  by (auto simp: scan_int_def scan_frac_def scan_exp_def takeWhile_digits nat_text_digits assms
      Let_def simp del: starts_with_Cons)

lemma parse_unsigned_nat_text:
  "ends_token r \<Longrightarrow>
     parse_unsigned neg (nat_text n @ r) = Some (JInt (if neg then - int n else int n), r)"
  by (simp add: parse_unsigned_def scan_nat_text digits_value_nat_text)

lemma parse_number_nat_text:
  assumes "ends_token r"
  shows "parse_number (nat_text n @ r) = Some (JInt (int n), r)"
    and "parse_number (CHR ''-'' # nat_text n @ r) = Some (JInt (- int n), r)"
  using nat_text_unsigned(1) [of n r]
  by (simp_all add: parse_number_def parse_unsigned_nat_text assms)

lemma parse_number_int_text:
  "ends_token r \<Longrightarrow> parse_number (int_text i @ r) = Some (JInt i, r)"
  using parse_number_nat_text [of r "nat i"] parse_number_nat_text [of r "nat (- i)"]
  by (simp add: int_text_def)

section \<open>First characters\<close>

definition value_start :: "char \<Rightarrow> bool" where
  "value_start c \<longleftrightarrow> \<not> is_ws c \<and> c \<notin> {CHR '']'', CHR ''}'', CHR '','', CHR '':''}"

lemma digit_value_start: "is_digit c \<Longrightarrow> value_start c"
  by (auto simp: value_start_def is_digit_def is_ws_def)

lemma int_text_start:
  "\<exists>c t. int_text i = c # t \<and> value_start c \<and> c \<notin> {CHR 0x22, CHR ''{'', CHR ''['',
     CHR ''n'', CHR ''t'', CHR ''f''}"
proof -
  obtain d ds where t: "nat_text (nat i) = d # ds"
    using nat_text_nonempty [of "nat i"] by (cases "nat_text (nat i)") auto
  then have "is_digit d"
    using nat_text_digits [of "nat i"] by simp
  with t show ?thesis
    by (auto simp: int_text_def is_digit_def digit_value_start)
      (simp add: value_start_def is_ws_def)
qed

lemma dumps_start: "json_wf v \<Longrightarrow> \<exists>c t. dumps v = c # t \<and> value_start c"
proof (cases v)
  case (JInt i)
  then show ?thesis using int_text_start [of i] by auto
qed (auto simp: quote_def value_start_def is_ws_def)

lemma skip_ws_value_start: "value_start c \<Longrightarrow> skip_ws (c # t) = c # t"
  by (simp add: skip_ws_def value_start_def)

lemma skip_ws_dumps: "json_wf v \<Longrightarrow> skip_ws (dumps v @ r) = dumps v @ r"
  using dumps_start [of v] by (auto simp: skip_ws_value_start)

lemma skip_ws_sep [simp]:
  "skip_ws (CHR '','' # r) = CHR '','' # r" "skip_ws (CHR '']'' # r) = CHR '']'' # r"
  "skip_ws (CHR ''}'' # r) = CHR ''}'' # r" "skip_ws (CHR '':'' # r) = CHR '':'' # r"
  "skip_ws (CHR 0x22 # r) = CHR 0x22 # r" "skip_ws [] = []"
  "skip_ws (CHR ''{'' # r) = CHR ''{'' # r"
  by (simp_all add: skip_ws_def is_ws_def)

section \<open>Values\<close>

lemma sort_key_map: "sort_key f (map g xs) = map g (sort_key (f \<circ> g) xs)"
proof -
  have "insort_key f (g x) (map g ys) = map g (insort_key (f \<circ> g) x ys)" for x ys
    by (induction ys) auto
  then show ?thesis
    by (induction xs) auto
qed

lemma sort_items_map: "sort_key fst (map (map_prod id f) kvs) = map (map_prod id f) (sort_key fst kvs)"
  by (simp add: sort_key_map comp_def)

definition parses :: "json \<Rightarrow> bool" where
  "parses v \<longleftrightarrow>
     (\<forall>n r. length (dumps v) < n \<longrightarrow> ends_token r \<longrightarrow>
        parse_value n (dumps v @ r) = Some (jsort v, r))"

lemma parses_elems:
  assumes "xs \<noteq> []" "\<And>x. x \<in> set xs \<Longrightarrow> parses x \<and> json_wf x"
    and "length (join_with (CHR '','') (map dumps xs)) + 1 < n"
  shows "parse_elems n (join_with (CHR '','') (map dumps xs) @ CHR '']'' # r) = Some (map jsort xs, r)"
  using assms
proof (induction xs arbitrary: n)
  case (Cons x xs)
  then obtain m where n: "n = Suc m" by (cases n) auto
  show ?case
  proof (cases xs)
    case Nil
    then show ?thesis
      using Cons.prems by (auto simp: n parses_def)
  next
    case (Cons y ys)
    have "parse_value m (dumps x @ CHR '','' # join_with (CHR '','') (map dumps xs) @ CHR '']'' # r)
        = Some (jsort x, CHR '','' # join_with (CHR '','') (map dumps xs) @ CHR '']'' # r)"
      using Cons.prems(2) [of x] Cons.prems(3) by (auto simp: n parses_def Cons)
    moreover have "parse_elems m (join_with (CHR '','') (map dumps xs) @ CHR '']'' # r)
        = Some (map jsort xs, r)"
      using Cons.prems by (intro Cons.IH) (auto simp: n Cons)
    moreover have "skip_ws (join_with (CHR '','') (map dumps xs) @ CHR '']'' # r)
        = join_with (CHR '','') (map dumps xs) @ CHR '']'' # r"
      using Cons.prems(2) [of y] skip_ws_dumps [of y] by (cases ys) (auto simp: Cons)
    ultimately show ?thesis
      by (simp add: n Cons)
  qed
qed simp

definition item_text :: "pystr \<times> json \<Rightarrow> pystr" where
  "item_text p = quote (fst p) @ CHR '':'' # dumps (snd p)"

lemma parses_members:
  assumes "kvs \<noteq> []" "\<And>k v. (k, v) \<in> set kvs \<Longrightarrow> parses v \<and> json_wf v"
    and "length (join_with (CHR '','') (map item_text kvs)) + 1 < n"
  shows "parse_members n (tl (join_with (CHR '','') (map item_text kvs)) @ CHR ''}'' # r)
    = Some (map (map_prod id jsort) kvs, r)"
  using assms
proof (induction kvs arbitrary: n)
  case (Cons p kvs)
  obtain k v where p: "p = (k, v)" by (cases p)
  from Cons.prems obtain m where n: "n = Suc m" by (cases n) auto
  have v: "parses v" "json_wf v"
    using Cons.prems(2) [of k v] by (auto simp: p)
  have key: "parse_string (concat (map esc_char k) @ CHR 0x22 # t) = Some (k, t)" for t
    by (rule parse_string_quote)
  show ?case
  proof (cases kvs)
    case Nil
    then have "parse_value m (dumps v @ CHR ''}'' # r) = Some (jsort v, CHR ''}'' # r)"
      using v Cons.prems(3) by (auto simp: parses_def n p item_text_def)
    then show ?thesis
      using v by (simp add: n p Nil item_text_def quote_def key skip_ws_dumps)
  next
    case (Cons q qs)
    define rest where "rest = join_with (CHR '','') (map item_text kvs) @ CHR ''}'' # r"
    have rest: "rest = CHR 0x22 # tl (join_with (CHR '','') (map item_text kvs)) @ CHR ''}'' # r"
      by (cases qs) (auto simp: rest_def Cons item_text_def quote_def)
    have "parse_value m (dumps v @ CHR '','' # rest) = Some (jsort v, CHR '','' # rest)"
      using v Cons.prems(3) by (auto simp: parses_def n p Cons item_text_def)
    moreover have "parse_members m (tl (join_with (CHR '','') (map item_text kvs)) @ CHR ''}'' # r)
        = Some (map (map_prod id jsort) kvs, r)"
      using Cons.prems by (intro Cons.IH) (auto simp: n Cons)
    ultimately have step: "parse_members n (concat (map esc_char k) @ CHR 0x22 # CHR '':'' #
        dumps v @ CHR '','' # rest) = Some (map (map_prod id jsort) (p # kvs), r)"
      using v rest by (simp add: n p key skip_ws_dumps)
    have whole: "tl (join_with (CHR '','') (map item_text (p # kvs))) @ CHR ''}'' # r
        = concat (map esc_char k) @ CHR 0x22 # CHR '':'' # dumps v @ CHR '','' # rest"
      by (simp add: Cons p item_text_def quote_def rest_def)
    show ?thesis unfolding whole by (rule step)
  qed
qed simp

lemma dumps_obj:
  "dumps (JObj kvs) =
     CHR ''{'' # join_with (CHR '','') (map item_text (sort_key fst kvs)) @ ''}''"
  by (simp add: sort_items_map comp_def item_text_def [abs_def])

lemma set_sort_key [simp]: "set (sort_key f xs) = set xs"
  by simp

lemma sort_key_Nil_iff: "sort_key f xs = [] \<longleftrightarrow> xs = []"
  by (metis length_0_conv length_sort)

lemma json_wf_obj_iff:
  "json_wf (JObj kvs) \<longleftrightarrow>
     distinct (map fst kvs) \<and>
     (\<forall>k v. (k, v) \<in> set kvs \<longrightarrow> json_wf v)"
  by (fastforce simp: list_all_iff)

lemma parses_lit: "json_wf v \<Longrightarrow> v \<in> {JNull, JBool True, JBool False} \<Longrightarrow> parses v"
  by (auto simp: parses_def less_eq_Suc_le neq_Nil_conv parse_lit_def starts_with_def
      Suc_le_D numeral_eq_Suc dest!: Suc_le_D)

lemma parses_json_wf: "json_wf v \<Longrightarrow> parses v"
proof (induction v rule: json_induct)
  case (Int i)
  obtain c t where ct: "int_text i = c # t"
    "c \<notin> {CHR 0x22, CHR ''{'', CHR ''['', CHR ''n'', CHR ''t'', CHR ''f''}"
    using int_text_start by blast
  show ?case
    unfolding parses_def
  proof (intro allI impI)
    fix n r
    assume "length (dumps (JInt i)) < n" "ends_token r"
    then show "parse_value n (dumps (JInt i) @ r) = Some (jsort (JInt i), r)"
      using parse_number_int_text [of r i] ct by (cases n) auto
  qed
next
  case (Str s)
  show ?case
    unfolding parses_def
  proof (intro allI impI)
    fix n r
    assume "length (dumps (JStr s)) < n"
    then show "parse_value n (dumps (JStr s) @ r) = Some (jsort (JStr s), r)"
      by (cases n) (simp_all add: quote_def parse_string_quote)
  qed
next
  case (Arr xs)
  have ok: "\<And>x. x \<in> set xs \<Longrightarrow> parses x \<and> json_wf x"
    using Arr by (auto simp: list_all_iff)
  show ?case
    unfolding parses_def
  proof (intro allI impI)
    fix n r
    assume n: "length (dumps (JArr xs)) < n"
    then obtain m where m: "n = Suc m" by (cases n) auto
    show "parse_value n (dumps (JArr xs) @ r) = Some (jsort (JArr xs), r)"
    proof (cases xs)
      case Nil
      then show ?thesis by (simp add: m)
    next
      case (Cons y ys)
      obtain c t where "dumps y = c # t" "value_start c"
        using dumps_start [of y] ok [of y] Cons by auto
      then obtain t' where t: "join_with (CHR '','') (map dumps xs) @ CHR '']'' # r = c # t'"
        "value_start c"
        by (cases ys) (auto simp: Cons)
      have "parse_elems m (join_with (CHR '','') (map dumps xs) @ CHR '']'' # r)
          = Some (map jsort xs, r)"
        using n ok by (intro parses_elems) (auto simp: m Cons)
      with t have "parse_elems m (c # t') = Some (map jsort xs, r)" by simp
      moreover have "c \<noteq> CHR '']''" using t(2) by (auto simp: value_start_def)
      ultimately show ?thesis
        using t by (simp add: m skip_ws_value_start)
    qed
  qed
next
  case (Obj kvs)
  let ?s = "sort_key fst kvs"
  have ok: "\<And>k v. (k, v) \<in> set ?s \<Longrightarrow> parses v \<and> json_wf v"
    using Obj unfolding json_wf_obj_iff by auto
  have dist: "distinct (map fst (map (map_prod id jsort) ?s))"
    using Obj(2) by (simp add: sort_key_map_fst comp_def)
  show ?case
    unfolding parses_def
  proof (intro allI impI)
    fix n r
    assume n: "length (dumps (JObj kvs)) < n"
    then obtain m where m: "n = Suc m" by (cases n) auto
    show "parse_value n (dumps (JObj kvs) @ r) = Some (jsort (JObj kvs), r)"
    proof (cases "?s")
      case Nil
      then have "kvs = []" by (simp add: sort_key_Nil_iff)
      then show ?thesis by (simp add: m)
    next
      case (Cons p ps)
      define body where "body = join_with (CHR '','') (map item_text ?s)"
      have body: "body = CHR 0x22 # tl body"
        by (cases ps) (auto simp: body_def Cons item_text_def quote_def)
      have "parse_members m (tl body @ CHR ''}'' # r) = Some (map (map_prod id jsort) ?s, r)"
        using n ok unfolding body_def
        by (intro parses_members) (auto simp: m Cons dumps_obj simp del: dumps.simps)
      moreover have "dumps (JObj kvs) @ r = CHR ''{'' # CHR 0x22 # tl body @ CHR ''}'' # r"
        using body by (simp add: dumps_obj body_def del: dumps.simps)
      ultimately show ?thesis
        using dist by (simp add: m sort_items_map del: dumps.simps)
    qed
  qed
qed (auto intro!: parses_lit)

lemma json_ok_obj_iff:
  "json_ok (JObj kvs) \<longleftrightarrow>
     distinct (map fst kvs) \<and>
     (\<forall>k v. (k, v) \<in> set kvs \<longrightarrow> utf8_valid k \<and> encodable k \<and> json_ok v)"
  by (fastforce simp: list_all_iff)

lemma json_ok_wf: "json_ok v \<Longrightarrow> json_wf v"
proof (induction v rule: json_induct)
  case (Obj kvs)
  then show ?case unfolding json_ok_obj_iff json_wf_obj_iff by auto
qed (auto simp: list_all_iff)

lemma dumps_inject:
  assumes "json_wf a" "json_wf b" "dumps a = dumps b"
  shows "jsort a = jsort b"
proof -
  have p: "parses a" "parses b"
    using assms parses_json_wf by blast+
  have "parse_value (Suc (length (dumps a))) (dumps a @ []) = Some (jsort a, [])"
    using p(1) unfolding parses_def by (metis ends_token_Nil lessI)
  moreover have "parse_value (Suc (length (dumps b))) (dumps b @ []) = Some (jsort b, [])"
    using p(2) unfolding parses_def by (metis ends_token_Nil lessI)
  ultimately show ?thesis
    using assms(3) by simp
qed

section \<open>Access to a sorted value\<close>

lemma jget_jsort:
  assumes "json_wf v"
  shows "jget k (jsort v) = map_option jsort (jget k v)"
proof (cases v)
  case (JObj kvs)
  have "map_of (sort_key fst (map (map_prod id jsort) kvs)) = map_of (map (map_prod id jsort) kvs)"
    using assms by (intro map_of_sort_key) (simp add: JObj comp_def)
  moreover have "map_of (map (map_prod id jsort) kvs) k = map_option jsort (map_of kvs k)"
    by (induction kvs) auto
  ultimately show ?thesis
    by (simp add: JObj jget_def)
qed (simp_all add: jget_def obj_items_def)

lemma jsort_leaf [simp]:
  "jsort v = JStr s \<longleftrightarrow> v = JStr s" "jsort v = JInt i \<longleftrightarrow> v = JInt i"
  "jsort v = JBool b \<longleftrightarrow> v = JBool b" "jsort v = JNull \<longleftrightarrow> v = JNull"
  by (cases v; auto)+

lemma jsort_opt_str [simp]: "jsort (JStr s) = JStr s"
  by simp

section \<open>The canonical text is valid\<close>

lemma utf8_valid_Cons_ascii [simp]: "byte c < 128 \<Longrightarrow> utf8_valid (c # s) = utf8_valid s"
  by (simp add: Let_def)

declare utf8_valid.simps(2) [simp del]

lemma utf8_valid_app_ascii: "is_ascii p \<Longrightarrow> utf8_valid (p @ s) = utf8_valid s"
  by (induction p) (auto simp: is_ascii_def)

lemma is_ascii_esc: "byte c < 128 \<Longrightarrow> is_ascii (esc_char c)"
  by (auto simp: esc_char_def Let_def is_ascii_def hex2_def hex_digit_def)

lemma esc_char_high: "128 \<le> byte c \<Longrightarrow> esc_char c = [c]"
  by (simp add: esc_char_def Let_def)

lemma esc_high_prefix:
  assumes "\<And>i. i < k \<Longrightarrow> i < length s \<and> 128 \<le> byte (s ! i)"
  shows "concat (map esc_char s) = take k s @ concat (map esc_char (drop k s))"
    and "k \<le> length s"
proof -
  show k: "k \<le> length s"
    using assms by (cases k) (auto simp: Suc_le_eq)
  have "map esc_char (take k s) = map (\<lambda>c. [c]) (take k s)"
    using assms k by (intro nth_equalityI) (auto simp: esc_char_high)
  then have "concat (map esc_char (take k s)) = take k s"
    by (simp only: concat_map_singleton map_ident)
  then show "concat (map esc_char s) = take k s @ concat (map esc_char (drop k s))"
    by (metis append_take_drop_id concat_append map_append)
qed

lemma utf8_valid_highD:
  assumes "utf8_valid (x # s)"
  shows "128 \<le> byte x \<Longrightarrow> 0 < length s \<and> 128 \<le> byte (s ! 0)"
    and "224 \<le> byte x \<Longrightarrow> 1 < length s \<and> 128 \<le> byte (s ! 1)"
    and "240 \<le> byte x \<Longrightarrow> 2 < length s \<and> 128 \<le> byte (s ! 2)"
    and "128 \<le> byte x \<Longrightarrow> byte x < 224 \<Longrightarrow> utf8_valid (drop 1 s)"
    and "224 \<le> byte x \<Longrightarrow> byte x < 240 \<Longrightarrow> utf8_valid (drop 2 s)"
    and "240 \<le> byte x \<Longrightarrow> utf8_valid (drop 3 s)"
  using assms unfolding utf8_valid.simps(2) Let_def
  by (simp_all split: if_splits)

lemma utf8_valid_take:
  assumes "utf8_valid (x # s)" "128 \<le> byte x"
    and "k = (if byte x < 224 then 1 else if byte x < 240 then 2 else 3)"
  shows "utf8_valid (x # take k s @ u) = utf8_valid u"
  using assms unfolding utf8_valid.simps(2) Let_def
  by (simp add: nth_append min_def Suc_le_eq split: if_splits)

lemma utf8_valid_esc:
  "utf8_valid s \<Longrightarrow> utf8_valid (concat (map esc_char s) @ t) = utf8_valid t"
proof (induction s rule: utf8_valid.induct)
  case (2 x s)
  let ?b = "byte x"
  show ?case
  proof (cases "?b < 128")
    case True
    then show ?thesis
      using 2 by (simp add: utf8_valid_app_ascii is_ascii_esc)
  next
    case False
    define k :: nat where "k = (if ?b < 224 then 1 else if ?b < 240 then 2 else 3)"
    note D = utf8_valid_highD [OF "2.prems"]
    have cont: "i < length s \<and> 128 \<le> byte (s ! i)" if "i < k" for i
    proof -
      have "i = 0 \<or> i = 1 \<and> 224 \<le> ?b \<or> i = 2 \<and> 240 \<le> ?b"
        using that by (simp add: k_def split: if_splits) linarith+
      then consider "i = 0" | "i = 1" "224 \<le> ?b" | "i = 2" "240 \<le> ?b"
        by blast
      then show ?thesis
        using D(1-3) False by cases auto
    qed
    note pre = esc_high_prefix [of k s, OF cont]
    have IH: "utf8_valid (concat (map esc_char (drop k s)) @ t) = utf8_valid t"
      using 2 False by (auto simp: utf8_valid.simps(2) [of x s] Let_def k_def split: if_splits)
    have "concat (map esc_char (x # s)) @ t =
        x # take k s @ concat (map esc_char (drop k s)) @ t"
      using False pre(1) by (simp add: esc_char_high)
    moreover have "utf8_valid (x # take k s @ u) = utf8_valid u" for u
      using utf8_valid_take [OF "2.prems", of k u] False by (auto simp: k_def)
    ultimately show ?thesis using IH by simp
  qed
qed simp

lemma encodable_esc:
  "encodable s \<Longrightarrow> byte d < 128 \<Longrightarrow> encodable (concat (map esc_char s) @ d # t) = encodable t"
proof (induction s)
  case (Cons a s)
  have s: "encodable s"
    using Cons.prems(1) by (cases s) auto
  show ?case
  proof (cases "byte a < 128")
    case True
    then show ?thesis
      using Cons s by (simp add: encodable_app_ascii is_ascii_esc)
  next
    case False
    obtain e u where e: "concat (map esc_char s) @ d # t = e # u"
      "byte a = 237 \<Longrightarrow> byte e < 160"
    proof (cases s)
      case Nil
      then show ?thesis using Cons.prems that by auto
    next
      case (Cons b r)
      show ?thesis
      proof (cases "byte b < 128")
        case True
        then have "is_ascii (esc_char b)" by (rule is_ascii_esc)
        moreover have "esc_char b \<noteq> []" by (auto simp: esc_char_def Let_def)
        ultimately obtain c v where "esc_char b = c # v" "byte c < 128"
          by (cases "esc_char b") (auto simp: is_ascii_def)
        then show ?thesis using that Cons by auto
      next
        case False
        then show ?thesis
          using that Cons.prems Cons by (auto simp: esc_char_high local.Cons)
      qed
    qed
    then have "encodable (a # concat (map esc_char s) @ d # t) =
        encodable (concat (map esc_char s) @ d # t)"
      by auto
    then show ?thesis
      using Cons.IH s Cons.prems(2) False by (simp add: esc_char_high)
  qed
qed (simp add: encodable_Cons_ascii)

definition clean :: "pystr \<Rightarrow> bool" where
  "clean s \<longleftrightarrow> (\<forall>t. utf8_valid (s @ t) = utf8_valid t) \<and>
     (\<forall>d t. byte d < 128 \<longrightarrow> encodable (s @ d # t) = encodable t)"

lemma clean_append: "clean s \<Longrightarrow> byte c < 128 \<Longrightarrow> clean t \<Longrightarrow> clean (s @ c # t)"
  by (auto simp: clean_def)

lemma clean_Cons: "byte c < 128 \<Longrightarrow> clean s \<Longrightarrow> clean (c # s)"
  by (auto simp: clean_def encodable_Cons_ascii)

lemma clean_ascii: "is_ascii s \<Longrightarrow> clean s"
  by (induction s) (auto simp: clean_def is_ascii_def encodable_Cons_ascii)

lemma clean_snoc: "clean s \<Longrightarrow> byte c < 128 \<Longrightarrow> clean (s @ [c])"
  using clean_append [of s c "[]"] clean_ascii [of "[]"] by (simp add: is_ascii_def)

lemma clean_quote: "utf8_valid k \<Longrightarrow> encodable k \<Longrightarrow> clean (quote k)"
  by (auto simp: clean_def quote_def utf8_valid_esc encodable_esc encodable_Cons_ascii)

lemma clean_join:
  "byte c < 128 \<Longrightarrow> (\<And>x. x \<in> set xs \<Longrightarrow> clean x) \<Longrightarrow> clean (join_with c xs)"
  by (induction c xs rule: join_with.induct) (auto intro: clean_append clean_ascii simp: is_ascii_def)

lemma is_ascii_digits: "list_all is_digit ds \<Longrightarrow> is_ascii ds"
  by (auto simp: is_ascii_def list_all_iff is_digit_ascii)

lemma is_ascii_int_text: "is_ascii (int_text i)"
  using is_ascii_digits [OF nat_text_digits] by (auto simp: int_text_def is_ascii_def)

lemma clean_dumps: "json_ok v \<Longrightarrow> clean (dumps v)"
proof (induction v rule: json_induct)
  case (Arr xs)
  then show ?case
    by (auto simp: list_all_iff intro!: clean_Cons clean_snoc clean_join)
next
  case (Obj kvs)
  then have "clean (join_with (CHR '','') (map item_text (sort_key fst kvs)))"
    unfolding json_ok_obj_iff
    by (auto simp: item_text_def intro!: clean_join clean_append clean_quote)
  then show ?case
    unfolding dumps_obj by (auto intro!: clean_Cons clean_snoc)
qed (auto intro: clean_quote clean_ascii simp: is_ascii_int_text, simp_all add: clean_ascii is_ascii_def)

lemma json_ok_finite: "json_ok v \<Longrightarrow> \<not> has_nonfinite v"
proof (induction v rule: json_induct)
  case (Obj kvs)
  then show ?case unfolding json_ok_obj_iff by (auto simp: list_ex_iff)
qed (auto simp: list_all_iff list_ex_iff)

lemma dumps_valid: "json_ok v \<Longrightarrow> utf8_valid (dumps v)" "json_ok v \<Longrightarrow> encodable (dumps v)"
proof -
  assume "json_ok v"
  then have c: "clean (dumps v)" by (rule clean_dumps)
  from c [unfolded clean_def] have "utf8_valid (dumps v @ []) = utf8_valid []" by blast
  then show "utf8_valid (dumps v)" by simp
  from c have "encodable (dumps v @ CHR '' '' # [])"
    by (simp add: clean_def)
  then show "encodable (dumps v)"
    using encodable_app_sep [of "CHR '' ''" "dumps v" "[]"] by simp
qed

section \<open>Round trip and binding\<close>

lemma canonical_json_ok: "json_ok v \<Longrightarrow> canonical_json v = Inr (dumps v)"
  by (simp add: canonical_json_def json_ok_finite dumps_valid)

lemma canonical_json_Inr: "canonical_json v = Inr s \<Longrightarrow> s = dumps v"
  by (auto simp: canonical_json_def ok_simps)

text \<open>A document may stand alone or be a line with its newline.\<close>

lemma loads_dumps_before:
  assumes ok: "json_ok v" and r: "r \<in> {[], [CHR 0x0A]}"
  shows "loads (dumps v @ r) = Some (jsort v)"
proof -
  obtain c t where start: "dumps v = c # t" "value_start c"
    using dumps_start [OF json_ok_wf [OF ok]] by blast
  have "ends_token r" "skip_ws r = []" "utf8_valid r"
    using r by (auto simp: skip_ws_def is_ws_def)
  moreover have "parse_value (Suc (length (dumps v @ r))) (dumps v @ r) = Some (jsort v, r)"
  proof -
    have "length (dumps v) < Suc (length (dumps v @ r))"
      by simp
    then show ?thesis
      using parses_json_wf [OF json_ok_wf [OF ok]] \<open>ends_token r\<close> unfolding parses_def by blast
  qed
  moreover have "utf8_valid (dumps v @ r)"
    using clean_dumps [OF ok] calculation(3) by (simp add: clean_def)
  moreover have "c \<noteq> char_of (239 :: nat)"
  proof
    assume c: "c = char_of (239 :: nat)"
    have "utf8_valid (dumps v @ '' '') = utf8_valid '' ''"
      using clean_dumps [OF ok] by (simp add: clean_def)
    show False
    proof (cases v)
      case (JInt i)
      then show ?thesis
        using is_ascii_int_text [of i] start c by (auto simp: is_ascii_def)
    next
      case (JBool b)
      then show ?thesis
        using start c by (cases b) (auto dest: arg_cong [of _ _ "of_char :: char \<Rightarrow> nat"])
    qed (use start c ok in \<open>auto simp: quote_def dest: arg_cong [of _ _ "of_char :: char \<Rightarrow> nat"]\<close>)
  qed
  ultimately show ?thesis
    using start by (simp add: loads_def Let_def skip_ws_value_start)
qed

theorem loads_dumps: "json_ok v \<Longrightarrow> loads (dumps v) = Some (jsort v)"
  using loads_dumps_before [of v "[]"] by simp

lemma jsort_obj: "is_obj (jsort v) = is_obj v"
  by (cases v) auto

lemma strict_loads_canonical:
  "json_ok v \<Longrightarrow> is_obj v \<Longrightarrow> canonical_bytes v = Inr s \<Longrightarrow> strict_json_loads s = Inr (jsort v)"
  by (auto simp: canonical_bytes_def strict_json_loads_def loads_dumps jsort_obj dest!: canonical_json_Inr)

lemma strict_loads_line:
  "json_ok v \<Longrightarrow> is_obj v \<Longrightarrow> strict_json_loads (dumps v @ [CHR 0x0A]) = Inr (jsort v)"
  by (simp add: strict_json_loads_def loads_dumps_before jsort_obj)

lemma dumps_jsort: "dumps (jsort v) = dumps v"
proof (induction v rule: json_induct)
  case (Arr xs)
  then show ?case by (simp add: comp_def cong: map_cong)
next
  case (Obj kvs)
  have "map item_text (map (map_prod id jsort) (sort_key fst kvs)) = map item_text (sort_key fst kvs)"
    using Obj by (auto simp: item_text_def)
  moreover have "sort_key fst (sort_key fst kvs) = sort_key fst kvs"
    by (simp add: sort_key_id_if_sorted)
  ultimately show ?case
    by (simp only: jsort.simps dumps_obj sort_items_map)
qed auto

end
