(* ===== verification/PyPath.thy ===== *)
theory PyPath
  imports PyText
begin

text \<open>
  The POSIX path functions of Python's \<open>os.path\<close> that \<open>src/leanctx_sdk/protocol.py\<close> calls
  (\<open>normpath\<close>, \<open>abspath\<close>, \<open>join\<close>, \<open>commonpath\<close>, \<open>relpath\<close>), on strings. The working
  directory is an argument. The lemmas describe a normalised absolute path by its components.
\<close>

abbreviation slash :: char where
  "slash \<equiv> CHR ''/''"

fun split_on :: "char \<Rightarrow> pystr \<Rightarrow> pystr list" where
  "split_on c [] = [[]]"
| "split_on c (x # s) =
     (if x = c then [] # split_on c s
      else (case split_on c s of [] \<Rightarrow> [[x]] | p # ps \<Rightarrow> (x # p) # ps))"

fun join_path :: "pystr list \<Rightarrow> pystr" where
  "join_path [] = []"
| "join_path [p] = p"
| "join_path (p # q # ps) = p @ slash # join_path (q # ps)"

definition os_isabs :: "pystr \<Rightarrow> bool" where
  "os_isabs p \<longleftrightarrow> starts_with ''/'' p"

definition os_join :: "pystr \<Rightarrow> pystr \<Rightarrow> pystr" where
  "os_join a b =
     (if os_isabs b then b
      else if a = [] \<or> last a = slash then a @ b
      else a @ slash # b)"

definition initial_slashes :: "pystr \<Rightarrow> nat" where
  "initial_slashes p =
     (if starts_with ''//'' p \<and> \<not> starts_with ''///'' p then 2
      else if starts_with ''/'' p then 1 else 0)"

text \<open>The component stack of \<open>normpath\<close>, newest first.\<close>

fun push_comp :: "bool \<Rightarrow> pystr list \<Rightarrow> pystr \<Rightarrow> pystr list" where
  "push_comp rooted st c =
     (if c = [] \<or> c = ''.'' then st
      else if c \<noteq> ''..'' \<or> (\<not> rooted \<and> st = []) \<or> (st \<noteq> [] \<and> hd st = ''..'') then c # st
      else tl st)"

definition norm_comps :: "bool \<Rightarrow> pystr \<Rightarrow> pystr list" where
  "norm_comps rooted p = rev (foldl (push_comp rooted) [] (split_on slash p))"

definition os_normpath :: "pystr \<Rightarrow> pystr" where
  "os_normpath p =
     (if p = [] then ''.''
      else let n = initial_slashes p;
               r = replicate n slash @ join_path (norm_comps (n \<noteq> 0) p)
           in if r = [] then ''.'' else r)"

definition os_abspath :: "pystr \<Rightarrow> pystr \<Rightarrow> pystr" where
  "os_abspath cwd p = os_normpath (if os_isabs p then p else os_join cwd p)"

definition path_comps :: "pystr \<Rightarrow> pystr list" where
  "path_comps p = filter (\<lambda>c. c \<noteq> [] \<and> c \<noteq> ''.'') (split_on slash p)"

fun common_prefix :: "pystr list \<Rightarrow> pystr list \<Rightarrow> pystr list" where
  "common_prefix (a # as) (b # bs) = (if a = b then a # common_prefix as bs else [])"
| "common_prefix _ _ = []"

text \<open>\<open>None\<close> is the \<open>ValueError\<close> for mixing an absolute and a relative path.\<close>

definition os_commonpath2 :: "pystr \<Rightarrow> pystr \<Rightarrow> pystr option" where
  "os_commonpath2 a b =
     (if os_isabs a \<noteq> os_isabs b then None
      else Some ((if os_isabs a then ''/'' else []) @
                 join_path (common_prefix (path_comps a) (path_comps b))))"

definition os_relpath :: "pystr \<Rightarrow> pystr \<Rightarrow> pystr \<Rightarrow> pystr" where
  "os_relpath cwd p start =
     (let ps = filter (\<lambda>c. c \<noteq> []) (split_on slash (os_abspath cwd p));
          ss = filter (\<lambda>c. c \<noteq> []) (split_on slash (os_abspath cwd start));
          i = length (common_prefix ss ps);
          rel = replicate (length ss - i) ''..'' @ drop i ps
      in if rel = [] then ''.'' else join_path rel)"

section \<open>Components\<close>

definition plain_comp :: "pystr \<Rightarrow> bool" where
  "plain_comp c \<longleftrightarrow> c \<noteq> [] \<and> slash \<notin> set c \<and> c \<noteq> ''.'' \<and> c \<noteq> ''..''"

lemma split_on_no_sep: "c \<notin> set s \<Longrightarrow> split_on c s = [s]"
  by (induction s) auto

lemma split_on_nonempty [simp]: "split_on c s \<noteq> []"
  by (induction s) (auto split: list.splits)

lemma split_on_append:
  "c \<notin> set p \<Longrightarrow> split_on c (p @ c # s) = p # split_on c s"
  by (induction p) auto

lemma split_on_parts: "p \<in> set (split_on c s) \<Longrightarrow> c \<notin> set p"
proof (induction s arbitrary: p)
  case (Cons x s)
  then show ?case
    by (cases "split_on c s") (auto split: if_splits)
qed simp

lemma split_join:
  "ps \<noteq> [] \<Longrightarrow> (\<forall>p \<in> set ps. slash \<notin> set p) \<Longrightarrow> split_on slash (join_path ps) = ps"
  by (induction ps rule: join_path.induct) (auto simp: split_on_no_sep split_on_append)

lemma push_comp_plain:
  "\<forall>c \<in> set st. plain_comp c \<Longrightarrow> slash \<notin> set x \<Longrightarrow> \<forall>c \<in> set (push_comp True st x). plain_comp c"
  by (cases st) (auto simp: plain_comp_def)

lemma foldl_push_plain:
  "\<forall>c \<in> set st. plain_comp c \<Longrightarrow> \<forall>x \<in> set xs. slash \<notin> set x \<Longrightarrow>
     \<forall>c \<in> set (foldl (push_comp True) st xs). plain_comp c"
proof (induction xs arbitrary: st)
  case (Cons x xs)
  have "\<forall>c \<in> set (push_comp True st x). plain_comp c"
    using Cons.prems by (intro push_comp_plain) auto
  then show ?case
    using Cons by simp
qed simp

lemma norm_comps_plain: "\<forall>c \<in> set (norm_comps True p). plain_comp c"
  unfolding norm_comps_def using foldl_push_plain [of "[]" "split_on slash p"]
  by (auto dest: split_on_parts)

text \<open>A normalised absolute path: leading slashes and plain components.\<close>

definition abs_path :: "nat \<Rightarrow> pystr list \<Rightarrow> pystr" where
  "abs_path n cs = replicate n slash @ join_path cs"

lemma os_normpath_abs:
  assumes "os_isabs p"
  shows "\<exists>n cs. os_normpath p = abs_path n cs \<and> (n = 1 \<or> n = 2) \<and> (\<forall>c \<in> set cs. plain_comp c)"
proof -
  have n: "initial_slashes p = 1 \<or> initial_slashes p = 2"
    using assms by (auto simp: initial_slashes_def os_isabs_def)
  moreover have "p \<noteq> []"
    using assms by (auto simp: os_isabs_def starts_with_def)
  ultimately have "os_normpath p = abs_path (initial_slashes p) (norm_comps True p)"
    by (auto simp: os_normpath_def abs_path_def Let_def)
  with n show ?thesis
    using norm_comps_plain by blast
qed

lemma isabs_abs_path: "0 < n \<Longrightarrow> os_isabs (abs_path n cs)"
  by (cases n) (auto simp: os_isabs_def abs_path_def starts_with_def)

lemma filter_split_abs_path:
  assumes "\<forall>c \<in> set cs. plain_comp c"
  shows "filter (\<lambda>c. c \<noteq> []) (split_on slash (abs_path n cs)) = cs"
    and "path_comps (abs_path n cs) = cs"
proof -
  have split: "split_on slash (replicate n slash @ s) = replicate n [] @ split_on slash s" for s
    by (induction n) auto
  have "split_on slash (join_path cs) = (if cs = [] then [[]] else cs)"
    using assms by (auto simp: split_join plain_comp_def)
  then show "filter (\<lambda>c. c \<noteq> []) (split_on slash (abs_path n cs)) = cs"
    "path_comps (abs_path n cs) = cs"
    using assms
    by (auto simp: abs_path_def split path_comps_def plain_comp_def filter_id_conv)
qed

lemma abs_path_inject:
  "\<forall>c \<in> set cs. plain_comp c \<Longrightarrow> \<forall>c \<in> set ds. plain_comp c \<Longrightarrow>
     abs_path n cs = abs_path m ds \<Longrightarrow> cs = ds"
  using filter_split_abs_path(2) by metis

lemma common_prefix_prefix: "\<exists>t. as = common_prefix as bs @ t" "\<exists>t. bs = common_prefix as bs @ t"
  by (induction as bs rule: common_prefix.induct) auto

lemma common_prefix_append [simp]: "common_prefix as (as @ t) = as"
  by (induction as) auto

lemma foldl_push_plain_id:
  "\<forall>c \<in> set cs. plain_comp c \<Longrightarrow> foldl (push_comp r) st cs = rev cs @ st"
  by (induction cs arbitrary: st) (auto simp: plain_comp_def)

lemma norm_comps_abs_path:
  assumes "\<forall>c \<in> set cs. plain_comp c"
  shows "norm_comps r (abs_path n cs) = cs"
proof -
  have "split_on slash (replicate n slash @ s) = replicate n [] @ split_on slash s" for s
    by (induction n) auto
  then have split: "split_on slash (abs_path n cs) = replicate n [] @ (if cs = [] then [[]] else cs)"
    using assms by (auto simp: abs_path_def split_join plain_comp_def)
  have "foldl (push_comp r) st (replicate n []) = st" for st
    by (induction n) auto
  then show ?thesis
    using assms by (simp add: norm_comps_def split foldl_push_plain_id)
qed

lemma join_path_start:
  "\<forall>c \<in> set cs. plain_comp c \<Longrightarrow> cs \<noteq> [] \<Longrightarrow> \<exists>x t. join_path cs = x # t \<and> x \<noteq> slash"
  by (cases cs rule: join_path.cases) (auto simp: plain_comp_def neq_Nil_conv)

lemma os_normpath_abs_path:
  assumes "\<forall>c \<in> set cs. plain_comp c" "n = 1 \<or> n = 2"
  shows "os_normpath (abs_path n cs) = abs_path n cs"
proof -
  have "initial_slashes (abs_path n cs) = n"
  proof (cases cs)
    case Nil
    then show ?thesis
      using assms(2) by (auto simp: initial_slashes_def starts_with_def abs_path_def numeral_eq_Suc)
  next
    case (Cons c ds)
    then obtain x t where "join_path cs = x # t" "x \<noteq> slash"
      using join_path_start assms(1) by blast
    then show ?thesis
      using assms(2) by (auto simp: initial_slashes_def starts_with_def abs_path_def numeral_eq_Suc)
  qed
  moreover have "abs_path n cs \<noteq> []"
    using assms(2) by (auto simp: abs_path_def)
  ultimately show ?thesis
    using assms norm_comps_abs_path [OF assms(1), of "n \<noteq> 0" n]
    by (auto simp: os_normpath_def Let_def abs_path_def)
qed

end
