(* ===== verification/Protocol.thy ===== *)
theory Protocol
  imports Json_Roundtrip PyPath
begin

text \<open>
  The value types of \<open>src/leanctx_sdk/protocol.py\<close>: validated text, sources confined to a
  project root, plans with a deterministic identifier, measurements, failures, receipt links,
  recovered sources and instance views with their verification. A constructor is a function
  \<open>mk_...\<close> that runs the checks of \<open>__post_init__\<close> in order and returns the normalised record;
  an argument that may have any type is a JSON value, one the caller has already typed is not.
\<close>

section \<open>Constants\<close>

definition MAX_PATH_BYTES :: nat where "MAX_PATH_BYTES = 4096"
definition MAX_REF_BYTES :: nat where "MAX_REF_BYTES = 512"
definition MAX_TASK_BYTES :: nat where "MAX_TASK_BYTES = 16 * 1024"
definition MAX_TEXT_BYTES :: nat where "MAX_TEXT_BYTES = 8 * 1024 * 1024"
definition MAX_MEASUREMENTS :: nat where "MAX_MEASUREMENTS = 32"
definition ENGINE_INTERFACE_VERSION :: pystr where "ENGINE_INTERFACE_VERSION = ''1.0.0''"

lemmas protocol_consts = MAX_PATH_BYTES_def MAX_REF_BYTES_def MAX_TASK_BYTES_def
  MAX_TEXT_BYTES_def MAX_MEASUREMENTS_def ENGINE_INTERFACE_VERSION_def

definition failure_codes :: "pystr list" where
  "failure_codes = [''policy_rejected'', ''source_unavailable'', ''source_integrity_mismatch'',
     ''resource_limit'', ''unsupported_operation'', ''internal'']"

definition instance_statuses :: "pystr list" where
  "instance_statuses = [''succeeded'', ''degraded'', ''rejected'', ''failed'']"

definition host_outcomes :: "pystr list" where
  "host_outcomes = [''unknown'', ''accepted'', ''rejected'', ''completed'', ''failed'', ''aborted'']"

definition integrities :: "pystr list" where
  "integrities = [''sealed'', ''unsealed'']"

section \<open>Text\<close>

text \<open>
  A string is strict UTF-8 when its bytes are an encoding (\<open>utf8_valid\<close>, true of every Python
  string) that has no surrogate (\<open>encodable\<close>).
\<close>

definition strict_utf8 :: "pystr \<Rightarrow> bool" where
  "strict_utf8 s \<longleftrightarrow> utf8_valid s \<and> encodable s"

lemma printable_strict: "printable_ascii s \<Longrightarrow> strict_utf8 s"
proof -
  assume p: "printable_ascii s"
  then have "utf8_valid s"
    by (induction s) (simp_all add: printable_ascii_def)
  with p show ?thesis
    by (simp add: strict_utf8_def printable_encodable)
qed

definition utf8_len :: "pystr \<Rightarrow> nat res" where
  "utf8_len s = (if strict_utf8 s then Inr (length s) else Inl ValidationError)"

definition ptext :: "nat \<Rightarrow> bool \<Rightarrow> pystr \<Rightarrow> pystr res" where
  "ptext maximum controls s =
     rbind (utf8_len s) (\<lambda>n.
     rbind (check (n \<noteq> 0) ValidationError) (\<lambda>_.
     rbind (check (n \<le> maximum) ValidationError) (\<lambda>_.
     rbind (check (\<not> has_nul s) ValidationError) (\<lambda>_.
     rbind (check (\<not> (controls \<and> has_control s)) ValidationError) (\<lambda>_.
     Inr s)))))"

definition validate_ref :: "pystr \<Rightarrow> pystr res" where
  "validate_ref s =
     rbind (utf8_len s) (\<lambda>n.
     rbind (check (n \<noteq> 0 \<and> n \<le> MAX_REF_BYTES) ValidationError) (\<lambda>_.
     rbind (check (printable_ascii s) ValidationError) (\<lambda>_. Inr s)))"

definition validate_digest :: "pystr \<Rightarrow> pystr res" where
  "validate_digest s =
     rbind (validate_ref s) (\<lambda>_. rbind (check (is_digest s) ValidationError) (\<lambda>_. Inr s))"

definition validate_output_ref :: "pystr \<Rightarrow> pystr res" where
  "validate_output_ref s =
     rbind (validate_ref s) (\<lambda>_.
     rbind (check (prefixed_hex ''output:'' 64 s) ValidationError) (\<lambda>_. Inr s))"

definition opt_check :: "('a \<Rightarrow> 'b res) \<Rightarrow> 'a option \<Rightarrow> 'b option res" where
  "opt_check f x = (case x of None \<Rightarrow> Inr None | Some a \<Rightarrow> rbind (f a) (\<lambda>b. Inr (Some b)))"

lemma ptext_Inr [ok_simps]:
  "ptext m ctl s = Inr t \<longleftrightarrow>
     t = s \<and> strict_utf8 s \<and> s \<noteq> [] \<and> length s \<le> m \<and> \<not> has_nul s \<and> \<not> (ctl \<and> has_control s)"
  by (auto simp: ptext_def utf8_len_def ok_simps)

lemma validate_ref_Inr [ok_simps]:
  "validate_ref s = Inr t \<longleftrightarrow> t = s \<and> s \<noteq> [] \<and> length s \<le> 512 \<and> printable_ascii s"
  by (auto simp: validate_ref_def utf8_len_def ok_simps protocol_consts printable_strict)

lemma validate_digest_Inr [ok_simps]: "validate_digest s = Inr t \<longleftrightarrow> t = s \<and> is_digest s"
  by (auto simp: validate_digest_def ok_simps is_digest_printable dest: is_digest_length)

lemma validate_output_ref_Inr [ok_simps]:
  "validate_output_ref s = Inr t \<longleftrightarrow> t = s \<and> prefixed_hex ''output:'' 64 s"
  by (auto simp: validate_output_ref_def ok_simps prefixed_hex_decomp printable_ascii_def
      list_all_iff is_hex_ascii)

lemma opt_check_Inr [ok_simps]:
  "opt_check f x = Inr y \<longleftrightarrow>
     (case x of None \<Rightarrow> y = None | Some a \<Rightarrow> \<exists>b. f a = Inr b \<and> y = Some b)"
  by (auto simp: opt_check_def ok_simps split: option.splits)

section \<open>Sources\<close>

definition contained :: "pystr \<Rightarrow> pystr \<Rightarrow> bool" where
  "contained path root \<longleftrightarrow> os_commonpath2 path root = Some root"

record context_source =
  cs_path :: pystr
  cs_root :: pystr
  cs_media :: pystr
  cs_ref :: "pystr option"
  cs_digest :: "pystr option"

definition mk_context_source ::
  "pystr \<Rightarrow> pystr \<Rightarrow> pystr option \<Rightarrow> pystr \<Rightarrow> pystr option \<Rightarrow> pystr option \<Rightarrow> context_source res"
where
  "mk_context_source cwd path project_root media_type source_ref source_digest =
     rbind (ptext MAX_PATH_BYTES True path) (\<lambda>supplied.
     rbind (ptext MAX_PATH_BYTES False (case project_root of Some r \<Rightarrow> r | None \<Rightarrow> cwd)) (\<lambda>root0.
     let root = os_abspath cwd (os_normpath root0) in
     rbind (utf8_len root) (\<lambda>n.
     rbind (check (n \<le> MAX_PATH_BYTES) ValidationError) (\<lambda>_.
     let absolute = (if os_isabs supplied then os_abspath cwd (os_normpath supplied)
                     else os_abspath cwd (os_normpath (os_join root supplied)));
         stored = (if os_isabs supplied then absolute else os_normpath supplied) in
     rbind (check (contained absolute root) ValidationError) (\<lambda>_.
     rbind (utf8_len absolute) (\<lambda>m.
     rbind (check (m \<le> MAX_PATH_BYTES) ValidationError) (\<lambda>_.
     rbind (ptext MAX_REF_BYTES True media_type) (\<lambda>media.
     rbind (opt_check validate_ref source_ref) (\<lambda>sref.
     rbind (opt_check validate_digest source_digest) (\<lambda>sdig.
     Inr \<lparr>cs_path = stored, cs_root = root, cs_media = media, cs_ref = sref, cs_digest = sdig\<rparr>
     ))))))))))"

definition relative_path :: "pystr \<Rightarrow> context_source \<Rightarrow> pystr res" where
  "relative_path cwd s =
     (let absolute = os_abspath cwd (os_normpath (os_join (cs_root s) (cs_path s))) in
     rbind (check (contained absolute (cs_root s)) ValidationError) (\<lambda>_.
     let rel = os_relpath cwd absolute (cs_root s) in
     rbind (check (rel \<noteq> [] \<and> rel \<noteq> ''.'' \<and> rel \<noteq> ''..'' \<and> \<not> starts_with ''../'' rel)
       ValidationError) (\<lambda>_.
     rbind (check (\<not> has_nul rel \<and> \<not> has_control rel) ValidationError) (\<lambda>_.
     Inr rel))))"

definition opt_item :: "pystr \<Rightarrow> pystr option \<Rightarrow> (pystr \<times> json) list" where
  "opt_item k x = (case x of None \<Rightarrow> [] | Some v \<Rightarrow> [(k, JStr v)])"

definition source_descriptor :: "pystr \<Rightarrow> context_source \<Rightarrow> json res" where
  "source_descriptor cwd s =
     rbind (relative_path cwd s) (\<lambda>rel.
     Inr (JObj ([(''path'', JStr rel), (''media_type'', JStr (cs_media s))] @
       opt_item ''source_ref'' (cs_ref s) @ opt_item ''source_digest'' (cs_digest s))))"

definition source_to_dict :: "pystr \<Rightarrow> context_source \<Rightarrow> json res" where
  "source_to_dict cwd s =
     rbind (source_descriptor cwd s) (\<lambda>d.
     Inr (JObj (obj_items d @ [(''project_root'', JStr (cs_root s))])))"

section \<open>Plans\<close>

record context_plan =
  pl_session_id :: pystr
  pl_task_id :: pystr
  pl_task :: pystr
  pl_source :: context_source
  pl_mode :: pystr
  pl_freshness :: pystr
  pl_id :: pystr

definition plan_intent ::
  "pystr \<Rightarrow> pystr \<Rightarrow> pystr \<Rightarrow> pystr \<Rightarrow> context_source \<Rightarrow> pystr \<Rightarrow> pystr \<Rightarrow> json res"
where
  "plan_intent cwd session_id task_id task source mode freshness =
     rbind (source_descriptor cwd source) (\<lambda>d.
     Inr (JObj [(''intent_version'', JInt 1), (''session_id'', JStr session_id),
       (''task_id'', JStr task_id), (''task'', JStr task), (''source'', d),
       (''mode'', JStr mode), (''freshness'', JStr freshness)]))"

definition mk_context_plan ::
  "pystr \<Rightarrow> pystr \<Rightarrow> pystr \<Rightarrow> pystr \<Rightarrow> context_source \<Rightarrow> pystr \<Rightarrow> pystr \<Rightarrow> context_plan res"
where
  "mk_context_plan cwd session_id task_id task source mode freshness =
     rbind (ptext MAX_REF_BYTES True session_id) (\<lambda>_.
     rbind (ptext MAX_REF_BYTES True task_id) (\<lambda>_.
     rbind (ptext MAX_TASK_BYTES False task) (\<lambda>_.
     rbind (check (mode = ''aggressive'') ValidationError) (\<lambda>_.
     rbind (check (freshness = ''reuse'' \<or> freshness = ''refresh'') ValidationError) (\<lambda>_.
     rbind (plan_intent cwd session_id task_id task source mode freshness) (\<lambda>intent.
     rbind (canonical_bytes intent) (\<lambda>bytes.
     Inr \<lparr>pl_session_id = session_id, pl_task_id = task_id, pl_task = task, pl_source = source,
       pl_mode = mode, pl_freshness = freshness, pl_id = ''plan:sha256:'' @ sha256_hex bytes\<rparr>
     )))))))"

definition plan_to_intent :: "pystr \<Rightarrow> context_plan \<Rightarrow> json res" where
  "plan_to_intent cwd p =
     plan_intent cwd (pl_session_id p) (pl_task_id p) (pl_task p) (pl_source p) (pl_mode p)
       (pl_freshness p)"

definition plan_to_dict :: "pystr \<Rightarrow> context_plan \<Rightarrow> json res" where
  "plan_to_dict cwd p =
     rbind (plan_to_intent cwd p) (\<lambda>d.
     Inr (JObj (obj_items d @ [(''plan_id'', JStr (pl_id p))])))"

section \<open>Measurements, failures, receipt links, recovered sources\<close>

definition ascii_name :: "json \<Rightarrow> pystr res" where
  "ascii_name v =
     (case v of
       JStr s \<Rightarrow>
         if s \<noteq> [] \<and> list_all (\<lambda>c. 97 \<le> byte c \<and> byte c \<le> 122 \<or> is_digit c \<or> c = CHR ''_'') s
         then Inr s else Inl ValidationError
     | _ \<Rightarrow> Inl ValidationError)"

record measurement =
  ms_name :: pystr
  ms_unit :: pystr
  ms_class :: pystr
  ms_value :: "int option"

definition mk_measurement :: "json \<Rightarrow> json \<Rightarrow> json \<Rightarrow> json \<Rightarrow> measurement res" where
  "mk_measurement name unit classification value =
     rbind (ascii_name name) (\<lambda>n.
     rbind (ascii_name unit) (\<lambda>u.
     case classification of
       JStr c \<Rightarrow>
         rbind (check (c \<in> {''measured'', ''estimated'', ''unavailable''}) ValidationError) (\<lambda>_.
         if c = ''unavailable'' then
           rbind (check (value = JNull) ValidationError) (\<lambda>_.
           Inr \<lparr>ms_name = n, ms_unit = u, ms_class = c, ms_value = None\<rparr>)
         else (case value of
           JInt i \<Rightarrow> rbind (check (0 \<le> i) ValidationError) (\<lambda>_.
             Inr \<lparr>ms_name = n, ms_unit = u, ms_class = c, ms_value = Some i\<rparr>)
         | _ \<Rightarrow> Inl ValidationError))
     | JArr _ \<Rightarrow> Inl PyTypeError
     | JObj _ \<Rightarrow> Inl PyTypeError
     | _ \<Rightarrow> Inl ValidationError))"

definition opt_int :: "int option \<Rightarrow> json" where
  "opt_int x = (case x of None \<Rightarrow> JNull | Some i \<Rightarrow> JInt i)"

definition opt_str :: "pystr option \<Rightarrow> json" where
  "opt_str x = (case x of None \<Rightarrow> JNull | Some s \<Rightarrow> JStr s)"

definition measurement_to_dict :: "measurement \<Rightarrow> json" where
  "measurement_to_dict m =
     JObj [(''name'', JStr (ms_name m)), (''unit'', JStr (ms_unit m)),
       (''classification'', JStr (ms_class m)), (''value'', opt_int (ms_value m))]"

record failure =
  fl_code :: pystr
  fl_retryable :: bool
  fl_recovery_ref :: "pystr option"

definition mk_failure :: "pystr \<Rightarrow> bool \<Rightarrow> pystr option \<Rightarrow> failure res" where
  "mk_failure code retryable_by_host recovery_ref =
     rbind (check (code \<in> set failure_codes) ValidationError) (\<lambda>_.
     rbind (opt_check validate_ref recovery_ref) (\<lambda>_.
     Inr \<lparr>fl_code = code, fl_retryable = retryable_by_host, fl_recovery_ref = recovery_ref\<rparr>))"

definition failure_to_dict :: "failure \<Rightarrow> json" where
  "failure_to_dict f =
     JObj [(''code'', JStr (fl_code f)), (''retryable_by_host'', JBool (fl_retryable f)),
       (''recovery_ref'', opt_str (fl_recovery_ref f))]"

text \<open>
  \<open>SDKError.as_dict\<close>. A rejected or failed observation sets \<open>retryable\<close> on the error it raises
  from the failure it carries.
\<close>

definition error_retryable :: "exn \<Rightarrow> failure option \<Rightarrow> bool" where
  "error_retryable e carried =
     (if is_instance e InstanceRejected \<or> is_instance e InstanceExecutionError
      then (case carried of None \<Rightarrow> retryable e | Some f \<Rightarrow> fl_retryable f)
      else retryable e)"

definition error_as_dict :: "exn \<Rightarrow> failure option \<Rightarrow> json" where
  "error_as_dict e carried =
     JObj [(''abort_required'', JBool (abort_required e)), (''code'', opt_str (exn_code e)),
       (''configuration_fix'', JBool (configuration_fix e)),
       (''degrade_allowed'', JBool (degrade_allowed e)), (''guidance'', opt_str (guidance e)),
       (''retryable'', JBool (error_retryable e carried)),
       (''version_change'', JBool (version_change e))]"

text \<open>A check applied to a value of any type: anything but a string is a \<open>ValidationError\<close>.\<close>

definition on_str :: "(pystr \<Rightarrow> 'a res) \<Rightarrow> json \<Rightarrow> 'a res" where
  "on_str f v = (case v of JStr s \<Rightarrow> f s | _ \<Rightarrow> Inl ValidationError)"

lemma on_str_Inr [ok_simps]: "on_str f v = Inr a \<longleftrightarrow> (\<exists>s. v = JStr s \<and> f s = Inr a)"
  by (cases v) (auto simp: on_str_def)

record receipt_link =
  rl_id :: pystr
  rl_ref :: pystr
  rl_digest :: pystr
  rl_invocation_id :: pystr

definition mk_receipt_link :: "json \<Rightarrow> json \<Rightarrow> json \<Rightarrow> json \<Rightarrow> json \<Rightarrow> receipt_link res" where
  "mk_receipt_link schema_version receipt_id receipt_ref receipt_digest invocation_id =
     rbind (check (schema_version = JInt 1) ValidationError) (\<lambda>_.
     rbind (on_str validate_ref receipt_id) (\<lambda>i.
     rbind (on_str validate_ref receipt_ref) (\<lambda>r.
     rbind (on_str validate_digest receipt_digest) (\<lambda>d.
     rbind (on_str (ptext MAX_REF_BYTES True) invocation_id) (\<lambda>v.
     Inr \<lparr>rl_id = i, rl_ref = r, rl_digest = d, rl_invocation_id = v\<rparr>)))))"

definition receipt_link_to_dict :: "receipt_link \<Rightarrow> json" where
  "receipt_link_to_dict l =
     JObj [(''schema_version'', JInt 1), (''receipt_id'', JStr (rl_id l)),
       (''receipt_ref'', JStr (rl_ref l)), (''receipt_digest'', JStr (rl_digest l)),
       (''invocation_id'', JStr (rl_invocation_id l))]"

record recovered =
  rc_text :: pystr
  rc_source_ref :: pystr
  rc_source_digest :: pystr
  rc_recovery_ref :: pystr

definition mk_recovered :: "pystr \<Rightarrow> pystr \<Rightarrow> pystr \<Rightarrow> pystr \<Rightarrow> recovered res" where
  "mk_recovered text source_ref source_digest recovery_ref =
     rbind (ptext MAX_TEXT_BYTES False text) (\<lambda>t.
     rbind (validate_ref source_ref) (\<lambda>r.
     rbind (validate_digest source_digest) (\<lambda>d.
     rbind (validate_ref recovery_ref) (\<lambda>v.
     rbind (check (sha256_digest t = d) ValidationError) (\<lambda>_.
     Inr \<lparr>rc_text = t, rc_source_ref = r, rc_source_digest = d, rc_recovery_ref = v\<rparr>)))))"

definition recovered_to_dict :: "recovered \<Rightarrow> json" where
  "recovered_to_dict r =
     JObj [(''text'', JStr (rc_text r)), (''source_ref'', JStr (rc_source_ref r)),
       (''source_digest'', JStr (rc_source_digest r)), (''recovery_ref'', JStr (rc_recovery_ref r))]"

section \<open>Views\<close>

record context_view =
  vw_source :: context_source
  vw_text :: "pystr option"
  vw_output_ref :: "pystr option"
  vw_output_digest :: "pystr option"
  vw_source_ref :: pystr
  vw_source_digest :: pystr
  vw_recovery_ref :: "pystr option"
  vw_status :: pystr
  vw_measurements :: "measurement list"
  vw_failure :: "failure option"
  vw_receipt_link :: "receipt_link option"
  vw_invocation :: json
  vw_observation :: json
  vw_interface_version :: pystr

text \<open>\<open>ContextView.__post_init__\<close>; the schema and transport versions are the constant 1.\<close>

definition check_view :: "context_view \<Rightarrow> context_view res" where
  "check_view v =
     rbind (case vw_text v of None \<Rightarrow> Inr ()
            | Some t \<Rightarrow> rbind (utf8_len t) (\<lambda>n. check (n \<le> MAX_TEXT_BYTES) ValidationError)) (\<lambda>_.
     rbind (opt_check validate_output_ref (vw_output_ref v)) (\<lambda>_.
     rbind (opt_check validate_digest (vw_output_digest v)) (\<lambda>_.
     rbind (check ((vw_output_ref v = None) = (vw_output_digest v = None)) ValidationError) (\<lambda>_.
     rbind (case (vw_output_digest v, vw_text v) of
              (Some d, Some t) \<Rightarrow>
                rbind (check (sha256_digest t = d) ValidationError) (\<lambda>_.
                check (vw_output_ref v = Some (''output:'' @ remove_prefix ''sha256:'' d))
                  ValidationError)
            | _ \<Rightarrow> Inr ()) (\<lambda>_.
     rbind (validate_ref (vw_source_ref v)) (\<lambda>_.
     rbind (validate_digest (vw_source_digest v)) (\<lambda>_.
     rbind (opt_check validate_ref (vw_recovery_ref v)) (\<lambda>_.
     rbind (check (vw_status v \<in> set instance_statuses) ValidationError) (\<lambda>_.
     rbind (check (length (vw_measurements v) \<le> MAX_MEASUREMENTS) ValidationError) (\<lambda>_.
     rbind (check (is_obj (vw_invocation v) \<and> is_obj (vw_observation v)) ValidationError) (\<lambda>_.
     rbind (check (vw_interface_version v = ENGINE_INTERFACE_VERSION) ValidationError) (\<lambda>_.
     Inr v))))))))))))"

definition view_input_ref :: "context_view \<Rightarrow> pystr option" where
  "view_input_ref v =
     (case jget ''input_ref'' (vw_invocation v) of Some (JStr s) \<Rightarrow> Some s | _ \<Rightarrow> None)"

definition view_invocation_id :: "context_view \<Rightarrow> pystr option" where
  "view_invocation_id v =
     (case jget ''invocation_id'' (vw_invocation v) of Some (JStr s) \<Rightarrow> Some s | _ \<Rightarrow> None)"

definition view_engine_version :: "context_view \<Rightarrow> pystr option" where
  "view_engine_version v =
     (case jget ''engine'' (vw_invocation v) of
       Some (JObj e) \<Rightarrow>
         (case jget ''engine_version'' (JObj e) of Some (JStr s) \<Rightarrow> Some s | _ \<Rightarrow> None)
     | _ \<Rightarrow> None)"

definition view_capability_version :: "context_view \<Rightarrow> pystr option" where
  "view_capability_version v =
     (case jget ''operation'' (vw_invocation v) of
       Some (JObj e) \<Rightarrow>
         (case jget ''capability_version'' (JObj e) of Some (JStr s) \<Rightarrow> Some s | _ \<Rightarrow> None)
     | _ \<Rightarrow> None)"

definition require_text :: "context_view \<Rightarrow> pystr res" where
  "require_text v = of_option InstanceExecutionError (vw_text v)"

definition recovery_binding :: "context_view \<Rightarrow> (pystr \<times> pystr \<times> pystr) res" where
  "recovery_binding v =
     (case vw_recovery_ref v of
       None \<Rightarrow> Inl ValidationError
     | Some r \<Rightarrow> Inr (r, vw_source_ref v, vw_source_digest v))"

text \<open>\<open>mapping.get(key)\<close> compared with an optional string.\<close>

definition get_eq :: "pystr \<Rightarrow> json \<Rightarrow> pystr option \<Rightarrow> bool" where
  "get_eq k m x =
     py_eq (case jget k m of None \<Rightarrow> JNull | Some v \<Rightarrow> v) (opt_str x)"

definition view_verify :: "context_view \<Rightarrow> bool" where
  "view_verify v =
     (if vw_status v \<notin> {''succeeded'', ''degraded''} then False
      else if vw_recovery_ref v = None then False
      else (case jget ''source_refs'' (vw_invocation v) of
        Some (JArr refs) \<Rightarrow>
          if \<not> list_ex (\<lambda>r. py_eq r (JStr (vw_source_ref v))) refs then False
          else if vw_output_digest v = None \<or> vw_output_ref v = None \<or> vw_text v = None then False
          else if \<not> get_eq ''invocation_id'' (vw_observation v) (view_invocation_id v) then False
          else if \<not> get_eq ''output_digest'' (vw_observation v) (vw_output_digest v) then False
          else if \<not> get_eq ''output_ref'' (vw_observation v) (vw_output_ref v) then False
          else (case vw_receipt_link v of
            None \<Rightarrow> False
          | Some l \<Rightarrow> Some (rl_invocation_id l) = view_invocation_id v)
      | _ \<Rightarrow> False))"

definition view_integrity :: "context_view \<Rightarrow> pystr" where
  "view_integrity v = (if view_verify v then ''sealed'' else ''unsealed'')"

definition opt_json :: "('a \<Rightarrow> json) \<Rightarrow> 'a option \<Rightarrow> json" where
  "opt_json f x = (case x of None \<Rightarrow> JNull | Some a \<Rightarrow> f a)"

definition view_to_dict :: "pystr \<Rightarrow> context_view \<Rightarrow> json res" where
  "view_to_dict cwd v =
     rbind (source_to_dict cwd (vw_source v)) (\<lambda>src.
     Inr (JObj [(''schema_version'', JInt 1), (''transport_version'', JInt 1),
       (''engine_interface_version'', JStr (vw_interface_version v)), (''source'', src),
       (''text'', opt_str (vw_text v)), (''output_ref'', opt_str (vw_output_ref v)),
       (''output_digest'', opt_str (vw_output_digest v)), (''source_ref'', JStr (vw_source_ref v)),
       (''source_digest'', JStr (vw_source_digest v)),
       (''recovery_ref'', opt_str (vw_recovery_ref v)), (''status'', JStr (vw_status v)),
       (''measurements'', JArr (map measurement_to_dict (vw_measurements v))),
       (''failure'', opt_json failure_to_dict (vw_failure v)),
       (''receipt_link'', opt_json receipt_link_to_dict (vw_receipt_link v)),
       (''invocation'', vw_invocation v), (''observation'', vw_observation v)]))"

end
