(* ===== verification/Protocol_Facts.thy ===== *)
theory Protocol_Facts
  imports Protocol
begin

text \<open>
  What the value types of \<open>Protocol\<close> guarantee: a source never leaves its project root, a plan
  identifier binds the intent it was computed from, and a verified view binds its text.
\<close>

section \<open>Confinement to the project root\<close>

lemma os_abspath_form:
  assumes "os_isabs cwd"
  obtains n cs where "os_abspath cwd p = abs_path n cs" "n = 1 \<or> n = 2" "\<forall>c \<in> set cs. plain_comp c"
proof -
  have "os_isabs (if os_isabs p then p else os_join cwd p)"
  proof (cases "os_isabs p")
    case False
    obtain t where "cwd = slash # t"
      using assms by (cases cwd) (auto simp: os_isabs_def)
    with False show ?thesis
      by (auto simp: os_join_def os_isabs_def)
  qed simp
  then show thesis
    using that os_normpath_abs unfolding os_abspath_def by meson
qed

lemma contained_abs_path:
  assumes "contained (abs_path m ps) (abs_path n cs)" "0 < m" "0 < n"
    and "\<forall>c \<in> set ps. plain_comp c" "\<forall>c \<in> set cs. plain_comp c"
  shows "\<exists>t. ps = cs @ t"
proof -
  let ?cp = "common_prefix ps cs"
  obtain t u where t: "ps = ?cp @ t" "cs = ?cp @ u"
    using common_prefix_prefix by meson
  have "''/'' @ join_path ?cp = abs_path n cs"
    using assms by (simp add: contained_def os_commonpath2_def isabs_abs_path filter_split_abs_path)
  then have "abs_path 1 ?cp = abs_path n cs"
    by (simp add: abs_path_def)
  moreover have "\<forall>c \<in> set ?cp. plain_comp c"
    using assms(4) t(1) by (metis Un_iff set_append)
  ultimately have "?cp = cs"
    using assms(5) abs_path_inject by blast
  with t show ?thesis by metis
qed

lemma os_abspath_abs_path:
  "\<forall>c \<in> set cs. plain_comp c \<Longrightarrow> n = 1 \<or> n = 2 \<Longrightarrow> os_abspath cwd (abs_path n cs) = abs_path n cs"
  by (auto simp: os_abspath_def isabs_abs_path os_normpath_abs_path)

lemma os_relpath_below:
  assumes "\<forall>c \<in> set (cs @ t). plain_comp c" "\<forall>c \<in> set cs. plain_comp c"
    and "m = 1 \<or> m = 2" "n = 1 \<or> n = 2"
  shows "os_relpath cwd (abs_path m (cs @ t)) (abs_path n cs) = (if t = [] then ''.'' else join_path t)"
  using assms by (simp add: os_relpath_def os_abspath_abs_path filter_split_abs_path)

lemma relative_path_below_root:
  assumes root: "cs_root s = abs_path n cs" "n = 1 \<or> n = 2" "\<forall>c \<in> set cs. plain_comp c"
    and rel: "relative_path cwd s = Inr rel" and cwd: "os_isabs cwd"
  obtains m t where "rel = join_path t" "t \<noteq> []" "\<forall>c \<in> set t. plain_comp c" "m = 1 \<or> m = 2"
    "os_abspath cwd (os_normpath (os_join (cs_root s) (cs_path s))) = abs_path m (cs @ t)"
proof -
  obtain m ps where ps: "os_abspath cwd (os_normpath (os_join (cs_root s) (cs_path s))) = abs_path m ps"
    "m = 1 \<or> m = 2" "\<forall>c \<in> set ps. plain_comp c"
    using os_abspath_form [OF cwd] by blast
  have "contained (abs_path m ps) (abs_path n cs)"
    using rel ps(1) root(1) by (simp add: relative_path_def Let_def ok_simps)
  then obtain t where t: "ps = cs @ t"
    using contained_abs_path ps(2,3) root(2,3) by (metis zero_less_numeral zero_less_one)
  have "rel = (if t = [] then ''.'' else join_path t)" "rel \<noteq> ''.''"
    using rel ps root t by (auto simp: relative_path_def Let_def ok_simps os_relpath_below)
  then show thesis
    using that [of t m] ps t by (auto split: if_splits)
qed

lemma mk_source_root:
  assumes "mk_context_source cwd p r m sr sd = Inr s" "os_isabs cwd"
  obtains n cs where "cs_root s = abs_path n cs" "n = 1 \<or> n = 2" "\<forall>c \<in> set cs. plain_comp c"
proof -
  have "\<exists>q. cs_root s = os_abspath cwd q"
    using assms(1) by (auto simp: mk_context_source_def Let_def ok_simps)
  then show thesis
    using os_abspath_form [OF assms(2)] that by metis
qed

text \<open>
  C5. A source built from any path, root and working directory is confined: its relative path,
  when it has one, is a non-empty sequence of plain names (none empty, none \<open>.\<close> or \<open>..\<close>), and
  the file it denotes lies below the root by exactly these names.
\<close>

theorem source_confined:
  assumes "mk_context_source cwd path root media sref sdig = Inr s"
    and "relative_path cwd s = Inr rel" and "os_isabs cwd"
  shows "\<exists>t. rel = join_path t \<and> t \<noteq> [] \<and> (\<forall>c \<in> set t. plain_comp c) \<and>
    path_comps (os_abspath cwd (os_normpath (os_join (cs_root s) (cs_path s)))) =
      path_comps (cs_root s) @ t"
proof -
  obtain n cs where root: "cs_root s = abs_path n cs" "n = 1 \<or> n = 2" "\<forall>c \<in> set cs. plain_comp c"
    using mk_source_root [OF assms(1,3)] .
  obtain m t where t: "rel = join_path t" "t \<noteq> []" "\<forall>c \<in> set t. plain_comp c"
    "os_abspath cwd (os_normpath (os_join (cs_root s) (cs_path s))) = abs_path m (cs @ t)"
    using relative_path_below_root [OF root assms(2,3)] by metis
  then have "\<forall>c \<in> set (cs @ t). plain_comp c"
    using root(3) by auto
  then show ?thesis
    using t root by (metis filter_split_abs_path(2))
qed

theorem source_confined_witness:
  "\<exists>s. mk_context_source ''/home'' ''src/../lib/./a.py'' (Some ''/home/p'') ''text/plain'' None None = Inr s \<and>
    relative_path ''/home'' s = Inr ''lib/a.py'' \<and>
    (\<exists>t. ''lib/a.py'' = join_path t \<and> t \<noteq> [] \<and> (\<forall>c \<in> set t. plain_comp c) \<and>
      path_comps (os_abspath ''/home'' (os_normpath (os_join (cs_root s) (cs_path s)))) =
        path_comps (cs_root s) @ t)"
proof -
  let ?s = "\<lparr>cs_path = ''lib/a.py'', cs_root = ''/home/p'', cs_media = ''text/plain'',
    cs_ref = None, cs_digest = None\<rparr>"
  have mk: "mk_context_source ''/home'' ''src/../lib/./a.py'' (Some ''/home/p'') ''text/plain'' None None
      = Inr ?s"
    by code_simp
  have rel: "relative_path ''/home'' ?s = Inr ''lib/a.py''"
    by code_simp
  have "os_isabs ''/home''"
    by code_simp
  with source_confined [OF mk rel] mk rel show ?thesis by blast
qed

section \<open>Plan identifiers\<close>

lemma source_descriptor_Inr:
  "source_descriptor cwd s = Inr d \<longleftrightarrow>
     (\<exists>rel. relative_path cwd s = Inr rel \<and>
       d = JObj ([(''path'', JStr rel), (''media_type'', JStr (cs_media s))] @
         opt_item ''source_ref'' (cs_ref s) @ opt_item ''source_digest'' (cs_digest s)))"
  by (auto simp: source_descriptor_def ok_simps)

lemma source_descriptor_wf: "source_descriptor cwd s = Inr d \<Longrightarrow> json_wf d"
  by (auto simp: source_descriptor_Inr opt_item_def split: option.splits)

lemma plan_intent_wf: "plan_intent cwd a b c s m f = Inr i \<Longrightarrow> json_wf i"
  by (auto simp: plan_intent_def ok_simps dest: source_descriptor_wf)

lemma plan_intent_fields:
  assumes "plan_intent cwd a b c s m f = Inr i"
  shows "jget ''session_id'' i = Some (JStr a)" "jget ''task_id'' i = Some (JStr b)"
    "jget ''task'' i = Some (JStr c)" "jget ''freshness'' i = Some (JStr f)"
    "jget ''mode'' i = Some (JStr m)"
    "\<exists>d. source_descriptor cwd s = Inr d \<and> jget ''source'' i = Some d"
  using assms by (auto simp: plan_intent_def ok_simps jget_def)

lemma descriptor_fields:
  assumes "source_descriptor cwd s = Inr d"
  shows "\<exists>rel. relative_path cwd s = Inr rel \<and> jget ''path'' d = Some (JStr rel)"
    "jget ''media_type'' d = Some (JStr (cs_media s))"
    "jget ''source_ref'' d = map_option JStr (cs_ref s)"
    "jget ''source_digest'' d = map_option JStr (cs_digest s)"
  using assms by (auto simp: source_descriptor_Inr jget_def opt_item_def split: option.splits)

lemma jsort_field_str:
  "jsort a = jsort b \<Longrightarrow> json_wf a \<Longrightarrow> json_wf b \<Longrightarrow>
     jget k a = Some (JStr x) \<Longrightarrow> jget k b = Some (JStr y) \<Longrightarrow> x = y"
  using jget_jsort [of a k] jget_jsort [of b k] by simp

lemma map_option_jsort_JStr: "map_option jsort (map_option JStr x) = map_option JStr x"
  by (cases x) auto

lemma descriptor_determines:
  assumes "source_descriptor cwd s = Inr d" "source_descriptor cwd s' = Inr d'"
    and "jsort d = jsort d'"
  shows "relative_path cwd s = relative_path cwd s' \<and> cs_media s = cs_media s' \<and>
    cs_ref s = cs_ref s' \<and> cs_digest s = cs_digest s'"
proof -
  note wf = source_descriptor_wf [OF assms(1)] source_descriptor_wf [OF assms(2)]
  note f = descriptor_fields [OF assms(1)] and g = descriptor_fields [OF assms(2)]
  have opt: "x = y" if "jget k d = map_option JStr x" "jget k d' = map_option JStr y" for k x y
  proof -
    have "map_option JStr x = map_option JStr y"
      using that assms(3) jget_jsort [OF wf(1), of k] jget_jsort [OF wf(2), of k]
      by (metis map_option_jsort_JStr)
    then show ?thesis
      by (cases x; cases y) auto
  qed
  have "relative_path cwd s = relative_path cwd s'"
    using f(1) g(1) jsort_field_str [OF assms(3) wf] by metis
  moreover have "cs_media s = cs_media s'"
    using f(2) g(2) jsort_field_str [OF assms(3) wf] by metis
  ultimately show ?thesis
    using opt [OF f(3) g(3)] opt [OF f(4) g(4)] by simp
qed

lemma plan_intent_determines:
  assumes "plan_intent cwd a b c s m f = Inr i" "plan_intent cwd a' b' c' s' m' f' = Inr i'"
    and "jsort i = jsort i'"
  shows "a = a' \<and> b = b' \<and> c = c' \<and> m = m' \<and> f = f' \<and>
    relative_path cwd s = relative_path cwd s' \<and> cs_media s = cs_media s' \<and>
    cs_ref s = cs_ref s' \<and> cs_digest s = cs_digest s'"
proof -
  note wf = plan_intent_wf [OF assms(1)] plan_intent_wf [OF assms(2)]
  note F = plan_intent_fields [OF assms(1)] and G = plan_intent_fields [OF assms(2)]
  note eq = jsort_field_str [OF assms(3) wf]
  obtain d d' where d: "source_descriptor cwd s = Inr d" "jget ''source'' i = Some d"
    "source_descriptor cwd s' = Inr d'" "jget ''source'' i' = Some d'"
    using F(6) G(6) by blast
  have "jsort d = jsort d'"
    using d assms(3) jget_jsort [OF wf(1), of "''source''"] jget_jsort [OF wf(2), of "''source''"]
    by simp
  then show ?thesis
    using descriptor_determines [OF d(1,3)] eq [OF F(1) G(1)] eq [OF F(2) G(2)] eq [OF F(3) G(3)]
      eq [OF F(4) G(4)] eq [OF F(5) G(5)] by simp
qed

lemma mk_context_plan_Inr:
  assumes "mk_context_plan cwd a b c s m f = Inr p"
  obtains i where "plan_intent cwd a b c s m f = Inr i" "pl_id p = ''plan:sha256:'' @ sha256_hex (dumps i)"
    "pl_session_id p = a" "pl_task_id p = b" "pl_task p = c" "pl_source p = s" "pl_mode p = m"
    "pl_freshness p = f"
  using assms
  by (auto simp: mk_context_plan_def ok_simps canonical_bytes_def dest!: canonical_json_Inr)

text \<open>
  C14. A plan identifier binds its intent: two plans with the same identifier have the same
  session, task, mode, freshness and the same source descriptor (relative path, media type,
  reference and digest), or the two canonical intents are a SHA-256 collision.
\<close>

theorem plan_id_binds_intent:
  assumes "mk_context_plan cwd a b c s m f = Inr p"
    and "mk_context_plan cwd a' b' c' s' m' f' = Inr p'"
    and "pl_id p = pl_id p'"
  shows "(a = a' \<and> b = b' \<and> c = c' \<and> m = m' \<and> f = f' \<and>
      relative_path cwd s = relative_path cwd s' \<and> cs_media s = cs_media s' \<and>
      cs_ref s = cs_ref s' \<and> cs_digest s = cs_digest s')
    \<or> (\<exists>i i'. plan_intent cwd a b c s m f = Inr i \<and> plan_intent cwd a' b' c' s' m' f' = Inr i' \<and>
         sha256_collision (dumps i) (dumps i'))"
proof -
  obtain i where i: "plan_intent cwd a b c s m f = Inr i"
    "pl_id p = ''plan:sha256:'' @ sha256_hex (dumps i)"
    using mk_context_plan_Inr [OF assms(1)] .
  obtain i' where i': "plan_intent cwd a' b' c' s' m' f' = Inr i'"
    "pl_id p' = ''plan:sha256:'' @ sha256_hex (dumps i')"
    using mk_context_plan_Inr [OF assms(2)] .
  have "dumps i = dumps i' \<or> sha256_collision (dumps i) (dumps i')"
    using i(2) i'(2) assms(3) by (auto simp: sha256_collision_def)
  moreover have "jsort i = jsort i'" if "dumps i = dumps i'"
    using that dumps_inject plan_intent_wf i(1) i'(1) by blast
  ultimately show ?thesis
    using plan_intent_determines [OF i(1) i'(1)] i(1) i'(1) by blast
qed

definition sample_source :: context_source where
  "sample_source = \<lparr>cs_path = ''a.py'', cs_root = ''/p'', cs_media = ''text/plain'',
     cs_ref = None, cs_digest = None\<rparr>"

definition sample_plan :: context_plan where
  "sample_plan = \<lparr>pl_session_id = ''s1'', pl_task_id = ''t1'', pl_task = ''go'',
     pl_source = sample_source, pl_mode = ''aggressive'', pl_freshness = ''reuse'',
     pl_id = ''plan:sha256:'' @ sha256_hex (dumps (JObj [(''intent_version'', JInt 1),
       (''session_id'', JStr ''s1''), (''task_id'', JStr ''t1''), (''task'', JStr ''go''),
       (''source'', JObj [(''path'', JStr ''a.py''), (''media_type'', JStr ''text/plain'')]),
       (''mode'', JStr ''aggressive''), (''freshness'', JStr ''reuse'')]))\<rparr>"

lemma sample_relative_path: "relative_path ''/p'' sample_source = Inr ''a.py''"
  unfolding sample_source_def by code_simp

lemma sample_ptext:
  "ptext n b ''s1'' = (if 2 \<le> n then Inr ''s1'' else Inl ValidationError)"
  "ptext n b ''t1'' = (if 2 \<le> n then Inr ''t1'' else Inl ValidationError)"
  "ptext n b ''go'' = (if 2 \<le> n then Inr ''go'' else Inl ValidationError)"
  by (simp_all add: ptext_def utf8_len_def strict_utf8_def check_def has_nul_def has_control_def)

lemma sample_intent:
  "plan_intent ''/p'' ''s1'' ''t1'' ''go'' sample_source ''aggressive'' ''reuse'' =
     Inr (JObj [(''intent_version'', JInt 1),
       (''session_id'', JStr ''s1''), (''task_id'', JStr ''t1''), (''task'', JStr ''go''),
       (''source'', JObj [(''path'', JStr ''a.py''), (''media_type'', JStr ''text/plain'')]),
       (''mode'', JStr ''aggressive''), (''freshness'', JStr ''reuse'')])"
  by (simp add: plan_intent_def source_descriptor_def sample_relative_path)
    (simp add: sample_source_def opt_item_def)

lemma sample_plan_ok:
  "mk_context_plan ''/p'' ''s1'' ''t1'' ''go'' sample_source ''aggressive'' ''reuse'' = Inr sample_plan"
proof -
  have "json_ok (JObj [(''intent_version'', JInt 1),
       (''session_id'', JStr ''s1''), (''task_id'', JStr ''t1''), (''task'', JStr ''go''),
       (''source'', JObj [(''path'', JStr ''a.py''), (''media_type'', JStr ''text/plain'')]),
       (''mode'', JStr ''aggressive''), (''freshness'', JStr ''reuse'')])"
    by simp
  then show ?thesis
    by (simp add: mk_context_plan_def sample_ptext sample_intent protocol_consts canonical_bytes_def
        canonical_json_ok sample_plan_def del: dumps.simps json_ok.simps)
qed

text \<open>The hypotheses hold of a plan of this source.\<close>

theorem plan_id_binds_intent_witness:
  "\<exists>q. mk_context_plan ''/p'' ''s1'' ''t1'' ''go'' sample_source ''aggressive'' ''reuse'' = Inr q \<and>
    (relative_path ''/p'' sample_source = relative_path ''/p'' sample_source \<or>
     (\<exists>i i'. plan_intent ''/p'' ''s1'' ''t1'' ''go'' sample_source ''aggressive'' ''reuse'' = Inr i \<and>
        plan_intent ''/p'' ''s1'' ''t1'' ''go'' sample_source ''aggressive'' ''reuse'' = Inr i' \<and>
        sha256_collision (dumps i) (dumps i')))"
  using plan_id_binds_intent [OF sample_plan_ok sample_plan_ok refl] sample_plan_ok by blast

section \<open>Verified views\<close>

lemma check_view_Inr:
  "check_view v = Inr w \<Longrightarrow>
     w = v \<and> (vw_output_ref v = None \<longleftrightarrow> vw_output_digest v = None) \<and>
     (\<forall>d t. vw_output_digest v = Some d \<longrightarrow> vw_text v = Some t \<longrightarrow>
        d = sha256_digest t \<and> vw_output_ref v = Some (''output:'' @ remove_prefix ''sha256:'' d)) \<and>
     is_digest (vw_source_digest v) \<and> printable_ascii (vw_source_ref v)"
  by (auto simp: check_view_def ok_simps split: option.splits)

lemma view_verify_parts:
  assumes "view_verify v"
  obtains r d t l refs where "vw_recovery_ref v = Some r" "vw_output_digest v = Some d"
    "vw_text v = Some t" "vw_receipt_link v = Some l" "view_invocation_id v = Some (rl_invocation_id l)"
    "vw_status v = ''succeeded'' \<or> vw_status v = ''degraded''"
    "jget ''source_refs'' (vw_invocation v) = Some (JArr refs)" "JStr (vw_source_ref v) \<in> set refs"
    "get_eq ''output_digest'' (vw_observation v) (Some d)"
    "get_eq ''invocation_id'' (vw_observation v) (Some (rl_invocation_id l))"
  using assms unfolding view_verify_def
  by (fastforce split: if_splits option.splits json.splits simp: list_ex_iff)

text \<open>
  C7. A constructed view that verifies is bound to its evidence: it has a text, its output digest
  is the SHA-256 of that text and its output reference names the same hash, the observation
  reports exactly this digest for the invocation the receipt link names, the source reference is
  one of the invocation's, and a recovery reference exists.
\<close>

theorem verified_view_binds_text:
  assumes "check_view v = Inr w" and "view_verify v"
  shows "\<exists>t l r. vw_text v = Some t \<and> vw_output_digest v = Some (sha256_ref t) \<and>
    vw_output_ref v = Some (''output:'' @ sha256_hex t) \<and>
    jget ''output_digest'' (vw_observation v) = Some (JStr (sha256_ref t)) \<and>
    vw_receipt_link v = Some l \<and>
    jget ''invocation_id'' (vw_observation v) = Some (JStr (rl_invocation_id l)) \<and>
    jget ''invocation_id'' (vw_invocation v) = Some (JStr (rl_invocation_id l)) \<and>
    (\<exists>refs. jget ''source_refs'' (vw_invocation v) = Some (JArr refs) \<and>
      JStr (vw_source_ref v) \<in> set refs) \<and>
    vw_recovery_ref v = Some r \<and> vw_status v \<in> {''succeeded'', ''degraded''}"
proof -
  obtain r d t l refs where p: "vw_recovery_ref v = Some r" "vw_output_digest v = Some d"
    "vw_text v = Some t" "vw_receipt_link v = Some l" "view_invocation_id v = Some (rl_invocation_id l)"
    "vw_status v = ''succeeded'' \<or> vw_status v = ''degraded''"
    "jget ''source_refs'' (vw_invocation v) = Some (JArr refs)" "JStr (vw_source_ref v) \<in> set refs"
    "get_eq ''output_digest'' (vw_observation v) (Some d)"
    "get_eq ''invocation_id'' (vw_observation v) (Some (rl_invocation_id l))"
    using view_verify_parts [OF assms(2)] .
  have d: "d = sha256_ref t" "vw_output_ref v = Some (''output:'' @ sha256_hex t)"
    using check_view_Inr [OF assms(1)] p(2,3)
    by (auto simp: sha256_digest_def sha256_ref_def remove_prefix_def starts_with_def)
  have get: "jget k m = Some (JStr x)" if "get_eq k m (Some x)" for k m x
    using that by (auto simp: get_eq_def opt_str_def split: option.splits)
  have inv: "jget ''invocation_id'' (vw_invocation v) = Some (JStr (rl_invocation_id l))"
    using p(5) by (auto simp: view_invocation_id_def split: option.splits json.splits)
  show ?thesis
    using p d get [OF p(9)] get [OF p(10)] inv by auto
qed

definition sample_link :: receipt_link where
  "sample_link = \<lparr>rl_id = ''r1'', rl_ref = ''receipt:'' @ sha256_ref ''r1'',
     rl_digest = sha256_ref ''r1'', rl_invocation_id = ''inv1''\<rparr>"

definition sample_view :: context_view where
  "sample_view = \<lparr>vw_source = sample_source, vw_text = Some ''ok'',
     vw_output_ref = Some (''output:'' @ sha256_hex ''ok''),
     vw_output_digest = Some (sha256_ref ''ok''), vw_source_ref = ''src:1'',
     vw_source_digest = sha256_ref ''src'', vw_recovery_ref = Some ''rec:1'',
     vw_status = ''succeeded'', vw_measurements = [], vw_failure = None,
     vw_receipt_link = Some sample_link,
     vw_invocation = JObj [(''invocation_id'', JStr ''inv1''), (''source_refs'', JArr [JStr ''src:1''])],
     vw_observation = JObj [(''invocation_id'', JStr ''inv1''),
       (''output_digest'', JStr (sha256_ref ''ok'')),
       (''output_ref'', JStr (''output:'' @ sha256_hex ''ok''))],
     vw_interface_version = ''1.0.0''\<rparr>"

lemma sample_view_checks: "check_view sample_view = Inr sample_view"
proof -
  have "prefixed_hex ''output:'' 64 (''output:'' @ sha256_hex ''ok'')"
    by (auto simp: prefixed_hex_decomp sha256_hex_shape)
  then have "validate_output_ref (''output:'' @ sha256_hex ''ok'') = Inr (''output:'' @ sha256_hex ''ok'')"
    by (simp add: validate_output_ref_Inr)
  moreover have "validate_digest (sha256_ref x) = Inr (sha256_ref x)" for x
    by (simp add: validate_digest_Inr)
  moreover have "validate_ref ''src:1'' = Inr ''src:1''" "validate_ref ''rec:1'' = Inr ''rec:1''"
    by (simp_all add: validate_ref_Inr printable_ascii_def)
  moreover have "remove_prefix ''sha256:'' (sha256_ref x) = sha256_hex x" for x
    by (simp add: remove_prefix_def starts_with_def sha256_ref_def)
  ultimately show ?thesis
    by (simp add: check_view_def sample_view_def utf8_len_def strict_utf8_def protocol_consts opt_check_def
        sha256_digest_def instance_statuses_def)
qed

lemma sample_view_verifies: "view_verify sample_view"
  by (simp add: view_verify_def sample_view_def sample_link_def jget_def get_eq_def opt_str_def
      view_invocation_id_def)

theorem verified_view_binds_text_witness:
  "check_view sample_view = Inr sample_view \<and> view_verify sample_view \<and>
   (\<exists>t l r. vw_text sample_view = Some t \<and> vw_output_digest sample_view = Some (sha256_ref t) \<and>
    vw_output_ref sample_view = Some (''output:'' @ sha256_hex t) \<and>
    jget ''output_digest'' (vw_observation sample_view) = Some (JStr (sha256_ref t)) \<and>
    vw_receipt_link sample_view = Some l \<and>
    jget ''invocation_id'' (vw_observation sample_view) = Some (JStr (rl_invocation_id l)) \<and>
    jget ''invocation_id'' (vw_invocation sample_view) = Some (JStr (rl_invocation_id l)) \<and>
    (\<exists>refs. jget ''source_refs'' (vw_invocation sample_view) = Some (JArr refs) \<and>
      JStr (vw_source_ref sample_view) \<in> set refs) \<and>
    vw_recovery_ref sample_view = Some r \<and> vw_status sample_view \<in> {''succeeded'', ''degraded''})"
  using sample_view_checks sample_view_verifies
    verified_view_binds_text [OF sample_view_checks sample_view_verifies] by blast

end
