(* ===== verification/Session.thy ===== *)
theory Session
  imports Protocol_Facts
begin

text \<open>
  Receipts (\<open>src/leanctx_sdk/receipt.py\<close>) and the session lifecycle
  (\<open>src/leanctx_sdk/session.py\<close>). A method of \<open>ContextSession\<close> takes the session and returns
  the session it leaves together with its result, because a call that raises may already have
  changed the session. What the instance client returned is an argument of the call: a view, or
  an exception with the view it may carry. A host exception is represented by the name of its
  type; the host's own result is never inspected by the code and is left out.
\<close>

section \<open>Receipts\<close>

record ctx_receipt =
  rp_session_id :: pystr
  rp_task_id :: pystr
  rp_plan_id :: "pystr option"
  rp_view :: "context_view option"
  rp_outcome :: pystr
  rp_integrity :: pystr
  rp_degradations :: "pystr list"
  rp_usage :: "json option"
  rp_exception_type :: "pystr option"
  rp_exception :: "pystr option"

definition safe_usage :: "json option \<Rightarrow> json option res" where
  "safe_usage u =
     (case u of None \<Rightarrow> Inr None
      | Some v \<Rightarrow>
          rbind (check (is_obj v) ValidationError) (\<lambda>_.
          rbind (canonical_bytes v) (\<lambda>_. Inr (Some v))))"

definition safe_type_name :: "pystr \<Rightarrow> bool" where
  "safe_type_name t \<longleftrightarrow> CHR '':'' \<notin> set t \<and> CHR 0x0A \<notin> set t"

text \<open>\<open>ContextReceipt.__post_init__\<close>.\<close>

definition check_receipt :: "ctx_receipt \<Rightarrow> ctx_receipt res" where
  "check_receipt r =
     rbind (ptext 512 True (rp_session_id r)) (\<lambda>_.
     rbind (ptext 512 True (rp_task_id r)) (\<lambda>_.
     rbind (case rp_plan_id r of None \<Rightarrow> Inr ()
            | Some p \<Rightarrow> rbind (validate_ref p) (\<lambda>_.
                check (starts_with ''plan:sha256:'' p) ValidationError)) (\<lambda>_.
     rbind (check (rp_outcome r \<in> set host_outcomes) ValidationError) (\<lambda>_.
     rbind (check (rp_integrity r \<in> set integrities) ValidationError) (\<lambda>_.
     rbind (case rp_exception_type r of None \<Rightarrow> Inr ()
            | Some t \<Rightarrow> rbind (ptext 512 True t) (\<lambda>_.
                check (rp_outcome r \<noteq> ''aborted'' \<or> safe_type_name t) ValidationError)) (\<lambda>_.
     rbind (case rp_exception r of None \<Rightarrow> Inr ()
            | Some t \<Rightarrow>
                rbind (check (rp_outcome r = ''aborted'') ValidationError) (\<lambda>_.
                check (rp_exception_type r = Some t) ValidationError)) (\<lambda>_.
     rbind (check (list_all (\<lambda>d. d \<noteq> []) (rp_degradations r)) ValidationError) (\<lambda>_.
     rbind (safe_usage (rp_usage r)) (\<lambda>_.
     rbind (check (rp_integrity r \<noteq> ''sealed'' \<or>
              (case rp_view r of None \<Rightarrow> False | Some v \<Rightarrow> view_verify v)) ValidationError) (\<lambda>_.
     Inr r))))))))))"

definition receipt_sealed :: "ctx_receipt \<Rightarrow> bool" where
  "receipt_sealed r \<longleftrightarrow> rp_integrity r = ''sealed''"

definition receipt_verify :: "ctx_receipt \<Rightarrow> bool" where
  "receipt_verify r \<longleftrightarrow>
     receipt_sealed r \<and> (case rp_view r of None \<Rightarrow> False | Some v \<Rightarrow> view_verify v)"

definition require_verified :: "ctx_receipt \<Rightarrow> unit res" where
  "require_verified r = check (receipt_verify r) ArtifactIntegrityError"

definition receipt_view_field :: "(context_view \<Rightarrow> 'a option) \<Rightarrow> ctx_receipt \<Rightarrow> 'a option" where
  "receipt_view_field f r = (case rp_view r of None \<Rightarrow> None | Some v \<Rightarrow> f v)"

definition receipt_to_dict :: "pystr \<Rightarrow> ctx_receipt \<Rightarrow> json res" where
  "receipt_to_dict cwd r =
     rbind (case rp_view r of None \<Rightarrow> Inr JNull | Some v \<Rightarrow> source_to_dict cwd (vw_source v)) (\<lambda>src.
     Inr (JObj [(''schema_version'', JInt 1), (''session_id'', JStr (rp_session_id r)),
       (''task_id'', JStr (rp_task_id r)), (''plan_id'', opt_str (rp_plan_id r)),
       (''outcome'', JStr (rp_outcome r)), (''integrity_status'', JStr (rp_integrity r)),
       (''degradations'', JArr (map JStr (rp_degradations r))),
       (''usage'', opt_json id (rp_usage r)),
       (''host_exception_type'', opt_str (rp_exception_type r)),
       (''status'', opt_str (receipt_view_field (\<lambda>v. Some (vw_status v)) r)),
       (''source'', src),
       (''invocation'', opt_json id (receipt_view_field
          (\<lambda>v. if obj_items (vw_invocation v) = [] then None else Some (vw_invocation v)) r)),
       (''observation'', opt_json id (receipt_view_field
          (\<lambda>v. if obj_items (vw_observation v) = [] then None else Some (vw_observation v)) r)),
       (''receipt_link'', opt_json receipt_link_to_dict (receipt_view_field vw_receipt_link r)),
       (''recovery_ref'', opt_str (receipt_view_field vw_recovery_ref r)),
       (''output_digest'', opt_str (receipt_view_field vw_output_digest r))]))"

section \<open>Sessions\<close>

datatype session_state = Created | Planned | Executing | Completed | Aborted | Closed

record session =
  ss_task :: pystr
  ss_session_id :: pystr
  ss_task_id :: pystr
  ss_fail_open :: bool
  ss_state :: session_state
  ss_plan :: "context_plan option"
  ss_view :: "context_view option"
  ss_receipt :: "ctx_receipt option"
  ss_prepared :: bool
  ss_degradations :: "pystr list"

text \<open>
  \<open>ContextSession.__init__\<close>. An identifier that is missing or empty is replaced by a fresh
  one, which is an argument here (\<open>_runtime_id\<close> draws it at random).
\<close>

definition mk_session ::
  "pystr \<Rightarrow> pystr option \<Rightarrow> pystr option \<Rightarrow> bool \<Rightarrow> pystr \<Rightarrow> pystr \<Rightarrow> session res" where
  "mk_session task session_id task_id fail_open fresh_session fresh_task =
     rbind (ptext MAX_TASK_BYTES False task) (\<lambda>t.
     let pick = (\<lambda>x fresh. case x of None \<Rightarrow> fresh | Some s \<Rightarrow> if s = [] then fresh else s) in
     Inr \<lparr>ss_task = t, ss_session_id = pick session_id fresh_session,
       ss_task_id = pick task_id fresh_task, ss_fail_open = fail_open, ss_state = Created,
       ss_plan = None, ss_view = None, ss_receipt = None, ss_prepared = False,
       ss_degradations = []\<rparr>)"

definition terminal :: "session_state \<Rightarrow> bool" where
  "terminal s \<longleftrightarrow> s \<in> {Completed, Aborted, Closed}"

definition add_degradation :: "pystr \<Rightarrow> session \<Rightarrow> session" where
  "add_degradation d s =
     (if d \<in> set (ss_degradations s) then s
      else s\<lparr>ss_degradations := ss_degradations s @ [d]\<rparr>)"

definition make_receipt ::
  "session \<Rightarrow> pystr \<Rightarrow> json option \<Rightarrow> pystr option \<Rightarrow> pystr option \<Rightarrow> ctx_receipt res" where
  "make_receipt s outcome usage exception_type host_exception =
     check_receipt
       \<lparr>rp_session_id = ss_session_id s, rp_task_id = ss_task_id s,
        rp_plan_id = map_option pl_id (ss_plan s), rp_view = ss_view s, rp_outcome = outcome,
        rp_integrity = (case ss_view s of None \<Rightarrow> ''unsealed'' | Some v \<Rightarrow> view_integrity v),
        rp_degradations = ss_degradations s, rp_usage = usage,
        rp_exception_type = exception_type, rp_exception = host_exception\<rparr>"

definition plan_session ::
  "pystr \<Rightarrow> context_source \<Rightarrow> pystr \<Rightarrow> pystr \<Rightarrow> session \<Rightarrow> session \<times> context_plan res" where
  "plan_session cwd source mode freshness s =
     (if terminal (ss_state s) then (s, Inl SessionStateError)
      else (case mk_context_plan cwd (ss_session_id s) (ss_task_id s) (ss_task s) source mode freshness of
        Inl e \<Rightarrow> (s, Inl e)
      | Inr candidate \<Rightarrow>
          (case ss_plan s of
            Some p \<Rightarrow>
              if pl_id p \<noteq> pl_id candidate then (s, Inl SessionStateError) else (s, Inr p)
          | None \<Rightarrow> (s\<lparr>ss_plan := Some candidate, ss_state := Planned\<rparr>, Inr candidate))))"

text \<open>\<open>_abort_engine_failure\<close>; \<open>None\<close> when building the receipt raises instead.\<close>

definition abort_engine_failure ::
  "exn \<Rightarrow> context_view option \<Rightarrow> session \<Rightarrow> session \<times> exn option" where
  "abort_engine_failure e carried s =
     (let s1 = (if is_instance e InstanceExecutionError \<and> carried \<noteq> None
                then s\<lparr>ss_view := carried\<rparr> else s);
          s2 = add_degradation (''engine:'' @ code_or_engine_error e) s1
      in case make_receipt s2 ''aborted'' None None None of
           Inl e' \<Rightarrow> (s2, Some e')
         | Inr r \<Rightarrow> (s2\<lparr>ss_receipt := Some r, ss_state := Aborted\<rparr>, None))"

type_synonym engine_reply = "(exn \<times> context_view option) + context_view"

definition run_engine :: "engine_reply \<Rightarrow> session \<Rightarrow> session \<times> context_view option res" where
  "run_engine reply s0 =
     (let s = s0\<lparr>ss_state := Executing\<rparr> in
      case reply of
        Inr v \<Rightarrow>
          (let s1 = s\<lparr>ss_view := Some v, ss_prepared := True\<rparr>
           in ((if vw_status v = ''degraded'' then add_degradation ''engine:degraded'' s1 else s1),
               Inr (Some v)))
      | Inl (e, carried) \<Rightarrow>
          if (e = InstanceUnavailable \<or> e = InstanceTimeout) \<and> ss_fail_open s then
            ((add_degradation (''engine:'' @ code_or_engine_error e) s)
               \<lparr>ss_prepared := True, ss_view := None\<rparr>, Inr None)
          else (case abort_engine_failure e carried s of
            (s', None) \<Rightarrow> (s', Inl e)
          | (s', Some e') \<Rightarrow> (s', Inl e')))"

definition prepare ::
  "pystr \<Rightarrow> context_source option \<Rightarrow> pystr \<Rightarrow> pystr \<Rightarrow> engine_reply \<Rightarrow> session \<Rightarrow>
     session \<times> context_view option res" where
  "prepare cwd source mode freshness reply s =
     (if terminal (ss_state s) then (s, Inl SessionStateError)
      else if ss_prepared s then (s, Inr (ss_view s))
      else (case source of
        None \<Rightarrow>
          if ss_plan s = None then (s, Inl SessionStateError) else run_engine reply s
      | Some src \<Rightarrow>
          (case plan_session cwd src mode freshness s of
            (s', Inl e) \<Rightarrow> (s', Inl e)
          | (s', Inr _) \<Rightarrow> run_engine reply s')))"

definition same_completion :: "ctx_receipt \<Rightarrow> pystr \<Rightarrow> json option \<Rightarrow> bool" where
  "same_completion r outcome usage =
     (if outcome \<noteq> rp_outcome r then False
      else (case (opt_check canonical_bytes (rp_usage r), opt_check canonical_bytes usage) of
        (Inr l, Inr u) \<Rightarrow> l = u
      | _ \<Rightarrow> False))"

definition complete :: "pystr \<Rightarrow> json option \<Rightarrow> session \<Rightarrow> session \<times> ctx_receipt res" where
  "complete outcome usage s =
     (case ss_state s of
       Completed \<Rightarrow>
         (case ss_receipt s of
           None \<Rightarrow> (s, Inl SessionStateError)
         | Some r \<Rightarrow>
             if same_completion r outcome usage then (s, Inr r) else (s, Inl SessionStateError))
     | Executing \<Rightarrow>
         if outcome \<notin> {''unknown'', ''accepted'', ''rejected'', ''completed'', ''failed''}
         then (s, Inl ValidationError)
         else (case make_receipt s outcome usage None None of
           Inl e \<Rightarrow> (s, Inl e)
         | Inr r \<Rightarrow> (s\<lparr>ss_receipt := Some r, ss_state := Completed\<rparr>, Inr r))
     | _ \<Rightarrow> (s, Inl SessionStateError))"

definition abort :: "pystr \<Rightarrow> session \<Rightarrow> session \<times> ctx_receipt res" where
  "abort type_name s =
     (case ss_state s of
       Aborted \<Rightarrow>
         (case ss_receipt s of None \<Rightarrow> (s, Inl SessionStateError) | Some r \<Rightarrow> (s, Inr r))
     | Closed \<Rightarrow>
         (case ss_receipt s of
           Some r \<Rightarrow> if rp_outcome r = ''aborted'' then (s, Inr r) else (s, Inl SessionStateError)
         | None \<Rightarrow> (s, Inl SessionStateError))
     | Completed \<Rightarrow> (s, Inl SessionStateError)
     | _ \<Rightarrow>
         (case make_receipt s ''aborted'' None (Some type_name) (Some type_name) of
           Inl e \<Rightarrow> (s, Inl e)
         | Inr r \<Rightarrow> (s\<lparr>ss_receipt := Some r, ss_state := Aborted\<rparr>, Inr r)))"

text \<open>
  \<open>recover\<close> is given no view, the session's own view, or another one (Python compares identity).
\<close>

datatype view_arg = NoView | OwnView | OtherView context_view

definition recover ::
  "pystr \<Rightarrow> view_arg \<Rightarrow> recovered res \<Rightarrow> session \<Rightarrow> recovered res" where
  "recover cwd arg reply s =
     rbind (check (ss_state s \<in> {Executing, Completed, Aborted}) SessionStateError) (\<lambda>_.
     let selected = (case arg of OtherView v \<Rightarrow> Some v | _ \<Rightarrow> ss_view s) in
     case (selected, ss_plan s) of
       (Some v, Some p) \<Rightarrow>
         rbind (case arg of
                  OtherView w \<Rightarrow>
                    (case ss_view s of
                      None \<Rightarrow> Inl RecoveryUnavailableError
                    | Some u \<Rightarrow>
                        rbind (recovery_binding w) (\<lambda>b.
                        rbind (recovery_binding u) (\<lambda>c. check (b = c) RecoveryUnavailableError)))
                | _ \<Rightarrow> Inr ()) (\<lambda>_.
         rbind (check (vw_recovery_ref v \<noteq> None) RecoveryUnavailableError) (\<lambda>_.
         rbind (relative_path cwd (pl_source p)) (\<lambda>_.
         rbind reply (\<lambda>r.
         rbind (check (Some (rc_recovery_ref r) = vw_recovery_ref v \<and>
             rc_source_ref r = vw_source_ref v \<and> rc_source_digest r = vw_source_digest v)
           ArtifactIntegrityError) (\<lambda>_. Inr r)))))
     | _ \<Rightarrow> Inl RecoveryUnavailableError)"

definition close_session :: "session \<Rightarrow> session \<times> unit res" where
  "close_session s =
     (if ss_state s = Closed then (s, Inr ())
      else if ss_state s \<in> {Completed, Aborted} then (s\<lparr>ss_state := Closed\<rparr>, Inr ())
      else (s, Inl SessionStateError))"

section \<open>Runs\<close>

datatype session_op =
    OpPlan context_source pystr pystr
  | OpPrepare "context_source option" pystr pystr engine_reply
  | OpComplete pystr "json option"
  | OpAbort pystr
  | OpRecover view_arg "recovered res"
  | OpClose

fun session_step :: "pystr \<Rightarrow> session \<Rightarrow> session_op \<Rightarrow> session" where
  "session_step cwd s (OpPlan src m f) = fst (plan_session cwd src m f s)"
| "session_step cwd s (OpPrepare src m f reply) = fst (prepare cwd src m f reply s)"
| "session_step cwd s (OpComplete outcome usage) = fst (complete outcome usage s)"
| "session_step cwd s (OpAbort t) = fst (abort t s)"
| "session_step cwd s (OpRecover v reply) = s"
| "session_step cwd s OpClose = fst (close_session s)"

definition session_run :: "pystr \<Rightarrow> session \<Rightarrow> session_op list \<Rightarrow> session" where
  "session_run cwd s ops = foldl (session_step cwd) s ops"

end
