(* ===== verification/Session_Facts.thy ===== *)
theory Session_Facts
  imports Session
begin

text \<open>
  The session lifecycle as a state machine: an invariant that relates the state to the plan,
  the view and the receipt, the moves a call can make, and the write-once fields.
\<close>

section \<open>An interface: step functions with an invariant\<close>

text \<open>
  A machine that runs a list of operations and an invariant every operation keeps. The journal
  and the session are both such machines.
\<close>

locale machine =
  fixes step :: "'s \<Rightarrow> 'o \<Rightarrow> 's"
    and inv :: "'s \<Rightarrow> bool"
  assumes step_inv: "inv s \<Longrightarrow> inv (step s x)"
begin

lemma run_inv: "inv s \<Longrightarrow> inv (foldl step s xs)"
  by (induction xs arbitrary: s) (auto simp: step_inv)

lemma run_keeps:
  assumes keep: "\<And>s x. inv s \<Longrightarrow> P s \<Longrightarrow> P (step s x)"
    and "inv s" "P s"
  shows "P (foldl step s xs)"
  using assms(2,3)
  by (induction xs arbitrary: s) (auto simp: step_inv keep)

end

section \<open>The moves\<close>

inductive session_move :: "session_state \<Rightarrow> session_state \<Rightarrow> bool" where
  stay: "session_move s s"
| planned: "session_move Created Planned"
| executing: "s \<in> {Created, Planned} \<Longrightarrow> session_move s Executing"
| completed: "session_move Executing Completed"
| aborted: "s \<in> {Created, Planned, Executing} \<Longrightarrow> session_move s Aborted"
| closed: "s \<in> {Completed, Aborted} \<Longrightarrow> session_move s Closed"

inductive_simps from_closed [simp]: "session_move Closed t"
inductive_simps from_completed: "session_move Completed t"
inductive_simps from_aborted: "session_move Aborted t"
inductive_cases into_completed: "session_move s Completed"

lemmas session_defs = plan_session_def prepare_def run_engine_def abort_engine_failure_def
  complete_def abort_def close_session_def add_degradation_def terminal_def

lemmas session_splits = if_splits option.splits sum.splits prod.splits session_state.splits

section \<open>Receipts built by a session\<close>

lemma check_receipt_id: "check_receipt r = Inr r' \<Longrightarrow> r' = r"
  by (auto simp: check_receipt_def ok_simps)

lemma check_receipt_sealed:
  "check_receipt r = Inr r' \<Longrightarrow> receipt_sealed r \<Longrightarrow> \<exists>v. rp_view r = Some v \<and> view_verify v"
  by (auto simp: check_receipt_def ok_simps receipt_sealed_def split: option.splits)

lemma make_receipt_fields:
  assumes "make_receipt s outcome usage t x = Inr r"
  shows "rp_session_id r = ss_session_id s" "rp_task_id r = ss_task_id s"
    "rp_plan_id r = map_option pl_id (ss_plan s)" "rp_view r = ss_view s" "rp_outcome r = outcome"
    "rp_degradations r = ss_degradations s" "rp_usage r = usage"
    "rp_integrity r = (case ss_view s of None \<Rightarrow> ''unsealed'' | Some v \<Rightarrow> view_integrity v)"
    "check_receipt r = Inr r"
  using assms check_receipt_id unfolding make_receipt_def by fastforce+

definition plan_ok :: "session \<Rightarrow> context_plan \<Rightarrow> bool" where
  "plan_ok s p \<longleftrightarrow>
     pl_session_id p = ss_session_id s \<and> pl_task_id p = ss_task_id s \<and> pl_task p = ss_task s \<and>
     ptext 512 True (ss_session_id s) = Inr (ss_session_id s) \<and>
     ptext 512 True (ss_task_id s) = Inr (ss_task_id s) \<and>
     (\<exists>h. pl_id p = ''plan:sha256:'' @ h \<and> length h = 64 \<and> list_all is_hex h)"

lemma mk_context_plan_ok:
  assumes "mk_context_plan cwd (ss_session_id s) (ss_task_id s) (ss_task s) src m f = Inr p"
  shows "plan_ok s p"
  using assms
  by (auto simp: mk_context_plan_def plan_ok_def ok_simps sha256_hex_shape protocol_consts)

lemma plan_id_valid:
  "length h = 64 \<Longrightarrow> list_all is_hex h \<Longrightarrow>
     validate_ref (''plan:sha256:'' @ h) = Inr (''plan:sha256:'' @ h)"
  by (auto simp: validate_ref_Inr printable_ascii_def list_all_iff is_hex_ascii)

lemma make_receipt_ok:
  assumes "ss_plan s = Some p" "plan_ok s p" "list_all (\<lambda>d. d \<noteq> []) (ss_degradations s)"
    and "outcome \<in> set host_outcomes"
  shows "\<exists>r. make_receipt s outcome None None None = Inr r"
proof -
  obtain h where h: "pl_id p = ''plan:sha256:'' @ h" "length h = 64" "list_all is_hex h"
    using assms(2) by (auto simp: plan_ok_def)
  have "view_integrity v \<in> set integrities" for v
    by (simp add: view_integrity_def integrities_def)
  then show ?thesis
    using assms plan_id_valid [OF h(2,3)]
    by (auto simp: make_receipt_def check_receipt_def plan_ok_def h starts_with_def
        safe_usage_def view_integrity_def integrities_def split: option.splits)
qed

section \<open>The invariant\<close>

text \<open>What the session's receipt says of the session it was made by.\<close>

definition receipt_of :: "session \<Rightarrow> ctx_receipt \<Rightarrow> bool" where
  "receipt_of s r \<longleftrightarrow>
     check_receipt r = Inr r \<and> rp_session_id r = ss_session_id s \<and>
     rp_task_id r = ss_task_id s \<and> rp_plan_id r = map_option pl_id (ss_plan s) \<and>
     rp_view r = ss_view s \<and> rp_degradations r = ss_degradations s \<and>
     rp_integrity r = (case ss_view s of None \<Rightarrow> ''unsealed'' | Some v \<Rightarrow> view_integrity v)"

definition plan_part :: "session \<Rightarrow> bool" where
  "plan_part s \<longleftrightarrow>
     (case ss_plan s of None \<Rightarrow> ss_view s = None | Some p \<Rightarrow> plan_ok s p) \<and>
     list_all (\<lambda>d. d \<noteq> []) (ss_degradations s)"

definition has_receipt :: "(pystr \<Rightarrow> bool) \<Rightarrow> session \<Rightarrow> bool" where
  "has_receipt P s \<longleftrightarrow>
     (case ss_receipt s of None \<Rightarrow> False | Some r \<Rightarrow> receipt_of s r \<and> P (rp_outcome r))"

definition state_part :: "session \<Rightarrow> bool" where
  "state_part s \<longleftrightarrow>
     (case ss_state s of
        Created \<Rightarrow> ss_plan s = None \<and> ss_receipt s = None \<and> \<not> ss_prepared s \<and> ss_view s = None
      | Planned \<Rightarrow> ss_plan s \<noteq> None \<and> ss_receipt s = None \<and> \<not> ss_prepared s \<and> ss_view s = None
      | Executing \<Rightarrow> ss_plan s \<noteq> None \<and> ss_receipt s = None \<and> ss_prepared s
      | Completed \<Rightarrow> ss_plan s \<noteq> None \<and> ss_prepared s \<and> has_receipt (\<lambda>x. x \<noteq> ''aborted'') s
      | Aborted \<Rightarrow> has_receipt (\<lambda>x. x = ''aborted'') s
      | Closed \<Rightarrow> has_receipt (\<lambda>_. True) s)"

definition session_inv :: "session \<Rightarrow> bool" where
  "session_inv s \<longleftrightarrow> plan_part s \<and> state_part s"

lemma session_inv_initial:
  "mk_session task sid tid fo fs ft = Inr s \<Longrightarrow> session_inv s"
  by (auto simp: mk_session_def session_inv_def plan_part_def state_part_def ok_simps Let_def)

lemma plan_ok_cong [simp]:
  "plan_ok (s\<lparr>ss_plan := a\<rparr>) p = plan_ok s p" "plan_ok (s\<lparr>ss_state := b\<rparr>) p = plan_ok s p"
  "plan_ok (s\<lparr>ss_view := c\<rparr>) p = plan_ok s p" "plan_ok (s\<lparr>ss_prepared := d\<rparr>) p = plan_ok s p"
  "plan_ok (s\<lparr>ss_receipt := e\<rparr>) p = plan_ok s p"
  "plan_ok (s\<lparr>ss_degradations := g\<rparr>) p = plan_ok s p"
  by (simp_all add: plan_ok_def)

lemma receipt_of_cong [simp]:
  "receipt_of (s\<lparr>ss_state := b\<rparr>) r = receipt_of s r"
  "receipt_of (s\<lparr>ss_receipt := e\<rparr>) r = receipt_of s r"
  "receipt_of (s\<lparr>ss_prepared := d\<rparr>) r = receipt_of s r"
  by (simp_all add: receipt_of_def)

lemma plan_part_cong [simp]:
  "plan_part (s\<lparr>ss_state := b\<rparr>) = plan_part s"
  "plan_part (s\<lparr>ss_receipt := e\<rparr>) = plan_part s"
  "plan_part (s\<lparr>ss_prepared := d\<rparr>) = plan_part s"
  by (simp_all add: plan_part_def split: option.split)

lemma plan_part_degraded: "plan_part s \<Longrightarrow> d \<noteq> [] \<Longrightarrow> plan_part (add_degradation d s)"
  by (simp add: plan_part_def add_degradation_def split: option.splits)

lemma make_receipt_of: "make_receipt s outcome usage t x = Inr r \<Longrightarrow> receipt_of s r"
  using make_receipt_fields by (simp add: receipt_of_def)

lemma add_degradation_fields [simp]:
  "ss_state (add_degradation d s) = ss_state s" "ss_plan (add_degradation d s) = ss_plan s"
  "ss_view (add_degradation d s) = ss_view s" "ss_receipt (add_degradation d s) = ss_receipt s"
  "ss_prepared (add_degradation d s) = ss_prepared s"
  "plan_ok (add_degradation d s) p = plan_ok s p"
  by (simp_all add: add_degradation_def)

text \<open>Ending a session with a receipt it has just made.\<close>

lemma ended_inv:
  assumes "plan_part s" "receipt_of s r"
    and "st = Aborted \<and> rp_outcome r = ''aborted'' \<or>
         st = Completed \<and> ss_plan s \<noteq> None \<and> ss_prepared s \<and> rp_outcome r \<noteq> ''aborted''"
  shows "session_inv (s\<lparr>ss_receipt := Some r, ss_state := st\<rparr>)"
  using assms by (auto simp: session_inv_def state_part_def has_receipt_def)

lemma plan_session_cases:
  assumes "plan_session cwd src m f s = (s', r)"
  obtains (same) "s' = s" | (new) p where "ss_plan s = None" "\<not> terminal (ss_state s)"
      "plan_ok s p" "s' = s\<lparr>ss_plan := Some p, ss_state := Planned\<rparr>" "r = Inr p"
proof (cases "terminal (ss_state s) \<or> ss_plan s \<noteq> None")
  case True
  then show ?thesis
    using assms by (intro same) (auto simp: plan_session_def split: if_splits sum.splits)
next
  case False
  show ?thesis
  proof (cases "mk_context_plan cwd (ss_session_id s) (ss_task_id s) (ss_task s) src m f")
    case (Inl e)
    then show ?thesis using assms False by (intro same) (simp add: plan_session_def)
  next
    case (Inr p)
    then show ?thesis
      using assms False mk_context_plan_ok [OF Inr] by (intro new) (auto simp: plan_session_def)
  qed
qed

text \<open>Before a session ends: its states, with what the invariant says of each.\<close>

lemma unplanned_state:
  "session_inv s \<Longrightarrow> ss_plan s = None \<Longrightarrow> \<not> terminal (ss_state s) \<Longrightarrow>
     ss_state s = Created \<and> ss_receipt s = None \<and> \<not> ss_prepared s \<and> ss_view s = None"
  by (cases "ss_state s") (simp_all add: session_inv_def state_part_def terminal_def)

lemma running_receipt:
  "session_inv s \<Longrightarrow> ss_receipt s = None \<longleftrightarrow> \<not> terminal (ss_state s)"
  by (cases "ss_state s")
    (auto simp: session_inv_def state_part_def terminal_def has_receipt_def split: option.splits)

lemma plan_session_inv: "session_inv s \<Longrightarrow> session_inv (fst (plan_session cwd src m f s))"
proof (cases "plan_session cwd src m f s")
  case (Pair s' r)
  assume inv: "session_inv s"
  from Pair show ?thesis
  proof (cases rule: plan_session_cases)
    case (new p)
    then show ?thesis
      using unplanned_state [OF inv] inv Pair
      by (simp add: session_inv_def plan_part_def state_part_def)
  qed (simp add: inv Pair)
qed

lemma run_engine_failed:
  assumes "\<not> ((e = InstanceUnavailable \<or> e = InstanceTimeout) \<and> ss_fail_open s)"
  shows "run_engine (Inl (e, carried)) s =
    (case abort_engine_failure e carried (s\<lparr>ss_state := Executing\<rparr>) of
       (s', None) \<Rightarrow> (s', Inl e) | (s', Some e') \<Rightarrow> (s', Inl e'))"
  unfolding run_engine_def Let_def sum.case prod.case
  by (subst if_not_P) (use assms in \<open>simp_all\<close>)

text \<open>An engine failure that is not tolerated ends the session with an aborted receipt.\<close>

lemma in_add_degradation: "d \<in> set (ss_degradations (add_degradation d s))"
  by (simp add: add_degradation_def)

lemma engine_failure_aborts:
  assumes inv: "session_inv s" and p: "ss_plan s = Some p" and nt: "\<not> terminal (ss_state s)"
    and strict: "\<not> ((e = InstanceUnavailable \<or> e = InstanceTimeout) \<and> ss_fail_open s)"
  shows "\<exists>t a. run_engine (Inl (e, carried)) s = (t, Inl e) \<and> ss_state t = Aborted \<and>
    plan_part t \<and> ss_receipt t = Some a \<and> receipt_of t a \<and> rp_outcome a = ''aborted'' \<and>
    ss_plan t = Some p \<and> ''engine:'' @ code_or_engine_error e \<in> set (ss_degradations t)"
proof -
  have part: "plan_part s" and ok: "plan_ok s p"
    using inv p by (simp_all add: session_inv_def plan_part_def)
  define s1 where "s1 = (if is_instance e InstanceExecutionError \<and> carried \<noteq> None
     then s\<lparr>ss_state := Executing, ss_view := carried\<rparr> else s\<lparr>ss_state := Executing\<rparr>)"
  define s2 where "s2 = add_degradation (''engine:'' @ code_or_engine_error e) s1"
  have s1: "plan_part s1" "ss_plan s1 = Some p" "plan_ok s1 p"
    using part p ok by (simp_all add: s1_def plan_part_def)
  have s2: "plan_part s2" "ss_plan s2 = Some p" "plan_ok s2 p"
    using s1 by (simp_all add: s2_def plan_part_degraded)
  then obtain r where r: "make_receipt s2 ''aborted'' None None None = Inr r"
    using make_receipt_ok [of s2 p "''aborted''"] by (auto simp: plan_part_def host_outcomes_def)
  have "abort_engine_failure e carried (s\<lparr>ss_state := Executing\<rparr>) =
      (s2\<lparr>ss_receipt := Some r, ss_state := Aborted\<rparr>, None)"
    using r by (cases "is_instance e InstanceExecutionError \<and> carried \<noteq> None")
      (auto simp: abort_engine_failure_def Let_def s2_def s1_def)
  then have "run_engine (Inl (e, carried)) s =
      (s2\<lparr>ss_receipt := Some r, ss_state := Aborted\<rparr>, Inl e)"
    using run_engine_failed [OF strict] by simp
  then show ?thesis
    using s2 make_receipt_of [OF r] make_receipt_fields(5) [OF r] in_add_degradation
    by (auto simp: s2_def)
qed

lemma run_engine_inv:
  assumes inv: "session_inv s" and p: "ss_plan s = Some p" and nt: "\<not> terminal (ss_state s)"
  shows "session_inv (fst (run_engine reply s))"
proof -
  have part: "plan_part s" and r0: "ss_receipt s = None"
    using inv running_receipt [OF inv] nt by (simp_all add: session_inv_def)
  show ?thesis
  proof (cases reply)
    case (Inr v)
    then show ?thesis
      using part p r0
      by (simp add: run_engine_def session_inv_def plan_part_def state_part_def
          add_degradation_def Let_def)
  next
    case (Inl ec)
    obtain e carried where ec: "ec = (e, carried)" by (cases ec)
    show ?thesis
    proof (cases "(e = InstanceUnavailable \<or> e = InstanceTimeout) \<and> ss_fail_open s")
      case True
      then have "fst (run_engine reply s) =
          (add_degradation (''engine:'' @ code_or_engine_error e) (s\<lparr>ss_state := Executing\<rparr>))
            \<lparr>ss_prepared := True, ss_view := None\<rparr>"
        by (simp add: run_engine_def Inl ec Let_def)
      then show ?thesis
        using part p r0
        by (simp add: session_inv_def plan_part_def state_part_def add_degradation_def)
    next
      case False
      then show ?thesis
        using engine_failure_aborts [OF inv p nt False, of carried]
        by (auto simp: Inl ec session_inv_def state_part_def has_receipt_def)
    qed
  qed
qed

lemma prepare_inv: "session_inv s \<Longrightarrow> session_inv (fst (prepare cwd src m f reply s))"
proof (cases "terminal (ss_state s) \<or> ss_prepared s")
  case True
  then show "session_inv s \<Longrightarrow> ?thesis" by (auto simp: prepare_def)
next
  case False
  assume inv: "session_inv s"
  show ?thesis
  proof (cases src)
    case None
    then show ?thesis
      using False inv by (auto simp: prepare_def intro: run_engine_inv)
  next
    case (Some c)
    obtain s' r where ps: "plan_session cwd c m f s = (s', r)" by fastforce
    have inv': "session_inv s'"
      using plan_session_inv [OF inv, of cwd c m f] ps by simp
    show ?thesis
    proof (cases r)
      case (Inl e)
      then show ?thesis using False Some ps inv' by (simp add: prepare_def)
    next
      case (Inr p)
      from ps have "\<not> terminal (ss_state s')"
        by (cases rule: plan_session_cases) (use False in \<open>auto simp: terminal_def\<close>)
      moreover from ps have "ss_plan s' \<noteq> None"
        by (auto simp: Inr plan_session_def split: if_splits option.splits sum.splits)
      ultimately show ?thesis
        using False Some ps Inr inv' by (auto simp: prepare_def intro: run_engine_inv)
    qed
  qed
qed

lemma complete_inv: "session_inv s \<Longrightarrow> session_inv (fst (complete outcome usage s))"
proof (cases "ss_state s")
  case Executing
  assume inv: "session_inv s"
  show ?thesis
  proof (cases "make_receipt s outcome usage None None")
    case (Inl e)
    then show ?thesis using inv Executing by (simp add: complete_def)
  next
    case (Inr r)
    show ?thesis
      using inv Executing Inr make_receipt_of [OF Inr] make_receipt_fields(5) [OF Inr]
      by (auto simp: complete_def session_inv_def state_part_def has_receipt_def)
  qed
qed (auto simp: complete_def split: option.splits)

lemma abort_running:
  "\<not> terminal (ss_state s) \<Longrightarrow> abort t s =
     (case make_receipt s ''aborted'' None (Some t) (Some t) of
        Inl e \<Rightarrow> (s, Inl e)
      | Inr r \<Rightarrow> (s\<lparr>ss_receipt := Some r, ss_state := Aborted\<rparr>, Inr r))"
  by (cases "ss_state s") (simp_all add: abort_def terminal_def)

lemma abort_ended: "terminal (ss_state s) \<Longrightarrow> fst (abort t s) = s"
  by (cases "ss_state s"; cases "ss_receipt s") (simp_all add: abort_def terminal_def)

lemma abort_cases:
  obtains (same) "fst (abort t s) = s"
  | (made) r where "\<not> terminal (ss_state s)"
      "make_receipt s ''aborted'' None (Some t) (Some t) = Inr r"
      "abort t s = (s\<lparr>ss_receipt := Some r, ss_state := Aborted\<rparr>, Inr r)"
proof (cases "terminal (ss_state s)")
  case True
  then show ?thesis using that(1) abort_ended by blast
next
  case False
  then show ?thesis
    using that abort_running [OF False, of t]
    by (cases "make_receipt s ''aborted'' None (Some t) (Some t)") simp_all
qed

lemma abort_inv: "session_inv s \<Longrightarrow> session_inv (fst (abort t s))"
  by (cases rule: abort_cases [of t s])
    (auto simp: session_inv_def [of s] intro: ended_inv make_receipt_of
       dest: make_receipt_fields(5))

lemma close_inv: "session_inv s \<Longrightarrow> session_inv (fst (close_session s))"
  by (cases "ss_state s")
    (auto simp: close_session_def session_inv_def state_part_def has_receipt_def
       split: option.splits)

lemma session_step_inv: "session_inv s \<Longrightarrow> session_inv (session_step cwd s x)"
  by (cases x) (auto intro: plan_session_inv prepare_inv complete_inv abort_inv close_inv)

interpretation sm: machine "session_step cwd" session_inv for cwd
  by unfold_locales (rule session_step_inv)

section \<open>Moves and write-once fields\<close>

lemma plan_session_move:
  "session_inv s \<Longrightarrow> session_move (ss_state s) (ss_state (fst (plan_session cwd src m f s)))"
proof (cases "plan_session cwd src m f s")
  case (Pair s' r)
  assume inv: "session_inv s"
  from Pair show ?thesis
    by (cases rule: plan_session_cases)
      (use unplanned_state [OF inv] Pair in \<open>auto intro: session_move.intros\<close>)
qed

lemma plan_session_running:
  assumes "plan_session cwd src m f s = (s', r)" "\<not> terminal (ss_state s)"
  shows "ss_state s' \<in> {ss_state s, Planned}"
  using assms(1) by (cases rule: plan_session_cases) auto

lemma run_engine_state:
  "ss_state (fst (run_engine reply s)) \<in> {Executing, Aborted}"
  by (cases reply)
    (auto simp: run_engine_def abort_engine_failure_def Let_def split: if_splits sum.splits)

lemma run_engine_fields [simp]: "ss_plan (fst (run_engine reply s)) = ss_plan s"
  by (cases reply)
    (auto simp: run_engine_def abort_engine_failure_def Let_def split: if_splits sum.splits)

lemma run_engine_move:
  "\<not> terminal a \<Longrightarrow> session_move a (ss_state (fst (run_engine reply s)))"
  using run_engine_state [of reply s]
  by (cases a) (auto simp: terminal_def intro: session_move.intros)

lemma prepare_cases:
  obtains (idle) "fst (prepare cwd src m f reply s) = s"
  | (engine) "\<not> terminal (ss_state s)"
      "fst (prepare cwd src m f reply s) = fst (run_engine reply s)"
  | (planned) c where "src = Some c" "\<not> terminal (ss_state s)"
      "fst (prepare cwd src m f reply s) = fst (plan_session cwd c m f s)"
  | (both) c where "src = Some c" "\<not> terminal (ss_state s)"
      "fst (prepare cwd src m f reply s) = fst (run_engine reply (fst (plan_session cwd c m f s)))"
proof (cases "terminal (ss_state s) \<or> ss_prepared s")
  case True
  then show ?thesis by (intro idle) (auto simp: prepare_def)
next
  case False
  show ?thesis
  proof (cases src)
    case None
    then show ?thesis
      using False idle engine by (cases "ss_plan s = None") (auto simp: prepare_def)
  next
    case (Some c)
    obtain s' r where ps: "plan_session cwd c m f s = (s', r)" by fastforce
    then show ?thesis
      using False Some planned both by (cases r) (auto simp: prepare_def)
  qed
qed

lemma prepare_move:
  assumes inv: "session_inv s"
  shows "session_move (ss_state s) (ss_state (fst (prepare cwd src m f reply s)))"
proof (cases rule: prepare_cases [of cwd src m f reply s])
  case (planned c)
  then show ?thesis using plan_session_move [OF inv, of cwd c m f] by simp
qed (auto intro: session_move.intros run_engine_move)

lemma session_step_move:
  assumes inv: "session_inv s"
  shows "session_move (ss_state s) (ss_state (session_step cwd s x))"
proof (cases x)
  case (OpComplete outcome usage)
  then show ?thesis
    by (cases "ss_state s")
      (auto simp: complete_def intro: session_move.intros split: sum.splits option.splits)
next
  case (OpAbort t)
  from inv show ?thesis
    by (cases rule: abort_cases [of t s])
      (auto simp: OpAbort terminal_def intro!: session_move.intros, cases "ss_state s", auto)
next
  case OpClose
  then show ?thesis
    by (auto simp: close_session_def intro: session_move.intros)
qed (auto intro: plan_session_move [OF inv] prepare_move [OF inv] session_move.intros)

lemma plan_session_keeps: "ss_plan s = Some p \<Longrightarrow> ss_plan (fst (plan_session cwd c m f s)) = Some p"
  by (simp add: plan_session_def split: sum.split)

lemma session_step_plan: "ss_plan s = Some p \<Longrightarrow> ss_plan (session_step cwd s x) = Some p"
proof (cases x)
  case (OpPrepare src m f reply)
  assume p: "ss_plan s = Some p"
  show ?thesis
    by (cases rule: prepare_cases [of cwd src m f reply s])
      (simp_all add: OpPrepare p plan_session_keeps)
next
  case (OpAbort t)
  then show "ss_plan s = Some p \<Longrightarrow> ?thesis"
    by (cases "ss_state s") (auto simp: abort_def split: option.splits sum.splits)
next
  case (OpComplete outcome usage)
  then show "ss_plan s = Some p \<Longrightarrow> ?thesis"
    by (cases "ss_state s") (auto simp: complete_def split: option.splits sum.splits)
qed (auto simp: plan_session_keeps close_session_def)

lemma session_step_receipt:
  assumes inv: "session_inv s" and r: "ss_receipt s = Some r"
  shows "ss_receipt (session_step cwd s x) = Some r"
proof -
  have t: "terminal (ss_state s)"
    using running_receipt [OF inv] r by auto
  show ?thesis
    using t r
    by (cases x; cases "ss_state s")
      (auto simp: plan_session_def prepare_def complete_def abort_def close_session_def terminal_def)
qed

section \<open>Properties\<close>

definition sample_session :: session where
  "sample_session = \<lparr>ss_task = ''go'', ss_session_id = ''s1'', ss_task_id = ''t1'',
     ss_fail_open = True, ss_state = Created, ss_plan = None, ss_view = None, ss_receipt = None,
     ss_prepared = False, ss_degradations = []\<rparr>"

lemma sample_session_made:
  "mk_session ''go'' (Some ''s1'') (Some ''t1'') True ''fresh'' ''fresh'' = Inr sample_session"
  by (simp add: mk_session_def sample_ptext protocol_consts sample_session_def)

abbreviation sample_prepare :: "engine_reply \<Rightarrow> session_op" where
  "sample_prepare r \<equiv> OpPrepare (Some sample_source) ''aggressive'' ''reuse'' r"

lemma sample_planned:
  "plan_session ''/p'' sample_source ''aggressive'' ''reuse'' sample_session =
     (sample_session\<lparr>ss_plan := Some sample_plan, ss_state := Planned\<rparr>, Inr sample_plan)"
  using sample_plan_ok by (simp add: plan_session_def sample_session_def terminal_def)

lemma sample_prepared:
  "session_step ''/p'' sample_session (sample_prepare (Inr sample_view)) =
     sample_session\<lparr>ss_plan := Some sample_plan, ss_state := Executing,
       ss_view := Some sample_view, ss_prepared := True\<rparr>"
  using sample_planned
  by (simp add: prepare_def run_engine_def sample_session_def terminal_def sample_view_def Let_def)

lemma sample_completed:
  "\<exists>t r. complete ''accepted'' None (session_run ''/p'' sample_session
      [sample_prepare (Inr sample_view)]) = (t, Inr r) \<and> ss_view t = Some sample_view \<and>
    ss_receipt t = Some r"
proof -
  let ?s = "session_run ''/p'' sample_session [sample_prepare (Inr sample_view)]"
  have s: "?s = sample_session\<lparr>ss_plan := Some sample_plan, ss_state := Executing,
       ss_view := Some sample_view, ss_prepared := True\<rparr>"
    using sample_prepared by (simp add: session_run_def)
  have "session_inv ?s"
    unfolding session_run_def by (rule sm.run_inv [OF session_inv_initial [OF sample_session_made]])
  then have "ss_plan ?s = Some sample_plan" "plan_ok ?s sample_plan"
      "list_all (\<lambda>d. d \<noteq> []) (ss_degradations ?s)"
    unfolding s by (simp_all add: session_inv_def plan_part_def sample_session_def)
  then have "\<exists>r. make_receipt ?s ''accepted'' None None None = Inr r"
    by (rule make_receipt_ok) (simp add: host_outcomes_def)
  then obtain r where r: "make_receipt ?s ''accepted'' None None None = Inr r" by blast
  then show ?thesis
    using s by (simp add: complete_def)
qed

text \<open>
  C6. Lifecycle: after any sequence of calls on a new session the state satisfies the session
  invariant (a plan before execution, no view and no receipt before they are made, a receipt
  exactly in the ended states, an aborted receipt in state aborted, every receipt describing the
  session it belongs to), and every further call moves the state along the lifecycle only.
\<close>

theorem session_lifecycle:
  assumes "mk_session task sid tid fail_open fs ft = Inr s"
  shows "session_inv (session_run cwd s ops) \<and>
    session_move (ss_state (session_run cwd s ops)) (ss_state (session_run cwd s (ops @ [x])))"
proof
  show inv: "session_inv (session_run cwd s ops)"
    unfolding session_run_def by (rule sm.run_inv [OF session_inv_initial [OF assms]])
  show "session_move (ss_state (session_run cwd s ops)) (ss_state (session_run cwd s (ops @ [x])))"
    using session_step_move [OF inv] by (simp add: session_run_def)
qed

theorem session_lifecycle_witness:
  "session_inv (session_run ''/p'' sample_session [sample_prepare (Inr sample_view)]) \<and>
   ss_state (session_run ''/p'' sample_session [sample_prepare (Inr sample_view)]) = Executing \<and>
   session_move Created Executing"
  using session_lifecycle [OF sample_session_made, of "''/p''" "[sample_prepare (Inr sample_view)]" OpClose]
    session_lifecycle [OF sample_session_made, of "''/p''" "[]" "sample_prepare (Inr sample_view)"]
    sample_prepared
  by (simp add: session_run_def sample_session_def)

text \<open>
  C15. Plan and receipt are written once: once a run has set them, no further sequence of calls
  changes or clears them.
\<close>

theorem session_write_once:
  assumes "mk_session task sid tid fail_open fs ft = Inr s"
  shows "(\<forall>r. ss_receipt (session_run cwd s ops) = Some r \<longrightarrow>
            ss_receipt (session_run cwd s (ops @ rest)) = Some r) \<and>
         (\<forall>p. ss_plan (session_run cwd s ops) = Some p \<longrightarrow>
            ss_plan (session_run cwd s (ops @ rest)) = Some p)"
proof -
  have inv: "session_inv (foldl (session_step cwd) s ops)"
    by (rule sm.run_inv [OF session_inv_initial [OF assms]])
  show ?thesis
    using sm.run_keeps [OF _ inv, of "\<lambda>t. ss_receipt t = Some _", OF session_step_receipt]
      sm.run_keeps [OF _ inv, of "\<lambda>t. ss_plan t = Some _", OF session_step_plan]
    by (simp add: session_run_def)
qed

theorem session_write_once_witness:
  "ss_plan (session_run ''/p'' sample_session
      [sample_prepare (Inr sample_view), OpComplete ''accepted'' None, OpClose]) = Some sample_plan"
proof -
  have p: "ss_plan (session_run ''/p'' sample_session [sample_prepare (Inr sample_view)]) =
      Some sample_plan"
    using sample_prepared by (simp add: session_run_def)
  show ?thesis
    using session_write_once [OF sample_session_made, of "''/p''"
        "[sample_prepare (Inr sample_view)]" "[OpComplete ''accepted'' None, OpClose]"] p by simp
qed

text \<open>
  C16. No receipt of a run claims more than it has: a receipt is sealed exactly when the session
  holds a view that verifies, and \<open>verify\<close> and \<open>require_verified\<close> accept it exactly then.
\<close>

theorem receipt_sealed_iff_verified:
  assumes "mk_session task sid tid fail_open fs ft = Inr s"
    and "ss_receipt (session_run cwd s ops) = Some r"
  shows "(receipt_sealed r \<longleftrightarrow> receipt_verify r) \<and>
    (receipt_verify r \<longleftrightarrow> (\<exists>v. ss_view (session_run cwd s ops) = Some v \<and> view_verify v)) \<and>
    (require_verified r = Inr () \<longleftrightarrow> receipt_sealed r)"
proof -
  have "session_inv (session_run cwd s ops)"
    unfolding session_run_def by (rule sm.run_inv [OF session_inv_initial [OF assms(1)]])
  then have "receipt_of (session_run cwd s ops) r"
    using assms(2)
    by (cases "ss_state (session_run cwd s ops)")
      (simp_all add: session_inv_def state_part_def has_receipt_def)
  then show ?thesis
    by (auto simp: receipt_of_def receipt_sealed_def receipt_verify_def require_verified_def
        view_integrity_def check_def split: option.splits)
qed

theorem receipt_sealed_iff_verified_witness:
  "\<exists>r. ss_receipt (session_run ''/p'' sample_session
      [sample_prepare (Inr sample_view), OpComplete ''accepted'' None]) = Some r \<and>
    receipt_sealed r \<and> require_verified r = Inr ()"
proof -
  let ?s = "session_run ''/p'' sample_session
      [sample_prepare (Inr sample_view), OpComplete ''accepted'' None]"
  obtain r where r: "ss_view ?s = Some sample_view" "ss_receipt ?s = Some r"
    using sample_completed by (auto simp: session_run_def)
  show ?thesis
    using receipt_sealed_iff_verified [OF sample_session_made r(2)] r sample_view_verifies by simp
qed

text \<open>
  C17. An engine that fails never yields a view. On a planned session, an unavailable engine or a
  timeout is tolerated exactly when the session fails open: the host goes on with no view and
  the degradation is recorded. Every other failure, and every failure of a session that fails
  closed, ends the session with an aborted receipt and raises that failure.
\<close>

theorem engine_failure_outcome:
  assumes "session_inv s" "ss_plan s = Some p" "\<not> terminal (ss_state s)" "\<not> ss_prepared s"
  shows "(let (t, r) = prepare cwd None m f (Inl (e, carried)) s;
             note = ''engine:'' @ code_or_engine_error e in
     note \<in> set (ss_degradations t) \<and> ss_plan t = Some p \<and>
     (if ss_fail_open s \<and> degrade_allowed e
      then r = Inr None \<and> ss_state t = Executing \<and> ss_view t = None \<and> ss_receipt t = None
      else r = Inl e \<and> ss_state t = Aborted \<and>
        (\<exists>a. ss_receipt t = Some a \<and> rp_outcome a = ''aborted'' \<and>
             note \<in> set (rp_degradations a) \<and> rp_plan_id a = Some (pl_id p))))"
proof -
  have prep: "prepare cwd None m f (Inl (e, carried)) s = run_engine (Inl (e, carried)) s"
    using assms by (simp add: prepare_def)
  show ?thesis
  proof (cases "ss_fail_open s \<and> degrade_allowed e")
    case True
    then have "(e = InstanceUnavailable \<or> e = InstanceTimeout) \<and> ss_fail_open s"
      by (simp add: degrade_allowed_iff)
    then have "run_engine (Inl (e, carried)) s =
        ((add_degradation (''engine:'' @ code_or_engine_error e) (s\<lparr>ss_state := Executing\<rparr>))
            \<lparr>ss_prepared := True, ss_view := None\<rparr>, Inr None)"
      by (simp add: run_engine_def Let_def)
    then show ?thesis
      using True assms running_receipt [OF assms(1)]
      by (simp add: prep Let_def in_add_degradation)
  next
    case False
    then obtain a t where t: "run_engine (Inl (e, carried)) s = (t, Inl e)" "ss_state t = Aborted"
        "ss_receipt t = Some a" "receipt_of t a" "rp_outcome a = ''aborted''" "ss_plan t = Some p"
        "''engine:'' @ code_or_engine_error e \<in> set (ss_degradations t)"
      using engine_failure_aborts [OF assms(1-3), of e carried]
      by (auto simp: degrade_allowed_iff)
    then show ?thesis
      using False by (simp add: prep receipt_of_def)
  qed
qed


theorem engine_failure_outcome_witness:
  "\<exists>t a. prepare ''/p'' None ''x'' ''y'' (Inl (InstanceCrashed, None))
      (session_step ''/p'' sample_session (OpPlan sample_source ''aggressive'' ''reuse'')) =
      (t, Inl InstanceCrashed) \<and> ss_state t = Aborted \<and> ss_receipt t = Some a \<and>
      rp_outcome a = ''aborted''"
proof -
  let ?s = "session_step ''/p'' sample_session (OpPlan sample_source ''aggressive'' ''reuse'')"
  have s: "?s = sample_session\<lparr>ss_plan := Some sample_plan, ss_state := Planned\<rparr>"
    using sample_planned by simp
  have "session_inv ?s"
    by (rule session_step_inv [OF session_inv_initial [OF sample_session_made]])
  moreover have "ss_plan ?s = Some sample_plan" "\<not> terminal (ss_state ?s)" "\<not> ss_prepared ?s"
    unfolding s by (simp_all add: terminal_def sample_session_def)
  ultimately show ?thesis
    using engine_failure_outcome [of ?s sample_plan "''/p''" "''x''" "''y''" InstanceCrashed None]
    by (auto simp: degrade_allowed_iff Let_def split: prod.splits)
qed

text \<open>
  C18. Completing is idempotent and never overwrites: once \<open>complete\<close> has returned a receipt,
  the same call returns that receipt and leaves the session as it is, and a call with another
  outcome or with a usage of other canonical bytes is refused and leaves it as it is too.
\<close>

theorem complete_idempotent:
  assumes "complete outcome usage s = (t, Inr r)"
  shows "complete outcome usage t = (t, Inr r) \<and>
    (outcome' \<noteq> outcome \<or> opt_check canonical_bytes usage' \<noteq> opt_check canonical_bytes usage \<longrightarrow>
       complete outcome' usage' t = (t, Inl SessionStateError))"
proof -
  have same: "same_completion r outcome usage \<and> ss_receipt t = Some r \<and> ss_state t = Completed"
  proof (cases "ss_state s")
    case Executing
    then have r: "make_receipt s outcome usage None None = Inr r"
      and t: "t = s\<lparr>ss_receipt := Some r, ss_state := Completed\<rparr>"
      using assms by (auto simp: complete_def split: if_splits sum.splits)
    have "\<exists>b. opt_check canonical_bytes usage = Inr b"
      using make_receipt_fields(9) [OF r] make_receipt_fields(7) [OF r]
      by (auto simp: check_receipt_def ok_simps safe_usage_def opt_check_def split: option.splits)
    then show ?thesis
      using make_receipt_fields(5,7) [OF r] by (auto simp: same_completion_def t)
  next
    case Completed
    then show ?thesis
      using assms by (auto simp: complete_def split: if_splits option.splits)
  qed (use assms in \<open>simp_all add: complete_def\<close>)
  then have "complete outcome usage t = (t, Inr r)"
    by (simp add: complete_def)
  moreover have "\<not> same_completion r outcome' usage'"
    if "outcome' \<noteq> outcome \<or> opt_check canonical_bytes usage' \<noteq> opt_check canonical_bytes usage"
    using same that by (auto simp: same_completion_def split: if_splits sum.splits)
  ultimately show ?thesis
    using same by (auto simp: complete_def)
qed


theorem complete_idempotent_witness:
  "\<exists>t r. complete ''accepted'' None t = (t, Inr r) \<and> ss_view t = Some sample_view \<and>
    complete ''rejected'' None t = (t, Inl SessionStateError)"
proof -
  obtain t r where "complete ''accepted'' None (session_run ''/p'' sample_session
      [sample_prepare (Inr sample_view)]) = (t, Inr r)" "ss_view t = Some sample_view"
    using sample_completed by blast
  then show ?thesis
    using complete_idempotent [of "''accepted''" None _ t r "''rejected''" None] by auto
qed

end
