(* ===== verification/Ws_Text.thy ===== *)
theory Ws_Text
  imports Session_Facts
begin

text \<open>
  The field validators of \<open>src/leanctx_sdk/workspace.py\<close>: text, identifiers, references, UTC
  timestamps, exact field sets, the scan for credentials, and the digests of canonical values.
  They take any JSON value, because the code checks the type itself.
\<close>

section \<open>Access to checked objects\<close>

text \<open>\<open>value[key]\<close> once the field set has been checked, and \<open>value.get(key)\<close>.\<close>

definition jat :: "pystr \<Rightarrow> json \<Rightarrow> json" where
  "jat k v = (case jget k v of Some x \<Rightarrow> x | None \<Rightarrow> JNull)"

lemma jat_obj [simp]:
  "jat k (JObj ((a, b) # kvs)) = (if a = k then b else jat k (JObj kvs))"
  "jat k (JObj []) = JNull"
  by (auto simp: jat_def jget_def)

lemma jget_obj [simp]:
  "jget k (JObj ((a, b) # kvs)) = (if a = k then Some b else jget k (JObj kvs))"
  "jget k (JObj []) = None"
  by (auto simp: jget_def)

text \<open>Reordering the items of an object, at any depth, does not change what a lookup finds.\<close>

lemma map_of_filter:
  "map_of xs k = (case filter (\<lambda>p. fst p = k) xs of [] \<Rightarrow> None | p # ps \<Rightarrow> Some (snd p))"
  by (induction xs) auto

lemma map_of_sort_items: "map_of (sort_key fst xs) = map_of xs"
  by (rule ext) (simp add: map_of_filter sort_key_stable)

lemma map_of_map_items: "map_of (map (map_prod id f) xs) k = map_option f (map_of xs k)"
  by (induction xs) auto

lemma jget_jsort_any: "jget k (jsort v) = map_option jsort (jget k v)"
  by (cases v) (simp_all add: jget_def obj_items_def map_of_sort_items map_of_map_items)

lemma jat_jsort [simp]: "jat k (jsort v) = jsort (jat k v)"
  by (auto simp: jat_def jget_jsort_any split: option.split)

lemma jget_py_norm: "jget k (py_norm v) = map_option py_norm (jget k v)"
  by (cases v)
    (simp_all add: jget_def obj_items_def map_of_sort_items map_of_map_items split: option.split)

lemma py_norm_jsort [simp]: "py_norm (jsort v) = py_norm v"
proof (induction v rule: json_induct)
  case (Obj kvs)
  have "map (map_prod id py_norm) (map (map_prod id jsort) kvs) = map (map_prod id py_norm) kvs"
    using Obj by auto
  moreover have "sort_key fst (sort_key fst xs) = sort_key fst xs" for xs :: "(pystr \<times> json) list"
    by (simp add: sort_key_id_if_sorted)
  ultimately show ?case
    by (simp only: py_norm.simps jsort.simps sort_items_map [symmetric])
qed auto

lemma py_eq_jsort [simp]: "py_eq (jsort v) w = py_eq v w" "py_eq v (jsort w) = py_eq v w"
  by (simp_all add: py_eq_def)

lemma py_eq_jget:
  "py_eq v w \<Longrightarrow> map_option py_norm (jget k v) = map_option py_norm (jget k w)"
  by (metis jget_py_norm py_eq_def)

lemma py_norm_str [simp]: "py_norm v = JStr s \<longleftrightarrow> v = JStr s"
  by (cases v) (auto split: option.splits)

lemma py_eq_field:
  assumes "py_eq v w"
  shows "jget k w = Some (JStr s) \<Longrightarrow> jget k v = Some (JStr s)"
    and "jget k w = None \<Longrightarrow> jget k v = None"
  using py_eq_jget [OF assms, of k] by auto

lemma jget_wf: "json_wf v \<Longrightarrow> jget k v = Some x \<Longrightarrow> json_wf x"
proof (cases v)
  case (JObj kvs)
  assume "json_wf v" "jget k v = Some x"
  then show ?thesis
    by (auto simp: JObj jget_def list_all_iff dest!: map_of_SomeD)
qed (auto simp: jget_def obj_items_def)

lemma jat_wf [simp]: "json_wf v \<Longrightarrow> json_wf (jat k v)"
  by (auto simp: jat_def dest: jget_wf split: option.split)

lemma set_jkeys_jsort [simp]: "set (jkeys (jsort v)) = set (jkeys v)"
  by (cases v) (auto simp: jkeys_def obj_items_def image_image)

lemma is_obj_jsort [simp]: "is_obj (jsort v) = is_obj v"
  by (cases v) auto

lemma is_arr_jsort [simp]: "is_arr (jsort v) = is_arr v"
  by (cases v) auto

text \<open>\<open>_exact\<close>.\<close>

definition exact :: "pystr list \<Rightarrow> json \<Rightarrow> unit res" where
  "exact keys v = check (is_obj v \<and> set (jkeys v) = set keys) WorkspaceIncompatibleError"

lemma exact_jsort [simp]: "exact ks (jsort v) = exact ks v"
  by (simp add: exact_def)

text \<open>
  The two ways a decoder handles a constructor that raises: keep a workspace error and turn any
  other exception into \<open>WorkspaceIncompatibleError\<close>, or turn every one into it.
\<close>

definition keep_ws :: "'a res \<Rightarrow> 'a res" where
  "keep_ws r = on_err (\<lambda>e. if is_workspace_error e then e else WorkspaceIncompatibleError) r"

definition incompatible :: "'a res \<Rightarrow> 'a res" where
  "incompatible r = on_err (\<lambda>_. WorkspaceIncompatibleError) r"

definition invalid :: "'a res \<Rightarrow> 'a res" where
  "invalid r = on_err (\<lambda>_. WorkspaceValidationError) r"

lemma keep_ws_Inr [ok_simps]: "keep_ws r = Inr x \<longleftrightarrow> r = Inr x"
  by (simp add: keep_ws_def ok_simps)

lemma incompatible_Inr [ok_simps]: "incompatible r = Inr x \<longleftrightarrow> r = Inr x"
  by (simp add: incompatible_def ok_simps)

lemma invalid_Inr [ok_simps]: "invalid r = Inr x \<longleftrightarrow> r = Inr x"
  by (simp add: invalid_def ok_simps)

lemma exact_Inr [ok_simps]: "exact ks v = Inr u \<longleftrightarrow> is_obj v \<and> set (jkeys v) = set ks"
  by (simp add: exact_def ok_simps)

lemma exact_same: "map fst kvs = ks \<Longrightarrow> exact ks (JObj kvs) = Inr ()"
  by (auto simp: exact_def jkeys_def)

section \<open>Text and identifiers\<close>

definition text_ok :: "nat \<Rightarrow> pystr \<Rightarrow> bool" where
  "text_ok n s \<longleftrightarrow> strict_utf8 s \<and> s \<noteq> [] \<and> length s \<le> n \<and> \<not> has_nul s \<and> \<not> has_control s"

definition on_text :: "(pystr \<Rightarrow> bool) \<Rightarrow> json \<Rightarrow> pystr res" where
  "on_text P v =
     (case v of JStr s \<Rightarrow> if P s then Inr s else Inl WorkspaceValidationError
      | _ \<Rightarrow> Inl WorkspaceValidationError)"

definition wtext :: "nat \<Rightarrow> json \<Rightarrow> pystr res" where
  "wtext n v = on_text (text_ok n) v"

definition wopt_text :: "nat \<Rightarrow> json \<Rightarrow> pystr option res" where
  "wopt_text n v = (if v = JNull then Inr None else rbind (wtext n v) (\<lambda>s. Inr (Some s)))"

definition wuuid :: "json \<Rightarrow> pystr res" where
  "wuuid v = on_text is_uuid v"

definition wdigest :: "json \<Rightarrow> pystr res" where
  "wdigest v = on_text is_digest v"

definition ref_ok :: "nat \<Rightarrow> pystr \<Rightarrow> bool" where
  "ref_ok n s \<longleftrightarrow> text_ok n s \<and> printable_ascii s"

definition wref :: "nat \<Rightarrow> json \<Rightarrow> pystr res" where
  "wref n v = on_text (ref_ok n) v"

definition unique_sorted :: "(json \<Rightarrow> pystr res) \<Rightarrow> nat \<Rightarrow> json \<Rightarrow> pystr list res" where
  "unique_sorted f maximum v =
     (case v of JArr xs \<Rightarrow>
        rbind (check (length xs \<le> maximum) WorkspaceValidationError) (\<lambda>_.
        rbind (mapr f xs) (\<lambda>ys.
        let result = sort (remdups ys) in
        rbind (check (length result = length xs) WorkspaceValidationError) (\<lambda>_. Inr result)))
      | _ \<Rightarrow> Inl WorkspaceValidationError)"

definition wrefs :: "nat \<Rightarrow> json \<Rightarrow> pystr list res" where
  "wrefs maximum v = unique_sorted (wref 512) maximum v"

definition wids :: "nat \<Rightarrow> json \<Rightarrow> pystr list res" where
  "wids maximum v = unique_sorted (wtext 128) maximum v"

definition wbool :: "json \<Rightarrow> bool res" where
  "wbool v = (case v of JBool b \<Rightarrow> Inr b | _ \<Rightarrow> Inl WorkspaceValidationError)"

definition wpositive :: "json \<Rightarrow> int res" where
  "wpositive v =
     (case v of JInt i \<Rightarrow> if 0 < i then Inr i else Inl WorkspaceValidationError
      | _ \<Rightarrow> Inl WorkspaceValidationError)"

text \<open>\<open>value in S\<close> for a set of strings: an unhashable value raises \<open>TypeError\<close>.\<close>

definition in_set :: "pystr list \<Rightarrow> json \<Rightarrow> bool res" where
  "in_set names v =
     (case v of JStr s \<Rightarrow> Inr (s \<in> set names) | JArr _ \<Rightarrow> Inl PyTypeError
      | JObj _ \<Rightarrow> Inl PyTypeError | _ \<Rightarrow> Inr False)"

definition member :: "pystr list \<Rightarrow> json \<Rightarrow> pystr res" where
  "member names v =
     rbind (in_set names v) (\<lambda>b.
     case v of JStr s \<Rightarrow> if b then Inr s else Inl WorkspaceValidationError
      | _ \<Rightarrow> Inl WorkspaceValidationError)"

lemma on_text_Inr [ok_simps]: "on_text P v = Inr s \<longleftrightarrow> v = JStr s \<and> P s"
  by (auto simp: on_text_def split: json.splits)

lemma wtext_Inr [ok_simps]: "wtext n v = Inr s \<longleftrightarrow> v = JStr s \<and> text_ok n s"
  by (simp add: wtext_def ok_simps)

lemma wuuid_Inr [ok_simps]: "wuuid v = Inr s \<longleftrightarrow> v = JStr s \<and> is_uuid s"
  by (simp add: wuuid_def ok_simps)

lemma wdigest_Inr [ok_simps]: "wdigest v = Inr s \<longleftrightarrow> v = JStr s \<and> is_digest s"
  by (simp add: wdigest_def ok_simps)

lemma wref_Inr [ok_simps]: "wref n v = Inr s \<longleftrightarrow> v = JStr s \<and> ref_ok n s"
  by (simp add: wref_def ok_simps)

lemma wbool_Inr [ok_simps]: "wbool v = Inr b \<longleftrightarrow> v = JBool b"
  by (auto simp: wbool_def split: json.splits)

lemma wpositive_Inr [ok_simps]: "wpositive v = Inr i \<longleftrightarrow> v = JInt i \<and> 0 < i"
  by (auto simp: wpositive_def split: json.splits)

lemma member_Inr [ok_simps]: "member ns v = Inr s \<longleftrightarrow> v = JStr s \<and> s \<in> set ns"
  by (auto simp: member_def in_set_def split: json.splits)

text \<open>What is written for an optional string, and its decoding.\<close>

lemma wopt_text_Inr [ok_simps]:
  "wopt_text n v = Inr x \<longleftrightarrow>
     v = opt_str x \<and> (case x of None \<Rightarrow> True | Some s \<Rightarrow> text_ok n s)"
  by (auto simp: wopt_text_def ok_simps opt_str_def split: option.splits)

lemma opt_str_simps [simp]:
  "opt_str None = JNull" "opt_str (Some s) = JStr s" "opt_str x = JNull \<longleftrightarrow> x = None"
  "jsort (opt_str x) = opt_str x" "json_wf (opt_str x)"
  "opt_str x = opt_str y \<longleftrightarrow> x = y" "opt_str x = JStr s \<longleftrightarrow> x = Some s"
  by (auto simp: opt_str_def split: option.splits)

text \<open>Reordering the keys of a value does not change what the validators see.\<close>

lemma text_jsort [simp]:
  "on_text P (jsort v) = on_text P v" "wtext n (jsort v) = wtext n v"
  "wuuid (jsort v) = wuuid v" "wdigest (jsort v) = wdigest v" "wref n (jsort v) = wref n v"
  "wbool (jsort v) = wbool v" "wpositive (jsort v) = wpositive v"
  "in_set ns (jsort v) = in_set ns v" "member ns (jsort v) = member ns v"
  "wopt_text n (jsort v) = wopt_text n v"
  by (cases v;
      simp add: on_text_def wtext_def wuuid_def wdigest_def wref_def wbool_def wpositive_def
        in_set_def member_def wopt_text_def)+

lemma mapr_jsort:
  "(\<And>v. f (jsort v) = f v) \<Longrightarrow> mapr f (map jsort xs) = mapr f xs"
  by (induction xs) auto

lemma unique_sorted_jsort [simp]:
  "(\<And>v. f (jsort v) = f v) \<Longrightarrow> unique_sorted f n (jsort v) = unique_sorted f n v"
  by (cases v) (simp_all add: unique_sorted_def mapr_jsort)

lemma wrefs_jsort [simp]: "wrefs n (jsort v) = wrefs n v"
  by (simp add: wrefs_def)

lemma wids_jsort [simp]: "wids n (jsort v) = wids n v"
  by (simp add: wids_def)

subsection \<open>Lists of unique strings\<close>

definition jstrs :: "pystr list \<Rightarrow> json" where
  "jstrs ss = JArr (map JStr ss)"

definition str_list_ok :: "(pystr \<Rightarrow> bool) \<Rightarrow> nat \<Rightarrow> pystr list \<Rightarrow> bool" where
  "str_list_ok P n ss \<longleftrightarrow> sorted ss \<and> distinct ss \<and> length ss \<le> n \<and> list_all P ss"

lemma mapr_on_text:
  "mapr (on_text P) xs = Inr ys \<longleftrightarrow> xs = map JStr ys \<and> list_all P ys"
proof (induction xs arbitrary: ys)
  case (Cons x xs)
  then show ?case
    by (cases ys) (auto simp: ok_simps)
qed auto

lemma unique_sorted_Inr:
  "unique_sorted (on_text P) n v = Inr r \<longleftrightarrow>
     str_list_ok P n r \<and> (\<exists>ys. v = jstrs ys \<and> distinct ys \<and> set ys = set r)"
  (is "?l \<longleftrightarrow> ?r")
proof
  assume ?l
  then obtain ys where ys: "v = jstrs ys" "length ys \<le> n" "list_all P ys"
      "r = sort (remdups ys)" "length (remdups ys) = length ys"
    by (cases v) (auto simp: unique_sorted_def ok_simps mapr_on_text jstrs_def Let_def)
  then have "distinct ys"
    by (metis length_remdups_eq remdups_id_iff_distinct)
  then show ?r
    using ys by (auto simp: str_list_ok_def list_all_iff distinct_remdups_id)
next
  assume ?r
  then obtain ys where ys: "str_list_ok P n r" "v = jstrs ys" "distinct ys" "set ys = set r"
    by blast
  then have "sort ys = r"
    by (metis distinct_sort set_sort sorted_distinct_set_unique sorted_sort str_list_ok_def)
  moreover have "length ys = length r"
    using ys by (metis distinct_card str_list_ok_def)
  moreover have "list_all P ys"
    using ys by (simp add: str_list_ok_def list_all_iff)
  ultimately show ?l
    using ys
    by (simp add: unique_sorted_def mapr_on_text [THEN iffD2] jstrs_def distinct_remdups_id
        str_list_ok_def mapr_on_text)
qed

lemma wrefs_Inr [ok_simps]:
  "wrefs n v = Inr r \<longleftrightarrow>
     str_list_ok (ref_ok 512) n r \<and> (\<exists>ys. v = jstrs ys \<and> distinct ys \<and> set ys = set r)"
  by (simp add: wrefs_def wref_def [abs_def] unique_sorted_Inr)

lemma wids_Inr [ok_simps]:
  "wids n v = Inr r \<longleftrightarrow>
     str_list_ok (text_ok 128) n r \<and> (\<exists>ys. v = jstrs ys \<and> distinct ys \<and> set ys = set r)"
  by (simp add: wids_def wtext_def [abs_def] unique_sorted_Inr)

lemma wrefs_canonical: "str_list_ok (ref_ok 512) n r \<Longrightarrow> wrefs n (jstrs r) = Inr r"
  by (auto simp: wrefs_Inr str_list_ok_def)

lemma wids_canonical: "str_list_ok (text_ok 128) n r \<Longrightarrow> wids n (jstrs r) = Inr r"
  by (auto simp: wids_Inr str_list_ok_def)

lemma jstrs_simps [simp]:
  "jsort (jstrs ss) = jstrs ss" "is_arr (jstrs ss)" "json_wf (jstrs ss)"
  "jstrs ss = jstrs ts \<longleftrightarrow> ss = ts"
  by (auto simp: jstrs_def comp_def list_all_iff inj_map_eq_map inj_def)

lemma json_ok_jstrs: "list_all strict_utf8 ss \<Longrightarrow> json_ok (jstrs ss)"
  by (auto simp: jstrs_def list_all_iff strict_utf8_def)

section \<open>Timestamps\<close>

text \<open>
  \<open>YYYY-MM-DDThh:mm:ss(.f)Z\<close> with at most six digits of fraction, a date of the Gregorian
  calendar and a time of day. \<open>strptime\<close> returns the fields, compared in this order;
  \<open>strftime\<close> is taken to write four digits of year, as Python documents it.
\<close>

definition ts_frac :: "pystr \<Rightarrow> pystr" where
  "ts_frac s = take (length s - 21) (drop 20 s)"

definition ts_shape :: "pystr \<Rightarrow> bool" where
  "ts_shape s \<longleftrightarrow>
     (length s = 20 \<or> 22 \<le> length s \<and> length s \<le> 27 \<and> s ! 19 = CHR ''.'') \<and>
     last s = CHR ''Z'' \<and>
     list_all (\<lambda>i. is_digit (s ! i)) [0, 1, 2, 3, 5, 6, 8, 9, 11, 12, 14, 15, 17, 18] \<and>
     s ! 4 = CHR ''-'' \<and> s ! 7 = CHR ''-'' \<and> s ! 10 = CHR ''T'' \<and> s ! 13 = CHR '':'' \<and>
     s ! 16 = CHR '':'' \<and> list_all is_digit (ts_frac s)"

definition ts_number :: "pystr \<Rightarrow> nat \<Rightarrow> nat \<Rightarrow> nat" where
  "ts_number s i n = digits_value 0 (take n (drop i s))"

definition ts_fields :: "pystr \<Rightarrow> nat list" where
  "ts_fields s =
     [ts_number s 0 4, ts_number s 5 2, ts_number s 8 2, ts_number s 11 2, ts_number s 14 2,
      ts_number s 17 2,
      digits_value 0 (ts_frac s @ replicate (6 - length (ts_frac s)) (CHR ''0''))]"

definition leap_year :: "nat \<Rightarrow> bool" where
  "leap_year y \<longleftrightarrow> y mod 4 = 0 \<and> (y mod 100 \<noteq> 0 \<or> y mod 400 = 0)"

definition month_days :: "nat \<Rightarrow> nat \<Rightarrow> nat" where
  "month_days y m =
     (if m = 2 then (if leap_year y then 29 else 28)
      else if m \<in> {4, 6, 9, 11} then 30 else 31)"

definition ts_valid :: "nat list \<Rightarrow> bool" where
  "ts_valid f \<longleftrightarrow>
     1 \<le> f ! 0 \<and> 1 \<le> f ! 1 \<and> f ! 1 \<le> 12 \<and> 1 \<le> f ! 2 \<and> f ! 2 \<le> month_days (f ! 0) (f ! 1) \<and>
     f ! 3 \<le> 23 \<and> f ! 4 \<le> 59 \<and> f ! 5 \<le> 59"

definition parse_timestamp :: "json \<Rightarrow> nat list res" where
  "parse_timestamp v =
     rbind (wtext 32 v) (\<lambda>s.
     rbind (check (ts_shape s) WorkspaceValidationError) (\<lambda>_.
     rbind (check (ts_valid (ts_fields s)) WorkspaceValidationError) (\<lambda>_. Inr (ts_fields s))))"

fun pad_digits :: "nat \<Rightarrow> nat \<Rightarrow> pystr" where
  "pad_digits 0 k = []"
| "pad_digits (Suc n) k = pad_digits n (k div 10) @ [char_of (48 + k mod 10)]"

definition ts_text :: "nat list \<Rightarrow> pystr" where
  "ts_text f =
     pad_digits 4 (f ! 0) @ ''-'' @ pad_digits 2 (f ! 1) @ ''-'' @ pad_digits 2 (f ! 2) @ ''T'' @
     pad_digits 2 (f ! 3) @ '':'' @ pad_digits 2 (f ! 4) @ '':'' @ pad_digits 2 (f ! 5) @
     (if f ! 6 = 0 then [] else ''.'' @ pad_digits 6 (f ! 6)) @ ''Z''"

definition wtimestamp :: "json \<Rightarrow> pystr res" where
  "wtimestamp v = rbind (parse_timestamp v) (\<lambda>f. Inr (ts_text f))"

lemma pad_digits_length [simp]: "length (pad_digits n k) = n"
  by (induction n k rule: pad_digits.induct) auto

lemma is_digit_char: "is_digit (char_of (48 + k mod 10 :: nat))"
proof -
  have "k mod 10 < (10::nat)" by simp
  then have "of_char (char_of (48 + k mod 10 :: nat) :: char) = 48 + k mod 10"
    by simp
  then show ?thesis
    using \<open>k mod 10 < (10::nat)\<close> by (simp add: is_digit_def)
qed

lemma pad_digits_digits: "list_all is_digit (pad_digits n k)"
  by (induction n k rule: pad_digits.induct) (simp_all add: is_digit_char)

lemma digits_value_pad: "digits_value a (pad_digits n k) = a * 10 ^ n + k mod 10 ^ n"
proof (induction n k arbitrary: a rule: pad_digits.induct)
  case (2 n k)
  have "k mod (10 * 10 ^ n) = 10 * (k div 10 mod 10 ^ n) + k mod 10"
    by (rule mod_mult2_eq)
  then show ?case
    using 2 by (simp add: digits_value_append)
qed simp

lemma digits_value_bound:
  "list_all is_digit s \<Longrightarrow> digits_value a s < (a + 1) * 10 ^ length s"
proof (induction s arbitrary: a)
  case (Cons c s)
  then have "digits_value a (c # s) < (10 * a + (byte c - 48) + 1) * 10 ^ length s"
    by simp
  also have "\<dots> \<le> (10 * a + 9 + 1) * 10 ^ length s"
    using Cons.prems by (intro mult_right_mono) (auto simp: is_digit_def)
  finally show ?case by (simp add: algebra_simps)
qed simp

lemma ts_frac_bound: "ts_shape s \<Longrightarrow> length (ts_frac s) \<le> 6 \<and> list_all is_digit (ts_frac s)"
  by (auto simp: ts_shape_def ts_frac_def)

lemma ts_fields_bound:
  assumes "ts_shape s"
  shows "ts_fields s ! 0 < 10000" "ts_fields s ! 6 < 1000000"
proof -
  have len: "20 \<le> length s" using assms by (auto simp: ts_shape_def)
  have "list_all is_digit (take 4 s)"
    using assms len unfolding ts_shape_def list_all_length
    by (auto simp: less_Suc_eq numeral_eq_Suc)
  from digits_value_bound [OF this, of 0] show "ts_fields s ! 0 < 10000"
    using len by (simp add: ts_fields_def ts_number_def min_def)
  have "list_all is_digit (ts_frac s @ replicate (6 - length (ts_frac s)) (CHR ''0''))"
    using ts_frac_bound [OF assms] by (auto simp: list_all_iff is_digit_def)
  from digits_value_bound [OF this, of 0] show "ts_fields s ! 6 < 1000000"
    using ts_frac_bound [OF assms] by (simp add: ts_fields_def)
qed

lemma length_2: "length s = 2 \<Longrightarrow> \<exists>a b. s = [a, b]"
  by (cases s; cases "tl s") auto

lemma length_4: "length s = 4 \<Longrightarrow> \<exists>a b c d. s = [a, b, c, d]"
  using length_2 [of "take 2 s"] length_2 [of "drop 2 s"] append_take_drop_id [of 2 s]
  by fastforce

lemma pad2:
  assumes "k < 100"
  shows "\<exists>a b. pad_digits 2 k = [a, b] \<and> is_digit a \<and> is_digit b \<and> digits_value 0 [a, b] = k"
proof -
  obtain a b where ab: "pad_digits 2 k = [a, b]"
    using length_2 [OF pad_digits_length] by blast
  have "digits_value 0 [a, b] = k"
    using digits_value_pad [of 0 2 k] assms unfolding ab by simp
  then show ?thesis
    using pad_digits_digits [of 2 k] unfolding ab by auto
qed

lemma pad4:
  assumes "k < 10000"
  shows "\<exists>a b c d. pad_digits 4 k = [a, b, c, d] \<and> is_digit a \<and> is_digit b \<and> is_digit c \<and>
    is_digit d \<and> digits_value 0 [a, b, c, d] = k"
proof -
  obtain a b c d where ab: "pad_digits 4 k = [a, b, c, d]"
    using length_4 [OF pad_digits_length] by blast
  have "digits_value 0 [a, b, c, d] = k"
    using digits_value_pad [of 0 4 k] assms unfolding ab by simp
  then show ?thesis
    using pad_digits_digits [of 4 k] unfolding ab by auto
qed

lemma ts_text_fields:
  assumes "y < 10000" "mo < 100" "d < 100" "h < 100" "mi < 100" "s < 100" "us < 1000000"
  shows "ts_shape (ts_text [y, mo, d, h, mi, s, us])"
    and "ts_fields (ts_text [y, mo, d, h, mi, s, us]) = [y, mo, d, h, mi, s, us]"
proof -
  obtain a1 a2 a3 a4 where y: "pad_digits 4 y = [a1, a2, a3, a4]"
    "is_digit a1" "is_digit a2" "is_digit a3" "is_digit a4" "digits_value 0 [a1, a2, a3, a4] = y"
    using pad4 [OF assms(1)] by blast
  obtain b1 b2 where mo: "pad_digits 2 mo = [b1, b2]" "is_digit b1" "is_digit b2"
    "digits_value 0 [b1, b2] = mo"
    using pad2 [OF assms(2)] by blast
  obtain c1 c2 where d: "pad_digits 2 d = [c1, c2]" "is_digit c1" "is_digit c2"
    "digits_value 0 [c1, c2] = d"
    using pad2 [OF assms(3)] by blast
  obtain d1 d2 where h: "pad_digits 2 h = [d1, d2]" "is_digit d1" "is_digit d2"
    "digits_value 0 [d1, d2] = h"
    using pad2 [OF assms(4)] by blast
  obtain e1 e2 where mi: "pad_digits 2 mi = [e1, e2]" "is_digit e1" "is_digit e2"
    "digits_value 0 [e1, e2] = mi"
    using pad2 [OF assms(5)] by blast
  obtain f1 f2 where s: "pad_digits 2 s = [f1, f2]" "is_digit f1" "is_digit f2"
    "digits_value 0 [f1, f2] = s"
    using pad2 [OF assms(6)] by blast
  define tl where "tl = (if us = 0 then [] else ''.'' @ pad_digits 6 us) @ ''Z''"
  have t: "ts_text [y, mo, d, h, mi, s, us] =
      [a1, a2, a3, a4, CHR ''-'', b1, b2, CHR ''-'', c1, c2, CHR ''T'', d1, d2, CHR '':'', e1, e2,
       CHR '':'', f1, f2] @ tl"
    by (simp add: ts_text_def tl_def y(1) mo(1) d(1) h(1) mi(1) s(1))
  have frac: "ts_frac (ts_text [y, mo, d, h, mi, s, us]) = (if us = 0 then [] else pad_digits 6 us)"
    by (simp add: t ts_frac_def tl_def)
  show "ts_shape (ts_text [y, mo, d, h, mi, s, us])"
  proof -
    have len: "length (ts_text [y, mo, d, h, mi, s, us]) = (if us = 0 then 20 else 27)"
      by (simp add: t tl_def)
    have dot: "us \<noteq> 0 \<Longrightarrow> ts_text [y, mo, d, h, mi, s, us] ! 19 = CHR ''.''"
      by (simp add: t tl_def)
    have end': "last (ts_text [y, mo, d, h, mi, s, us]) = CHR ''Z''"
      by (simp add: t tl_def)
    have digs: "list_all (\<lambda>i. is_digit (ts_text [y, mo, d, h, mi, s, us] ! i))
        [0, 1, 2, 3, 5, 6, 8, 9, 11, 12, 14, 15, 17, 18]"
      unfolding t by (simp add: y(2-5) mo(2-3) d(2-3) h(2-3) mi(2-3) s(2-3))
    have seps: "ts_text [y, mo, d, h, mi, s, us] ! 4 = CHR ''-''"
        "ts_text [y, mo, d, h, mi, s, us] ! 7 = CHR ''-''"
        "ts_text [y, mo, d, h, mi, s, us] ! 10 = CHR ''T''"
        "ts_text [y, mo, d, h, mi, s, us] ! 13 = CHR '':''"
        "ts_text [y, mo, d, h, mi, s, us] ! 16 = CHR '':''"
      unfolding t by simp_all
    have "list_all is_digit (ts_frac (ts_text [y, mo, d, h, mi, s, us]))"
      by (simp add: frac pad_digits_digits)
    then show ?thesis
      unfolding ts_shape_def using len dot end' digs seps by (cases "us = 0") simp_all
  qed
  show "ts_fields (ts_text [y, mo, d, h, mi, s, us]) = [y, mo, d, h, mi, s, us]"
  proof -
    let ?t = "ts_text [y, mo, d, h, mi, s, us]"
    have nums: "ts_number ?t 0 4 = y" "ts_number ?t 5 2 = mo" "ts_number ?t 8 2 = d"
        "ts_number ?t 11 2 = h" "ts_number ?t 14 2 = mi" "ts_number ?t 17 2 = s"
      unfolding ts_number_def t
      by (simp_all add: y(6) mo(4) d(4) h(4) mi(4) s(4) del: digits_value.simps)
    have "digits_value 0 (ts_frac ?t @ replicate (6 - length (ts_frac ?t)) (CHR ''0'')) = us"
    proof (cases "us = 0")
      case True
      have "replicate 6 (CHR ''0'') = ''000000''"
        by (simp add: numeral_eq_Suc)
      then show ?thesis using True frac by simp
    next
      case False
      then show ?thesis
        using assms(7) digits_value_pad [of 0 6 us] by (simp add: frac del: pad_digits.simps)
    qed
    then show ?thesis
      unfolding ts_fields_def nums by simp
  qed
qed

lemma printable_text_ok:
  "printable_ascii s \<Longrightarrow> s \<noteq> [] \<Longrightarrow> length s \<le> n \<Longrightarrow> text_ok n s"
  by (simp add: text_ok_def printable_strict printable_facts)

lemma pad_digits_printable: "list_all (\<lambda>c. 32 \<le> byte c \<and> byte c \<le> 126) (pad_digits n k)"
  using pad_digits_digits [of n k] by (auto simp: list_all_iff is_digit_def)

lemma ts_text_printable: "printable_ascii (ts_text f)"
  by (simp add: printable_ascii_def ts_text_def pad_digits_printable del: pad_digits.simps)

lemma ts_text_ok: "text_ok 32 (ts_text f)"
  by (rule printable_text_ok [OF ts_text_printable]) (simp_all add: ts_text_def)

lemma parse_timestamp_text:
  assumes "parse_timestamp v = Inr f"
  shows "parse_timestamp (JStr (ts_text f)) = Inr f"
proof -
  obtain s where s: "v = JStr s" "ts_shape s" "ts_valid (ts_fields s)" "f = ts_fields s"
    using assms by (auto simp: parse_timestamp_def ok_simps)
  obtain y mo d h mi se us where f: "f = [y, mo, d, h, mi, se, us]"
    using s(4) by (simp add: ts_fields_def)
  have "month_days y mo \<le> 31"
    by (simp add: month_days_def)
  then have "mo < 100" "d < 100" "h < 100" "mi < 100" "se < 100"
    using s(3) f s(4) by (auto simp: ts_valid_def)
  moreover have "y < 10000" "us < 1000000"
    using ts_fields_bound [OF s(2)] f s(4) by auto
  ultimately have "ts_shape (ts_text f)" "ts_fields (ts_text f) = f"
    using ts_text_fields by (simp_all add: f)
  then show ?thesis
    using s(3,4) by (simp add: parse_timestamp_def wtext_def on_text_def ts_text_ok)
qed

text \<open>A timestamp as the code stores it: reading it again gives the same text.\<close>

definition ts_canonical :: "pystr \<Rightarrow> bool" where
  "ts_canonical s \<longleftrightarrow> wtimestamp (JStr s) = Inr s"

lemma wtimestamp_canonical: "wtimestamp v = Inr s \<Longrightarrow> ts_canonical s"
  using parse_timestamp_text
  by (fastforce simp: wtimestamp_def ts_canonical_def ok_simps)

lemma ts_canonical_strict: "ts_canonical s \<Longrightarrow> strict_utf8 s"
  by (auto simp: ts_canonical_def wtimestamp_def parse_timestamp_def ok_simps text_ok_def)

lemma timestamp_jsort [simp]:
  "parse_timestamp (jsort v) = parse_timestamp v" "wtimestamp (jsort v) = wtimestamp v"
  by (simp_all add: parse_timestamp_def wtimestamp_def)

section \<open>Credentials\<close>

text \<open>\<open>_sensitive_walk\<close>: every string of a value, the keys of an object before its values.\<close>

primrec sensitive_walk :: "json \<Rightarrow> pystr list" where
  "sensitive_walk JNull = []"
| "sensitive_walk (JBool b) = []"
| "sensitive_walk (JInt i) = []"
| "sensitive_walk (JFloat r) = []"
| "sensitive_walk (JStr s) = [s]"
| "sensitive_walk (JArr xs) = concat (map sensitive_walk xs)"
| "sensitive_walk (JObj kvs) =
     map fst kvs @ concat (map snd (map (map_prod id sensitive_walk) kvs))"

definition reject_sensitive :: "json \<Rightarrow> unit res" where
  "reject_sensitive v =
     check (\<not> list_ex sensitive_text (sensitive_walk v)) WorkspaceSensitiveDataError"

section \<open>Digests of canonical values\<close>

definition ws_canonical :: "json \<Rightarrow> pystr res" where
  "ws_canonical v = invalid (canonical_bytes v)"

definition ws_digest :: "json \<Rightarrow> pystr res" where
  "ws_digest v = rbind (ws_canonical v) (\<lambda>s. Inr (sha256_ref s))"

definition domain_digest :: "pystr \<Rightarrow> json \<Rightarrow> pystr res" where
  "domain_digest domain v =
     rbind (ws_canonical v) (\<lambda>s. Inr (sha256_ref (domain @ CHR 0x0A # s)))"

lemma ws_canonical_ok: "json_ok v \<Longrightarrow> ws_canonical v = Inr (dumps v)"
  by (simp add: ws_canonical_def canonical_bytes_def canonical_json_ok invalid_def)

lemma ws_canonical_Inr: "ws_canonical v = Inr s \<Longrightarrow> s = dumps v"
  by (auto simp: ws_canonical_def canonical_bytes_def ok_simps dest: canonical_json_Inr)

lemma ws_digest_ok: "json_ok v \<Longrightarrow> ws_digest v = Inr (sha256_ref (dumps v))"
  by (simp add: ws_digest_def ws_canonical_ok)

lemma domain_digest_ok:
  "json_ok v \<Longrightarrow> domain_digest d v = Inr (sha256_ref (d @ CHR 0x0A # dumps v))"
  by (simp add: domain_digest_def ws_canonical_ok)

lemma ws_digest_shape: "ws_digest v = Inr s \<Longrightarrow> is_digest s"
  by (auto simp: ws_digest_def ok_simps)

lemma domain_digest_shape: "domain_digest d v = Inr s \<Longrightarrow> is_digest s"
  by (auto simp: domain_digest_def ok_simps)

text \<open>A digest binds the value, up to the order of keys, unless the two texts collide.\<close>

lemma ws_digest_text: "ws_digest v = Inr s \<Longrightarrow> s = sha256_ref (dumps v)"
  by (auto simp: ws_digest_def rbind_eq_Inr_iff dest: ws_canonical_Inr)

lemma domain_digest_text:
  "domain_digest d v = Inr s \<Longrightarrow> s = sha256_ref (d @ CHR 0x0A # dumps v)"
  by (auto simp: domain_digest_def rbind_eq_Inr_iff dest: ws_canonical_Inr)

lemma ws_digest_binds:
  assumes "ws_digest v = Inr s" "ws_digest w = Inr s" "json_wf v" "json_wf w"
  shows "jsort v = jsort w \<or> sha256_collision (dumps v) (dumps w)"
proof -
  have "sha256_ref (dumps v) = sha256_ref (dumps w)"
    using assms(1,2) ws_digest_text by metis
  from sha256_ref_eqD [OF this] show ?thesis
    using dumps_inject [OF assms(3,4)] by blast
qed

lemma domain_digest_binds:
  assumes "domain_digest d v = Inr s" "domain_digest d w = Inr s" "json_wf v" "json_wf w"
  shows "jsort v = jsort w \<or>
    sha256_collision (d @ CHR 0x0A # dumps v) (d @ CHR 0x0A # dumps w)"
proof -
  have "sha256_ref (d @ CHR 0x0A # dumps v) = sha256_ref (d @ CHR 0x0A # dumps w)"
    using assms(1,2) domain_digest_text by metis
  from sha256_ref_eqD [OF this] have "dumps v = dumps w \<or>
      sha256_collision (d @ CHR 0x0A # dumps v) (d @ CHR 0x0A # dumps w)"
    by auto
  then show ?thesis
    using dumps_inject [OF assms(3,4)] by blast
qed

end
