(* ===== verification/Ws_Values.thy ===== *)
theory Ws_Values
  imports Ws_Text
begin

text \<open>
  The value classes of \<open>src/leanctx_sdk/workspace.py\<close>: a class is a record, its
  \<open>__post_init__\<close> a function \<open>mk_..\<close> from unchecked JSON values to the record it builds, \<open>to_dict\<close>
  and \<open>from_dict\<close> are \<open>.._to_dict\<close> and \<open>.._from_dict\<close>. The locale \<open>codec\<close> is their common
  contract, interpreted for every class that is stored and read again.
\<close>

section \<open>Optional parts\<close>

definition opt_dict :: "('a \<Rightarrow> json) \<Rightarrow> 'a option \<Rightarrow> json" where
  "opt_dict f x = (case x of None \<Rightarrow> JNull | Some a \<Rightarrow> f a)"

definition opt_from :: "(json \<Rightarrow> 'a res) \<Rightarrow> json \<Rightarrow> 'a option res" where
  "opt_from f v = (if v = JNull then Inr None else rbind (f v) (\<lambda>x. Inr (Some x)))"

lemma opt_from_Inr [ok_simps]:
  "opt_from f v = Inr x \<longleftrightarrow>
     (case x of None \<Rightarrow> v = JNull | Some y \<Rightarrow> v \<noteq> JNull \<and> f v = Inr y)"
  by (auto simp: opt_from_def rbind_eq_Inr_iff split: option.splits)

section \<open>The contract of a stored class\<close>

locale codec =
  fixes enc :: "'a \<Rightarrow> json" and dec :: "json \<Rightarrow> 'a res" and ok :: "'a \<Rightarrow> bool"
  assumes dec_ok: "dec v = Inr x \<Longrightarrow> ok x"
    and dec_enc: "ok x \<Longrightarrow> dec (enc x) = Inr x"
    and dec_jsort: "json_wf v \<Longrightarrow> dec (jsort v) = dec v"
    and enc_ok: "ok x \<Longrightarrow> json_ok (enc x) \<and> is_obj (enc x)"
begin

lemma dec_stable: "dec v = Inr x \<Longrightarrow> dec (enc x) = Inr x"
  using dec_ok dec_enc by blast

lemma enc_inject: "ok x \<Longrightarrow> ok y \<Longrightarrow> enc x = enc y \<Longrightarrow> x = y"
  using dec_enc by (metis sum.inject(2))

lemma enc_wf: "ok x \<Longrightarrow> json_wf (enc x)"
  using enc_ok json_ok_wf by blast

text \<open>Written canonically and read again, a value comes back.\<close>

lemma stored:
  assumes "ok x"
  shows "canonical_bytes (enc x) = Inr (dumps (enc x))"
    and "rbind (strict_json_loads (dumps (enc x))) dec = Inr x"
proof -
  show c: "canonical_bytes (enc x) = Inr (dumps (enc x))"
    using enc_ok [OF assms] by (simp add: canonical_bytes_def canonical_json_ok)
  then have "strict_json_loads (dumps (enc x)) = Inr (jsort (enc x))"
    using enc_ok [OF assms] strict_loads_canonical by blast
  then show "rbind (strict_json_loads (dumps (enc x))) dec = Inr x"
    using dec_jsort [OF enc_wf [OF assms]] dec_enc [OF assms] by simp
qed

text \<open>The canonical text, hence the digest, determines the value.\<close>

lemma text_inject:
  assumes "ok x" "ok y" "dumps (enc x) = dumps (enc y)"
  shows "x = y"
  using stored(2) [OF assms(1)] stored(2) [OF assms(2)] assms(3) by (metis sum.inject(2))

lemma sorted_inject: "ok x \<Longrightarrow> ok y \<Longrightarrow> jsort (enc x) = jsort (enc y) \<Longrightarrow> x = y"
  using dec_jsort [OF enc_wf] dec_enc by (metis sum.inject(2))

lemma digest_total: "ok x \<Longrightarrow> ws_digest (enc x) = Inr (sha256_ref (dumps (enc x)))"
  using enc_ok ws_digest_ok by blast

lemma digest_inject:
  assumes "ok x" "ok y" "ws_digest (enc x) = ws_digest (enc y)"
  shows "x = y \<or> sha256_collision (dumps (enc x)) (dumps (enc y))"
proof -
  have "sha256_ref (dumps (enc x)) = sha256_ref (dumps (enc y))"
    using assms(3) digest_total [OF assms(1)] digest_total [OF assms(2)] by simp
  from sha256_ref_eqD [OF this] show ?thesis
    using text_inject [OF assms(1,2)] by blast
qed

lemma mapr_dec_enc: "list_all ok xs \<Longrightarrow> mapr dec (map enc xs) = Inr xs"
  by (induction xs) (simp_all add: dec_enc)

lemma mapr_dec_ok: "mapr dec vs = Inr xs \<Longrightarrow> list_all ok xs"
  using mapr_Inr_setD [of dec vs xs] dec_ok by (auto simp: list_all_iff)

lemma enc_not_null: "ok x \<Longrightarrow> enc x \<noteq> JNull"
  using enc_ok by fastforce

lemma opt_dec_enc: "pred_option ok x \<Longrightarrow> opt_from dec (opt_dict enc x) = Inr x"
  by (cases x) (simp_all add: opt_from_def opt_dict_def dec_enc enc_not_null)

lemma opt_dec_ok: "opt_from dec v = Inr x \<Longrightarrow> pred_option ok x"
  by (cases x) (auto simp: opt_from_Inr dest: dec_ok)

lemma opt_enc_ok: "pred_option ok x \<Longrightarrow> json_ok (opt_dict enc x)"
  using enc_ok by (cases x) (simp_all add: opt_dict_def)

lemma opt_jsort: "json_wf v \<Longrightarrow> opt_from dec (jsort v) = opt_from dec v"
  by (simp add: opt_from_def dec_jsort)

lemma enc_list_ok: "list_all ok xs \<Longrightarrow> json_ok (JArr (map enc xs))"
  using enc_ok by (auto simp: list_all_iff)

end

section \<open>Revisions, scopes and recovery\<close>

record source_revision =
  rv_kind :: pystr
  rv_value :: pystr

definition mk_revision :: "json \<Rightarrow> json \<Rightarrow> source_revision res" where
  "mk_revision kind val =
     rbind (wtext 64 kind) (\<lambda>k. rbind (wtext 2048 val) (\<lambda>x. Inr \<lparr>rv_kind = k, rv_value = x\<rparr>))"

definition revision_to_dict :: "source_revision \<Rightarrow> json" where
  "revision_to_dict r = JObj [(''kind'', JStr (rv_kind r)), (''value'', JStr (rv_value r))]"

definition revision_from_dict :: "json \<Rightarrow> source_revision res" where
  "revision_from_dict v =
     rbind (exact [''kind'', ''value''] v) (\<lambda>_.
     keep_ws (mk_revision (jat ''kind'' v) (jat ''value'' v)))"

record source_scope =
  sc_kind :: pystr
  sc_value :: pystr

definition mk_scope :: "json \<Rightarrow> json \<Rightarrow> source_scope res" where
  "mk_scope kind val =
     rbind (wtext 64 kind) (\<lambda>k. rbind (wtext 2048 val) (\<lambda>x. Inr \<lparr>sc_kind = k, sc_value = x\<rparr>))"

definition scope_to_dict :: "source_scope \<Rightarrow> json" where
  "scope_to_dict s = JObj [(''kind'', JStr (sc_kind s)), (''value'', JStr (sc_value s))]"

definition scope_from_dict :: "json \<Rightarrow> source_scope res" where
  "scope_from_dict v =
     rbind (exact [''kind'', ''value''] v) (\<lambda>_.
     keep_ws (mk_scope (jat ''kind'' v) (jat ''value'' v)))"

record source_recovery =
  ry_kind :: pystr
  ry_ref :: pystr
  ry_digest :: "pystr option"

definition mk_recovery :: "json \<Rightarrow> json \<Rightarrow> json \<Rightarrow> source_recovery res" where
  "mk_recovery kind immutable_ref digest =
     rbind (wtext 64 kind) (\<lambda>k.
     rbind (wref 2048 immutable_ref) (\<lambda>r.
     rbind (if digest = JNull then Inr None else rbind (wdigest digest) (\<lambda>d. Inr (Some d))) (\<lambda>d.
     Inr \<lparr>ry_kind = k, ry_ref = r, ry_digest = d\<rparr>)))"

definition recovery_to_dict :: "source_recovery \<Rightarrow> json" where
  "recovery_to_dict r =
     JObj ([(''kind'', JStr (ry_kind r)), (''immutable_ref'', JStr (ry_ref r))] @
       opt_item ''digest'' (ry_digest r))"

definition recovery_from_dict :: "json \<Rightarrow> source_recovery res" where
  "recovery_from_dict v =
     rbind (check (is_obj v) WorkspaceIncompatibleError) (\<lambda>_.
     rbind (exact ([''kind'', ''immutable_ref''] @
         (if ''digest'' \<in> set (jkeys v) then [''digest''] else [])) v) (\<lambda>_.
     keep_ws (mk_recovery (jat ''kind'' v) (jat ''immutable_ref'' v) (jat ''digest'' v))))"

section \<open>Freshness\<close>

record source_freshness =
  fr_observed :: pystr
  fr_status :: pystr
  fr_until :: "pystr option"

definition freshness_names :: "pystr list" where
  "freshness_names = [''current'', ''stale'', ''unknown'']"

definition mk_freshness :: "json \<Rightarrow> json \<Rightarrow> json \<Rightarrow> source_freshness res" where
  "mk_freshness observed_at status valid_until =
     rbind (parse_timestamp observed_at) (\<lambda>observed_dt.
     rbind (wtimestamp observed_at) (\<lambda>observed.
     rbind (member freshness_names status) (\<lambda>st.
     rbind (if valid_until = JNull then Inr None
            else rbind (parse_timestamp valid_until) (\<lambda>dt. Inr (Some dt))) (\<lambda>valid_dt.
     rbind (if valid_dt = None then Inr None
            else rbind (wtimestamp valid_until) (\<lambda>x. Inr (Some x))) (\<lambda>valid.
     rbind (check (\<not> (case valid_dt of None \<Rightarrow> False | Some dt \<Rightarrow> dt < observed_dt))
       WorkspaceValidationError) (\<lambda>_.
     Inr \<lparr>fr_observed = observed, fr_status = st, fr_until = valid\<rparr>))))))"

definition freshness_to_dict :: "source_freshness \<Rightarrow> json" where
  "freshness_to_dict f =
     JObj ([(''observed_at'', JStr (fr_observed f)), (''status'', JStr (fr_status f))] @
       opt_item ''valid_until'' (fr_until f))"

definition freshness_from_dict :: "json \<Rightarrow> source_freshness res" where
  "freshness_from_dict v =
     rbind (check (is_obj v) WorkspaceIncompatibleError) (\<lambda>_.
     rbind (exact ([''observed_at'', ''status''] @
         (if ''valid_until'' \<in> set (jkeys v) then [''valid_until''] else [])) v) (\<lambda>_.
     keep_ws (mk_freshness (jat ''observed_at'' v) (jat ''status'' v) (jat ''valid_until'' v))))"

section \<open>Trust\<close>

text \<open>
  The construction token is the argument \<open>token\<close>: only \<open>_verified_source_trust\<close> passes it.
\<close>

record source_trust =
  tr_level :: pystr
  tr_refs :: "pystr list"

definition trust_names :: "pystr list" where
  "trust_names = [''unverified'', ''local'', ''verified'']"

definition p4_receipt_ref :: "pystr \<Rightarrow> bool" where
  "p4_receipt_ref s \<longleftrightarrow> prefixed_hex ''receipt:sha256:'' 64 s"

definition mk_trust :: "bool \<Rightarrow> json \<Rightarrow> json \<Rightarrow> source_trust res" where
  "mk_trust token level evidence_refs =
     rbind (member trust_names level) (\<lambda>l.
     rbind (wrefs 32 evidence_refs) (\<lambda>refs.
     rbind (check (l = ''verified'' \<longrightarrow> token \<and> refs \<noteq> [] \<and> list_all p4_receipt_ref refs)
       WorkspaceValidationError) (\<lambda>_.
     Inr \<lparr>tr_level = l, tr_refs = refs\<rparr>)))"

definition verified_trust :: "json \<Rightarrow> source_trust res" where
  "verified_trust refs = mk_trust True (JStr ''verified'') refs"

definition trust_to_dict :: "source_trust \<Rightarrow> json" where
  "trust_to_dict t =
     JObj [(''level'', JStr (tr_level t)), (''evidence_refs'', jstrs (tr_refs t))]"

definition trust_from_dict :: "bool \<Rightarrow> json \<Rightarrow> source_trust res" where
  "trust_from_dict allow_verified v =
     rbind (exact [''level'', ''evidence_refs''] v) (\<lambda>_.
     rbind (check (is_arr (jat ''evidence_refs'' v)) WorkspaceIncompatibleError) (\<lambda>_.
     keep_ws
       (if jat ''level'' v = JStr ''verified'' then
          rbind (check allow_verified WorkspaceIncompatibleError) (\<lambda>_.
          verified_trust (jat ''evidence_refs'' v))
        else mk_trust False (jat ''level'' v) (jat ''evidence_refs'' v))))"

section \<open>The contract holds\<close>

lemma text_ok_strict: "text_ok n s \<Longrightarrow> strict_utf8 s"
  by (simp add: text_ok_def)

lemma ref_ok_strict: "ref_ok n s \<Longrightarrow> strict_utf8 s"
  by (simp add: ref_ok_def text_ok_def)

lemma is_digest_strict: "is_digest s \<Longrightarrow> strict_utf8 s"
  by (simp add: is_digest_printable printable_strict)

lemma is_uuid_strict: "is_uuid s \<Longrightarrow> strict_utf8 s"
  by (simp add: is_uuid_printable printable_strict)

lemma json_ok_str: "json_ok (JStr s) \<longleftrightarrow> strict_utf8 s"
  by (simp add: strict_utf8_def)

lemma str_list_strict:
  "str_list_ok P n ss \<Longrightarrow> (\<And>s. P s \<Longrightarrow> strict_utf8 s) \<Longrightarrow> json_ok (jstrs ss)"
  by (intro json_ok_jstrs) (auto simp: str_list_ok_def list_all_iff)

lemmas strict_rules = text_ok_strict ref_ok_strict is_digest_strict is_uuid_strict
  ts_canonical_strict

lemma jkeys_obj [simp]: "jkeys (JObj kvs) = map fst kvs"
  by (simp add: jkeys_def)

lemma jkeys_mem_jsort [simp]: "k \<in> set (jkeys (jsort v)) \<longleftrightarrow> k \<in> set (jkeys v)"
  by simp

lemma jsort_null_iff [simp]: "jsort v = JNull \<longleftrightarrow> v = JNull"
  by (cases v) auto

lemma opt_item_keys: "opt_item k x = (case x of None \<Rightarrow> [] | Some s \<Rightarrow> [(k, JStr s)])"
  by (simp add: opt_item_def)

lemma keep_ws_simps [simp]: "keep_ws (Inr x) = Inr x"
  by (simp add: keep_ws_def)

lemma incompatible_simps [simp]:
  "incompatible (Inr x) = Inr x" "incompatible (Inl e) = Inl WorkspaceIncompatibleError"
  by (simp_all add: incompatible_def)

lemma json_ok_literal [simp]:
  "json_ok (JObj [(''kind'', a), (''value'', b)]) \<longleftrightarrow> json_ok a \<and> json_ok b"
  by simp

definition revision_ok :: "source_revision \<Rightarrow> bool" where
  "revision_ok r \<longleftrightarrow> text_ok 64 (rv_kind r) \<and> text_ok 2048 (rv_value r)"

lemma mk_revision_Inr [ok_simps]:
  "mk_revision k v = Inr r \<longleftrightarrow> k = JStr (rv_kind r) \<and> v = JStr (rv_value r) \<and> revision_ok r"
  by (cases r) (auto simp: mk_revision_def ok_simps revision_ok_def)

interpretation revision: codec revision_to_dict revision_from_dict revision_ok
proof
  fix v r
  assume "revision_from_dict v = Inr r"
  then show "revision_ok r" by (auto simp: revision_from_dict_def ok_simps)
next
  fix r :: source_revision
  assume r: "revision_ok r"
  then have "mk_revision (JStr (rv_kind r)) (JStr (rv_value r)) = Inr r"
    by (simp add: ok_simps)
  then show "revision_from_dict (revision_to_dict r) = Inr r"
    by (simp add: revision_from_dict_def revision_to_dict_def exact_def)
  show "json_ok (revision_to_dict r) \<and> is_obj (revision_to_dict r)"
    using r by (auto simp: revision_to_dict_def revision_ok_def strict_utf8_def dest!: text_ok_strict)
next
  fix v
  show "revision_from_dict (jsort v) = revision_from_dict v"
    by (simp add: revision_from_dict_def mk_revision_def)
qed

definition scope_ok :: "source_scope \<Rightarrow> bool" where
  "scope_ok r \<longleftrightarrow> text_ok 64 (sc_kind r) \<and> text_ok 2048 (sc_value r)"

lemma mk_scope_Inr [ok_simps]:
  "mk_scope k v = Inr r \<longleftrightarrow> k = JStr (sc_kind r) \<and> v = JStr (sc_value r) \<and> scope_ok r"
  by (cases r) (auto simp: mk_scope_def ok_simps scope_ok_def)

interpretation scope: codec scope_to_dict scope_from_dict scope_ok
proof
  fix v r
  assume "scope_from_dict v = Inr r"
  then show "scope_ok r" by (auto simp: scope_from_dict_def ok_simps)
next
  fix r :: source_scope
  assume r: "scope_ok r"
  then have "mk_scope (JStr (sc_kind r)) (JStr (sc_value r)) = Inr r"
    by (simp add: ok_simps)
  then show "scope_from_dict (scope_to_dict r) = Inr r"
    by (simp add: scope_from_dict_def scope_to_dict_def exact_def)
  show "json_ok (scope_to_dict r) \<and> is_obj (scope_to_dict r)"
    using r by (auto simp: scope_to_dict_def scope_ok_def strict_utf8_def dest!: text_ok_strict)
next
  fix v
  show "scope_from_dict (jsort v) = scope_from_dict v"
    by (simp add: scope_from_dict_def mk_scope_def)
qed

definition recovery_ok :: "source_recovery \<Rightarrow> bool" where
  "recovery_ok r \<longleftrightarrow>
     text_ok 64 (ry_kind r) \<and> ref_ok 2048 (ry_ref r) \<and>
     (case ry_digest r of None \<Rightarrow> True | Some d \<Rightarrow> is_digest d)"

lemma mk_recovery_Inr [ok_simps]:
  "mk_recovery k i d = Inr r \<longleftrightarrow>
     k = JStr (ry_kind r) \<and> i = JStr (ry_ref r) \<and> d = opt_str (ry_digest r) \<and> recovery_ok r"
  by (cases r) (auto simp: mk_recovery_def ok_simps recovery_ok_def split: option.splits)

interpretation recovery: codec recovery_to_dict recovery_from_dict recovery_ok
proof
  fix v r
  assume "recovery_from_dict v = Inr r"
  then show "recovery_ok r" by (auto simp: recovery_from_dict_def ok_simps)
next
  fix r :: source_recovery
  assume r: "recovery_ok r"
  then have "mk_recovery (JStr (ry_kind r)) (JStr (ry_ref r)) (opt_str (ry_digest r)) = Inr r"
    by (simp add: ok_simps)
  then show "recovery_from_dict (recovery_to_dict r) = Inr r"
    by (cases "ry_digest r")
      (simp_all add: recovery_from_dict_def recovery_to_dict_def exact_def opt_item_def)
  show "json_ok (recovery_to_dict r) \<and> is_obj (recovery_to_dict r)"
    using r by (cases "ry_digest r")
      (auto simp: recovery_to_dict_def recovery_ok_def strict_utf8_def opt_item_def
         dest!: text_ok_strict ref_ok_strict is_digest_strict)
next
  fix v
  show "recovery_from_dict (jsort v) = recovery_from_dict v"
    by (simp add: recovery_from_dict_def mk_recovery_def)
qed

definition freshness_ok :: "source_freshness \<Rightarrow> bool" where
  "freshness_ok f \<longleftrightarrow>
     ts_canonical (fr_observed f) \<and> fr_status f \<in> set freshness_names \<and>
     (case fr_until f of None \<Rightarrow> True
      | Some u \<Rightarrow> ts_canonical u \<and> \<not> ts_fields u < ts_fields (fr_observed f))"

lemma parse_timestamp_fields: "parse_timestamp v = Inr f \<Longrightarrow> ts_fields (ts_text f) = f"
  using parse_timestamp_text [of v f] by (auto simp: parse_timestamp_def ok_simps)

lemma ts_canonical_parse:
  "ts_canonical s \<Longrightarrow> parse_timestamp (JStr s) = Inr (ts_fields s) \<and> wtimestamp (JStr s) = Inr s"
  by (auto simp: ts_canonical_def wtimestamp_def ok_simps parse_timestamp_def)

lemma mk_freshness_ok: "mk_freshness a b c = Inr f \<Longrightarrow> freshness_ok f"
proof -
  assume "mk_freshness a b c = Inr f"
  then obtain dt st where a: "parse_timestamp a = Inr dt" "fr_observed f = ts_text dt"
      "st = fr_status f" "st \<in> set freshness_names"
      and c: "c = JNull \<and> fr_until f = None \<or>
        (\<exists>u. parse_timestamp c = Inr u \<and> fr_until f = Some (ts_text u) \<and> \<not> u < dt)"
    by (auto simp: mk_freshness_def ok_simps wtimestamp_def split: if_splits)
  have "ts_canonical (ts_text dt)" and "ts_fields (ts_text dt) = dt"
    using a(1) parse_timestamp_fields wtimestamp_canonical [of a] by (auto simp: wtimestamp_def)
  moreover have "ts_canonical (ts_text u) \<and> ts_fields (ts_text u) = u"
    if "parse_timestamp c = Inr u" for u
    using that parse_timestamp_fields wtimestamp_canonical [of c] by (auto simp: wtimestamp_def)
  ultimately show ?thesis
    using a c by (auto simp: freshness_ok_def)
qed

lemma mk_freshness_stable:
  "freshness_ok f \<Longrightarrow>
     mk_freshness (JStr (fr_observed f)) (JStr (fr_status f)) (opt_str (fr_until f)) = Inr f"
  by (cases f; cases "fr_until f")
    (auto simp: mk_freshness_def freshness_ok_def ts_canonical_parse member_def in_set_def)

interpretation freshness: codec freshness_to_dict freshness_from_dict freshness_ok
proof
  fix v f
  assume "freshness_from_dict v = Inr f"
  then show "freshness_ok f"
    unfolding freshness_from_dict_def rbind_eq_Inr_iff keep_ws_Inr using mk_freshness_ok by blast
next
  fix f :: source_freshness
  assume f: "freshness_ok f"
  then show "freshness_from_dict (freshness_to_dict f) = Inr f"
    using mk_freshness_stable [OF f]
    by (cases "fr_until f")
      (simp_all add: freshness_from_dict_def freshness_to_dict_def exact_def opt_item_def)
  have "strict_utf8 (fr_status f)"
    using f by (auto simp: freshness_ok_def freshness_names_def strict_utf8_def)
  then show "json_ok (freshness_to_dict f) \<and> is_obj (freshness_to_dict f)"
    using f by (cases "fr_until f")
      (auto simp: freshness_to_dict_def freshness_ok_def strict_utf8_def opt_item_def
         dest!: ts_canonical_strict)
next
  fix v
  show "freshness_from_dict (jsort v) = freshness_from_dict v"
    by (simp add: freshness_from_dict_def mk_freshness_def cong: if_cong)
qed

definition trust_ok :: "bool \<Rightarrow> source_trust \<Rightarrow> bool" where
  "trust_ok allowed t \<longleftrightarrow>
     tr_level t \<in> set trust_names \<and> str_list_ok (ref_ok 512) 32 (tr_refs t) \<and>
     (tr_level t = ''verified'' \<longrightarrow>
        allowed \<and> tr_refs t \<noteq> [] \<and> list_all p4_receipt_ref (tr_refs t))"

lemma mk_trust_ok: "mk_trust token a b = Inr t \<Longrightarrow> trust_ok token t"
  by (auto simp: mk_trust_def trust_ok_def ok_simps)

lemma mk_trust_stable:
  "trust_ok token t \<Longrightarrow> mk_trust token (JStr (tr_level t)) (jstrs (tr_refs t)) = Inr t"
  by (auto simp: mk_trust_def trust_ok_def wrefs_canonical member_def in_set_def)

lemma trust_ok_mono: "trust_ok False t \<Longrightarrow> trust_ok allowed t"
  by (simp add: trust_ok_def)

interpretation trust: codec trust_to_dict "trust_from_dict allowed" "trust_ok allowed" for allowed
proof
  fix v t
  assume "trust_from_dict allowed v = Inr t"
  then show "trust_ok allowed t"
    unfolding trust_from_dict_def verified_trust_def rbind_eq_Inr_iff keep_ws_Inr check_eq_Inr_iff
    using mk_trust_ok [of True "JStr ''verified''"] mk_trust_ok [of False] trust_ok_mono
    by (auto simp: rbind_eq_Inr_iff check_eq_Inr_iff split: if_splits)
next
  fix t
  assume t: "trust_ok allowed t"
  show "trust_from_dict allowed (trust_to_dict t) = Inr t"
  proof (cases "tr_level t = ''verified''")
    case True
    then show ?thesis
      using mk_trust_stable [OF t] t
      by (simp add: trust_from_dict_def trust_to_dict_def exact_def verified_trust_def)
        (simp add: trust_ok_def)
  next
    case False
    then have "trust_ok False t" using t by (simp add: trust_ok_def)
    then show ?thesis
      using mk_trust_stable False
      by (simp add: trust_from_dict_def trust_to_dict_def exact_def)
  qed
  have "strict_utf8 (tr_level t)"
    using t by (auto simp: trust_ok_def trust_names_def strict_utf8_def)
  then show "json_ok (trust_to_dict t) \<and> is_obj (trust_to_dict t)"
    using t str_list_strict [of "ref_ok 512" 32 "tr_refs t"] ref_ok_strict
    by (auto simp: trust_to_dict_def trust_ok_def strict_utf8_def)
next
  fix v
  show "trust_from_dict allowed (jsort v) = trust_from_dict allowed v"
    by (simp add: trust_from_dict_def mk_trust_def verified_trust_def)
qed

end
