(* ===== verification/Ws_Anchor.thy ===== *)
theory Ws_Anchor
  imports Ws_Values
begin

text \<open>
  Source anchors of \<open>src/leanctx_sdk/workspace.py\<close> and the engine binding an anchor may carry:
  the dictionary of a \<open>ContextSource\<close>, accepted only in the form that source writes itself.
\<close>

section \<open>Engine bindings\<close>

definition opt_text_arg :: "json \<Rightarrow> pystr option res" where
  "opt_text_arg v =
     (case v of JNull \<Rightarrow> Inr None | JStr s \<Rightarrow> Inr (Some s) | _ \<Rightarrow> Inl WorkspaceValidationError)"

definition source_from_binding :: "pystr \<Rightarrow> json \<Rightarrow> context_source res" where
  "source_from_binding cwd b =
     invalid
       (rbind (case jat ''path'' b of JStr p \<Rightarrow> Inr p | _ \<Rightarrow> Inl WorkspaceValidationError) (\<lambda>path.
        rbind (case jat ''media_type'' b of JStr m \<Rightarrow> Inr m | _ \<Rightarrow> Inl WorkspaceValidationError)
          (\<lambda>media.
        rbind (opt_text_arg (jat ''project_root'' b)) (\<lambda>root.
        rbind (opt_text_arg (jat ''source_ref'' b)) (\<lambda>sref.
        rbind (opt_text_arg (jat ''source_digest'' b)) (\<lambda>sdig.
        mk_context_source cwd path root media sref sdig))))))"

text \<open>
  The part of \<open>SourceAnchor.__post_init__\<close> that reads a binding. The path of the source may
  still be refused by \<open>to_dict\<close>, with the protocol's own \<open>ValidationError\<close>.
\<close>

definition bind_source :: "pystr \<Rightarrow> json \<Rightarrow> json res" where
  "bind_source cwd b =
     rbind (check (is_obj b) WorkspaceValidationError) (\<lambda>_.
     rbind (check
         (set (jkeys b) \<subseteq> set [''path'', ''project_root'', ''media_type'', ''source_ref'', ''source_digest'']
          \<and> ''path'' \<in> set (jkeys b) \<and> ''project_root'' \<in> set (jkeys b) \<and> ''media_type'' \<in> set (jkeys b))
       WorkspaceValidationError) (\<lambda>_.
     rbind (source_from_binding cwd b) (\<lambda>source.
     rbind (source_to_dict cwd source) (\<lambda>normalized.
     rbind (check (py_eq b normalized) WorkspaceValidationError) (\<lambda>_. Inr normalized)))))"

section \<open>Anchors\<close>

record source_anchor =
  an_id :: pystr
  an_kind :: pystr
  an_canonical :: pystr
  an_revision :: "source_revision option"
  an_freshness :: source_freshness
  an_recovery :: "source_recovery option"
  an_trust :: source_trust
  an_scope :: source_scope
  an_binding :: "json option"

definition source_kinds :: "pystr list" where
  "source_kinds = [''filesystem'', ''git'', ''archive'', ''api'', ''custom'']"

text \<open>
  \<open>SourceAnchor.__post_init__\<close> on parts that are already values of their classes, as
  \<open>from_dict\<close> and every caller inside the package pass them.
\<close>

definition mk_anchor ::
  "pystr \<Rightarrow> json \<Rightarrow> json \<Rightarrow> json \<Rightarrow> source_revision option \<Rightarrow> source_freshness \<Rightarrow>
     source_recovery option \<Rightarrow> source_trust \<Rightarrow> source_scope \<Rightarrow> json \<Rightarrow> source_anchor res" where
  "mk_anchor cwd source_id kind canonical_id revision freshness recovery trust scope binding =
     rbind (wtext 128 source_id) (\<lambda>sid.
     rbind (member source_kinds kind) (\<lambda>k.
     rbind (wtext 2048 canonical_id) (\<lambda>can.
     rbind (check (case revision of None \<Rightarrow> True | Some r \<Rightarrow> rv_kind r = k)
       WorkspaceValidationError) (\<lambda>_.
     rbind (if binding = JNull then Inr None
            else rbind (check (k = ''filesystem'') WorkspaceValidationError) (\<lambda>_.
                 rbind (bind_source cwd binding) (\<lambda>b. Inr (Some b)))) (\<lambda>b.
     Inr \<lparr>an_id = sid, an_kind = k, an_canonical = can, an_revision = revision,
       an_freshness = freshness, an_recovery = recovery, an_trust = trust, an_scope = scope,
       an_binding = b\<rparr>)))))"

definition anchor_to_dict :: "source_anchor \<Rightarrow> json" where
  "anchor_to_dict a =
     JObj [(''schema_version'', JStr ''leanctx.source-anchor/v1''), (''source_id'', JStr (an_id a)),
       (''kind'', JStr (an_kind a)), (''canonical_id'', JStr (an_canonical a)),
       (''revision'', opt_dict revision_to_dict (an_revision a)),
       (''freshness'', freshness_to_dict (an_freshness a)),
       (''recovery'', opt_dict recovery_to_dict (an_recovery a)),
       (''trust'', trust_to_dict (an_trust a)), (''scope'', scope_to_dict (an_scope a)),
       (''engine_binding'', opt_dict id (an_binding a))]"

definition anchor_keys :: "pystr list" where
  "anchor_keys = [''schema_version'', ''source_id'', ''kind'', ''canonical_id'', ''revision'',
     ''freshness'', ''recovery'', ''trust'', ''scope'', ''engine_binding'']"

text \<open>
  \<open>_source_anchor_from_dict\<close>. Every failure of the constructor becomes
  \<open>WorkspaceIncompatibleError\<close>, and then the working directory does not matter
  (\<open>anchor_cwd_irrelevant\<close>), so the root directory stands for it.
\<close>

definition anchor_from_dict_at :: "pystr \<Rightarrow> bool \<Rightarrow> json \<Rightarrow> source_anchor res" where
  "anchor_from_dict_at cwd allow_verified v =
     rbind (exact anchor_keys v) (\<lambda>_.
     rbind (check (jat ''schema_version'' v = JStr ''leanctx.source-anchor/v1'')
       WorkspaceIncompatibleError) (\<lambda>_.
     incompatible
       (rbind (opt_from revision_from_dict (jat ''revision'' v)) (\<lambda>revision.
        rbind (freshness_from_dict (jat ''freshness'' v)) (\<lambda>freshness.
        rbind (opt_from recovery_from_dict (jat ''recovery'' v)) (\<lambda>recovery.
        rbind (trust_from_dict allow_verified (jat ''trust'' v)) (\<lambda>trust.
        rbind (scope_from_dict (jat ''scope'' v)) (\<lambda>scope.
        mk_anchor cwd (jat ''source_id'' v) (jat ''kind'' v) (jat ''canonical_id'' v)
          revision freshness recovery trust scope (jat ''engine_binding'' v)))))))))"

definition anchor_from_dict :: "bool \<Rightarrow> json \<Rightarrow> source_anchor res" where
  "anchor_from_dict allow_verified v = anchor_from_dict_at ''/'' allow_verified v"

definition anchor_digest :: "source_anchor \<Rightarrow> pystr res" where
  "anchor_digest a = ws_digest (anchor_to_dict a)"

section \<open>The working directory\<close>

lemma os_abspath_absolute: "os_isabs p \<Longrightarrow> os_abspath cwd p = os_abspath cwd' p"
  by (simp add: os_abspath_def)

lemma os_normpath_isabs: "os_isabs p \<Longrightarrow> os_isabs (os_normpath p)"
  using os_normpath_abs [of p] isabs_abs_path by fastforce

lemma os_join_isabs: "os_isabs r \<Longrightarrow> os_isabs (os_join r p)"
  by (cases r) (auto simp: os_join_def os_isabs_def starts_with_def)

lemma os_abspath_isabs: "os_isabs cwd \<Longrightarrow> os_isabs (os_abspath cwd p)"
  by (cases "os_isabs p") (simp_all add: os_abspath_def os_normpath_isabs os_join_isabs)

lemma mk_context_source_absolute:
  assumes "os_isabs r"
  shows "mk_context_source cwd p (Some r) m a b = mk_context_source cwd' p (Some r) m a b"
proof -
  have root: "os_abspath cwd (os_normpath r) = os_abspath cwd' (os_normpath r)"
    by (rule os_abspath_absolute [OF os_normpath_isabs [OF assms]])
  have "os_isabs (os_abspath cwd (os_normpath r))"
    using os_normpath_isabs [OF os_normpath_isabs [OF assms]] os_normpath_isabs [OF assms]
    by (simp add: os_abspath_def)
  then have join: "os_abspath cwd (os_normpath (os_join (os_abspath cwd' (os_normpath r)) p)) =
      os_abspath cwd' (os_normpath (os_join (os_abspath cwd' (os_normpath r)) p))"
    unfolding root by (intro os_abspath_absolute os_normpath_isabs os_join_isabs)
  have abs_p: "os_isabs p \<Longrightarrow> os_abspath cwd (os_normpath p) = os_abspath cwd' (os_normpath p)"
    by (intro os_abspath_absolute os_normpath_isabs)
  show ?thesis
  proof (cases "ptext MAX_PATH_BYTES True p"; cases "ptext MAX_PATH_BYTES False r")
    fix p' r'
    assume pr: "ptext MAX_PATH_BYTES True p = Inr p'" "ptext MAX_PATH_BYTES False r = Inr r'"
    then have "p' = p" "r' = r" by (simp_all add: ptext_Inr)
    with pr show ?thesis
      by (cases "os_isabs p")
        (simp_all add: mk_context_source_def Let_def root abs_p join)
  qed (simp_all add: mk_context_source_def)
qed

lemma relative_path_absolute:
  assumes "os_isabs (cs_root s)"
  shows "relative_path cwd s = relative_path cwd' s"
proof -
  have "os_abspath cwd (os_normpath (os_join (cs_root s) (cs_path s))) =
      os_abspath cwd' (os_normpath (os_join (cs_root s) (cs_path s)))"
    using assms by (intro os_abspath_absolute os_normpath_isabs os_join_isabs)
  moreover have "os_isabs (os_abspath cwd (os_normpath (os_join (cs_root s) (cs_path s))))"
    using assms os_normpath_isabs os_join_isabs by (simp add: os_abspath_def)
  ultimately show ?thesis
    using assms os_abspath_absolute [of "cs_root s" cwd cwd']
      os_abspath_absolute [of "os_abspath cwd (os_normpath (os_join (cs_root s) (cs_path s)))" cwd cwd']
    by (simp add: relative_path_def os_relpath_def Let_def)
qed

lemma mk_context_source_root:
  "mk_context_source cwd p r m a b = Inr s \<Longrightarrow>
     cs_root s = os_abspath cwd (os_normpath (case r of Some x \<Rightarrow> x | None \<Rightarrow> cwd))"
  by (auto simp: mk_context_source_def ok_simps Let_def)

text \<open>
  A binding that is accepted names an absolute root, so neither the root nor anything else in it
  is read against the working directory.
\<close>

lemma source_to_dict_root:
  "source_to_dict cwd s = Inr d \<Longrightarrow> jget ''project_root'' d = Some (JStr (cs_root s))"
  by (auto simp: source_to_dict_def source_descriptor_def ok_simps opt_item_def
      split: option.splits)

lemma bind_source_Inr:
  "bind_source cwd b = Inr n \<longleftrightarrow>
     is_obj b \<and>
     set (jkeys b) \<subseteq> set [''path'', ''project_root'', ''media_type'', ''source_ref'', ''source_digest''] \<and>
     ''path'' \<in> set (jkeys b) \<and> ''project_root'' \<in> set (jkeys b) \<and> ''media_type'' \<in> set (jkeys b) \<and>
     (\<exists>s. source_from_binding cwd b = Inr s \<and> source_to_dict cwd s = Inr n \<and> py_eq b n)"
  unfolding bind_source_def rbind_eq_Inr_iff check_eq_Inr_iff by blast

lemma bind_source_root:
  assumes "bind_source cwd b = Inr n" "os_isabs cwd"
  shows "\<exists>r. jat ''project_root'' b = JStr r \<and> os_isabs r"
proof -
  obtain s where s: "source_from_binding cwd b = Inr s" "source_to_dict cwd s = Inr n" "py_eq b n"
    using assms(1) unfolding bind_source_Inr by blast
  obtain p r m a d where mk: "mk_context_source cwd p r m a d = Inr s"
    using s(1) unfolding source_from_binding_def rbind_eq_Inr_iff invalid_Inr by blast
  have "jget ''project_root'' b = Some (JStr (cs_root s))"
    using py_eq_field(1) [OF s(3) source_to_dict_root [OF s(2)]] .
  moreover have "os_isabs (cs_root s)"
    using mk_context_source_root [OF mk] os_abspath_isabs [OF assms(2)] by simp
  ultimately show ?thesis by (simp add: jat_def)
qed

lemma source_from_binding_absolute:
  assumes "jat ''project_root'' b = JStr r" "os_isabs r"
  shows "source_from_binding cwd b = source_from_binding cwd' b"
proof -
  have same: "mk_context_source cwd p (Some r) m a d = mk_context_source cwd' p (Some r) m a d"
    for p m a d
    by (rule mk_context_source_absolute [OF assms(2)])
  have root: "opt_text_arg (jat ''project_root'' b) = Inr (Some r)"
    by (simp add: assms(1) opt_text_arg_def)
  show ?thesis
    unfolding source_from_binding_def root rbind_simps same ..
qed

lemma bind_source_cwd:
  assumes "os_isabs cwd" "os_isabs cwd'" "bind_source cwd b = Inr n"
  shows "bind_source cwd' b = Inr n"
proof -
  obtain r where r: "jat ''project_root'' b = JStr r" "os_isabs r"
    using bind_source_root [OF assms(3,1)] by blast
  note same = source_from_binding_absolute [OF r, of cwd cwd']
  obtain s where s: "source_from_binding cwd b = Inr s" "source_to_dict cwd s = Inr n"
    using assms(3) unfolding bind_source_Inr by blast
  obtain p x m a d where mk: "mk_context_source cwd p x m a d = Inr s"
    using s(1) unfolding source_from_binding_def rbind_eq_Inr_iff invalid_Inr by blast
  have "os_isabs (cs_root s)"
    using mk_context_source_root [OF mk] os_abspath_isabs [OF assms(1)] by simp
  then have "source_to_dict cwd s = source_to_dict cwd' s"
    using relative_path_absolute [of s cwd cwd'] by (simp add: source_to_dict_def source_descriptor_def)
  then show ?thesis
    using assms(3) same s unfolding bind_source_Inr by auto
qed


section \<open>The contract holds\<close>

lemma source_to_dict_Inr:
  "source_to_dict cwd s = Inr n \<longleftrightarrow>
     (\<exists>rel. relative_path cwd s = Inr rel \<and>
        n = JObj ([(''path'', JStr rel), (''media_type'', JStr (cs_media s))] @
              opt_item ''source_ref'' (cs_ref s) @ opt_item ''source_digest'' (cs_digest s) @
              [(''project_root'', JStr (cs_root s))]))"
  unfolding source_to_dict_def source_descriptor_Inr rbind_eq_Inr_iff by auto

lemma source_dict_fields:
  assumes "source_to_dict cwd s = Inr n"
  shows "is_obj n"
    and "k \<in> {''path'', ''media_type'', ''project_root''} \<Longrightarrow> \<exists>x. jget k n = Some (JStr x)"
    and "jget k n = None \<or> (\<exists>x. jget k n = Some (JStr x))"
    and "set (jkeys n) \<subseteq> set [''path'', ''project_root'', ''media_type'', ''source_ref'', ''source_digest'']"
    and "distinct (map fst (obj_items n))"
proof -
  obtain rel where n: "n = JObj ([(''path'', JStr rel), (''media_type'', JStr (cs_media s))] @
      opt_item ''source_ref'' (cs_ref s) @ opt_item ''source_digest'' (cs_digest s) @
      [(''project_root'', JStr (cs_root s))])"
    using assms source_to_dict_Inr by blast
  show "is_obj n" by (simp add: n)
  show "\<exists>x. jget k n = Some (JStr x)" if "k \<in> {''path'', ''media_type'', ''project_root''}"
    using that by (cases "cs_ref s"; cases "cs_digest s") (auto simp: n opt_item_def)
  show "jget k n = None \<or> (\<exists>x. jget k n = Some (JStr x))"
    by (cases "cs_ref s"; cases "cs_digest s") (simp_all add: n opt_item_def)
  show "set (jkeys n) \<subseteq> set [''path'', ''project_root'', ''media_type'', ''source_ref'', ''source_digest'']"
    by (cases "cs_ref s"; cases "cs_digest s") (simp_all add: n opt_item_def)
  show "distinct (map fst (obj_items n))"
    by (cases "cs_ref s"; cases "cs_digest s") (simp_all add: n opt_item_def)
qed

lemma jget_keys: "k \<in> set (jkeys v) \<longleftrightarrow> jget k v \<noteq> None"
  by (auto simp: jkeys_def jget_def map_of_eq_None_iff)

text \<open>A binding in normal form is accepted and left as it is, and so is any equal dictionary.\<close>

lemma source_from_binding_cong:
  assumes "\<And>k. k \<in> set [''path'', ''project_root'', ''media_type'', ''source_ref'', ''source_digest''] \<Longrightarrow>
     jat k b = jat k n"
  shows "source_from_binding cwd b = source_from_binding cwd n"
  using assms by (simp add: source_from_binding_def)

lemma bind_source_stable:
  assumes "bind_source cwd b = Inr n"
  shows "bind_source cwd n = Inr n"
proof -
  obtain s where s: "source_from_binding cwd b = Inr s" "source_to_dict cwd s = Inr n" "py_eq b n"
    using assms unfolding bind_source_Inr by blast
  have "jget k b = jget k n" for k
    using py_eq_field [OF s(3), of k] source_dict_fields(3) [OF s(2), of k] by metis
  then have "source_from_binding cwd n = Inr s"
    using s(1) source_from_binding_cong [of b n cwd] by (simp add: jat_def)
  moreover have "k \<in> set (jkeys n)" if "k \<in> {''path'', ''media_type'', ''project_root''}" for k
    using source_dict_fields(2) [OF s(2) that] unfolding jget_keys by auto
  ultimately show ?thesis
    unfolding bind_source_Inr using source_dict_fields(1,4) [OF s(2)] s(2) by auto
qed

lemma source_from_binding_jsort [simp]:
  "source_from_binding cwd (jsort b) = source_from_binding cwd b"
proof -
  have "(case jsort v of JStr p \<Rightarrow> Inr p | _ \<Rightarrow> Inl e) = (case v of JStr p \<Rightarrow> Inr p | _ \<Rightarrow> Inl e)"
    for v and e :: exn
    by (cases v) simp_all
  moreover have "opt_text_arg (jsort v) = opt_text_arg v" for v
    by (cases v) (simp_all add: opt_text_arg_def)
  ultimately show ?thesis
    by (simp add: source_from_binding_def)
qed

lemma bind_source_jsort [simp]: "bind_source cwd (jsort b) = bind_source cwd b"
  by (simp add: bind_source_def)

lemma str_arg_Inr:
  "(case v of JStr p \<Rightarrow> Inr p | _ \<Rightarrow> Inl e) = Inr x \<longleftrightarrow> v = JStr x"
  by (cases v) auto

lemma source_from_binding_Inr:
  assumes "source_from_binding cwd b = Inr s"
  obtains path media root sref sdig where "jat ''path'' b = JStr path"
    "opt_text_arg (jat ''project_root'' b) = Inr root"
    "mk_context_source cwd path root media sref sdig = Inr s"
proof -
  have "\<exists>path media root sref sdig. jat ''path'' b = JStr path \<and>
      opt_text_arg (jat ''project_root'' b) = Inr root \<and>
      mk_context_source cwd path root media sref sdig = Inr s"
    using assms unfolding source_from_binding_def invalid_Inr rbind_eq_Inr_iff str_arg_Inr
    by blast
  then show ?thesis using that by blast
qed

lemma mk_context_source_checks:
  assumes "mk_context_source cwd path root media sref sdig = Inr s"
  shows "ptext MAX_PATH_BYTES True path = Inr path"
    "root = Some r \<Longrightarrow> ptext MAX_PATH_BYTES False r = Inr r"
    "ptext MAX_REF_BYTES True media = Inr (cs_media s)"
    "opt_check validate_ref sref = Inr (cs_ref s)"
    "opt_check validate_digest sdig = Inr (cs_digest s)"
proof -
  have "\<exists>p r0. ptext MAX_PATH_BYTES True path = Inr p \<and>
      ptext MAX_PATH_BYTES False (case root of Some r \<Rightarrow> r | None \<Rightarrow> cwd) = Inr r0 \<and>
      ptext MAX_REF_BYTES True media = Inr (cs_media s) \<and>
      opt_check validate_ref sref = Inr (cs_ref s) \<and>
      opt_check validate_digest sdig = Inr (cs_digest s)"
    using assms unfolding mk_context_source_def Let_def rbind_eq_Inr_iff
    by (elim exE conjE) (simp only: sum.inject, hypsubst, simp)
  then obtain p r0 where p: "ptext MAX_PATH_BYTES True path = Inr p"
      and r: "ptext MAX_PATH_BYTES False (case root of Some r \<Rightarrow> r | None \<Rightarrow> cwd) = Inr r0"
      and m: "ptext MAX_REF_BYTES True media = Inr (cs_media s)"
      and o: "opt_check validate_ref sref = Inr (cs_ref s)"
        "opt_check validate_digest sdig = Inr (cs_digest s)"
    by blast
  from p r have "p = path" "r0 = (case root of Some r \<Rightarrow> r | None \<Rightarrow> cwd)"
    by (simp_all only: ptext_Inr)
  with p r m o show "ptext MAX_PATH_BYTES True path = Inr path"
    "root = Some r \<Longrightarrow> ptext MAX_PATH_BYTES False r = Inr r"
    "ptext MAX_REF_BYTES True media = Inr (cs_media s)"
    "opt_check validate_ref sref = Inr (cs_ref s)"
    "opt_check validate_digest sdig = Inr (cs_digest s)"
    by simp_all
qed

lemma mk_context_source_strict:
  assumes "mk_context_source cwd path root media sref sdig = Inr s"
  shows "strict_utf8 path" "root = Some r \<Longrightarrow> strict_utf8 r" "strict_utf8 (cs_media s)"
    "cs_ref s = Some x \<Longrightarrow> strict_utf8 x" "cs_digest s = Some y \<Longrightarrow> strict_utf8 y"
  using mk_context_source_checks [OF assms]
  by (simp_all add: ptext_Inr opt_check_Inr validate_ref_Inr validate_digest_Inr printable_strict
      is_digest_printable split: option.splits)

lemma bind_source_json_ok:
  assumes "bind_source cwd b = Inr n" "os_isabs cwd"
  shows "json_ok n"
proof -
  obtain s where s: "source_from_binding cwd b = Inr s" "source_to_dict cwd s = Inr n" "py_eq b n"
    using assms unfolding bind_source_Inr by blast
  obtain path media root sref sdig where b: "jat ''path'' b = JStr path"
      "opt_text_arg (jat ''project_root'' b) = Inr root"
      and mk: "mk_context_source cwd path root media sref sdig = Inr s"
    using source_from_binding_Inr [OF s(1)] .
  note strict = mk_context_source_strict [OF mk]
  obtain rel where n: "n = JObj ([(''path'', JStr rel), (''media_type'', JStr (cs_media s))] @
      opt_item ''source_ref'' (cs_ref s) @ opt_item ''source_digest'' (cs_digest s) @
      [(''project_root'', JStr (cs_root s))])"
    using s(2) source_to_dict_Inr by blast
  have "jget ''path'' b = Some (JStr rel)"
    by (rule py_eq_field(1) [OF s(3)]) (simp add: n)
  moreover have "jget ''project_root'' b = Some (JStr (cs_root s))"
    by (rule py_eq_field(1) [OF s(3) source_to_dict_root [OF s(2)]])
  ultimately have "path = rel" "root = Some (cs_root s)"
    using b by (simp_all add: jat_def opt_text_arg_def)
  then have "strict_utf8 rel" "strict_utf8 (cs_root s)"
    using strict(1,2) by simp_all
  then show ?thesis
    using strict(3-5)
    by (cases "cs_ref s"; cases "cs_digest s") (simp_all add: n opt_item_def strict_utf8_def)
qed

text \<open>What the anchor holds once it is built.\<close>

definition anchor_ok :: "bool \<Rightarrow> source_anchor \<Rightarrow> bool" where
  "anchor_ok allowed a \<longleftrightarrow>
     text_ok 128 (an_id a) \<and> an_kind a \<in> set source_kinds \<and> text_ok 2048 (an_canonical a) \<and>
     (case an_revision a of None \<Rightarrow> True | Some r \<Rightarrow> revision_ok r \<and> rv_kind r = an_kind a) \<and>
     freshness_ok (an_freshness a) \<and>
     (case an_recovery a of None \<Rightarrow> True | Some r \<Rightarrow> recovery_ok r) \<and>
     trust_ok allowed (an_trust a) \<and> scope_ok (an_scope a) \<and>
     (case an_binding a of None \<Rightarrow> True
      | Some b \<Rightarrow> an_kind a = ''filesystem'' \<and> bind_source ''/'' b = Inr b)"

lemma mk_anchor_ok:
  assumes "mk_anchor ''/'' i k c rvn fr ry tr sc b = Inr a" "freshness_ok fr" "trust_ok allowed tr"
    "scope_ok sc" "\<And>r. rvn = Some r \<Longrightarrow> revision_ok r" "\<And>r. ry = Some r \<Longrightarrow> recovery_ok r"
  shows "anchor_ok allowed a"
proof -
  obtain i' k' c' b' where f: "i = JStr i'" "text_ok 128 i'" "k = JStr k'" "k' \<in> set source_kinds"
      "c = JStr c'" "text_ok 2048 c'" "case rvn of None \<Rightarrow> True | Some r \<Rightarrow> rv_kind r = k'"
      "(if b = JNull then Inr None
            else rbind (check (k' = ''filesystem'') WorkspaceValidationError) (\<lambda>_.
                 rbind (bind_source ''/'' b) (\<lambda>b. Inr (Some b)))) = Inr b'"
      "a = \<lparr>an_id = i', an_kind = k', an_canonical = c', an_revision = rvn,
       an_freshness = fr, an_recovery = ry, an_trust = tr, an_scope = sc, an_binding = b'\<rparr>"
    using assms(1) unfolding mk_anchor_def rbind_eq_Inr_iff wtext_Inr member_Inr check_eq_Inr_iff
    by auto
  have "case b' of None \<Rightarrow> True | Some n \<Rightarrow> k' = ''filesystem'' \<and> bind_source ''/'' n = Inr n"
    using f(8) bind_source_stable
    by (auto simp: rbind_eq_Inr_iff check_eq_Inr_iff split: if_splits)
  then show ?thesis
    using f assms(2-6) by (auto simp: anchor_ok_def split: option.splits)
qed

lemma mk_anchor_stable:
  assumes "anchor_ok allowed a"
  shows "mk_anchor ''/'' (JStr (an_id a)) (JStr (an_kind a)) (JStr (an_canonical a)) (an_revision a)
    (an_freshness a) (an_recovery a) (an_trust a) (an_scope a) (opt_dict id (an_binding a)) = Inr a"
proof -
  have "b \<noteq> JNull" if "bind_source ''/'' b = Inr b" for b
    using that by (auto simp: bind_source_Inr)
  then show ?thesis
    using assms
    by (cases a) (auto simp: mk_anchor_def anchor_ok_def wtext_def on_text_def member_def in_set_def
        opt_dict_def split: option.splits)
qed

lemma mk_anchor_jsort:
  "mk_anchor cwd (jsort i) (jsort k) (jsort c) rvn fr ry tr sc (jsort b) =
     mk_anchor cwd i k c rvn fr ry tr sc b"
  by (simp add: mk_anchor_def cong: if_cong)

interpretation anchor: codec anchor_to_dict "anchor_from_dict allowed" "anchor_ok allowed" for allowed
proof
  fix v a
  assume "anchor_from_dict allowed v = Inr a"
  then obtain rvn fr ry tr sc where
      parts: "opt_from revision_from_dict (jat ''revision'' v) = Inr rvn"
      "freshness_from_dict (jat ''freshness'' v) = Inr fr"
      "opt_from recovery_from_dict (jat ''recovery'' v) = Inr ry"
      "trust_from_dict allowed (jat ''trust'' v) = Inr tr"
      "scope_from_dict (jat ''scope'' v) = Inr sc"
      and mk: "mk_anchor ''/'' (jat ''source_id'' v) (jat ''kind'' v) (jat ''canonical_id'' v)
          rvn fr ry tr sc (jat ''engine_binding'' v) = Inr a"
    unfolding anchor_from_dict_def anchor_from_dict_at_def rbind_eq_Inr_iff incompatible_Inr
    by blast
  show "anchor_ok allowed a"
    using mk_anchor_ok [OF mk] parts revision.opt_dec_ok recovery.opt_dec_ok freshness.dec_ok
      trust.dec_ok scope.dec_ok by (metis option.pred_inject(2))
next
  fix a
  assume a: "anchor_ok allowed a"
  have "pred_option revision_ok (an_revision a)" "pred_option recovery_ok (an_recovery a)"
    using a by (auto simp: anchor_ok_def split: option.splits)
  then show "anchor_from_dict allowed (anchor_to_dict a) = Inr a"
    using a mk_anchor_stable [OF a]
    by (simp add: anchor_from_dict_def anchor_from_dict_at_def anchor_to_dict_def exact_same
        anchor_keys_def revision.opt_dec_enc recovery.opt_dec_enc)
      (simp add: anchor_ok_def freshness.dec_enc trust.dec_enc scope.dec_enc)
  have "strict_utf8 (an_kind a)"
    using a by (auto simp: anchor_ok_def source_kinds_def strict_utf8_def)
  moreover have "json_ok (opt_dict id (an_binding a))"
    using a bind_source_json_ok [of "''/''"]
    by (auto simp: anchor_ok_def opt_dict_def os_isabs_def starts_with_def split: option.splits)
  moreover have "strict_utf8 (an_id a)" "strict_utf8 (an_canonical a)"
    using a by (auto simp: anchor_ok_def dest: text_ok_strict)
  moreover have parts: "freshness_ok (an_freshness a)" "trust_ok allowed (an_trust a)"
      "scope_ok (an_scope a)"
    using a by (simp_all add: anchor_ok_def)
  moreover have "json_ok (opt_dict revision_to_dict (an_revision a))"
      "json_ok (opt_dict recovery_to_dict (an_recovery a))"
    using \<open>pred_option revision_ok _\<close> \<open>pred_option recovery_ok _\<close>
    by (simp_all add: revision.opt_enc_ok recovery.opt_enc_ok)
  moreover have "json_ok (freshness_to_dict (an_freshness a))" "json_ok (trust_to_dict (an_trust a))"
      "json_ok (scope_to_dict (an_scope a))"
    using freshness.enc_ok [OF parts(1)] trust.enc_ok [OF parts(2)] scope.enc_ok [OF parts(3)]
    by blast+
  ultimately show "json_ok (anchor_to_dict a) \<and> is_obj (anchor_to_dict a)"
    by (simp add: anchor_to_dict_def strict_utf8_def)
next
  fix v
  assume "json_wf v"
  then show "anchor_from_dict allowed (jsort v) = anchor_from_dict allowed v"
    by (simp add: anchor_from_dict_def anchor_from_dict_at_def mk_anchor_jsort revision.opt_jsort
        recovery.opt_jsort freshness.dec_jsort trust.dec_jsort scope.dec_jsort)
qed

lemma incompatible_cong:
  "(\<And>a. r = Inr a \<longleftrightarrow> r' = Inr a) \<Longrightarrow> incompatible r = incompatible r'"
  by (cases r; cases r') auto

lemma bind_source_same:
  "os_isabs cwd \<Longrightarrow> bind_source cwd b = Inr n \<longleftrightarrow> bind_source ''/'' b = Inr n"
  using bind_source_cwd [of cwd "''/''" b n] bind_source_cwd [of "''/''" cwd b n]
  by (auto simp: os_isabs_def starts_with_def)

lemma mk_anchor_same:
  "os_isabs cwd \<Longrightarrow>
     mk_anchor cwd i k c rvn fr ry tr sc b = Inr a \<longleftrightarrow> mk_anchor ''/'' i k c rvn fr ry tr sc b = Inr a"
  unfolding mk_anchor_def
  by (auto simp: rbind_eq_Inr_iff bind_source_same split: if_splits)

lemma anchor_cwd_irrelevant:
  assumes "os_isabs cwd"
  shows "anchor_from_dict_at cwd allowed v = anchor_from_dict allowed v"
proof -
  show ?thesis
    unfolding anchor_from_dict_def anchor_from_dict_at_def
    by (intro arg_cong [where f = "rbind _"] ext incompatible_cong)
      (auto simp: rbind_eq_Inr_iff mk_anchor_same [OF assms])
qed

end
