(* ===== verification/Ws_Records.thy ===== *)
theory Ws_Records
  imports Ws_Anchor
begin

text \<open>
  The remaining value classes of \<open>src/leanctx_sdk/workspace.py\<close>: workspace identity, context
  entries and views, the policy with its tightening order, receipts, status and package pins.
\<close>

section \<open>Identity\<close>

record ws_identity =
  wi_id :: pystr
  wi_name :: pystr
  wi_created :: pystr
  wi_state_id :: pystr

definition identity_base :: "pystr \<Rightarrow> pystr \<Rightarrow> pystr \<Rightarrow> json" where
  "identity_base i n c =
     JObj [(''schema_version'', JStr ''leanctx.workspace-identity/v1''),
       (''workspace_id'', JStr i), (''name'', JStr n), (''created_at'', JStr c)]"

definition mk_identity :: "json \<Rightarrow> json \<Rightarrow> json \<Rightarrow> ws_identity res" where
  "mk_identity workspace_id name created_at =
     rbind (wuuid workspace_id) (\<lambda>i.
     rbind (wtext 128 name) (\<lambda>n.
     rbind (wtimestamp created_at) (\<lambda>c.
     rbind (ws_digest (identity_base i n c)) (\<lambda>sid.
     Inr \<lparr>wi_id = i, wi_name = n, wi_created = c, wi_state_id = sid\<rparr>))))"

definition identity_to_dict :: "ws_identity \<Rightarrow> json" where
  "identity_to_dict w =
     JObj [(''schema_version'', JStr ''leanctx.workspace-identity/v1''),
       (''workspace_id'', JStr (wi_id w)), (''name'', JStr (wi_name w)),
       (''created_at'', JStr (wi_created w)), (''state_id'', JStr (wi_state_id w))]"

definition identity_from_dict :: "json \<Rightarrow> ws_identity res" where
  "identity_from_dict v =
     rbind (exact [''schema_version'', ''workspace_id'', ''name'', ''created_at'', ''state_id''] v) (\<lambda>_.
     rbind (check (jat ''schema_version'' v = JStr ''leanctx.workspace-identity/v1'')
       WorkspaceIncompatibleError) (\<lambda>_.
     rbind (incompatible
       (mk_identity (jat ''workspace_id'' v) (jat ''name'' v) (jat ''created_at'' v))) (\<lambda>w.
     rbind (check (jat ''state_id'' v = JStr (wi_state_id w)) WorkspaceCorruptError) (\<lambda>_.
     Inr w))))"

section \<open>Context entries\<close>

record ctx_entry =
  en_id :: pystr
  en_category :: pystr
  en_value :: pystr
  en_sources :: "pystr list"
  en_session :: "pystr option"
  en_receipts :: "pystr list"
  en_recovery :: "pystr list"

definition categories :: "pystr list" where
  "categories = [''constraints'', ''decisions'', ''facts'', ''source_refs'', ''unresolved_questions'']"

definition MAX_VALUE_BYTES :: nat where "MAX_VALUE_BYTES = 4096"
definition MAX_SOURCE_IDS :: nat where "MAX_SOURCE_IDS = 16"
definition MAX_ENTRY_REFS :: nat where "MAX_ENTRY_REFS = 16"

definition mk_entry ::
  "json \<Rightarrow> json \<Rightarrow> json \<Rightarrow> json \<Rightarrow> json \<Rightarrow> json \<Rightarrow> json \<Rightarrow> ctx_entry res" where
  "mk_entry entry_id category val source_ids session_id receipt_refs recovery_refs =
     rbind (wuuid entry_id) (\<lambda>i.
     rbind (member categories category) (\<lambda>c.
     rbind (wtext MAX_VALUE_BYTES val) (\<lambda>x.
     rbind (wids MAX_SOURCE_IDS source_ids) (\<lambda>ss.
     rbind (wopt_text 512 session_id) (\<lambda>s.
     rbind (wrefs MAX_ENTRY_REFS receipt_refs) (\<lambda>rs.
     rbind (wrefs MAX_ENTRY_REFS recovery_refs) (\<lambda>vs.
     Inr \<lparr>en_id = i, en_category = c, en_value = x, en_sources = ss, en_session = s,
       en_receipts = rs, en_recovery = vs\<rparr>)))))))"

definition entry_to_dict :: "ctx_entry \<Rightarrow> json" where
  "entry_to_dict e =
     JObj [(''schema_version'', JStr ''leanctx.project-context-entry/v1''),
       (''entry_id'', JStr (en_id e)), (''category'', JStr (en_category e)),
       (''value'', JStr (en_value e)), (''source_ids'', jstrs (en_sources e)),
       (''session_id'', opt_str (en_session e)), (''receipt_refs'', jstrs (en_receipts e)),
       (''recovery_refs'', jstrs (en_recovery e))]"

definition entry_keys :: "pystr list" where
  "entry_keys = [''schema_version'', ''entry_id'', ''category'', ''value'', ''source_ids'',
     ''session_id'', ''receipt_refs'', ''recovery_refs'']"

definition entry_from_dict :: "json \<Rightarrow> ctx_entry res" where
  "entry_from_dict v =
     rbind (exact entry_keys v) (\<lambda>_.
     rbind (check (jat ''schema_version'' v = JStr ''leanctx.project-context-entry/v1'')
       WorkspaceIncompatibleError) (\<lambda>_.
     rbind (check (is_arr (jat ''source_ids'' v) \<and> is_arr (jat ''receipt_refs'' v) \<and>
         is_arr (jat ''recovery_refs'' v)) WorkspaceIncompatibleError) (\<lambda>_.
     incompatible
       (mk_entry (jat ''entry_id'' v) (jat ''category'' v) (jat ''value'' v) (jat ''source_ids'' v)
          (jat ''session_id'' v) (jat ''receipt_refs'' v) (jat ''recovery_refs'' v)))))"

text \<open>\<open>_entry_from_input\<close> on stored data; a value that is an entry already is left as it is.\<close>

definition entry_from_input :: "json \<Rightarrow> ctx_entry res" where
  "entry_from_input v =
     (if is_obj v then entry_from_dict v else Inl WorkspaceValidationError)"

section \<open>Project context\<close>

record project_context =
  pc_workspace :: pystr
  pc_digest :: pystr
  pc_entries :: "ctx_entry list"
  pc_filtered :: int
  pc_omitted :: int

definition mk_project_context ::
  "pystr \<Rightarrow> pystr \<Rightarrow> ctx_entry list \<Rightarrow> int \<Rightarrow> int \<Rightarrow> project_context res" where
  "mk_project_context workspace_id digest entries filtered omitted =
     rbind (wuuid (JStr workspace_id)) (\<lambda>i.
     rbind (wdigest (JStr digest)) (\<lambda>d.
     rbind (check (0 \<le> filtered) WorkspaceValidationError) (\<lambda>_.
     rbind (check (0 \<le> omitted) WorkspaceValidationError) (\<lambda>_.
     Inr \<lparr>pc_workspace = i, pc_digest = d, pc_entries = entries, pc_filtered = filtered,
       pc_omitted = omitted\<rparr>))))"

definition context_bytes :: "ctx_entry list \<Rightarrow> nat res" where
  "context_bytes entries =
     rbind (ws_canonical (JArr (map entry_to_dict entries))) (\<lambda>s. Inr (length s))"

definition project_context_to_dict :: "project_context \<Rightarrow> json" where
  "project_context_to_dict c =
     JObj [(''schema_version'', JStr ''leanctx.project-context/v1''),
       (''workspace_id'', JStr (pc_workspace c)), (''state_digest'', JStr (pc_digest c)),
       (''entries'', JArr (map entry_to_dict (pc_entries c))),
       (''filtered_count'', JInt (pc_filtered c)), (''omitted_by_bounds'', JInt (pc_omitted c))]"

section \<open>Policy\<close>

record ws_policy =
  po_categories :: "pystr list"
  po_events :: int
  po_context_entries :: int
  po_entry_bytes :: int
  po_context_bytes :: int
  po_sources :: int
  po_sessions :: int
  po_external :: bool

text \<open>\<open>sorted(set(allowed_categories))\<close>, whose failures all become the same exception.\<close>

definition policy_categories :: "json \<Rightarrow> pystr list res" where
  "policy_categories v =
     (let pick = (\<lambda>items.
            rbind (mapr (on_text (\<lambda>c. c \<in> set categories)) items) (\<lambda>cs. Inr (sort (remdups cs))))
      in case v of JArr xs \<Rightarrow> pick xs | JObj kvs \<Rightarrow> pick (map (\<lambda>p. JStr (fst p)) kvs)
         | _ \<Rightarrow> Inl WorkspaceValidationError)"

definition mk_policy ::
  "json \<Rightarrow> json \<Rightarrow> json \<Rightarrow> json \<Rightarrow> json \<Rightarrow> json \<Rightarrow> json \<Rightarrow> json \<Rightarrow> ws_policy res" where
  "mk_policy cats events context_entries entry_bytes ctx_bytes sources sessions external =
     rbind (policy_categories cats) (\<lambda>cs.
     rbind (wpositive events) (\<lambda>a.
     rbind (wpositive context_entries) (\<lambda>b.
     rbind (wpositive entry_bytes) (\<lambda>c.
     rbind (wpositive ctx_bytes) (\<lambda>d.
     rbind (wpositive sources) (\<lambda>e.
     rbind (wpositive sessions) (\<lambda>f.
     rbind (wbool external) (\<lambda>x.
     Inr \<lparr>po_categories = cs, po_events = a, po_context_entries = b, po_entry_bytes = c,
       po_context_bytes = d, po_sources = e, po_sessions = f, po_external = x\<rparr>))))))))"

definition default_policy :: ws_policy where
  "default_policy =
     \<lparr>po_categories = categories, po_events = 4096, po_context_entries = 256, po_entry_bytes = 4096,
      po_context_bytes = 262144, po_sources = 128, po_sessions = 256, po_external = False\<rparr>"

definition policy_to_dict :: "ws_policy \<Rightarrow> json" where
  "policy_to_dict p =
     JObj [(''schema_version'', JStr ''leanctx.workspace-policy/v1''),
       (''allowed_categories'', jstrs (po_categories p)), (''max_events'', JInt (po_events p)),
       (''max_context_entries'', JInt (po_context_entries p)),
       (''max_entry_bytes'', JInt (po_entry_bytes p)),
       (''max_context_bytes'', JInt (po_context_bytes p)), (''max_sources'', JInt (po_sources p)),
       (''max_sessions'', JInt (po_sessions p)), (''allow_external_sources'', JBool (po_external p))]"

definition policy_keys :: "pystr list" where
  "policy_keys = [''schema_version'', ''allowed_categories'', ''max_events'', ''max_context_entries'',
     ''max_entry_bytes'', ''max_context_bytes'', ''max_sources'', ''max_sessions'',
     ''allow_external_sources'']"

definition policy_from_dict :: "json \<Rightarrow> ws_policy res" where
  "policy_from_dict v =
     rbind (exact policy_keys v) (\<lambda>_.
     rbind (check (jat ''schema_version'' v = JStr ''leanctx.workspace-policy/v1'')
       WorkspaceIncompatibleError) (\<lambda>_.
     rbind (check (is_arr (jat ''allowed_categories'' v)) WorkspaceIncompatibleError) (\<lambda>_.
     incompatible
       (mk_policy (jat ''allowed_categories'' v) (jat ''max_events'' v) (jat ''max_context_entries'' v)
          (jat ''max_entry_bytes'' v) (jat ''max_context_bytes'' v) (jat ''max_sources'' v)
          (jat ''max_sessions'' v) (jat ''allow_external_sources'' v)))))"

definition is_tightening :: "ws_policy \<Rightarrow> ws_policy \<Rightarrow> bool" where
  "is_tightening p previous \<longleftrightarrow>
     set (po_categories p) \<subseteq> set (po_categories previous) \<and>
     po_events p \<le> po_events previous \<and> po_context_entries p \<le> po_context_entries previous \<and>
     po_entry_bytes p \<le> po_entry_bytes previous \<and>
     po_context_bytes p \<le> po_context_bytes previous \<and>
     po_sources p \<le> po_sources previous \<and> po_sessions p \<le> po_sessions previous \<and>
     (\<not> po_external p \<or> po_external previous)"

section \<open>Receipts and status\<close>

definition event_kinds :: "pystr list" where
  "event_kinds = [''workspace_created'', ''source_attached'', ''source_updated'',
     ''policy_tightened'', ''session_attached'', ''context_committed'', ''checkpoint_created'',
     ''workspace_restored'', ''workspace_seeded'', ''workspace_sealed'', ''package_pinned'',
     ''workspace_forked'', ''handoff_applied'', ''workspace_completed'', ''workspace_aborted'']"

record ws_receipt =
  wr_workspace :: pystr
  wr_state_id :: pystr
  wr_sequence :: int
  wr_event_id :: pystr
  wr_kind :: pystr
  wr_event_digest :: pystr
  wr_state_digest :: pystr
  wr_sources :: "pystr list"
  wr_session :: "pystr option"
  wr_engine_refs :: "pystr list"
  wr_recovery_refs :: "pystr list"

definition mk_ws_receipt ::
  "pystr \<Rightarrow> pystr \<Rightarrow> int \<Rightarrow> pystr \<Rightarrow> pystr \<Rightarrow> pystr \<Rightarrow> pystr \<Rightarrow> pystr list \<Rightarrow> pystr option \<Rightarrow>
     pystr list \<Rightarrow> pystr list \<Rightarrow> ws_receipt res" where
  "mk_ws_receipt workspace state_id sequence event_id kind event_digest state_digest source_ids
     session_id engine_refs recovery_refs =
     rbind (wuuid (JStr workspace)) (\<lambda>_.
     rbind (wdigest (JStr state_id)) (\<lambda>_.
     rbind (check (0 < sequence) WorkspaceValidationError) (\<lambda>_.
     rbind (wuuid (JStr event_id)) (\<lambda>_.
     rbind (member event_kinds (JStr kind)) (\<lambda>_.
     rbind (wdigest (JStr event_digest)) (\<lambda>_.
     rbind (wdigest (JStr state_digest)) (\<lambda>_.
     rbind (wids 4096 (jstrs source_ids)) (\<lambda>ss.
     rbind (wopt_text 512 (opt_str session_id)) (\<lambda>s.
     rbind (wrefs 4096 (jstrs engine_refs)) (\<lambda>es.
     rbind (wrefs 4096 (jstrs recovery_refs)) (\<lambda>vs.
     Inr \<lparr>wr_workspace = workspace, wr_state_id = state_id, wr_sequence = sequence,
       wr_event_id = event_id, wr_kind = kind, wr_event_digest = event_digest,
       wr_state_digest = state_digest, wr_sources = ss, wr_session = s, wr_engine_refs = es,
       wr_recovery_refs = vs\<rparr>)))))))))))"

definition ws_receipt_to_dict :: "ws_receipt \<Rightarrow> json" where
  "ws_receipt_to_dict r =
     JObj [(''schema_version'', JStr ''leanctx.workspace-receipt/v1''),
       (''workspace_id'', JStr (wr_workspace r)), (''state_id'', JStr (wr_state_id r)),
       (''sequence'', JInt (wr_sequence r)), (''event_id'', JStr (wr_event_id r)),
       (''event_kind'', JStr (wr_kind r)), (''event_digest'', JStr (wr_event_digest r)),
       (''state_digest'', JStr (wr_state_digest r)), (''source_ids'', jstrs (wr_sources r)),
       (''session_id'', opt_str (wr_session r)),
       (''engine_receipt_refs'', jstrs (wr_engine_refs r)),
       (''recovery_refs'', jstrs (wr_recovery_refs r))]"

record ws_status =
  st_identity :: "ws_identity option"
  st_lifecycle :: pystr
  st_health :: pystr
  st_events :: nat
  st_sources :: nat
  st_sessions :: nat
  st_entries :: nat
  st_policy :: "ws_policy option"
  st_digest :: "pystr option"

definition lifecycles :: "pystr list" where
  "lifecycles = [''active'', ''completed'', ''aborted'']"

definition health_names :: "pystr list" where
  "health_names = [''healthy'', ''corrupt'', ''incompatible'']"

definition mk_status ::
  "ws_identity option \<Rightarrow> pystr \<Rightarrow> pystr \<Rightarrow> nat \<Rightarrow> nat \<Rightarrow> nat \<Rightarrow> nat \<Rightarrow> ws_policy option \<Rightarrow>
     pystr option \<Rightarrow> ws_status res" where
  "mk_status identity lifecycle health events sources sessions entries policy digest =
     rbind (member lifecycles (JStr lifecycle)) (\<lambda>_.
     rbind (member health_names (JStr health)) (\<lambda>_.
     rbind (case digest of None \<Rightarrow> Inr () | Some d \<Rightarrow> rbind (wdigest (JStr d)) (\<lambda>_. Inr ())) (\<lambda>_.
     Inr \<lparr>st_identity = identity, st_lifecycle = lifecycle, st_health = health,
       st_events = events, st_sources = sources, st_sessions = sessions, st_entries = entries,
       st_policy = policy, st_digest = digest\<rparr>)))"

definition status_to_dict :: "ws_status \<Rightarrow> json" where
  "status_to_dict s =
     JObj [(''schema_version'', JStr ''leanctx.workspace-status/v1''),
       (''identity'', opt_dict identity_to_dict (st_identity s)),
       (''lifecycle'', JStr (st_lifecycle s)), (''health'', JStr (st_health s)),
       (''event_count'', JInt (int (st_events s))), (''source_count'', JInt (int (st_sources s))),
       (''session_count'', JInt (int (st_sessions s))),
       (''context_entry_count'', JInt (int (st_entries s))),
       (''policy'', opt_dict policy_to_dict (st_policy s)),
       (''state_digest'', opt_str (st_digest s))]"

section \<open>Package pins\<close>

record package_pin =
  pk_name :: pystr
  pk_version :: pystr
  pk_artifact :: pystr
  pk_manifest :: pystr
  pk_content :: pystr
  pk_signature :: pystr
  pk_signer :: "pystr option"
  pk_trust :: pystr

definition signer_ok :: "json \<Rightarrow> bool" where
  "signer_ok v = (case v of JStr s \<Rightarrow> prefixed_hex [] 64 s | _ \<Rightarrow> False)"

definition mk_pin ::
  "json \<Rightarrow> json \<Rightarrow> json \<Rightarrow> json \<Rightarrow> json \<Rightarrow> json \<Rightarrow> json \<Rightarrow> json \<Rightarrow> json \<Rightarrow> json \<Rightarrow>
     package_pin res" where
  "mk_pin name version artifact manifest content signature signer trust decision schema =
     rbind (wtext 128 name) (\<lambda>n.
     rbind (wtext 64 version) (\<lambda>v.
     rbind (wdigest artifact) (\<lambda>a.
     rbind (wdigest manifest) (\<lambda>m.
     rbind (wdigest content) (\<lambda>c.
     rbind (member [''signed_valid'', ''unsigned''] signature) (\<lambda>s.
     rbind (member [''trusted'', ''untrusted'', ''unknown''] trust) (\<lambda>t.
     rbind (check (decision = JStr ''admitted'') WorkspacePolicyError) (\<lambda>_.
     rbind (check (schema = JStr ''leanctx.package-pin/v1'') WorkspaceIncompatibleError) (\<lambda>_.
     rbind (check (if s = ''signed_valid'' then signer_ok signer else signer = JNull)
       WorkspaceValidationError) (\<lambda>_.
     Inr \<lparr>pk_name = n, pk_version = v, pk_artifact = a, pk_manifest = m, pk_content = c,
       pk_signature = s, pk_signer = (case signer of JStr k \<Rightarrow> Some k | _ \<Rightarrow> None),
       pk_trust = t\<rparr>))))))))))"

definition pin_to_dict :: "package_pin \<Rightarrow> json" where
  "pin_to_dict p =
     JObj [(''schema_version'', JStr ''leanctx.package-pin/v1''), (''name'', JStr (pk_name p)),
       (''version'', JStr (pk_version p)), (''artifact_digest'', JStr (pk_artifact p)),
       (''manifest_digest'', JStr (pk_manifest p)), (''content_hash'', JStr (pk_content p)),
       (''signature_state'', JStr (pk_signature p)), (''signer_public_key'', opt_str (pk_signer p)),
       (''trust_state'', JStr (pk_trust p)), (''policy_decision'', JStr ''admitted'')]"

definition pin_keys :: "pystr list" where
  "pin_keys = [''schema_version'', ''name'', ''version'', ''artifact_digest'', ''manifest_digest'',
     ''content_hash'', ''signature_state'', ''signer_public_key'', ''trust_state'',
     ''policy_decision'']"

definition pin_from_dict :: "json \<Rightarrow> package_pin res" where
  "pin_from_dict v =
     rbind (exact pin_keys v) (\<lambda>_.
     keep_ws
       (mk_pin (jat ''name'' v) (jat ''version'' v) (jat ''artifact_digest'' v)
          (jat ''manifest_digest'' v) (jat ''content_hash'' v) (jat ''signature_state'' v)
          (jat ''signer_public_key'' v) (jat ''trust_state'' v) (jat ''policy_decision'' v)
          (jat ''schema_version'' v)))"

section \<open>The contract holds\<close>

definition identity_ok :: "ws_identity \<Rightarrow> bool" where
  "identity_ok w \<longleftrightarrow>
     is_uuid (wi_id w) \<and> text_ok 128 (wi_name w) \<and> ts_canonical (wi_created w) \<and>
     wi_state_id w = sha256_ref (dumps (identity_base (wi_id w) (wi_name w) (wi_created w)))"

lemma identity_base_ok:
  "is_uuid i \<Longrightarrow> text_ok 128 n \<Longrightarrow> ts_canonical c \<Longrightarrow> json_ok (identity_base i n c)"
  using is_uuid_strict [of i] text_ok_strict [of 128 n] ts_canonical_strict [of c]
  by (simp add: identity_base_def strict_utf8_def)

lemma mk_identity_ok: "mk_identity a b c = Inr w \<Longrightarrow> identity_ok w"
  unfolding mk_identity_def
  by (auto simp: rbind_eq_Inr_iff wuuid_Inr wtext_Inr identity_ok_def wtimestamp_canonical
      dest: ws_digest_text)

lemma mk_identity_stable:
  assumes "identity_ok w"
  shows "mk_identity (JStr (wi_id w)) (JStr (wi_name w)) (JStr (wi_created w)) = Inr w"
  using assms ts_canonical_parse [of "wi_created w"]
    ws_digest_ok [OF identity_base_ok, of "wi_id w" "wi_name w" "wi_created w"]
  by (cases w) (auto simp: identity_ok_def mk_identity_def wuuid_def wtext_def on_text_def)

interpretation identity: codec identity_to_dict identity_from_dict identity_ok
proof
  fix v w
  assume "identity_from_dict v = Inr w"
  then show "identity_ok w"
    unfolding identity_from_dict_def rbind_eq_Inr_iff incompatible_Inr using mk_identity_ok by blast
next
  fix w
  assume w: "identity_ok w"
  show "identity_from_dict (identity_to_dict w) = Inr w"
    using mk_identity_stable [OF w]
    by (simp add: identity_from_dict_def identity_to_dict_def exact_same)
  have "is_digest (wi_state_id w)" using w by (simp add: identity_ok_def)
  then show "json_ok (identity_to_dict w) \<and> is_obj (identity_to_dict w)"
    using w is_uuid_strict [of "wi_id w"] text_ok_strict [of 128 "wi_name w"]
      ts_canonical_strict [of "wi_created w"] is_digest_strict [of "wi_state_id w"]
    by (simp add: identity_to_dict_def identity_ok_def strict_utf8_def)
next
  fix v
  show "identity_from_dict (jsort v) = identity_from_dict v"
    by (simp add: identity_from_dict_def mk_identity_def)
qed

definition entry_ok :: "ctx_entry \<Rightarrow> bool" where
  "entry_ok e \<longleftrightarrow>
     is_uuid (en_id e) \<and> en_category e \<in> set categories \<and> text_ok MAX_VALUE_BYTES (en_value e) \<and>
     str_list_ok (text_ok 128) MAX_SOURCE_IDS (en_sources e) \<and>
     pred_option (text_ok 512) (en_session e) \<and>
     str_list_ok (ref_ok 512) MAX_ENTRY_REFS (en_receipts e) \<and>
     str_list_ok (ref_ok 512) MAX_ENTRY_REFS (en_recovery e)"

lemma mk_entry_ok: "mk_entry a b c d e f g = Inr x \<Longrightarrow> entry_ok x"
  unfolding mk_entry_def
  by (auto simp: rbind_eq_Inr_iff wuuid_Inr wtext_Inr member_Inr wids_Inr wrefs_Inr wopt_text_Inr
      entry_ok_def pred_option_def split: option.splits)

lemma mk_entry_stable:
  assumes "entry_ok e"
  shows "mk_entry (JStr (en_id e)) (JStr (en_category e)) (JStr (en_value e)) (jstrs (en_sources e))
    (opt_str (en_session e)) (jstrs (en_receipts e)) (jstrs (en_recovery e)) = Inr e"
proof -
  have "wopt_text 512 (opt_str (en_session e)) = Inr (en_session e)"
    using assms by (cases "en_session e") (simp_all add: wopt_text_Inr entry_ok_def)
  then show ?thesis
    using assms
    by (cases e) (simp add: entry_ok_def mk_entry_def wids_canonical wrefs_canonical wuuid_def
        wtext_def on_text_def member_def in_set_def)
qed

lemma opt_str_ok: "pred_option (text_ok n) x \<Longrightarrow> json_ok (opt_str x)"
  using text_ok_strict by (cases x) (auto simp: strict_utf8_def)

interpretation entry: codec entry_to_dict entry_from_dict entry_ok
proof
  fix v e
  assume "entry_from_dict v = Inr e"
  then show "entry_ok e"
    unfolding entry_from_dict_def rbind_eq_Inr_iff incompatible_Inr using mk_entry_ok by blast
next
  fix e
  assume e: "entry_ok e"
  show "entry_from_dict (entry_to_dict e) = Inr e"
    using mk_entry_stable [OF e]
    by (simp add: entry_from_dict_def entry_to_dict_def exact_same entry_keys_def)
  have "strict_utf8 (en_category e)"
    using e by (auto simp: entry_ok_def categories_def strict_utf8_def)
  moreover have "json_ok (jstrs (en_sources e))" "json_ok (jstrs (en_receipts e))"
      "json_ok (jstrs (en_recovery e))" "json_ok (opt_str (en_session e))"
    using e by (auto simp: entry_ok_def intro: str_list_strict opt_str_ok text_ok_strict ref_ok_strict)
  ultimately show "json_ok (entry_to_dict e) \<and> is_obj (entry_to_dict e)"
    using e is_uuid_strict [of "en_id e"] text_ok_strict [of MAX_VALUE_BYTES "en_value e"]
    by (simp add: entry_to_dict_def entry_ok_def strict_utf8_def)
next
  fix v
  show "entry_from_dict (jsort v) = entry_from_dict v"
    by (simp add: entry_from_dict_def mk_entry_def)
qed

definition policy_ok :: "ws_policy \<Rightarrow> bool" where
  "policy_ok p \<longleftrightarrow>
     sorted (po_categories p) \<and> distinct (po_categories p) \<and> set (po_categories p) \<subseteq> set categories \<and>
     0 < po_events p \<and> 0 < po_context_entries p \<and> 0 < po_entry_bytes p \<and> 0 < po_context_bytes p \<and>
     0 < po_sources p \<and> 0 < po_sessions p"

lemma policy_categories_ok:
  "policy_categories v = Inr cs \<Longrightarrow> sorted cs \<and> distinct cs \<and> set cs \<subseteq> set categories"
  by (cases v)
    (auto simp: policy_categories_def Let_def rbind_eq_Inr_iff mapr_on_text list_all_iff)

lemma policy_categories_stable:
  assumes "sorted cs" "distinct cs" "set cs \<subseteq> set categories"
  shows "policy_categories (jstrs cs) = Inr cs"
proof -
  have "mapr (on_text (\<lambda>c. c \<in> set categories)) (map JStr cs) = Inr cs"
    using assms(3) by (auto simp: mapr_on_text list_all_iff)
  moreover have "sort (remdups cs) = cs"
    using assms(1,2) by (simp add: distinct_remdups_id sort_key_id_if_sorted)
  ultimately show ?thesis
    by (simp add: policy_categories_def jstrs_def)
qed

lemma policy_categories_jsort:
  "is_arr v \<Longrightarrow> policy_categories (jsort v) = policy_categories v"
  by (cases v) (auto simp: policy_categories_def mapr_jsort)

lemma mk_policy_ok:
  assumes "mk_policy a b c d e f g h = Inr p"
  shows "policy_ok p"
proof -
  obtain cs i1 i2 i3 i4 i5 i6 x where cs: "policy_categories a = Inr cs"
      and pos: "0 < i1" "0 < i2" "0 < i3" "0 < i4" "0 < i5" "0 < i6"
      and p: "\<lparr>po_categories = cs, po_events = i1, po_context_entries = i2, po_entry_bytes = i3,
       po_context_bytes = i4, po_sources = i5, po_sessions = i6, po_external = x\<rparr> = p"
    using assms unfolding mk_policy_def rbind_eq_Inr_iff wpositive_Inr wbool_Inr sum.inject by blast
  show ?thesis
    using policy_categories_ok [OF cs] pos by (simp add: policy_ok_def p [symmetric])
qed

lemma mk_policy_stable:
  assumes "policy_ok p"
  shows "mk_policy (jstrs (po_categories p)) (JInt (po_events p)) (JInt (po_context_entries p))
    (JInt (po_entry_bytes p)) (JInt (po_context_bytes p)) (JInt (po_sources p))
    (JInt (po_sessions p)) (JBool (po_external p)) = Inr p"
  using assms
  by (cases p) (simp add: mk_policy_def policy_ok_def policy_categories_stable wpositive_def wbool_def)

interpretation policy: codec policy_to_dict policy_from_dict policy_ok
proof
  fix v p
  assume "policy_from_dict v = Inr p"
  then show "policy_ok p"
    unfolding policy_from_dict_def rbind_eq_Inr_iff incompatible_Inr using mk_policy_ok by blast
next
  fix p
  assume p: "policy_ok p"
  show "policy_from_dict (policy_to_dict p) = Inr p"
    using mk_policy_stable [OF p]
    by (simp add: policy_from_dict_def policy_to_dict_def exact_same policy_keys_def)
  have "list_all strict_utf8 (po_categories p)"
    using p by (auto simp: policy_ok_def list_all_iff categories_def strict_utf8_def)
  then show "json_ok (policy_to_dict p) \<and> is_obj (policy_to_dict p)"
    using json_ok_jstrs by (simp add: policy_to_dict_def)
next
  fix v
  show "policy_from_dict (jsort v) = policy_from_dict v"
    by (cases "is_arr (jat ''allowed_categories'' v)")
      (simp_all add: policy_from_dict_def mk_policy_def policy_categories_jsort)
qed

definition pin_ok :: "package_pin \<Rightarrow> bool" where
  "pin_ok p \<longleftrightarrow>
     text_ok 128 (pk_name p) \<and> text_ok 64 (pk_version p) \<and> is_digest (pk_artifact p) \<and>
     is_digest (pk_manifest p) \<and> is_digest (pk_content p) \<and>
     pk_trust p \<in> {''trusted'', ''untrusted'', ''unknown''} \<and>
     (pk_signature p = ''signed_valid'' \<and> (\<exists>k. pk_signer p = Some k \<and> prefixed_hex [] 64 k) \<or>
      pk_signature p = ''unsigned'' \<and> pk_signer p = None)"

lemma signer_ok_iff: "signer_ok v \<longleftrightarrow> (\<exists>k. v = JStr k \<and> prefixed_hex [] 64 k)"
  by (cases v) (auto simp: signer_ok_def)

lemma mk_pin_ok:
  assumes "mk_pin a b c d e f g h i j = Inr p"
  shows "pin_ok p"
proof -
  obtain n v x m k s t where parts: "text_ok 128 n" "text_ok 64 v" "is_digest x" "is_digest m"
      "is_digest k" "s \<in> set [''signed_valid'', ''unsigned'']"
      "t \<in> set [''trusted'', ''untrusted'', ''unknown'']"
      and signer: "if s = ''signed_valid'' then signer_ok g else g = JNull"
      and p: "\<lparr>pk_name = n, pk_version = v, pk_artifact = x, pk_manifest = m, pk_content = k,
       pk_signature = s, pk_signer = (case g of JStr k \<Rightarrow> Some k | _ \<Rightarrow> None), pk_trust = t\<rparr> = p"
    using assms unfolding mk_pin_def rbind_eq_Inr_iff wtext_Inr wdigest_Inr member_Inr
      check_eq_Inr_iff sum.inject by blast
  have "s = ''signed_valid'' \<and> (\<exists>k. g = JStr k \<and> prefixed_hex [] 64 k) \<or> s = ''unsigned'' \<and> g = JNull"
    using parts(6) signer by (cases "s = ''signed_valid''") (simp_all add: signer_ok_iff)
  then have "s = ''signed_valid'' \<and> (\<exists>k. pk_signer p = Some k \<and> prefixed_hex [] 64 k) \<or>
      s = ''unsigned'' \<and> pk_signer p = None"
    unfolding p [symmetric] by (elim disjE exE conjE) simp_all
  then show ?thesis
    using parts unfolding pin_ok_def by (simp add: p [symmetric])
qed

lemma mk_pin_stable:
  assumes "pin_ok p"
  shows "mk_pin (JStr (pk_name p)) (JStr (pk_version p)) (JStr (pk_artifact p))
    (JStr (pk_manifest p)) (JStr (pk_content p)) (JStr (pk_signature p)) (opt_str (pk_signer p))
    (JStr (pk_trust p)) (JStr ''admitted'') (JStr ''leanctx.package-pin/v1'') = Inr p"
  using assms
  by (cases p) (auto simp: mk_pin_def pin_ok_def wtext_def wdigest_def on_text_def member_def
      in_set_def signer_ok_def)

lemma hex_strict: "prefixed_hex [] n k \<Longrightarrow> strict_utf8 k"
  by (rule printable_strict) (auto simp: prefixed_hex_decomp printable_ascii_def list_all_iff is_hex_ascii)

interpretation pin: codec pin_to_dict pin_from_dict pin_ok
proof
  fix v p
  assume "pin_from_dict v = Inr p"
  then show "pin_ok p"
    unfolding pin_from_dict_def rbind_eq_Inr_iff keep_ws_Inr using mk_pin_ok by blast
next
  fix p
  assume p: "pin_ok p"
  show "pin_from_dict (pin_to_dict p) = Inr p"
    using mk_pin_stable [OF p]
    by (simp add: pin_from_dict_def pin_to_dict_def exact_same pin_keys_def)
  have "strict_utf8 (pk_trust p)" "strict_utf8 (pk_signature p)" "json_ok (opt_str (pk_signer p))"
    using p hex_strict by (auto simp: pin_ok_def strict_utf8_def)
  then show "json_ok (pin_to_dict p) \<and> is_obj (pin_to_dict p)"
    using p text_ok_strict [of 128 "pk_name p"] text_ok_strict [of 64 "pk_version p"]
      is_digest_strict [of "pk_artifact p"] is_digest_strict [of "pk_manifest p"]
      is_digest_strict [of "pk_content p"]
    by (simp add: pin_to_dict_def pin_ok_def strict_utf8_def)
next
  fix v
  have "signer_ok (jsort x) = signer_ok x" for x
    by (cases x) (simp_all add: signer_ok_def)
  moreover have "(case jsort x of JStr k \<Rightarrow> Some k | _ \<Rightarrow> None) = (case x of JStr k \<Rightarrow> Some k | _ \<Rightarrow> None)"
    for x :: json
    by (cases x) simp_all
  ultimately show "pin_from_dict (jsort v) = pin_from_dict v"
    by (simp add: pin_from_dict_def mk_pin_def cong: if_cong)
qed

section \<open>The tightening order\<close>

lemma tightening_refl: "is_tightening p p"
  by (simp add: is_tightening_def)

lemma tightening_trans: "is_tightening p q \<Longrightarrow> is_tightening q r \<Longrightarrow> is_tightening p r"
  by (auto simp: is_tightening_def)

lemma tightening_antisym:
  assumes "policy_ok p" "policy_ok q" "is_tightening p q" "is_tightening q p"
  shows "p = q"
proof -
  have "po_categories p = po_categories q"
    using assms by (intro sorted_distinct_set_unique) (auto simp: policy_ok_def is_tightening_def)
  then show ?thesis
    using assms(3,4) by (cases p; cases q) (auto simp: is_tightening_def)
qed

end
