(* ===== verification/Ws_Checkpoint.thy ===== *)
theory Ws_Checkpoint
  imports Ws_Records "HOL-Library.Product_Lexorder"
begin

text \<open>
  The logical state of a workspace as a checkpoint carries it, and the checkpoint itself
  (\<open>_logical_state_components\<close>, \<open>_package_lock\<close>, \<open>ContextCheckpointV2\<close> and
  \<open>_validate_checkpoint_projections\<close> of \<open>src/leanctx_sdk/workspace.py\<close>). A dictionary keyed by
  source or by package is an association list in insertion order.
\<close>

section \<open>Bounds\<close>

definition MAX_SOURCES :: nat where "MAX_SOURCES = 128"
definition MAX_LOGICAL_ENTRIES :: nat where "MAX_LOGICAL_ENTRIES = 256"
definition MAX_PACKAGE_PINS :: nat where "MAX_PACKAGE_PINS = 128"
definition MAX_CHECKPOINTS :: nat where "MAX_CHECKPOINTS = 512"
definition MAX_RECEIPT_REFS :: nat where "MAX_RECEIPT_REFS = 4096"
definition MAX_CHECKPOINT_BYTES :: nat where "MAX_CHECKPOINT_BYTES = 8 * 1024 * 1024"

lemmas ws_bounds = MAX_SOURCES_def MAX_LOGICAL_ENTRIES_def MAX_PACKAGE_PINS_def
  MAX_CHECKPOINTS_def MAX_RECEIPT_REFS_def MAX_CHECKPOINT_BYTES_def

section \<open>The logical state\<close>

type_synonym pin_key = "pystr \<times> pystr"

definition pin_key :: "package_pin \<Rightarrow> pin_key" where
  "pin_key p = (pk_name p, pk_version p)"

definition package_lock :: "package_pin list \<Rightarrow> pystr option res" where
  "package_lock pins =
     (if pins = [] then Inr None
      else rbind (domain_digest ''leanctx.package.lock.v1''
             (JArr (map pin_to_dict (sort_key pin_key pins)))) (\<lambda>d. Inr (Some d)))"

record components =
  lc_policy :: ws_policy
  lc_sources :: "(pystr \<times> source_anchor) list"
  lc_entries :: "ctx_entry list"
  lc_pins :: "(pin_key \<times> package_pin) list"
  lc_lock :: "pystr option"

definition logical_keys :: "pystr list" where
  "logical_keys = [''schema_version'', ''workspace_id'', ''policy'', ''sources'', ''entries'',
     ''package_pins'', ''package_lock_digest'']"

definition jitems :: "json \<Rightarrow> json list" where
  "jitems v = (case v of JArr xs \<Rightarrow> xs | _ \<Rightarrow> [])"

text \<open>The strings of an array.\<close>

definition strs_of :: "json \<Rightarrow> pystr list" where
  "strs_of v = concat (map (\<lambda>x. case x of JStr s \<Rightarrow> [s] | _ \<Rightarrow> []) (jitems v))"

definition logical_components :: "json \<Rightarrow> pystr \<Rightarrow> components res" where
  "logical_components v workspace_id =
     rbind (exact logical_keys v) (\<lambda>_.
     rbind (check (jat ''schema_version'' v = JStr ''leanctx.workspace.state/v1'')
       WorkspaceIncompatibleError) (\<lambda>_.
     rbind (check (jat ''workspace_id'' v = JStr workspace_id) WorkspaceConflictError) (\<lambda>_.
     rbind (check (is_arr (jat ''sources'' v) \<and> is_arr (jat ''entries'' v) \<and>
         is_arr (jat ''package_pins'' v)) WorkspaceIncompatibleError) (\<lambda>_.
     let raw_sources = jitems (jat ''sources'' v); raw_entries = jitems (jat ''entries'' v);
         raw_pins = jitems (jat ''package_pins'' v) in
     rbind (check (length raw_sources \<le> MAX_SOURCES \<and> length raw_entries \<le> MAX_LOGICAL_ENTRIES \<and>
         length raw_pins \<le> MAX_PACKAGE_PINS) WorkspacePolicyError) (\<lambda>_.
     rbind (ws_canonical v) (\<lambda>bytes.
     rbind (check (length bytes \<le> MAX_CHECKPOINT_BYTES) WorkspacePolicyError) (\<lambda>_.
     rbind (policy_from_dict (jat ''policy'' v)) (\<lambda>policy.
     rbind (mapr (anchor_from_dict True) raw_sources) (\<lambda>anchors.
     rbind (mapr entry_from_input raw_entries) (\<lambda>entries.
     rbind (mapr pin_from_dict raw_pins) (\<lambda>pins.
     rbind (check (py_eq (JArr (map anchor_to_dict anchors)) (JArr raw_sources))
       WorkspaceIncompatibleError) (\<lambda>_.
     rbind (check (py_eq (JArr (map entry_to_dict entries)) (JArr raw_entries))
       WorkspaceIncompatibleError) (\<lambda>_.
     rbind (check (py_eq (JArr (map pin_to_dict pins)) (JArr raw_pins))
       WorkspaceIncompatibleError) (\<lambda>_.
     rbind (check (distinct (map an_id anchors)) WorkspaceIncompatibleError) (\<lambda>_.
     rbind (check (sorted (map an_id anchors)) WorkspaceIncompatibleError) (\<lambda>_.
     rbind (check (list_all (\<lambda>e. list_all (\<lambda>s. s \<in> set (map an_id anchors)) (en_sources e)) entries)
       WorkspaceIncompatibleError) (\<lambda>_.
     rbind (check (distinct (map en_id entries)) WorkspaceIncompatibleError) (\<lambda>_.
     rbind (check (distinct (map pin_key pins) \<and> sorted (map pin_key pins))
       WorkspaceIncompatibleError) (\<lambda>_.
     rbind (package_lock pins) (\<lambda>lock.
     rbind (check (jat ''package_lock_digest'' v = opt_str lock) WorkspaceCorruptError) (\<lambda>_.
     Inr \<lparr>lc_policy = policy, lc_sources = map (\<lambda>a. (an_id a, a)) anchors, lc_entries = entries,
       lc_pins = map (\<lambda>p. (pin_key p, p)) pins, lc_lock = lock\<rparr>)))))))))))))))))))))"

text \<open>The same components written down, as \<open>_WorkspaceState.logical_state\<close> does.\<close>

definition logical_dict :: "pystr \<Rightarrow> components \<Rightarrow> json" where
  "logical_dict workspace_id c =
     JObj [(''schema_version'', JStr ''leanctx.workspace.state/v1''),
       (''workspace_id'', JStr workspace_id), (''policy'', policy_to_dict (lc_policy c)),
       (''sources'', JArr (map (\<lambda>p. anchor_to_dict (snd p)) (sort_key fst (lc_sources c)))),
       (''entries'', JArr (map entry_to_dict (lc_entries c))),
       (''package_pins'', JArr (map (\<lambda>p. pin_to_dict (snd p)) (sort_key fst (lc_pins c)))),
       (''package_lock_digest'', opt_str (lc_lock c))]"

definition entry_recovery_refs :: "ctx_entry list \<Rightarrow> pystr list" where
  "entry_recovery_refs entries = sort (remdups (concat (map en_recovery entries)))"

section \<open>Checkpoints\<close>

record checkpoint =
  ck_id :: pystr
  ck_workspace :: pystr
  ck_state_digest :: pystr
  ck_state_ref :: pystr
  ck_logical :: json
  ck_anchors :: "json list"
  ck_recovery :: "json list"
  ck_pins :: "json list"
  ck_lock :: "pystr option"
  ck_policy_digest :: pystr
  ck_context_digest :: pystr
  ck_lineage :: json
  ck_engine :: json
  ck_envelope :: pystr

definition unsigned_dict :: "checkpoint \<Rightarrow> (pystr \<times> json) list" where
  "unsigned_dict c =
     [(''schema_version'', JStr ''leanctx.context-checkpoint/v2''), (''checkpoint_id'', JStr (ck_id c)),
      (''workspace_id'', JStr (ck_workspace c)), (''state_digest'', JStr (ck_state_digest c)),
      (''state_schema_version'', JStr ''leanctx.workspace.state/v1''),
      (''workspace_state_ref'', JStr (ck_state_ref c)), (''logical_state'', ck_logical c),
      (''source_anchors'', JArr (ck_anchors c)), (''recovery_refs'', JArr (ck_recovery c)),
      (''package_pins'', JArr (ck_pins c)), (''package_lock_digest'', opt_str (ck_lock c)),
      (''policy_digest'', JStr (ck_policy_digest c)),
      (''project_context_digest'', JStr (ck_context_digest c)), (''lineage'', ck_lineage c),
      (''engine_identity'', ck_engine c), (''sdk_contract'', JStr ''leanctx-product-sdk-research/p6'')]"

definition checkpoint_to_dict :: "checkpoint \<Rightarrow> json" where
  "checkpoint_to_dict c = JObj (unsigned_dict c @ [(''envelope_digest'', JStr (ck_envelope c))])"

definition envelope_digest :: "json \<Rightarrow> pystr res" where
  "envelope_digest v = domain_digest ''leanctx.checkpoint.envelope.v2'' v"

text \<open>\<open>_validate_checkpoint_projections\<close>.\<close>

definition validate_projections :: "checkpoint \<Rightarrow> unit res" where
  "validate_projections c =
     rbind (logical_components (ck_logical c) (ck_workspace c)) (\<lambda>lc.
     rbind (domain_digest ''leanctx.workspace.policy.v1'' (policy_to_dict (lc_policy lc))) (\<lambda>pd.
     rbind (domain_digest ''leanctx.project-context.state.v1''
       (JArr (map entry_to_dict (lc_entries lc)))) (\<lambda>cd.
     check
       (py_eq (JArr (ck_anchors c))
          (JArr (map (\<lambda>p. anchor_to_dict (snd p)) (sort_key fst (lc_sources lc)))) \<and>
        py_eq (JArr (ck_recovery c)) (jstrs (entry_recovery_refs (lc_entries lc))) \<and>
        py_eq (JArr (ck_pins c))
          (JArr (map (\<lambda>p. pin_to_dict (snd p)) (sort_key fst (lc_pins lc)))) \<and>
        ck_lock c = lc_lock lc \<and> ck_policy_digest c = pd \<and> ck_context_digest c = cd)
       WorkspaceCorruptError)))"

definition engine_identity :: json where
  "engine_identity =
     JObj [(''interface_version'', JStr ''1.0.0''), (''schema_version'', JInt 1),
       (''transport_version'', JInt 1)]"

text \<open>\<open>ContextCheckpointV2.__post_init__\<close>, its arguments in the order of the fields.\<close>

definition mk_checkpoint :: "json \<Rightarrow> checkpoint res" where
  "mk_checkpoint v =
     rbind (wuuid (jat ''checkpoint_id'' v)) (\<lambda>cid.
     rbind (wuuid (jat ''workspace_id'' v)) (\<lambda>wid.
     rbind (wdigest (jat ''state_digest'' v)) (\<lambda>sd.
     rbind (wdigest (jat ''policy_digest'' v)) (\<lambda>pd.
     rbind (wdigest (jat ''project_context_digest'' v)) (\<lambda>cd.
     rbind (wdigest (jat ''envelope_digest'' v)) (\<lambda>ed.
     rbind (if jat ''package_lock_digest'' v = JNull then Inr None
            else rbind (wdigest (jat ''package_lock_digest'' v)) (\<lambda>d. Inr (Some d))) (\<lambda>lock.
     rbind (check (jat ''schema_version'' v = JStr ''leanctx.context-checkpoint/v2'')
       WorkspaceIncompatibleError) (\<lambda>_.
     rbind (check (jat ''state_schema_version'' v = JStr ''leanctx.workspace.state/v1'')
       WorkspaceIncompatibleError) (\<lambda>_.
     rbind (check (jat ''sdk_contract'' v = JStr ''leanctx-product-sdk-research/p6'')
       WorkspaceIncompatibleError) (\<lambda>_.
     rbind (wref 512 (jat ''workspace_state_ref'' v)) (\<lambda>sref.
     rbind (check (starts_with ''event:sha256:'' sref) WorkspaceValidationError) (\<lambda>_.
     let logical = jat ''logical_state'' v; anchors = jitems (jat ''source_anchors'' v);
         pins = jitems (jat ''package_pins'' v); recovery = jitems (jat ''recovery_refs'' v);
         lineage = jat ''lineage'' v; engine = jat ''engine_identity'' v in
     rbind (check (length anchors \<le> MAX_SOURCES) WorkspacePolicyError) (\<lambda>_.
     rbind (check (length pins \<le> MAX_PACKAGE_PINS) WorkspacePolicyError) (\<lambda>_.
     rbind (check (length recovery \<le> MAX_RECEIPT_REFS) WorkspacePolicyError) (\<lambda>_.
     rbind (wrefs MAX_RECEIPT_REFS (JArr recovery)) (\<lambda>_.
     rbind (ws_canonical logical) (\<lambda>bytes.
     rbind (check (length bytes \<le> MAX_CHECKPOINT_BYTES) WorkspacePolicyError) (\<lambda>_.
     rbind (exact [''kind'', ''workspace_id'', ''state_id''] lineage) (\<lambda>_.
     rbind (check (jat ''kind'' lineage = JStr ''workspace'') WorkspaceConflictError) (\<lambda>_.
     rbind (wuuid (jat ''workspace_id'' lineage)) (\<lambda>lw.
     rbind (check (lw = wid) WorkspaceConflictError) (\<lambda>_.
     rbind (wref 512 (jat ''state_id'' lineage)) (\<lambda>_.
     rbind (exact [''interface_version'', ''schema_version'', ''transport_version''] engine) (\<lambda>_.
     rbind (check (py_eq engine engine_identity) WorkspaceIncompatibleError) (\<lambda>_.
     rbind (reject_sensitive logical) (\<lambda>_.
     rbind (reject_sensitive (JArr pins)) (\<lambda>_.
     let c = \<lparr>ck_id = cid, ck_workspace = wid, ck_state_digest = sd, ck_state_ref = sref,
           ck_logical = logical, ck_anchors = anchors, ck_recovery = recovery, ck_pins = pins,
           ck_lock = lock, ck_policy_digest = pd, ck_context_digest = cd, ck_lineage = lineage,
           ck_engine = engine, ck_envelope = ed\<rparr> in
     rbind (domain_digest ''leanctx.workspace.state.v1'' logical) (\<lambda>expected.
     rbind (check (sd = expected) WorkspaceCorruptError) (\<lambda>_.
     rbind (validate_projections c) (\<lambda>_.
     rbind (envelope_digest (JObj (unsigned_dict c))) (\<lambda>envelope.
     rbind (check (ed = envelope) WorkspaceCorruptError) (\<lambda>_.
     Inr c))))))))))))))))))))))))))))))))"

definition checkpoint_keys :: "pystr list" where
  "checkpoint_keys = [''schema_version'', ''checkpoint_id'', ''workspace_id'', ''state_digest'',
     ''state_schema_version'', ''workspace_state_ref'', ''logical_state'', ''source_anchors'',
     ''recovery_refs'', ''package_pins'', ''package_lock_digest'', ''policy_digest'',
     ''project_context_digest'', ''lineage'', ''engine_identity'', ''sdk_contract'',
     ''envelope_digest'']"

definition checkpoint_from_dict :: "json \<Rightarrow> checkpoint res" where
  "checkpoint_from_dict v =
     rbind (exact checkpoint_keys v) (\<lambda>_.
     rbind (check (is_arr (jat ''source_anchors'' v) \<and> is_arr (jat ''recovery_refs'' v) \<and>
         is_arr (jat ''package_pins'' v)) WorkspaceIncompatibleError) (\<lambda>_.
     rbind (check (is_obj (jat ''logical_state'' v) \<and> is_obj (jat ''lineage'' v) \<and>
         is_obj (jat ''engine_identity'' v)) WorkspaceIncompatibleError) (\<lambda>_.
     mk_checkpoint v)))"

end
