(* ===== verification/Ws_State.thy ===== *)
theory Ws_State
  imports Ws_Checkpoint
begin

text \<open>
  The in-memory state of a workspace and what each kind of event does to it
  (\<open>_WorkspaceState\<close>, the helpers and the branches of \<open>_apply_event_unchecked\<close> in
  \<open>src/leanctx_sdk/workspace.py\<close>; the two branches of forks and handoffs are in
  \<open>Ws_Parallel_Events\<close>). A \<open>_ProjectionFailure\<close> is its kind with the state it carries, which is
  the state as it was when it was raised. An event is the JSON object the journal holds.
\<close>

section \<open>The state\<close>

record session_record =
  sn_session :: pystr
  sn_task :: pystr
  sn_sources :: "pystr list"

record handoff_record =
  hr_handoff :: pystr
  hr_digest :: pystr
  hr_event :: pystr

record ws_state =
  s_identity :: "ws_identity option"
  s_policy :: "ws_policy option"
  s_lifecycle :: pystr
  s_sources :: "(pystr \<times> source_anchor) list"
  s_sessions :: "session_record list"
  s_entries :: "ctx_entry list"
  s_checkpoints :: "(pystr \<times> checkpoint) list"
  s_pins :: "(pin_key \<times> package_pin) list"
  s_lock :: "pystr option"
  s_fork :: "json option"
  s_handoffs :: "(pystr \<times> handoff_record) list"
  s_events :: "json list"
  s_receipts :: "(pystr \<times> ws_receipt) list"
  s_last :: pystr

definition ZERO_DIGEST :: pystr where
  "ZERO_DIGEST = replicate 64 (CHR ''0'')"

definition empty_state :: ws_state where
  "empty_state =
     \<lparr>s_identity = None, s_policy = None, s_lifecycle = ''active'', s_sources = [], s_sessions = [],
      s_entries = [], s_checkpoints = [], s_pins = [], s_lock = None, s_fork = None,
      s_handoffs = [], s_events = [], s_receipts = [], s_last = ZERO_DIGEST\<rparr>"

definition session_record_to_dict :: "session_record \<Rightarrow> json" where
  "session_record_to_dict r =
     JObj [(''session_id'', JStr (sn_session r)), (''task_id'', JStr (sn_task r)),
       (''source_ids'', jstrs (sn_sources r))]"

definition handoff_record_to_dict :: "handoff_record \<Rightarrow> json" where
  "handoff_record_to_dict r =
     JObj [(''handoff_id'', JStr (hr_handoff r)), (''handoff_digest'', JStr (hr_digest r)),
       (''event_id'', JStr (hr_event r))]"

definition state_components :: "ws_policy \<Rightarrow> ws_state \<Rightarrow> components" where
  "state_components p s =
     \<lparr>lc_policy = p, lc_sources = s_sources s, lc_entries = s_entries s, lc_pins = s_pins s,
      lc_lock = s_lock s\<rparr>"

definition with_components :: "components \<Rightarrow> ws_state \<Rightarrow> ws_state" where
  "with_components c s =
     s\<lparr>s_sources := lc_sources c, s_entries := lc_entries c, s_pins := lc_pins c,
       s_lock := lc_lock c\<rparr>"

definition logical_state :: "ws_state \<Rightarrow> json res" where
  "logical_state s =
     (case (s_identity s, s_policy s) of
        (Some i, Some p) \<Rightarrow> Inr (logical_dict (wi_id i) (state_components p s))
      | _ \<Rightarrow> Inl WorkspaceCorruptError)"

definition logical_digest :: "ws_state \<Rightarrow> pystr res" where
  "logical_digest s = rbind (logical_state s) (domain_digest ''leanctx.workspace.state.v1'')"

definition state_dict :: "ws_identity \<Rightarrow> ws_policy \<Rightarrow> ws_state \<Rightarrow> json" where
  "state_dict i p s =
     JObj [(''identity'', identity_to_dict i),
       (''latest_sources_sorted_by_id'',
          JArr (map (\<lambda>q. anchor_to_dict (snd q)) (sort_key fst (s_sources s)))),
       (''policy'', policy_to_dict p),
       (''sessions_in_event_order'', JArr (map session_record_to_dict (s_sessions s))),
       (''entries_in_event_order'', JArr (map entry_to_dict (s_entries s))),
       (''fork_lineage'', opt_dict id (s_fork s)),
       (''applied_handoffs'',
          JArr (map (\<lambda>q. handoff_record_to_dict (snd q)) (sort_key fst (s_handoffs s)))),
       (''lifecycle'', JStr (s_lifecycle s)), (''last_event_digest'', JStr (s_last s))]"

definition state_digest :: "ws_state \<Rightarrow> pystr res" where
  "state_digest s =
     (case (s_identity s, s_policy s) of
        (Some i, Some p) \<Rightarrow> ws_digest (state_dict i p s)
      | _ \<Rightarrow> Inl WorkspaceCorruptError)"

definition state_status :: "pystr \<Rightarrow> ws_state \<Rightarrow> ws_status res" where
  "state_status health s =
     rbind (if s_identity s \<noteq> None \<and> s_policy s \<noteq> None
            then rbind (state_digest s) (\<lambda>d. Inr (Some d)) else Inr None) (\<lambda>digest.
     mk_status (s_identity s) (s_lifecycle s) health (length (s_events s)) (length (s_sources s))
       (length (s_sessions s)) (length (s_entries s)) (s_policy s) digest)"

section \<open>Guards\<close>

definition state_policy :: "ws_state \<Rightarrow> ws_policy res" where
  "state_policy s = of_option WorkspaceCorruptError (s_policy s)"

definition ensure_external :: "ws_state \<Rightarrow> source_anchor \<Rightarrow> unit res" where
  "ensure_external s a =
     rbind (state_policy s) (\<lambda>p.
     check (an_kind a = ''filesystem'' \<or> po_external p) WorkspacePolicyError)"

definition ensure_bounds :: "ws_policy \<Rightarrow> bool \<Rightarrow> ws_state \<Rightarrow> unit res" where
  "ensure_bounds p extra_event s =
     rbind (check (int (length (s_events s)) + (if extra_event then 1 else 0) \<le> po_events p)
       WorkspacePolicyError) (\<lambda>_.
     rbind (check (int (length (s_sources s)) \<le> po_sources p) WorkspacePolicyError) (\<lambda>_.
     rbind (check (int (length (s_sessions s)) \<le> po_sessions p) WorkspacePolicyError) (\<lambda>_.
     rbind (check (int (length (s_entries s)) \<le> po_context_entries p) WorkspacePolicyError) (\<lambda>_.
     rbind (check (length (s_pins s) \<le> MAX_PACKAGE_PINS) WorkspacePolicyError) (\<lambda>_.
     rbind (check (list_all (\<lambda>e. int (length (en_value e)) \<le> po_entry_bytes p) (s_entries s))
       WorkspacePolicyError) (\<lambda>_.
     rbind (context_bytes (s_entries s)) (\<lambda>n.
     check (int n \<le> po_context_bytes p) WorkspacePolicyError)))))))"

definition hashable :: "json \<Rightarrow> bool" where
  "hashable v = (case v of JArr _ \<Rightarrow> False | JObj _ \<Rightarrow> False | _ \<Rightarrow> True)"

text \<open>\<open>_verify_checkpoint_trust\<close>: a verified source was seeded by a trusted package, or its
  evidence was committed with sealed receipts for its binding.\<close>

definition trusted_seed :: "source_anchor \<Rightarrow> json \<Rightarrow> bool" where
  "trusted_seed a event \<longleftrightarrow>
     jget ''kind'' event = Some (JStr ''workspace_seeded'') \<and>
     (case jget ''payload'' event of None \<Rightarrow> False | Some payload \<Rightarrow>
        (case (jget ''package'' payload, jget ''admission'' payload, jget ''checkpoint'' payload) of
           (Some package, Some admission, Some ckpt) \<Rightarrow>
             is_obj payload \<and> is_obj package \<and> is_obj admission \<and> is_obj ckpt \<and>
             jget ''signature_state'' package = Some (JStr ''signed_valid'') \<and>
             jget ''trusted_signer'' admission = Some (JBool True) \<and>
             list_ex (\<lambda>v. py_eq (anchor_to_dict a) v) (jitems (jat ''source_anchors'' ckpt))
         | _ \<Rightarrow> False))"

definition committed_refs :: "json \<Rightarrow> json \<Rightarrow> json list" where
  "committed_refs binding event =
     (if jget ''kind'' event = Some (JStr ''context_committed'') \<and>
         is_obj (jat ''provenance'' (jat ''payload'' event)) \<and>
         is_obj (jat ''receipt_proof'' (jat ''provenance'' (jat ''payload'' event))) \<and>
         py_eq (jat ''source'' (jat ''receipt_proof'' (jat ''provenance'' (jat ''payload'' event))))
           binding
      then jitems (jat ''receipt_refs'' (jat ''provenance'' (jat ''payload'' event))) else [])"

definition verify_anchor_trust :: "json list \<Rightarrow> source_anchor \<Rightarrow> unit res" where
  "verify_anchor_trust events a =
     (if tr_level (an_trust a) \<noteq> ''verified'' then Inr ()
      else (case an_binding a of
        None \<Rightarrow> Inl WorkspaceIncompatibleError
      | Some b \<Rightarrow>
          if list_ex (trusted_seed a) events then Inr ()
          else let refs = concat (map (committed_refs b) events) in
               rbind (check (list_all hashable refs) PyTypeError) (\<lambda>_.
               check (list_all (\<lambda>r. JStr r \<in> set refs) (tr_refs (an_trust a)))
                 WorkspaceIncompatibleError)))"

definition verify_trust :: "ws_state \<Rightarrow> (pystr \<times> source_anchor) list \<Rightarrow> unit res" where
  "verify_trust s sources =
     rbind (mapr (\<lambda>q. verify_anchor_trust (s_events s) (snd q)) sources) (\<lambda>_. Inr ())"

end
