(* ===== verification/Ws_Apply.thy ===== *)
theory Ws_Apply
  imports Ws_State
begin

text \<open>
  The branches of \<open>_apply_event_unchecked\<close> (\<open>src/leanctx_sdk/workspace.py\<close>), one function per
  kind of event, from the state to the state it leaves or the failure it raises, and the receipt
  of an applied event. Every failure carries the state; no branch changes it before its checks
  have passed, so a failing branch carries the state it was given.
\<close>

datatype fail_kind = Corrupt | Incompatible

type_synonym 'a proj = "(fail_kind \<times> ws_state) + 'a"

definition need :: "bool \<Rightarrow> fail_kind \<Rightarrow> ws_state \<Rightarrow> unit proj" where
  "need b k s = check b (k, s)"

text \<open>\<open>try: .. except\<close>: the exceptions of a checked part become a failure.\<close>

definition trying :: "(exn \<Rightarrow> fail_kind) \<Rightarrow> ws_state \<Rightarrow> 'a res \<Rightarrow> 'a proj" where
  "trying f s r = on_err (\<lambda>e. (f e, s)) r"

abbreviation incompat :: "ws_state \<Rightarrow> 'a res \<Rightarrow> 'a proj" where
  "incompat s r \<equiv> trying (\<lambda>_. Incompatible) s r"

definition conflict_corrupt :: "exn \<Rightarrow> fail_kind" where
  "conflict_corrupt e =
     (if is_instance e WorkspaceConflictError then Corrupt else Incompatible)"

definition identity_failure :: "exn \<Rightarrow> fail_kind" where
  "identity_failure e =
     (if is_instance e WorkspaceIncompatibleError then Incompatible
      else if is_workspace_error e then Corrupt else Incompatible)"

lemma need_Inr [ok_simps]: "need b k s = Inr u \<longleftrightarrow> b"
  by (simp add: need_def ok_simps)

lemma trying_Inr [ok_simps]: "trying f s r = Inr x \<longleftrightarrow> r = Inr x"
  by (simp add: trying_def ok_simps)

section \<open>The common prelude\<close>

definition payload_keys :: "pystr \<Rightarrow> pystr list" where
  "payload_keys kind =
     (if kind = ''workspace_created'' then [''identity'', ''policy'']
      else if kind = ''source_attached'' then [''anchor'']
      else if kind = ''source_updated'' then [''anchor'', ''previous_anchor_digest'']
      else if kind = ''policy_tightened'' then [''policy'', ''previous_policy_digest'']
      else if kind = ''session_attached'' then [''session_id'', ''task_id'', ''source_ids'']
      else if kind = ''context_committed'' then [''entries'', ''provenance'']
      else if kind = ''checkpoint_created'' then [''checkpoint'']
      else if kind = ''workspace_restored'' then [''checkpoint_id'', ''checkpoint_envelope_digest'']
      else if kind = ''workspace_seeded'' then [''checkpoint'', ''package'', ''admission'']
      else if kind = ''workspace_sealed'' then
        [''checkpoint_id'', ''checkpoint_envelope_digest'', ''package'']
      else if kind = ''package_pinned'' then [''pin'', ''previous_lock_digest'']
      else if kind = ''workspace_forked'' then [''fork'', ''inherited_state'']
      else if kind = ''handoff_applied'' then [''handoff'', ''admission'']
      else if kind = ''workspace_aborted'' then [''reason_code'']
      else [])"

record event_head =
  eh_kind :: pystr
  eh_id :: pystr
  eh_digest :: pystr
  eh_payload :: json

definition event_head :: "json \<Rightarrow> event_head res" where
  "event_head event =
     rbind (check (is_obj event) WorkspaceIncompatibleError) (\<lambda>_.
     rbind (jfield ''kind'' event) (\<lambda>kind.
     rbind (jfield ''payload'' event) (\<lambda>payload.
     rbind (jfield ''event_id'' event) (\<lambda>eid.
     rbind (jfield ''event_digest'' event) (\<lambda>digest.
     rbind (on_text (\<lambda>k. k \<in> set event_kinds) kind) (\<lambda>k.
     rbind (on_text (\<lambda>_. True) eid) (\<lambda>i.
     rbind (on_text (\<lambda>_. True) digest) (\<lambda>d.
     rbind (check (is_obj payload) WorkspaceIncompatibleError) (\<lambda>_.
     rbind (reject_sensitive payload) (\<lambda>_.
     rbind (exact (payload_keys k) payload) (\<lambda>_.
     Inr \<lparr>eh_kind = k, eh_id = i, eh_digest = d, eh_payload = payload\<rparr>)))))))))))"

section \<open>Creation\<close>

definition apply_created :: "json \<Rightarrow> json \<Rightarrow> ws_state \<Rightarrow> ws_state proj" where
  "apply_created event payload s =
     rbind (need (s_events s = [] \<and> s_identity s = None) Corrupt s) (\<lambda>_.
     rbind (trying identity_failure s (identity_from_dict (jat ''identity'' payload))) (\<lambda>i.
     rbind (trying identity_failure s (policy_from_dict (jat ''policy'' payload))) (\<lambda>p.
     rbind (need (py_eq (identity_to_dict i) (jat ''identity'' payload) \<and>
         py_eq (policy_to_dict p) (jat ''policy'' payload)) Incompatible s) (\<lambda>_.
     rbind (incompat s (jfield ''workspace_id'' event)) (\<lambda>wid.
     rbind (need (wid = JStr (wi_id i)) Corrupt s) (\<lambda>_.
     Inr (s\<lparr>s_identity := Some i, s_policy := Some p, s_lifecycle := ''active''\<rparr>)))))))"

section \<open>Sources\<close>

definition apply_source :: "bool \<Rightarrow> bool \<Rightarrow> json \<Rightarrow> ws_policy \<Rightarrow> ws_state \<Rightarrow> ws_state proj" where
  "apply_source update allow_verified payload p s =
     rbind (incompat s (anchor_from_dict allow_verified (jat ''anchor'' payload))) (\<lambda>a.
     rbind (incompat s (reject_sensitive (anchor_to_dict a))) (\<lambda>_.
     rbind (need (py_eq (anchor_to_dict a) (jat ''anchor'' payload)) Incompatible s) (\<lambda>_.
     rbind
       (case (update, map_of (s_sources s) (an_id a)) of
          (False, Some _) \<Rightarrow> Inl (Corrupt, s)
        | (False, None) \<Rightarrow>
            need (int (length (s_sources s)) + 1 \<le> po_sources p) Incompatible s
        | (True, None) \<Rightarrow> Inl (Corrupt, s)
        | (True, Some previous) \<Rightarrow>
            rbind (incompat s (wdigest (jat ''previous_anchor_digest'' payload))) (\<lambda>d.
            rbind (incompat s (anchor_digest previous)) (\<lambda>d'. need (d = d') Corrupt s))) (\<lambda>_.
     rbind (incompat s (ensure_external s a)) (\<lambda>_.
     Inr (s\<lparr>s_sources := dict_put (an_id a) a (s_sources s)\<rparr>))))))"

section \<open>Policy\<close>

definition apply_policy :: "json \<Rightarrow> ws_policy \<Rightarrow> ws_state \<Rightarrow> ws_state proj" where
  "apply_policy payload p s =
     rbind (incompat s (policy_from_dict (jat ''policy'' payload))) (\<lambda>q.
     rbind (incompat s (wdigest (jat ''previous_policy_digest'' payload))) (\<lambda>previous.
     rbind (need (py_eq (policy_to_dict q) (jat ''policy'' payload)) Incompatible s) (\<lambda>_.
     rbind (incompat s (ws_digest (policy_to_dict p))) (\<lambda>d.
     rbind (need (previous = d) Corrupt s) (\<lambda>_.
     rbind (need (is_tightening q p) Incompatible s) (\<lambda>_.
     rbind (need (list_all (\<lambda>e. en_category e \<in> set (po_categories q)) (s_entries s)) Incompatible s)
       (\<lambda>_.
     rbind (need (po_external q \<or> list_all (\<lambda>a. an_kind (snd a) = ''filesystem'') (s_sources s))
       Incompatible s) (\<lambda>_.
     rbind (incompat s (ensure_bounds q True (s\<lparr>s_policy := Some q\<rparr>))) (\<lambda>_.
     Inr (s\<lparr>s_policy := Some q\<rparr>))))))))))"

section \<open>Sessions\<close>

definition apply_session :: "json \<Rightarrow> ws_policy \<Rightarrow> ws_state \<Rightarrow> ws_state proj" where
  "apply_session payload p s =
     rbind (incompat s (wtext 512 (jat ''session_id'' payload))) (\<lambda>sid.
     rbind (incompat s (wtext 512 (jat ''task_id'' payload))) (\<lambda>tid.
     rbind (incompat s (wids MAX_SOURCE_IDS (jat ''source_ids'' payload))) (\<lambda>ids.
     rbind (need (jstrs ids = jat ''source_ids'' payload \<and> ids \<noteq> []) Incompatible s) (\<lambda>_.
     rbind (need (sid \<notin> set (map sn_session (s_sessions s))) Corrupt s) (\<lambda>_.
     rbind (need (list_all (\<lambda>i. i \<in> set (map fst (s_sources s))) ids) Corrupt s) (\<lambda>_.
     rbind (need (int (length (s_sessions s)) + 1 \<le> po_sessions p) Incompatible s) (\<lambda>_.
     Inr (s\<lparr>s_sessions := s_sessions s @
       [\<lparr>sn_session = sid, sn_task = tid, sn_sources = ids\<rparr>]\<rparr>))))))))"

section \<open>Context\<close>

text \<open>\<open>_validate_context_provenance\<close>; each of its failures is \<open>incompatible\<close>.\<close>

definition provenance_keys :: "pystr list" where
  "provenance_keys = [''session_id'', ''task_id'', ''source_ids'', ''receipt_refs'',
     ''recovery_refs'', ''receipt_proof'', ''receipt_proof_digest'']"

definition proof_keys :: "pystr list" where
  "proof_keys = [''schema_version'', ''session_id'', ''task_id'', ''plan_id'', ''integrity_status'',
     ''status'', ''source'', ''receipt_link'', ''recovery_ref'', ''output_digest'']"

text \<open>Whether an attached source is the one a proof names: its binding, or its portable name.\<close>

definition proof_names_source :: "context_source \<Rightarrow> json \<Rightarrow> source_anchor \<Rightarrow> bool res" where
  "proof_names_source source proof_source a =
     (case an_binding a of
        Some b \<Rightarrow> Inr (py_eq b proof_source)
      | None \<Rightarrow>
          if an_kind a = ''filesystem''
          then rbind (relative_path ''/'' source) (\<lambda>rel. Inr (an_canonical a = ''file://'' @ rel))
          else Inr False)"

fun any_source :: "(source_anchor \<Rightarrow> bool res) \<Rightarrow> (pystr \<times> source_anchor) list \<Rightarrow> pystr list \<Rightarrow> bool res"
where
  "any_source f sources [] = Inr False"
| "any_source f sources (i # ids) =
     rbind (of_option PyKeyError (map_of sources i)) (\<lambda>a.
     rbind (f a) (\<lambda>b. if b then Inr True else any_source f sources ids))"

definition check_proof ::
  "(pystr \<times> source_anchor) list \<Rightarrow> pystr \<Rightarrow> pystr \<Rightarrow> pystr list \<Rightarrow> pystr list \<Rightarrow> pystr list \<Rightarrow>
     pystr \<Rightarrow> json \<Rightarrow> unit res" where
  "check_proof sources sid tid ids receipts recovery digest proof =
     (let psource = jat ''source'' proof; plink = jat ''receipt_link'' proof in
     rbind (check (is_obj psource \<and> is_obj plink) WorkspaceIncompatibleError) (\<lambda>_.
     rbind (exact [''schema_version'', ''receipt_id'', ''receipt_ref'', ''receipt_digest'',
         ''invocation_id''] plink) (\<lambda>_.
     rbind (source_from_binding ''/'' psource) (\<lambda>source.
     rbind (mk_receipt_link (jat ''schema_version'' plink) (jat ''receipt_id'' plink)
         (jat ''receipt_ref'' plink) (jat ''receipt_digest'' plink) (jat ''invocation_id'' plink)) (\<lambda>link.
     rbind (wref 512 (jat ''plan_id'' proof)) (\<lambda>plan_id.
     rbind (wref 512 (jat ''recovery_ref'' proof)) (\<lambda>rref.
     rbind (wdigest (jat ''output_digest'' proof)) (\<lambda>output.
     rbind (ws_digest proof) (\<lambda>d.
     rbind (in_set [''succeeded'', ''degraded''] (jat ''status'' proof)) (\<lambda>status_ok.
     rbind (source_to_dict ''/'' source) (\<lambda>sdict.
     rbind (check (d = digest \<and> py_eq (jat ''schema_version'' proof) (JInt 1) \<and>
         jat ''session_id'' proof = JStr sid \<and> jat ''task_id'' proof = JStr tid \<and>
         jat ''integrity_status'' proof = JStr ''sealed'' \<and> status_ok \<and>
         starts_with ''plan:sha256:'' plan_id \<and> py_eq sdict psource \<and>
         py_eq (receipt_link_to_dict link) plink \<and> rl_ref link = ''receipt:'' @ rl_digest link \<and>
         receipts = [rl_ref link] \<and> recovery = [rref])
       WorkspaceIncompatibleError) (\<lambda>_.
     rbind (any_source (proof_names_source source psource) sources ids) (\<lambda>named.
     check named WorkspaceIncompatibleError)))))))))))))"

definition check_provenance :: "ws_state \<Rightarrow> json \<Rightarrow> ctx_entry list \<Rightarrow> unit res" where
  "check_provenance s raw entries =
     (if raw = JNull
      then check (list_all (\<lambda>e. en_session e = None \<and> en_receipts e = [] \<and> en_recovery e = []) entries)
             WorkspaceIncompatibleError
      else
     rbind (exact provenance_keys raw) (\<lambda>_.
     rbind (check (is_arr (jat ''source_ids'' raw) \<and> is_arr (jat ''receipt_refs'' raw) \<and>
         is_arr (jat ''recovery_refs'' raw)) WorkspaceIncompatibleError) (\<lambda>_.
     rbind (wtext 512 (jat ''session_id'' raw)) (\<lambda>sid.
     rbind (wtext 512 (jat ''task_id'' raw)) (\<lambda>tid.
     rbind (wids MAX_SOURCE_IDS (jat ''source_ids'' raw)) (\<lambda>ids.
     rbind (wrefs MAX_ENTRY_REFS (jat ''receipt_refs'' raw)) (\<lambda>receipts.
     rbind (wrefs MAX_ENTRY_REFS (jat ''recovery_refs'' raw)) (\<lambda>recovery.
     rbind (exact proof_keys (jat ''receipt_proof'' raw)) (\<lambda>_.
     rbind (wdigest (jat ''receipt_proof_digest'' raw)) (\<lambda>digest.
     rbind (check (ids \<noteq> [] \<and> receipts \<noteq> [] \<and> list_all p4_receipt_ref receipts)
       WorkspaceIncompatibleError) (\<lambda>_.
     rbind (check (jstrs ids = jat ''source_ids'' raw \<and> jstrs receipts = jat ''receipt_refs'' raw \<and>
         jstrs recovery = jat ''recovery_refs'' raw) WorkspaceIncompatibleError) (\<lambda>_.
     rbind (case filter (\<lambda>r. sn_session r = sid) (s_sessions s) of
              [r] \<Rightarrow> check (sn_task r = tid \<and> set ids \<subseteq> set (sn_sources r)) WorkspaceIncompatibleError
            | _ \<Rightarrow> Inl WorkspaceIncompatibleError) (\<lambda>_.
     rbind (check_proof (s_sources s) sid tid ids receipts recovery digest
         (jat ''receipt_proof'' raw)) (\<lambda>_.
     check (list_all (\<lambda>e. en_session e = Some sid \<and> en_sources e = ids \<and>
         en_receipts e = receipts \<and> en_recovery e = recovery) entries)
       WorkspaceIncompatibleError))))))))))))))"

definition check_entry :: "ws_policy \<Rightarrow> ws_state \<Rightarrow> ctx_entry \<Rightarrow> unit proj" where
  "check_entry p s e =
     rbind (need (list_all (\<lambda>i. i \<in> set (map fst (s_sources s))) (en_sources e)) Corrupt s) (\<lambda>_.
     rbind (need (case en_session e of None \<Rightarrow> True
              | Some sid \<Rightarrow> sid \<in> set (map sn_session (s_sessions s))) Corrupt s) (\<lambda>_.
     rbind (need (en_category e \<in> set (po_categories p)) Incompatible s) (\<lambda>_.
     need (int (length (en_value e)) \<le> po_entry_bytes p) Incompatible s)))"

definition apply_context :: "json \<Rightarrow> ws_policy \<Rightarrow> ws_state \<Rightarrow> ws_state proj" where
  "apply_context payload p s =
     (let raw = jat ''entries'' payload in
     rbind (need (is_arr raw \<and> jitems raw \<noteq> []) Incompatible s) (\<lambda>_.
     rbind (incompat s (mapr entry_from_input (jitems raw))) (\<lambda>entries.
     rbind (need (list_all2 (\<lambda>e v. py_eq (entry_to_dict e) v) entries (jitems raw)) Incompatible s) (\<lambda>_.
     rbind (incompat s (check_provenance s (jat ''provenance'' payload) entries)) (\<lambda>_.
     rbind (need (list_all (\<lambda>e. en_id e \<notin> set (map en_id (s_entries s))) entries) Corrupt s) (\<lambda>_.
     rbind (mapr (check_entry p s) entries) (\<lambda>_.
     rbind (incompat s (ensure_bounds p True (s\<lparr>s_entries := s_entries s @ entries\<rparr>))) (\<lambda>_.
     Inr (s\<lparr>s_entries := s_entries s @ entries\<rparr>)))))))))"

section \<open>Packages\<close>

definition apply_pin :: "json \<Rightarrow> ws_state \<Rightarrow> ws_state proj" where
  "apply_pin payload s =
     rbind (incompat s (pin_from_dict (jat ''pin'' payload))) (\<lambda>pin.
     rbind (incompat s
       (if jat ''previous_lock_digest'' payload = JNull then Inr None
        else rbind (wdigest (jat ''previous_lock_digest'' payload)) (\<lambda>d. Inr (Some d)))) (\<lambda>previous.
     rbind (need (previous = s_lock s) Corrupt s) (\<lambda>_.
     rbind (case map_of (s_pins s) (pin_key pin) of
              None \<Rightarrow> Inr ()
            | Some existing \<Rightarrow>
                rbind (need (py_eq (pin_to_dict existing) (pin_to_dict pin)) Corrupt s) (\<lambda>_.
                Inl (Incompatible, s))) (\<lambda>_.
     rbind (need (list_all (\<lambda>q. pk_name (snd q) = pk_name pin \<longrightarrow> pk_artifact (snd q) = pk_artifact pin)
       (s_pins s)) Corrupt s) (\<lambda>_.
     rbind (need (length (s_pins s) + 1 \<le> MAX_PACKAGE_PINS) Incompatible s) (\<lambda>_.
     let pins = dict_put (pin_key pin) pin (s_pins s) in
     rbind (incompat (s\<lparr>s_pins := pins\<rparr>) (package_lock (map snd pins))) (\<lambda>lock.
     Inr (s\<lparr>s_pins := pins, s_lock := lock\<rparr>))))))))"

section \<open>Checkpoints\<close>

definition state_identity :: "ws_state \<Rightarrow> ws_identity res" where
  "state_identity s = of_option WorkspaceCorruptError (s_identity s)"

definition apply_checkpoint :: "json \<Rightarrow> ws_state \<Rightarrow> ws_state proj" where
  "apply_checkpoint payload s =
     rbind (trying conflict_corrupt s (checkpoint_from_dict (jat ''checkpoint'' payload))) (\<lambda>c.
     rbind (trying conflict_corrupt s (state_identity s)) (\<lambda>i.
     rbind (trying conflict_corrupt s (logical_components (ck_logical c) (wi_id i))) (\<lambda>lc.
     rbind (need (ck_id c \<notin> set (map fst (s_checkpoints s))) Corrupt s) (\<lambda>_.
     rbind (need (length (s_checkpoints s) + 1 \<le> MAX_CHECKPOINTS) Incompatible s) (\<lambda>_.
     rbind (need (ck_workspace c = wi_id i) Corrupt s) (\<lambda>_.
     rbind (need (jat ''state_id'' (ck_lineage c) = JStr (wi_state_id i)) Corrupt s) (\<lambda>_.
     rbind (need (ck_state_ref c = ''event:'' @ s_last s) Corrupt s) (\<lambda>_.
     rbind (incompat s (logical_digest s)) (\<lambda>d.
     rbind (need (ck_state_digest c = d) Corrupt s) (\<lambda>_.
     rbind (incompat s (logical_state s)) (\<lambda>ls.
     rbind (need (py_eq (ck_logical c) ls) Corrupt s) (\<lambda>_.
     rbind (need (py_eq (JArr (map (\<lambda>q. anchor_to_dict (snd q)) (lc_sources lc))) (JArr (ck_anchors c)))
       Corrupt s) (\<lambda>_.
     rbind (need (py_eq (jstrs (entry_recovery_refs (lc_entries lc))) (JArr (ck_recovery c))) Corrupt s)
       (\<lambda>_.
     rbind (incompat s (domain_digest ''leanctx.workspace.policy.v1'' (policy_to_dict (lc_policy lc))))
       (\<lambda>pd.
     rbind (need (ck_policy_digest c = pd) Corrupt s) (\<lambda>_.
     rbind (incompat s (domain_digest ''leanctx.project-context.state.v1''
       (JArr (map entry_to_dict (lc_entries lc))))) (\<lambda>cd.
     rbind (need (ck_context_digest c = cd) Corrupt s) (\<lambda>_.
     rbind (incompat s (verify_trust s (lc_sources lc))) (\<lambda>_.
     Inr (s\<lparr>s_checkpoints := dict_put (ck_id c) c (s_checkpoints s)\<rparr>))))))))))))))))))))"

definition ensure_all_external :: "ws_state \<Rightarrow> (pystr \<times> source_anchor) list \<Rightarrow> unit res" where
  "ensure_all_external s sources =
     rbind (mapr (\<lambda>q. ensure_external s (snd q)) sources) (\<lambda>_. Inr ())"

definition apply_restored :: "json \<Rightarrow> ws_policy \<Rightarrow> ws_state \<Rightarrow> ws_state proj" where
  "apply_restored payload p s =
     rbind (incompat s (wuuid (jat ''checkpoint_id'' payload))) (\<lambda>cid.
     rbind (incompat s (wdigest (jat ''checkpoint_envelope_digest'' payload))) (\<lambda>envelope.
     rbind (of_option (Corrupt, s) (map_of (s_checkpoints s) cid)) (\<lambda>c.
     rbind (need (ck_envelope c = envelope) Corrupt s) (\<lambda>_.
     rbind (trying conflict_corrupt s (state_identity s)) (\<lambda>i.
     rbind (trying conflict_corrupt s (logical_components (ck_logical c) (wi_id i))) (\<lambda>lc.
     rbind (need (is_tightening (lc_policy lc) p) Incompatible s) (\<lambda>_.
     let target = with_components lc (s\<lparr>s_policy := Some (lc_policy lc)\<rparr>) in
     rbind (incompat s (ensure_bounds (lc_policy lc) True target)) (\<lambda>_.
     rbind (incompat s (ensure_all_external target (lc_sources lc))) (\<lambda>_.
     Inr target)))))))))"

definition package_record_keys :: "pystr list" where
  "package_record_keys = [''name'', ''version'', ''package_digest'', ''content_hash'',
     ''signature_state'', ''signer_public_key'']"

text \<open>The package and the admission of a seed, and whether its signer is trusted.\<close>

definition seed_admission :: "json \<Rightarrow> json \<Rightarrow> bool res" where
  "seed_admission package admission =
     rbind (exact package_record_keys package) (\<lambda>_.
     rbind (exact [''trusted_signer'', ''allow_unsigned''] admission) (\<lambda>_.
     rbind (wdigest (jat ''package_digest'' package)) (\<lambda>_.
     rbind (wdigest (jat ''content_hash'' package)) (\<lambda>_.
     rbind (in_set [''signed_valid'', ''unsigned''] (jat ''signature_state'' package)) (\<lambda>known.
     rbind (check known WorkspaceIncompatibleError) (\<lambda>_.
     case (jat ''trusted_signer'' admission, jat ''allow_unsigned'' admission) of
       (JBool trusted, JBool allow) \<Rightarrow>
         let signed = (jat ''signature_state'' package = JStr ''signed_valid'') in
         rbind (check ((signed \<longrightarrow> trusted) \<and> (\<not> signed \<longrightarrow> allow)) WorkspacePolicyError) (\<lambda>_.
         Inr (signed \<and> trusted))
     | _ \<Rightarrow> Inl WorkspaceIncompatibleError))))))"

definition apply_seeded :: "json \<Rightarrow> ws_policy \<Rightarrow> ws_state \<Rightarrow> ws_state proj" where
  "apply_seeded payload p s =
     rbind (need (s_sources s = [] \<and> s_entries s = [] \<and> s_checkpoints s = [] \<and>
         length (s_events s) = 1) Incompatible s) (\<lambda>_.
     rbind (trying conflict_corrupt s (checkpoint_from_dict (jat ''checkpoint'' payload))) (\<lambda>c.
     rbind (trying conflict_corrupt s
       (seed_admission (jat ''package'' payload) (jat ''admission'' payload))) (\<lambda>trusted.
     rbind (trying conflict_corrupt s (state_identity s)) (\<lambda>i.
     rbind (trying conflict_corrupt s (logical_components (ck_logical c) (wi_id i))) (\<lambda>lc.
     rbind (incompat s (domain_digest ''leanctx.workspace.state.v1'' (ck_logical c))) (\<lambda>d.
     rbind (need (ck_workspace c = wi_id i \<and>
         py_eq (policy_to_dict (lc_policy lc)) (policy_to_dict p) \<and> ck_state_digest c = d) Corrupt s)
       (\<lambda>_.
     rbind (need (trusted \<or> list_all (\<lambda>a. tr_level (an_trust (snd a)) \<noteq> ''verified'') (lc_sources lc))
       Incompatible s) (\<lambda>_.
     let target = with_components lc
           (s\<lparr>s_checkpoints := dict_put (ck_id c) c (s_checkpoints s)\<rparr>) in
     rbind (incompat s (ensure_bounds (lc_policy lc) True target)) (\<lambda>_.
     rbind (incompat s (ensure_all_external target (lc_sources lc))) (\<lambda>_.
     Inr target))))))))))"

definition apply_sealed :: "json \<Rightarrow> ws_state \<Rightarrow> ws_state proj" where
  "apply_sealed payload s =
     rbind (incompat s (wuuid (jat ''checkpoint_id'' payload))) (\<lambda>cid.
     rbind (incompat s (wdigest (jat ''checkpoint_envelope_digest'' payload))) (\<lambda>envelope.
     rbind (incompat s (exact package_record_keys (jat ''package'' payload))) (\<lambda>_.
     rbind (incompat s (wdigest (jat ''package_digest'' (jat ''package'' payload)))) (\<lambda>_.
     rbind (incompat s (wdigest (jat ''content_hash'' (jat ''package'' payload)))) (\<lambda>_.
     rbind (of_option (Corrupt, s) (map_of (s_checkpoints s) cid)) (\<lambda>c.
     rbind (need (ck_envelope c = envelope) Corrupt s) (\<lambda>_.
     Inr s)))))))"

section \<open>The end of a workspace\<close>

definition apply_completed :: "ws_state \<Rightarrow> ws_state proj" where
  "apply_completed s = Inr (s\<lparr>s_lifecycle := ''completed''\<rparr>)"

definition apply_aborted :: "json \<Rightarrow> ws_state \<Rightarrow> ws_state proj" where
  "apply_aborted payload s =
     rbind (incompat s (wtext 128 (jat ''reason_code'' payload))) (\<lambda>_.
     Inr (s\<lparr>s_lifecycle := ''aborted''\<rparr>))"

section \<open>Receipts\<close>

text \<open>What a receipt says of its event: sources, session, engine receipts, recovery references.\<close>

definition sorted_union :: "pystr list list \<Rightarrow> pystr list" where
  "sorted_union xss = sort (remdups (concat xss))"

definition receipt_lineage ::
  "pystr \<Rightarrow> json \<Rightarrow> (pystr list \<times> pystr option \<times> pystr list \<times> pystr list) res" where
  "receipt_lineage kind payload =
     (if kind \<in> {''source_attached'', ''source_updated''} then
        (case jat ''source_id'' (jat ''anchor'' payload) of
           JStr i \<Rightarrow> Inr ([i], None, [], []) | _ \<Rightarrow> Inl WorkspaceIncompatibleError)
      else if kind = ''session_attached'' then
        rbind (mapr (\<lambda>v. case v of JStr i \<Rightarrow> Inr i | _ \<Rightarrow> Inl WorkspaceIncompatibleError)
          (jitems (jat ''source_ids'' payload))) (\<lambda>ids.
        rbind (check (is_arr (jat ''source_ids'' payload)) WorkspaceIncompatibleError) (\<lambda>_.
        case jat ''session_id'' payload of
          JStr sid \<Rightarrow> Inr (ids, Some sid, [], []) | _ \<Rightarrow> Inl WorkspaceIncompatibleError))
      else if kind = ''context_committed'' then
        rbind (check (is_arr (jat ''entries'' payload)) WorkspaceIncompatibleError) (\<lambda>_.
        rbind (mapr entry_from_input (jitems (jat ''entries'' payload))) (\<lambda>entries.
        let sessions = remdups (concat (map (\<lambda>e. case en_session e of None \<Rightarrow> [] | Some x \<Rightarrow> [x]) entries))
        in Inr (sorted_union (map en_sources entries),
                (case sessions of [x] \<Rightarrow> Some x | _ \<Rightarrow> None),
                sorted_union (map en_receipts entries), sorted_union (map en_recovery entries))))
      else Inr ([], None, [], []))"

definition receipt_for_event :: "ws_state \<Rightarrow> json \<Rightarrow> ws_receipt res" where
  "receipt_for_event s event =
     rbind (of_option WorkspaceCorruptError (s_identity s)) (\<lambda>i.
     rbind (case (jget ''payload'' event, jget ''kind'' event) of
              (Some payload, Some (JStr kind)) \<Rightarrow>
                if is_obj payload then Inr (payload, kind) else Inl WorkspaceIncompatibleError
            | _ \<Rightarrow> Inl WorkspaceIncompatibleError) (\<lambda>(payload, kind).
     rbind (receipt_lineage kind payload) (\<lambda>(source_ids, session_id, engine_refs, recovery_refs).
     rbind (wpositive (jat ''sequence'' event)) (\<lambda>sequence.
     rbind (wuuid (jat ''event_id'' event)) (\<lambda>event_id.
     rbind (wdigest (jat ''event_digest'' event)) (\<lambda>event_digest.
     rbind (state_digest s) (\<lambda>digest.
     mk_ws_receipt (wi_id i) (wi_state_id i) sequence event_id kind event_digest digest
       source_ids session_id engine_refs recovery_refs)))))))"

text \<open>The common end of every branch: the event is recorded, the bounds checked, the receipt kept.\<close>

definition apply_tail :: "json \<Rightarrow> event_head \<Rightarrow> ws_state \<Rightarrow> ws_state proj" where
  "apply_tail event h s0 =
     (let s = s0\<lparr>s_events := s_events s0 @ [event], s_last := eh_digest h\<rparr> in
     case (s_identity s, s_policy s) of
       (Some _, Some p) \<Rightarrow>
         rbind (incompat s (ensure_bounds p False s)) (\<lambda>_.
         rbind (incompat s (receipt_for_event s event)) (\<lambda>r.
         rbind (need (eh_id h \<notin> set (map fst (s_receipts s))) Corrupt s) (\<lambda>_.
         Inr (s\<lparr>s_receipts := dict_put (eh_id h) r (s_receipts s)\<rparr>))))
     | _ \<Rightarrow> Inl (Corrupt, s))"

end
