(* ===== verification/Px_Values.thy ===== *)
theory Px_Values
  imports Ws_Checkpoint
begin

text \<open>
  The first half of \<open>src/leanctx_sdk/parallel_context.py\<close>: its field validators and credential
  scan, references to a workspace state, fork lineage, evidence references, policy inheritance
  and the fork of a workspace. As in \<open>Ws_Values\<close>, \<open>mk_..\<close> is \<open>__post_init__\<close> and takes JSON values
  where the code does not know their types.
\<close>

section \<open>Validators\<close>

text \<open>\<open>_text\<close> without the test for control characters.\<close>

definition free_text_ok :: "nat \<Rightarrow> pystr \<Rightarrow> bool" where
  "free_text_ok n s \<longleftrightarrow> strict_utf8 s \<and> s \<noteq> [] \<and> length s \<le> n \<and> \<not> has_nul s"

definition pfree_text :: "nat \<Rightarrow> json \<Rightarrow> pystr res" where
  "pfree_text n v = on_text (free_text_ok n) v"

lemma pfree_text_Inr [ok_simps]: "pfree_text n v = Inr s \<longleftrightarrow> v = JStr s \<and> free_text_ok n s"
  by (simp add: pfree_text_def ok_simps)

text \<open>The digest of an optional field that may be absent.\<close>

definition opt_sha :: "json \<Rightarrow> pystr option res" where
  "opt_sha v = (if v = JNull then Inr None else rbind (wdigest v) (\<lambda>d. Inr (Some d)))"

lemma opt_sha_Inr [ok_simps]:
  "opt_sha v = Inr x \<longleftrightarrow> v = opt_str x \<and> pred_option is_digest x"
  by (cases x) (auto simp: opt_sha_def ok_simps)

text \<open>\<open>_sorted_unique_text\<close>: a list that is too long is a matter of policy here.\<close>

definition punique :: "nat \<Rightarrow> json list \<Rightarrow> pystr list res" where
  "punique maximum xs =
     rbind (check (length xs \<le> maximum) WorkspacePolicyError) (\<lambda>_.
     rbind (mapr (wtext 512) xs) (\<lambda>ys.
     let result = sort (remdups ys) in
     rbind (check (length result = length xs) WorkspaceValidationError) (\<lambda>_. Inr result)))"

lemma punique_Inr [ok_simps]:
  "punique n xs = Inr r \<longleftrightarrow>
     str_list_ok (text_ok 512) n r \<and> (\<exists>ys. xs = map JStr ys \<and> distinct ys \<and> set ys = set r)"
proof -
  have "punique n xs = Inr r \<longleftrightarrow> unique_sorted (on_text (text_ok 512)) n (JArr xs) = Inr r"
    by (auto simp: punique_def unique_sorted_def ok_simps wtext_def [abs_def] Let_def)
  then show ?thesis
    by (simp add: unique_sorted_Inr jstrs_def)
qed

text \<open>\<open>tuple(v)\<close> of a JSON value: the characters of a string, the keys of an object.\<close>

fun utf8_chars :: "pystr \<Rightarrow> pystr list" where
  "utf8_chars [] = []"
| "utf8_chars (a # s) =
     (case utf8_chars s of
        (b # u) # us \<Rightarrow>
          if 128 \<le> byte b \<and> byte b < 192 then (a # b # u) # us else [a] # (b # u) # us
      | us \<Rightarrow> [a] # us)"

definition py_tuple :: "json \<Rightarrow> json list res" where
  "py_tuple v =
     (case v of JArr xs \<Rightarrow> Inr xs | JStr s \<Rightarrow> Inr (map JStr (utf8_chars s))
      | JObj kvs \<Rightarrow> Inr (map (\<lambda>p. JStr (fst p)) kvs) | _ \<Rightarrow> Inl PyTypeError)"

lemma py_tuple_arr [simp]: "py_tuple (JArr xs) = Inr xs"
  by (simp add: py_tuple_def)

section \<open>Credentials\<close>

text \<open>\<open>_SECRET_RE\<close>, whose \<open>(?i)\<close> covers the whole pattern, classes of letters included.\<close>

definition ci_alnum :: "nat \<Rightarrow> bool" where
  "ci_alnum c \<longleftrightarrow> ascii_alnum c \<or> c \<in> {304, 305, 383, 8490}"

definition px_pem_re :: regex where
  "px_pem_re = RSeq (rlit_ci ''-----begin'')
     (RSeq (RStar (RSeq (rlit '' '') (rplus (RChr ci_alnum)))) (rlit_ci '' private key-----''))"

definition px_aws_re :: regex where
  "px_aws_re = RSeq rbound (RSeq (rlit_ci ''akia'') (RSeq (rtimes 16 (RChr ci_alnum)) rbound))"

definition px_token_re :: regex where
  "px_token_re =
     RSeq (RTest (\<lambda>prev rest. case prev of None \<Rightarrow> True | Some c \<Rightarrow> \<not> ci_alnum c))
    (RSeq (RAlt (rlit_ci ''sk-'')
             (RSeq (rlit_ci ''gh'')
               (RSeq (RChr (\<lambda>c. list_ex (\<lambda>l. re_letter_ci (byte l) c) ''pousr'')) (rlit ''_''))))
          (rplus (RChr (\<lambda>c. ci_alnum c \<or> c = 95 \<or> c = 45))))"

definition px_assignment_re :: regex where
  "px_assignment_re =
     RSeq (RAlt (RSeq (rlit_ci ''api'') (RSeq (ropt (rone_of ''-_ '')) (rlit_ci ''key'')))
          (RAlt (rlit_ci ''secret'') (RAlt (rlit_ci ''token'') (RAlt (rlit_ci ''password'')
            (RSeq (rlit_ci ''private'') (RSeq (ropt (rone_of ''-_ '')) (rlit_ci ''key'')))))))
    (RSeq (RStar (RChr re_space)) (RSeq (rone_of '':='') (RSeq (RStar (RChr re_space))
       (rplus (RChr (\<lambda>c. \<not> (re_space c \<or> c = 34 \<or> c = 39 \<or> c \<in> set (map byte '',;}''))))))))"

definition px_secret :: "pystr \<Rightarrow> bool" where
  "px_secret s \<longleftrightarrow>
     re_search px_pem_re s \<or> re_search px_aws_re s \<or> re_search px_token_re s \<or>
     re_search bearer_re s \<or> re_search px_assignment_re s"

definition forbidden_keys :: "pystr list" where
  "forbidden_keys = [''credential'', ''credentials'', ''transcript'', ''tool_history'',
     ''raw_tool_history'', ''api_key'', ''provider_token'', ''cache'']"

text \<open>
  \<open>key.lower() in _FORBIDDEN_KEYS\<close>: the names are ASCII, and apart from the ASCII capitals only the
  Kelvin sign has an ASCII letter for its lower case.
\<close>

definition lower_point :: "nat \<Rightarrow> nat" where
  "lower_point c = (if 65 \<le> c \<and> c \<le> 90 then c + 32 else if c = 8490 then 107 else c)"

definition forbidden_key :: "pystr \<Rightarrow> bool" where
  "forbidden_key k \<longleftrightarrow>
     list_ex (\<lambda>name. map lower_point (code_points k) = map byte name) forbidden_keys"

primrec px_sensitive :: "json \<Rightarrow> bool" where
  "px_sensitive JNull = False"
| "px_sensitive (JBool b) = False"
| "px_sensitive (JInt i) = False"
| "px_sensitive (JFloat r) = False"
| "px_sensitive (JStr s) = px_secret s"
| "px_sensitive (JArr xs) = list_ex id (map px_sensitive xs)"
| "px_sensitive (JObj kvs) =
     list_ex (\<lambda>p. forbidden_key (fst p) \<or> snd p) (map (map_prod id px_sensitive) kvs)"

definition px_reject_sensitive :: "json \<Rightarrow> unit res" where
  "px_reject_sensitive v = check (\<not> px_sensitive v) WorkspaceSensitiveDataError"

lemma px_reject_sensitive_Inr [ok_simps]: "px_reject_sensitive v = Inr u \<longleftrightarrow> \<not> px_sensitive v"
  by (simp add: px_reject_sensitive_def ok_simps)

section \<open>Fork lineage\<close>

record fork_lineage =
  fl_child :: pystr
  fl_parent :: pystr
  fl_checkpoint :: pystr
  fl_digest :: pystr
  fl_envelope :: pystr
  fl_fork :: pystr
  fl_event :: pystr

definition mk_lineage ::
  "json \<Rightarrow> json \<Rightarrow> json \<Rightarrow> json \<Rightarrow> json \<Rightarrow> json \<Rightarrow> json \<Rightarrow> fork_lineage res" where
  "mk_lineage child par ckpt digest envelope fork_id event_ref =
     rbind (wuuid child) (\<lambda>c.
     rbind (wuuid par) (\<lambda>p.
     rbind (check (c \<noteq> p) WorkspaceConflictError) (\<lambda>_.
     rbind (wuuid ckpt) (\<lambda>k.
     rbind (wdigest digest) (\<lambda>d.
     rbind (wdigest envelope) (\<lambda>e.
     rbind (wuuid fork_id) (\<lambda>f.
     rbind (on_text (starts_with ''event-id:'') event_ref) (\<lambda>r.
     rbind (wuuid (JStr (remove_prefix ''event-id:'' r))) (\<lambda>_.
     Inr \<lparr>fl_child = c, fl_parent = p, fl_checkpoint = k, fl_digest = d, fl_envelope = e,
       fl_fork = f, fl_event = r\<rparr>)))))))))"

definition lineage_to_dict :: "fork_lineage \<Rightarrow> json" where
  "lineage_to_dict l =
     JObj [(''schema_version'', JStr ''leanctx.fork-lineage/v1''),
       (''child_workspace_id'', JStr (fl_child l)), (''parent_workspace_id'', JStr (fl_parent l)),
       (''parent_checkpoint_id'', JStr (fl_checkpoint l)),
       (''parent_checkpoint_state_digest'', JStr (fl_digest l)),
       (''parent_checkpoint_envelope_digest'', JStr (fl_envelope l)),
       (''fork_contract'', JStr ''leanctx.workspace-fork/v1''), (''fork_id'', JStr (fl_fork l)),
       (''fork_event_ref'', JStr (fl_event l))]"

definition lineage_keys :: "pystr list" where
  "lineage_keys = [''schema_version'', ''child_workspace_id'', ''parent_workspace_id'',
     ''parent_checkpoint_id'', ''parent_checkpoint_state_digest'',
     ''parent_checkpoint_envelope_digest'', ''fork_contract'', ''fork_id'', ''fork_event_ref'']"

definition lineage_from_dict :: "json \<Rightarrow> fork_lineage res" where
  "lineage_from_dict v =
     rbind (exact lineage_keys v) (\<lambda>_.
     rbind (check (jat ''schema_version'' v = JStr ''leanctx.fork-lineage/v1'' \<and>
         jat ''fork_contract'' v = JStr ''leanctx.workspace-fork/v1'') WorkspaceIncompatibleError) (\<lambda>_.
     mk_lineage (jat ''child_workspace_id'' v) (jat ''parent_workspace_id'' v)
       (jat ''parent_checkpoint_id'' v) (jat ''parent_checkpoint_state_digest'' v)
       (jat ''parent_checkpoint_envelope_digest'' v) (jat ''fork_id'' v) (jat ''fork_event_ref'' v)))"

section \<open>References to a workspace state\<close>

record state_ref =
  sr_workspace :: pystr
  sr_checkpoint :: pystr
  sr_digest :: pystr
  sr_envelope :: pystr
  sr_lineage :: "fork_lineage option"

definition mk_state_ref ::
  "json \<Rightarrow> json \<Rightarrow> json \<Rightarrow> json \<Rightarrow> fork_lineage option \<Rightarrow> state_ref res" where
  "mk_state_ref workspace ckpt digest envelope lineage =
     rbind (wuuid workspace) (\<lambda>w.
     rbind (wuuid ckpt) (\<lambda>k.
     rbind (wdigest digest) (\<lambda>d.
     rbind (wdigest envelope) (\<lambda>e.
     rbind (check (case lineage of None \<Rightarrow> True | Some l \<Rightarrow> fl_child l = w) WorkspaceConflictError) (\<lambda>_.
     Inr \<lparr>sr_workspace = w, sr_checkpoint = k, sr_digest = d, sr_envelope = e,
       sr_lineage = lineage\<rparr>)))))"

definition state_ref_from_checkpoint :: "checkpoint \<Rightarrow> fork_lineage option \<Rightarrow> state_ref res" where
  "state_ref_from_checkpoint c lineage =
     mk_state_ref (JStr (ck_workspace c)) (JStr (ck_id c)) (JStr (ck_state_digest c))
       (JStr (ck_envelope c)) lineage"

definition state_ref_to_dict :: "state_ref \<Rightarrow> json" where
  "state_ref_to_dict r =
     JObj [(''schema_version'', JStr ''leanctx.workspace-state-ref/v1''),
       (''workspace_id'', JStr (sr_workspace r)), (''checkpoint_id'', JStr (sr_checkpoint r)),
       (''state_digest'', JStr (sr_digest r)),
       (''checkpoint_envelope_digest'', JStr (sr_envelope r)),
       (''fork_lineage'', opt_dict lineage_to_dict (sr_lineage r))]"

definition state_ref_keys :: "pystr list" where
  "state_ref_keys = [''schema_version'', ''workspace_id'', ''checkpoint_id'', ''state_digest'',
     ''checkpoint_envelope_digest'', ''fork_lineage'']"

definition state_ref_from_dict :: "json \<Rightarrow> state_ref res" where
  "state_ref_from_dict v =
     rbind (exact state_ref_keys v) (\<lambda>_.
     rbind (check (jat ''schema_version'' v = JStr ''leanctx.workspace-state-ref/v1'')
       WorkspaceIncompatibleError) (\<lambda>_.
     rbind (opt_from lineage_from_dict (jat ''fork_lineage'' v)) (\<lambda>lineage.
     mk_state_ref (jat ''workspace_id'' v) (jat ''checkpoint_id'' v) (jat ''state_digest'' v)
       (jat ''checkpoint_envelope_digest'' v) lineage)))"

section \<open>Evidence references\<close>

record evidence_ref =
  er_workspace :: pystr
  er_checkpoint :: pystr
  er_digest :: pystr
  er_sources :: "pystr list"
  er_receipts :: "pystr list"
  er_recovery :: "pystr list"

definition MAX_HANDOFF_ENTRIES :: nat where "MAX_HANDOFF_ENTRIES = 64"
definition MAX_HANDOFF_ANCHORS :: nat where "MAX_HANDOFF_ANCHORS = 128"
definition MAX_HANDOFF_RECOVERY_REFS :: nat where "MAX_HANDOFF_RECOVERY_REFS = 512"
definition MAX_HANDOFF_PACKAGE_REFS :: nat where "MAX_HANDOFF_PACKAGE_REFS = 128"
definition MAX_HANDOFF_BYTES :: nat where "MAX_HANDOFF_BYTES = 256 * 1024"

definition mk_evidence ::
  "json \<Rightarrow> json \<Rightarrow> json \<Rightarrow> json list \<Rightarrow> json list \<Rightarrow> json list \<Rightarrow> evidence_ref res" where
  "mk_evidence workspace ckpt digest source_ids receipts recovery =
     rbind (wuuid workspace) (\<lambda>w.
     rbind (wuuid ckpt) (\<lambda>k.
     rbind (wdigest digest) (\<lambda>d.
     rbind (punique MAX_HANDOFF_ANCHORS source_ids) (\<lambda>ss.
     rbind (punique MAX_HANDOFF_RECOVERY_REFS receipts) (\<lambda>rs.
     rbind (punique MAX_HANDOFF_RECOVERY_REFS recovery) (\<lambda>vs.
     Inr \<lparr>er_workspace = w, er_checkpoint = k, er_digest = d, er_sources = ss, er_receipts = rs,
       er_recovery = vs\<rparr>))))))"

definition evidence_to_dict :: "evidence_ref \<Rightarrow> json" where
  "evidence_to_dict r =
     JObj [(''schema_version'', JStr ''leanctx.evidence-ref/v1''),
       (''workspace_id'', JStr (er_workspace r)), (''checkpoint_id'', JStr (er_checkpoint r)),
       (''state_digest'', JStr (er_digest r)), (''source_ids'', jstrs (er_sources r)),
       (''receipt_refs'', jstrs (er_receipts r)), (''recovery_refs'', jstrs (er_recovery r))]"

definition evidence_keys :: "pystr list" where
  "evidence_keys = [''schema_version'', ''workspace_id'', ''checkpoint_id'', ''state_digest'',
     ''source_ids'', ''receipt_refs'', ''recovery_refs'']"

definition evidence_from_dict :: "json \<Rightarrow> evidence_ref res" where
  "evidence_from_dict v =
     rbind (exact evidence_keys v) (\<lambda>_.
     rbind (check (jat ''schema_version'' v = JStr ''leanctx.evidence-ref/v1'' \<and>
         is_arr (jat ''source_ids'' v) \<and> is_arr (jat ''receipt_refs'' v) \<and>
         is_arr (jat ''recovery_refs'' v)) WorkspaceIncompatibleError) (\<lambda>_.
     mk_evidence (jat ''workspace_id'' v) (jat ''checkpoint_id'' v) (jat ''state_digest'' v)
       (jitems (jat ''source_ids'' v)) (jitems (jat ''receipt_refs'' v))
       (jitems (jat ''recovery_refs'' v))))"

section \<open>Policy inheritance\<close>

record inheritance =
  in_parent :: ws_policy
  in_requested :: ws_policy
  in_effective :: ws_policy
  in_relation :: pystr
  in_parent_digest :: pystr
  in_digest :: pystr

definition inheritance_base ::
  "ws_policy \<Rightarrow> pystr \<Rightarrow> ws_policy \<Rightarrow> ws_policy \<Rightarrow> pystr \<Rightarrow> (pystr \<times> json) list" where
  "inheritance_base par pd requested effective relation =
     [(''schema_version'', JStr ''leanctx.policy-inheritance/v1''),
      (''parent_policy'', policy_to_dict par), (''parent_policy_digest'', JStr pd),
      (''requested_child_policy'', policy_to_dict requested),
      (''effective_child_policy'', policy_to_dict effective), (''relation'', JStr relation)]"

definition policy_digest :: "ws_policy \<Rightarrow> pystr res" where
  "policy_digest p = domain_digest ''leanctx.workspace.policy.v1'' (policy_to_dict p)"

definition mk_inheritance ::
  "ws_policy \<Rightarrow> ws_policy \<Rightarrow> ws_policy \<Rightarrow> pystr \<Rightarrow> pystr \<Rightarrow> pystr \<Rightarrow> inheritance res" where
  "mk_inheritance par requested effective relation pd digest =
     rbind (check (relation \<in> {''equal'', ''tightened''}) WorkspaceValidationError) (\<lambda>_.
     rbind (check (is_tightening effective par) WorkspacePolicyError) (\<lambda>_.
     rbind (check (requested = effective) WorkspaceConflictError) (\<lambda>_.
     rbind (check (relation = (if effective = par then ''equal'' else ''tightened''))
       WorkspaceConflictError) (\<lambda>_.
     rbind (wdigest (JStr pd)) (\<lambda>_.
     rbind (wdigest (JStr digest)) (\<lambda>_.
     rbind (policy_digest par) (\<lambda>pd'.
     rbind (check (pd = pd') WorkspaceConflictError) (\<lambda>_.
     rbind (domain_digest ''leanctx.policy-inheritance.v1''
       (JObj (inheritance_base par pd requested effective relation))) (\<lambda>digest'.
     rbind (check (digest = digest') WorkspaceConflictError) (\<lambda>_.
     Inr \<lparr>in_parent = par, in_requested = requested, in_effective = effective,
       in_relation = relation, in_parent_digest = pd, in_digest = digest\<rparr>))))))))))"

definition create_inheritance :: "ws_policy \<Rightarrow> ws_policy option \<Rightarrow> inheritance res" where
  "create_inheritance par requested =
     (let selected = (case requested of None \<Rightarrow> par | Some q \<Rightarrow> q);
          relation = (if selected = par then ''equal'' else ''tightened'') in
     rbind (check (is_tightening selected par) WorkspacePolicyError) (\<lambda>_.
     rbind (policy_digest par) (\<lambda>pd.
     rbind (domain_digest ''leanctx.policy-inheritance.v1''
       (JObj (inheritance_base par pd selected selected relation))) (\<lambda>digest.
     mk_inheritance par selected selected relation pd digest))))"

definition inheritance_to_dict :: "inheritance \<Rightarrow> json" where
  "inheritance_to_dict i =
     JObj (inheritance_base (in_parent i) (in_parent_digest i) (in_requested i) (in_effective i)
         (in_relation i) @ [(''inheritance_digest'', JStr (in_digest i))])"

definition inheritance_keys :: "pystr list" where
  "inheritance_keys = [''schema_version'', ''parent_policy'', ''parent_policy_digest'',
     ''requested_child_policy'', ''effective_child_policy'', ''relation'', ''inheritance_digest'']"

definition inheritance_from_dict :: "json \<Rightarrow> inheritance res" where
  "inheritance_from_dict v =
     rbind (exact inheritance_keys v) (\<lambda>_.
     rbind (check (jat ''schema_version'' v = JStr ''leanctx.policy-inheritance/v1'')
       WorkspaceIncompatibleError) (\<lambda>_.
     rbind (policy_from_dict (jat ''parent_policy'' v)) (\<lambda>par.
     rbind (policy_from_dict (jat ''requested_child_policy'' v)) (\<lambda>requested.
     rbind (policy_from_dict (jat ''effective_child_policy'' v)) (\<lambda>effective.
     rbind (create_inheritance par (Some requested)) (\<lambda>expected.
     rbind (check (effective = in_effective expected \<and> py_eq (inheritance_to_dict expected) v)
       WorkspaceConflictError) (\<lambda>_. Inr expected)))))))"

section \<open>Forks\<close>

text \<open>\<open>_content_state\<close>: the logical state without its workspace and without local bindings.\<close>

definition without_key :: "pystr \<Rightarrow> json \<Rightarrow> json" where
  "without_key k v = JObj (filter (\<lambda>p. fst p \<noteq> k) (obj_items v))"

definition portable_anchor :: "json \<Rightarrow> json" where
  "portable_anchor v = JObj (dict_put ''engine_binding'' JNull (obj_items v))"

definition content_state :: "json \<Rightarrow> json" where
  "content_state logical =
     JObj (map (\<lambda>p. if fst p = ''sources'' then (fst p, JArr (map portable_anchor (jitems (snd p)))) else p)
       (obj_items (without_key ''workspace_id'' logical)))"

record ws_fork =
  fk_id :: pystr
  fk_source :: state_ref
  fk_child :: pystr
  fk_name :: pystr
  fk_lineage :: fork_lineage
  fk_policy :: inheritance
  fk_lock :: "pystr option"
  fk_content :: pystr
  fk_execution :: "pystr option"
  fk_digest :: pystr

definition fork_digest_dict ::
  "pystr \<Rightarrow> state_ref \<Rightarrow> pystr \<Rightarrow> pystr \<Rightarrow> fork_lineage \<Rightarrow> inheritance \<Rightarrow> pystr option \<Rightarrow> pystr \<Rightarrow>
     pystr option \<Rightarrow> (pystr \<times> json) list" where
  "fork_digest_dict fid source child name lineage policy lock content execution =
     [(''schema_version'', JStr ''leanctx.workspace-fork/v1''), (''fork_id'', JStr fid),
      (''source'', state_ref_to_dict source), (''child_workspace_id'', JStr child),
      (''child_name'', JStr name), (''lineage'', lineage_to_dict lineage),
      (''policy_inheritance'', inheritance_to_dict policy), (''package_lock_digest'', opt_str lock),
      (''inherited_content_digest'', JStr content), (''execution_ref'', opt_str execution)]"

definition mk_fork ::
  "json \<Rightarrow> state_ref \<Rightarrow> json \<Rightarrow> json \<Rightarrow> fork_lineage \<Rightarrow> inheritance \<Rightarrow> json \<Rightarrow> json \<Rightarrow> json \<Rightarrow> json \<Rightarrow>
     ws_fork res" where
  "mk_fork fork_id source child_id child_name lineage policy lock_digest content_digest
     execution_ref digest =
     rbind (wuuid fork_id) (\<lambda>fid.
     rbind (wuuid child_id) (\<lambda>child.
     rbind (wtext 128 child_name) (\<lambda>name.
     rbind (check (fid = fl_fork lineage \<and> child = fl_child lineage) WorkspaceConflictError) (\<lambda>_.
     rbind (check (sr_workspace source = fl_parent lineage \<and>
         sr_checkpoint source = fl_checkpoint lineage \<and> sr_digest source = fl_digest lineage \<and>
         sr_envelope source = fl_envelope lineage) WorkspaceConflictError) (\<lambda>_.
     rbind (opt_sha lock_digest) (\<lambda>lock.
     rbind (wdigest content_digest) (\<lambda>content.
     rbind (wdigest digest) (\<lambda>d.
     rbind (wopt_text 512 execution_ref) (\<lambda>execution.
     rbind (px_reject_sensitive
       (JObj [(''child_name'', JStr name), (''execution_ref'', opt_str execution)])) (\<lambda>_.
     rbind (domain_digest ''leanctx.workspace-fork.v1''
       (JObj (fork_digest_dict fid source child name lineage policy lock content execution))) (\<lambda>d'.
     rbind (check (d = d') WorkspaceConflictError) (\<lambda>_.
     Inr \<lparr>fk_id = fid, fk_source = source, fk_child = child, fk_name = name, fk_lineage = lineage,
       fk_policy = policy, fk_lock = lock, fk_content = content, fk_execution = execution,
       fk_digest = d\<rparr>))))))))))))"

text \<open>\<open>WorkspaceForkV1.create\<close>; \<open>fork_id\<close> is the given or the freshly drawn identifier.\<close>

definition create_fork ::
  "checkpoint \<Rightarrow> pystr \<Rightarrow> pystr \<Rightarrow> pystr \<Rightarrow> ws_policy option \<Rightarrow> pystr \<Rightarrow> pystr option \<Rightarrow> ws_fork res" where
  "create_fork c child name event_id requested fork_id execution =
     rbind (wuuid (JStr fork_id)) (\<lambda>fid.
     rbind (wuuid (JStr child)) (\<lambda>_.
     rbind (wtext 128 (JStr name)) (\<lambda>_.
     rbind (wuuid (JStr event_id)) (\<lambda>_.
     rbind (jfield ''policy'' (ck_logical c)) (\<lambda>pdict.
     rbind (policy_from_dict pdict) (\<lambda>par.
     rbind (create_inheritance par requested) (\<lambda>policy.
     rbind (mk_lineage (JStr child) (JStr (ck_workspace c)) (JStr (ck_id c)) (JStr (ck_state_digest c))
       (JStr (ck_envelope c)) (JStr fid) (JStr (''event-id:'' @ event_id))) (\<lambda>lineage.
     rbind (domain_digest ''leanctx.fork.inherited-content.v1'' (content_state (ck_logical c))) (\<lambda>content.
     rbind (case execution of None \<Rightarrow> Inr () | Some x \<Rightarrow> rbind (wtext 512 (JStr x)) (\<lambda>_. Inr ())) (\<lambda>_.
     rbind (state_ref_from_checkpoint c None) (\<lambda>source.
     rbind (domain_digest ''leanctx.workspace-fork.v1''
       (JObj (fork_digest_dict fid source child name lineage policy (ck_lock c) content execution)))
       (\<lambda>digest.
     mk_fork (JStr fid) source (JStr child) (JStr name) lineage policy (opt_str (ck_lock c))
       (JStr content) (opt_str execution) (JStr digest)))))))))))))"

definition fork_to_dict :: "ws_fork \<Rightarrow> json" where
  "fork_to_dict f =
     JObj (fork_digest_dict (fk_id f) (fk_source f) (fk_child f) (fk_name f) (fk_lineage f)
         (fk_policy f) (fk_lock f) (fk_content f) (fk_execution f) @
       [(''fork_digest'', JStr (fk_digest f))])"

definition fork_keys :: "pystr list" where
  "fork_keys = [''schema_version'', ''fork_id'', ''source'', ''child_workspace_id'', ''child_name'',
     ''lineage'', ''policy_inheritance'', ''package_lock_digest'', ''inherited_content_digest'',
     ''execution_ref'', ''fork_digest'']"

text \<open>The digest the code checks again after the constructor has checked it is left out here.\<close>

definition fork_from_dict :: "json \<Rightarrow> ws_fork res" where
  "fork_from_dict v =
     rbind (exact fork_keys v) (\<lambda>_.
     rbind (check (jat ''schema_version'' v = JStr ''leanctx.workspace-fork/v1'')
       WorkspaceIncompatibleError) (\<lambda>_.
     rbind (state_ref_from_dict (jat ''source'' v)) (\<lambda>source.
     rbind (lineage_from_dict (jat ''lineage'' v)) (\<lambda>lineage.
     rbind (inheritance_from_dict (jat ''policy_inheritance'' v)) (\<lambda>policy.
     mk_fork (jat ''fork_id'' v) source (jat ''child_workspace_id'' v) (jat ''child_name'' v) lineage
       policy (jat ''package_lock_digest'' v) (jat ''inherited_content_digest'' v)
       (jat ''execution_ref'' v) (jat ''fork_digest'' v))))))"

end
