(* ===== verification/Px_Handoff.thy ===== *)
theory Px_Handoff
  imports Px_Values
begin

text \<open>
  Conflict reports, context handoffs and their admission
  (\<open>src/leanctx_sdk/parallel_context.py\<close>). A handoff carries its entries, anchors and packages as
  the JSON values it was given; the constructor checks that each decodes.
\<close>

section \<open>Conflicts\<close>

record conflict_entry =
  ce_category :: pystr
  ce_key :: pystr
  ce_base :: json
  ce_left :: json
  ce_right :: json
  ce_evidence :: "evidence_ref list"
  ce_id :: pystr

definition conflict_categories :: "pystr list" where
  "conflict_categories =
     [''PROJECT_CONTEXT'', ''SOURCE_REVISION'', ''PACKAGE'', ''POLICY'', ''DECISION'']"

definition sorted_evidence :: "evidence_ref list \<Rightarrow> evidence_ref list" where
  "sorted_evidence refs = sort_key (\<lambda>r. dumps (evidence_to_dict r)) refs"

definition conflict_payload ::
  "json \<Rightarrow> json \<Rightarrow> json \<Rightarrow> json \<Rightarrow> json \<Rightarrow> evidence_ref list \<Rightarrow> (pystr \<times> json) list" where
  "conflict_payload category key base left right refs =
     [(''schema_version'', JStr ''leanctx.conflict-entry/v1''), (''category'', category),
      (''stable_key'', key), (''base'', base), (''left'', left), (''right'', right),
      (''evidence_refs'', JArr (map evidence_to_dict refs)),
      (''resolution'', JStr ''manual_required'')]"

text \<open>
  \<open>ConflictEntryV1.create\<close>. It passes sorted references and the digest of the payload to the
  constructor, whose tests of both therefore pass; the other tests remain.
\<close>

definition create_conflict ::
  "json \<Rightarrow> json \<Rightarrow> json \<Rightarrow> json \<Rightarrow> json \<Rightarrow> evidence_ref list \<Rightarrow> conflict_entry res" where
  "create_conflict category key base left right refs =
     (let sorted_refs = sorted_evidence refs in
     rbind (domain_digest ''leanctx.conflict-entry.v1''
       (JObj (conflict_payload category key base left right sorted_refs))) (\<lambda>cid.
     rbind (member conflict_categories category) (\<lambda>c.
     rbind (wtext 512 key) (\<lambda>k.
     Inr \<lparr>ce_category = c, ce_key = k, ce_base = base, ce_left = left, ce_right = right,
       ce_evidence = sorted_refs, ce_id = cid\<rparr>))))"

definition conflict_to_dict :: "conflict_entry \<Rightarrow> json" where
  "conflict_to_dict e =
     JObj ((''conflict_id'', JStr (ce_id e)) #
       conflict_payload (JStr (ce_category e)) (JStr (ce_key e)) (ce_base e) (ce_left e) (ce_right e)
         (ce_evidence e))"

definition conflict_keys :: "pystr list" where
  "conflict_keys = [''schema_version'', ''conflict_id'', ''category'', ''stable_key'', ''base'',
     ''left'', ''right'', ''evidence_refs'', ''resolution'']"

definition conflict_from_dict :: "json \<Rightarrow> conflict_entry res" where
  "conflict_from_dict v =
     rbind (exact conflict_keys v) (\<lambda>_.
     rbind (check (jat ''schema_version'' v = JStr ''leanctx.conflict-entry/v1'' \<and>
         jat ''resolution'' v = JStr ''manual_required'' \<and> is_arr (jat ''evidence_refs'' v))
       WorkspaceIncompatibleError) (\<lambda>_.
     rbind (mapr evidence_from_dict (jitems (jat ''evidence_refs'' v))) (\<lambda>refs.
     rbind (create_conflict (jat ''category'' v) (jat ''stable_key'' v) (jat ''base'' v)
       (jat ''left'' v) (jat ''right'' v) refs) (\<lambda>e.
     rbind (check (py_eq (conflict_to_dict e) v) WorkspaceConflictError) (\<lambda>_. Inr e)))))"

record conflict_report =
  cr_base :: "state_ref option"
  cr_left :: state_ref
  cr_right :: state_ref
  cr_ancestry :: pystr
  cr_entries :: "conflict_entry list"
  cr_id :: pystr

definition MAX_CONFLICTS :: nat where "MAX_CONFLICTS = 256"

definition ancestries :: "pystr list" where
  "ancestries = [''exact'', ''diverged'', ''unknown'']"

definition conflict_order :: "conflict_entry \<Rightarrow> pystr \<times> pystr \<times> pystr" where
  "conflict_order e = (ce_category e, ce_key e, ce_id e)"

definition report_unsigned ::
  "state_ref option \<Rightarrow> state_ref \<Rightarrow> state_ref \<Rightarrow> pystr \<Rightarrow> conflict_entry list \<Rightarrow> (pystr \<times> json) list" where
  "report_unsigned base left right ancestry entries =
     [(''schema_version'', JStr ''leanctx.conflict-report/v1''),
      (''base'', opt_dict state_ref_to_dict base), (''left'', state_ref_to_dict left),
      (''right'', state_ref_to_dict right), (''ancestry'', JStr ancestry),
      (''entries'', JArr (map conflict_to_dict entries))]"

text \<open>\<open>ConflictReportV1.create\<close>; the constructor repeats its tests on the same values.\<close>

definition create_report ::
  "state_ref option \<Rightarrow> state_ref \<Rightarrow> state_ref \<Rightarrow> json \<Rightarrow> conflict_entry list \<Rightarrow> conflict_report res" where
  "create_report base left right ancestry entries =
     rbind (member ancestries ancestry) (\<lambda>a.
     let selected = sort_key conflict_order entries in
     rbind (check (length selected \<le> MAX_CONFLICTS) WorkspacePolicyError) (\<lambda>_.
     rbind (domain_digest ''leanctx.conflict-report.v1''
       (JObj (report_unsigned base left right a selected))) (\<lambda>rid.
     Inr \<lparr>cr_base = base, cr_left = left, cr_right = right, cr_ancestry = a, cr_entries = selected,
       cr_id = rid\<rparr>)))"

definition report_to_dict :: "conflict_report \<Rightarrow> json" where
  "report_to_dict r =
     JObj (report_unsigned (cr_base r) (cr_left r) (cr_right r) (cr_ancestry r) (cr_entries r) @
       [(''report_id'', JStr (cr_id r))])"

definition report_keys :: "pystr list" where
  "report_keys = [''schema_version'', ''base'', ''left'', ''right'', ''ancestry'', ''entries'',
     ''report_id'']"

definition report_from_dict :: "json \<Rightarrow> conflict_report res" where
  "report_from_dict v =
     rbind (exact report_keys v) (\<lambda>_.
     rbind (check (jat ''schema_version'' v = JStr ''leanctx.conflict-report/v1'' \<and>
         is_arr (jat ''entries'' v)) WorkspaceIncompatibleError) (\<lambda>_.
     rbind (opt_from state_ref_from_dict (jat ''base'' v)) (\<lambda>base.
     rbind (state_ref_from_dict (jat ''left'' v)) (\<lambda>left.
     rbind (state_ref_from_dict (jat ''right'' v)) (\<lambda>right.
     rbind (mapr conflict_from_dict (jitems (jat ''entries'' v))) (\<lambda>entries.
     rbind (create_report base left right (jat ''ancestry'' v) entries) (\<lambda>r.
     rbind (check (py_eq (report_to_dict r) v) WorkspaceConflictError) (\<lambda>_. Inr r))))))))"

section \<open>Handoffs\<close>

record handoff =
  ho_id :: pystr
  ho_source :: state_ref
  ho_target :: pystr
  ho_role :: "pystr option"
  ho_task :: pystr
  ho_entries :: "json list"
  ho_anchors :: "json list"
  ho_recovery :: "pystr list"
  ho_packages :: "json list"
  ho_floor :: ws_policy
  ho_digest :: pystr

definition handoff_bounds :: json where
  "handoff_bounds =
     JObj [(''max_entries'', JInt (int MAX_HANDOFF_ENTRIES)),
       (''max_source_anchors'', JInt (int MAX_HANDOFF_ANCHORS)),
       (''max_recovery_refs'', JInt (int MAX_HANDOFF_RECOVERY_REFS)),
       (''max_package_refs'', JInt (int MAX_HANDOFF_PACKAGE_REFS)),
       (''max_bytes'', JInt (int MAX_HANDOFF_BYTES))]"

definition handoff_unsigned ::
  "pystr \<Rightarrow> state_ref \<Rightarrow> pystr \<Rightarrow> pystr option \<Rightarrow> pystr \<Rightarrow> json list \<Rightarrow> json list \<Rightarrow> pystr list \<Rightarrow>
     json list \<Rightarrow> ws_policy \<Rightarrow> (pystr \<times> json) list" where
  "handoff_unsigned hid source target role task entries anchors recovery packages floor_policy =
     [(''schema_version'', JStr ''leanctx.context-handoff/v1''), (''handoff_id'', JStr hid),
      (''source'', state_ref_to_dict source),
      (''target'', JObj [(''workspace_id'', JStr target), (''role'', opt_str role)]),
      (''task'', JStr task), (''selected_entries'', JArr entries), (''source_anchors'', JArr anchors),
      (''recovery_refs'', jstrs recovery), (''package_refs'', JArr packages),
      (''required_policy_floor'', policy_to_dict floor_policy), (''bounds'', handoff_bounds)]"

definition handoff_to_dict :: "handoff \<Rightarrow> json" where
  "handoff_to_dict h =
     JObj (handoff_unsigned (ho_id h) (ho_source h) (ho_target h) (ho_role h) (ho_task h)
         (ho_entries h) (ho_anchors h) (ho_recovery h) (ho_packages h) (ho_floor h) @
       [(''handoff_digest'', JStr (ho_digest h))])"

definition canonical_ids :: "('a::linorder) list \<Rightarrow> bool" where
  "canonical_ids ids \<longleftrightarrow> ids = sort ids \<and> distinct ids"

definition pin_triple :: "package_pin \<Rightarrow> pystr \<times> pystr \<times> pystr" where
  "pin_triple p = (pk_name p, pk_version p, pk_artifact p)"

definition MAX_HANDOFF_TASK :: nat where "MAX_HANDOFF_TASK = 16 * 1024"

definition mk_handoff ::
  "json \<Rightarrow> state_ref \<Rightarrow> json \<Rightarrow> json \<Rightarrow> json \<Rightarrow> json list \<Rightarrow> json list \<Rightarrow> json list \<Rightarrow> json list \<Rightarrow>
     ws_policy \<Rightarrow> json \<Rightarrow> handoff res" where
  "mk_handoff handoff_id source target role task entries anchors recovery packages floor_policy digest =
     rbind (wuuid handoff_id) (\<lambda>hid.
     rbind (wuuid target) (\<lambda>tgt.
     rbind (pfree_text MAX_HANDOFF_TASK task) (\<lambda>tsk.
     rbind (wdigest digest) (\<lambda>d.
     rbind (wopt_text 128 role) (\<lambda>rl.
     rbind (punique MAX_HANDOFF_RECOVERY_REFS recovery) (\<lambda>rec.
     rbind (check (entries \<noteq> [] \<and> length entries \<le> MAX_HANDOFF_ENTRIES) WorkspacePolicyError) (\<lambda>_.
     rbind (check (length anchors \<le> MAX_HANDOFF_ANCHORS) WorkspacePolicyError) (\<lambda>_.
     rbind (check (length packages \<le> MAX_HANDOFF_PACKAGE_REFS) WorkspacePolicyError) (\<lambda>_.
     rbind (mapr entry_from_dict entries) (\<lambda>es.
     rbind (check (canonical_ids (map en_id es)) WorkspaceValidationError) (\<lambda>_.
     rbind (mapr (anchor_from_dict True) anchors) (\<lambda>as.
     rbind (check (list_all (\<lambda>a. an_binding a = None) as) WorkspaceValidationError) (\<lambda>_.
     rbind (check (py_eq (JArr (map anchor_to_dict as)) (JArr anchors)) WorkspaceValidationError) (\<lambda>_.
     rbind (check (canonical_ids (map an_id as)) WorkspaceValidationError) (\<lambda>_.
     rbind (check (list_all (\<lambda>e. set (en_sources e) \<subseteq> set (map an_id as)) es)
       WorkspaceConflictError) (\<lambda>_.
     rbind (mapr pin_from_dict packages) (\<lambda>ps.
     rbind (check (canonical_ids (map pin_triple ps)) WorkspaceValidationError) (\<lambda>_.
     rbind (check (case sr_lineage source of None \<Rightarrow> True | Some l \<Rightarrow> fl_child l = sr_workspace source)
       WorkspaceConflictError) (\<lambda>_.
     let unsigned_part = JObj (handoff_unsigned hid source tgt rl tsk entries anchors rec packages floor_policy) in
     rbind (px_reject_sensitive unsigned_part) (\<lambda>_.
     rbind (domain_digest ''leanctx.context-handoff.v1'' unsigned_part) (\<lambda>d'.
     rbind (check (d = d') WorkspaceConflictError) (\<lambda>_.
     Inr \<lparr>ho_id = hid, ho_source = source, ho_target = tgt, ho_role = rl, ho_task = tsk,
       ho_entries = entries, ho_anchors = anchors, ho_recovery = rec, ho_packages = packages,
       ho_floor = floor_policy, ho_digest = d\<rparr>))))))))))))))))))))))"

definition handoff_keys :: "pystr list" where
  "handoff_keys = [''schema_version'', ''handoff_id'', ''source'', ''target'', ''task'',
     ''selected_entries'', ''source_anchors'', ''recovery_refs'', ''package_refs'',
     ''required_policy_floor'', ''bounds'', ''handoff_digest'']"

definition handoff_from_dict :: "json \<Rightarrow> handoff res" where
  "handoff_from_dict v =
     rbind (exact handoff_keys v) (\<lambda>_.
     rbind (check (jat ''schema_version'' v = JStr ''leanctx.context-handoff/v1'')
       WorkspaceIncompatibleError) (\<lambda>_.
     rbind (exact [''workspace_id'', ''role''] (jat ''target'' v)) (\<lambda>_.
     rbind (check (py_eq (jat ''bounds'' v) handoff_bounds) WorkspaceIncompatibleError) (\<lambda>_.
     rbind (state_ref_from_dict (jat ''source'' v)) (\<lambda>source.
     rbind (py_tuple (jat ''selected_entries'' v)) (\<lambda>entries.
     rbind (py_tuple (jat ''source_anchors'' v)) (\<lambda>anchors.
     rbind (py_tuple (jat ''recovery_refs'' v)) (\<lambda>recovery.
     rbind (py_tuple (jat ''package_refs'' v)) (\<lambda>packages.
     rbind (policy_from_dict (jat ''required_policy_floor'' v)) (\<lambda>floor_policy.
     rbind (mk_handoff (jat ''handoff_id'' v) source (jat ''workspace_id'' (jat ''target'' v))
       (jat ''role'' (jat ''target'' v)) (jat ''task'' v) entries anchors recovery packages
       floor_policy (jat ''handoff_digest'' v)) (\<lambda>h.
     rbind (check (py_eq (handoff_to_dict h) v) WorkspaceConflictError) (\<lambda>_. Inr h))))))))))))"

section \<open>Selecting the contents of a handoff\<close>

text \<open>\<open>_keyed\<close>: the items of an array by one of their fields, in their order.\<close>

fun keyed_from :: "pystr \<Rightarrow> (pystr \<times> json) list \<Rightarrow> json list \<Rightarrow> (pystr \<times> json) list res" where
  "keyed_from field done [] = Inr (rev done)"
| "keyed_from field done (raw # raws) =
     (case jget field raw of
        Some (JStr k) \<Rightarrow>
          rbind (check (k \<notin> set (map fst done)) WorkspaceConflictError) (\<lambda>_.
          keyed_from field ((k, raw) # done) raws)
      | _ \<Rightarrow> Inl WorkspaceIncompatibleError)"

definition keyed :: "json \<Rightarrow> pystr \<Rightarrow> (pystr \<times> json) list res" where
  "keyed values field =
     rbind (check (is_arr values) WorkspaceIncompatibleError) (\<lambda>_. keyed_from field [] (jitems values))"

definition checkpoint_entries :: "checkpoint \<Rightarrow> (pystr \<times> json) list res" where
  "checkpoint_entries c = keyed (jat ''entries'' (ck_logical c)) ''entry_id''"

definition checkpoint_sources :: "checkpoint \<Rightarrow> (pystr \<times> json) list res" where
  "checkpoint_sources c = keyed (jat ''sources'' (ck_logical c)) ''source_id''"

definition jstr :: "json \<Rightarrow> pystr" where
  "jstr v = (case v of JStr s \<Rightarrow> s | _ \<Rightarrow> [])"

definition raw_pin_order :: "json \<Rightarrow> pystr \<times> pystr \<times> pystr" where
  "raw_pin_order p =
     (jstr (jat ''name'' p), jstr (jat ''version'' p), jstr (jat ''artifact_digest'' p))"

definition sorted_field :: "pystr \<Rightarrow> json list \<Rightarrow> pystr list" where
  "sorted_field name items = sort (remdups (concat (map (\<lambda>v. strs_of (jat name v)) items)))"

text \<open>
  \<open>ContextHandoffV1.create\<close>; \<open>handoff_id\<close> is the given or the freshly drawn identifier. The
  checkpoint has decoded its logical state, so the fields read here are arrays of strings.
\<close>

definition create_handoff ::
  "checkpoint \<Rightarrow> pystr \<Rightarrow> pystr \<Rightarrow> pystr list \<Rightarrow> pystr option \<Rightarrow> pystr \<Rightarrow> fork_lineage option \<Rightarrow>
     handoff res" where
  "create_handoff c target task entry_ids role handoff_id lineage =
     rbind (wuuid (JStr target)) (\<lambda>_.
     rbind (pfree_text MAX_HANDOFF_TASK (JStr task)) (\<lambda>_.
     rbind (wopt_text 128 (opt_str role)) (\<lambda>_.
     rbind (wuuid (JStr handoff_id)) (\<lambda>_.
     rbind (punique MAX_HANDOFF_ENTRIES (map JStr entry_ids)) (\<lambda>ids.
     rbind (checkpoint_entries c) (\<lambda>by_id.
     rbind (mapr (\<lambda>i. of_option WorkspaceValidationError (map_of by_id i)) ids) (\<lambda>entries.
     rbind (checkpoint_sources c) (\<lambda>sources.
     rbind (mapr (\<lambda>i. of_option WorkspaceConflictError (map_of sources i))
       (sorted_field ''source_ids'' entries)) (\<lambda>raw_anchors.
     let anchors = map portable_anchor raw_anchors;
         recovery = sorted_field ''recovery_refs'' entries;
         pins = sort_key raw_pin_order (jitems (jat ''package_pins'' (ck_logical c))) in
     rbind (check (length anchors \<le> MAX_HANDOFF_ANCHORS \<and> length recovery \<le> MAX_HANDOFF_RECOVERY_REFS)
       WorkspacePolicyError) (\<lambda>_.
     rbind (check (length pins \<le> MAX_HANDOFF_PACKAGE_REFS) WorkspacePolicyError) (\<lambda>_.
     rbind (policy_from_dict (jat ''policy'' (ck_logical c))) (\<lambda>policy.
     rbind (state_ref_from_checkpoint c lineage) (\<lambda>source.
     let base = JObj (handoff_unsigned handoff_id source target role task entries anchors recovery pins policy) in
     rbind (px_reject_sensitive base) (\<lambda>_.
     rbind (ws_canonical base) (\<lambda>bytes.
     rbind (check (length bytes \<le> MAX_HANDOFF_BYTES) WorkspacePolicyError) (\<lambda>_.
     rbind (domain_digest ''leanctx.context-handoff.v1'' base) (\<lambda>digest.
     mk_handoff (JStr handoff_id) source (JStr target) (opt_str role) (JStr task) entries anchors
       (map JStr recovery) pins policy (JStr digest))))))))))))))))))"

section \<open>Admission\<close>

record admission =
  ad_handoff :: pystr
  ad_handoff_digest :: pystr
  ad_receiver :: pystr
  ad_target :: pystr
  ad_lineage :: pystr
  ad_policy :: pystr
  ad_package :: pystr
  ad_source :: pystr
  ad_conflicts :: conflict_report
  ad_decision :: pystr
  ad_reasons :: "pystr list"
  ad_digest :: pystr

definition admission_unsigned ::
  "pystr \<Rightarrow> pystr \<Rightarrow> pystr \<Rightarrow> pystr \<Rightarrow> pystr \<Rightarrow> pystr \<Rightarrow> pystr \<Rightarrow> pystr \<Rightarrow> conflict_report \<Rightarrow> pystr \<Rightarrow>
     pystr list \<Rightarrow> (pystr \<times> json) list" where
  "admission_unsigned hid hdigest receiver target lineage policy package source conflicts decision reasons =
     [(''schema_version'', JStr ''leanctx.handoff-admission/v1''), (''handoff_id'', JStr hid),
      (''handoff_digest'', JStr hdigest), (''receiver_workspace_id'', JStr receiver),
      (''target_result'', JStr target), (''lineage_result'', JStr lineage),
      (''policy_result'', JStr policy), (''package_result'', JStr package),
      (''source_result'', JStr source), (''conflicts'', report_to_dict conflicts),
      (''decision'', JStr decision), (''reason_codes'', jstrs reasons)]"

definition admission_to_dict :: "admission \<Rightarrow> json" where
  "admission_to_dict a =
     JObj (admission_unsigned (ad_handoff a) (ad_handoff_digest a) (ad_receiver a) (ad_target a)
         (ad_lineage a) (ad_policy a) (ad_package a) (ad_source a) (ad_conflicts a) (ad_decision a)
         (ad_reasons a) @ [(''admission_digest'', JStr (ad_digest a))])"

definition hard_failure :: "pystr \<Rightarrow> pystr \<Rightarrow> pystr \<Rightarrow> pystr \<Rightarrow> pystr \<Rightarrow> conflict_report \<Rightarrow> bool" where
  "hard_failure target lineage policy package source conflicts \<longleftrightarrow>
     target \<noteq> ''match'' \<or> lineage \<noteq> ''verified'' \<or> policy \<noteq> ''monotonic'' \<or> package \<noteq> ''exact'' \<or>
     source = ''mismatch'' \<or> cr_entries conflicts \<noteq> []"

definition mk_admission ::
  "json \<Rightarrow> json \<Rightarrow> json \<Rightarrow> json \<Rightarrow> json \<Rightarrow> json \<Rightarrow> json \<Rightarrow> json \<Rightarrow> conflict_report \<Rightarrow> json \<Rightarrow> json list \<Rightarrow>
     json \<Rightarrow> admission res" where
  "mk_admission handoff_id handoff_digest receiver target lineage policy package source conflicts
     decision reasons digest =
     rbind (wuuid handoff_id) (\<lambda>hid.
     rbind (wdigest handoff_digest) (\<lambda>hd.
     rbind (wuuid receiver) (\<lambda>rcv.
     rbind (member [''admitted'', ''rejected'', ''degraded''] decision) (\<lambda>dec.
     rbind (member [''match'', ''mismatch''] target) (\<lambda>tgt.
     rbind (member [''verified'', ''unverified''] lineage) (\<lambda>lin.
     rbind (member [''monotonic'', ''downgrade''] policy) (\<lambda>pol.
     rbind (member [''exact'', ''mismatch''] package) (\<lambda>pkg.
     rbind (member [''available'', ''unavailable'', ''mismatch''] source) (\<lambda>src.
     rbind (punique 16 reasons) (\<lambda>rs.
     let hard = hard_failure tgt lin pol pkg src conflicts in
     rbind (check (dec = ''admitted'' \<longrightarrow> \<not> hard \<and> src = ''available'' \<and> rs = [])
       WorkspaceConflictError) (\<lambda>_.
     rbind (check (dec = ''degraded'' \<longrightarrow> \<not> hard \<and> src = ''unavailable'' \<and> rs = [''SOURCE_UNAVAILABLE''])
       WorkspaceConflictError) (\<lambda>_.
     rbind (check (dec = ''rejected'' \<longrightarrow> hard) WorkspaceConflictError) (\<lambda>_.
     rbind (wdigest digest) (\<lambda>d.
     rbind (domain_digest ''leanctx.handoff-admission.v1''
       (JObj (admission_unsigned hid hd rcv tgt lin pol pkg src conflicts dec rs))) (\<lambda>d'.
     rbind (check (d = d') WorkspaceConflictError) (\<lambda>_.
     Inr \<lparr>ad_handoff = hid, ad_handoff_digest = hd, ad_receiver = rcv, ad_target = tgt,
       ad_lineage = lin, ad_policy = pol, ad_package = pkg, ad_source = src,
       ad_conflicts = conflicts, ad_decision = dec, ad_reasons = rs, ad_digest = d\<rparr>))))))))))))))))"

definition admission_keys :: "pystr list" where
  "admission_keys = [''schema_version'', ''handoff_id'', ''handoff_digest'',
     ''receiver_workspace_id'', ''target_result'', ''lineage_result'', ''policy_result'',
     ''package_result'', ''source_result'', ''conflicts'', ''decision'', ''reason_codes'',
     ''admission_digest'']"

definition admission_from_dict :: "json \<Rightarrow> admission res" where
  "admission_from_dict v =
     rbind (exact admission_keys v) (\<lambda>_.
     rbind (check (jat ''schema_version'' v = JStr ''leanctx.handoff-admission/v1'' \<and>
         is_arr (jat ''reason_codes'' v)) WorkspaceIncompatibleError) (\<lambda>_.
     rbind (report_from_dict (jat ''conflicts'' v)) (\<lambda>conflicts.
     rbind (mk_admission (jat ''handoff_id'' v) (jat ''handoff_digest'' v)
       (jat ''receiver_workspace_id'' v) (jat ''target_result'' v) (jat ''lineage_result'' v)
       (jat ''policy_result'' v) (jat ''package_result'' v) (jat ''source_result'' v) conflicts
       (jat ''decision'' v) (jitems (jat ''reason_codes'' v)) (jat ''admission_digest'' v)) (\<lambda>a.
     rbind (check (py_eq (admission_to_dict a) v) WorkspaceConflictError) (\<lambda>_. Inr a)))))"

text \<open>A dictionary comprehension: a later item with the same key replaces the value.\<close>

definition py_dict :: "('k \<times> 'v) list \<Rightarrow> ('k \<times> 'v) list" where
  "py_dict items = fold (\<lambda>p d. dict_put (fst p) (snd p) d) items []"

definition opt_py_eq :: "json option \<Rightarrow> json \<Rightarrow> bool" where
  "opt_py_eq x v = (case x of None \<Rightarrow> v = JNull | Some w \<Rightarrow> py_eq w v)"

text \<open>What the receiver's state says of the sources of a handoff.\<close>

definition raw_source_id :: "json \<Rightarrow> pystr" where
  "raw_source_id v = jstr (jat ''source_id'' v)"

definition receiver_sources :: "json \<Rightarrow> (pystr \<times> json) list" where
  "receiver_sources state =
     py_dict (map (\<lambda>a. (raw_source_id a, portable_anchor a)) (jitems (jat ''sources'' state)))"

definition source_missing :: "(pystr \<times> json) list \<Rightarrow> json \<Rightarrow> bool" where
  "source_missing sources a \<longleftrightarrow> map_of sources (raw_source_id a) = None"

definition source_mismatch :: "(pystr \<times> json) list \<Rightarrow> json \<Rightarrow> bool" where
  "source_mismatch sources a \<longleftrightarrow>
     (case map_of sources (raw_source_id a) of None \<Rightarrow> False
      | Some v \<Rightarrow> \<not> py_eq v (portable_anchor a))"

definition source_unavailable :: "(pystr \<times> json) list \<Rightarrow> pystr list \<Rightarrow> json \<Rightarrow> bool" where
  "source_unavailable sources available a \<longleftrightarrow>
     map_of sources (raw_source_id a) \<noteq> None \<and> raw_source_id a \<notin> set available"

definition raw_pin_key :: "json \<Rightarrow> pystr \<times> pystr" where
  "raw_pin_key p = (jstr (jat ''name'' p), jstr (jat ''version'' p))"

definition packages_match :: "json \<Rightarrow> json list \<Rightarrow> bool" where
  "packages_match state packages \<longleftrightarrow>
     list_all (\<lambda>p. opt_py_eq
       (map_of (py_dict (map (\<lambda>q. (raw_pin_key q, q)) (jitems (jat ''package_pins'' state))))
          (raw_pin_key p)) p) packages"

text \<open>\<open>HandoffAdmissionV1._evaluate_verified\<close>.\<close>

definition evaluate_verified ::
  "handoff \<Rightarrow> checkpoint \<Rightarrow> bool \<Rightarrow> conflict_report option \<Rightarrow> pystr list \<Rightarrow> admission res" where
  "evaluate_verified h receiver lineage_ok given available_ids =
     (let state = ck_logical receiver in
     rbind (policy_from_dict (jat ''policy'' state)) (\<lambda>policy.
     let target_ok = (ho_target h = ck_workspace receiver);
         policy_ok = is_tightening policy (ho_floor h);
         package_ok = packages_match state (ho_packages h) in
     rbind (punique MAX_HANDOFF_ANCHORS (map JStr available_ids)) (\<lambda>available.
     let sources = receiver_sources state;
         missing = list_ex (source_missing sources) (ho_anchors h);
         mismatch = list_ex (source_mismatch sources) (ho_anchors h);
         unavailable = list_ex (source_unavailable sources available) (ho_anchors h);
         source_ok = (\<not> missing \<and> \<not> mismatch \<and> \<not> unavailable) in
     rbind (case given of Some r \<Rightarrow> Inr r
            | None \<Rightarrow> rbind (state_ref_from_checkpoint receiver None) (\<lambda>ref.
                create_report None (ho_source h) ref
                  (JStr (if lineage_ok then ''exact'' else ''unknown'')) [])) (\<lambda>conflicts.
     let reasons =
           (if target_ok then [] else [''WRONG_TARGET'']) @
           (if lineage_ok then [] else [''LINEAGE_UNVERIFIED'']) @
           (if policy_ok then [] else [''POLICY_DOWNGRADE'']) @
           (if package_ok then [] else [''PACKAGE_TRUST_MISMATCH'']) @
           (if mismatch then [''SOURCE_MISMATCH'']
            else if missing \<or> unavailable then [''SOURCE_UNAVAILABLE''] else []) @
           (if cr_entries conflicts = [] then [] else [''CONFLICTS_PRESENT'']);
         hard_reject = (\<not> target_ok \<or> \<not> lineage_ok \<or> \<not> policy_ok \<or> \<not> package_ok \<or> mismatch \<or>
           cr_entries conflicts \<noteq> []);
         decision = (if hard_reject then ''rejected'' else if \<not> source_ok then ''degraded''
           else ''admitted'');
         target = (if target_ok then ''match'' else ''mismatch'');
         lineage = (if lineage_ok then ''verified'' else ''unverified'');
         policy_result = (if policy_ok then ''monotonic'' else ''downgrade'');
         package = (if package_ok then ''exact'' else ''mismatch'');
         source = (if source_ok then ''available'' else if mismatch then ''mismatch'' else ''unavailable'') in
     rbind (domain_digest ''leanctx.handoff-admission.v1''
       (JObj (admission_unsigned (ho_id h) (ho_digest h) (ck_workspace receiver) target lineage
          policy_result package source conflicts decision (sort reasons)))) (\<lambda>digest.
     mk_admission (JStr (ho_id h)) (JStr (ho_digest h)) (JStr (ck_workspace receiver)) (JStr target)
       (JStr lineage) (JStr policy_result) (JStr package) (JStr source) conflicts (JStr decision)
       (map JStr (sort reasons)) (JStr digest))))))"

text \<open>\<open>evaluate\<close>: without the journal no ancestry is claimed.\<close>

definition evaluate :: "handoff \<Rightarrow> checkpoint \<Rightarrow> conflict_report option \<Rightarrow> pystr list \<Rightarrow> admission res" where
  "evaluate h receiver given available_ids = evaluate_verified h receiver False given available_ids"

end
