(* ===== verification/Ws_Events.thy ===== *)
theory Ws_Events
  imports Ws_Apply Px_Handoff
begin

text \<open>
  The branches of \<open>_apply_event_unchecked\<close> for forks and handoffs, and the whole function with
  its wrapper \<open>_apply_event\<close> (\<open>src/leanctx_sdk/workspace.py\<close>): the step of the workspace's state
  machine.
\<close>

section \<open>Forks\<close>

text \<open>
  \<open>dict(value, workspace_id=..)\<close>: a mapping, or a sequence of pairs. A key that is no string
  makes the field set of the logical state wrong, which is reported in the same way.
\<close>

definition py_pair :: "json \<Rightarrow> (pystr \<times> json) res" where
  "py_pair v =
     rbind (py_tuple v) (\<lambda>items.
     case items of
       [JStr k, x] \<Rightarrow> Inr (k, x)
     | [k, x] \<Rightarrow> Inl (if is_arr k \<or> is_obj k then PyTypeError else WorkspaceIncompatibleError)
     | _ \<Rightarrow> Inl PyValueError)"

definition py_mapping :: "json \<Rightarrow> (pystr \<times> json) list res" where
  "py_mapping v =
     (case v of JObj kvs \<Rightarrow> Inr kvs
      | _ \<Rightarrow> rbind (py_tuple v) (\<lambda>items. rbind (mapr py_pair items) (\<lambda>ps. Inr (py_dict ps))))"

definition without_binding :: "source_anchor \<Rightarrow> source_anchor res" where
  "without_binding a =
     mk_anchor ''/'' (JStr (an_id a)) (JStr (an_kind a)) (JStr (an_canonical a)) (an_revision a)
       (an_freshness a) (an_recovery a) (an_trust a) (an_scope a) JNull"

definition apply_forked :: "pystr \<Rightarrow> json \<Rightarrow> ws_identity \<Rightarrow> ws_policy \<Rightarrow> ws_state \<Rightarrow> ws_state proj" where
  "apply_forked event_id payload i p s =
     rbind (need (length (s_events s) = 1 \<and> s_fork s = None) Corrupt s) (\<lambda>_.
     rbind (need (s_sources s = [] \<and> s_entries s = [] \<and> s_sessions s = [] \<and> s_pins s = []) Corrupt s)
       (\<lambda>_.
     rbind (incompat s (fork_from_dict (jat ''fork'' payload))) (\<lambda>fork.
     rbind (incompat s (py_mapping (jat ''inherited_state'' payload))) (\<lambda>inherited.
     let logical = JObj (dict_put ''workspace_id'' (JStr (sr_workspace (fk_source fork))) inherited) in
     rbind (incompat s (logical_components logical (sr_workspace (fk_source fork)))) (\<lambda>lc.
     rbind (incompat s (mapr (\<lambda>q. rbind (without_binding (snd q)) (\<lambda>a. Inr (fst q, a))) (lc_sources lc)))
       (\<lambda>sources.
     rbind (need (fk_child fork = wi_id i \<and> fl_event (fk_lineage fork) = ''event-id:'' @ event_id \<and>
         in_parent (fk_policy fork) = lc_policy lc \<and> in_effective (fk_policy fork) = p \<and>
         fk_lock fork = lc_lock lc) Corrupt s) (\<lambda>_.
     rbind (incompat s (domain_digest ''leanctx.fork.inherited-content.v1''
       (jat ''inherited_state'' payload))) (\<lambda>content.
     rbind (need (fk_content fork = content) Corrupt s) (\<lambda>_.
     let target = s\<lparr>s_sources := sources, s_entries := lc_entries lc, s_pins := lc_pins lc,
           s_lock := lc_lock lc, s_fork := Some (lineage_to_dict (fk_lineage fork))\<rparr> in
     rbind (incompat s (ensure_bounds p True target)) (\<lambda>_. Inr target))))))))))"

section \<open>Handoffs\<close>

definition same_parent :: "fork_lineage \<Rightarrow> fork_lineage \<Rightarrow> bool" where
  "same_parent a b \<longleftrightarrow>
     fl_parent a = fl_parent b \<and> fl_checkpoint a = fl_checkpoint b \<and> fl_digest a = fl_digest b \<and>
     fl_envelope a = fl_envelope b"

definition names_parent :: "state_ref \<Rightarrow> fork_lineage \<Rightarrow> bool" where
  "names_parent r l \<longleftrightarrow>
     sr_workspace r = fl_parent l \<and> sr_checkpoint r = fl_checkpoint l \<and> sr_digest r = fl_digest l \<and>
     sr_envelope r = fl_envelope l"

text \<open>Whether the source of a handoff is this workspace, its fork parent or a sibling fork.\<close>

definition sibling_forks :: "fork_lineage \<Rightarrow> fork_lineage \<Rightarrow> bool" where
  "sibling_forks a b \<longleftrightarrow>
     same_parent a b \<and> fl_child a \<noteq> fl_child b \<and> fl_fork a \<noteq> fl_fork b \<and> fl_event a \<noteq> fl_event b"

definition handoff_lineage_ok :: "ws_identity \<Rightarrow> ws_state \<Rightarrow> state_ref \<Rightarrow> fork_lineage option \<Rightarrow> bool" where
  "handoff_lineage_ok i s source receiver =
     (if sr_workspace source = wi_id i
      then (case map_of (s_checkpoints s) (sr_checkpoint source) of
              None \<Rightarrow> False
            | Some c \<Rightarrow> ck_state_digest c = sr_digest source \<and> ck_envelope c = sr_envelope source \<and>
                sr_lineage source = receiver)
      else (case (sr_lineage source, receiver) of
              (None, Some l) \<Rightarrow> names_parent source l
            | (Some l, Some l') \<Rightarrow> sibling_forks l l'
            | _ \<Rightarrow> False))"

fun import_anchors ::
  "pystr \<Rightarrow> ws_state \<Rightarrow> json list \<Rightarrow> (pystr \<times> source_anchor) list \<Rightarrow> (pystr \<times> source_anchor) list proj"
where
  "import_anchors decision s [] imported = Inr imported"
| "import_anchors decision s (raw # raws) imported =
     rbind (incompat s (anchor_from_dict True raw)) (\<lambda>a.
     case map_of (s_sources s) (an_id a) of
       None \<Rightarrow>
         rbind (need (decision = ''degraded'') Corrupt s) (\<lambda>_.
         import_anchors decision s raws (dict_put (an_id a) a imported))
     | Some existing \<Rightarrow>
         rbind (need (py_eq (anchor_to_dict existing) (anchor_to_dict a)) Corrupt s) (\<lambda>_.
         import_anchors decision s raws imported))"

definition check_package :: "ws_state \<Rightarrow> json \<Rightarrow> unit proj" where
  "check_package s raw =
     rbind (incompat s (pin_from_dict raw)) (\<lambda>pin.
     need (case map_of (s_pins s) (pin_key pin) of None \<Rightarrow> False
           | Some existing \<Rightarrow> py_eq (pin_to_dict existing) (pin_to_dict pin)) Corrupt s)"

text \<open>An entry that is there already must be the same; the others are appended in order.\<close>

fun append_entries ::
  "ws_policy \<Rightarrow> ws_state \<Rightarrow> pystr list \<Rightarrow> json list \<Rightarrow> (pystr \<times> ctx_entry) list \<Rightarrow> ctx_entry list \<Rightarrow>
     ctx_entry list proj"
where
  "append_entries p s ids [] by_id appended = Inr appended"
| "append_entries p s ids (raw # raws) by_id appended =
     rbind (incompat s (entry_from_dict raw)) (\<lambda>e.
     case map_of by_id (en_id e) of
       Some existing \<Rightarrow>
         rbind (need (py_eq (entry_to_dict existing) (entry_to_dict e)) Corrupt s) (\<lambda>_.
         append_entries p s ids raws by_id appended)
     | None \<Rightarrow>
         rbind (need (en_category e \<in> set (po_categories p)) Incompatible s) (\<lambda>_.
         rbind (need (list_all (\<lambda>x. x \<in> set ids) (en_sources e)) Corrupt s) (\<lambda>_.
         append_entries p s ids raws ((en_id e, e) # by_id) (appended @ [e]))))"

definition apply_handoff :: "pystr \<Rightarrow> json \<Rightarrow> ws_identity \<Rightarrow> ws_policy \<Rightarrow> ws_state \<Rightarrow> ws_state proj" where
  "apply_handoff event_id payload i p s =
     rbind (incompat s (handoff_from_dict (jat ''handoff'' payload))) (\<lambda>h.
     rbind (incompat s (admission_from_dict (jat ''admission'' payload))) (\<lambda>adm.
     rbind (need (ad_handoff adm = ho_id h \<and> ad_handoff_digest adm = ho_digest h \<and>
         ad_receiver adm = wi_id i \<and> ad_decision adm \<in> {''admitted'', ''degraded''} \<and>
         ho_target h = wi_id i) Corrupt s) (\<lambda>_.
     rbind (incompat s (case s_fork s of None \<Rightarrow> Inr None
         | Some l \<Rightarrow> rbind (lineage_from_dict l) (\<lambda>x. Inr (Some x)))) (\<lambda>receiver.
     rbind (need (handoff_lineage_ok i s (ho_source h) receiver \<and> ad_lineage adm = ''verified'' \<and>
         ad_target adm = ''match'' \<and> ad_policy adm = ''monotonic'' \<and> ad_package adm = ''exact'' \<and>
         cr_entries (ad_conflicts adm) = [] \<and> is_tightening p (ho_floor h)) Corrupt s) (\<lambda>_.
     let rec = \<lparr>hr_handoff = ho_id h, hr_digest = ho_digest h, hr_event = event_id\<rparr> in
     rbind (case map_of (s_handoffs s) (ho_id h) of
              None \<Rightarrow> Inr ()
            | Some previous \<Rightarrow> Inl (if previous = rec then Incompatible else Corrupt, s)) (\<lambda>_.
     rbind (import_anchors (ad_decision adm) s (ho_anchors h) []) (\<lambda>imported.
     rbind (need
         (if imported \<noteq> [] \<or> ad_source adm = ''unavailable''
          then ad_decision adm = ''degraded'' \<and> ad_source adm = ''unavailable''
          else ad_decision adm = ''admitted'' \<and> ad_source adm = ''available'') Corrupt s) (\<lambda>_.
     rbind (mapr (check_package s) (ho_packages h)) (\<lambda>_.
     rbind (append_entries p s (map fst (s_sources s) @ map fst imported) (ho_entries h)
         (map (\<lambda>e. (en_id e, e)) (rev (s_entries s))) []) (\<lambda>appended.
     let target = s\<lparr>s_sources := s_sources s @ imported, s_entries := s_entries s @ appended,
           s_handoffs := dict_put (ho_id h) rec (s_handoffs s)\<rparr> in
     rbind (incompat s (ensure_all_external target imported)) (\<lambda>_.
     rbind (incompat s (ensure_bounds p True target)) (\<lambda>_. Inr target))))))))))))"

section \<open>The step\<close>

text \<open>
  One event. \<open>allow_verified\<close> is \<open>replay or verified_evidence\<close>. The exceptions that leave the code
  as something else than a \<open>_ProjectionFailure\<close> are turned into \<open>Incompatible\<close> where they are
  raised.
\<close>

definition apply_kind :: "bool \<Rightarrow> json \<Rightarrow> event_head \<Rightarrow> ws_identity \<Rightarrow> ws_policy \<Rightarrow> ws_state \<Rightarrow> ws_state proj"
where
  "apply_kind allow_verified event h i p s =
     (let kind = eh_kind h; payload = eh_payload h in
      if kind = ''source_attached'' then apply_source False allow_verified payload p s
      else if kind = ''source_updated'' then apply_source True allow_verified payload p s
      else if kind = ''policy_tightened'' then apply_policy payload p s
      else if kind = ''session_attached'' then apply_session payload p s
      else if kind = ''context_committed'' then apply_context payload p s
      else if kind = ''workspace_forked'' then apply_forked (eh_id h) payload i p s
      else if kind = ''handoff_applied'' then apply_handoff (eh_id h) payload i p s
      else if kind = ''package_pinned'' then apply_pin payload s
      else if kind = ''checkpoint_created'' then apply_checkpoint payload s
      else if kind = ''workspace_restored'' then apply_restored payload p s
      else if kind = ''workspace_seeded'' then apply_seeded payload p s
      else if kind = ''workspace_sealed'' then apply_sealed payload s
      else if kind = ''workspace_completed'' then apply_completed s
      else if kind = ''workspace_aborted'' then apply_aborted payload s
      else Inr s)"

definition apply_event :: "bool \<Rightarrow> json \<Rightarrow> ws_state \<Rightarrow> ws_state proj" where
  "apply_event allow_verified event s =
     rbind (incompat s (event_head event)) (\<lambda>h.
     rbind (if eh_kind h = ''workspace_created'' then apply_created event (eh_payload h) s
            else (case (s_identity s, s_policy s) of
                    (Some i, Some p) \<Rightarrow>
                      rbind (need (s_events s \<noteq> []) Corrupt s) (\<lambda>_.
                      rbind (need (s_lifecycle s = ''active'') Incompatible s) (\<lambda>_.
                      apply_kind allow_verified event h i p s))
                  | _ \<Rightarrow> Inl (Corrupt, s))) (\<lambda>t.
     apply_tail event h t))"

fun apply_events :: "bool \<Rightarrow> json list \<Rightarrow> ws_state \<Rightarrow> ws_state proj" where
  "apply_events v [] s = Inr s"
| "apply_events v (e # es) s = rbind (apply_event v e s) (apply_events v es)"

end
