(* ===== verification/Ws_Journal.thy ===== *)
theory Ws_Journal
  imports Ws_Events
begin

text \<open>
  The journal of a workspace: the records \<open>_event_record\<close> makes, the files they are stored in, and
  the functions that read and publish them (\<open>_read_regular_file\<close>, \<open>_read_event\<close>, \<open>_project\<close> and
  \<open>_write_event\<close> of \<open>src/leanctx_sdk/workspace.py\<close>).

  A directory is its names with the inode each refers to, and the inodes. It is a snapshot: the
  tests that compare two \<open>stat\<close> results of one path to notice another process pass on it.
\<close>

section \<open>Event records\<close>

definition MAX_EVENT_BYTES :: nat where "MAX_EVENT_BYTES = 16 * 1024 * 1024"

definition event_unsigned ::
  "pystr \<Rightarrow> int \<Rightarrow> pystr \<Rightarrow> pystr \<Rightarrow> json \<Rightarrow> pystr \<Rightarrow> (pystr \<times> json) list" where
  "event_unsigned workspace_id sequence event_id kind payload previous =
     [(''schema_version'', JStr ''leanctx.workspace-event/v1''), (''workspace_id'', JStr workspace_id),
      (''sequence'', JInt sequence), (''event_id'', JStr event_id), (''kind'', JStr kind),
      (''payload'', payload), (''previous_digest'', JStr previous)]"

definition event_record ::
  "pystr \<Rightarrow> int \<Rightarrow> pystr \<Rightarrow> pystr \<Rightarrow> json \<Rightarrow> pystr \<Rightarrow> json res" where
  "event_record workspace_id sequence event_id kind payload previous =
     (let unsigned = event_unsigned workspace_id sequence event_id kind payload previous in
     rbind (ws_digest (JObj unsigned)) (\<lambda>d.
     Inr (JObj (unsigned @ [(''event_digest'', JStr d)]))))"

definition event_keys :: "pystr list" where
  "event_keys = [''schema_version'', ''workspace_id'', ''sequence'', ''event_id'', ''kind'',
     ''payload'', ''previous_digest'', ''event_digest'']"

text \<open>\<open>^([0-9]{16})-([0-9a-f]{64})\.json$\<close>: the sequence number and the digest.\<close>

definition event_file :: "pystr \<Rightarrow> (nat \<times> pystr) option" where
  "event_file name =
     (if length name = 86 \<and> list_all is_digit (take 16 name) \<and> name ! 16 = CHR ''-'' \<and>
         list_all is_hex (take 64 (drop 17 name)) \<and> drop 81 name = ''.json''
      then Some (digits_value 0 (take 16 name), take 64 (drop 17 name)) else None)"

text \<open>\<open>f"{sequence:016d}-{digest}.json"\<close>.\<close>

definition event_name :: "nat \<Rightarrow> pystr \<Rightarrow> pystr" where
  "event_name sequence digest =
     (if sequence < 10 ^ 16 then pad_digits 16 sequence else nat_text sequence) @ ''-'' @
     remove_prefix ''sha256:'' digest @ ''.json''"

section \<open>The directory\<close>

record inode =
  in_data :: pystr
  in_regular :: bool
  in_private :: bool
  in_links :: nat

record events_dir =
  ed_names :: "(pystr \<times> nat) list"
  ed_inodes :: "(nat \<times> inode) list"

definition dir_inode :: "events_dir \<Rightarrow> pystr \<Rightarrow> inode option" where
  "dir_inode d name = Option.bind (map_of (ed_names d) name) (map_of (ed_inodes d))"

datatype read_fail = RCorrupt | RIncompatible | RIo | RMissing

definition read_regular :: "events_dir \<Rightarrow> pystr \<Rightarrow> read_fail + pystr" where
  "read_regular d name =
     rbind (of_option RIo (dir_inode d name)) (\<lambda>f.
     rbind (check (in_regular f) RCorrupt) (\<lambda>_.
     rbind (check (in_links f \<in> {1, 2} \<and> in_private f) RCorrupt) (\<lambda>_.
     rbind (check (length (in_data f) \<le> MAX_EVENT_BYTES) RCorrupt) (\<lambda>_.
     Inr (in_data f)))))"

text \<open>
  \<open>_read_event\<close>. The exceptions of the checks on fields that no test below names are turned into
  \<open>incompatible\<close> by the handlers at its end.
\<close>

definition field_read :: "'a res \<Rightarrow> read_fail + 'a" where
  "field_read r = on_err (\<lambda>_. RIncompatible) r"

definition unsigned_part :: "json \<Rightarrow> json" where
  "unsigned_part v =
     (case v of JObj kvs \<Rightarrow> JObj (filter (\<lambda>p. fst p \<noteq> ''event_digest'') kvs) | _ \<Rightarrow> v)"

definition read_event ::
  "events_dir \<Rightarrow> pystr \<Rightarrow> nat \<Rightarrow> pystr \<Rightarrow> pystr \<Rightarrow> read_fail + json" where
  "read_event d workspace_id expected previous name =
     rbind (of_option RCorrupt (event_file name)) (\<lambda>(file_sequence, file_digest).
     rbind (check (file_sequence = expected) RCorrupt) (\<lambda>_.
     rbind (read_regular d name) (\<lambda>data.
     rbind (check (data \<noteq> [] \<and> last data = CHR 0x0A \<and>
         (butlast data = [] \<or> last (butlast data) \<noteq> CHR 0x0A)) RCorrupt) (\<lambda>_.
     rbind (on_err (\<lambda>_. RCorrupt) (strict_json_loads (butlast data))) (\<lambda>v.
     rbind (check (is_obj v \<and> set (jkeys v) = set event_keys) RIncompatible) (\<lambda>_.
     rbind (check (jat ''schema_version'' v = JStr ''leanctx.workspace-event/v1'') RIncompatible) (\<lambda>_.
     rbind (field_read (ws_canonical v)) (\<lambda>bytes.
     rbind (check (bytes @ [CHR 0x0A] = data) RCorrupt) (\<lambda>_.
     rbind (field_read (wuuid (jat ''workspace_id'' v))) (\<lambda>w.
     rbind (check (w = workspace_id) RCorrupt) (\<lambda>_.
     rbind (check (jat ''sequence'' v = JInt (int expected)) RIncompatible) (\<lambda>_.
     rbind (field_read (wuuid (jat ''event_id'' v))) (\<lambda>_.
     rbind (field_read (on_text (\<lambda>k. k \<in> set event_kinds) (jat ''kind'' v))) (\<lambda>_.
     rbind (check (is_obj (jat ''payload'' v)) RIncompatible) (\<lambda>_.
     rbind (field_read (reject_sensitive (jat ''payload'' v))) (\<lambda>_.
     rbind (if expected = 1 then check (jat ''previous_digest'' v = JStr ZERO_DIGEST) RCorrupt
            else rbind (field_read (wdigest (jat ''previous_digest'' v))) (\<lambda>_. Inr ())) (\<lambda>_.
     rbind (field_read (wdigest (jat ''event_digest'' v))) (\<lambda>digest.
     rbind (check (jat ''previous_digest'' v = JStr previous) RCorrupt) (\<lambda>_.
     rbind (field_read (ws_digest (unsigned_part v))) (\<lambda>expected_digest.
     rbind (check (digest = expected_digest \<and>
         remove_prefix ''sha256:'' expected_digest = file_digest) RCorrupt) (\<lambda>_.
     Inr v)))))))))))))))))))))"

section \<open>Projection\<close>

type_synonym 'a project = "(read_fail \<times> ws_state option) + 'a"

definition of_fail :: "fail_kind \<Rightarrow> read_fail" where
  "of_fail k = (case k of Corrupt \<Rightarrow> RCorrupt | Incompatible \<Rightarrow> RIncompatible)"

fun replay :: "events_dir \<Rightarrow> pystr \<Rightarrow> nat \<Rightarrow> pystr \<Rightarrow> ws_state \<Rightarrow> pystr list \<Rightarrow> ws_state project" where
  "replay d workspace_id n previous s [] = Inr s"
| "replay d workspace_id n previous s (name # names) =
     rbind (on_err (\<lambda>k. (k, Some s)) (read_event d workspace_id n previous name)) (\<lambda>event.
     rbind (on_err (\<lambda>f. (of_fail (fst f), Some (snd f))) (apply_event True event s)) (\<lambda>t.
     case jget ''event_digest'' event of
       Some (JStr digest) \<Rightarrow> replay d workspace_id (Suc n) digest t names
     | _ \<Rightarrow> Inl (RIncompatible, Some t)))"

definition is_temporary :: "pystr \<Rightarrow> bool" where
  "is_temporary name \<longleftrightarrow> starts_with ''.event-'' name"

text \<open>One name of the events directory: the lock file, a temporary file or a published event.\<close>

definition name_ok :: "events_dir \<Rightarrow> pystr \<Rightarrow> (read_fail \<times> ws_state option) + unit" where
  "name_ok d name =
     (if name = ''.workspace.lock'' then
        rbind (of_option (RIo, None) (dir_inode d name)) (\<lambda>f.
        check (in_regular f \<and> in_links f = 1 \<and> in_private f) (RCorrupt, None))
      else if is_temporary name then
        rbind (of_option (RIo, None) (dir_inode d name)) (\<lambda>f.
        check (in_regular f \<and> in_links f \<in> {1, 2} \<and> in_private f) (RCorrupt, None))
      else check (event_file name \<noteq> None) (RCorrupt, None))"

definition published :: "events_dir \<Rightarrow> pystr list" where
  "published d =
     sort (filter (\<lambda>n. n \<noteq> ''.workspace.lock'' \<and> \<not> is_temporary n) (map fst (ed_names d)))"

definition temporaries :: "events_dir \<Rightarrow> pystr list" where
  "temporaries d =
     filter (\<lambda>n. n \<noteq> ''.workspace.lock'' \<and> is_temporary n) (map fst (ed_names d))"

definition name_links :: "events_dir \<Rightarrow> pystr \<Rightarrow> nat" where
  "name_links d name = (case dir_inode d name of None \<Rightarrow> 0 | Some f \<Rightarrow> in_links f)"

definition same_inode :: "events_dir \<Rightarrow> pystr \<Rightarrow> pystr \<Rightarrow> bool" where
  "same_inode d a b \<longleftrightarrow> map_of (ed_names d) a = map_of (ed_names d) b"

text \<open>
  A file with two links is an event whose temporary name was not removed yet: each such pair is
  one published name and one temporary name of the same inode.
\<close>

definition links_ok :: "events_dir \<Rightarrow> bool" where
  "links_ok d \<longleftrightarrow>
     (let finals = filter (\<lambda>n. name_links d n = 2) (published d) in
      list_all (\<lambda>n. name_links d n \<in> {1, 2}) (published d) \<and>
      list_all (\<lambda>n. name_links d n = 1 \<or>
        name_links d n = 2 \<and> length (filter (same_inode d n) finals) = 1) (temporaries d) \<and>
      list_all (\<lambda>n. length (filter (same_inode d n) (temporaries d)) = 1) finals)"

definition project :: "events_dir \<Rightarrow> pystr \<Rightarrow> ws_state project" where
  "project d workspace_id =
     rbind (mapr (name_ok d) (map fst (ed_names d))) (\<lambda>_.
     rbind (replay d workspace_id 1 ZERO_DIGEST empty_state (published d)) (\<lambda>s.
     rbind (check (links_ok d) (RCorrupt, None)) (\<lambda>_.
     rbind (check (s_events s \<noteq> [] \<and> s_identity s \<noteq> None \<and> s_policy s \<noteq> None) (RCorrupt, Some s)) (\<lambda>_.
     rbind (check (map_option wi_id (s_identity s) = Some workspace_id) (RCorrupt, Some s)) (\<lambda>_.
     Inr s)))))"

section \<open>Publishing\<close>

definition put_inode :: "nat \<Rightarrow> inode \<Rightarrow> events_dir \<Rightarrow> events_dir" where
  "put_inode i f d = d\<lparr>ed_inodes := dict_put i f (ed_inodes d)\<rparr>"

definition create_file :: "pystr \<Rightarrow> nat \<Rightarrow> events_dir \<Rightarrow> events_dir" where
  "create_file name i d =
     (put_inode i \<lparr>in_data = [], in_regular = True, in_private = True, in_links = 1\<rparr> d)
       \<lparr>ed_names := ed_names d @ [(name, i)]\<rparr>"

definition update_inode :: "nat \<Rightarrow> (inode \<Rightarrow> inode) \<Rightarrow> events_dir \<Rightarrow> events_dir" where
  "update_inode i f d =
     (case map_of (ed_inodes d) i of None \<Rightarrow> d | Some x \<Rightarrow> put_inode i (f x) d)"

definition write_data :: "nat \<Rightarrow> pystr \<Rightarrow> events_dir \<Rightarrow> events_dir" where
  "write_data i chunk d = update_inode i (\<lambda>f. f\<lparr>in_data := in_data f @ chunk\<rparr>) d"

definition link_file :: "pystr \<Rightarrow> nat \<Rightarrow> events_dir \<Rightarrow> events_dir" where
  "link_file name i d =
     (update_inode i (\<lambda>f. f\<lparr>in_links := in_links f + 1\<rparr>) d)\<lparr>ed_names := ed_names d @ [(name, i)]\<rparr>"

definition unlink_file :: "pystr \<Rightarrow> nat \<Rightarrow> events_dir \<Rightarrow> events_dir" where
  "unlink_file name i d =
     (update_inode i (\<lambda>f. f\<lparr>in_links := in_links f - 1\<rparr>) d)
       \<lparr>ed_names := filter (\<lambda>p. fst p \<noteq> name) (ed_names d)\<rparr>"

text \<open>
  The directories a call of \<open>_write_event\<close> goes through: the temporary file is created, filled
  chunk by chunk, linked to the name of the event, and its temporary name removed. \<open>i\<close> is the
  inode the system hands out.
\<close>

fun fill_steps :: "nat \<Rightarrow> pystr list \<Rightarrow> events_dir \<Rightarrow> events_dir list" where
  "fill_steps i [] d = [d]"
| "fill_steps i (chunk # chunks) d = d # fill_steps i chunks (write_data i chunk d)"

definition publish_steps :: "pystr \<Rightarrow> pystr \<Rightarrow> nat \<Rightarrow> pystr list \<Rightarrow> events_dir \<Rightarrow> events_dir list" where
  "publish_steps filename tmp i chunks d =
     (let filled = fill_steps i chunks (create_file tmp i d); linked = link_file filename i (last filled)
      in d # filled @ [linked, unlink_file tmp i linked])"

text \<open>
  What the system answers to the calls of a write: nothing goes wrong, or one call raises an
  \<open>OSError\<close>. \<open>LockFault\<close>: an append finds, before it writes, that the directories of its lock were replaced or
  cannot be looked at; it concerns appends only. \<open>LookFault\<close>: the directory cannot be opened or the name of the event not looked up.
  \<open>CreateFault\<close>: the temporary file cannot be created. \<open>FillFault n removed\<close>: \<open>fchmod\<close>, a write after \<open>n\<close> bytes,
  \<open>fsync\<close>, \<open>fstat\<close>, its check, \<open>close\<close> or \<open>link\<close> fails. \<open>NameTaken removed\<close>: \<open>link\<close> finds the name taken
  (by a process without the lock; its file is not part of the model). \<open>UnlinkFault removed\<close>: the
  temporary name cannot be removed after the link. \<open>SyncFault\<close>: the \<open>fsync\<close> of the directory or the last look at
  the event fails. \<open>removed\<close> tells whether the \<open>finally\<close> block removes the temporary name; it ignores an
  \<open>OSError\<close> there.
\<close>

datatype io_fault =
    NoFault
  | LockFault
  | LookFault
  | CreateFault
  | FillFault nat bool
  | NameTaken bool
  | UnlinkFault bool
  | SyncFault

definition cleanup_temporary :: "bool \<Rightarrow> pystr \<Rightarrow> nat \<Rightarrow> events_dir \<Rightarrow> events_dir" where
  "cleanup_temporary removed tmp i d = (if removed then unlink_file tmp i d else d)"

text \<open>
  \<open>_write_event\<close>: the directory it leaves, and whether it returns. Up to eight temporary names are
  tried; from the link on the event is published, also when the call then raises.
\<close>

definition write_event ::
  "io_fault \<Rightarrow> pystr \<Rightarrow> pystr \<Rightarrow> pystr list \<Rightarrow> nat \<Rightarrow> events_dir \<Rightarrow> events_dir \<times> unit res" where
  "write_event fault filename data temporary_names i d =
     (if fault = LookFault then (d, Inl WorkspaceIOError)
      else if filename \<in> set (map fst (ed_names d)) then (d, Inl WorkspaceConflictError)
      else case filter (\<lambda>n. n \<notin> set (map fst (ed_names d))) (take 8 temporary_names) of
        [] \<Rightarrow> (d, Inl WorkspaceIOError)
      | tmp # _ \<Rightarrow>
          let created = create_file tmp i d;
              filled = write_data i data created;
              linked = link_file filename i filled;
              unlinked = unlink_file tmp i linked
          in case fault of
              CreateFault \<Rightarrow> (d, Inl WorkspaceIOError)
            | FillFault n removed \<Rightarrow>
                (cleanup_temporary removed tmp i (write_data i (take n data) created), Inl WorkspaceIOError)
            | NameTaken removed \<Rightarrow> (cleanup_temporary removed tmp i filled, Inl WorkspaceConflictError)
            | UnlinkFault removed \<Rightarrow> (cleanup_temporary removed tmp i linked, Inl WorkspaceIOError)
            | SyncFault \<Rightarrow> (unlinked, Inl WorkspaceIOError)
            | _ \<Rightarrow> (unlinked, Inr ()))"

end
