(* ===== verification/Ws_Files.thy ===== *)
theory Ws_Files
  imports Ws_Journal Session_Facts
begin

text \<open>
  Local source files: the directory tree, the system calls that walk it, and the functions of
  \<open>src/leanctx_sdk/workspace.py\<close> that open a source without following a symbolic link
  (\<open>_open_directory_ancestry\<close>, \<open>_open_relative_nofollow\<close>, \<open>_pin_source\<close>, \<open>_revalidate_source_pin\<close>)
  or rely on them (\<open>_validate_anchor_binding\<close>, \<open>_bind_portable_anchor\<close>, \<open>_anchor_with_evidence\<close>,
  \<open>_verify_checkpoint_sources\<close>).

  A node carries its inode number. Error numbers are those Linux reports: opening a link with
  \<open>O_NOFOLLOW\<close> is \<open>ELOOP\<close>, with \<open>O_DIRECTORY\<close> as well \<open>ENOTDIR\<close>. A function that opens a file and looks at
  the names again later takes the tree at both times; the content is what the opened file holds.
\<close>

section \<open>The tree\<close>

datatype fs_node =
    FsFile nat pystr
  | FsDir nat "(pystr \<times> fs_node) list"
  | FsLink pystr
  | FsSpecial nat

datatype errno = ENOENT | ENOTDIR | ELOOP

definition fs_child :: "pystr \<Rightarrow> fs_node \<Rightarrow> fs_node option" where
  "fs_child c n = (case n of FsDir i es \<Rightarrow> map_of es c | _ \<Rightarrow> None)"

definition is_dir :: "fs_node \<Rightarrow> bool" where
  "is_dir n = (case n of FsDir i es \<Rightarrow> True | _ \<Rightarrow> False)"

definition fs_inode :: "fs_node \<Rightarrow> nat option" where
  "fs_inode n = (case n of FsFile i d \<Rightarrow> Some i | FsDir i es \<Rightarrow> Some i | FsSpecial i \<Rightarrow> Some i | FsLink p \<Rightarrow> None)"

text \<open>The node at a list of names, taking no link.\<close>

fun fs_lookup :: "fs_node \<Rightarrow> pystr list \<Rightarrow> fs_node option" where
  "fs_lookup n [] = Some n"
| "fs_lookup n (c # cs) = (case fs_child c n of None \<Rightarrow> None | Some m \<Rightarrow> fs_lookup m cs)"

text \<open>Path resolution of the system: links are followed, at most \<open>n\<close> of them.\<close>

fun follow :: "fs_node \<Rightarrow> nat \<Rightarrow> pystr list \<Rightarrow> pystr list \<Rightarrow> errno + pystr list" where
  "follow t n cur [] = Inr cur"
| "follow t n cur (c # cs) =
     (case fs_lookup t cur of
        Some (FsDir i es) \<Rightarrow>
          if c = [] \<or> c = ''.'' then follow t n cur cs
          else if c = ''..'' then follow t n (butlast cur) cs
          else (case map_of es c of
              None \<Rightarrow> Inl ENOENT
            | Some (FsLink target) \<Rightarrow>
                (case n of 0 \<Rightarrow> Inl ELOOP
                 | Suc m \<Rightarrow> follow t m (if os_isabs target then [] else cur) (split_on slash target @ cs))
            | Some x \<Rightarrow> follow t n (cur @ [c]) cs)
      | _ \<Rightarrow> Inl ENOTDIR)"

definition MAX_LINKS :: nat where "MAX_LINKS = 40"

text \<open>\<open>os.lstat\<close> of a normalised absolute path: every component but the last is followed.\<close>

definition fs_lstat :: "fs_node \<Rightarrow> pystr \<Rightarrow> errno + fs_node" where
  "fs_lstat t p =
     (let cs = path_comps p in
      if cs = [] then Inr t
      else rbind (follow t MAX_LINKS [] (butlast cs)) (\<lambda>cur.
        case fs_lookup t cur of
          Some (FsDir i es) \<Rightarrow> of_option ENOENT (map_of es (last cs))
        | _ \<Rightarrow> Inl ENOTDIR))"

text \<open>
  \<open>os.path.realpath\<close>, as the components of its result: a component that does not exist is kept, and
  after the last link the rest is left as it is.
\<close>

fun real_walk :: "fs_node \<Rightarrow> nat \<Rightarrow> pystr list \<Rightarrow> pystr list \<Rightarrow> pystr list" where
  "real_walk t n cur [] = cur"
| "real_walk t n cur (c # cs) =
     (if c = [] \<or> c = ''.'' then real_walk t n cur cs
      else if c = ''..'' then real_walk t n (butlast cur) cs
      else case fs_lookup t (cur @ [c]) of
        Some (FsLink target) \<Rightarrow>
          (case n of 0 \<Rightarrow> cur @ c # cs
           | Suc m \<Rightarrow> real_walk t m (if os_isabs target then [] else cur) (split_on slash target @ cs))
      | _ \<Rightarrow> real_walk t n (cur @ [c]) cs)"

definition realpath :: "fs_node \<Rightarrow> pystr \<Rightarrow> pystr list" where
  "realpath t p = real_walk t MAX_LINKS [] (path_comps p)"

text \<open>\<open>os.open\<close> below an open directory, with \<open>O_DIRECTORY | O_NOFOLLOW\<close> and with \<open>O_NOFOLLOW\<close>.\<close>

definition open_dir_at :: "fs_node \<Rightarrow> pystr \<Rightarrow> errno + fs_node" where
  "open_dir_at d c =
     rbind (of_option ENOENT (fs_child c d)) (\<lambda>n.
     rbind (check (is_dir n) ENOTDIR) (\<lambda>_. Inr n))"

definition open_file_at :: "fs_node \<Rightarrow> pystr \<Rightarrow> errno + fs_node" where
  "open_file_at d c =
     rbind (of_option ENOENT (fs_child c d)) (\<lambda>n.
     case n of FsLink p \<Rightarrow> Inl ELOOP | _ \<Rightarrow> Inr n)"

fun open_dirs :: "fs_node \<Rightarrow> pystr list \<Rightarrow> errno + fs_node" where
  "open_dirs d [] = Inr d"
| "open_dirs d (c # cs) = rbind (open_dir_at d c) (\<lambda>e. open_dirs e cs)"

section \<open>Opening without links\<close>

text \<open>An \<open>OSError\<close> with its number, or another exception.\<close>

datatype os_exn = OsError errno | Raised exn

definition os_call :: "errno + 'a \<Rightarrow> os_exn + 'a" where
  "os_call r = on_err OsError r"

definition py_call :: "'a res \<Rightarrow> os_exn + 'a" where
  "py_call r = on_err Raised r"

text \<open>\<open>except OSError\<close>: what an error number becomes; other exceptions pass.\<close>

definition os_handler :: "(errno \<Rightarrow> exn) \<Rightarrow> os_exn + 'a \<Rightarrow> 'a res" where
  "os_handler f r = on_err (\<lambda>e. case e of OsError n \<Rightarrow> f n | Raised x \<Rightarrow> x) r"

definition open_directory_ancestry :: "fs_node \<Rightarrow> pystr list \<Rightarrow> fs_node res" where
  "open_directory_ancestry t cs =
     on_err (\<lambda>n. if n = ENOENT then WorkspaceNotFoundError else WorkspaceIOError)
       (rbind (open_dirs t cs) (\<lambda>d. rbind (check (is_dir d) ENOTDIR) (\<lambda>_. Inr d)))"

definition open_relative_nofollow :: "fs_node \<Rightarrow> pystr \<Rightarrow> os_exn + fs_node" where
  "open_relative_nofollow root rel =
     (let cs = split_on slash rel in
     rbind (check (list_all (\<lambda>c. c \<notin> {[], ''.'', ''..''}) cs) (Raised WorkspaceValidationError)) (\<lambda>_.
     rbind (os_call (open_dirs root (butlast cs))) (\<lambda>d.
     os_call (open_file_at d (last cs)))))"

definition verify_directory_nofollow :: "fs_node \<Rightarrow> pystr \<Rightarrow> unit res" where
  "verify_directory_nofollow t p =
     on_err (\<lambda>_. WorkspaceIOError)
       (rbind (open_dirs t (realpath t p)) (\<lambda>d. check (is_dir d) ENOTDIR))"

section \<open>Pins\<close>

record source_pin =
  sp_root :: fs_node
  sp_source :: fs_node
  sp_content :: pystr
  sp_path :: pystr

definition pin_source :: "pystr \<Rightarrow> fs_node \<Rightarrow> context_source \<Rightarrow> source_pin res" where
  "pin_source cwd t source =
     os_handler (\<lambda>n. if n = ELOOP then WorkspaceValidationError else WorkspaceIOError)
       (rbind (os_call (fs_lstat t (cs_root source))) (\<lambda>r.
        rbind (check (is_dir r) (Raised WorkspaceValidationError)) (\<lambda>_.
        rbind (py_call (open_directory_ancestry t (realpath t (cs_root source)))) (\<lambda>root.
        rbind (py_call (relative_path cwd source)) (\<lambda>rel.
        rbind (open_relative_nofollow root rel) (\<lambda>f.
        case f of
          FsFile i content \<Rightarrow>
            Inr \<lparr>sp_root = root, sp_source = f, sp_content = content, sp_path = rel\<rparr>
        | _ \<Rightarrow> Inl (Raised WorkspaceValidationError)))))))"

definition revalidate_pin :: "pystr \<Rightarrow> fs_node \<Rightarrow> context_source \<Rightarrow> source_pin \<Rightarrow> unit res" where
  "revalidate_pin cwd t source pin =
     os_handler (\<lambda>n. if n = ELOOP then WorkspaceConflictError else WorkspaceIOError)
       (rbind (py_call (open_directory_ancestry t (realpath t (cs_root source)))) (\<lambda>root.
        rbind (py_call (relative_path cwd source)) (\<lambda>rel.
        rbind (open_relative_nofollow root rel) (\<lambda>f.
        check (fs_inode root = fs_inode (sp_root pin) \<and> fs_inode f = fs_inode (sp_source pin))
          (Raised WorkspaceConflictError)))))"

section \<open>Anchors and their files\<close>

definition validate_anchor_binding ::
  "pystr \<Rightarrow> fs_node \<Rightarrow> source_anchor \<Rightarrow> context_source \<Rightarrow> unit res" where
  "validate_anchor_binding cwd t a source =
     (case (an_kind a = ''filesystem'', an_binding a) of
        (True, Some b) \<Rightarrow>
          rbind (source_from_binding cwd b) (\<lambda>bound.
          rbind (source_to_dict cwd bound) (\<lambda>bd.
          rbind (source_to_dict cwd source) (\<lambda>sd.
          rbind (check (py_eq bd sd) WorkspaceConflictError) (\<lambda>_.
          rbind (on_err (\<lambda>_. WorkspaceIOError) (fs_lstat t (cs_root source))) (\<lambda>r.
          rbind (check (is_dir r) WorkspaceValidationError) (\<lambda>_.
          verify_directory_nofollow t (cs_root source)))))))
      | _ \<Rightarrow> Inl WorkspaceValidationError)"

text \<open>The digest a filesystem anchor records for its file.\<close>

definition recorded_file :: "source_anchor \<Rightarrow> pystr option" where
  "recorded_file a =
     (case an_revision a of
        Some r \<Rightarrow> if an_kind a = ''filesystem'' \<and> rv_kind r = ''filesystem'' \<and> is_digest (rv_value r)
                  then Some (rv_value r) else None
      | None \<Rightarrow> None)"

definition bind_portable_anchor ::
  "pystr \<Rightarrow> fs_node \<Rightarrow> fs_node \<Rightarrow> source_anchor \<Rightarrow> context_source \<Rightarrow> source_anchor res" where
  "bind_portable_anchor cwd t t' a source =
     rbind (of_option WorkspaceConflictError (recorded_file a)) (\<lambda>recorded.
     rbind (relative_path cwd source) (\<lambda>rel.
     rbind (check (an_canonical a = ''file://'' @ rel) WorkspaceConflictError) (\<lambda>_.
     rbind (pin_source cwd t source) (\<lambda>pin.
     rbind (check (length (sp_content pin) \<le> MAX_EVENT_BYTES) WorkspacePolicyError) (\<lambda>_.
     rbind (check (sha256_ref (sp_content pin) = recorded) WorkspaceConflictError) (\<lambda>_.
     rbind (revalidate_pin cwd t' source pin) (\<lambda>_.
     rbind (source_to_dict cwd source) (\<lambda>d.
     mk_anchor cwd (JStr (an_id a)) (JStr (an_kind a)) (JStr (an_canonical a)) (an_revision a)
       (an_freshness a) (an_recovery a) (an_trust a) (an_scope a) d))))))))"

definition check_evidence ::
  "pystr \<Rightarrow> fs_node \<Rightarrow> source_anchor \<Rightarrow> json \<Rightarrow> ctx_receipt \<Rightarrow> pystr res" where
  "check_evidence cwd t a b evidence =
     (case (receipt_view_field (\<lambda>v. Some (vw_source v)) evidence,
            receipt_view_field vw_receipt_link evidence) of
        (Some source, Some link) \<Rightarrow>
          rbind (check (receipt_verify evidence) WorkspaceValidationError) (\<lambda>_.
          rbind (source_to_dict cwd source) (\<lambda>d.
          rbind (check (py_eq d b) WorkspaceConflictError) (\<lambda>_.
          rbind (check (p4_receipt_ref (rl_ref link)) WorkspaceValidationError) (\<lambda>_.
          rbind (validate_anchor_binding cwd t a source) (\<lambda>_.
          Inr (rl_ref link))))))
      | _ \<Rightarrow> Inl WorkspaceValidationError)"

definition anchor_with_evidence ::
  "pystr \<Rightarrow> fs_node \<Rightarrow> source_anchor \<Rightarrow> ctx_receipt list \<Rightarrow> source_anchor res" where
  "anchor_with_evidence cwd t a evidence =
     (if evidence = [] then
        rbind (check (tr_level (an_trust a) \<noteq> ''verified'') WorkspaceValidationError) (\<lambda>_. Inr a)
      else (case (an_binding a, an_kind a = ''filesystem'') of
        (Some b, True) \<Rightarrow>
          rbind (mapr (check_evidence cwd t a b) evidence) (\<lambda>refs.
          rbind (wrefs MAX_ENTRY_REFS (jstrs refs)) (\<lambda>sorted_refs.
          rbind (verified_trust (jstrs sorted_refs)) (\<lambda>trust.
          mk_anchor cwd (JStr (an_id a)) (JStr (an_kind a)) (JStr (an_canonical a)) (an_revision a)
            (an_freshness a) (an_recovery a) trust (an_scope a) b)))
      | _ \<Rightarrow> Inl WorkspaceValidationError))"

definition verify_checkpoint_anchor ::
  "pystr \<Rightarrow> fs_node \<Rightarrow> fs_node \<Rightarrow> source_anchor \<Rightarrow> unit res" where
  "verify_checkpoint_anchor cwd t t' a =
     (case (recorded_file a, an_binding a) of
        (Some recorded, Some b) \<Rightarrow>
          rbind (source_from_binding cwd b) (\<lambda>source.
          rbind (pin_source cwd t source) (\<lambda>pin.
          rbind (check (length (sp_content pin) \<le> MAX_EVENT_BYTES) WorkspacePolicyError) (\<lambda>_.
          rbind (check (sha256_ref (sp_content pin) = recorded) WorkspaceConflictError) (\<lambda>_.
          rbind (check (case an_recovery a of None \<Rightarrow> True
                        | Some r \<Rightarrow> (case ry_digest r of None \<Rightarrow> True
                            | Some d \<Rightarrow> d = sha256_ref (sp_content pin))) WorkspaceConflictError) (\<lambda>_.
          revalidate_pin cwd t' source pin)))))
      | _ \<Rightarrow> Inl WorkspaceConflictError)"

definition verify_checkpoint_sources ::
  "pystr \<Rightarrow> fs_node \<Rightarrow> fs_node \<Rightarrow> checkpoint \<Rightarrow> unit res" where
  "verify_checkpoint_sources cwd t t' c =
     rbind (logical_components (ck_logical c) (ck_workspace c)) (\<lambda>lc.
     rbind (mapr (\<lambda>q. verify_checkpoint_anchor cwd t t' (snd q)) (lc_sources lc)) (\<lambda>_. Inr ()))"

end
