(* ===== verification/Ws_Files_Facts.thy ===== *)
theory Ws_Files_Facts
  imports Ws_Files
begin

text \<open>
  What opening a source without following links guarantees, and what the anchors built from it
  stand for.
\<close>

section \<open>Walking the tree\<close>

lemma fs_lookup_append:
  "fs_lookup n (xs @ ys) = Option.bind (fs_lookup n xs) (\<lambda>m. fs_lookup m ys)"
  by (induction n xs rule: fs_lookup.induct) (auto split: option.splits)

lemma fs_lookup_child: "fs_lookup t cur = Some (FsDir i es) \<Longrightarrow> fs_lookup t (cur @ [c]) = map_of es c"
  by (simp add: fs_lookup_append fs_child_def split: option.split)

text \<open>Where the system resolves a path, \<open>realpath\<close> returns the same place.\<close>

lemma realpath_follow: "follow t n cur cs = Inr r \<Longrightarrow> real_walk t n cur cs = r"
proof (induction t n cur cs rule: follow.induct)
  case (2 t n cur c cs)
  obtain i es where cur: "fs_lookup t cur = Some (FsDir i es)"
    using "2.prems" by (auto split: option.splits fs_node.splits)
  consider "c = [] \<or> c = ''.''" | "c = ''..''" | "c \<noteq> []" "c \<noteq> ''.''" "c \<noteq> ''..''" by blast
  then show ?case
  proof cases
    case 3
    then obtain x where x: "map_of es c = Some x"
      using "2.prems" cur by (auto split: option.splits)
    show ?thesis
    proof (cases x)
      case (FsLink target)
      then obtain m where "n = Suc m"
        using "2.prems" cur 3 x by (cases n) auto
      then show ?thesis
        using "2.prems" "2.IH" cur 3 x FsLink fs_lookup_child [OF cur, of c] by simp
    qed (use "2.prems" "2.IH" cur 3 x fs_lookup_child [OF cur, of c] in simp_all)
  qed (use "2.prems" "2.IH" cur in simp_all)
qed simp

lemma open_dirs_lookup: "open_dirs d cs = Inr e \<Longrightarrow> fs_lookup d cs = Some e"
  by (induction d cs rule: open_dirs.induct) (auto simp: open_dir_at_def ok_simps)

lemma open_file_lookup: "open_file_at d c = Inr f \<Longrightarrow> fs_child c d = Some f \<and> (\<forall>p. f \<noteq> FsLink p)"
  by (cases "fs_child c d"; cases "the (fs_child c d)") (auto simp: open_file_at_def)

lemma os_handler_Inr [ok_simps]: "os_handler h r = Inr x \<longleftrightarrow> r = Inr x"
  by (simp add: os_handler_def ok_simps)

lemma os_call_Inr [ok_simps]: "os_call r = Inr x \<longleftrightarrow> r = Inr x"
  by (simp add: os_call_def ok_simps)

lemma py_call_Inr [ok_simps]: "py_call r = Inr x \<longleftrightarrow> r = Inr x"
  by (simp add: py_call_def ok_simps)

lemma open_relative_lookup:
  assumes "open_relative_nofollow root rel = Inr f"
  shows "fs_lookup root (split_on slash rel) = Some f"
    and "\<forall>c \<in> set (split_on slash rel). c \<notin> {[], ''.'', ''..''}"
proof -
  let ?cs = "split_on slash rel"
  obtain d where d: "open_dirs root (butlast ?cs) = Inr d" and f: "open_file_at d (last ?cs) = Inr f"
      and ok: "list_all (\<lambda>c. c \<notin> {[], ''.'', ''..''}) ?cs"
    using assms unfolding open_relative_nofollow_def Let_def by (auto simp: ok_simps)
  have "fs_lookup root (butlast ?cs @ [last ?cs]) = Some f"
    unfolding fs_lookup_append open_dirs_lookup [OF d] using open_file_lookup [OF f] by simp
  then show "fs_lookup root ?cs = Some f" by simp
  show "\<forall>c \<in> set ?cs. c \<notin> {[], ''.'', ''..''}"
    using ok by (simp add: list_all_iff)
qed

lemma open_ancestry_lookup: "open_directory_ancestry t cs = Inr d \<Longrightarrow> fs_lookup t cs = Some d \<and> is_dir d"
  by (auto simp: open_directory_ancestry_def ok_simps dest: open_dirs_lookup)

section \<open>Pins\<close>

lemma pin_source_Inr:
  assumes "pin_source cwd t s = Inr pin"
  obtains i rel where "relative_path cwd s = Inr rel" "sp_path pin = rel"
    "fs_lookup t (realpath t (cs_root s)) = Some (sp_root pin)" "is_dir (sp_root pin)"
    "sp_source pin = FsFile i (sp_content pin)"
    "fs_lookup (sp_root pin) (split_on slash rel) = Some (FsFile i (sp_content pin))"
proof -
  obtain root rel f where o: "open_directory_ancestry t (realpath t (cs_root s)) = Inr root"
      "relative_path cwd s = Inr rel" "open_relative_nofollow root rel = Inr f"
    and pin: "(case f of FsFile i content \<Rightarrow>
            Inr \<lparr>sp_root = root, sp_source = f, sp_content = content, sp_path = rel\<rparr>
        | _ \<Rightarrow> Inl (Raised WorkspaceValidationError)) = Inr pin"
    using assms unfolding pin_source_def os_handler_Inr rbind_eq_Inr_iff py_call_Inr by blast
  show ?thesis
    using pin open_ancestry_lookup [OF o(1)] open_relative_lookup(1) [OF o(3)] o(2) that
    by (cases f) auto
qed

text \<open>
  C11. The source a session or a binding reads is confined, in the file system as well as in its
  name: what is pinned is a regular file that lies below the real directory of the project root, by
  plain names that no symbolic link is among, and it is opened under the relative path of the source.
\<close>

theorem pinned_source_confined:
  assumes "mk_context_source cwd path root media sref sdig = Inr s" "os_isabs cwd"
    and "pin_source cwd t s = Inr pin"
  shows "\<exists>names i. relative_path cwd s = Inr (join_path names) \<and> names \<noteq> [] \<and>
    (\<forall>c \<in> set names. plain_comp c) \<and>
    (\<forall>k \<le> length names. \<exists>n. fs_lookup t (realpath t (cs_root s) @ take k names) = Some n \<and>
       (k < length names \<longrightarrow> is_dir n)) \<and>
    fs_lookup t (realpath t (cs_root s) @ names) = Some (FsFile i (sp_content pin))"
proof -
  obtain i rel where p: "relative_path cwd s = Inr rel"
      "fs_lookup t (realpath t (cs_root s)) = Some (sp_root pin)"
      "fs_lookup (sp_root pin) (split_on slash rel) = Some (FsFile i (sp_content pin))"
    using pin_source_Inr [OF assms(3)] by metis
  obtain n cs where root: "cs_root s = abs_path n cs" "n = 1 \<or> n = 2" "\<forall>c \<in> set cs. plain_comp c"
    using mk_source_root [OF assms(1,2)] .
  obtain names where names: "rel = join_path names" "names \<noteq> []" "\<forall>c \<in> set names. plain_comp c"
    using relative_path_below_root [OF root p(1) assms(2)] by metis
  then have split: "split_on slash rel = names"
    by (auto simp: plain_comp_def intro: split_join)
  have found: "fs_lookup t (realpath t (cs_root s) @ names) = Some (FsFile i (sp_content pin))"
    using p(2,3) by (simp add: fs_lookup_append split)
  have "\<exists>n. fs_lookup t (realpath t (cs_root s) @ take k names) = Some n \<and> (k < length names \<longrightarrow> is_dir n)"
    if "k \<le> length names" for k
  proof -
    have "fs_lookup t ((realpath t (cs_root s) @ take k names) @ drop k names) = Some (FsFile i (sp_content pin))"
      using found by simp
    then obtain n where n: "fs_lookup t (realpath t (cs_root s) @ take k names) = Some n"
        "fs_lookup n (drop k names) = Some (FsFile i (sp_content pin))"
      unfolding fs_lookup_append [of t _ "drop k names"] by (auto simp: bind_eq_Some_conv)
    moreover have "is_dir n" if "k < length names"
    proof -
      have "drop k names = names ! k # drop (Suc k) names"
        using that by (rule Cons_nth_drop_Suc [symmetric])
      then show ?thesis
        using n(2) by (auto simp: fs_child_def is_dir_def split: option.splits fs_node.splits)
    qed
    ultimately show ?thesis by blast
  qed
  with names found p(1) show ?thesis by blast
qed

definition demo_tree :: fs_node where
  "demo_tree =
     FsDir 1 [(''home'', FsLink ''/srv''), (''srv'', FsDir 2 [(''p'', FsDir 3
       [(''lib'', FsDir 4 [(''a.py'', FsFile 5 ''x = 1'')])])])]"

theorem pinned_source_confined_witness:
  "\<exists>s pin. mk_context_source ''/'' ''lib/a.py'' (Some ''/home/p'') ''text/plain'' None None = Inr s \<and>
     pin_source ''/'' demo_tree s = Inr pin \<and> sp_content pin = ''x = 1'' \<and>
     (\<exists>names i. relative_path ''/'' s = Inr (join_path names) \<and> names \<noteq> [] \<and>
       (\<forall>c \<in> set names. plain_comp c) \<and>
       (\<forall>k \<le> length names. \<exists>n. fs_lookup demo_tree (realpath demo_tree (cs_root s) @ take k names) = Some n \<and>
          (k < length names \<longrightarrow> is_dir n)) \<and>
       fs_lookup demo_tree (realpath demo_tree (cs_root s) @ names) = Some (FsFile i (sp_content pin)))"
proof -
  let ?s = "\<lparr>cs_path = ''lib/a.py'', cs_root = ''/home/p'', cs_media = ''text/plain'',
    cs_ref = None, cs_digest = None\<rparr>"
  let ?pin = "\<lparr>sp_root = FsDir 3 [(''lib'', FsDir 4 [(''a.py'', FsFile 5 ''x = 1'')])],
    sp_source = FsFile 5 ''x = 1'', sp_content = ''x = 1'', sp_path = ''lib/a.py''\<rparr>"
  have mk: "mk_context_source ''/'' ''lib/a.py'' (Some ''/home/p'') ''text/plain'' None None = Inr ?s"
    by code_simp
  have pin: "pin_source ''/'' demo_tree ?s = Inr ?pin"
    by code_simp
  have cwd: "os_isabs ''/''" by code_simp
  show ?thesis
    using pinned_source_confined [OF mk cwd pin] mk pin
    by (intro exI [of _ ?s] exI [of _ ?pin]) simp
qed

end
