(* ===== verification/Px_Codecs.thy ===== *)
theory Px_Codecs
  imports Px_Handoff
begin

text \<open>
  The contract \<open>codec\<close> of \<open>Ws_Values\<close> for the values of \<open>src/leanctx_sdk/parallel_context.py\<close> that
  are fully decoded: fork lineage, state references, evidence references, policy inheritance and
  forks. What a constructor accepts is written down as a predicate; written out and read again, a
  value comes back.
\<close>

section \<open>Fork lineage\<close>

definition lineage_ok :: "fork_lineage \<Rightarrow> bool" where
  "lineage_ok l \<longleftrightarrow>
     is_uuid (fl_child l) \<and> is_uuid (fl_parent l) \<and> fl_child l \<noteq> fl_parent l \<and>
     is_uuid (fl_checkpoint l) \<and> is_digest (fl_digest l) \<and> is_digest (fl_envelope l) \<and>
     is_uuid (fl_fork l) \<and> (\<exists>e. is_uuid e \<and> fl_event l = ''event-id:'' @ e)"

lemma event_ref_split:
  "starts_with ''event-id:'' r \<and> is_uuid (remove_prefix ''event-id:'' r) \<longleftrightarrow>
     (\<exists>e. is_uuid e \<and> r = ''event-id:'' @ e)"
proof
  assume a: "starts_with ''event-id:'' r \<and> is_uuid (remove_prefix ''event-id:'' r)"
  then have "take 9 r = ''event-id:''" by (simp add: starts_with_def numeral_eq_Suc)
  then have "r = ''event-id:'' @ drop 9 r" by (metis append_take_drop_id)
  then show "\<exists>e. is_uuid e \<and> r = ''event-id:'' @ e"
    using a by (auto simp: remove_prefix_def numeral_eq_Suc intro!: exI [of _ "drop 9 r"])
qed (auto simp: starts_with_def remove_prefix_def)

lemma mk_lineage_Inr:
  "mk_lineage a b c d e f g = Inr l \<longleftrightarrow>
     lineage_ok l \<and> a = JStr (fl_child l) \<and> b = JStr (fl_parent l) \<and> c = JStr (fl_checkpoint l) \<and>
     d = JStr (fl_digest l) \<and> e = JStr (fl_envelope l) \<and> f = JStr (fl_fork l) \<and> g = JStr (fl_event l)"
proof -
  have "mk_lineage a b c d e f g = Inr l \<longleftrightarrow>
     is_uuid (fl_child l) \<and> is_uuid (fl_parent l) \<and> fl_child l \<noteq> fl_parent l \<and>
     is_uuid (fl_checkpoint l) \<and> is_digest (fl_digest l) \<and> is_digest (fl_envelope l) \<and>
     is_uuid (fl_fork l) \<and> (starts_with ''event-id:'' (fl_event l) \<and>
       is_uuid (remove_prefix ''event-id:'' (fl_event l))) \<and>
     a = JStr (fl_child l) \<and> b = JStr (fl_parent l) \<and> c = JStr (fl_checkpoint l) \<and>
     d = JStr (fl_digest l) \<and> e = JStr (fl_envelope l) \<and> f = JStr (fl_fork l) \<and> g = JStr (fl_event l)"
    unfolding mk_lineage_def
    by (cases l) (auto simp: rbind_eq_Inr_iff wuuid_Inr wdigest_Inr on_text_Inr check_eq_Inr_iff)
  then show ?thesis
    unfolding event_ref_split lineage_ok_def by blast
qed

lemma event_ref_strict: "is_uuid e \<Longrightarrow> strict_utf8 (''event-id:'' @ e)"
  using is_uuid_printable [of e] by (intro printable_strict) (simp add: printable_ascii_def)

interpretation lineage: codec lineage_to_dict lineage_from_dict lineage_ok
proof
  fix v l
  assume "lineage_from_dict v = Inr l"
  then show "lineage_ok l"
    unfolding lineage_from_dict_def rbind_eq_Inr_iff mk_lineage_Inr by blast
next
  fix l
  assume l: "lineage_ok l"
  show "lineage_from_dict (lineage_to_dict l) = Inr l"
    using l by (simp add: lineage_from_dict_def lineage_to_dict_def exact_same lineage_keys_def
        mk_lineage_Inr)
  have "strict_utf8 (fl_event l)"
    using l event_ref_strict by (auto simp: lineage_ok_def)
  then show "json_ok (lineage_to_dict l) \<and> is_obj (lineage_to_dict l)"
    using l is_uuid_strict [of "fl_child l"] is_uuid_strict [of "fl_parent l"]
      is_uuid_strict [of "fl_checkpoint l"] is_uuid_strict [of "fl_fork l"]
      is_digest_strict [of "fl_digest l"] is_digest_strict [of "fl_envelope l"]
    by (simp add: lineage_to_dict_def lineage_ok_def strict_utf8_def)
next
  fix v
  show "lineage_from_dict (jsort v) = lineage_from_dict v"
    by (simp add: lineage_from_dict_def mk_lineage_def)
qed

section \<open>State references\<close>

definition state_ref_ok :: "state_ref \<Rightarrow> bool" where
  "state_ref_ok r \<longleftrightarrow>
     is_uuid (sr_workspace r) \<and> is_uuid (sr_checkpoint r) \<and> is_digest (sr_digest r) \<and>
     is_digest (sr_envelope r) \<and>
     pred_option (\<lambda>l. lineage_ok l \<and> fl_child l = sr_workspace r) (sr_lineage r)"

lemma mk_state_ref_Inr:
  "mk_state_ref a b c d l = Inr r \<longleftrightarrow>
     is_uuid (sr_workspace r) \<and> is_uuid (sr_checkpoint r) \<and> is_digest (sr_digest r) \<and>
     is_digest (sr_envelope r) \<and> pred_option (\<lambda>l. fl_child l = sr_workspace r) (sr_lineage r) \<and>
     a = JStr (sr_workspace r) \<and> b = JStr (sr_checkpoint r) \<and> c = JStr (sr_digest r) \<and>
     d = JStr (sr_envelope r) \<and> l = sr_lineage r"
  unfolding mk_state_ref_def
  by (cases r; cases l) (auto simp: rbind_eq_Inr_iff wuuid_Inr wdigest_Inr check_eq_Inr_iff)

interpretation state_ref: codec state_ref_to_dict state_ref_from_dict state_ref_ok
proof
  fix v r
  assume "state_ref_from_dict v = Inr r"
  then obtain l where l: "opt_from lineage_from_dict (jat ''fork_lineage'' v) = Inr l"
    and r: "mk_state_ref (jat ''workspace_id'' v) (jat ''checkpoint_id'' v) (jat ''state_digest'' v)
       (jat ''checkpoint_envelope_digest'' v) l = Inr r"
    unfolding state_ref_from_dict_def rbind_eq_Inr_iff by blast
  then show "state_ref_ok r"
    using lineage.opt_dec_ok [OF l]
    by (cases "sr_lineage r") (auto simp: mk_state_ref_Inr state_ref_ok_def)
next
  fix r
  assume r: "state_ref_ok r"
  have l: "pred_option lineage_ok (sr_lineage r)"
    using r by (cases "sr_lineage r") (auto simp: state_ref_ok_def)
  have "pred_option (\<lambda>l. fl_child l = sr_workspace r) (sr_lineage r)"
    using r by (cases "sr_lineage r") (auto simp: state_ref_ok_def)
  then show "state_ref_from_dict (state_ref_to_dict r) = Inr r"
    using r lineage.opt_dec_enc [OF l]
    by (simp add: state_ref_from_dict_def state_ref_to_dict_def exact_same state_ref_keys_def
        mk_state_ref_Inr state_ref_ok_def)
  show "json_ok (state_ref_to_dict r) \<and> is_obj (state_ref_to_dict r)"
    using r lineage.opt_enc_ok [OF l] is_uuid_strict [of "sr_workspace r"]
      is_uuid_strict [of "sr_checkpoint r"] is_digest_strict [of "sr_digest r"]
      is_digest_strict [of "sr_envelope r"]
    by (simp add: state_ref_to_dict_def state_ref_ok_def strict_utf8_def)
next
  fix v
  assume "json_wf v"
  then show "state_ref_from_dict (jsort v) = state_ref_from_dict v"
    by (simp add: state_ref_from_dict_def mk_state_ref_def lineage.opt_jsort)
qed

section \<open>Evidence references\<close>

definition evidence_ok :: "evidence_ref \<Rightarrow> bool" where
  "evidence_ok r \<longleftrightarrow>
     is_uuid (er_workspace r) \<and> is_uuid (er_checkpoint r) \<and> is_digest (er_digest r) \<and>
     str_list_ok (text_ok 512) MAX_HANDOFF_ANCHORS (er_sources r) \<and>
     str_list_ok (text_ok 512) MAX_HANDOFF_RECOVERY_REFS (er_receipts r) \<and>
     str_list_ok (text_ok 512) MAX_HANDOFF_RECOVERY_REFS (er_recovery r)"

lemma mk_evidence_ok: "mk_evidence a b c d e f = Inr r \<Longrightarrow> evidence_ok r"
  unfolding mk_evidence_def
  by (auto simp: rbind_eq_Inr_iff wuuid_Inr wdigest_Inr punique_Inr evidence_ok_def)

lemma punique_canonical: "str_list_ok (text_ok 512) n r \<Longrightarrow> punique n (map JStr r) = Inr r"
  by (auto simp: punique_Inr str_list_ok_def)

lemma jitems_jsort: "is_arr v \<Longrightarrow> jitems (jsort v) = map jsort (jitems v)"
  by (cases v) (simp_all add: jitems_def)

lemma punique_jsort [simp]: "punique n (map jsort xs) = punique n xs"
  by (simp add: punique_def mapr_jsort)

lemma jitems_jstrs [simp]: "jitems (jstrs r) = map JStr r"
  by (simp add: jitems_def jstrs_def)

interpretation evidence: codec evidence_to_dict evidence_from_dict evidence_ok
proof
  fix v r
  assume "evidence_from_dict v = Inr r"
  then show "evidence_ok r"
    unfolding evidence_from_dict_def rbind_eq_Inr_iff using mk_evidence_ok by blast
next
  fix r
  assume r: "evidence_ok r"
  have "wuuid (JStr (er_workspace r)) = Inr (er_workspace r)"
      "wuuid (JStr (er_checkpoint r)) = Inr (er_checkpoint r)"
      "wdigest (JStr (er_digest r)) = Inr (er_digest r)"
    using r by (simp_all add: evidence_ok_def wuuid_Inr wdigest_Inr)
  then show "evidence_from_dict (evidence_to_dict r) = Inr r"
    using r by (simp add: evidence_from_dict_def evidence_to_dict_def exact_same evidence_keys_def
        mk_evidence_def evidence_ok_def punique_canonical)
  have "json_ok (jstrs (er_sources r))" "json_ok (jstrs (er_receipts r))" "json_ok (jstrs (er_recovery r))"
    using r by (auto simp: evidence_ok_def intro: str_list_strict text_ok_strict)
  then show "json_ok (evidence_to_dict r) \<and> is_obj (evidence_to_dict r)"
    using r is_uuid_strict [of "er_workspace r"] is_uuid_strict [of "er_checkpoint r"]
      is_digest_strict [of "er_digest r"]
    by (simp add: evidence_to_dict_def evidence_ok_def strict_utf8_def)
next
  fix v
  show "evidence_from_dict (jsort v) = evidence_from_dict v"
    unfolding evidence_from_dict_def
    by (cases "is_arr (jat ''source_ids'' v) \<and> is_arr (jat ''receipt_refs'' v) \<and> is_arr (jat ''recovery_refs'' v)")
      (auto simp: mk_evidence_def jitems_jsort)
qed

section \<open>Policy inheritance\<close>

definition inheritance_ok :: "inheritance \<Rightarrow> bool" where
  "inheritance_ok i \<longleftrightarrow>
     policy_ok (in_parent i) \<and> policy_ok (in_effective i) \<and>
     create_inheritance (in_parent i) (Some (in_effective i)) = Inr i"

lemma create_inheritance_Inr:
  assumes "create_inheritance p (Some q) = Inr i"
  shows "in_parent i = p" "in_effective i = q" "in_requested i = q" "is_tightening q p"
    "in_relation i = (if q = p then ''equal'' else ''tightened'')"
    "is_digest (in_parent_digest i)" "is_digest (in_digest i)"
  using assms
  unfolding create_inheritance_def mk_inheritance_def Let_def option.case rbind_eq_Inr_iff
    check_eq_Inr_iff wdigest_Inr
  by auto

interpretation inheritance: codec inheritance_to_dict inheritance_from_dict inheritance_ok
proof
  fix v i
  assume "inheritance_from_dict v = Inr i"
  then obtain p q e where p: "policy_from_dict (jat ''parent_policy'' v) = Inr p"
      and q: "policy_from_dict (jat ''requested_child_policy'' v) = Inr q"
      and i: "create_inheritance p (Some q) = Inr i"
    unfolding inheritance_from_dict_def rbind_eq_Inr_iff sum.inject by blast
  then show "inheritance_ok i"
    using policy.dec_ok [OF p] policy.dec_ok [OF q] i create_inheritance_Inr [OF i]
    by (simp add: inheritance_ok_def)
next
  fix i
  assume i: "inheritance_ok i"
  then have c: "create_inheritance (in_parent i) (Some (in_effective i)) = Inr i"
    by (simp add: inheritance_ok_def)
  note f = create_inheritance_Inr [OF c]
  have pe: "policy_from_dict (policy_to_dict (in_parent i)) = Inr (in_parent i)"
      "policy_from_dict (policy_to_dict (in_effective i)) = Inr (in_effective i)"
    using i policy.dec_enc by (simp_all add: inheritance_ok_def)
  show "inheritance_from_dict (inheritance_to_dict i) = Inr i"
    using c pe f(3)
    by (simp add: inheritance_from_dict_def inheritance_to_dict_def inheritance_base_def exact_same
        inheritance_keys_def)
  have "json_ok (policy_to_dict (in_parent i))" "json_ok (policy_to_dict (in_effective i))"
    using i policy.enc_ok by (simp_all add: inheritance_ok_def)
  moreover have "strict_utf8 (in_relation i)"
    using f(5) by (simp add: strict_utf8_def)
  ultimately show "json_ok (inheritance_to_dict i) \<and> is_obj (inheritance_to_dict i)"
    using f(3) is_digest_strict [OF f(6)] is_digest_strict [OF f(7)]
    by (simp add: inheritance_to_dict_def inheritance_base_def strict_utf8_def)
next
  fix v
  assume "json_wf v"
  then show "inheritance_from_dict (jsort v) = inheritance_from_dict v"
    by (simp add: inheritance_from_dict_def policy.dec_jsort)
qed

section \<open>Forks\<close>

definition fork_ok :: "ws_fork \<Rightarrow> bool" where
  "fork_ok f \<longleftrightarrow>
     state_ref_ok (fk_source f) \<and> lineage_ok (fk_lineage f) \<and> inheritance_ok (fk_policy f) \<and>
     is_uuid (fk_id f) \<and> is_uuid (fk_child f) \<and> text_ok 128 (fk_name f) \<and>
     fk_id f = fl_fork (fk_lineage f) \<and> fk_child f = fl_child (fk_lineage f) \<and>
     sr_workspace (fk_source f) = fl_parent (fk_lineage f) \<and>
     sr_checkpoint (fk_source f) = fl_checkpoint (fk_lineage f) \<and>
     sr_digest (fk_source f) = fl_digest (fk_lineage f) \<and>
     sr_envelope (fk_source f) = fl_envelope (fk_lineage f) \<and>
     pred_option is_digest (fk_lock f) \<and> is_digest (fk_content f) \<and>
     pred_option (text_ok 512) (fk_execution f) \<and>
     \<not> px_sensitive (JObj [(''child_name'', JStr (fk_name f)), (''execution_ref'', opt_str (fk_execution f))]) \<and>
     domain_digest ''leanctx.workspace-fork.v1''
       (JObj (fork_digest_dict (fk_id f) (fk_source f) (fk_child f) (fk_name f) (fk_lineage f)
          (fk_policy f) (fk_lock f) (fk_content f) (fk_execution f))) = Inr (fk_digest f)"

lemma wopt_text_iff: "wopt_text n v = Inr x \<longleftrightarrow> v = opt_str x \<and> pred_option (text_ok n) x"
  by (cases x) (auto simp: wopt_text_Inr)

lemma mk_fork_Inr:
  assumes "state_ref_ok s" "lineage_ok l" "inheritance_ok p"
  shows "mk_fork a s b c l p d e x g = Inr f \<longleftrightarrow>
    fork_ok f \<and> fk_source f = s \<and> fk_lineage f = l \<and> fk_policy f = p \<and> a = JStr (fk_id f) \<and>
    b = JStr (fk_child f) \<and> c = JStr (fk_name f) \<and> d = opt_str (fk_lock f) \<and> e = JStr (fk_content f) \<and>
    x = opt_str (fk_execution f) \<and> g = JStr (fk_digest f)"
  using assms unfolding mk_fork_def
  by (cases f) (auto simp: rbind_eq_Inr_iff wuuid_Inr wdigest_Inr wtext_Inr check_eq_Inr_iff
      opt_sha_Inr wopt_text_iff px_reject_sensitive_Inr fork_ok_def intro: domain_digest_shape)

interpretation fork: codec fork_to_dict fork_from_dict fork_ok
proof
  fix v f
  assume "fork_from_dict v = Inr f"
  then obtain s l p where p: "state_ref_from_dict (jat ''source'' v) = Inr s"
      "lineage_from_dict (jat ''lineage'' v) = Inr l"
      "inheritance_from_dict (jat ''policy_inheritance'' v) = Inr p"
    and f: "mk_fork (jat ''fork_id'' v) s (jat ''child_workspace_id'' v) (jat ''child_name'' v) l
       p (jat ''package_lock_digest'' v) (jat ''inherited_content_digest'' v)
       (jat ''execution_ref'' v) (jat ''fork_digest'' v) = Inr f"
    unfolding fork_from_dict_def rbind_eq_Inr_iff by blast
  then show "fork_ok f"
    using mk_fork_Inr [OF state_ref.dec_ok [OF p(1)] lineage.dec_ok [OF p(2)] inheritance.dec_ok [OF p(3)]]
    by blast
next
  fix f
  assume f: "fork_ok f"
  then have ok: "state_ref_ok (fk_source f)" "lineage_ok (fk_lineage f)" "inheritance_ok (fk_policy f)"
    by (simp_all add: fork_ok_def)
  show "fork_from_dict (fork_to_dict f) = Inr f"
    using f state_ref.dec_enc [OF ok(1)] lineage.dec_enc [OF ok(2)] inheritance.dec_enc [OF ok(3)]
    by (simp add: fork_from_dict_def fork_to_dict_def fork_digest_dict_def exact_same fork_keys_def
        mk_fork_Inr [OF ok])
  have "is_digest (fk_digest f)"
    using f domain_digest_shape by (auto simp: fork_ok_def)
  moreover have "is_digest (fk_content f)" "is_uuid (fk_id f)" "is_uuid (fk_child f)" "text_ok 128 (fk_name f)"
    using f unfolding fork_ok_def by blast+
  ultimately have "strict_utf8 (fk_digest f)" "strict_utf8 (fk_content f)" "strict_utf8 (fk_id f)"
      "strict_utf8 (fk_child f)" "strict_utf8 (fk_name f)"
    by (auto intro: strict_rules)
  moreover have "json_ok (opt_str (fk_lock f))" "json_ok (opt_str (fk_execution f))"
    using f is_digest_strict by (cases "fk_lock f"; auto simp: fork_ok_def strict_utf8_def intro: opt_str_ok)+
  ultimately show "json_ok (fork_to_dict f) \<and> is_obj (fork_to_dict f)"
    using state_ref.enc_ok [OF ok(1)] lineage.enc_ok [OF ok(2)] inheritance.enc_ok [OF ok(3)]
    by (simp add: fork_to_dict_def fork_digest_dict_def strict_utf8_def)
next
  fix v
  assume "json_wf v"
  then have "state_ref_from_dict (jsort (jat ''source'' v)) = state_ref_from_dict (jat ''source'' v)"
      "lineage_from_dict (jsort (jat ''lineage'' v)) = lineage_from_dict (jat ''lineage'' v)"
      "inheritance_from_dict (jsort (jat ''policy_inheritance'' v)) = inheritance_from_dict (jat ''policy_inheritance'' v)"
    using state_ref.dec_jsort lineage.dec_jsort inheritance.dec_jsort by simp_all
  then show "fork_from_dict (jsort v) = fork_from_dict v"
    by (simp add: fork_from_dict_def mk_fork_def opt_sha_def cong: if_cong)
qed

end
