(* ===== verification/Ws_Invariant.thy ===== *)
theory Ws_Invariant
  imports Ws_Events Px_Codecs
begin

text \<open>
  The invariant of a workspace's state and the facts every event keeps: the parts decode, no entry
  names a source that is not attached, the package lock fits the pins, the policy only tightens,
  the log only grows. One lemma per branch of \<open>apply_kind\<close>, then one for \<open>apply_event\<close>.
\<close>

section \<open>Logical components\<close>

definition sources_ok :: "(pystr \<times> source_anchor) list \<Rightarrow> bool" where
  "sources_ok ss \<longleftrightarrow>
     distinct (map fst ss) \<and> list_all (\<lambda>q. fst q = an_id (snd q) \<and> anchor_ok True (snd q)) ss"

definition pins_ok :: "(pin_key \<times> package_pin) list \<Rightarrow> bool" where
  "pins_ok ps \<longleftrightarrow>
     distinct (map fst ps) \<and> list_all (\<lambda>q. fst q = pin_key (snd q) \<and> pin_ok (snd q)) ps"

definition entries_ok :: "pystr set \<Rightarrow> ctx_entry list \<Rightarrow> bool" where
  "entries_ok ids es \<longleftrightarrow> list_all (\<lambda>e. entry_ok e \<and> set (en_sources e) \<subseteq> ids) es"

definition components_ok :: "components \<Rightarrow> bool" where
  "components_ok c \<longleftrightarrow>
     policy_ok (lc_policy c) \<and> sources_ok (lc_sources c) \<and> sorted (map fst (lc_sources c)) \<and>
     entries_ok (set (map fst (lc_sources c))) (lc_entries c) \<and> distinct (map en_id (lc_entries c)) \<and>
     pins_ok (lc_pins c) \<and> sorted (map fst (lc_pins c)) \<and>
     package_lock (map snd (lc_pins c)) = Inr (lc_lock c)"

lemma entry_from_input_ok: "mapr entry_from_input vs = Inr es \<Longrightarrow> list_all entry_ok es"
  using mapr_Inr_setD [of entry_from_input vs es] entry.dec_ok
  by (fastforce simp: list_all_iff entry_from_input_def split: if_splits)

lemma entry_from_input_enc: "entry_ok e \<Longrightarrow> entry_from_input (entry_to_dict e) = Inr e"
  using entry.dec_enc entry.enc_ok by (simp add: entry_from_input_def)

lemma logical_components_ok:
  assumes "logical_components v w = Inr c"
  shows "components_ok c"
proof -
  obtain policy anchors entries pins lock where
      p: "policy_from_dict (jat ''policy'' v) = Inr policy"
    and a: "mapr (anchor_from_dict True) (jitems (jat ''sources'' v)) = Inr anchors"
    and e: "mapr entry_from_input (jitems (jat ''entries'' v)) = Inr entries"
    and k: "mapr pin_from_dict (jitems (jat ''package_pins'' v)) = Inr pins"
    and d: "distinct (map an_id anchors)" "sorted (map an_id anchors)"
      "list_all (\<lambda>e. list_all (\<lambda>s. s \<in> set (map an_id anchors)) (en_sources e)) entries"
      "distinct (map en_id entries)" "distinct (map pin_key pins) \<and> sorted (map pin_key pins)"
    and l: "package_lock pins = Inr lock"
    and c: "c = \<lparr>lc_policy = policy, lc_sources = map (\<lambda>a. (an_id a, a)) anchors,
       lc_entries = entries, lc_pins = map (\<lambda>p. (pin_key p, p)) pins, lc_lock = lock\<rparr>"
    using assms unfolding logical_components_def Let_def rbind_eq_Inr_iff check_eq_Inr_iff
    by blast
  have "list_all (anchor_ok True) anchors" "list_all entry_ok entries" "list_all pin_ok pins"
    using anchor.mapr_dec_ok [OF a] entry_from_input_ok [OF e] pin.mapr_dec_ok [OF k] by blast+
  then show ?thesis
    using policy.dec_ok [OF p] d l
    by (auto simp: components_ok_def c sources_ok_def pins_ok_def entries_ok_def list_all_iff
        comp_def)
qed

section \<open>What each branch does\<close>

lemma apply_created_Inr:
  assumes "apply_created event payload s = Inr t"
  shows "\<exists>i p. identity_from_dict (jat ''identity'' payload) = Inr i \<and>
    policy_from_dict (jat ''policy'' payload) = Inr p \<and> s_events s = [] \<and> s_identity s = None \<and>
    jget ''workspace_id'' event = Some (JStr (wi_id i)) \<and>
    t = s\<lparr>s_identity := Some i, s_policy := Some p, s_lifecycle := ''active''\<rparr>"
  using assms
  unfolding apply_created_def rbind_eq_Inr_iff need_Inr trying_Inr sum.inject jfield_def of_option_eq_Inr_iff
  by blast

lemma apply_source_Inr:
  assumes "apply_source update allowed payload p s = Inr t"
  shows "\<exists>a. anchor_from_dict allowed (jat ''anchor'' payload) = Inr a \<and>
    (an_id a \<in> set (map fst (s_sources s)) \<longleftrightarrow> update) \<and> ensure_external s a = Inr () \<and>
    t = s\<lparr>s_sources := dict_put (an_id a) a (s_sources s)\<rparr>"
proof -
  obtain a w x where a: "anchor_from_dict allowed (jat ''anchor'' payload) = Inr a"
      "ensure_external s a = Inr w" "t = s\<lparr>s_sources := dict_put (an_id a) a (s_sources s)\<rparr>"
    and u: "(case (update, map_of (s_sources s) (an_id a)) of
          (False, Some _) \<Rightarrow> Inl (Corrupt, s)
        | (False, None) \<Rightarrow> need (int (length (s_sources s)) + 1 \<le> po_sources p) Incompatible s
        | (True, None) \<Rightarrow> Inl (Corrupt, s)
        | (True, Some previous) \<Rightarrow>
            rbind (incompat s (wdigest (jat ''previous_anchor_digest'' payload))) (\<lambda>d.
            rbind (incompat s (anchor_digest previous)) (\<lambda>d'. need (d = d') Corrupt s))) = Inr x"
    using assms unfolding apply_source_def rbind_eq_Inr_iff trying_Inr sum.inject by blast
  have "map_of (s_sources s) (an_id a) \<noteq> None \<longleftrightarrow> update"
    using u by (cases update; cases "map_of (s_sources s) (an_id a)") auto
  then show ?thesis
    using a by (auto simp: map_of_eq_None_iff)
qed

lemma apply_policy_Inr:
  assumes "apply_policy payload p s = Inr t"
  shows "\<exists>q. policy_from_dict (jat ''policy'' payload) = Inr q \<and> is_tightening q p \<and>
    list_all (\<lambda>e. en_category e \<in> set (po_categories q)) (s_entries s) \<and>
    (po_external q \<or> list_all (\<lambda>a. an_kind (snd a) = ''filesystem'') (s_sources s)) \<and>
    t = s\<lparr>s_policy := Some q\<rparr>"
  using assms unfolding apply_policy_def rbind_eq_Inr_iff need_Inr trying_Inr sum.inject by blast

definition session_ok :: "session_record \<Rightarrow> bool" where
  "session_ok r \<longleftrightarrow>
     text_ok 512 (sn_session r) \<and> text_ok 512 (sn_task r) \<and>
     str_list_ok (text_ok 128) MAX_SOURCE_IDS (sn_sources r)"

lemma apply_session_Inr:
  assumes "apply_session payload p s = Inr t"
  shows "\<exists>r. session_ok r \<and> sn_session r \<notin> set (map sn_session (s_sessions s)) \<and>
    set (sn_sources r) \<subseteq> set (map fst (s_sources s)) \<and> sn_sources r \<noteq> [] \<and>
    t = s\<lparr>s_sessions := s_sessions s @ [r]\<rparr>"
proof -
  obtain sid tid ids where "text_ok 512 sid" "text_ok 512 tid" "str_list_ok (text_ok 128) MAX_SOURCE_IDS ids"
      "ids \<noteq> []" "sid \<notin> set (map sn_session (s_sessions s))"
      "list_all (\<lambda>i. i \<in> set (map fst (s_sources s))) ids"
      "t = s\<lparr>s_sessions := s_sessions s @ [\<lparr>sn_session = sid, sn_task = tid, sn_sources = ids\<rparr>]\<rparr>"
    using assms unfolding apply_session_def rbind_eq_Inr_iff need_Inr trying_Inr sum.inject wtext_Inr wids_Inr
    by blast
  then show ?thesis
    by (intro exI [of _ "\<lparr>sn_session = sid, sn_task = tid, sn_sources = ids\<rparr>"])
      (auto simp: list_all_iff session_ok_def)
qed

lemma check_entries_Inr:
  "mapr (check_entry p s) es = Inr us \<Longrightarrow>
     list_all (\<lambda>e. set (en_sources e) \<subseteq> set (map fst (s_sources s)) \<and>
       en_category e \<in> set (po_categories p) \<and> int (length (en_value e)) \<le> po_entry_bytes p) es"
proof (induction es arbitrary: us)
  case (Cons e es)
  then obtain us' where e: "check_entry p s e = Inr ()" and es: "mapr (check_entry p s) es = Inr us'"
    by (auto simp: rbind_eq_Inr_iff)
  have "list_all (\<lambda>i. i \<in> set (map fst (s_sources s))) (en_sources e)"
      "en_category e \<in> set (po_categories p)" "int (length (en_value e)) \<le> po_entry_bytes p"
    using e unfolding check_entry_def rbind_eq_Inr_iff need_Inr by blast+
  then show ?case
    using Cons.IH [OF es] by (auto simp: list_all_iff)
qed simp

lemma apply_context_Inr:
  assumes "apply_context payload p s = Inr t"
  shows "\<exists>es. mapr entry_from_input (jitems (jat ''entries'' payload)) = Inr es \<and> es \<noteq> [] \<and>
    check_provenance s (jat ''provenance'' payload) es = Inr () \<and>
    set (map en_id es) \<inter> set (map en_id (s_entries s)) = {} \<and>
    list_all (\<lambda>e. set (en_sources e) \<subseteq> set (map fst (s_sources s)) \<and>
       en_category e \<in> set (po_categories p) \<and> int (length (en_value e)) \<le> po_entry_bytes p) es \<and>
    t = s\<lparr>s_entries := s_entries s @ es\<rparr>"
proof -
  obtain es us w where es: "jitems (jat ''entries'' payload) \<noteq> []"
      "mapr entry_from_input (jitems (jat ''entries'' payload)) = Inr es"
      "check_provenance s (jat ''provenance'' payload) es = Inr w"
      "list_all (\<lambda>e. en_id e \<notin> set (map en_id (s_entries s))) es"
      "mapr (check_entry p s) es = Inr us" "t = s\<lparr>s_entries := s_entries s @ es\<rparr>"
    using assms unfolding apply_context_def Let_def rbind_eq_Inr_iff need_Inr trying_Inr sum.inject
    by blast
  moreover have "es \<noteq> []"
    using mapr_length [OF es(2)] es(1) by auto
  moreover have "set (map en_id es) \<inter> set (map en_id (s_entries s)) = {}"
    using es(4) by (auto simp: list_all_iff)
  ultimately show ?thesis
    using es(2,3,6) check_entries_Inr [OF es(5)] by (intro exI [of _ es]) simp
qed

lemma apply_pin_Inr:
  assumes "apply_pin payload s = Inr t"
  shows "\<exists>pin lock. pin_from_dict (jat ''pin'' payload) = Inr pin \<and>
    pin_key pin \<notin> set (map fst (s_pins s)) \<and>
    list_all (\<lambda>q. pk_name (snd q) = pk_name pin \<longrightarrow> pk_artifact (snd q) = pk_artifact pin) (s_pins s) \<and>
    length (s_pins s) < MAX_PACKAGE_PINS \<and>
    package_lock (map snd (s_pins s @ [(pin_key pin, pin)])) = Inr lock \<and>
    t = s\<lparr>s_pins := s_pins s @ [(pin_key pin, pin)], s_lock := lock\<rparr>"
proof -
  obtain pin lock w where pin: "pin_from_dict (jat ''pin'' payload) = Inr pin"
      "(case map_of (s_pins s) (pin_key pin) of None \<Rightarrow> Inr ()
        | Some existing \<Rightarrow> rbind (need (py_eq (pin_to_dict existing) (pin_to_dict pin)) Corrupt s) (\<lambda>_.
            Inl (Incompatible, s))) = Inr w"
      "list_all (\<lambda>q. pk_name (snd q) = pk_name pin \<longrightarrow> pk_artifact (snd q) = pk_artifact pin) (s_pins s)"
      "length (s_pins s) + 1 \<le> MAX_PACKAGE_PINS"
      "package_lock (map snd (dict_put (pin_key pin) pin (s_pins s))) = Inr lock"
      "t = s\<lparr>s_pins := dict_put (pin_key pin) pin (s_pins s), s_lock := lock\<rparr>"
    using assms unfolding apply_pin_def Let_def rbind_eq_Inr_iff need_Inr trying_Inr sum.inject
    by (elim exE conjE) (rule that, assumption+, rule sym)
  have new: "pin_key pin \<notin> set (map fst (s_pins s))"
    using pin(2) by (cases "map_of (s_pins s) (pin_key pin)")
      (auto simp: map_of_eq_None_iff rbind_eq_Inr_iff)
  then have "dict_put (pin_key pin) pin (s_pins s) = s_pins s @ [(pin_key pin, pin)]"
    by (intro dict_put_new) auto
  then show ?thesis
    using pin new by auto
qed

lemma state_identity_Inr [ok_simps]: "state_identity s = Inr i \<longleftrightarrow> s_identity s = Some i"
  by (simp add: state_identity_def ok_simps)

lemma apply_checkpoint_Inr:
  assumes "apply_checkpoint payload s = Inr t"
  shows "\<exists>c i ls. checkpoint_from_dict (jat ''checkpoint'' payload) = Inr c \<and> s_identity s = Some i \<and>
    ck_id c \<notin> set (map fst (s_checkpoints s)) \<and> length (s_checkpoints s) < MAX_CHECKPOINTS \<and>
    ck_workspace c = wi_id i \<and> ck_state_ref c = ''event:'' @ s_last s \<and>
    logical_digest s = Inr (ck_state_digest c) \<and> logical_state s = Inr ls \<and> py_eq (ck_logical c) ls \<and>
    t = s\<lparr>s_checkpoints := s_checkpoints s @ [(ck_id c, c)]\<rparr>"
proof -
  obtain c i ls d where c: "checkpoint_from_dict (jat ''checkpoint'' payload) = Inr c"
      "s_identity s = Some i" "ck_id c \<notin> set (map fst (s_checkpoints s))"
      "length (s_checkpoints s) + 1 \<le> MAX_CHECKPOINTS" "ck_workspace c = wi_id i"
      "ck_state_ref c = ''event:'' @ s_last s" "logical_digest s = Inr d" "ck_state_digest c = d"
      "logical_state s = Inr ls" "py_eq (ck_logical c) ls"
      "t = s\<lparr>s_checkpoints := dict_put (ck_id c) c (s_checkpoints s)\<rparr>"
    using assms
    unfolding apply_checkpoint_def rbind_eq_Inr_iff need_Inr trying_Inr sum.inject state_identity_Inr
    by blast
  moreover have "dict_put (ck_id c) c (s_checkpoints s) = s_checkpoints s @ [(ck_id c, c)]"
    using c(3) by (intro dict_put_new) auto
  ultimately show ?thesis
    by (intro exI [of _ c] exI [of _ i] exI [of _ ls]) simp
qed

lemma apply_restored_Inr:
  assumes "apply_restored payload p s = Inr t"
  shows "\<exists>cid c i lc. jat ''checkpoint_id'' payload = JStr cid \<and>
    jat ''checkpoint_envelope_digest'' payload = JStr (ck_envelope c) \<and>
    map_of (s_checkpoints s) cid = Some c \<and> s_identity s = Some i \<and>
    logical_components (ck_logical c) (wi_id i) = Inr lc \<and> is_tightening (lc_policy lc) p \<and>
    t = with_components lc (s\<lparr>s_policy := Some (lc_policy lc)\<rparr>) \<and>
    ensure_all_external t (lc_sources lc) = Inr ()"
proof -
  obtain cid c i lc d w where "jat ''checkpoint_id'' payload = JStr cid"
      "jat ''checkpoint_envelope_digest'' payload = JStr d" "ck_envelope c = d"
      "map_of (s_checkpoints s) cid = Some c" "s_identity s = Some i"
      "logical_components (ck_logical c) (wi_id i) = Inr lc" "is_tightening (lc_policy lc) p"
      "ensure_all_external (with_components lc (s\<lparr>s_policy := Some (lc_policy lc)\<rparr>)) (lc_sources lc) = Inr w"
      "t = with_components lc (s\<lparr>s_policy := Some (lc_policy lc)\<rparr>)"
    using assms
    unfolding apply_restored_def Let_def rbind_eq_Inr_iff need_Inr trying_Inr sum.inject
      state_identity_Inr of_option_eq_Inr_iff wuuid_Inr wdigest_Inr
    by blast
  then show ?thesis
    by (intro exI [of _ cid] exI [of _ c] exI [of _ i] exI [of _ lc]) simp
qed

lemma apply_seeded_Inr:
  assumes "apply_seeded payload p s = Inr t"
  shows "\<exists>c i lc trusted. s_sources s = [] \<and> s_entries s = [] \<and> s_checkpoints s = [] \<and>
    length (s_events s) = 1 \<and> checkpoint_from_dict (jat ''checkpoint'' payload) = Inr c \<and>
    seed_admission (jat ''package'' payload) (jat ''admission'' payload) = Inr trusted \<and>
    s_identity s = Some i \<and> logical_components (ck_logical c) (wi_id i) = Inr lc \<and>
    py_eq (policy_to_dict (lc_policy lc)) (policy_to_dict p) \<and>
    (trusted \<or> list_all (\<lambda>a. tr_level (an_trust (snd a)) \<noteq> ''verified'') (lc_sources lc)) \<and>
    t = with_components lc (s\<lparr>s_checkpoints := [(ck_id c, c)]\<rparr>) \<and>
    ensure_all_external t (lc_sources lc) = Inr ()"
proof -
  obtain c i lc trusted w where "s_sources s = []" "s_entries s = []" "s_checkpoints s = []"
      "length (s_events s) = 1" "checkpoint_from_dict (jat ''checkpoint'' payload) = Inr c"
      "seed_admission (jat ''package'' payload) (jat ''admission'' payload) = Inr trusted"
      "s_identity s = Some i" "logical_components (ck_logical c) (wi_id i) = Inr lc"
      "py_eq (policy_to_dict (lc_policy lc)) (policy_to_dict p)"
      "trusted \<or> list_all (\<lambda>a. tr_level (an_trust (snd a)) \<noteq> ''verified'') (lc_sources lc)"
      "ensure_all_external (with_components lc
         (s\<lparr>s_checkpoints := dict_put (ck_id c) c (s_checkpoints s)\<rparr>)) (lc_sources lc) = Inr w"
      "t = with_components lc (s\<lparr>s_checkpoints := dict_put (ck_id c) c (s_checkpoints s)\<rparr>)"
    using assms
    unfolding apply_seeded_def Let_def rbind_eq_Inr_iff need_Inr trying_Inr sum.inject
      state_identity_Inr
    by blast
  then show ?thesis
    by (intro exI [of _ c] exI [of _ i] exI [of _ lc] exI [of _ trusted]) simp
qed

lemma apply_sealed_Inr: "apply_sealed payload s = Inr t \<Longrightarrow> t = s"
  unfolding apply_sealed_def rbind_eq_Inr_iff by blast

lemma apply_aborted_Inr: "apply_aborted payload s = Inr t \<Longrightarrow> t = s\<lparr>s_lifecycle := ''aborted''\<rparr>"
  unfolding apply_aborted_def rbind_eq_Inr_iff by blast

lemma without_binding_Inr:
  assumes "without_binding a = Inr b" "anchor_ok v a"
  shows "b = a\<lparr>an_binding := None\<rparr> \<and> anchor_ok v b"
proof -
  have b: "b = a\<lparr>an_binding := None\<rparr>"
    using assms(1) unfolding without_binding_def mk_anchor_def rbind_eq_Inr_iff
    by (auto simp: wtext_Inr member_Inr)
  then show ?thesis
    using assms(2) by (simp add: anchor_ok_def split: option.splits)
qed

lemma unbound_sources:
  assumes "mapr (\<lambda>q. rbind (without_binding (snd q)) (\<lambda>a. Inr (fst q, a))) ss = Inr ts"
    and "list_all (\<lambda>q. fst q = an_id (snd q) \<and> anchor_ok v (snd q)) ss"
  shows "ts = map (\<lambda>q. (fst q, (snd q)\<lparr>an_binding := None\<rparr>)) ss \<and>
    list_all (\<lambda>q. fst q = an_id (snd q) \<and> anchor_ok v (snd q)) ts"
  using assms
proof (induction ss arbitrary: ts)
  case (Cons q ss)
  then obtain a ts' where a: "without_binding (snd q) = Inr a" "ts = (fst q, a) # ts'"
    and ts': "mapr (\<lambda>q. rbind (without_binding (snd q)) (\<lambda>a. Inr (fst q, a))) ss = Inr ts'"
    by (auto simp: rbind_eq_Inr_iff)
  have "anchor_ok v (snd q)" "fst q = an_id (snd q)"
    using Cons.prems(2) by auto
  then have "a = (snd q)\<lparr>an_binding := None\<rparr>" "anchor_ok v a" "fst q = an_id a"
    using without_binding_Inr [OF a(1)] by auto
  then show ?case
    using Cons.IH [OF ts'] Cons.prems(2) a(2) by (cases q) auto
qed simp

lemma apply_forked_Inr:
  assumes "apply_forked event_id payload i p s = Inr t"
  shows "\<exists>fork inherited lc. length (s_events s) = 1 \<and> s_fork s = None \<and> s_sources s = [] \<and>
    s_entries s = [] \<and> s_sessions s = [] \<and> s_pins s = [] \<and>
    fork_from_dict (jat ''fork'' payload) = Inr fork \<and>
    py_mapping (jat ''inherited_state'' payload) = Inr inherited \<and>
    logical_components (JObj (dict_put ''workspace_id'' (JStr (sr_workspace (fk_source fork))) inherited))
      (sr_workspace (fk_source fork)) = Inr lc \<and>
    fk_child fork = wi_id i \<and> fl_event (fk_lineage fork) = ''event-id:'' @ event_id \<and>
    in_parent (fk_policy fork) = lc_policy lc \<and> in_effective (fk_policy fork) = p \<and>
    fk_lock fork = lc_lock lc \<and>
    domain_digest ''leanctx.fork.inherited-content.v1'' (jat ''inherited_state'' payload) =
      Inr (fk_content fork) \<and>
    t = s\<lparr>s_sources := map (\<lambda>q. (fst q, (snd q)\<lparr>an_binding := None\<rparr>)) (lc_sources lc),
      s_entries := lc_entries lc, s_pins := lc_pins lc, s_lock := lc_lock lc,
      s_fork := Some (lineage_to_dict (fk_lineage fork))\<rparr>"
proof -
  obtain fork inherited lc sources content where f: "length (s_events s) = 1 \<and> s_fork s = None"
      "s_sources s = [] \<and> s_entries s = [] \<and> s_sessions s = [] \<and> s_pins s = []"
      "fork_from_dict (jat ''fork'' payload) = Inr fork"
      "py_mapping (jat ''inherited_state'' payload) = Inr inherited"
      "logical_components (JObj (dict_put ''workspace_id'' (JStr (sr_workspace (fk_source fork))) inherited))
        (sr_workspace (fk_source fork)) = Inr lc"
      "mapr (\<lambda>q. rbind (without_binding (snd q)) (\<lambda>a. Inr (fst q, a))) (lc_sources lc) = Inr sources"
      "fk_child fork = wi_id i \<and> fl_event (fk_lineage fork) = ''event-id:'' @ event_id \<and>
         in_parent (fk_policy fork) = lc_policy lc \<and> in_effective (fk_policy fork) = p \<and>
         fk_lock fork = lc_lock lc"
      "domain_digest ''leanctx.fork.inherited-content.v1'' (jat ''inherited_state'' payload) = Inr content"
      "fk_content fork = content"
      "t = s\<lparr>s_sources := sources, s_entries := lc_entries lc, s_pins := lc_pins lc,
           s_lock := lc_lock lc, s_fork := Some (lineage_to_dict (fk_lineage fork))\<rparr>"
    using assms unfolding apply_forked_def Let_def rbind_eq_Inr_iff need_Inr trying_Inr sum.inject
    by blast
  have "sources = map (\<lambda>q. (fst q, (snd q)\<lparr>an_binding := None\<rparr>)) (lc_sources lc)"
    using unbound_sources [OF f(6), of True] logical_components_ok [OF f(5)]
    by (simp add: components_ok_def sources_ok_def)
  then show ?thesis
    using f by (intro exI [of _ fork] exI [of _ inherited] exI [of _ lc]) simp
qed

lemma sources_ok_put: "sources_ok d \<Longrightarrow> anchor_ok True a \<Longrightarrow> sources_ok (dict_put (an_id a) a d)"
  by (auto simp: sources_ok_def distinct_dict_put list_all_iff dest!: set_dict_put)

lemma import_anchors_Inr:
  assumes "import_anchors d s raws done = Inr imported"
    and "sources_ok done" "fst ` set done \<inter> fst ` set (s_sources s) = {}"
  shows "sources_ok imported \<and> fst ` set imported \<inter> fst ` set (s_sources s) = {} \<and>
    (imported \<noteq> done \<longrightarrow> d = ''degraded'') \<and>
    list_all (\<lambda>raw. \<exists>a. anchor_from_dict True raw = Inr a \<and>
      (case map_of (s_sources s) (an_id a) of
         None \<Rightarrow> True | Some x \<Rightarrow> py_eq (anchor_to_dict x) (anchor_to_dict a))) raws"
  using assms
proof (induction d s raws "done" rule: import_anchors.induct)
  case (2 d s raw raws "done")
  obtain a where a: "anchor_from_dict True raw = Inr a"
    using 2(3) by (auto simp: rbind_eq_Inr_iff trying_Inr)
  have ok: "anchor_ok True a"
    by (rule anchor.dec_ok [OF a])
  show ?case
  proof (cases "map_of (s_sources s) (an_id a)")
    case None
    then have r: "d = ''degraded''" "import_anchors d s raws (dict_put (an_id a) a done) = Inr imported"
      using 2(3) a by (auto simp: rbind_eq_Inr_iff trying_Inr need_Inr)
    have "sources_ok (dict_put (an_id a) a done)"
      by (rule sources_ok_put [OF 2(4) ok])
    moreover have "fst ` set (dict_put (an_id a) a done) \<inter> fst ` set (s_sources s) = {}"
      using 2(5) None by (auto simp: dict_put_keys map_of_eq_None_iff)
    ultimately show ?thesis
      using 2(1) [OF _ None] a r None by (auto simp: trying_Inr need_Inr)
  next
    case (Some x)
    then have "py_eq (anchor_to_dict x) (anchor_to_dict a)" "import_anchors d s raws done = Inr imported"
      using 2(3) a by (auto simp: rbind_eq_Inr_iff trying_Inr need_Inr)
    then show ?thesis
      using 2(2) [OF _ Some] a Some 2(4,5) by (auto simp: trying_Inr need_Inr)
  qed
qed auto


lemma append_entries_Inr:
  assumes "append_entries p s ids raws by_id done = Inr appended" "entries_ok (set ids) done"
    and "set (map en_id done) \<subseteq> set (map fst by_id)" "distinct (map en_id done)"
    and "K \<subseteq> set (map fst by_id)" "K \<inter> set (map en_id done) = {}"
  shows "entries_ok (set ids) appended \<and> distinct (map en_id appended) \<and>
    K \<inter> set (map en_id appended) = {} \<and>
    set (map en_category appended) \<subseteq> set (map en_category done) \<union> set (po_categories p)"
  using assms
proof (induction p s ids raws by_id "done" rule: append_entries.induct)
  case (2 p s ids raw raws by_id "done")
  obtain e where e: "entry_from_dict raw = Inr e"
    using 2(3) by (auto simp: rbind_eq_Inr_iff trying_Inr)
  have ok: "entry_ok e"
    by (rule entry.dec_ok [OF e])
  show ?case
  proof (cases "map_of by_id (en_id e)")
    case None
    then have r: "en_category e \<in> set (po_categories p)" "set (en_sources e) \<subseteq> set ids"
        "append_entries p s ids raws ((en_id e, e) # by_id) (done @ [e]) = Inr appended"
      using 2(3) e by (auto simp: rbind_eq_Inr_iff trying_Inr need_Inr list_all_iff)
    have new: "en_id e \<notin> set (map fst by_id)"
      using None by (simp add: map_of_eq_None_iff)
    have "entries_ok (set ids) (done @ [e])"
      using 2(4) ok r(2) by (simp add: entries_ok_def)
    moreover have "distinct (map en_id (done @ [e]))" "K \<inter> set (map en_id (done @ [e])) = {}"
      using 2(5-8) new by auto
    moreover have "list_all (\<lambda>x. x \<in> set ids) (en_sources e)"
        "set (map en_id (done @ [e])) \<subseteq> set (map fst ((en_id e, e) # by_id))"
        "K \<subseteq> set (map fst ((en_id e, e) # by_id))"
      using r(2) 2(5,7) by (auto simp: list_all_iff)
    ultimately have "entries_ok (set ids) appended \<and> distinct (map en_id appended) \<and>
        K \<inter> set (map en_id appended) = {} \<and>
        set (map en_category appended) \<subseteq> set (map en_category (done @ [e])) \<union> set (po_categories p)"
      using 2(1) [OF _ None] e r by (simp add: trying_Inr need_Inr)
    then show ?thesis
      using r(1) by auto
  next
    case (Some x)
    then have "append_entries p s ids raws by_id done = Inr appended"
      using 2(3) e by (auto simp: rbind_eq_Inr_iff trying_Inr need_Inr)
    then show ?thesis
      using 2(2) [OF _ Some] 2(3-8) e Some by (auto simp: rbind_eq_Inr_iff trying_Inr need_Inr)
  qed
qed simp

lemma apply_handoff_Inr:
  assumes "apply_handoff event_id payload i p s = Inr t" "sources_ok (s_sources s)"
  shows "\<exists>h adm imported appended. handoff_from_dict (jat ''handoff'' payload) = Inr h \<and>
    admission_from_dict (jat ''admission'' payload) = Inr adm \<and>
    ad_handoff adm = ho_id h \<and> ad_handoff_digest adm = ho_digest h \<and> ho_target h = wi_id i \<and>
    is_tightening p (ho_floor h) \<and> ho_id h \<notin> set (map fst (s_handoffs s)) \<and>
    sources_ok imported \<and> fst ` set imported \<inter> fst ` set (s_sources s) = {} \<and>
    (imported \<noteq> [] \<longrightarrow> ad_decision adm = ''degraded'') \<and>
    entries_ok (set (map fst (s_sources s @ imported))) appended \<and> distinct (map en_id appended) \<and>
    set (map en_id (s_entries s)) \<inter> set (map en_id appended) = {} \<and>
    set (map en_category appended) \<subseteq> set (po_categories p) \<and>
    t = s\<lparr>s_sources := s_sources s @ imported, s_entries := s_entries s @ appended,
      s_handoffs := s_handoffs s @
        [(ho_id h, \<lparr>hr_handoff = ho_id h, hr_digest = ho_digest h, hr_event = event_id\<rparr>)]\<rparr> \<and>
    ensure_all_external t imported = Inr ()"
proof -
  obtain h adm imported appended w w' where h: "handoff_from_dict (jat ''handoff'' payload) = Inr h"
      "admission_from_dict (jat ''admission'' payload) = Inr adm"
      "ad_handoff adm = ho_id h \<and> ad_handoff_digest adm = ho_digest h \<and>
         ad_receiver adm = wi_id i \<and> ad_decision adm \<in> {''admitted'', ''degraded''} \<and>
         ho_target h = wi_id i"
      "is_tightening p (ho_floor h)"
    and old: "(case map_of (s_handoffs s) (ho_id h) of None \<Rightarrow> Inr ()
            | Some previous \<Rightarrow> Inl (if previous = \<lparr>hr_handoff = ho_id h, hr_digest = ho_digest h,
                hr_event = event_id\<rparr> then Incompatible else Corrupt, s)) = Inr w"
    and imp: "import_anchors (ad_decision adm) s (ho_anchors h) [] = Inr imported"
    and app: "append_entries p s (map fst (s_sources s) @ map fst imported) (ho_entries h)
         (map (\<lambda>e. (en_id e, e)) (rev (s_entries s))) [] = Inr appended"
    and ext: "ensure_all_external (s\<lparr>s_sources := s_sources s @ imported, s_entries := s_entries s @ appended,
           s_handoffs := dict_put (ho_id h) \<lparr>hr_handoff = ho_id h, hr_digest = ho_digest h,
             hr_event = event_id\<rparr> (s_handoffs s)\<rparr>) imported = Inr w'"
    and t: "t = s\<lparr>s_sources := s_sources s @ imported, s_entries := s_entries s @ appended,
           s_handoffs := dict_put (ho_id h) \<lparr>hr_handoff = ho_id h, hr_digest = ho_digest h,
             hr_event = event_id\<rparr> (s_handoffs s)\<rparr>"
    using assms(1) unfolding apply_handoff_def Let_def rbind_eq_Inr_iff need_Inr trying_Inr sum.inject
    by blast
  have new: "ho_id h \<notin> set (map fst (s_handoffs s))"
    using old by (cases "map_of (s_handoffs s) (ho_id h)") (auto simp: map_of_eq_None_iff)
  then have put: "dict_put (ho_id h) r (s_handoffs s) = s_handoffs s @ [(ho_id h, r)]" for r
    by (intro dict_put_new) auto
  have "sources_ok []" by (simp add: sources_ok_def)
  with import_anchors_Inr [OF imp]
  have i: "sources_ok imported" "fst ` set imported \<inter> fst ` set (s_sources s) = {}"
      "imported \<noteq> [] \<longrightarrow> ad_decision adm = ''degraded''"
    by auto
  have e: "entries_ok (set (map fst (s_sources s @ imported))) appended" "distinct (map en_id appended)"
      "set (map en_id (s_entries s)) \<inter> set (map en_id appended) = {}"
      "set (map en_category appended) \<subseteq> set (po_categories p)"
    using append_entries_Inr [OF app, of "set (map en_id (s_entries s))"]
    by (auto simp: entries_ok_def comp_def)
  show ?thesis
    using h new i e ext t unfolding put
    by (intro exI [of _ h] exI [of _ adm] exI [of _ imported] exI [of _ appended]) simp
qed

section \<open>The invariant\<close>

definition checkpoints_ok :: "(pystr \<times> checkpoint) list \<Rightarrow> bool" where
  "checkpoints_ok cs \<longleftrightarrow>
     distinct (map fst cs) \<and>
     list_all (\<lambda>q. fst q = ck_id (snd q) \<and>
       (\<exists>v. checkpoint_from_dict v = Inr (snd q))) cs"

definition core_ok :: "ws_state \<Rightarrow> bool" where
  "core_ok s \<longleftrightarrow>
     pred_option identity_ok (s_identity s) \<and> pred_option policy_ok (s_policy s) \<and>
     s_lifecycle s \<in> set lifecycles \<and> sources_ok (s_sources s) \<and>
     list_all session_ok (s_sessions s) \<and> distinct (map sn_session (s_sessions s)) \<and>
     entries_ok (set (map fst (s_sources s))) (s_entries s) \<and>
     pins_ok (s_pins s) \<and> package_lock (map snd (s_pins s)) = Inr (s_lock s) \<and>
     checkpoints_ok (s_checkpoints s) \<and> distinct (map fst (s_handoffs s)) \<and>
     pred_option (\<lambda>v. \<exists>l. lineage_ok l \<and> v = lineage_to_dict l) (s_fork s)"

text \<open>What no event takes back.\<close>

definition grows :: "ws_state \<Rightarrow> ws_state \<Rightarrow> bool" where
  "grows s t \<longleftrightarrow>
     (s_identity s \<noteq> None \<longrightarrow> s_identity t = s_identity s) \<and>
     (\<forall>p. s_policy s = Some p \<longrightarrow> (\<exists>q. s_policy t = Some q \<and> is_tightening q p)) \<and>
     (s_lifecycle s \<noteq> ''active'' \<longrightarrow> s_lifecycle t = s_lifecycle s) \<and>
     prefix (s_sessions s) (s_sessions t) \<and>
     map_of (s_checkpoints s) \<subseteq>\<^sub>m map_of (s_checkpoints t) \<and>
     map_of (s_handoffs s) \<subseteq>\<^sub>m map_of (s_handoffs t) \<and>
     (s_fork s \<noteq> None \<longrightarrow> s_fork t = s_fork s) \<and>
     prefix (s_events s) (s_events t) \<and> prefix (s_receipts s) (s_receipts t)"

lemma grows_refl [simp]: "grows s s"
  by (auto simp: grows_def tightening_refl)

lemma grows_trans:
  assumes "grows s t" "grows t u"
  shows "grows s u"
proof -
  note s = assms(1) [unfolded grows_def] and t = assms(2) [unfolded grows_def]
  have "\<exists>q. s_policy u = Some q \<and> is_tightening q p" if "s_policy s = Some p" for p
    using s t that tightening_trans by blast
  moreover have "prefix (s_sessions s) (s_sessions u)" "prefix (s_events s) (s_events u)"
      "prefix (s_receipts s) (s_receipts u)"
    using s t prefix_order.trans by blast+
  moreover have "map_of (s_checkpoints s) \<subseteq>\<^sub>m map_of (s_checkpoints u)"
      "map_of (s_handoffs s) \<subseteq>\<^sub>m map_of (s_handoffs u)"
    using s t map_le_trans by blast+
  moreover have "s_identity s \<noteq> None \<longrightarrow> s_identity u = s_identity s"
      "s_lifecycle s \<noteq> ''active'' \<longrightarrow> s_lifecycle u = s_lifecycle s"
      "s_fork s \<noteq> None \<longrightarrow> s_fork u = s_fork s"
    using s t by metis+
  ultimately show ?thesis
    unfolding grows_def by blast
qed

text \<open>What a branch leaves alone before the common end.\<close>

definition same_log :: "ws_state \<Rightarrow> ws_state \<Rightarrow> bool" where
  "same_log s t \<longleftrightarrow> s_events t = s_events s \<and> s_receipts t = s_receipts s \<and> s_last t = s_last s"

lemma map_le_append_new: "k \<notin> set (map fst d) \<Longrightarrow> map_of d \<subseteq>\<^sub>m map_of (d @ [(k, v)])"
  by (auto simp: map_le_def map_add_def split: option.splits)

lemma entries_ok_mono: "entries_ok A es \<Longrightarrow> A \<subseteq> B \<Longrightarrow> entries_ok B es"
  by (auto simp: entries_ok_def list_all_iff)

lemma entries_ok_append [simp]: "entries_ok A (es @ fs) \<longleftrightarrow> entries_ok A es \<and> entries_ok A fs"
  by (simp add: entries_ok_def)

lemma sources_ok_append:
  "sources_ok a \<Longrightarrow> sources_ok b \<Longrightarrow> fst ` set b \<inter> fst ` set a = {} \<Longrightarrow> sources_ok (a @ b)"
  by (auto simp: sources_ok_def)

text \<open>One branch: the parts stay well formed, nothing is taken back, the log is not touched.\<close>

definition step_ok :: "ws_state \<Rightarrow> ws_state \<Rightarrow> bool" where
  "step_ok s t \<longleftrightarrow> core_ok t \<and> grows s t \<and> same_log s t"

named_theorems step_intros "one lemma per branch of the event dispatch"

lemma apply_source_step [step_intros]:
  assumes "apply_source update allowed payload p s = Inr t" "core_ok s"
  shows "step_ok s t"
proof -
  obtain a where a: "anchor_from_dict allowed (jat ''anchor'' payload) = Inr a"
      "t = s\<lparr>s_sources := dict_put (an_id a) a (s_sources s)\<rparr>"
    using apply_source_Inr [OF assms(1)] by blast
  have "anchor_ok True a"
    using anchor.dec_ok [OF a(1)] trust_ok_mono by (cases allowed) (auto simp: anchor_ok_def)
  then have "sources_ok (s_sources t)"
    using assms(2) a(2) sources_ok_put by (simp add: core_ok_def)
  moreover have "entries_ok (set (map fst (s_sources t))) (s_entries s)"
    using assms(2) a(2) by (auto simp: core_ok_def dict_put_keys intro: entries_ok_mono)
  ultimately show ?thesis
    using assms(2) a(2) by (auto simp: step_ok_def core_ok_def same_log_def grows_def tightening_refl)
qed

lemma apply_policy_step [step_intros]:
  assumes "apply_policy payload p s = Inr t" "core_ok s" "s_policy s = Some p"
  shows "step_ok s t"
proof -
  obtain q where q: "policy_from_dict (jat ''policy'' payload) = Inr q" "is_tightening q p"
      "t = s\<lparr>s_policy := Some q\<rparr>"
    using apply_policy_Inr [OF assms(1)] by blast
  show ?thesis
    using policy.dec_ok [OF q(1)] q(2,3) assms(2,3)
    by (auto simp: step_ok_def core_ok_def same_log_def grows_def)
qed

lemma apply_session_step [step_intros]:
  assumes "apply_session payload p s = Inr t" "core_ok s"
  shows "step_ok s t"
proof -
  obtain r where r: "session_ok r" "sn_session r \<notin> set (map sn_session (s_sessions s))"
      "t = s\<lparr>s_sessions := s_sessions s @ [r]\<rparr>"
    using apply_session_Inr [OF assms(1)] by blast
  then show ?thesis
    using assms(2) by (auto simp: step_ok_def core_ok_def same_log_def grows_def tightening_refl)
qed

lemma apply_context_step [step_intros]:
  assumes "apply_context payload p s = Inr t" "core_ok s"
  shows "step_ok s t"
proof -
  obtain es where es: "mapr entry_from_input (jitems (jat ''entries'' payload)) = Inr es"
      "list_all (\<lambda>e. set (en_sources e) \<subseteq> set (map fst (s_sources s)) \<and>
         en_category e \<in> set (po_categories p) \<and> int (length (en_value e)) \<le> po_entry_bytes p) es"
      "t = s\<lparr>s_entries := s_entries s @ es\<rparr>"
    using apply_context_Inr [OF assms(1)] by blast
  then have "entries_ok (set (map fst (s_sources s))) es"
    using entry_from_input_ok [OF es(1)] by (auto simp: entries_ok_def list_all_iff)
  then show ?thesis
    using es(3) assms(2) by (auto simp: step_ok_def core_ok_def same_log_def grows_def tightening_refl)
qed

lemma apply_pin_step [step_intros]:
  assumes "apply_pin payload s = Inr t" "core_ok s"
  shows "step_ok s t"
proof -
  obtain pin lock where pin: "pin_from_dict (jat ''pin'' payload) = Inr pin"
      "pin_key pin \<notin> set (map fst (s_pins s))"
      "package_lock (map snd (s_pins s @ [(pin_key pin, pin)])) = Inr lock"
      "t = s\<lparr>s_pins := s_pins s @ [(pin_key pin, pin)], s_lock := lock\<rparr>"
    using apply_pin_Inr [OF assms(1)] by blast
  then show ?thesis
    using pin.dec_ok [OF pin(1)] assms(2)
    by (auto simp: step_ok_def core_ok_def same_log_def grows_def tightening_refl pins_ok_def)
qed

lemma apply_checkpoint_step [step_intros]:
  assumes "apply_checkpoint payload s = Inr t" "core_ok s"
  shows "step_ok s t"
proof -
  obtain c where c: "checkpoint_from_dict (jat ''checkpoint'' payload) = Inr c"
      "ck_id c \<notin> set (map fst (s_checkpoints s))"
      "t = s\<lparr>s_checkpoints := s_checkpoints s @ [(ck_id c, c)]\<rparr>"
    using apply_checkpoint_Inr [OF assms(1)] by blast
  then have "checkpoints_ok (s_checkpoints t)"
    using assms(2) by (auto simp: core_ok_def checkpoints_ok_def)
  then show ?thesis
    using c(3) assms(2) map_le_append_new [OF c(2)]
    by (auto simp: step_ok_def core_ok_def same_log_def grows_def tightening_refl)
qed

lemma components_core:
  assumes "components_ok lc"
  shows "sources_ok (lc_sources lc)" "entries_ok (fst ` set (lc_sources lc)) (lc_entries lc)"
    "pins_ok (lc_pins lc)" "package_lock (map snd (lc_pins lc)) = Inr (lc_lock lc)"
    "policy_ok (lc_policy lc)"
  using assms by (simp_all add: components_ok_def)

lemma apply_restored_step [step_intros]:
  assumes "apply_restored payload p s = Inr t" "core_ok s" "s_policy s = Some p"
  shows "step_ok s t"
proof -
  obtain c and i :: ws_identity and lc where lc: "logical_components (ck_logical (c::checkpoint)) (wi_id i) = Inr lc"
      "is_tightening (lc_policy lc) p" "t = with_components lc (s\<lparr>s_policy := Some (lc_policy lc)\<rparr>)"
    using apply_restored_Inr [OF assms(1)] by blast
  then show ?thesis
    using components_core [OF logical_components_ok [OF lc(1)]] assms(2,3)
    by (auto simp: step_ok_def core_ok_def same_log_def grows_def with_components_def)
qed

lemma apply_seeded_step [step_intros]:
  assumes "apply_seeded payload p s = Inr t" "core_ok s"
  shows "step_ok s t"
proof -
  obtain c and i :: ws_identity and lc where lc: "s_checkpoints s = []"
      "checkpoint_from_dict (jat ''checkpoint'' payload) = Inr c"
      "logical_components (ck_logical (c::checkpoint)) (wi_id i) = Inr lc"
      "t = with_components lc (s\<lparr>s_checkpoints := [(ck_id c, c)]\<rparr>)"
    using apply_seeded_Inr [OF assms(1)] by blast
  then have "checkpoints_ok (s_checkpoints t)"
    by (auto simp: checkpoints_ok_def with_components_def)
  then show ?thesis
    using components_core [OF logical_components_ok [OF lc(3)]] assms(2) lc(1,4)
    by (auto simp: step_ok_def core_ok_def same_log_def grows_def with_components_def tightening_refl)
qed

lemma apply_forked_step [step_intros]:
  assumes "apply_forked eid payload i p s = Inr t" "core_ok s"
  shows "step_ok s t"
proof -
  obtain fork :: ws_fork and inherited lc where f: "s_fork s = None" "s_sources s = []"
      "fork_from_dict (jat ''fork'' payload) = Inr fork"
      "logical_components (JObj (dict_put ''workspace_id'' (JStr (sr_workspace (fk_source fork))) inherited))
        (sr_workspace (fk_source fork)) = Inr lc"
      "t = s\<lparr>s_sources := map (\<lambda>q. (fst q, (snd q)\<lparr>an_binding := None\<rparr>)) (lc_sources lc),
        s_entries := lc_entries lc, s_pins := lc_pins lc, s_lock := lc_lock lc,
        s_fork := Some (lineage_to_dict (fk_lineage fork))\<rparr>"
    using apply_forked_Inr [OF assms(1)] by blast
  note lc = components_core [OF logical_components_ok [OF f(4)]]
  have "anchor_ok True (a\<lparr>an_binding := None\<rparr>)" if "anchor_ok True a" for a
    using that by (simp add: anchor_ok_def split: option.splits)
  then have "sources_ok (s_sources t)"
    using lc(1) f(5) by (auto simp: sources_ok_def list_all_iff comp_def)
  then show ?thesis
    using lc assms(2) f(1,5) fork.dec_ok [OF f(3), unfolded fork_ok_def]
    by (auto simp: step_ok_def core_ok_def same_log_def grows_def tightening_refl image_image)
qed

lemma apply_handoff_step [step_intros]:
  assumes "apply_handoff eid payload i p s = Inr t" "core_ok s"
  shows "step_ok s t"
proof -
  have so: "sources_ok (s_sources s)" using assms(2) by (simp add: core_ok_def)
  obtain h :: handoff and imported appended r where h: "ho_id h \<notin> set (map fst (s_handoffs s))"
      "sources_ok imported" "fst ` set imported \<inter> fst ` set (s_sources s) = {}"
      "entries_ok (set (map fst (s_sources s @ imported))) appended"
      "t = s\<lparr>s_sources := s_sources s @ imported, s_entries := s_entries s @ appended,
        s_handoffs := s_handoffs s @ [(ho_id h, r)]\<rparr>"
    using apply_handoff_Inr [OF assms(1) so] by blast
  have "entries_ok (set (map fst (s_sources s @ imported))) (s_entries s)"
    using assms(2) by (auto simp: core_ok_def intro: entries_ok_mono)
  moreover have "sources_ok (s_sources s @ imported)"
    by (rule sources_ok_append [OF so h(2,3)])
  ultimately show ?thesis
    using h assms(2) map_le_append_new [OF h(1)]
    by (auto simp: step_ok_def core_ok_def same_log_def grows_def tightening_refl)
qed

lemma apply_kind_step:
  assumes "apply_kind allowed event h i p s = Inr t" "core_ok s" "s_policy s = Some p"
    "s_lifecycle s = ''active''"
  shows "step_ok s t"
proof -
  have same: "step_ok s s"
    using assms(2) by (simp add: step_ok_def same_log_def)
  have life: "step_ok s (s\<lparr>s_lifecycle := l\<rparr>)" if "l \<in> set lifecycles" for l
    using assms(2,4) that by (auto simp: step_ok_def core_ok_def same_log_def grows_def tightening_refl)
  show ?thesis
    using assms(1) assms(2,3) same life [of "''completed''"] life [of "''aborted''"]
    unfolding apply_kind_def Let_def apply_completed_def
    by (auto simp: lifecycles_def split: if_splits
        dest: apply_sealed_Inr apply_aborted_Inr intro: step_intros)
qed

end
