(* ===== verification/Ws_Safe.thy ===== *)
theory Ws_Safe
  imports Ws_Text
begin

text \<open>
  A sufficient test for a text the credential scan lets pass, cheaper to evaluate than the
  patterns of \<open>Ws_Text\<close>: it only looks for the characters and short words every match of a pattern
  has to contain. Digests, identifiers and timestamps pass it.
\<close>

section \<open>What a match needs\<close>

lemma rchr_suffix: "(a', b') \<in> set (rchr P (a, b)) \<Longrightarrow> suffix b' b"
  by (cases b) (auto simp: suffix_def split: if_splits)

lemma star_suffix:
  assumes "\<And>a b a' b'. (a', b') \<in> set (f (a, b)) \<Longrightarrow> suffix b' b"
  shows "(a', b') \<in> set (star_from n f (a, b)) \<Longrightarrow> suffix b' b"
proof (induction n arbitrary: a b)
  case (Suc n)
  show ?case
  proof (cases "(a', b') = (a, b)")
    case False
    then obtain c d where "(c, d) \<in> set (f (a, b))" "(a', b') \<in> set (star_from n f (c, d))"
      using Suc.prems by auto
    then show ?thesis
      using Suc.IH assms suffix_order.trans by blast
  qed simp
qed simp

lemma rmatch_suffix: "(a', b') \<in> set (rmatch r (a, b)) \<Longrightarrow> suffix b' b"
proof (induction r arbitrary: a b a' b')
  case (RSeq r1 r2)
  then obtain c d where "(c, d) \<in> set (rmatch r1 (a, b))" "(a', b') \<in> set (rmatch r2 (c, d))"
    by auto
  then show ?case
    using RSeq.IH suffix_order.trans by blast
next
  case (RStar r)
  show ?case
    using RStar.prems star_suffix [of "rmatch r" a' b', OF RStar.IH] by simp
qed (auto dest: rchr_suffix split: if_splits)

definition needs :: "regex \<Rightarrow> (nat list \<Rightarrow> bool) \<Rightarrow> bool" where
  "needs r Q \<longleftrightarrow> (\<forall>a b. rmatch r (a, b) \<noteq> [] \<longrightarrow> Q b)"

definition upward :: "(nat list \<Rightarrow> bool) \<Rightarrow> bool" where
  "upward Q \<longleftrightarrow> (\<forall>xs ys. Q ys \<longrightarrow> Q (xs @ ys))"

lemma upwardD: "upward Q \<Longrightarrow> suffix ys zs \<Longrightarrow> Q ys \<Longrightarrow> Q zs"
  by (auto simp: upward_def suffix_def)

lemma needs_seq1: "needs r Q \<Longrightarrow> needs (RSeq r q) Q"
proof -
  have "rmatch r (a, b) \<noteq> []" if "rmatch (RSeq r q) (a, b) \<noteq> []" for a b
    using that by (cases "rmatch r (a, b)") simp_all
  then show "needs r Q \<Longrightarrow> needs (RSeq r q) Q"
    unfolding needs_def by blast
qed

lemma needs_seq2:
  assumes "upward Q" "needs q Q"
  shows "needs (RSeq r q) Q"
  unfolding needs_def
proof (intro allI impI)
  fix a b
  assume "rmatch (RSeq r q) (a, b) \<noteq> []"
  then obtain c d where p': "(c, d) \<in> set (rmatch r (a, b))" "rmatch q (c, d) \<noteq> []"
    by auto
  then have "Q d" using assms(2) by (simp add: needs_def)
  then show "Q b" using upwardD [OF assms(1)] rmatch_suffix [OF p'(1)] by blast
qed

lemma needs_alt: "needs r Q \<Longrightarrow> needs q Q \<Longrightarrow> needs (RAlt r q) Q"
  by (auto simp: needs_def)

lemma needs_search:
  assumes "upward Q" "needs r Q"
  shows "search_from r prev cs \<Longrightarrow> Q cs"
proof (induction cs arbitrary: prev)
  case Nil
  then show ?case using assms(2) by (simp add: needs_def)
next
  case (Cons c cs)
  then show ?case
    using assms upwardD [OF assms(1), of cs "c # cs"] by (auto simp: needs_def suffix_ConsI)
qed

text \<open>A character of a class, and a word.\<close>

definition has_char :: "(nat \<Rightarrow> bool) \<Rightarrow> nat list \<Rightarrow> bool" where
  "has_char P cs \<longleftrightarrow> list_ex P cs"

lemma upward_has_char [simp]: "upward (has_char P)"
  by (auto simp: upward_def has_char_def)

lemma upward_sublist [simp]: "upward (sublist w)"
  by (auto simp: upward_def sublist_def) (metis append_assoc)

lemma needs_chr: "(\<And>c. P c \<Longrightarrow> P' c) \<Longrightarrow> needs (RChr P) (has_char P')"
  unfolding needs_def has_char_def
proof (intro allI impI)
  fix a b
  assume "\<And>c. P c \<Longrightarrow> P' c" "rmatch (RChr P) (a, b) \<noteq> []"
  then show "list_ex P' b" by (cases b) (auto split: if_splits)
qed

lemma rmatch_rlit: "rmatch (rlit w) (a, b) \<noteq> [] \<Longrightarrow> \<exists>r. b = map byte w @ r"
proof (induction w arbitrary: a b)
  case (Cons x w)
  then obtain c b' where b: "b = c # b'" "c = byte x" "rmatch (rlit w) (Some c, b') \<noteq> []"
    by (cases b) (auto simp: rlit_def split: if_splits)
  with Cons.IH show ?case by auto
qed simp

lemma needs_rlit: "needs (rlit w) (sublist (map byte w))"
  using rmatch_rlit by (fastforce simp: needs_def sublist_def)

lemma needs_rlit_char:
  "c \<in> set w \<Longrightarrow> P (byte c) \<Longrightarrow> needs (rlit w) (has_char P)"
  using rmatch_rlit by (fastforce simp: needs_def has_char_def list_ex_iff)

lemma needs_rlit_ci:
  assumes "c \<in> set w" "97 \<le> byte c" "byte c \<le> 122" "\<And>x. re_letter_ci (byte c) x \<Longrightarrow> P x"
  shows "needs (rlit_ci w) (has_char P)"
  using assms(1)
proof (induction w)
  case (Cons x w)
  show ?case
  proof (cases "x = c")
    case True
    then show ?thesis
      using assms(2-4) unfolding rlit_ci_def foldr_Cons comp_apply
      by (intro needs_seq1) (simp add: needs_chr)
  next
    case False
    then have "needs (rlit_ci w) (has_char P)" using Cons by simp
    then show ?thesis
      unfolding rlit_ci_def foldr_Cons comp_apply by (intro needs_seq2) simp_all
  qed
qed simp

section \<open>The test\<close>

definition keyword_letter :: "nat \<Rightarrow> bool" where
  "keyword_letter c \<longleftrightarrow> c \<in> {112, 80, 114, 82, 110, 78}"

definition assigns :: "nat \<Rightarrow> bool" where
  "assigns c \<longleftrightarrow> c = 58 \<or> c = 61 \<or> c = 37"

definition plainly_safe :: "nat list \<Rightarrow> bool" where
  "plainly_safe cs \<longleftrightarrow>
     \<not> has_char (\<lambda>c. c = 66) cs \<and> \<not> has_char (\<lambda>c. c = 75) cs \<and>
     \<not> sublist [115, 107, 45] cs \<and> \<not> sublist [103, 104] cs \<and> \<not> has_char re_space cs \<and>
     (\<not> has_char assigns cs \<or> \<not> has_char keyword_letter cs)"

lemma pem_needs: "needs pem_re (has_char (\<lambda>c. c = 66))"
  unfolding pem_re_def by (intro needs_seq1 needs_rlit_char [of "CHR ''B''"]) simp_all

lemma aws_needs: "needs aws_re (has_char (\<lambda>c. c = 75))"
  unfolding aws_re_def
  by (intro needs_seq2 needs_seq1 needs_rlit_char [of "CHR ''K''"]) simp_all

lemma openai_needs: "needs openai_re (sublist [115, 107, 45])"
  using needs_rlit [of "''sk-''"] unfolding openai_re_def by (intro needs_seq2 needs_seq1) simp_all

lemma github_needs: "needs github_re (sublist [103, 104])"
  using needs_rlit [of "''gh''"] unfolding github_re_def by (intro needs_seq2 needs_seq1) simp_all

lemma bearer_needs: "needs bearer_re (has_char re_space)"
  unfolding bearer_re_def rplus_def
  by (intro needs_seq2 [of "has_char re_space"] needs_seq1 needs_chr) simp_all

lemma key_needs: "needs assignment_key_re (has_char keyword_letter)"
proof -
  have p: "needs (rlit_ci w) (has_char keyword_letter)" if "CHR ''p'' \<in> set w" for w
    using that by (rule needs_rlit_ci) (auto simp: re_letter_ci_def keyword_letter_def)
  have r: "needs (rlit_ci ''secret'') (has_char keyword_letter)"
    by (rule needs_rlit_ci [of "CHR ''r''"]) (auto simp: re_letter_ci_def keyword_letter_def)
  have n: "needs (rlit_ci ''token'') (has_char keyword_letter)"
    by (rule needs_rlit_ci [of "CHR ''n''"]) (auto simp: re_letter_ci_def keyword_letter_def)
  show ?thesis
    unfolding assignment_key_re_def by (intro needs_alt needs_seq1 p r n) simp_all
qed

lemma assignment_needs:
  "needs assignment_re (has_char keyword_letter)" "needs assignment_re (has_char assigns)"
proof -
  show "needs assignment_re (has_char keyword_letter)"
    unfolding assignment_re_def
    by (rule needs_seq2 [OF upward_has_char], rule needs_seq1, rule key_needs)
  have pc: "needs (rlit_ci (CHR ''%'' # w)) (has_char assigns)" for w
    unfolding rlit_ci_def foldr_Cons comp_apply
    by (rule needs_seq1) (simp add: needs_chr assigns_def)
  have one: "needs (rone_of '':='') (has_char assigns)"
    unfolding rone_of_def by (rule needs_chr) (auto simp: assigns_def)
  show "needs assignment_re (has_char assigns)"
    unfolding assignment_re_def
    by (rule needs_seq2 [OF upward_has_char], rule needs_seq2 [OF upward_has_char],
        rule needs_seq2 [OF upward_has_char], rule needs_seq1) (intro needs_alt pc one)
qed

lemma plainly_safe_passes:
  assumes "plainly_safe (code_points s)"
  shows "\<not> sensitive_text s"
  using assms needs_search [OF _ pem_needs] needs_search [OF _ aws_needs]
    needs_search [OF _ openai_needs] needs_search [OF _ github_needs] needs_search [OF _ bearer_needs]
    needs_search [OF _ assignment_needs(1)] needs_search [OF _ assignment_needs(2)]
  unfolding sensitive_text_def re_search_def plainly_safe_def
  by (meson upward_has_char upward_sublist)

end
