(* ===== verification/Ws_Runs.thy ===== *)
theory Ws_Runs
  imports Ws_Invariant Ws_Safe
begin

text \<open>
  Events and runs of events: what \<open>apply_event\<close> keeps of the whole state, the log and the receipts
  included, and what holds of every state a journal leads to.
\<close>

section \<open>One event\<close>

lemma event_head_Inr:
  assumes "event_head event = Inr h"
  shows "is_obj event \<and> jget ''kind'' event = Some (JStr (eh_kind h)) \<and>
    jget ''event_id'' event = Some (JStr (eh_id h)) \<and>
    jget ''event_digest'' event = Some (JStr (eh_digest h)) \<and>
    jget ''payload'' event = Some (eh_payload h) \<and> eh_kind h \<in> set event_kinds \<and>
    is_obj (eh_payload h) \<and> reject_sensitive (eh_payload h) = Inr () \<and>
    set (jkeys (eh_payload h)) = set (payload_keys (eh_kind h))"
proof -
  obtain k i d payload where "is_obj event" "jget ''kind'' event = Some (JStr k)"
      "jget ''payload'' event = Some payload" "jget ''event_id'' event = Some (JStr i)"
      "jget ''event_digest'' event = Some (JStr d)" "k \<in> set event_kinds" "is_obj payload"
      "reject_sensitive payload = Inr ()" "set (jkeys payload) = set (payload_keys k)"
      "h = \<lparr>eh_kind = k, eh_id = i, eh_digest = d, eh_payload = payload\<rparr>"
    using assms unfolding event_head_def rbind_eq_Inr_iff check_eq_Inr_iff jfield_def
      of_option_eq_Inr_iff on_text_Inr exact_Inr sum.inject
    by auto
  then show ?thesis by simp
qed

text \<open>The receipt of an event names the event, its workspace and the state after it.\<close>

definition receipt_fits :: "ws_identity \<Rightarrow> json \<Rightarrow> ws_receipt \<Rightarrow> bool" where
  "receipt_fits i event r \<longleftrightarrow>
     wr_workspace r = wi_id i \<and> wr_state_id r = wi_state_id i \<and>
     jget ''kind'' event = Some (JStr (wr_kind r)) \<and>
     jget ''event_id'' event = Some (JStr (wr_event_id r)) \<and> is_uuid (wr_event_id r) \<and>
     jget ''event_digest'' event = Some (JStr (wr_event_digest r)) \<and> is_digest (wr_event_digest r) \<and>
     jget ''sequence'' event = Some (JInt (wr_sequence r)) \<and> 0 < wr_sequence r"

lemma jat_some: "jat k v = x \<Longrightarrow> x \<noteq> JNull \<Longrightarrow> jget k v = Some x"
  by (auto simp: jat_def split: option.splits)

lemma mk_ws_receipt_Inr:
  "mk_ws_receipt w sid n eid kind ed sd ss x es vs = Inr r \<Longrightarrow>
     wr_workspace r = w \<and> wr_state_id r = sid \<and> wr_sequence r = n \<and> wr_event_id r = eid \<and>
     wr_kind r = kind \<and> wr_event_digest r = ed \<and> wr_state_digest r = sd"
  unfolding mk_ws_receipt_def rbind_eq_Inr_iff by auto

lemma receipt_for_event_Inr:
  assumes "receipt_for_event s event = Inr r"
  shows "\<exists>i. s_identity s = Some i \<and> receipt_fits i event r \<and> state_digest s = Inr (wr_state_digest r)"
proof -
  obtain i payload kind ss x es vs n eid ed sd where
      i: "s_identity s = Some i"
    and k: "(case (jget ''payload'' event, jget ''kind'' event) of
              (Some payload, Some (JStr kind)) \<Rightarrow>
                if is_obj payload then Inr (payload, kind) else Inl WorkspaceIncompatibleError
            | _ \<Rightarrow> Inl WorkspaceIncompatibleError) = Inr (payload, kind)"
    and f: "wpositive (jat ''sequence'' event) = Inr n" "wuuid (jat ''event_id'' event) = Inr eid"
      "wdigest (jat ''event_digest'' event) = Inr ed" "state_digest s = Inr sd"
    and r: "mk_ws_receipt (wi_id i) (wi_state_id i) n eid kind ed sd ss x es vs = Inr r"
    using assms unfolding receipt_for_event_def rbind_eq_Inr_iff of_option_eq_Inr_iff
    by (auto simp: rbind_eq_Inr_iff)
  have "jget ''kind'' event = Some (JStr kind)"
    using k by (auto split: option.splits json.splits if_splits)
  then show ?thesis
    using i f mk_ws_receipt_Inr [OF r]
    by (auto simp: receipt_fits_def wpositive_Inr wuuid_Inr wdigest_Inr intro: jat_some)
qed

lemma apply_tail_Inr:
  assumes "apply_tail event h s = Inr t"
  shows "\<exists>i p r. s_identity s = Some i \<and> s_policy s = Some p \<and> receipt_fits i event r \<and>
    state_digest (s\<lparr>s_events := s_events s @ [event], s_last := eh_digest h\<rparr>) = Inr (wr_state_digest r) \<and>
    eh_id h \<notin> set (map fst (s_receipts s)) \<and> ensure_bounds p False t = Inr () \<and>
    t = s\<lparr>s_events := s_events s @ [event], s_last := eh_digest h,
      s_receipts := s_receipts s @ [(eh_id h, r)]\<rparr>"
proof -
  let ?s = "s\<lparr>s_events := s_events s @ [event], s_last := eh_digest h\<rparr>"
  obtain i p where ip: "s_identity s = Some i" "s_policy s = Some p"
    using assms by (auto simp: apply_tail_def Let_def split: option.splits)
  then obtain r w where r: "ensure_bounds p False ?s = Inr w" "receipt_for_event ?s event = Inr r"
      "eh_id h \<notin> set (map fst (s_receipts s))"
      "t = ?s\<lparr>s_receipts := dict_put (eh_id h) r (s_receipts s)\<rparr>"
    using assms unfolding apply_tail_def Let_def
    by (auto simp: rbind_eq_Inr_iff trying_Inr need_Inr)
  have put: "dict_put (eh_id h) r (s_receipts s) = s_receipts s @ [(eh_id h, r)]"
    using r(3) by (intro dict_put_new) auto
  have "ensure_bounds p False t = ensure_bounds p False ?s"
    unfolding r(4) by (simp add: ensure_bounds_def)
  then show ?thesis
    using ip r receipt_for_event_Inr [OF r(2)] put by auto
qed

section \<open>The state between events\<close>

definition handoffs_ok :: "ws_state \<Rightarrow> bool" where
  "handoffs_ok s \<longleftrightarrow>
     list_all (\<lambda>q. hr_handoff (snd q) = fst q \<and> is_uuid (fst q) \<and> is_digest (hr_digest (snd q)) \<and>
       hr_event (snd q) \<in> set (map fst (s_receipts s))) (s_handoffs s)"

definition log_ok :: "ws_state \<Rightarrow> bool" where
  "log_ok s \<longleftrightarrow>
     (s_events s = [] \<longleftrightarrow> s_identity s = None) \<and> (s_events s = [] \<longleftrightarrow> s_policy s = None) \<and>
     (s_events s = [] \<longrightarrow> s_lifecycle s = ''active'') \<and>
     list_all2 (\<lambda>e q. \<exists>i. s_identity s = Some i \<and> receipt_fits i e (snd q) \<and> fst q = wr_event_id (snd q))
       (s_events s) (s_receipts s) \<and>
     distinct (map fst (s_receipts s)) \<and>
     s_last s = (if s_receipts s = [] then ZERO_DIGEST else wr_event_digest (snd (last (s_receipts s)))) \<and>
     (\<forall>p. s_policy s = Some p \<longrightarrow> ensure_bounds p False s = Inr ())"

definition state_ok :: "ws_state \<Rightarrow> bool" where
  "state_ok s \<longleftrightarrow> core_ok s \<and> log_ok s \<and> handoffs_ok s"

lemma empty_state_ok: "state_ok empty_state"
  by (simp add: state_ok_def core_ok_def log_ok_def handoffs_ok_def empty_state_def sources_ok_def
      entries_ok_def pins_ok_def package_lock_def checkpoints_ok_def lifecycles_def)

text \<open>The branches only add a record of the handoff they apply.\<close>

definition handoff_step :: "pystr \<Rightarrow> ws_state \<Rightarrow> ws_state \<Rightarrow> bool" where
  "handoff_step eid s t \<longleftrightarrow>
     s_handoffs t = s_handoffs s \<or>
     (\<exists>h d. is_uuid h \<and> is_digest d \<and>
        s_handoffs t = s_handoffs s @ [(h, \<lparr>hr_handoff = h, hr_digest = d, hr_event = eid\<rparr>)])"

lemma mk_handoff_ids:
  assumes "handoff_from_dict v = Inr h"
  shows "is_uuid (ho_id h)" "is_digest (ho_digest h)"
proof -
  obtain source entries anchors recovery packages floor_policy where
    "mk_handoff (jat ''handoff_id'' v) source (jat ''workspace_id'' (jat ''target'' v))
       (jat ''role'' (jat ''target'' v)) (jat ''task'' v) entries anchors recovery packages
       floor_policy (jat ''handoff_digest'' v) = Inr h"
    using assms unfolding handoff_from_dict_def rbind_eq_Inr_iff by blast
  then have "is_uuid (ho_id h) \<and> is_digest (ho_digest h)"
    unfolding mk_handoff_def Let_def rbind_eq_Inr_iff wuuid_Inr wdigest_Inr by auto
  then show "is_uuid (ho_id h)" "is_digest (ho_digest h)" by blast+
qed

lemma apply_kind_handoffs:
  assumes "apply_kind allowed event h i p s = Inr t" "core_ok s"
  shows "handoff_step (eh_id h) s t"
proof (cases "eh_kind h = ''handoff_applied''")
  case True
  then have "apply_handoff (eh_id h) (eh_payload h) i p s = Inr t"
    using assms(1) by (simp add: apply_kind_def)
  moreover have "sources_ok (s_sources s)" using assms(2) by (simp add: core_ok_def)
  ultimately obtain ho imported appended where
      ho: "handoff_from_dict (jat ''handoff'' (eh_payload h)) = Inr ho"
      and t: "t = s\<lparr>s_sources := s_sources s @ imported, s_entries := s_entries s @ appended,
        s_handoffs := s_handoffs s @
          [(ho_id ho, \<lparr>hr_handoff = ho_id ho, hr_digest = ho_digest ho, hr_event = eh_id h\<rparr>)]\<rparr>"
    using apply_handoff_Inr by blast
  show ?thesis
    using mk_handoff_ids [OF ho] unfolding handoff_step_def t by auto
next
  case False
  then have "s_handoffs t = s_handoffs s"
    using assms(1) unfolding apply_kind_def Let_def apply_completed_def
    by (auto split: if_splits dest!: apply_source_Inr apply_policy_Inr apply_session_Inr
        apply_context_Inr apply_forked_Inr apply_pin_Inr apply_checkpoint_Inr apply_restored_Inr
        apply_seeded_Inr apply_sealed_Inr apply_aborted_Inr simp: with_components_def)
  then show ?thesis by (simp add: handoff_step_def)
qed

section \<open>Every event keeps the invariant\<close>

lemma apply_event_Inr:
  assumes "apply_event v event s = Inr t"
  shows "\<exists>h m. event_head event = Inr h \<and> apply_tail event h m = Inr t \<and>
    (if eh_kind h = ''workspace_created'' then apply_created event (eh_payload h) s = Inr m
     else (\<exists>i p. s_identity s = Some i \<and> s_policy s = Some p \<and> s_events s \<noteq> [] \<and>
       s_lifecycle s = ''active'' \<and> apply_kind v event h i p s = Inr m))"
proof -
  obtain h m where h: "event_head event = Inr h" "apply_tail event h m = Inr t"
    and m: "(if eh_kind h = ''workspace_created'' then apply_created event (eh_payload h) s
            else (case (s_identity s, s_policy s) of
                    (Some i, Some p) \<Rightarrow>
                      rbind (need (s_events s \<noteq> []) Corrupt s) (\<lambda>_.
                      rbind (need (s_lifecycle s = ''active'') Incompatible s) (\<lambda>_.
                      apply_kind v event h i p s))
                  | _ \<Rightarrow> Inl (Corrupt, s))) = Inr m"
    using assms unfolding apply_event_def rbind_eq_Inr_iff trying_Inr by blast
  show ?thesis
    using h m
    by (intro exI [of _ h] exI [of _ m])
      (auto simp: rbind_eq_Inr_iff need_Inr split: if_splits option.splits)
qed

lemma apply_created_step:
  assumes "apply_created event payload s = Inr t" "core_ok s" "log_ok s"
  shows "step_ok s t" "s_handoffs t = s_handoffs s"
proof -
  obtain i p where ip: "identity_from_dict (jat ''identity'' payload) = Inr i"
      "policy_from_dict (jat ''policy'' payload) = Inr p" "s_events s = []" "s_identity s = None"
      "t = s\<lparr>s_identity := Some i, s_policy := Some p, s_lifecycle := ''active''\<rparr>"
    using apply_created_Inr [OF assms(1)] by blast
  then show "step_ok s t"
    using assms(2,3) identity.dec_ok [OF ip(1)] policy.dec_ok [OF ip(2)]
    by (auto simp: step_ok_def core_ok_def same_log_def grows_def log_ok_def lifecycles_def)
  show "s_handoffs t = s_handoffs s" by (simp add: ip(5))
qed

text \<open>The step before the common end, whatever the kind of event.\<close>

lemma apply_event_mid:
  assumes "apply_event v event s = Inr t" "state_ok s"
  obtains h m where "event_head event = Inr h" "apply_tail event h m = Inr t" "step_ok s m"
    "handoff_step (eh_id h) s m" "s_lifecycle s = ''active''"
proof -
  have ok: "core_ok s" "log_ok s" using assms(2) by (simp_all add: state_ok_def)
  obtain h m where h: "event_head event = Inr h" "apply_tail event h m = Inr t"
    and m: "if eh_kind h = ''workspace_created'' then apply_created event (eh_payload h) s = Inr m
     else (\<exists>i p. s_identity s = Some i \<and> s_policy s = Some p \<and> s_events s \<noteq> [] \<and>
       s_lifecycle s = ''active'' \<and> apply_kind v event h i p s = Inr m)"
    using apply_event_Inr [OF assms(1)] by blast
  show thesis
  proof (cases "eh_kind h = ''workspace_created''")
    case True
    then have c: "apply_created event (eh_payload h) s = Inr m" using m by simp
    then have "s_events s = []" using apply_created_Inr by blast
    then show thesis
      using that [OF h] apply_created_step [OF c ok] ok(2) by (simp add: handoff_step_def log_ok_def)
  next
    case False
    then show thesis
      using that [OF h] m apply_kind_step ok(1) apply_kind_handoffs by (metis (no_types, lifting))
  qed
qed

theorem apply_event_ok:
  assumes "apply_event v event s = Inr t" "state_ok s"
  shows "state_ok t" "grows s t" "s_lifecycle s = ''active''"
    "\<exists>q. s_events t = s_events s @ [event] \<and> s_receipts t = s_receipts s @ [q]"
proof -
  obtain h m where h: "event_head event = Inr h" "apply_tail event h m = Inr t"
    and m: "step_ok s m" "handoff_step (eh_id h) s m" "s_lifecycle s = ''active''"
    using apply_event_mid [OF assms] by blast
  obtain i p r where r: "s_identity m = Some i" "s_policy m = Some p" "receipt_fits i event r"
      "eh_id h \<notin> set (map fst (s_receipts m))" "ensure_bounds p False t = Inr ()"
      "t = m\<lparr>s_events := s_events m @ [event], s_last := eh_digest h,
         s_receipts := s_receipts m @ [(eh_id h, r)]\<rparr>"
    using apply_tail_Inr [OF h(2)] by blast
  have core: "core_ok m" "grows s m" "same_log s m"
    using m(1) by (simp_all add: step_ok_def)
  have log: "log_ok s" "handoffs_ok s" using assms(2) by (simp_all add: state_ok_def)
  have head: "wr_event_id r = eh_id h" "wr_event_digest r = eh_digest h"
    using event_head_Inr [OF h(1)] r(3) by (auto simp: receipt_fits_def)
  have old: "list_all2 (\<lambda>e q. \<exists>j. Some i = Some j \<and> receipt_fits j e (snd q) \<and> fst q = wr_event_id (snd q))
      (s_events s) (s_receipts s)"
  proof (cases "s_events s = []")
    case False
    then have "s_identity s = Some i"
      using log(1) core(2) r(1) by (auto simp: log_ok_def grows_def)
    then show ?thesis using log(1) by (simp add: log_ok_def)
  qed (use log(1) in \<open>simp add: log_ok_def\<close>)
  show "grows s t"
    using core(2,3) r(6) by (auto simp: grows_def same_log_def)
  have "core_ok t"
    using core(1) r(6) by (simp add: core_ok_def)
  moreover have "list_all2 (\<lambda>e q. \<exists>j. Some i = Some j \<and> receipt_fits j e (snd q) \<and>
      fst q = wr_event_id (snd q)) (s_events s @ [event]) (s_receipts s @ [(eh_id h, r)])"
    using old r(3) head by (intro list_all2_appendI) auto
  then have "log_ok t"
    using log(1) core(3) r head unfolding log_ok_def same_log_def by auto
  moreover have "handoffs_ok t"
    using log(2) m(2) core(3) r(6) unfolding handoffs_ok_def handoff_step_def same_log_def
    by (auto simp: list_all_iff)
  ultimately show "state_ok t" by (simp add: state_ok_def)
  show "s_lifecycle s = ''active''" by (rule m(3))
  show "\<exists>q. s_events t = s_events s @ [event] \<and> s_receipts t = s_receipts s @ [q]"
    using core(3) r(6) by (auto simp: same_log_def)
qed

section \<open>Runs of events\<close>

lemma apply_events_ok:
  "apply_events v es s = Inr t \<Longrightarrow> state_ok s \<Longrightarrow>
     state_ok t \<and> grows s t \<and> s_events t = s_events s @ es"
proof (induction es arbitrary: s)
  case (Cons e es)
  obtain u where u: "apply_event v e s = Inr u" "apply_events v es u = Inr t"
    using Cons.prems(1) by (auto simp: rbind_eq_Inr_iff)
  have "state_ok u" "grows s u" "\<exists>q. s_events u = s_events s @ [e] \<and> s_receipts u = s_receipts s @ [q]"
    using apply_event_ok [OF u(1) Cons.prems(2)] by blast+
  then show ?case
    using Cons.IH [OF u(2)] grows_trans by auto
qed simp

lemma apply_events_append:
  "apply_events v (es @ fs) s = rbind (apply_events v es s) (apply_events v fs)"
proof (induction es arbitrary: s)
  case (Cons e es)
  then show ?case by (cases "apply_event v e s") simp_all
qed simp

text \<open>The event whose projection left the state, with the state before it.\<close>

lemma apply_events_nth:
  assumes "apply_events v es s = Inr t" "n < length es"
  shows "\<exists>m u. apply_events v (take n es) s = Inr m \<and> apply_event v (es ! n) m = Inr u \<and>
    apply_events v (drop (Suc n) es) u = Inr t"
proof -
  have "es = take n es @ es ! n # drop (Suc n) es"
    using assms(2) id_take_nth_drop by blast
  then have "apply_events v (take n es @ es ! n # drop (Suc n) es) s = Inr t"
    using assms(1) by simp
  then show ?thesis
    by (simp add: apply_events_append rbind_eq_Inr_iff)
qed

section \<open>The digest of a state\<close>

lemma list_all2_rightD: "list_all2 P xs ys \<Longrightarrow> y \<in> set ys \<Longrightarrow> \<exists>x \<in> set xs. P x y"
  by (induction rule: list_all2_induct) auto

lemma receipt_of_log:
  assumes "log_ok s" "q \<in> set (s_receipts s)"
  shows "\<exists>e i. e \<in> set (s_events s) \<and> s_identity s = Some i \<and> receipt_fits i e (snd q) \<and>
    fst q = wr_event_id (snd q)"
proof -
  have "list_all2 (\<lambda>e q. \<exists>i. s_identity s = Some i \<and> receipt_fits i e (snd q) \<and>
      fst q = wr_event_id (snd q)) (s_events s) (s_receipts s)"
    using assms(1) by (simp add: log_ok_def)
  from list_all2_rightD [OF this assms(2)] show ?thesis by blast
qed

lemma event_ids_uuid:
  assumes "log_ok s" "e \<in> set (map fst (s_receipts s))"
  shows "is_uuid e"
proof -
  obtain r where "(e, r) \<in> set (s_receipts s)" using assms(2) by auto
  from receipt_of_log [OF assms(1) this] show ?thesis
    by (auto simp: receipt_fits_def)
qed

lemma last_digest_strict:
  assumes "log_ok s"
  shows "strict_utf8 (s_last s)"
proof (cases "s_receipts s = []")
  case True
  then have "s_last s = ZERO_DIGEST" using assms by (simp add: log_ok_def)
  then show ?thesis
    by (auto simp: ZERO_DIGEST_def printable_ascii_def list_all_iff intro!: printable_strict)
next
  case False
  then have "s_last s = wr_event_digest (snd (last (s_receipts s)))" using assms by (simp add: log_ok_def)
  then show ?thesis
    using receipt_of_log [OF assms last_in_set [OF False]]
    by (auto simp: receipt_fits_def intro: is_digest_strict)
qed

lemma handoff_records_json_ok:
  assumes "handoffs_ok s" "log_ok s" "q \<in> set (s_handoffs s)"
  shows "json_ok (handoff_record_to_dict (snd q))"
proof -
  have "is_uuid (hr_handoff (snd q))" "is_digest (hr_digest (snd q))" "is_uuid (hr_event (snd q))"
    using assms event_ids_uuid [OF assms(2)] by (auto simp: handoffs_ok_def list_all_iff)
  then have "strict_utf8 (hr_handoff (snd q))" "strict_utf8 (hr_digest (snd q))"
      "strict_utf8 (hr_event (snd q))"
    using is_uuid_strict is_digest_strict by blast+
  then show ?thesis
    by (simp add: handoff_record_to_dict_def strict_utf8_def)
qed

lemma session_record_json_ok:
  assumes "session_ok r"
  shows "json_ok (session_record_to_dict r)"
proof -
  have "json_ok (jstrs (sn_sources r))"
    using assms str_list_strict text_ok_strict unfolding session_ok_def by blast
  moreover have "strict_utf8 (sn_session r)" "strict_utf8 (sn_task r)"
    using assms text_ok_strict unfolding session_ok_def by blast+
  ultimately show ?thesis
    by (simp add: session_record_to_dict_def strict_utf8_def)
qed

lemma lifecycle_strict: "l \<in> set lifecycles \<Longrightarrow> strict_utf8 l"
  by (auto simp: lifecycles_def printable_ascii_def intro!: printable_strict)

lemma state_dict_json_ok_core:
  assumes "core_ok s" "s_identity s = Some i" "s_policy s = Some p" "strict_utf8 (s_last s)"
    "list_all (\<lambda>q. json_ok (handoff_record_to_dict (snd q))) (s_handoffs s)"
  shows "json_ok (state_dict i p s)"
proof -
  have "json_ok (identity_to_dict i)" "json_ok (policy_to_dict p)"
    using assms(1-3) identity.enc_ok policy.enc_ok by (simp_all add: core_ok_def)
  moreover have "list_all json_ok (map (\<lambda>q. anchor_to_dict (snd q)) (sort_key fst (s_sources s)))"
    using assms(1) anchor.enc_ok by (auto simp: core_ok_def sources_ok_def list_all_iff)
  moreover have "list_all json_ok (map session_record_to_dict (s_sessions s))"
    using assms(1) session_record_json_ok by (auto simp: core_ok_def list_all_iff)
  moreover have "list_all json_ok (map entry_to_dict (s_entries s))"
    using assms(1) entry.enc_ok by (auto simp: core_ok_def entries_ok_def list_all_iff)
  moreover have "list_all json_ok (map (\<lambda>q. handoff_record_to_dict (snd q)) (sort_key fst (s_handoffs s)))"
    using assms(5) by (auto simp: list_all_iff)
  moreover have "json_ok (opt_dict id (s_fork s))"
    using assms(1) lineage.enc_ok by (auto simp: core_ok_def opt_dict_def split: option.splits)
  moreover have "strict_utf8 (s_lifecycle s)"
    using assms(1) lifecycle_strict by (auto simp: core_ok_def)
  ultimately show ?thesis
    using assms(4) by (simp add: state_dict_def strict_utf8_def)
qed

lemma state_dict_json_ok:
  assumes "state_ok s" "s_identity s = Some i" "s_policy s = Some p"
  shows "json_ok (state_dict i p s)"
  using assms last_digest_strict handoff_records_json_ok
  by (intro state_dict_json_ok_core) (auto simp: state_ok_def list_all_iff)

text \<open>The state with an event recorded has a digest, so the receipt of most kinds can be made.\<close>

lemma recorded_digest:
  assumes "state_ok s" "step_ok s m" "handoff_step eid s m" "is_uuid eid" "is_digest g"
    "s_identity m = Some i" "s_policy m = Some p"
  shows "\<exists>d. state_digest (m\<lparr>s_events := es, s_last := g\<rparr>) = Inr d \<and> is_digest d"
proof -
  let ?m = "m\<lparr>s_events := es, s_last := g\<rparr>"
  have "core_ok ?m" using assms(2) by (simp add: step_ok_def core_ok_def)
  moreover have "list_all (\<lambda>q. json_ok (handoff_record_to_dict (snd q))) (s_handoffs m)"
    using assms(1,3,4) handoff_records_json_ok is_uuid_strict is_digest_strict
    unfolding handoff_step_def list_all_iff state_ok_def
    by (auto simp: handoff_record_to_dict_def strict_utf8_def)
  ultimately have "json_ok (state_dict i p ?m)"
    using assms(5-7) is_digest_strict by (intro state_dict_json_ok_core) simp_all
  then show ?thesis
    using assms(6,7) ws_digest_shape by (auto simp: state_digest_def ws_digest_ok)
qed

definition plain_kinds :: "pystr list" where
  "plain_kinds = [''workspace_created'', ''policy_tightened'', ''checkpoint_created'',
     ''workspace_restored'', ''workspace_seeded'', ''workspace_sealed'', ''package_pinned'',
     ''workspace_forked'', ''handoff_applied'', ''workspace_completed'', ''workspace_aborted'']"

lemma plain_receipt:
  assumes "kind \<in> set plain_kinds" "identity_ok i" "is_uuid eid" "is_digest g" "is_digest d" "0 < n"
  shows "\<exists>r. mk_ws_receipt (wi_id i) (wi_state_id i) n eid kind g d [] None [] [] = Inr r"
proof -
  have "is_digest (wi_state_id i)" "is_uuid (wi_id i)"
    using assms(2) by (simp_all add: identity_ok_def)
  moreover have "kind \<in> set event_kinds"
    using assms(1) by (auto simp: plain_kinds_def event_kinds_def)
  ultimately show ?thesis
    using assms(3-6)
    by (simp add: mk_ws_receipt_def wuuid_def wdigest_def on_text_def member_def in_set_def wids_def wrefs_def
        jstrs_def unique_sorted_def wopt_text_def opt_str_def)
qed

lemma plain_lineage: "kind \<in> set plain_kinds \<Longrightarrow> receipt_lineage kind payload = Inr ([], None, [], [])"
  by (auto simp: receipt_lineage_def plain_kinds_def)


end
