(* ===== verification/Ws_Journal_Facts.thy ===== *)
theory Ws_Journal_Facts
  imports Ws_Journal Ws_Runs
begin

text \<open>
  What the journal guarantees: its events form a chain of digests, reading it gives a state that
  satisfies the invariant, a published event is read back, and a write that stops half way leaves
  either the old journal or the new one.
\<close>

section \<open>Names of events\<close>

lemma digits_value_pad0: "k < 10 ^ n \<Longrightarrow> digits_value 0 (pad_digits n k) = k"
  by (simp add: digits_value_pad)

lemma event_file_name:
  assumes "n < 10 ^ 16" "is_digest d"
  shows "event_file (event_name n d) = Some (n, remove_prefix ''sha256:'' d)"
proof -
  obtain h where h: "d = ''sha256:'' @ h" "length h = 64" "list_all is_hex h"
    using assms(2) by (auto simp: is_digest_def prefixed_hex_decomp)
  have p: "remove_prefix ''sha256:'' d = h"
    by (simp add: h(1) remove_prefix_def starts_with_def)
  have len: "length (pad_digits 16 n) = 16" by simp
  have drop17: "drop 17 (pad_digits 16 n @ ''-'' @ h @ ''.json'') = h @ ''.json''"
    using len by simp
  have drop81: "drop 81 (pad_digits 16 n @ ''-'' @ h @ ''.json'') = ''.json''"
    using len h(2) by simp
  have nth: "(pad_digits 16 n @ ''-'' @ h @ ''.json'') ! 16 = CHR ''-''"
    using len by (metis append_Cons nth_append_length)
  show ?thesis
    using assms(1) h(2,3) pad_digits_digits [of 16 n] drop17 drop81 nth
    by (simp add: event_name_def event_file_def p digits_value_pad0)
qed

lemma event_file_head:
  assumes "event_file name \<noteq> None"
  shows "name \<noteq> ''.workspace.lock'' \<and> \<not> is_temporary name"
proof -
  have "length name = 86" "list_all is_digit (take 16 name)"
    using assms by (auto simp: event_file_def split: if_splits)
  then obtain c rest where name: "name = c # rest" "is_digit c"
    by (cases name) auto
  then have "c \<noteq> CHR ''.''" by (auto simp: is_digit_def)
  then show ?thesis
    using name by (auto simp: is_temporary_def starts_with_def)
qed

section \<open>Reading\<close>

fun chained :: "pystr \<Rightarrow> nat \<Rightarrow> pystr \<Rightarrow> json list \<Rightarrow> bool" where
  "chained w n previous [] \<longleftrightarrow> True"
| "chained w n previous (e # es) \<longleftrightarrow>
     jget ''workspace_id'' e = Some (JStr w) \<and> jget ''sequence'' e = Some (JInt (int n)) \<and>
     jget ''previous_digest'' e = Some (JStr previous) \<and>
     (\<exists>g. jget ''event_digest'' e = Some (JStr g) \<and> ws_digest (unsigned_part e) = Inr g \<and>
       chained w (Suc n) g es)"

lemma read_event_Inr:
  assumes "read_event d w n previous name = Inr e"
  shows "jget ''workspace_id'' e = Some (JStr w) \<and> jget ''sequence'' e = Some (JInt (int n)) \<and>
     jget ''previous_digest'' e = Some (JStr previous) \<and>
     (\<exists>g. jget ''event_digest'' e = Some (JStr g) \<and> ws_digest (unsigned_part e) = Inr g) \<and>
     dir_inode d name \<noteq> None \<and> read_regular d name = Inr (dumps e @ [CHR 0x0A])"
proof -
  obtain data bytes g where
      r: "read_regular d name = Inr data" "ws_canonical e = Inr bytes" "bytes @ [CHR 0x0A] = data"
    and f: "jat ''workspace_id'' e = JStr w" "jat ''sequence'' e = JInt (int n)"
      "jat ''event_digest'' e = JStr g" "jat ''previous_digest'' e = JStr previous"
      "ws_digest (unsigned_part e) = Inr g"
    using assms
    unfolding read_event_def rbind_eq_Inr_iff check_eq_Inr_iff field_read_def on_err_eq_Inr_iff
      wuuid_Inr wdigest_Inr split_def sum.inject
    by blast
  have "dir_inode d name \<noteq> None"
    using r(1) by (auto simp: read_regular_def rbind_eq_Inr_iff of_option_eq_Inr_iff)
  then show ?thesis
    using r f ws_canonical_Inr [OF r(2)] jat_some by simp
qed

lemma replay_Inr:
  "replay d w n previous s names = Inr t \<Longrightarrow>
     \<exists>es. apply_events True es s = Inr t \<and> length es = length names \<and> chained w n previous es \<and>
       list_all2 (\<lambda>name e. read_regular d name = Inr (dumps e @ [CHR 0x0A])) names es"
proof (induction names arbitrary: n previous s)
  case (Cons name names)
  obtain e u where e: "read_event d w n previous name = Inr e" "apply_event True e s = Inr u"
    and t: "(case jget ''event_digest'' e of Some (JStr g) \<Rightarrow> replay d w (Suc n) g u names
            | _ \<Rightarrow> Inl (RIncompatible, Some u)) = Inr t"
    using Cons.prems by (auto simp: rbind_eq_Inr_iff on_err_eq_Inr_iff)
  obtain g where g: "jget ''event_digest'' e = Some (JStr g)" "ws_digest (unsigned_part e) = Inr g"
    using read_event_Inr [OF e(1)] by blast
  then have "replay d w (Suc n) g u names = Inr t" using t by simp
  from Cons.IH [OF this] obtain es where es: "apply_events True es u = Inr t" "length es = length names"
      "chained w (Suc n) g es"
      "list_all2 (\<lambda>name e. read_regular d name = Inr (dumps e @ [CHR 0x0A])) names es"
    by blast
  show ?case
    using read_event_Inr [OF e(1)] e(2) g es by (intro exI [of _ "e # es"]) auto
qed simp

lemma project_Inr:
  assumes "project d w = Inr s"
  shows "apply_events True (s_events s) empty_state = Inr s" "chained w 1 ZERO_DIGEST (s_events s)"
    "state_ok s" "list_all2 (\<lambda>name e. read_regular d name = Inr (dumps e @ [CHR 0x0A]))
       (published d) (s_events s)"
    "\<exists>i p. s_identity s = Some i \<and> wi_id i = w \<and> s_policy s = Some p" "links_ok d"
    "replay d w 1 ZERO_DIGEST empty_state (published d) = Inr s"
proof -
  have r: "replay d w 1 ZERO_DIGEST empty_state (published d) = Inr s" "links_ok d"
      "map_option wi_id (s_identity s) = Some w" "s_policy s \<noteq> None"
    using assms by (auto simp: project_def rbind_eq_Inr_iff check_eq_Inr_iff)
  obtain es where es: "apply_events True es empty_state = Inr s" "chained w 1 ZERO_DIGEST es"
      "list_all2 (\<lambda>name e. read_regular d name = Inr (dumps e @ [CHR 0x0A])) (published d) es"
    using replay_Inr [OF r(1)] by blast
  have "s_events s = es"
    using apply_events_ok [OF es(1) empty_state_ok] by (simp add: empty_state_def)
  then show "apply_events True (s_events s) empty_state = Inr s" "chained w 1 ZERO_DIGEST (s_events s)"
    "list_all2 (\<lambda>name e. read_regular d name = Inr (dumps e @ [CHR 0x0A])) (published d) (s_events s)"
    using es by simp_all
  show "state_ok s" using apply_events_ok [OF es(1) empty_state_ok] by blast
  show "links_ok d" "replay d w 1 ZERO_DIGEST empty_state (published d) = Inr s" by (rule r)+
  show "\<exists>i p. s_identity s = Some i \<and> wi_id i = w \<and> s_policy s = Some p"
    using r(3,4) by auto
qed

section \<open>Publishing\<close>

lemma rbind_mapr_append:
  "rbind (mapr f (xs @ ys)) (\<lambda>_. k) = rbind (mapr f xs) (\<lambda>_. rbind (mapr f ys) (\<lambda>_. k))"
proof (induction xs)
  case (Cons x xs)
  then show ?case by (cases "f x"; cases "mapr f xs"; cases "mapr f (xs @ ys)") auto
qed simp

text \<open>A directory with the files \<open>new\<close>, all on the inode \<open>i\<close>, beside what it holds.\<close>

definition with_files :: "nat \<Rightarrow> inode \<Rightarrow> pystr list \<Rightarrow> events_dir \<Rightarrow> events_dir" where
  "with_files i f new d =
     d\<lparr>ed_names := ed_names d @ map (\<lambda>n. (n, i)) new, ed_inodes := dict_put i f (ed_inodes d)\<rparr>"

definition fresh_for :: "events_dir \<Rightarrow> nat \<Rightarrow> pystr list \<Rightarrow> bool" where
  "fresh_for d i new \<longleftrightarrow>
     i \<notin> snd ` set (ed_names d) \<and> set new \<inter> fst ` set (ed_names d) = {}"

lemma map_of_const_keys: "map_of (map (\<lambda>n. (n, i)) ns) n = (if n \<in> set ns then Some i else None)"
  by (induction ns) auto

lemma with_files_lookup:
  assumes "fresh_for d i new"
  shows "map_of (ed_names (with_files i f new d)) n =
    (if n \<in> set new then Some i else map_of (ed_names d) n)"
proof (cases "n \<in> set new")
  case True
  then have "map_of (ed_names d) n = None"
    using assms by (auto simp: fresh_for_def map_of_eq_None_iff)
  then show ?thesis
    using True by (simp add: with_files_def map_add_def map_of_const_keys)
next
  case False
  then show ?thesis
    by (auto simp: with_files_def map_add_def map_of_const_keys split: option.splits)
qed

lemma with_files_inode:
  assumes "fresh_for d i new"
  shows "dir_inode (with_files i f new d) n = (if n \<in> set new then Some f else dir_inode d n)"
proof -
  have inodes: "ed_inodes (with_files i f new d) = dict_put i f (ed_inodes d)"
    by (simp add: with_files_def)
  have "map_of (ed_names d) n \<noteq> Some i"
    using assms by (auto simp: fresh_for_def) (metis image_eqI map_of_SomeD snd_conv)
  then show ?thesis
    unfolding dir_inode_def with_files_lookup [OF assms] inodes map_of_dict_put
    by (cases "map_of (ed_names d) n") auto
qed

lemma with_files_names: "map fst (ed_names (with_files i f new d)) = map fst (ed_names d) @ new"
  by (simp add: with_files_def comp_def)

lemma fresh_not_new: "fresh_for d i new \<Longrightarrow> n \<in> set (map fst (ed_names d)) \<Longrightarrow> n \<notin> set new"
  by (auto simp: fresh_for_def)

text \<open>The functions that read see the old names as before.\<close>

lemma with_files_old:
  assumes "fresh_for d i new" "n \<in> set (map fst (ed_names d))"
  shows "name_ok (with_files i f new d) n = name_ok d n"
    "read_regular (with_files i f new d) n = read_regular d n"
    "name_links (with_files i f new d) n = name_links d n"
    "m \<in> set (map fst (ed_names d)) \<Longrightarrow> same_inode (with_files i f new d) n m = same_inode d n m"
    "m \<in> set new \<Longrightarrow> \<not> same_inode (with_files i f new d) n m"
    "m \<in> set new \<Longrightarrow> \<not> same_inode (with_files i f new d) m n"
proof -
  have n: "n \<notin> set new" by (rule fresh_not_new [OF assms])
  then have i: "dir_inode (with_files i f new d) n = dir_inode d n"
    by (simp add: with_files_inode [OF assms(1)])
  show "name_ok (with_files i f new d) n = name_ok d n"
    unfolding name_ok_def i ..
  show "read_regular (with_files i f new d) n = read_regular d n"
    using n by (simp add: read_regular_def with_files_inode [OF assms(1)])
  show "name_links (with_files i f new d) n = name_links d n"
    using n by (simp add: name_links_def with_files_inode [OF assms(1)])
  show "same_inode (with_files i f new d) n m = same_inode d n m"
    if "m \<in> set (map fst (ed_names d))"
    using n fresh_not_new [OF assms(1) that] by (simp add: same_inode_def with_files_lookup [OF assms(1)])
  have "map_of (ed_names d) n \<noteq> Some i"
    using assms(1) by (auto simp: fresh_for_def) (metis image_eqI map_of_SomeD snd_conv)
  then show "\<not> same_inode (with_files i f new d) n m" "\<not> same_inode (with_files i f new d) m n"
    if "m \<in> set new"
    using n that by (auto simp: same_inode_def with_files_lookup [OF assms(1)])
qed

lemma with_files_new:
  assumes "fresh_for d i new" "n \<in> set new"
  shows "name_links (with_files i f new d) n = in_links f"
    "m \<in> set new \<Longrightarrow> same_inode (with_files i f new d) n m"
  using assms
  by (simp_all add: name_links_def with_files_inode [OF assms(1)] same_inode_def
      with_files_lookup [OF assms(1)])

lemma published_subset: "set (published d) \<subseteq> set (map fst (ed_names d))"
    "set (temporaries d) \<subseteq> set (map fst (ed_names d))"
  by (auto simp: published_def temporaries_def)

lemma read_event_cong:
  "read_regular d name = read_regular d' name \<Longrightarrow> read_event d w n p name = read_event d' w n p name"
  by (simp add: read_event_def)

lemma replay_cong:
  "(\<And>name. name \<in> set names \<Longrightarrow> read_regular d name = read_regular d' name) \<Longrightarrow>
     replay d w n p s names = replay d' w n p s names"
proof (induction names arbitrary: n p s)
  case (Cons name names)
  then have "read_event d w k q name = read_event d' w k q name" for k q
    by (intro read_event_cong) simp
  then show ?case
    using Cons by (simp cong: option.case_cong json.case_cong)
qed simp

subsection \<open>Before the event has its name\<close>

lemma project_temporary:
  assumes "fresh_for d i [tmp]" "is_temporary tmp" "in_regular f" "in_private f" "in_links f = 1"
  shows "project (with_files i f [tmp] d) w = project d w"
proof -
  let ?d = "with_files i f [tmp] d"
  have lock: "tmp \<noteq> ''.workspace.lock''"
    using assms(2) by (auto simp: is_temporary_def starts_with_def)
  have tmp: "name_ok ?d tmp = Inr ()"
    using assms lock by (simp add: name_ok_def with_files_inode [OF assms(1)])
  have old: "mapr (name_ok ?d) (map fst (ed_names d)) = mapr (name_ok d) (map fst (ed_names d))"
    using with_files_old(1) [OF assms(1)] by (intro mapr_cong) auto
  have pub: "published ?d = published d"
    using assms(2) lock by (simp add: published_def with_files_names)
  have temp: "temporaries ?d = temporaries d @ [tmp]"
    using assms(2) lock by (simp add: temporaries_def with_files_names)
  have rep: "replay ?d w 1 ZERO_DIGEST empty_state (published d) =
      replay d w 1 ZERO_DIGEST empty_state (published d)"
    using with_files_old(2) [OF assms(1) subsetD [OF published_subset(1)]] by (intro replay_cong)
  have same: "filter (same_inode ?d n) ns = filter (same_inode d n) ns"
    if "n \<in> set (map fst (ed_names d))" "set ns \<subseteq> set (map fst (ed_names d))" for n ns
    by (intro filter_cong refl) (rule with_files_old(4) [OF assms(1) that(1) subsetD [OF that(2)]])
  have links: "name_links ?d n = name_links d n" if "n \<in> set (published d) \<union> set (temporaries d)" for n
    using that published_subset with_files_old(3) [OF assms(1)] by blast
  have finals: "filter (\<lambda>n. name_links ?d n = 2) (published d) = filter (\<lambda>n. name_links d n = 2) (published d)"
    using links by (intro filter_cong) auto
  have "links_ok ?d = links_ok d"
  proof -
    let ?F = "filter (\<lambda>n. name_links d n = 2) (published d)"
    have F: "set ?F \<subseteq> set (map fst (ed_names d))" using published_subset(1) by auto
    have a: "list_all (\<lambda>n. name_links ?d n \<in> {1, 2}) (published d) =
        list_all (\<lambda>n. name_links d n \<in> {1, 2}) (published d)"
      using links by (auto simp: list_all_iff)
    have b: "list_all (\<lambda>n. name_links ?d n = 1 \<or>
          name_links ?d n = 2 \<and> length (filter (same_inode ?d n) ?F) = 1) (temporaries d @ [tmp]) =
        list_all (\<lambda>n. name_links d n = 1 \<or>
          name_links d n = 2 \<and> length (filter (same_inode d n) ?F) = 1) (temporaries d)"
      using links same [OF subsetD [OF published_subset(2)] F] assms(5)
        with_files_new(1) [OF assms(1), of tmp f]
      by (auto simp: list_all_iff simp del: filter_filter)
    have c: "list_all (\<lambda>n. length (filter (same_inode ?d n) (temporaries d @ [tmp])) = 1) ?F =
        list_all (\<lambda>n. length (filter (same_inode d n) (temporaries d)) = 1) ?F"
      using same [OF _ published_subset(2)] F with_files_old(5) [OF assms(1), of _ tmp f]
      by (auto simp: list_all_iff subset_iff simp del: filter_filter)
    show ?thesis
      unfolding links_ok_def Let_def pub temp finals a b c ..
  qed
  then show ?thesis
    unfolding project_def pub rep with_files_names rbind_mapr_append old by (simp add: tmp)
qed

subsection \<open>Once the event has its name\<close>

lemma fresh_for_subset: "fresh_for d i new \<Longrightarrow> set new' \<subseteq> set new \<Longrightarrow> fresh_for d i new'"
  by (auto simp: fresh_for_def)

text \<open>The temporary name of a published event does not matter.\<close>

definition publishing :: "events_dir \<Rightarrow> nat \<Rightarrow> pystr \<Rightarrow> pystr \<Rightarrow> inode \<Rightarrow> bool" where
  "publishing d i tmp filename f \<longleftrightarrow>
     fresh_for d i [tmp, filename] \<and> is_temporary tmp \<and> event_file filename \<noteq> None \<and>
     in_regular f \<and> in_private f"

definition linked_dir :: "events_dir \<Rightarrow> nat \<Rightarrow> pystr \<Rightarrow> pystr \<Rightarrow> inode \<Rightarrow> events_dir" where
  "linked_dir d i tmp filename f = with_files i (f\<lparr>in_links := 2\<rparr>) [tmp, filename] d"

definition final_dir :: "events_dir \<Rightarrow> nat \<Rightarrow> pystr \<Rightarrow> inode \<Rightarrow> events_dir" where
  "final_dir d i filename f = with_files i (f\<lparr>in_links := 1\<rparr>) [filename] d"

lemma publishing_fresh:
  assumes p: "publishing d i tmp filename f"
  shows "fresh_for d i [tmp, filename]" "is_temporary tmp" "event_file filename \<noteq> None"
    "in_regular f" "in_private f"
  using p by (simp_all add: publishing_def)

lemma fresh1:
  assumes p: "publishing d i tmp filename f"
  shows "fresh_for d i [filename]"
  using publishing_fresh(1) [OF p] by (rule fresh_for_subset) simp

lemma kinds:
  assumes p: "publishing d i tmp filename f"
  shows "filename \<noteq> ''.workspace.lock''" "\<not> is_temporary filename" "tmp \<noteq> ''.workspace.lock''"
    "tmp \<noteq> filename"
  using event_file_head [OF publishing_fresh(3) [OF p]] publishing_fresh(2) [OF p] by (auto simp: is_temporary_def starts_with_def)

lemma old_name_ok:
  assumes p: "publishing d i tmp filename f"
  shows "mapr (name_ok (linked_dir d i tmp filename f)) (map fst (ed_names d)) = mapr (name_ok (final_dir d i filename f)) (map fst (ed_names d))"
  using with_files_old(1) [OF publishing_fresh(1) [OF p]] with_files_old(1) [OF fresh1 [OF p]]
  by (intro mapr_cong) (simp_all add: linked_dir_def final_dir_def)

lemma new_name_ok:
  assumes p: "publishing d i tmp filename f"
  shows "name_ok (linked_dir d i tmp filename f) tmp = Inr ()" "name_ok (linked_dir d i tmp filename f) filename = Inr ()" "name_ok (final_dir d i filename f) filename = Inr ()"
  using kinds [OF p] publishing_fresh [OF p]
  by (simp_all add: name_ok_def linked_dir_def with_files_inode [OF publishing_fresh(1) [OF p]])

lemma same_published:
  assumes p: "publishing d i tmp filename f"
  shows "published (linked_dir d i tmp filename f) = published (final_dir d i filename f)"
  using publishing_fresh(2) [OF p] kinds [OF p] by (simp add: published_def linked_dir_def final_dir_def with_files_names)

lemma in_published:
  assumes p: "publishing d i tmp filename f"
  shows "n \<in> set (published (final_dir d i filename f)) \<Longrightarrow> n = filename \<or> n \<in> set (map fst (ed_names d))"
  using published_subset(1) [of "final_dir d i filename f"] by (auto simp: final_dir_def with_files_def)

lemma filename_once:
  assumes p: "publishing d i tmp filename f"
  shows "filter (\<lambda>n. n = filename) (published (final_dir d i filename f)) = [filename]"
proof -
  have "filename \<notin> set (map fst (ed_names d))"
    using publishing_fresh(1) [OF p] by (auto simp: fresh_for_def)
  then have "filter (\<lambda>n. n = filename) (map fst (ed_names d)) = []"
    by (auto simp: filter_empty_conv)
  then have "length (filter (\<lambda>n. n = filename)
      (filter (\<lambda>n. n \<noteq> ''.workspace.lock'' \<and> \<not> is_temporary n) (map fst (ed_names (final_dir d i filename f))))) = 1"
    using kinds [OF p] by (simp add: final_dir_def with_files_names filter_filter filter_empty_conv)
  then have "length (filter (\<lambda>n. n = filename) (published (final_dir d i filename f))) = 1"
    unfolding published_def filter_sort by simp
  then obtain x where x: "filter (\<lambda>n. n = filename) (published (final_dir d i filename f)) = [x]"
    by (cases "filter (\<lambda>n. n = filename) (published (final_dir d i filename f))") auto
  have "x \<in> set (filter (\<lambda>n. n = filename) (published (final_dir d i filename f)))"
    unfolding x by simp
  then have "x = filename" by (simp only: set_filter mem_Collect_eq)
  then show ?thesis using x by simp
qed

lemma temporaries_both:
  assumes p: "publishing d i tmp filename f"
  shows "temporaries (linked_dir d i tmp filename f) = temporaries d @ [tmp]"
    "temporaries (final_dir d i filename f) = temporaries d"
  using publishing_fresh(2) [OF p] kinds [OF p] by (simp_all add: temporaries_def linked_dir_def final_dir_def with_files_names)

lemma same_replay:
  assumes p: "publishing d i tmp filename f"
  shows "replay (linked_dir d i tmp filename f) w n p s (published (final_dir d i filename f)) = replay (final_dir d i filename f) w n p s (published (final_dir d i filename f))"
proof (rule replay_cong)
  fix n
  assume "n \<in> set (published (final_dir d i filename f))"
  then consider "n = filename" | "n \<in> set (map fst (ed_names d))" using in_published [OF p] by blast
  then show "read_regular (linked_dir d i tmp filename f) n = read_regular (final_dir d i filename f) n"
  proof cases
    case 1
    then show ?thesis
      unfolding linked_dir_def final_dir_def read_regular_def with_files_inode [OF publishing_fresh(1) [OF p]]
        with_files_inode [OF fresh1 [OF p]] by simp
  next
    case 2
    show ?thesis
      unfolding linked_dir_def final_dir_def with_files_old(2) [OF publishing_fresh(1) [OF p] 2]
        with_files_old(2) [OF fresh1 [OF p] 2] ..
  qed
qed

lemma old_links:
  assumes p: "publishing d i tmp filename f" and n: "n \<in> set (map fst (ed_names d))"
  shows "name_links (linked_dir d i tmp filename f) n = name_links d n" "name_links (final_dir d i filename f) n = name_links d n"
  using with_files_old(3) [OF publishing_fresh(1) [OF p] n] with_files_old(3) [OF fresh1 [OF p] n]
  by (simp_all add: linked_dir_def final_dir_def)

lemma new_links:
  assumes p: "publishing d i tmp filename f"
  shows "name_links (linked_dir d i tmp filename f) tmp = 2" "name_links (linked_dir d i tmp filename f) filename = 2" "name_links (final_dir d i filename f) filename = 1"
  using with_files_new(1) [OF publishing_fresh(1) [OF p]] with_files_new(1) [OF fresh1 [OF p]]
  by (simp_all add: linked_dir_def final_dir_def)

text \<open>The published partners of an old temporary name.\<close>

lemma old_partners:
  assumes p: "publishing d i tmp filename f" and n: "n \<in> set (map fst (ed_names d))"
  shows "filter (same_inode (linked_dir d i tmp filename f) n) (filter (\<lambda>m. name_links (linked_dir d i tmp filename f) m = 2) (published (final_dir d i filename f))) =
    filter (same_inode (final_dir d i filename f) n) (filter (\<lambda>m. name_links (final_dir d i filename f) m = 2) (published (final_dir d i filename f)))"
  unfolding filter_filter
proof (intro filter_cong refl)
  fix m
  assume "m \<in> set (published (final_dir d i filename f))"
  then consider "m = filename" | "m \<in> set (map fst (ed_names d))" using in_published [OF p] by blast
  then show "(name_links (linked_dir d i tmp filename f) m = 2 \<and> same_inode (linked_dir d i tmp filename f) n m) =
      (name_links (final_dir d i filename f) m = 2 \<and> same_inode (final_dir d i filename f) n m)"
  proof cases
    case 1
    then show ?thesis
      using with_files_old(5) [OF publishing_fresh(1) [OF p] n, of filename] with_files_old(5) [OF fresh1 [OF p] n, of filename]
      by (simp add: linked_dir_def final_dir_def)
  next
    case 2
    then show ?thesis
      using old_links [OF p 2] with_files_old(4) [OF publishing_fresh(1) [OF p] n 2] with_files_old(4) [OF fresh1 [OF p] n 2]
      by (simp add: linked_dir_def final_dir_def)
  qed
qed

lemma tmp_partner:
  assumes p: "publishing d i tmp filename f"
  shows "filter (same_inode (linked_dir d i tmp filename f) tmp) (filter (\<lambda>m. name_links (linked_dir d i tmp filename f) m = 2) (published (final_dir d i filename f))) = [filename]"
proof -
  have "filter (\<lambda>m. name_links (linked_dir d i tmp filename f) m = 2 \<and> same_inode (linked_dir d i tmp filename f) tmp m) (published (final_dir d i filename f)) =
      filter (\<lambda>n. n = filename) (published (final_dir d i filename f))"
  proof (intro filter_cong refl)
    fix m
    assume "m \<in> set (published (final_dir d i filename f))"
    then consider "m = filename" | "m \<in> set (map fst (ed_names d))" "m \<noteq> filename"
      using in_published [OF p] by blast
    then show "(name_links (linked_dir d i tmp filename f) m = 2 \<and> same_inode (linked_dir d i tmp filename f) tmp m) = (m = filename)"
    proof cases
      case 1
      then show ?thesis
        using new_links [OF p] with_files_new(2) [OF publishing_fresh(1) [OF p], of tmp filename] by (simp add: linked_dir_def)
    next
      case 2
      then show ?thesis
        using with_files_old(6) [OF publishing_fresh(1) [OF p] 2(1), of tmp] by (simp add: linked_dir_def)
    qed
  qed
  then show ?thesis
    by (simp add: filter_filter filename_once [OF p])
qed

lemma final_partners:
  assumes p: "publishing d i tmp filename f" and n: "n \<in> set (published (final_dir d i filename f))"
  shows "name_links (linked_dir d i tmp filename f) n = 2 \<Longrightarrow> n \<noteq> filename \<Longrightarrow>
      filter (same_inode (linked_dir d i tmp filename f) n) (temporaries d @ [tmp]) = filter (same_inode (final_dir d i filename f) n) (temporaries d)"
    "length (filter (same_inode (linked_dir d i tmp filename f) filename) (temporaries d @ [tmp])) = 1"
proof -
  assume "n \<noteq> filename"
  then have n: "n \<in> set (map fst (ed_names d))" using in_published [OF p] n by blast
  have "same_inode (linked_dir d i tmp filename f) n m = same_inode (final_dir d i filename f) n m" if "m \<in> set (temporaries d)" for m
    using with_files_old(4) [OF publishing_fresh(1) [OF p] n] with_files_old(4) [OF fresh1 [OF p] n] published_subset(2) that
    by (simp add: linked_dir_def final_dir_def) (metis subsetD)
  then have "filter (same_inode (linked_dir d i tmp filename f) n) (temporaries d) = filter (same_inode (final_dir d i filename f) n) (temporaries d)"
    by (intro filter_cong) auto
  then show "filter (same_inode (linked_dir d i tmp filename f) n) (temporaries d @ [tmp]) = filter (same_inode (final_dir d i filename f) n) (temporaries d)"
    using with_files_old(5) [OF publishing_fresh(1) [OF p] n, of tmp] by (simp add: linked_dir_def)
next
  have "\<not> same_inode (linked_dir d i tmp filename f) filename m" if "m \<in> set (temporaries d)" for m
    using with_files_old(6) [OF publishing_fresh(1) [OF p] subsetD [OF published_subset(2) that], of filename]
    by (simp add: linked_dir_def)
  then show "length (filter (same_inode (linked_dir d i tmp filename f) filename) (temporaries d @ [tmp])) = 1"
    using with_files_new(2) [OF publishing_fresh(1) [OF p], of filename tmp] by (simp add: linked_dir_def filter_empty_conv)
qed

lemma linked_links_ok:
  assumes p: "publishing d i tmp filename f"
  shows "links_ok (linked_dir d i tmp filename f) = links_ok (final_dir d i filename f)"
proof -
  let ?L = "linked_dir d i tmp filename f" and ?F = "final_dir d i filename f"
  let ?P = "published ?F"
  have links: "name_links ?L n = (if n = filename then 2 else name_links ?F n)" if "n \<in> set ?P" for n
    using in_published [OF p that] old_links [OF p, of n] new_links [OF p] by metis
  have temp: "n \<in> set (map fst (ed_names d))" if "n \<in> set (temporaries d)" for n
    using published_subset(2) that by blast
  have a: "list_all (\<lambda>n. name_links ?L n \<in> {1, 2}) ?P = list_all (\<lambda>n. name_links ?F n \<in> {1, 2}) ?P"
    using links new_links(3) [OF p] by (auto simp: list_all_iff)
  have b: "list_all (\<lambda>n. name_links ?L n = 1 \<or> name_links ?L n = 2 \<and>
        length (filter (same_inode ?L n) (filter (\<lambda>n. name_links ?L n = 2) ?P)) = 1) (temporaries d @ [tmp]) =
      list_all (\<lambda>n. name_links ?F n = 1 \<or> name_links ?F n = 2 \<and>
        length (filter (same_inode ?F n) (filter (\<lambda>n. name_links ?F n = 2) ?P)) = 1) (temporaries d)"
    using old_links [OF p temp] old_partners [OF p temp] tmp_partner [OF p] new_links [OF p]
    by (auto simp: list_all_iff simp del: filter_filter)
  have one: "(name_links ?L n = 2 \<longrightarrow> length (filter (same_inode ?L n) (temporaries d @ [tmp])) = 1) \<longleftrightarrow>
      (name_links ?F n = 2 \<longrightarrow> length (filter (same_inode ?F n) (temporaries d)) = 1)"
    if "n \<in> set ?P" for n
  proof (cases "n = filename")
    case True
    then show ?thesis using final_partners(2) [OF p that] new_links(3) [OF p] by simp
  next
    case False
    then show ?thesis using final_partners(1) [OF p that] links [OF that] by simp
  qed
  have c: "list_all (\<lambda>n. length (filter (same_inode ?L n) (temporaries d @ [tmp])) = 1)
        (filter (\<lambda>n. name_links ?L n = 2) ?P) =
      list_all (\<lambda>n. length (filter (same_inode ?F n) (temporaries d)) = 1)
        (filter (\<lambda>n. name_links ?F n = 2) ?P)"
    using one unfolding list_all_iff set_filter mem_Collect_eq by blast
  show ?thesis
    unfolding links_ok_def Let_def same_published [OF p] temporaries_both [OF p] a b c ..
qed

lemma project_linked:
  assumes p: "publishing d i tmp filename f"
  shows "project (linked_dir d i tmp filename f) w = project (final_dir d i filename f) w"
proof -
  have names: "map fst (ed_names (linked_dir d i tmp filename f)) = map fst (ed_names d) @ [tmp, filename]"
      "map fst (ed_names (final_dir d i filename f)) = map fst (ed_names d) @ [filename]"
    by (simp_all add: linked_dir_def final_dir_def with_files_names)
  show ?thesis
    unfolding project_def names rbind_mapr_append old_name_ok [OF p] same_published [OF p]
      same_replay [OF p] linked_links_ok [OF p]
    by (simp add: new_name_ok [OF p])
qed

subsection \<open>The steps of a write\<close>

definition plain_inode :: "pystr \<Rightarrow> inode" where
  "plain_inode data = \<lparr>in_data = data, in_regular = True, in_private = True, in_links = 1\<rparr>"

lemma dict_put_twice: "dict_put k v (dict_put k u d) = dict_put k v d"
  by (induction k u d rule: dict_put.induct) auto

lemma create_file_with: "create_file tmp i d = with_files i (plain_inode []) [tmp] d"
  by (simp add: create_file_def put_inode_def with_files_def plain_inode_def)

lemma write_data_with:
  "write_data i chunk (with_files i (plain_inode data) new d) = with_files i (plain_inode (data @ chunk)) new d"
  by (simp add: write_data_def update_inode_def with_files_def map_of_dict_put put_inode_def
      dict_put_twice plain_inode_def)

lemma fill_steps_with:
  "\<exists>datas. fill_steps i chunks (with_files i (plain_inode data) [tmp] d) =
      map (\<lambda>x. with_files i (plain_inode x) [tmp] d) datas \<and> datas \<noteq> [] \<and>
      last datas = data @ concat chunks"
proof (induction chunks arbitrary: data)
  case (Cons chunk chunks)
  obtain datas where "fill_steps i chunks (with_files i (plain_inode (data @ chunk)) [tmp] d) =
      map (\<lambda>x. with_files i (plain_inode x) [tmp] d) datas" "datas \<noteq> []"
      "last datas = (data @ chunk) @ concat chunks"
    using Cons.IH by blast
  then show ?case
    by (intro exI [of _ "data # datas"]) (simp add: write_data_with)
next
  case Nil
  show ?case by (intro exI [of _ "[data]"]) simp
qed

lemma link_with:
  assumes "fresh_for d i [tmp]"
  shows "link_file filename i (with_files i (plain_inode data) [tmp] d) = linked_dir d i tmp filename (plain_inode data)"
  by (cases d) (simp add: link_file_def update_inode_def with_files_def map_of_dict_put put_inode_def
      dict_put_twice linked_dir_def plain_inode_def numeral_2_eq_2)

lemma unlink_with:
  assumes "fresh_for d i [tmp, filename]" "tmp \<noteq> filename"
  shows "unlink_file tmp i (linked_dir d i tmp filename (plain_inode data)) = final_dir d i filename (plain_inode data)"
proof -
  have "filter (\<lambda>p. fst p \<noteq> tmp) (ed_names d) = ed_names d"
    using assms(1) by (intro filter_True) (auto simp: fresh_for_def)
  then show ?thesis
    using assms(2)
    by (cases d) (simp add: unlink_file_def update_inode_def with_files_def map_of_dict_put put_inode_def
        dict_put_twice linked_dir_def final_dir_def plain_inode_def)
qed

text \<open>Whatever step a write stops at, the journal reads as before or as after it.\<close>

lemma publish_steps_project:
  assumes "fresh_for d i [tmp, filename]" "is_temporary tmp" "event_file filename \<noteq> None"
    "d' \<in> set (publish_steps filename tmp i chunks d)"
  shows "project d' w = project d w \<or> project d' w = project (last (publish_steps filename tmp i chunks d)) w"
proof -
  have fresh: "fresh_for d i [tmp]" using assms(1) by (rule fresh_for_subset) simp
  obtain datas where datas: "fill_steps i chunks (create_file tmp i d) =
      map (\<lambda>x. with_files i (plain_inode x) [tmp] d) datas" "datas \<noteq> []"
    using fill_steps_with [of i chunks "[]" tmp d] unfolding create_file_with by blast
  let ?data = "last datas"
  have p: "publishing d i tmp filename (plain_inode ?data)"
    using assms(1-3) by (simp add: publishing_def plain_inode_def)
  have steps: "publish_steps filename tmp i chunks d =
      d # map (\<lambda>x. with_files i (plain_inode x) [tmp] d) datas @
        [linked_dir d i tmp filename (plain_inode ?data), final_dir d i filename (plain_inode ?data)]"
    using datas(2) unlink_with [OF assms(1) kinds(4) [OF p]]
    by (simp add: publish_steps_def Let_def datas(1) last_map link_with [OF fresh])
  have "project (with_files i (plain_inode x) [tmp] d) w = project d w" for x
    by (rule project_temporary [OF fresh assms(2)]) (simp_all add: plain_inode_def)
  then show ?thesis
    using assms(4) project_linked [OF p] unfolding steps by auto
qed

subsection \<open>A write that fails\<close>

lemma project_same:
  assumes "ed_names d' = ed_names d" "\<And>n. dir_inode d' n = dir_inode d n"
  shows "project d' w = project d w"
proof -
  have "name_ok d' = name_ok d" "name_links d' = name_links d" "same_inode d' = same_inode d"
    by (simp_all add: fun_eq_iff name_ok_def name_links_def same_inode_def assms)
  moreover have "read_regular d' n = read_regular d n" for n by (simp add: read_regular_def assms(2))
  then have "replay d' v n p s ns = replay d v n p s ns" for v n p s ns by (intro replay_cong)
  moreover have "published d' = published d" "temporaries d' = temporaries d"
    by (simp_all add: published_def temporaries_def assms(1))
  ultimately show ?thesis by (simp add: project_def links_ok_def assms(1))
qed

lemma removed_temporary:
  assumes "fresh_for d i [tmp]"
  shows "project (unlink_file tmp i (with_files i f [tmp] d)) w = project d w"
proof (rule project_same)
  let ?d = "unlink_file tmp i (with_files i f [tmp] d)"
  have "filter (\<lambda>p. fst p \<noteq> tmp) (ed_names d) = ed_names d"
    using assms by (intro filter_True) (auto simp: fresh_for_def)
  then show names: "ed_names ?d = ed_names d" by (simp add: unlink_file_def with_files_def)
  fix n
  have "map_of (ed_names d) n \<noteq> Some i"
    using assms by (auto simp: fresh_for_def) (metis image_eqI map_of_SomeD snd_conv)
  then show "dir_inode ?d n = dir_inode d n"
    unfolding dir_inode_def names
    by (cases "map_of (ed_names d) n")
      (simp_all add: unlink_file_def with_files_def update_inode_def put_inode_def map_of_dict_put)
qed

text \<open>A fault after the link.\<close>

fun late_fault :: "io_fault \<Rightarrow> bool" where
  "late_fault (UnlinkFault removed) \<longleftrightarrow> True"
| "late_fault SyncFault \<longleftrightarrow> True"
| "late_fault _ \<longleftrightarrow> False"

text \<open>
  The ways a write ends: nothing is written, a temporary file is written and perhaps removed, or the
  event is linked to its name and the temporary name perhaps removed.
\<close>

lemma write_event_cases:
  assumes "write_event fault filename data names i d = (d', x)"
  obtains (untouched) e where "x = Inl e" "d' = d"
  | (unpublished) e tmp part removed where "x = Inl e" "fault \<noteq> NoFault" "tmp \<in> set names"
      "tmp \<notin> fst ` set (ed_names d)"
      "d' = cleanup_temporary removed tmp i (write_data i part (create_file tmp i d))"
  | (published) tmp removed where "x = Inr () \<and> removed \<or> x = Inl WorkspaceIOError \<and> late_fault fault"
      "tmp \<in> set names" "tmp \<notin> fst ` set (ed_names d)" "filename \<notin> fst ` set (ed_names d)"
      "d' = cleanup_temporary removed tmp i (link_file filename i (write_data i data (create_file tmp i d)))"
proof -
  consider "fault = LookFault" | "filename \<in> fst ` set (ed_names d)"
    | "filter (\<lambda>n. n \<notin> fst ` set (ed_names d)) (take 8 names) = []" | "fault = CreateFault"
    | tmp rest where "fault \<noteq> LookFault" "fault \<noteq> CreateFault" "filename \<notin> fst ` set (ed_names d)"
        "filter (\<lambda>n. n \<notin> fst ` set (ed_names d)) (take 8 names) = tmp # rest"
    by (metis list.exhaust)
  then show thesis
  proof cases
    case 5
    have "tmp \<in> set (filter (\<lambda>n. n \<notin> fst ` set (ed_names d)) (take 8 names))" unfolding 5(4) by simp
    then have tmp: "tmp \<in> set names" "tmp \<notin> fst ` set (ed_names d)" by (auto dest: in_set_takeD)
    note w = assms [unfolded write_event_def Let_def]
    show thesis
    proof (cases fault)
      case NoFault
      show thesis by (rule published [OF _ tmp 5(3), of True]) (use w 5 NoFault in \<open>auto simp: cleanup_temporary_def\<close>)
    next
      case LockFault
      show thesis by (rule published [OF _ tmp 5(3), of True]) (use w 5 LockFault in \<open>auto simp: cleanup_temporary_def\<close>)
    next
      case (FillFault n removed)
      show thesis by (rule unpublished [OF _ _ tmp, of _ removed "take n data"]) (use w 5 FillFault in auto)
    next
      case (NameTaken removed)
      show thesis by (rule unpublished [OF _ _ tmp, of _ removed data]) (use w 5 NameTaken in auto)
    next
      case (UnlinkFault removed)
      show thesis by (rule published [OF _ tmp 5(3), of removed]) (use w 5 UnlinkFault in auto)
    next
      case SyncFault
      show thesis by (rule published [OF _ tmp 5(3), of True]) (use w 5 SyncFault in \<open>auto simp: cleanup_temporary_def\<close>)
    qed (use 5 in simp_all)
  next
    case 1
    show thesis by (rule untouched [of WorkspaceIOError]) (use assms 1 in \<open>simp_all add: write_event_def\<close>)
  next
    case 2
    show thesis
      by (rule untouched [of "if fault = LookFault then WorkspaceIOError else WorkspaceConflictError"])
        (use assms 2 in \<open>simp_all add: write_event_def split: if_splits\<close>)
  next
    case 3
    show thesis
      by (rule untouched [of "if fault = LookFault \<or> filename \<notin> fst ` set (ed_names d)
          then WorkspaceIOError else WorkspaceConflictError"])
        (use assms 3 in \<open>simp_all add: write_event_def split: if_splits\<close>)
  next
    case 4
    then obtain e where "x = Inl e" "d' = d"
      using assms by (auto simp: write_event_def Let_def split: list.splits if_splits)
    then show thesis by (rule untouched)
  qed
qed

text \<open>
  A reader sees a failed write as if it had not been made, or the event is published; then the
  exception is \<open>WorkspaceIOError\<close>.
\<close>

lemma write_event_project:
  assumes "write_event fault filename data names i d = (d', x)" "i \<notin> snd ` set (ed_names d)"
    "list_all is_temporary names" "event_file filename \<noteq> None"
  obtains (unpublished) e where "x = Inl e" "fault = NoFault \<Longrightarrow> d' = d" "\<And>w. project d' w = project d w"
  | (published) tmp where "x = Inr () \<or> x = Inl WorkspaceIOError \<and> late_fault fault"
      "fresh_for d i [tmp, filename]" "is_temporary tmp"
      "\<And>w. project d' w = project (last (publish_steps filename tmp i [data] d)) w"
  using assms(1)
proof (cases rule: write_event_cases)
  case (untouched e)
  then show thesis using unpublished by blast
next
  case (unpublished e tmp part removed)
  have t: "is_temporary tmp" using assms(3) unpublished(3) by (auto simp: list_all_iff)
  have f: "fresh_for d i [tmp]" using assms(2) unpublished(4) by (simp add: fresh_for_def)
  have "d' = cleanup_temporary removed tmp i (with_files i (plain_inode part) [tmp] d)"
    using unpublished(5) unfolding create_file_with write_data_with by simp
  then have "project d' w = project d w" for w
    using removed_temporary [OF f] project_temporary [OF f t]
    by (simp add: cleanup_temporary_def plain_inode_def)
  with unpublished(1,2) show thesis by (intro that(1)) auto
next
  case (published tmp removed)
  have t: "is_temporary tmp" using assms(3) published(2) by (auto simp: list_all_iff)
  have f: "fresh_for d i [tmp, filename]" "fresh_for d i [tmp]"
    using assms(2) published(3,4) by (simp_all add: fresh_for_def)
  have p: "publishing d i tmp filename (plain_inode data)"
    using f(1) t assms(4) by (simp add: publishing_def plain_inode_def)
  let ?L = "linked_dir d i tmp filename (plain_inode data)" and ?F = "final_dir d i filename (plain_inode data)"
  have d: "d' = cleanup_temporary removed tmp i ?L"
    using published(5) unfolding create_file_with write_data_with append_Nil link_with [OF f(2)] .
  have last: "last (publish_steps filename tmp i [data] d) = ?F"
    using unlink_with [OF f(1) kinds(4) [OF p]]
    by (simp add: publish_steps_def Let_def create_file_with write_data_with link_with [OF f(2)])
  have "project d' w = project ?F w" for w
    using project_linked [OF p, of w] unlink_with [OF f(1) kinds(4) [OF p]] by (simp add: d cleanup_temporary_def)
  with published(1) f(1) t show thesis unfolding last [symmetric] by (intro that(2)) auto
qed

section \<open>Reading what was published\<close>

lemma jsort_idem: "jsort (jsort v) = jsort v"
proof (induction v rule: json_induct)
  case (Obj kvs)
  have "map (map_prod id jsort) (map (map_prod id jsort) kvs) = map (map_prod id jsort) kvs"
    using Obj by (auto simp: map_idI)
  then show ?case
    by (simp only: jsort.simps sort_items_map [symmetric] sort_key_id_if_sorted sorted_sort_key)
qed (auto intro: map_idI)

lemma json_ok_jsort: "json_ok (jsort v) = json_ok v"
proof (induction v rule: json_induct)
  case (Arr xs)
  then show ?case by (auto simp: list_all_iff)
next
  case (Obj kvs)
  have "mset (map fst (sort_key fst (map (map_prod id jsort) kvs))) = mset (map fst kvs)"
    by (simp add: image_mset.compositionality comp_def)
  then have "distinct (map fst (sort_key fst (map (map_prod id jsort) kvs))) = distinct (map fst kvs)"
    by (metis mset_eq_imp_distinct_iff)
  moreover have "(k, jsort v) \<in> map_prod id jsort ` set kvs" if "(k, v) \<in> set kvs" for k v
    using that by (metis id_apply image_eqI map_prod_simp)
  ultimately show ?case
    using Obj unfolding jsort.simps json_ok_obj_iff by (auto, blast+)
qed simp_all

lemma unsigned_part_jsort: "unsigned_part (jsort v) = jsort (unsigned_part v)"
proof (cases v)
  case (JObj kvs)
  have "filter (\<lambda>p. fst p \<noteq> ''event_digest'') (sort_key fst xs) =
      sort_key fst (filter (\<lambda>p. fst p \<noteq> ''event_digest'') xs)" for xs :: "(pystr \<times> json) list"
    by (rule filter_sort)
  then show ?thesis
    by (simp add: JObj unsigned_part_def filter_map comp_def)
qed (simp_all add: unsigned_part_def)

lemma ws_digest_jsort: "json_ok v \<Longrightarrow> ws_digest (jsort v) = ws_digest v"
  by (simp add: ws_digest_ok json_ok_jsort dumps_jsort)

text \<open>Digits: the order of the names is the order of the numbers.\<close>

lemma digits_value_lower: "a * 10 ^ length s \<le> digits_value a s"
proof (induction s arbitrary: a)
  case (Cons c s)
  have "a * 10 ^ length (c # s) \<le> (10 * a + (byte c - 48)) * 10 ^ length s" by simp
  also have "\<dots> \<le> digits_value (10 * a + (byte c - 48)) s" by (rule Cons.IH)
  finally show ?case by simp
qed simp

lemma digits_value_less:
  assumes "list_all is_digit xs" "list_all is_digit ys" "length xs = length ys"
    "digits_value a xs < digits_value a ys"
  shows "xs @ r < ys @ q"
  using assms
proof (induction xs arbitrary: ys a)
  case (Cons x xs)
  then obtain y ys' where ys: "ys = y # ys'" by (cases ys) auto
  consider "x = y" | "byte x < byte y" | "byte y < byte x"
    by (metis linorder_neqE_nat of_char_eq_iff)
  then show ?case
  proof cases
    case 1
    then show ?thesis using Cons ys by simp
  next
    case 2
    then show ?thesis using ys by (simp add: less_char_def)
  next
    case 3
    have "digits_value a ys < (10 * a + (byte y - 48) + 1) * 10 ^ length ys'"
      using digits_value_bound Cons.prems(2) ys by simp
    also have "\<dots> \<le> (10 * a + (byte x - 48)) * 10 ^ length xs"
      using 3 Cons.prems ys by (intro mult_mono) (auto simp: is_digit_def)
    also have "\<dots> \<le> digits_value a (x # xs)"
      using digits_value_lower by simp
    finally show ?thesis using Cons.prems(4) by simp
  qed
qed simp

lemma event_file_order:
  assumes "event_file a = Some (m, x)" "event_file b = Some (n, y)" "m < n"
  shows "a < b"
proof -
  have "take 16 a @ drop 16 a < take 16 b @ drop 16 b"
    using assms by (intro digits_value_less [of _ _ 0]) (auto simp: event_file_def split: if_splits)
  then show ?thesis by simp
qed

lemma rbind_check_InrD: "rbind (check b k) f = Inr x \<Longrightarrow> b"
  by (cases b) auto

lemma rbind_of_option_InrD: "rbind (of_option k x) f = Inr y \<Longrightarrow> \<exists>a. x = Some a \<and> f a = Inr y"
  by (cases x) auto

lemma read_event_sequence:
  assumes "read_event d w n p name = Inr e"
  shows "\<exists>g. event_file name = Some (n, g)"
  using rbind_of_option_InrD [OF assms [unfolded read_event_def]]
  apply (elim exE conjE)
  subgoal for q
    by (cases q, simp only: prod.case, drule rbind_check_InrD, simp)
  done

lemma replay_sequence:
  assumes "replay d w n p s names = Inr t" "k < length names"
  shows "\<exists>g. event_file (names ! k) = Some (n + k, g)"
  using assms
proof (induction names arbitrary: n p s k)
  case (Cons name names)
  obtain e u where e: "read_event d w n p name = Inr e"
    and t: "(case jget ''event_digest'' e of Some (JStr g) \<Rightarrow> replay d w (Suc n) g u names
            | _ \<Rightarrow> Inl (RIncompatible, Some u)) = Inr t"
    using Cons.prems(1) by (auto simp: rbind_eq_Inr_iff on_err_eq_Inr_iff)
  obtain g where "jget ''event_digest'' e = Some (JStr g)"
    using read_event_Inr [OF e] by blast
  then have r: "replay d w (Suc n) g u names = Inr t" using t by simp
  show ?case
  proof (cases k)
    case 0
    then show ?thesis using read_event_sequence [OF e] by simp
  next
    case (Suc j)
    then show ?thesis using Cons.IH [OF r, of j] Cons.prems(2) by simp
  qed
qed simp

lemma apply_event_last:
  assumes "apply_event v e s = Inr t" "jget ''event_digest'' e = Some (JStr g)"
  shows "s_last t = g"
proof -
  obtain h m where h: "event_head e = Inr h" "apply_tail e h m = Inr t"
    using apply_event_Inr [OF assms(1)] by blast
  then show ?thesis
    using apply_tail_Inr [OF h(2)] event_head_Inr [OF h(1)] assms(2) by auto
qed

lemma replay_append:
  "p = s_last s \<Longrightarrow> replay d w n p s (xs @ ys) =
     rbind (replay d w n p s xs) (\<lambda>t. replay d w (n + length xs) (s_last t) t ys)"
proof (induction xs arbitrary: n p s)
  case (Cons x xs)
  show ?case
  proof (cases "read_event d w n p x")
    case (Inr e)
    note read = Inr
    show ?thesis
    proof (cases "apply_event True e s")
      case (Inr u)
      obtain g where g: "jget ''event_digest'' e = Some (JStr g)"
        using read_event_Inr [OF read] by blast
      then show ?thesis
        using Cons.IH [of g u "Suc n"] apply_event_last [OF Inr g] Inr read by simp
    qed (simp add: read)
  qed simp
qed simp

text \<open>A record that may be published, and the record that is read back.\<close>

definition record_ok :: "pystr \<Rightarrow> nat \<Rightarrow> pystr \<Rightarrow> pystr \<Rightarrow> json \<Rightarrow> pystr \<Rightarrow> bool" where
  "record_ok w n eid kind payload previous \<longleftrightarrow>
     is_uuid w \<and> is_uuid eid \<and> kind \<in> set event_kinds \<and> is_obj payload \<and> json_ok payload \<and>
     reject_sensitive payload = Inr () \<and> 0 < n \<and>
     (if n = 1 then previous = ZERO_DIGEST else is_digest previous)"

lemma kind_strict: "kind \<in> set event_kinds \<Longrightarrow> strict_utf8 kind"
  by (auto simp: event_kinds_def printable_ascii_def intro!: printable_strict)

lemma zero_digest_strict: "strict_utf8 ZERO_DIGEST"
  by (auto simp: ZERO_DIGEST_def printable_ascii_def list_all_iff intro!: printable_strict)

lemma unsigned_json_ok:
  assumes "record_ok w n eid kind payload previous"
  shows "json_ok (JObj (event_unsigned w (int n) eid kind payload previous))"
proof -
  have "strict_utf8 w" "strict_utf8 eid" "strict_utf8 kind" "strict_utf8 previous"
    using assms is_uuid_strict kind_strict zero_digest_strict is_digest_strict
    by (auto simp: record_ok_def split: if_splits)
  then show ?thesis
    using assms by (simp add: event_unsigned_def record_ok_def strict_utf8_def)
qed

lemma event_record_total:
  assumes "record_ok w n eid kind payload previous"
  shows "event_record w (int n) eid kind payload previous =
    Inr (JObj (event_unsigned w (int n) eid kind payload previous @
      [(''event_digest'', JStr (sha256_ref (dumps (JObj (event_unsigned w (int n) eid kind payload previous)))))]))"
  by (simp add: event_record_def Let_def ws_digest_ok [OF unsigned_json_ok [OF assms]] del: dumps.simps)

lemma sensitive_walk_jsort: "set (sensitive_walk (jsort v)) = set (sensitive_walk v)"
proof (induction v rule: json_induct)
  case (Obj kvs)
  have "(\<Union>x \<in> set kvs. set (sensitive_walk (jsort (snd x)))) = (\<Union>x \<in> set kvs. set (sensitive_walk (snd x)))"
    using Obj by (intro SUP_cong refl) (metis prod.collapse)
  then show ?case by (simp add: image_image)
qed auto

lemma reject_sensitive_jsort: "reject_sensitive (jsort v) = reject_sensitive v"
  by (simp add: reject_sensitive_def list_ex_iff sensitive_walk_jsort)

lemma dumps_obj_last: "last (dumps (JObj kvs)) = CHR ''}''" "dumps (JObj kvs) \<noteq> []"
  by simp_all

lemma unsigned_part_record:
  "unsigned_part (JObj (event_unsigned w n eid kind payload p @ [(''event_digest'', x)])) =
     JObj (event_unsigned w n eid kind payload p)"
  by (simp add: unsigned_part_def event_unsigned_def)

lemma read_back:
  assumes "record_ok w n eid kind payload previous" "n < 10 ^ 16"
    and e: "event_record w (int n) eid kind payload previous = Inr e"
    and g: "jget ''event_digest'' e = Some (JStr g)"
    and data: "read_regular d (event_name n g) = Inr (dumps e @ [CHR 0x0A])"
  shows "read_event d w n previous (event_name n g) = Inr (jsort e)"
proof -
  let ?U = "event_unsigned w (int n) eid kind payload previous"
  have U: "json_ok (JObj ?U)" by (rule unsigned_json_ok [OF assms(1)])
  define h where "h = sha256_ref (dumps (JObj ?U))"
  have E: "e = JObj (?U @ [(''event_digest'', JStr h)])"
    using event_record_total [OF assms(1)] e unfolding h_def by simp
  have "g = h" using g by (simp add: E event_unsigned_def jget_def)
  have h: "is_digest h" by (simp add: h_def)
  have ok: "json_ok e"
    using U is_digest_strict [OF h] by (simp add: E event_unsigned_def strict_utf8_def)
  have last: "last (dumps e) \<noteq> CHR 0x0A" "dumps e \<noteq> []"
    unfolding E dumps_obj_last(1) by (simp, rule dumps_obj_last(2))
  have loads: "strict_json_loads (dumps e) = Inr (jsort e)"
    using strict_loads_canonical [OF ok] ok
    by (simp add: E canonical_bytes_def canonical_json_ok del: dumps.simps)
  have keys: "set (jkeys (jsort e)) = set event_keys" "is_obj (jsort e)"
    by (auto simp: E event_unsigned_def event_keys_def jkeys_def)
  have bytes: "ws_canonical (jsort e) = Inr (dumps e)"
    using ok by (simp add: ws_canonical_ok json_ok_jsort dumps_jsort)
  have fields: "jat ''schema_version'' (jsort e) = JStr ''leanctx.workspace-event/v1''"
      "jat ''workspace_id'' (jsort e) = JStr w" "jat ''sequence'' (jsort e) = JInt (int n)"
      "jat ''event_id'' (jsort e) = JStr eid" "jat ''kind'' (jsort e) = JStr kind"
      "jat ''payload'' (jsort e) = jsort payload" "jat ''previous_digest'' (jsort e) = JStr previous"
      "jat ''event_digest'' (jsort e) = JStr h"
    unfolding jat_jsort by (simp_all add: E event_unsigned_def jat_def jget_def)
  have digest: "ws_digest (unsigned_part (jsort e)) = Inr h"
    unfolding unsigned_part_jsort E unsigned_part_record ws_digest_jsort [OF U]
    by (simp add: ws_digest_ok [OF U] h_def del: dumps.simps)
  have rec: "is_uuid w" "is_uuid eid" "kind \<in> set event_kinds" "is_obj payload"
      "reject_sensitive payload = Inr ()" "if n = 1 then previous = ZERO_DIGEST else is_digest previous"
    using assms(1) by (simp_all add: record_ok_def)
  define v where "v = jsort e"
  define p where "p = jsort payload"
  have p: "is_obj p" "reject_sensitive p = Inr ()"
    using rec(4,5) by (simp_all add: p_def reject_sensitive_jsort)
  note facts = loads [folded v_def] keys [folded v_def] fields [folded v_def p_def] bytes [folded v_def]
    digest [folded v_def]
  show ?thesis
    using rec(1,2,3,6) last h p
    unfolding read_event_def \<open>g = h\<close> event_file_name [OF assms(2) h] data [unfolded \<open>g = h\<close>]
      v_def [symmetric]
    by (simp add: facts field_read_def wuuid_def wdigest_def on_text_def)
qed

lemma replay_ok_events:
  "replay d w 1 ZERO_DIGEST empty_state names = Inr s \<Longrightarrow> length (s_events s) = length names"
  using replay_Inr apply_events_ok [OF _ empty_state_ok] by (fastforce simp: empty_state_def)

lemma published_final:
  assumes "fresh_for d i [filename]" "event_file filename = Some (n, g)"
    "\<forall>a \<in> set (published d). \<exists>m x. event_file a = Some (m, x) \<and> m < n"
  shows "published (final_dir d i filename f) = published d @ [filename]"
proof -
  let ?keep = "\<lambda>n. n \<noteq> ''.workspace.lock'' \<and> \<not> is_temporary n"
  have "mset (published (final_dir d i filename f)) = mset (published d @ [filename])"
    using event_file_head [of filename] assms(2)
    by (simp add: published_def final_dir_def with_files_names)
  moreover have "a < filename" if "a \<in> set (published d)" for a
    using assms(3) that event_file_order [OF _ assms(2)] by blast
  then have "sorted (published d @ [filename])"
    unfolding sorted_append by (simp add: less_imp_le) (simp add: published_def)
  moreover have "sorted (published (final_dir d i filename f))"
    by (simp add: published_def)
  ultimately show ?thesis by (metis properties_for_sort)
qed

text \<open>A file read completely is published with one link and no partner.\<close>

lemma final_links_ok:
  assumes "fresh_for d i [filename]" "links_ok d" "event_file filename \<noteq> None" "in_links f = 1"
    "published (final_dir d i filename f) = published d @ [filename]"
  shows "links_ok (final_dir d i filename f)"
proof -
  let ?F = "final_dir d i filename f"
  have F: "?F = with_files i (f\<lparr>in_links := 1\<rparr>) [filename] d" by (simp add: final_dir_def)
  have t: "temporaries ?F = temporaries d"
    using event_file_head [OF assms(3)] by (simp add: F temporaries_def with_files_names)
  have l: "name_links ?F n = name_links d n" if "n \<in> set (published d) \<union> set (temporaries d)" for n
    unfolding F using that published_subset with_files_old(3) [OF assms(1)] by blast
  have new: "name_links ?F filename = 1"
    using with_files_new(1) [OF assms(1)] by (simp add: F)
  have finals: "filter (\<lambda>n. name_links ?F n = 2) (published d @ [filename]) =
      filter (\<lambda>n. name_links d n = 2) (published d)"
    using l new by (simp cong: filter_cong)
  have same: "filter (same_inode ?F n) ns = filter (same_inode d n) ns"
    if "n \<in> set (map fst (ed_names d))" "set ns \<subseteq> set (map fst (ed_names d))" for n ns
    unfolding F
    by (intro filter_cong refl) (rule with_files_old(4) [OF assms(1) that(1) subsetD [OF that(2)]])
  have sub: "set (filter (\<lambda>n. name_links d n = 2) (published d)) \<subseteq> set (map fst (ed_names d))"
    using published_subset(1) by auto
  show ?thesis
    using assms(2) l new same [OF subsetD [OF published_subset(2)] sub]
      same [OF subsetD [OF sub] published_subset(2)]
    unfolding links_ok_def Let_def t assms(5) finals
    by (auto simp: list_all_iff simp del: filter_filter)
qed

lemma project_published:
  assumes s: "project d w = Inr s" and fresh: "fresh_for d i [tmp, filename]" "is_temporary tmp"
    and rec: "record_ok w (Suc (length (s_events s))) eid kind payload (s_last s)"
    and e: "event_record w (int (Suc (length (s_events s)))) eid kind payload (s_last s) = Inr e"
    and g: "jget ''event_digest'' e = Some (JStr g)" "is_digest g"
    and name: "filename = event_name (Suc (length (s_events s))) g"
    and bound: "Suc (length (s_events s)) < 10 ^ 16" "length (dumps e) < MAX_EVENT_BYTES"
    and t: "apply_event True (jsort e) s = Inr t"
    and chunks: "concat chunks = dumps e @ [CHR 0x0A]"
  shows "project (last (publish_steps filename tmp i chunks d)) w = Inr t"
proof -
  let ?n = "Suc (length (s_events s))"
  have ef: "event_file filename = Some (?n, remove_prefix ''sha256:'' g)"
    unfolding name by (rule event_file_name [OF bound(1) g(2)])
  obtain datas where datas: "fill_steps i chunks (create_file tmp i d) =
      map (\<lambda>x. with_files i (plain_inode x) [tmp] d) datas" "datas \<noteq> []" "last datas = concat chunks"
    using fill_steps_with [of i chunks "[]" tmp d] unfolding create_file_with by auto
  have p: "publishing d i tmp filename (plain_inode (concat chunks))"
    using fresh ef by (simp add: publishing_def plain_inode_def)
  let ?F = "final_dir d i filename (plain_inode (concat chunks))"
  have fresh1: "fresh_for d i [filename]" by (rule fresh1 [OF p])
  have tmp1: "fresh_for d i [tmp]" using fresh(1) by (rule fresh_for_subset) simp
  have last: "last (publish_steps filename tmp i chunks d) = ?F"
    using datas unlink_with [OF fresh(1) kinds(4) [OF p]]
    by (simp add: publish_steps_def Let_def last_map link_with [OF tmp1])
  note ok = project_Inr [OF s]
  have len: "length (published d) = length (s_events s)"
    using replay_ok_events [OF ok(7)] by simp
  have "\<forall>a \<in> set (published d). \<exists>m x. event_file a = Some (m, x) \<and> m < ?n"
  proof
    fix a
    assume "a \<in> set (published d)"
    then obtain k where "k < length (published d)" "a = published d ! k" by (auto simp: in_set_conv_nth)
    then show "\<exists>m x. event_file a = Some (m, x) \<and> m < ?n"
      using replay_sequence [OF ok(7), of k] len by (intro exI [of _ "Suc k"]) simp
  qed
  then have pub: "published ?F = published d @ [filename]"
    by (rule published_final [OF fresh1 ef])
  have F: "?F = with_files i (plain_inode (concat chunks)) [filename] d"
    by (simp add: final_dir_def plain_inode_def)
  have "read_regular ?F filename = Inr (dumps e @ [CHR 0x0A])"
    using bound(2) unfolding read_regular_def F with_files_inode [OF fresh1]
    by (simp add: chunks plain_inode_def)
  then have read: "read_event ?F w ?n (s_last s) filename = Inr (jsort e)"
    unfolding name by (rule read_back [OF rec bound(1) e g(1)])
  have old: "replay ?F w 1 ZERO_DIGEST empty_state (published d) = Inr s"
    using ok(7) replay_cong [of "published d" ?F d]
      with_files_old(2) [OF fresh1 subsetD [OF published_subset(1)]]
    by (simp add: F)
  have zero: "ZERO_DIGEST = s_last empty_state" by (simp add: empty_state_def)
  have "jget ''event_digest'' (jsort e) = Some (JStr g)"
    using g(1) by (simp add: jget_jsort_any)
  then have rep: "replay ?F w 1 ZERO_DIGEST empty_state (published ?F) = Inr t"
    unfolding pub replay_append [OF zero] using old read t len by simp
  have "mapr (name_ok ?F) (map fst (ed_names d)) = mapr (name_ok d) (map fst (ed_names d))"
    unfolding F using with_files_old(1) [OF fresh1] by (intro mapr_cong) auto
  moreover obtain us where "mapr (name_ok d) (map fst (ed_names d)) = Inr us"
    using s by (auto simp: project_def rbind_eq_Inr_iff)
  moreover have "name_ok ?F filename = Inr ()" by (rule new_name_ok(3) [OF p])
  moreover have "map fst (ed_names ?F) = map fst (ed_names d) @ [filename]"
    by (simp add: F with_files_names)
  ultimately have names: "rbind (mapr (name_ok ?F) (map fst (ed_names ?F))) (\<lambda>_. k) = k" for k
    by (simp add: rbind_mapr_append)
  have links: "links_ok ?F"
    by (rule final_links_ok [OF fresh1 ok(6) _ _ pub]) (simp_all add: ef plain_inode_def)
  have "grows s t" "s_events t = s_events s @ [jsort e]" "state_ok t"
    using apply_event_ok [OF t ok(3)] by blast+
  then have "s_events t \<noteq> []" "s_identity t \<noteq> None" "s_policy t \<noteq> None"
      "map_option wi_id (s_identity t) = Some w"
    using ok(5) by (auto simp: grows_def)
  then show ?thesis
    unfolding last project_def names rep by (simp add: links)
qed

section \<open>The chain of digests\<close>

definition event_digest_of :: "json \<Rightarrow> pystr" where
  "event_digest_of e = (case jget ''event_digest'' e of Some (JStr g) \<Rightarrow> g | _ \<Rightarrow> [])"

definition chain_end :: "pystr \<Rightarrow> json list \<Rightarrow> pystr" where
  "chain_end previous es = (if es = [] then previous else event_digest_of (last es))"

lemma chained_snoc:
  "chained w n p (es @ [e]) \<longleftrightarrow>
     chained w n p es \<and> chained w (n + length es) (chain_end p es) [e]"
proof (induction es arbitrary: n p)
  case (Cons a es)
  show ?case
  proof (cases "es = []")
    case True
    then show ?thesis by (auto simp: chain_end_def event_digest_of_def)
  next
    case False
    then have "chain_end p (a # es) = chain_end q es" for q by (simp add: chain_end_def)
    then show ?thesis using Cons.IH by auto
  qed
qed (simp add: chain_end_def)

lemma chained_one:
  assumes "chained w n p [e]"
  shows "jget ''previous_digest'' e = Some (JStr p)" "ws_digest (unsigned_part e) = Inr (event_digest_of e)"
    "jget ''event_digest'' e = Some (JStr (event_digest_of e))" "is_digest (event_digest_of e)"
  using assms ws_digest_shape by (auto simp: event_digest_of_def)

lemma zero_no_digest: "\<not> is_digest ZERO_DIGEST"
  by (simp add: is_digest_def ZERO_DIGEST_def prefixed_hex_def)

lemma json_wf_unsigned: "json_wf e \<Longrightarrow> json_wf (unsigned_part e)"
  by (cases e) (auto simp: unsigned_part_def list_all_iff distinct_map intro: inj_on_subset)

lemma items_eq:
  fixes xs ys :: "(pystr \<times> 'v) list"
  assumes "distinct (map fst xs)" "distinct (map fst ys)" "sorted (map fst xs)" "sorted (map fst ys)"
    "filter (\<lambda>p. fst p \<noteq> k) xs = filter (\<lambda>p. fst p \<noteq> k) ys"
    "map_of xs k = Some v" "map_of ys k = Some v"
  shows "xs = ys"
proof -
  have "set zs = insert (k, v) (set (filter (\<lambda>p. fst p \<noteq> k) zs))"
    if "distinct (map fst zs)" "map_of zs k = Some v" for zs :: "(pystr \<times> 'v) list"
    using map_of_eq_Some_iff [OF that(1), of k] that(2) by force
  then have "set xs = set ys"
    using assms by metis
  then show ?thesis
    using assms(1-4) by (intro map_sorted_distinct_set_unique [of fst]) (auto simp: distinct_map)
qed

lemma same_record:
  assumes "json_wf e" "json_wf f" "jsort (unsigned_part e) = jsort (unsigned_part f)"
    "jget ''event_digest'' e = Some (JStr g)" "jget ''event_digest'' f = Some (JStr g)"
  shows "jsort e = jsort f"
proof -
  have obj: "\<exists>kvs. v = JObj kvs" if "jget k v = Some x" for k v and x :: json
    using that by (cases v) (auto simp: jget_def obj_items_def)
  obtain xs ys where e: "e = JObj xs" and f: "f = JObj ys"
    using obj [OF assms(4)] obj [OF assms(5)] by blast
  define s where "s = (\<lambda>kvs :: (pystr \<times> json) list. sort_key fst (map (map_prod id jsort) kvs))"
  have "mset (map fst (s kvs)) = mset (map fst kvs)" for kvs
    by (simp add: s_def image_mset.compositionality comp_def)
  then have d: "distinct (map fst (s xs))" "distinct (map fst (s ys))"
    using assms(1,2) unfolding e f by (metis json_wf.simps(7) mset_eq_imp_distinct_iff)+
  have items: "map_of (s kvs) k = map_option jsort (jget k (JObj kvs))" for kvs k
    unfolding jget_jsort_any [symmetric] by (simp only: jget_def jsort.simps obj_items_def s_def json.case)
  have "map_of (s xs) ''event_digest'' = Some (JStr g)" "map_of (s ys) ''event_digest'' = Some (JStr g)"
    using assms(4,5) by (simp_all add: items e f)
  moreover have "filter (\<lambda>p. fst p \<noteq> ''event_digest'') (s xs) = filter (\<lambda>p. fst p \<noteq> ''event_digest'') (s ys)"
    using assms(3) unfolding unsigned_part_jsort [symmetric] e f by (simp add: unsigned_part_def s_def)
  moreover have "sorted (map fst (s kvs))" for kvs by (simp add: s_def)
  ultimately have "s xs = s ys"
    using d items_eq [of "s xs" "s ys" "''event_digest''" "JStr g"] by blast
  then show ?thesis by (simp add: e f s_def)
qed

text \<open>Two chains with the same end hold the same records, or two records collide.\<close>

definition records_collide :: "json list \<Rightarrow> json list \<Rightarrow> bool" where
  "records_collide es fs \<longleftrightarrow>
     (\<exists>e \<in> set es. \<exists>f \<in> set fs. sha256_collision (dumps (unsigned_part e)) (dumps (unsigned_part f)))"

lemma chained_unique:
  assumes "chained w 1 ZERO_DIGEST es" "chained w' 1 ZERO_DIGEST fs"
    "chain_end ZERO_DIGEST es = chain_end ZERO_DIGEST fs" "list_all json_wf es" "list_all json_wf fs"
  shows "map jsort es = map jsort fs \<or> records_collide es fs"
  using assms
proof (induction es arbitrary: fs rule: rev_induct)
  case Nil
  have "fs = []"
  proof (cases fs rule: rev_cases)
    case (snoc bs f)
    have "is_digest (event_digest_of f)"
      using Nil.prems(2) chained_one(4) unfolding snoc chained_snoc by blast
    then show ?thesis
      using Nil.prems(3) zero_no_digest by (simp add: snoc chain_end_def)
  qed simp
  then show ?case by simp
next
  case (snoc e es)
  note e = chained_one [OF conjunct2 [OF snoc.prems(1) [unfolded chained_snoc]]]
  show ?case
  proof (cases fs rule: rev_cases)
    case Nil
    then show ?thesis using e(4) snoc.prems(3) zero_no_digest by (simp add: chain_end_def)
  next
    case fs: (snoc bs f)
    note f = chained_one [OF conjunct2 [OF snoc.prems(2) [unfolded fs chained_snoc]]]
    have same: "event_digest_of e = event_digest_of f"
      using snoc.prems(3) by (simp add: fs chain_end_def)
    have wf: "json_wf e" "json_wf f" "list_all json_wf es" "list_all json_wf bs"
      using snoc.prems(4,5) by (simp_all add: fs)
    have "jsort (unsigned_part e) = jsort (unsigned_part f) \<or>
        sha256_collision (dumps (unsigned_part e)) (dumps (unsigned_part f))"
      using ws_digest_binds [OF e(2) f(2) [folded same]] wf(1,2) json_wf_unsigned by blast
    then show ?thesis
    proof
      assume u: "jsort (unsigned_part e) = jsort (unsigned_part f)"
      have s: "jsort e = jsort f"
        by (rule same_record [OF wf(1,2) u e(3) f(3) [folded same]])
      have "chain_end ZERO_DIGEST es = chain_end ZERO_DIGEST bs"
        using jget_jsort_any [of "''previous_digest''" e] jget_jsort_any [of "''previous_digest''" f] s e(1) f(1)
        by simp
      then have "map jsort es = map jsort bs \<or> records_collide es bs"
        using snoc.IH snoc.prems(1,2) wf(3,4) unfolding fs chained_snoc by blast
      then show ?thesis using s by (auto simp: fs records_collide_def)
    qed (auto simp: fs records_collide_def)
  qed
qed

lemma project_chain_end:
  assumes "project d w = Inr s"
  shows "s_last s = chain_end ZERO_DIGEST (s_events s)"
proof (cases "s_events s" rule: rev_cases)
  case Nil
  then have "s_receipts s = []" "log_ok s"
    using project_Inr(3) [OF assms] by (auto simp: state_ok_def log_ok_def)
  then show ?thesis using Nil by (simp add: log_ok_def chain_end_def)
next
  case (snoc es e)
  have "apply_events True (es @ [e]) empty_state = Inr s"
    using project_Inr(1) [OF assms] by (simp add: snoc)
  then obtain u where "apply_event True e u = Inr s"
    by (auto simp: apply_events_append rbind_eq_Inr_iff)
  moreover have "jget ''event_digest'' e = Some (JStr (event_digest_of e))"
    using project_Inr(2) [OF assms] chained_one(3) unfolding snoc chained_snoc by blast
  ultimately show ?thesis
    using apply_event_last by (simp add: snoc chain_end_def)
qed

end
