(* ===== verification/Ws_Demo.thy ===== *)
theory Ws_Demo
  imports Ws_Journal_Facts
begin

text \<open>
  Journals that are accepted: a first event always is, under conditions on the policy and the name,
  and so are the events of the small journal the witnesses of the workspace properties use.
\<close>

section \<open>Strings that hold no credential\<close>

fun adjacent :: "char \<Rightarrow> char \<Rightarrow> pystr \<Rightarrow> bool" where
  "adjacent a b (x # y # s) \<longleftrightarrow> x = a \<and> y = b \<or> adjacent a b (y # s)"
| "adjacent a b _ \<longleftrightarrow> False"

text \<open>A test on printable text that is quick to decide.\<close>

definition dull_char :: "char \<Rightarrow> bool" where
  "dull_char c \<longleftrightarrow> 32 < byte c \<and> byte c < 127 \<and> byte c \<noteq> 66 \<and> byte c \<noteq> 75"

definition dull_text :: "pystr \<Rightarrow> bool" where
  "dull_text s \<longleftrightarrow>
     list_all dull_char s \<and> \<not> adjacent (CHR ''s'') (CHR ''k'') s \<and> \<not> adjacent (CHR ''g'') (CHR ''h'') s \<and>
     (list_all (\<lambda>c. \<not> assigns (byte c)) s \<or> list_all (\<lambda>c. \<not> keyword_letter (byte c)) s)"

lemma code_points_ascii: "list_all (\<lambda>c. byte c < 128) s \<Longrightarrow> code_points s = map byte s"
  by (induction s) auto

lemma adjacent_sublist: "map byte s = a @ byte x # byte y # b \<Longrightarrow> adjacent x y s"
proof (induction a arbitrary: s)
  case Nil
  then obtain p q t where "s = p # q # t" "byte p = byte x" "byte q = byte y"
    by (cases s; cases "tl s") auto
  then show ?case by (simp add: of_char_eq_iff)
next
  case (Cons c a)
  then obtain d t where s: "s = d # t" "map byte t = a @ byte x # byte y # b" by (cases s) auto
  then have "adjacent x y t" using Cons.IH by blast
  then show ?case by (cases t) (auto simp: s(1))
qed

lemma dull_text_safe:
  assumes "dull_text s"
  shows "\<not> sensitive_text s"
proof (rule plainly_safe_passes)
  have d: "list_all dull_char s" using assms by (simp add: dull_text_def)
  then have c: "code_points s = map byte s"
    by (intro code_points_ascii) (auto simp: dull_char_def list_all_iff)
  have "\<not> sublist [115, 107, 45] (map byte s)" "\<not> sublist [103, 104] (map byte s)"
    using assms adjacent_sublist [of s _ "CHR ''s''" "CHR ''k''"] adjacent_sublist [of s _ "CHR ''g''" "CHR ''h''"]
    by (auto simp: dull_text_def sublist_def)
  then show "plainly_safe (code_points s)"
    using assms d unfolding c plainly_safe_def dull_text_def
    by (auto simp: has_char_def list_ex_iff list_all_iff dull_char_def re_space_def)
qed

lemma adjacent_set: "adjacent x y s \<Longrightarrow> x \<in> set s \<and> y \<in> set s"
  by (induction x y s rule: adjacent.induct) auto

lemma quiet_dull:
  assumes "list_all (\<lambda>c. dull_char c \<and> c \<noteq> CHR ''k'' \<and> c \<noteq> CHR ''g'' \<and> \<not> keyword_letter (byte c)) s"
  shows "dull_text s"
  using assms by (auto simp: dull_text_def list_all_iff dest: adjacent_set)

lemma hex_quiet:
  "is_hex c \<Longrightarrow> dull_char c \<and> c \<noteq> CHR ''k'' \<and> c \<noteq> CHR ''g'' \<and> \<not> keyword_letter (byte c)"
  by (auto simp: is_hex_def dull_char_def keyword_letter_def)

lemma uuid_dull: "is_uuid s \<Longrightarrow> dull_text s"
proof (rule quiet_dull)
  assume u: "is_uuid s"
  show "list_all (\<lambda>c. dull_char c \<and> c \<noteq> CHR ''k'' \<and> c \<noteq> CHR ''g'' \<and> \<not> keyword_letter (byte c)) s"
    unfolding list_all_length
  proof (intro allI impI)
    fix i
    assume "i < length s"
    then have "i \<in> set [0..<36]" using u by (simp add: is_uuid_def)
    then consider "s ! i = CHR ''-''" | "is_hex (s ! i)"
      using u unfolding is_uuid_def list_all_iff by (metis (lifting))
    then show "dull_char (s ! i) \<and> s ! i \<noteq> CHR ''k'' \<and> s ! i \<noteq> CHR ''g'' \<and> \<not> keyword_letter (byte (s ! i))"
      by cases (simp add: dull_char_def keyword_letter_def, rule hex_quiet)
  qed
qed

lemma digest_dull: "is_digest s \<Longrightarrow> dull_text s"
proof (rule quiet_dull)
  assume "is_digest s"
  then obtain h where "s = ''sha256:'' @ h" "list_all is_hex h"
    by (auto simp: is_digest_def prefixed_hex_decomp)
  then show "list_all (\<lambda>c. dull_char c \<and> c \<noteq> CHR ''k'' \<and> c \<noteq> CHR ''g'' \<and> \<not> keyword_letter (byte c)) s"
    using hex_quiet by (auto simp: list_all_iff dull_char_def keyword_letter_def)
qed

lemma identity_constants_dull:
  "list_all dull_text
     [''identity'', ''policy'', ''schema_version'', ''leanctx.workspace-identity/v1'', ''workspace_id'',
      ''name'', ''created_at'', ''state_id'', ''leanctx.workspace-policy/v1'', ''allowed_categories'',
      ''max_events'', ''max_context_entries'', ''max_entry_bytes'', ''max_context_bytes'',
      ''max_sources'', ''max_sessions'', ''allow_external_sources'', ''constraints'', ''decisions'',
      ''facts'', ''source_refs'', ''unresolved_questions'']"
  by (simp add: dull_text_def dull_char_def assigns_def)

text \<open>The walk of a value, as a test of its strings.\<close>

definition dull :: "json \<Rightarrow> bool" where
  "dull v \<longleftrightarrow> list_all (\<lambda>s. \<not> sensitive_text s) (sensitive_walk v)"

lemma dull_simps [simp]:
  "dull JNull" "dull (JBool b)" "dull (JInt i)" "dull (JFloat r)" "dull (JStr s) \<longleftrightarrow> \<not> sensitive_text s"
  "dull (JArr xs) \<longleftrightarrow> list_all dull xs"
  "dull (JObj kvs) \<longleftrightarrow> list_all (\<lambda>p. \<not> sensitive_text (fst p) \<and> dull (snd p)) kvs"
  by (auto simp: dull_def list_all_iff)

lemma reject_dull: "dull v \<Longrightarrow> reject_sensitive v = Inr ()"
  by (simp add: dull_def reject_sensitive_def list_ex_iff list_all_iff)

lemma identity_dull:
  assumes "identity_ok i" "\<not> sensitive_text (wi_name i)" "\<not> sensitive_text (wi_created i)"
  shows "dull (identity_to_dict i)"
proof -
  have "dull_text (wi_id i)" "dull_text (wi_state_id i)"
    using assms(1) by (simp_all add: identity_ok_def uuid_dull digest_dull)
  then show ?thesis
    using assms(2,3) identity_constants_dull by (simp add: identity_to_dict_def dull_text_safe)
qed

lemma policy_dull:
  assumes "policy_ok p"
  shows "dull (policy_to_dict p)"
proof -
  have "set (po_categories p) \<subseteq> set categories"
    using assms by (auto simp: policy_ok_def list_all_iff)
  then have "list_all (\<lambda>c. \<not> sensitive_text c) (po_categories p)"
    using identity_constants_dull dull_text_safe by (auto simp: categories_def list_all_iff)
  then show ?thesis
    using identity_constants_dull
    by (simp add: policy_to_dict_def dull_text_safe jstrs_def list_all_iff)
qed

lemma timestamp_dull:
  assumes "ts_canonical s"
  shows "\<not> sensitive_text s"
proof -
  obtain f where f: "s = ts_text f"
    using assms by (auto simp: ts_canonical_def wtimestamp_def rbind_eq_Inr_iff)
  have digit: "dull_char c \<and> c \<noteq> CHR ''k'' \<and> c \<noteq> CHR ''g'' \<and> \<not> keyword_letter (byte c)"
    if "is_digit c" for c
    using that by (auto simp: is_digit_def dull_char_def keyword_letter_def)
  have "dull_text s"
    by (rule quiet_dull)
      (use digit pad_digits_digits in \<open>auto simp: f ts_text_def list_all_iff dull_char_def keyword_letter_def\<close>)
  then show ?thesis by (rule dull_text_safe)
qed

section \<open>Creation\<close>

definition created_payload :: "ws_identity \<Rightarrow> ws_policy \<Rightarrow> json" where
  "created_payload i p = JObj [(''identity'', identity_to_dict i), (''policy'', policy_to_dict p)]"

definition created_state :: "ws_identity \<Rightarrow> ws_policy \<Rightarrow> ws_state" where
  "created_state i p = empty_state\<lparr>s_identity := Some i, s_policy := Some p\<rparr>"

lemma created_state_log:
  "s_events (created_state i p) = []" "s_receipts (created_state i p) = []"
  "s_identity (created_state i p) = Some i" "s_policy (created_state i p) = Some p"
  by (simp_all add: created_state_def empty_state_def)

definition created_ok :: "ws_identity \<Rightarrow> ws_policy \<Rightarrow> pystr \<Rightarrow> bool" where
  "created_ok i p eid \<longleftrightarrow>
     identity_ok i \<and> policy_ok p \<and> \<not> sensitive_text (wi_name i) \<and> 2 \<le> po_context_bytes p \<and> is_uuid eid"

lemma created_record_ok:
  assumes "created_ok i p eid"
  shows "record_ok (wi_id i) 1 eid ''workspace_created'' (created_payload i p) ZERO_DIGEST"
proof -
  have ok: "identity_ok i" "policy_ok p" "\<not> sensitive_text (wi_name i)" "is_uuid eid"
    using assms by (simp_all add: created_ok_def)
  have "dull (created_payload i p)"
    using identity_constants_dull identity_dull [OF ok(1,3)] timestamp_dull policy_dull [OF ok(2)] ok(1)
    by (simp add: created_payload_def dull_text_safe identity_ok_def)
  moreover have "json_ok (created_payload i p)"
    using identity.enc_ok [OF ok(1)] policy.enc_ok [OF ok(2)] by (simp add: created_payload_def)
  moreover have "is_uuid (wi_id i)" using ok(1) by (simp add: identity_ok_def)
  ultimately show ?thesis
    using ok(4) by (simp add: record_ok_def event_kinds_def reject_dull, simp add: created_payload_def)
qed

section \<open>Accepting an event\<close>

text \<open>What an event says, in whatever order its items are.\<close>

definition is_record :: "json \<Rightarrow> pystr \<Rightarrow> nat \<Rightarrow> pystr \<Rightarrow> pystr \<Rightarrow> json \<Rightarrow> pystr \<Rightarrow> bool" where
  "is_record e w n eid kind payload g \<longleftrightarrow>
     is_obj e \<and> jget ''workspace_id'' e = Some (JStr w) \<and> jget ''sequence'' e = Some (JInt (int n)) \<and>
     jget ''event_id'' e = Some (JStr eid) \<and> jget ''kind'' e = Some (JStr kind) \<and>
     jget ''payload'' e = Some payload \<and> jget ''event_digest'' e = Some (JStr g) \<and>
     is_uuid eid \<and> is_digest g \<and> 0 < n"

lemma event_record_is_record:
  assumes "event_record w (int n) eid kind payload p = Inr e" "is_uuid eid" "0 < n"
  shows "\<exists>g. is_record e w n eid kind payload g \<and> is_record (jsort e) w n eid kind (jsort payload) g"
proof -
  obtain g where g: "ws_digest (JObj (event_unsigned w (int n) eid kind payload p)) = Inr g"
      "e = JObj (event_unsigned w (int n) eid kind payload p @ [(''event_digest'', JStr g)])"
    using assms(1) unfolding event_record_def Let_def rbind_eq_Inr_iff sum.inject by metis
  have "is_record e w n eid kind payload g"
    using ws_digest_shape [OF g(1)] assms(2,3)
    by (simp add: is_record_def g(2) event_unsigned_def jget_def)
  moreover from this have "is_record (jsort e) w n eid kind (jsort payload) g"
    by (simp add: is_record_def jget_jsort_any)
  ultimately show ?thesis by blast
qed

lemma record_json_ok:
  assumes "record_ok w n eid kind payload p" "event_record w (int n) eid kind payload p = Inr e"
  shows "json_ok e"
proof -
  have U: "json_ok (JObj (event_unsigned w (int n) eid kind payload p))" by (rule unsigned_json_ok [OF assms(1)])
  obtain h where "e = JObj (event_unsigned w (int n) eid kind payload p @ [(''event_digest'', JStr h)])" "is_digest h"
    using assms(2) ws_digest_shape unfolding event_record_def Let_def rbind_eq_Inr_iff sum.inject by metis
  then show ?thesis
    using U is_digest_strict by (simp add: event_unsigned_def strict_utf8_def)
qed

lemma record_head:
  assumes "is_record e w n eid kind payload g" "kind \<in> set event_kinds" "is_obj payload"
    "reject_sensitive payload = Inr ()" "set (jkeys payload) = set (payload_keys kind)"
  shows "event_head e = Inr \<lparr>eh_kind = kind, eh_id = eid, eh_digest = g, eh_payload = payload\<rparr>"
  using assms by (simp add: is_record_def event_head_def jfield_def on_text_def exact_def)

lemma jat_jget: "jget k v = Some x \<Longrightarrow> jat k v = x"
  by (simp add: jat_def)

lemma plain_tail:
  assumes "is_record e w n eid kind payload g" "kind \<in> set plain_kinds" "is_obj payload"
    "state_ok s" "step_ok s m" "handoff_step eid s m" "s_identity m = Some i" "s_policy m = Some p"
    "ensure_bounds p False (m\<lparr>s_events := s_events m @ [e], s_last := g\<rparr>) = Inr ()"
    "eid \<notin> set (map fst (s_receipts s))"
  shows "\<exists>r. apply_tail e \<lparr>eh_kind = kind, eh_id = eid, eh_digest = g, eh_payload = payload\<rparr> m =
    Inr (m\<lparr>s_events := s_events m @ [e], s_last := g, s_receipts := s_receipts m @ [(eid, r)]\<rparr>)"
proof -
  have e: "jget ''kind'' e = Some (JStr kind)" "jget ''payload'' e = Some payload"
      "jat ''sequence'' e = JInt (int n)" "jat ''event_id'' e = JStr eid" "jat ''event_digest'' e = JStr g"
      "is_uuid eid" "is_digest g" "0 < n"
    using assms(1) jat_jget unfolding is_record_def by blast+
  obtain d where d: "state_digest (m\<lparr>s_events := s_events m @ [e], s_last := g\<rparr>) = Inr d" "is_digest d"
    using recorded_digest [OF assms(4-6) e(6,7) assms(7,8)] by blast
  have "identity_ok i" using assms(5,7) by (simp add: step_ok_def core_ok_def)
  then obtain r where r: "mk_ws_receipt (wi_id i) (wi_state_id i) (int n) eid kind g d [] None [] [] = Inr r"
    using plain_receipt [OF assms(2) _ e(6,7) d(2), of i "int n"] e(8) by auto
  have receipt: "receipt_for_event (m\<lparr>s_events := s_events m @ [e], s_last := g\<rparr>) e = Inr r"
    using e assms(3,7) d(1) r plain_lineage [OF assms(2)]
    by (simp add: receipt_for_event_def wpositive_def wuuid_def wdigest_def on_text_def)
  have new: "eid \<notin> set (map fst (s_receipts m))"
    using assms(5,10) by (simp add: step_ok_def same_log_def)
  have put: "dict_put eid r (s_receipts m) = s_receipts m @ [(eid, r)]"
    using new by (intro dict_put_new) simp
  show ?thesis
    using new assms(7-9) receipt
    by (intro exI [of _ r]) (simp add: apply_tail_def Let_def need_def trying_def put)
qed

lemma created_accepted:
  assumes "created_ok i p eid" "is_record e (wi_id i) 1 eid ''workspace_created'' payload g"
    "payload = created_payload i p \<or> payload = jsort (created_payload i p)"
  shows "\<exists>r. apply_event v e empty_state = Inr ((created_state i p)\<lparr>s_events := [e], s_last := g,
    s_receipts := [(eid, r)]\<rparr>)"
proof -
  have ok: "identity_ok i" "policy_ok p" using assms(1) by (simp_all add: created_ok_def)
  have wf: "json_wf (identity_to_dict i)" "json_wf (policy_to_dict p)"
    using identity.enc_wf [OF ok(1)] policy.enc_wf [OF ok(2)] by blast+
  have rec: "record_ok (wi_id i) 1 eid ''workspace_created'' (created_payload i p) ZERO_DIGEST"
    by (rule created_record_ok [OF assms(1)])
  have "is_obj (created_payload i p)" "reject_sensitive (created_payload i p) = Inr ()"
      "set (jkeys (created_payload i p)) = set (payload_keys ''workspace_created'')"
    using rec by (simp_all add: record_ok_def created_payload_def jkeys_def payload_keys_def)
  then have pay: "is_obj payload" "reject_sensitive payload = Inr ()"
      "set (jkeys payload) = set (payload_keys ''workspace_created'')"
    using assms(3) reject_sensitive_jsort by auto
  have parts: "identity_from_dict (jat ''identity'' payload) = Inr i" "policy_from_dict (jat ''policy'' payload) = Inr p"
      "py_eq (identity_to_dict i) (jat ''identity'' payload)" "py_eq (policy_to_dict p) (jat ''policy'' payload)"
    using assms(3) identity.dec_enc [OF ok(1)] policy.dec_enc [OF ok(2)]
      identity.dec_jsort [OF wf(1)] policy.dec_jsort [OF wf(2)]
    by (auto simp: created_payload_def jat_def jget_def)
  have head: "event_head e = Inr \<lparr>eh_kind = ''workspace_created'', eh_id = eid, eh_digest = g, eh_payload = payload\<rparr>"
    using record_head [OF assms(2) _ pay] by (simp add: event_kinds_def)
  have wid: "jfield ''workspace_id'' e = Inr (JStr (wi_id i))"
    using assms(2) by (simp add: is_record_def jfield_def)
  have created: "apply_created e payload empty_state = Inr (created_state i p)"
    using parts wid
    by (simp add: apply_created_def need_def trying_def empty_state_def created_state_def)
  have step: "step_ok empty_state (created_state i p)" "handoff_step eid empty_state (created_state i p)"
    using apply_created_step [OF created] empty_state_ok
    by (simp_all add: state_ok_def handoff_step_def)
  have "context_bytes [] = Inr 2"
    by (simp add: context_bytes_def ws_canonical_ok)
  then have bounds: "ensure_bounds p False ((created_state i p)\<lparr>s_events := s_events (created_state i p) @ [e], s_last := g\<rparr>) = Inr ()"
    using ok(2) assms(1)
    by (simp add: ensure_bounds_def created_state_def empty_state_def policy_ok_def created_ok_def)
  obtain r where "apply_tail e \<lparr>eh_kind = ''workspace_created'', eh_id = eid, eh_digest = g, eh_payload = payload\<rparr>
      (created_state i p) = Inr ((created_state i p)\<lparr>s_events := s_events (created_state i p) @ [e], s_last := g,
        s_receipts := s_receipts (created_state i p) @ [(eid, r)]\<rparr>)"
    using plain_tail [OF assms(2) _ pay(1) empty_state_ok step _ _ bounds]
    by (auto simp: plain_kinds_def created_state_log empty_state_def)
  then show ?thesis
    by (intro exI [of _ r]) (simp add: apply_event_def head trying_def created created_state_log)
qed

section \<open>A small journal\<close>

text \<open>The events after the first one that the state of an active workspace accepts as they are.\<close>

lemma plain_event_accepted:
  assumes "is_record e w n eid kind payload g" "kind \<in> set plain_kinds" "kind \<noteq> ''workspace_created''"
    "is_obj payload" "reject_sensitive payload = Inr ()" "set (jkeys payload) = set (payload_keys kind)"
    "state_ok s" "s_identity s = Some i" "s_policy s = Some p" "s_events s \<noteq> []" "s_lifecycle s = ''active''"
    "apply_kind v e \<lparr>eh_kind = kind, eh_id = eid, eh_digest = g, eh_payload = payload\<rparr> i p s = Inr m"
    "s_policy m = Some q" "ensure_bounds q False (m\<lparr>s_events := s_events m @ [e], s_last := g\<rparr>) = Inr ()"
    "eid \<notin> set (map fst (s_receipts s))"
  shows "\<exists>r. apply_event v e s =
    Inr (m\<lparr>s_events := s_events m @ [e], s_last := g, s_receipts := s_receipts m @ [(eid, r)]\<rparr>)"
proof -
  let ?h = "\<lparr>eh_kind = kind, eh_id = eid, eh_digest = g, eh_payload = payload\<rparr>"
  have "kind \<in> set event_kinds" using assms(2) by (auto simp: plain_kinds_def event_kinds_def)
  then have head: "event_head e = Inr ?h" using record_head assms(1,4,5,6) by blast
  have core: "core_ok s" using assms(7) by (simp add: state_ok_def)
  have step: "step_ok s m" "handoff_step eid s m"
    using apply_kind_step [OF assms(12) core assms(9,11)] apply_kind_handoffs [OF assms(12) core] by simp_all
  have "s_identity m = Some i" using step(1) assms(8) by (simp add: step_ok_def grows_def)
  from plain_tail [OF assms(1,2,4,7) step this assms(13,14,15)]
  obtain r where "apply_tail e ?h m =
      Inr (m\<lparr>s_events := s_events m @ [e], s_last := g, s_receipts := s_receipts m @ [(eid, r)]\<rparr>)"
    by blast
  then show ?thesis
    using assms(3,8-12) by (intro exI [of _ r]) (simp add: apply_event_def head trying_def need_def)
qed

definition demo_uuid :: "char \<Rightarrow> pystr" where
  "demo_uuid c = ''00000000-0000-4000-8000-00000000000'' @ [c]"

lemma demo_uuid_ok: "is_hex c \<Longrightarrow> is_uuid (demo_uuid c)"
  by (simp add: demo_uuid_def is_uuid_def is_hex_def upt_rec)

definition demo_id :: pystr where "demo_id = demo_uuid (CHR ''0'')"

definition demo_identity :: ws_identity where
  "demo_identity =
     \<lparr>wi_id = demo_id, wi_name = ''demo'', wi_created = ''2024-01-01T00:00:00Z'',
      wi_state_id = sha256_ref (dumps (identity_base demo_id ''demo'' ''2024-01-01T00:00:00Z''))\<rparr>"

lemma pad_digits_numeral:
  "pad_digits (numeral k) n = pad_digits (pred_numeral k) (n div 10) @ [char_of (48 + n mod 10)]"
  unfolding numeral_eq_Suc pad_digits.simps ..

lemma demo_time: "ts_canonical ''2024-01-01T00:00:00Z''"
proof -
  let ?s = "''2024-01-01T00:00:00Z''"
  have t: "text_ok 32 ?s"
    by (rule printable_text_ok) (simp_all add: printable_ascii_def)
  have s: "ts_shape ?s" by (simp add: ts_shape_def ts_frac_def is_digit_def)
  have zeros: "replicate 6 (CHR ''0'') = ''000000''" by (simp add: numeral_eq_Suc)
  have f: "ts_fields ?s = [2024, 1, 1, 0, 0, 0, 0]"
    by (simp add: ts_fields_def ts_number_def ts_frac_def zeros)
  have "ts_text [2024, 1, 1, 0, 0, 0, 0] = ?s"
    by (simp add: ts_text_def pad_digits_numeral char_of_def bit_Suc_0_iff)
  then show ?thesis
    by (simp add: ts_canonical_def wtimestamp_def parse_timestamp_def wtext_def on_text_def t s f
        ts_valid_def month_days_def)
qed
lemma demo_identity_ok: "identity_ok demo_identity"
proof -
  have "is_uuid demo_id" by (simp add: demo_id_def demo_uuid_ok is_hex_def)
  moreover have "text_ok 128 ''demo''"
    by (rule printable_text_ok) (simp_all add: printable_ascii_def)
  moreover have "ts_canonical ''2024-01-01T00:00:00Z''"
    by (rule demo_time)
  ultimately show ?thesis by (simp add: identity_ok_def demo_identity_def)
qed

lemma demo_created_ok: "is_hex c \<Longrightarrow> created_ok demo_identity default_policy (demo_uuid c)"
proof -
  assume "is_hex c"
  then have "is_uuid (demo_uuid c)" by (rule demo_uuid_ok)
  moreover have "policy_ok default_policy" by (simp add: policy_ok_def default_policy_def categories_def)
  moreover have "\<not> sensitive_text ''demo''"
    by (rule dull_text_safe) (simp add: dull_text_def dull_char_def assigns_def)
  ultimately show ?thesis
    using demo_identity_ok by (simp add: created_ok_def default_policy_def demo_identity_def)
qed

section \<open>Sizes\<close>

text \<open>A bound on the length of a canonical text that is quick to compute.\<close>

primrec weight :: "json \<Rightarrow> nat" where
  "weight JNull = 4"
| "weight (JBool b) = 5"
| "weight (JInt i) = length (int_text i)"
| "weight (JFloat r) = length r"
| "weight (JStr s) = 6 * length s + 2"
| "weight (JArr xs) = 2 + sum_list (map (\<lambda>n. n + 1) (map weight xs))"
| "weight (JObj kvs) =
     2 + sum_list (map (\<lambda>p. 6 * length (fst p) + snd p + 4) (map (map_prod id weight) kvs))"

lemma length_join: "length (join_with c xs) \<le> sum_list (map (\<lambda>x. length x + 1) xs)"
  by (induction c xs rule: join_with.induct) auto

lemma length_quote: "length (quote s) \<le> 6 * length s + 2"
proof -
  have "length (esc_char c) \<le> 6" for c by (simp add: esc_char_def Let_def hex2_def)
  then have "length (concat (map esc_char s)) \<le> 6 * length s"
    by (induction s) (simp_all add: add_le_mono)
  then show ?thesis by (simp add: quote_def)
qed

lemma length_dumps: "length (dumps v) \<le> weight v"
proof (induction v rule: json_induct)
  case (Arr xs)
  have "sum_list (map (\<lambda>x. length x + 1) (map dumps xs)) \<le> sum_list (map (\<lambda>n. n + 1) (map weight xs))"
    using Arr by (auto simp: comp_def intro: sum_list_mono)
  then show ?case using length_join [of "CHR '',''" "map dumps xs"] by simp
next
  case (Obj kvs)
  let ?f = "\<lambda>p. quote (fst p) @ CHR '':'' # snd p"
  have "sum_list (map (\<lambda>x. length x + 1) (map ?f (sort_key fst (map (map_prod id dumps) kvs)))) =
      sum_list (map (\<lambda>x. length x + 1) (map ?f (map (map_prod id dumps) kvs)))"
    by (simp only: sum_mset_sum_list [symmetric] mset_map mset_sort)
  also have "\<dots> \<le> sum_list (map (\<lambda>p. 6 * length (fst p) + snd p + 4) (map (map_prod id weight) kvs))"
  proof -
    have "length (quote (fst p)) + length (dumps (snd p)) \<le> 6 * length (fst p) + weight (snd p) + 2"
      if "p \<in> set kvs" for p
      using Obj [of "fst p" "snd p"] that length_quote [of "fst p"] by simp
    then have "sum_list (map (\<lambda>p. length (quote (fst p)) + length (dumps (snd p)) + 2) kvs) \<le>
        sum_list (map (\<lambda>p. 6 * length (fst p) + weight (snd p) + 4) kvs)"
      by (intro sum_list_mono) fastforce
    then show ?thesis by (simp add: comp_def)
  qed
  finally show ?case
    using length_join [of "CHR '',''" "map ?f (sort_key fst (map (map_prod id dumps) kvs))"] by simp
qed (use length_quote in simp_all)

lemma digest_length: "is_digest d \<Longrightarrow> length d = 71"
  by (auto simp: is_digest_def prefixed_hex_def)

end
