(* ===== verification/Ws_Claims.thy ===== *)
theory Ws_Claims
  imports Ws_Demo
begin

text \<open>
  Properties of the workspace's state machine and of its journal, over every sequence of events and
  every directory, with their witnesses on a small journal.
\<close>

section \<open>The small journal\<close>

definition demo_created :: json where
  "demo_created =
     (case event_record demo_id 1 (demo_uuid (CHR ''1'')) ''workspace_created''
        (created_payload demo_identity default_policy) ZERO_DIGEST of Inr e \<Rightarrow> e | Inl _ \<Rightarrow> JNull)"

definition state_after :: "bool \<Rightarrow> json \<Rightarrow> ws_state \<Rightarrow> ws_state" where
  "state_after v e s = (case apply_event v e s of Inr t \<Rightarrow> t | Inl _ \<Rightarrow> s)"

definition demo_state :: ws_state where
  "demo_state = state_after True demo_created empty_state"

lemma demo_identity_id: "wi_id demo_identity = demo_id"
  by (simp add: demo_identity_def)

lemma demo_created_record:
  "event_record demo_id 1 (demo_uuid (CHR ''1'')) ''workspace_created''
     (created_payload demo_identity default_policy) ZERO_DIGEST = Inr demo_created"
proof -
  have "record_ok demo_id 1 (demo_uuid (CHR ''1'')) ''workspace_created''
      (created_payload demo_identity default_policy) ZERO_DIGEST"
    using created_record_ok [OF demo_created_ok, of "CHR ''1''"]
    by (simp add: is_hex_def demo_identity_def)
  from event_record_total [OF this] show ?thesis
    by (simp add: demo_created_def del: dumps.simps)
qed

lemma demo_created_is_record:
  "\<exists>g. is_record demo_created demo_id 1 (demo_uuid (CHR ''1'')) ''workspace_created''
     (created_payload demo_identity default_policy) g \<and>
   is_record (jsort demo_created) demo_id 1 (demo_uuid (CHR ''1'')) ''workspace_created''
     (jsort (created_payload demo_identity default_policy)) g"
  using event_record_is_record [of demo_id 1] demo_created_record demo_uuid_ok
  by (simp add: is_hex_def)

lemma demo_state_shape:
  "\<exists>g r. demo_state = (created_state demo_identity default_policy)\<lparr>s_events := [demo_created], s_last := g,
     s_receipts := [(demo_uuid (CHR ''1''), r)]\<rparr> \<and> is_digest g \<and>
   apply_event True demo_created empty_state = Inr demo_state"
proof -
  have ok: "created_ok demo_identity default_policy (demo_uuid (CHR ''1''))"
    by (rule demo_created_ok) (simp add: is_hex_def)
  obtain g where g: "is_record demo_created demo_id 1 (demo_uuid (CHR ''1'')) ''workspace_created''
      (created_payload demo_identity default_policy) g"
    using demo_created_is_record by blast
  obtain r where "apply_event True demo_created empty_state =
      Inr ((created_state demo_identity default_policy)\<lparr>s_events := [demo_created], s_last := g,
        s_receipts := [(demo_uuid (CHR ''1''), r)]\<rparr>)"
    using created_accepted [OF ok, of demo_created "created_payload demo_identity default_policy" g True] g
    unfolding demo_identity_id by blast
  then show ?thesis
    using g by (auto simp: demo_state_def state_after_def is_record_def)
qed

lemma demo_accepted: "apply_event True demo_created empty_state = Inr demo_state"
  using demo_state_shape by blast

lemma demo_state_facts:
  "state_ok demo_state" "s_identity demo_state = Some demo_identity" "s_policy demo_state = Some default_policy"
  "s_events demo_state = [demo_created]" "s_lifecycle demo_state = ''active''" "s_entries demo_state = []"
  "s_sources demo_state = []" "s_pins demo_state = []" "s_handoffs demo_state = []" "s_sessions demo_state = []"
  "map fst (s_receipts demo_state) = [demo_uuid (CHR ''1'')]" "s_checkpoints demo_state = []"
  "is_digest (s_last demo_state)"
proof -
  show "state_ok demo_state" by (rule apply_event_ok(1) [OF demo_accepted empty_state_ok])
  obtain g r where eq: "demo_state = (created_state demo_identity default_policy)\<lparr>s_events := [demo_created],
      s_last := g, s_receipts := [(demo_uuid (CHR ''1''), r)]\<rparr>" "is_digest g"
    using demo_state_shape by blast
  show "s_identity demo_state = Some demo_identity" "s_policy demo_state = Some default_policy"
    "s_events demo_state = [demo_created]" "s_lifecycle demo_state = ''active''" "s_entries demo_state = []"
    "s_sources demo_state = []" "s_pins demo_state = []" "s_handoffs demo_state = []" "s_sessions demo_state = []"
    "map fst (s_receipts demo_state) = [demo_uuid (CHR ''1'')]" "s_checkpoints demo_state = []"
    "is_digest (s_last demo_state)"
    using eq(2) by (simp_all add: eq(1) created_state_def empty_state_def)
qed

text \<open>The second event ends the workspace.\<close>

definition demo_ended :: json where
  "demo_ended =
     (case event_record demo_id 2 (demo_uuid (CHR ''2'')) ''workspace_completed'' (JObj []) (s_last demo_state)
      of Inr e \<Rightarrow> e | Inl _ \<Rightarrow> JNull)"

definition demo_end_state :: ws_state where
  "demo_end_state = state_after True demo_ended demo_state"

lemma empty_context_bounds:
  assumes "s_entries s = []" "s_sources s = []" "s_sessions s = []" "s_pins s = []"
    "int (length (s_events s)) \<le> po_events p" "policy_ok p" "2 \<le> po_context_bytes p"
  shows "ensure_bounds p False s = Inr ()"
proof -
  have "context_bytes [] = Inr 2" by (simp add: context_bytes_def ws_canonical_ok)
  then show ?thesis
    using assms by (simp add: ensure_bounds_def policy_ok_def)
qed

lemma demo_ended_record:
  "record_ok demo_id 2 (demo_uuid (CHR ''2'')) ''workspace_completed'' (JObj []) (s_last demo_state)"
  using demo_state_facts(13) demo_uuid_ok
  by (simp add: record_ok_def event_kinds_def reject_dull demo_id_def is_hex_def)

lemma demo_end_accepted:
  "apply_event True demo_ended demo_state = Inr demo_end_state" "s_lifecycle demo_end_state = ''completed''"
proof -
  have "event_record demo_id 2 (demo_uuid (CHR ''2'')) ''workspace_completed'' (JObj []) (s_last demo_state)
      = Inr demo_ended"
    using event_record_total [OF demo_ended_record] by (simp add: demo_ended_def del: dumps.simps)
  then obtain g where g: "is_record demo_ended demo_id 2 (demo_uuid (CHR ''2'')) ''workspace_completed'' (JObj []) g"
    using event_record_is_record [of demo_id 2] demo_uuid_ok by (fastforce simp: is_hex_def)
  let ?m = "demo_state\<lparr>s_lifecycle := ''completed''\<rparr>"
  have policy: "policy_ok default_policy" by (simp add: policy_ok_def default_policy_def categories_def)
  have "ensure_bounds default_policy False (?m\<lparr>s_events := s_events ?m @ [demo_ended], s_last := g\<rparr>) = Inr ()"
    by (rule empty_context_bounds [OF _ _ _ _ _ policy])
      (simp_all add: demo_state_facts default_policy_def)
  then obtain r where "apply_event True demo_ended demo_state =
      Inr (?m\<lparr>s_events := s_events ?m @ [demo_ended], s_last := g,
        s_receipts := s_receipts ?m @ [(demo_uuid (CHR ''2''), r)]\<rparr>)"
    using plain_event_accepted [OF g, of demo_state demo_identity default_policy True ?m default_policy]
      demo_state_facts
    by (auto simp: plain_kinds_def payload_keys_def jkeys_def reject_dull apply_kind_def apply_completed_def
        demo_uuid_def)
  then show "apply_event True demo_ended demo_state = Inr demo_end_state"
      "s_lifecycle demo_end_state = ''completed''"
    by (simp_all add: demo_end_state_def state_after_def)
qed

text \<open>The journal that stores the first event.\<close>

definition demo_digest :: pystr where
  "demo_digest = event_digest_of demo_created"

definition demo_file :: pystr where
  "demo_file = event_name 1 demo_digest"

definition demo_dir :: events_dir where
  "demo_dir = \<lparr>ed_names = [(demo_file, 0)],
     ed_inodes = [(0, plain_inode (dumps demo_created @ [CHR 0x0A]))]\<rparr>"

lemma digest_of_record: "is_record e w n eid kind payload g \<Longrightarrow> event_digest_of e = g"
  by (simp add: is_record_def event_digest_of_def)

lemma demo_digest_ok: "is_digest demo_digest" "jget ''event_digest'' demo_created = Some (JStr demo_digest)"
proof -
  obtain g where g: "is_record demo_created demo_id 1 (demo_uuid (CHR ''1'')) ''workspace_created''
      (created_payload demo_identity default_policy) g"
    using demo_created_is_record by blast
  have "demo_digest = g" using digest_of_record [OF g] by (simp add: demo_digest_def)
  then show "is_digest demo_digest" "jget ''event_digest'' demo_created = Some (JStr demo_digest)"
    using g by (simp_all add: is_record_def)
qed

lemma demo_name: "event_file demo_file = Some (1, remove_prefix ''sha256:'' demo_digest)"
  unfolding demo_file_def using demo_digest_ok(1) by (intro event_file_name) simp_all

definition demo_tmp :: pystr where "demo_tmp = ''.event-0''"

lemma demo_fresh:
  assumes "filename \<noteq> demo_file"
  shows "fresh_for demo_dir 1 [demo_tmp, filename]" "is_temporary demo_tmp"
proof -
  show t: "is_temporary demo_tmp"
    by (simp add: demo_tmp_def is_temporary_def starts_with_def)
  have "demo_tmp \<noteq> demo_file"
    using event_file_head [of "demo_file"] demo_name t by auto
  then show "fresh_for demo_dir 1 [demo_tmp, filename]"
    using assms by (auto simp: fresh_for_def demo_dir_def)
qed

lemma sha256_ref_length: "length (sha256_ref x) = 71"
  by (simp add: digest_length)

lemma demo_uuid_length: "length (demo_uuid c) = 36" "length demo_id = 36"
  by (simp_all add: demo_uuid_def demo_id_def)

lemma demo_created_short: "length (dumps demo_created) < MAX_EVENT_BYTES"
proof -
  obtain h where h: "demo_created = JObj (event_unsigned demo_id 1 (demo_uuid (CHR ''1'')) ''workspace_created''
      (created_payload demo_identity default_policy) ZERO_DIGEST @ [(''event_digest'', JStr h)])" "is_digest h"
    using demo_created_record ws_digest_shape unfolding event_record_def Let_def rbind_eq_Inr_iff sum.inject
    by metis
  have "weight demo_created < 10000"
    unfolding h(1)
    by (simp add: digest_length [OF h(2)] sha256_ref_length event_unsigned_def created_payload_def identity_to_dict_def policy_to_dict_def
        demo_identity_def default_policy_def categories_def jstrs_def demo_uuid_length
        ZERO_DIGEST_def int_text_def nat_text.simps)
  then show ?thesis
    using length_dumps [of demo_created] by (simp add: MAX_EVENT_BYTES_def)
qed

definition demo_stored :: ws_state where
  "demo_stored = state_after True (jsort demo_created) empty_state"

lemma demo_stored_facts:
  "apply_event True (jsort demo_created) empty_state = Inr demo_stored"
  "s_identity demo_stored = Some demo_identity" "s_policy demo_stored = Some default_policy"
  "s_events demo_stored = [jsort demo_created]"
proof -
  have ok: "created_ok demo_identity default_policy (demo_uuid (CHR ''1''))"
    by (rule demo_created_ok) (simp add: is_hex_def)
  obtain g where "is_record (jsort demo_created) demo_id 1 (demo_uuid (CHR ''1'')) ''workspace_created''
     (jsort (created_payload demo_identity default_policy)) g"
    using demo_created_is_record by blast
  then obtain r where "apply_event True (jsort demo_created) empty_state =
      Inr ((created_state demo_identity default_policy)\<lparr>s_events := [jsort demo_created],
        s_last := g, s_receipts := [(demo_uuid (CHR ''1''), r)]\<rparr>)"
    using created_accepted [OF ok] unfolding demo_identity_id by blast
  then show "apply_event True (jsort demo_created) empty_state = Inr demo_stored"
      "s_identity demo_stored = Some demo_identity" "s_policy demo_stored = Some default_policy"
      "s_events demo_stored = [jsort demo_created]"
    by (simp_all add: demo_stored_def state_after_def created_state_log)
qed

lemma demo_dir_inode: "dir_inode demo_dir demo_file =
    Some (plain_inode (dumps demo_created @ [CHR 0x0A]))"
  by (simp add: dir_inode_def demo_dir_def)

lemma demo_read: "read_event demo_dir demo_id 1 ZERO_DIGEST demo_file = Inr (jsort demo_created)"
  unfolding demo_file_def
proof (rule read_back)
  show "record_ok demo_id 1 (demo_uuid (CHR ''1'')) ''workspace_created''
      (created_payload demo_identity default_policy) ZERO_DIGEST"
    using created_record_ok [OF demo_created_ok, of "CHR ''1''"] by (simp add: is_hex_def demo_identity_id)
  show "event_record demo_id (int 1) (demo_uuid (CHR ''1'')) ''workspace_created''
      (created_payload demo_identity default_policy) ZERO_DIGEST = Inr demo_created"
    using demo_created_record by simp
  show "read_regular demo_dir (event_name 1 demo_digest) = Inr (dumps demo_created @ [CHR 0x0A])"
    unfolding demo_file_def [symmetric]
    using demo_created_short by (simp add: read_regular_def demo_dir_inode) (simp add: plain_inode_def)
qed (simp_all add: demo_digest_ok)

lemma demo_project: "project demo_dir demo_id = Inr demo_stored"
proof -
  have head: "demo_file \<noteq> ''.workspace.lock''" "\<not> is_temporary demo_file"
    using event_file_head [of "demo_file"] demo_name by auto
  have names: "map fst (ed_names demo_dir) = [demo_file]" by (simp add: demo_dir_def)
  have pub: "published demo_dir = [demo_file]" "temporaries demo_dir = []"
    using head by (simp_all add: published_def temporaries_def names)
  have ok: "name_ok demo_dir demo_file = Inr ()"
    using head by (simp add: name_ok_def demo_name)
  have links: "links_ok demo_dir"
    by (simp add: links_ok_def pub name_links_def demo_dir_inode, simp add: plain_inode_def)
  have "jget ''event_digest'' (jsort demo_created) = Some (JStr demo_digest)"
    using demo_digest_ok(2) by (simp add: jget_jsort_any)
  then have rep: "replay demo_dir demo_id 1 ZERO_DIGEST empty_state (published demo_dir) = Inr demo_stored"
    using demo_read demo_stored_facts(1) by (simp add: pub)
  show ?thesis
    by (simp add: project_def names ok rep [unfolded One_nat_def] links demo_stored_facts demo_identity_id)
qed

section \<open>The state\<close>

text \<open>
  C2. Every state a sequence of events leads to is well formed: its identity, policy, sources,
  entries, pins, checkpoints and sessions decode; the identifiers of its events, sources, sessions, package
  pins, checkpoints and applied handoffs are each distinct; every entry names attached sources, the
  package lock is the digest of the pins, each event has exactly one receipt, which names it, and
  the state is within the bounds of its policy. (The identifiers of context entries are not among the distinct
  ones: the code accepts an event with two entries of one identifier.)
\<close>
theorem reachable_state_ok:
  assumes "apply_events v es empty_state = Inr s"
  shows "state_ok s"
  using apply_events_ok [OF assms empty_state_ok] by blast

lemma reachable_state_ok_witness: "apply_events True [demo_created] empty_state = Inr demo_state \<and> state_ok demo_state"
proof -
  have run: "apply_events True [demo_created] empty_state = Inr demo_state"
    by (simp add: demo_accepted)
  show ?thesis using run reachable_state_ok [OF run] by blast
qed

text \<open>
  C3. Events only add: after more events the identity is the same, the policy is a tightening of
  the earlier one, an ended lifecycle and a fork lineage stay, and the earlier events, receipts,
  sessions, checkpoints and applied handoffs are all kept.
\<close>
theorem history_only_grows:
  assumes "apply_events v es empty_state = Inr s" "apply_events v fs s = Inr t"
  shows "grows s t"
  using apply_events_ok [OF assms(2)] apply_events_ok [OF assms(1) empty_state_ok] by blast

lemma history_only_grows_witness: "grows demo_state demo_end_state"
  using history_only_grows [of True "[demo_created]" demo_state "[demo_ended]" demo_end_state]
    demo_accepted demo_end_accepted(1) by simp

text \<open>C19. A workspace that was completed or aborted accepts no event, and its state is not touched.\<close>
theorem ended_workspace_refuses:
  assumes "apply_events v es empty_state = Inr s" "s_lifecycle s \<noteq> ''active''"
  shows "\<exists>k. apply_event v event s = Inl (k, s)"
proof -
  have "state_ok s" using apply_events_ok [OF assms(1) empty_state_ok] by blast
  then have "s_events s \<noteq> []" using assms(2) by (auto simp: state_ok_def log_ok_def)
  then show ?thesis
    using assms(2)
    by (auto simp: apply_event_def apply_created_def trying_def need_def on_err_def split: sum.splits option.splits)
qed

lemma ended_workspace_refuses_witness: "\<exists>k. apply_event True demo_created demo_end_state = Inl (k, demo_end_state)"
  using ended_workspace_refuses [of True "[demo_created, demo_ended]" demo_end_state demo_created]
    demo_accepted demo_end_accepted by simp

section \<open>The journal\<close>

text \<open>
  C20. A journal that is read gives the state its events lead to; the events are numbered from one,
  belong to the workspace, and each carries the digest of its own content and of the event before it.
\<close>
theorem projected_state_is_replayed:
  assumes "project d w = Inr s"
  shows "apply_events True (s_events s) empty_state = Inr s \<and> chained w 1 ZERO_DIGEST (s_events s) \<and>
    map_option wi_id (s_identity s) = Some w \<and> length (published d) = length (s_events s)"
  using project_Inr(1,2,5) [OF assms] list_all2_lengthD [OF project_Inr(4) [OF assms]] by auto

lemma projected_state_is_replayed_witness:
  "project demo_dir demo_id = Inr demo_stored \<and>
   apply_events True (s_events demo_stored) empty_state = Inr demo_stored \<and>
   chained demo_id 1 ZERO_DIGEST (s_events demo_stored) \<and> s_events demo_stored \<noteq> []"
  using demo_project projected_state_is_replayed [OF demo_project] by (simp add: demo_stored_facts)

text \<open>
  C4. Publishing an event is atomic: in whatever step the write stops, the directory reads as it
  did before the write or as it does after it, whatever the file holds so far.
\<close>
theorem publish_is_atomic:
  assumes "fresh_for d i [tmp, filename]" "is_temporary tmp" "event_file filename \<noteq> None"
    "d' \<in> set (publish_steps filename tmp i chunks d)"
  shows "project d' w \<in> {project d w, project (last (publish_steps filename tmp i chunks d)) w}"
  using publish_steps_project [OF assms] by blast

lemma publish_is_atomic_witness:
  "project (create_file demo_tmp 1 demo_dir) demo_id \<in>
     {project demo_dir demo_id,
      project (last (publish_steps (event_name 2 demo_digest) demo_tmp 1 [''a'', ''b''] demo_dir)) demo_id}"
proof -
  have name: "event_file (event_name 2 demo_digest) = Some (2, remove_prefix ''sha256:'' demo_digest)"
    by (rule event_file_name [OF _ demo_digest_ok(1)]) simp
  then have new: "event_name 2 demo_digest \<noteq> demo_file"
    using demo_name by auto
  have "create_file demo_tmp 1 demo_dir \<in>
      set (publish_steps (event_name 2 demo_digest) demo_tmp 1 [''a'', ''b''] demo_dir)"
    by (simp add: publish_steps_def Let_def)
  then show ?thesis
    using publish_is_atomic [OF demo_fresh [OF new]] name by blast
qed

text \<open>
  C21. The digest of the last event pins the whole history: two journals whose last digests agree
  hold the same events, up to the order of the items of an object, or two of their records collide
  under SHA-256. (Events with floating point numbers are left out.)
\<close>
theorem last_digest_pins_history:
  assumes "project d w = Inr s" "project d' w' = Inr s'" "s_last s = s_last s'"
    "list_all json_wf (s_events s)" "list_all json_wf (s_events s')"
  shows "map jsort (s_events s) = map jsort (s_events s') \<or> records_collide (s_events s) (s_events s')"
  using chained_unique [OF project_Inr(2) [OF assms(1)] project_Inr(2) [OF assms(2)] _ assms(4,5)]
    project_chain_end [OF assms(1)] project_chain_end [OF assms(2)] assms(3) by simp

lemma last_digest_pins_history_witness:
  "map jsort (s_events demo_stored) = map jsort (s_events demo_stored) \<or>
   records_collide (s_events demo_stored) (s_events demo_stored)"
proof -
  have "record_ok demo_id 1 (demo_uuid (CHR ''1'')) ''workspace_created''
      (created_payload demo_identity default_policy) ZERO_DIGEST"
    using created_record_ok [OF demo_created_ok, of "CHR ''1''"] by (simp add: is_hex_def demo_identity_id)
  then have "json_ok demo_created"
    using demo_created_record
    by (intro record_json_ok [of demo_id 1]) simp_all
  then have "list_all json_wf (s_events demo_stored)"
    by (simp add: demo_stored_facts json_ok_wf json_ok_jsort)
  then show ?thesis
    using last_digest_pins_history [OF demo_project demo_project] by blast
qed

end
