(* ===== verification/Ws_Workspace.thy ===== *)
theory Ws_Workspace
  imports Ws_Files
begin

text \<open>
  The methods of \<open>ContextWorkspace\<close> (\<open>src/leanctx_sdk/workspace.py\<close>) that read the journal of a
  workspace and append to it. A method takes the workspace and returns the workspace it leaves with
  its result, because a call that raises may already have published an event. \<open>draw\<close> holds what one
  append draws at random and how the system calls of its write end, \<open>host\<close> what the process sees: the
  working directory, the clock, the directory tree when a source is opened and later when it is looked at again, the journals of the other
  workspaces under the same root, and whether the lock was obtained before the deadline.
\<close>

record draw =
  dr_uuid :: pystr
  dr_names :: "pystr list"
  dr_inode :: nat
  dr_io :: io_fault

record host =
  hs_cwd :: pystr
  hs_now :: pystr
  hs_fs :: fs_node
  hs_fs_after :: fs_node
  hs_locked :: bool
  hs_workspaces :: "(pystr \<times> events_dir) list"

text \<open>
  A \<open>ContextWorkspace\<close> object with the journal it is bound to. \<open>wk_bound\<close> is
  \<open>_runtime_source_bindings\<close>, \<open>wk_live\<close> is \<open>_runtime_sessions\<close>, \<open>wk_bindings\<close> the table
  \<open>_SESSION_BINDINGS\<close> of the process; a session object is named by a number.
\<close>

record workspace =
  wk_root :: pystr
  wk_created :: ws_receipt
  wk_dir :: events_dir
  wk_bound :: "(pystr \<times> source_anchor) list"
  wk_live :: "(pystr \<times> nat) list"
  wk_bindings :: "(nat \<times> pystr \<times> pystr) list"

definition workspace_id :: "workspace \<Rightarrow> pystr" where
  "workspace_id w = wr_workspace (wk_created w)"

definition session_binding_key :: "workspace \<Rightarrow> pystr \<times> pystr" where
  "session_binding_key w = (wk_root w, wr_state_id (wk_created w))"

section \<open>Reading\<close>

definition raise_projection :: "read_fail \<times> ws_state option \<Rightarrow> exn" where
  "raise_projection f =
     (case fst f of RMissing \<Rightarrow> WorkspaceNotFoundError | RIncompatible \<Rightarrow> WorkspaceIncompatibleError
      | RIo \<Rightarrow> WorkspaceIOError | RCorrupt \<Rightarrow> WorkspaceCorruptError)"

definition read_journal :: "events_dir \<Rightarrow> pystr \<Rightarrow> ws_state res" where
  "read_journal d i = on_err raise_projection (project d i)"

definition read_state :: "workspace \<Rightarrow> ws_state res" where
  "read_state w = read_journal (wk_dir w) (workspace_id w)"

text \<open>\<open>__init__\<close>: the receipt of the first event is kept.\<close>

definition mk_workspace :: "pystr \<Rightarrow> events_dir \<Rightarrow> ws_state \<Rightarrow> workspace res" where
  "mk_workspace root d s =
     (case s_events s of
        [] \<Rightarrow> Inl PyOther
      | event # _ \<Rightarrow>
          (case jget ''event_id'' event of
             Some (JStr i) \<Rightarrow>
               rbind (of_option PyKeyError (map_of (s_receipts s) i)) (\<lambda>r.
               Inr \<lparr>wk_root = root, wk_created = r, wk_dir = d, wk_bound = [], wk_live = [],
                 wk_bindings = []\<rparr>)
           | _ \<Rightarrow> Inl WorkspaceCorruptError))"

definition open_workspace :: "pystr \<Rightarrow> pystr \<Rightarrow> events_dir option \<Rightarrow> workspace res" where
  "open_workspace root i journal =
     rbind (wuuid (JStr i)) (\<lambda>_.
     rbind (of_option WorkspaceNotFoundError journal) (\<lambda>d.
     rbind (read_journal d i) (\<lambda>s. mk_workspace root d s)))"

definition status :: "workspace \<Rightarrow> ws_status res" where
  "status w = rbind (read_state w) (state_status ''healthy'')"

definition ws_identity_of :: "workspace \<Rightarrow> ws_identity res" where
  "ws_identity_of w = rbind (read_state w) (\<lambda>s. of_option WorkspaceCorruptError (s_identity s))"

definition ws_fork_lineage :: "workspace \<Rightarrow> json option res" where
  "ws_fork_lineage w = rbind (read_state w) (\<lambda>s. Inr (s_fork s))"

definition get_checkpoint :: "pystr \<Rightarrow> workspace \<Rightarrow> checkpoint res" where
  "get_checkpoint i w =
     rbind (wuuid (JStr i)) (\<lambda>c.
     rbind (read_state w) (\<lambda>s. of_option WorkspaceNotFoundError (map_of (s_checkpoints s) c)))"

definition require_source :: "pystr \<Rightarrow> workspace \<Rightarrow> source_anchor res" where
  "require_source i w =
     rbind (wtext 128 (JStr i)) (\<lambda>sid.
     rbind (read_state w) (\<lambda>s. of_option WorkspaceValidationError (map_of (s_sources s) sid)))"

section \<open>Events that are already there\<close>

definition find_event :: "pystr \<Rightarrow> ws_state \<Rightarrow> json option" where
  "find_event i s = find (\<lambda>e. jget ''event_id'' e = Some (JStr i)) (s_events s)"

definition same_canonical :: "json \<Rightarrow> json \<Rightarrow> bool res" where
  "same_canonical a b = rbind (ws_canonical a) (\<lambda>x. rbind (ws_canonical b) (\<lambda>y. Inr (x = y)))"

text \<open>
  A call with an identifier that is in use returns the receipt of the recorded event when the kind
  and the value \<open>f\<close> of its payload are the same, and is a conflict otherwise.
\<close>

definition known_event ::
  "pystr \<Rightarrow> pystr \<Rightarrow> (json \<Rightarrow> json) \<Rightarrow> json \<Rightarrow> ws_state \<Rightarrow> ws_receipt option res" where
  "known_event kind i f v s =
     (case map_of (s_receipts s) i of
        None \<Rightarrow> Inr None
      | Some r \<Rightarrow>
          rbind (of_option PyOther (find_event i s)) (\<lambda>e.
          rbind (check (jat ''kind'' e = JStr kind) WorkspaceConflictError) (\<lambda>_.
          rbind (same_canonical (f (jat ''payload'' e)) v) (\<lambda>same.
          rbind (check same WorkspaceConflictError) (\<lambda>_. Inr (Some r))))))"

definition retry_with ::
  "pystr \<Rightarrow> pystr option \<Rightarrow> (json \<Rightarrow> json) \<Rightarrow> json \<Rightarrow> workspace \<Rightarrow> ws_receipt option res" where
  "retry_with kind event_id f v w =
     (case event_id of
        None \<Rightarrow> Inr None
      | Some e \<Rightarrow> rbind (wuuid (JStr e)) (\<lambda>i. rbind (read_state w) (known_event kind i f v)))"

definition retry :: "pystr \<Rightarrow> pystr option \<Rightarrow> json \<Rightarrow> workspace \<Rightarrow> ws_receipt option res" where
  "retry kind event_id payload w = retry_with kind event_id id payload w"

section \<open>Appending\<close>

definition payload_anchor :: "json \<Rightarrow> source_anchor res" where
  "payload_anchor payload =
     on_err (\<lambda>e. if is_workspace_error e \<or> e = PyKeyError then WorkspaceValidationError else e)
       (rbind (jfield ''anchor'' payload) (anchor_from_dict True))"

text \<open>Whether the anchor of an event is verified, which its receipts must show.\<close>

definition verified_evidence ::
  "host \<Rightarrow> pystr \<Rightarrow> json \<Rightarrow> ctx_receipt list \<Rightarrow> bool res" where
  "verified_evidence h kind payload evidence =
     (if kind \<notin> {''source_attached'', ''source_updated''} then Inr False
      else rbind (payload_anchor payload) (\<lambda>a.
        if tr_level (an_trust a) = ''verified'' then
          rbind (anchor_with_evidence (hs_cwd h) (hs_fs h) a evidence) (\<lambda>b.
          rbind (check (py_eq (anchor_to_dict b) (anchor_to_dict a)) WorkspaceConflictError) (\<lambda>_. Inr True))
        else rbind (check (evidence = []) WorkspaceValidationError) (\<lambda>_. Inr False)))"

definition append_failure :: "fail_kind \<times> ws_state \<Rightarrow> exn" where
  "append_failure f =
     (case fst f of Incompatible \<Rightarrow> WorkspacePolicyError | Corrupt \<Rightarrow> WorkspaceConflictError)"

text \<open>The event an append writes, the state after it, and the name and bytes of its file.\<close>

definition next_event ::
  "io_fault \<Rightarrow> pystr \<Rightarrow> pystr \<Rightarrow> json \<Rightarrow> bool \<Rightarrow> unit res \<Rightarrow> ws_state \<Rightarrow> pystr \<Rightarrow>
     (json \<times> ws_state \<times> pystr \<times> pystr) res" where
  "next_event fault kind i payload verified pre_publish s wid =
     rbind (check (s_lifecycle s = ''active'') WorkspaceLifecycleError) (\<lambda>_.
     rbind (state_policy s) (\<lambda>p.
     rbind (check (int (length (s_events s)) + 1 \<le> po_events p) WorkspacePolicyError) (\<lambda>_.
     rbind (event_record wid (int (length (s_events s)) + 1) i kind payload (s_last s)) (\<lambda>event.
     rbind (on_err append_failure (apply_event verified event s)) (\<lambda>t.
     rbind (wdigest (jat ''event_digest'' event)) (\<lambda>digest.
     rbind (check (fault \<noteq> LockFault) WorkspaceLockError) (\<lambda>_.
     rbind pre_publish (\<lambda>_.
     rbind (ws_canonical event) (\<lambda>bytes.
     Inr (event, t, event_name (length (s_events s) + 1) digest, bytes @ [CHR 0x0A]))))))))))"

text \<open>A write that raises leaves its directory, in which the event may be published.\<close>

definition publish_event ::
  "draw \<Rightarrow> pystr \<Rightarrow> pystr \<Rightarrow> json \<Rightarrow> bool \<Rightarrow> unit res \<Rightarrow> ws_state \<Rightarrow> pystr \<Rightarrow> events_dir \<Rightarrow>
     events_dir \<times> (json \<times> ws_state) res" where
  "publish_event dr kind i payload verified pre_publish s wid d =
     (case next_event (dr_io dr) kind i payload verified pre_publish s wid of
        Inl e \<Rightarrow> (d, Inl e)
      | Inr (event, t, filename, data) \<Rightarrow>
          (case write_event (dr_io dr) filename data (dr_names dr) (dr_inode dr) d of
             (d', x) \<Rightarrow> (d', rbind x (\<lambda>_. Inr (event, t)))))"

definition append_checks ::
  "host \<Rightarrow> draw \<Rightarrow> pystr \<Rightarrow> json \<Rightarrow> pystr option \<Rightarrow> ctx_receipt list \<Rightarrow> workspace \<Rightarrow>
     (pystr \<times> bool \<times> ws_state \<times> ws_receipt option) res" where
  "append_checks h dr kind payload event_id evidence w =
     rbind (check (kind \<in> set event_kinds \<and> kind \<noteq> ''workspace_created'') WorkspaceValidationError) (\<lambda>_.
     rbind (exact (payload_keys kind) payload) (\<lambda>_.
     rbind (case event_id of None \<Rightarrow> Inr (dr_uuid dr) | Some e \<Rightarrow> wuuid (JStr e)) (\<lambda>i.
     rbind (reject_sensitive payload) (\<lambda>_.
     rbind (verified_evidence h kind payload evidence) (\<lambda>verified.
     rbind (check (hs_locked h) WorkspaceLockError) (\<lambda>_.
     rbind (read_state w) (\<lambda>s.
     rbind (known_event kind i id payload s) (\<lambda>known.
     Inr (i, verified, s, known)))))))))"

definition append_event ::
  "host \<Rightarrow> draw \<Rightarrow> pystr \<Rightarrow> json \<Rightarrow> pystr option \<Rightarrow> unit res \<Rightarrow> ctx_receipt list \<Rightarrow> workspace \<Rightarrow>
     workspace \<times> ws_receipt res" where
  "append_event h dr kind payload event_id pre_publish evidence w =
     (case append_checks h dr kind payload event_id evidence w of
        Inl e \<Rightarrow> (w, Inl e)
      | Inr (i, verified, s, Some r) \<Rightarrow> (w, Inr r)
      | Inr (i, verified, s, None) \<Rightarrow>
          (case publish_event dr kind i payload verified pre_publish s (workspace_id w) (wk_dir w) of
             (d, x) \<Rightarrow> (w\<lparr>wk_dir := d\<rparr>, rbind x (\<lambda>(event, t). receipt_for_event t event))))"

text \<open>The statements of a method before its append: an exception leaves the workspace as it is.\<close>

definition wbind :: "'a res \<Rightarrow> ('a \<Rightarrow> workspace \<times> 'b res) \<Rightarrow> workspace \<Rightarrow> workspace \<times> 'b res" where
  "wbind r f w = (case r of Inl e \<Rightarrow> (w, Inl e) | Inr a \<Rightarrow> f a)"

text \<open>A method that returns an earlier receipt when its event is already there.\<close>

definition unless_known ::
  "ws_receipt option res \<Rightarrow> (unit \<Rightarrow> workspace \<times> ws_receipt res) \<Rightarrow> workspace \<Rightarrow>
     workspace \<times> ws_receipt res" where
  "unless_known r f w = wbind r (\<lambda>x. case x of Some receipt \<Rightarrow> (w, Inr receipt) | None \<Rightarrow> f ()) w"

definition require_active :: "ws_state \<Rightarrow> unit res" where
  "require_active s = check (s_lifecycle s = ''active'') WorkspaceLifecycleError"

end
