(* ===== verification/Ws_Methods.thy ===== *)
theory Ws_Methods
  imports Ws_Workspace
begin

text \<open>
  The methods of \<open>ContextWorkspace\<close> that change one workspace: sources, sessions, context,
  checkpoints, packages, policy and the end of the workspace. Values of classes are passed as records,
  entries as the JSON objects they encode to; a session is passed with the number that names
  the object.
\<close>

section \<open>Sources\<close>

definition bind_local_source ::
  "host \<Rightarrow> pystr \<Rightarrow> context_source \<Rightarrow> workspace \<Rightarrow> workspace \<times> source_anchor res" where
  "bind_local_source h i source w =
     wbind (rbind (require_source i w)
         (\<lambda>a. bind_portable_anchor (hs_cwd h) (hs_fs h) (hs_fs_after h) a source))
       (\<lambda>bound. (w\<lparr>wk_bound := dict_put i bound (wk_bound w)\<rparr>, Inr bound)) w"

definition attach_source ::
  "host \<Rightarrow> draw \<Rightarrow> source_anchor \<Rightarrow> ctx_receipt list \<Rightarrow> pystr option \<Rightarrow> workspace \<Rightarrow>
     workspace \<times> ws_receipt res" where
  "attach_source h dr a0 evidence event_id w =
     wbind (anchor_with_evidence (hs_cwd h) (hs_fs h) a0 evidence) (\<lambda>a.
     let payload = JObj [(''anchor'', anchor_to_dict a)] in
     unless_known (retry ''source_attached'' event_id payload w) (\<lambda>_.
     wbind (rbind (read_state w) (\<lambda>s.
            rbind (require_active s) (\<lambda>_.
            rbind (check (map_of (s_sources s) (an_id a) = None) WorkspaceConflictError) (\<lambda>_.
            rbind (state_policy s) (\<lambda>p.
            rbind (check (int (length (s_sources s)) + 1 \<le> po_sources p) WorkspacePolicyError) (\<lambda>_.
            rbind (ensure_external s a) (\<lambda>_.
            reject_sensitive (anchor_to_dict a)))))))) (\<lambda>_.
     append_event h dr ''source_attached'' payload event_id (Inr ()) evidence w) w) w) w"

definition update_source ::
  "host \<Rightarrow> draw \<Rightarrow> source_anchor \<Rightarrow> ctx_receipt list \<Rightarrow> pystr option \<Rightarrow> workspace \<Rightarrow>
     workspace \<times> ws_receipt res" where
  "update_source h dr a0 evidence event_id w =
     wbind (anchor_with_evidence (hs_cwd h) (hs_fs h) a0 evidence) (\<lambda>a.
     unless_known (retry_with ''source_updated'' event_id (jat ''anchor'') (anchor_to_dict a) w) (\<lambda>_.
     wbind (rbind (read_state w) (\<lambda>s.
            rbind (require_active s) (\<lambda>_.
            rbind (of_option WorkspaceValidationError (map_of (s_sources s) (an_id a))) (\<lambda>previous.
            rbind (ensure_external s a) (\<lambda>_.
            rbind (reject_sensitive (anchor_to_dict a)) (\<lambda>_.
            anchor_digest previous)))))) (\<lambda>d.
     append_event h dr ''source_updated''
       (JObj [(''anchor'', anchor_to_dict a), (''previous_anchor_digest'', JStr d)])
       event_id (Inr ()) evidence w) w) w) w"

section \<open>Sessions\<close>

definition session_payload :: "pystr \<Rightarrow> pystr \<Rightarrow> pystr list \<Rightarrow> json" where
  "session_payload sid tid ids =
     JObj [(''session_id'', JStr sid), (''task_id'', JStr tid), (''source_ids'', jstrs ids)]"

text \<open>The table of session objects: a session belongs to one workspace of the process.\<close>

definition claim_session :: "nat \<Rightarrow> workspace \<Rightarrow> workspace res" where
  "claim_session n w =
     (case map_of (wk_bindings w) n of
        Some key \<Rightarrow>
          if key = session_binding_key w then Inr w else Inl WorkspaceConflictError
      | None \<Rightarrow> Inr (w\<lparr>wk_bindings := (n, session_binding_key w) # wk_bindings w\<rparr>))"

definition release_session :: "nat \<Rightarrow> workspace \<Rightarrow> workspace" where
  "release_session n w = w\<lparr>wk_bindings := filter (\<lambda>p. fst p \<noteq> n) (wk_bindings w)\<rparr>"

definition keep_session :: "pystr \<Rightarrow> nat \<Rightarrow> workspace \<Rightarrow> workspace" where
  "keep_session sid n w = w\<lparr>wk_live := dict_put sid n (wk_live w)\<rparr>"

text \<open>The append of a session; the claim is given up when it fails.\<close>

definition append_session ::
  "host \<Rightarrow> draw \<Rightarrow> nat \<Rightarrow> pystr \<Rightarrow> pystr \<Rightarrow> pystr list \<Rightarrow> pystr option \<Rightarrow> workspace \<Rightarrow>
     workspace \<times> ws_receipt res" where
  "append_session h dr n sid tid ids event_id w =
     (case append_event h dr ''session_attached'' (session_payload sid tid ids) event_id (Inr ()) [] w of
        (w', Inl e) \<Rightarrow> (release_session n w', Inl e)
      | (w', Inr r) \<Rightarrow> (keep_session sid n w', Inr r))"

text \<open>The session \<open>start_session\<close> creates, plans and prepares; \<open>reply\<close> is what the instance answers.\<close>

definition prepared_session ::
  "host \<Rightarrow> pystr \<Rightarrow> context_source \<Rightarrow> pystr option \<Rightarrow> pystr option \<Rightarrow> bool \<Rightarrow> pystr \<Rightarrow> pystr \<Rightarrow>
     engine_reply \<Rightarrow> session res" where
  "prepared_session h task source session_id task_id fail_open fresh_session fresh_task reply =
     rbind (mk_session task session_id task_id fail_open fresh_session fresh_task) (\<lambda>s0.
     case plan_session (hs_cwd h) source ''aggressive'' ''reuse'' s0 of
       (s1, Inl e) \<Rightarrow> Inl e
     | (s1, Inr plan) \<Rightarrow>
         (case prepare (hs_cwd h) (Some source) ''aggressive'' ''reuse'' reply s1 of
            (s2, Inl e) \<Rightarrow> Inl e
          | (s2, Inr view) \<Rightarrow> Inr s2))"

definition effective_anchor :: "workspace \<Rightarrow> pystr \<Rightarrow> source_anchor \<Rightarrow> source_anchor option" where
  "effective_anchor w i a = (if an_binding a = None then map_of (wk_bound w) i else Some a)"

definition start_session ::
  "host \<Rightarrow> draw \<Rightarrow> pystr \<Rightarrow> pystr \<Rightarrow> context_source \<Rightarrow> pystr option \<Rightarrow> pystr option \<Rightarrow> bool \<Rightarrow>
     pystr \<Rightarrow> pystr \<Rightarrow> engine_reply \<Rightarrow> nat \<Rightarrow> pystr option \<Rightarrow> workspace \<Rightarrow>
     workspace \<times> (session \<times> ws_receipt) res" where
  "start_session h dr task i source session_id task_id fail_open fresh_session fresh_task reply n
     event_id w =
     wbind (rbind (require_source i w) (\<lambda>durable.
            rbind (of_option WorkspaceValidationError (effective_anchor w i durable)) (\<lambda>a.
            rbind (validate_anchor_binding (hs_cwd h) (hs_fs h) a source) (\<lambda>_.
            rbind (pfree_text MAX_HANDOFF_TASK (JStr task)) (\<lambda>_.
            rbind (pin_source (hs_cwd h) (hs_fs h) source) (\<lambda>pin.
            rbind (prepared_session h task source session_id task_id fail_open fresh_session fresh_task
              reply) (\<lambda>s.
            rbind (revalidate_pin (hs_cwd h) (hs_fs_after h) source pin) (\<lambda>_.
            rbind (claim_session n w) (\<lambda>w1. Inr (s, w1)))))))))) (\<lambda>(s, w1).
       (case append_session h dr n (ss_session_id s) (ss_task_id s) [i] event_id w1 of
          (w2, Inl e) \<Rightarrow> (w2, Inl e)
        | (w2, Inr r) \<Rightarrow> (w2, Inr (s, r)))) w"

definition same_source :: "pystr \<Rightarrow> context_source \<Rightarrow> source_anchor \<Rightarrow> bool res" where
  "same_source cwd source a =
     (case an_binding a of None \<Rightarrow> Inr False
      | Some b \<Rightarrow> rbind (source_to_dict cwd source) (\<lambda>d. Inr (py_eq b d)))"

text \<open>The one attached source a session was planned on, as the state has it and as it is bound here.\<close>

definition matching_sources ::
  "host \<Rightarrow> workspace \<Rightarrow> ws_state \<Rightarrow> context_source \<Rightarrow> pystr list \<Rightarrow>
     (pystr \<times> source_anchor \<times> source_anchor) list res" where
  "matching_sources h w s source ids =
     rbind (mapr (\<lambda>i. rbind (of_option WorkspaceValidationError (map_of (s_sources s) i)) (\<lambda>durable.
       case effective_anchor w i durable of
         None \<Rightarrow> Inr []
       | Some a \<Rightarrow> rbind (same_source (hs_cwd h) source a) (\<lambda>same.
           Inr (if same then [(i, durable, a)] else [])))) ids) (\<lambda>xs. Inr (concat xs))"

definition checked_session_anchor ::
  "host \<Rightarrow> context_source \<Rightarrow> source_anchor \<Rightarrow> source_anchor \<Rightarrow> source_anchor res" where
  "checked_session_anchor h source durable a =
     (if an_binding durable \<noteq> None then Inr a
      else rbind (same_canonical (anchor_to_dict (a\<lparr>an_binding := None\<rparr>)) (anchor_to_dict durable)) (\<lambda>same.
           rbind (check same WorkspaceConflictError) (\<lambda>_.
           rbind (bind_portable_anchor (hs_cwd h) (hs_fs h) (hs_fs_after h) durable source) (\<lambda>current.
           rbind (same_canonical (anchor_to_dict current) (anchor_to_dict a)) (\<lambda>same'.
           rbind (check same' WorkspaceConflictError) (\<lambda>_. Inr current))))))"

definition find_session :: "pystr \<Rightarrow> ws_state \<Rightarrow> session_record option" where
  "find_session sid s = find (\<lambda>r. sn_session r = sid) (s_sessions s)"

definition session_receipt :: "pystr \<Rightarrow> ws_state \<Rightarrow> ws_receipt option" where
  "session_receipt sid s =
     find (\<lambda>r. wr_kind r = ''session_attached'' \<and> wr_session r = Some sid) (map snd (s_receipts s))"

definition attach_session ::
  "host \<Rightarrow> draw \<Rightarrow> nat \<Rightarrow> session \<Rightarrow> pystr list \<Rightarrow> pystr option \<Rightarrow> workspace \<Rightarrow>
     workspace \<times> ws_receipt res" where
  "attach_session h dr n session ids0 event_id w =
     wbind (rbind (wids MAX_SOURCE_IDS (jstrs ids0)) (\<lambda>ids.
            rbind (check (ids \<noteq> []) WorkspaceValidationError) (\<lambda>_.
            rbind (wtext 512 (JStr (ss_session_id session))) (\<lambda>sid.
            rbind (wtext 512 (JStr (ss_task_id session))) (\<lambda>tid.
            rbind (of_option WorkspaceValidationError (ss_plan session)) (\<lambda>plan.
            rbind (check (pl_session_id plan = sid \<and> pl_task_id plan = tid) WorkspaceValidationError) (\<lambda>_.
            rbind (read_state w) (\<lambda>s.
            rbind (require_active s) (\<lambda>_.
            rbind (check (list_all (\<lambda>i. i \<in> set (map fst (s_sources s))) ids) WorkspaceValidationError) (\<lambda>_.
            rbind (claim_session n w) (\<lambda>w1.
            rbind (matching_sources h w s (pl_source plan) ids) (\<lambda>found.
            rbind (case found of [x] \<Rightarrow> Inr x | _ \<Rightarrow> Inl WorkspaceConflictError) (\<lambda>(i, durable, a0).
            rbind (checked_session_anchor h (pl_source plan) durable a0) (\<lambda>a.
            rbind (validate_anchor_binding (hs_cwd h) (hs_fs h) a (pl_source plan)) (\<lambda>_.
            rbind (pin_source (hs_cwd h) (hs_fs h) (pl_source plan)) (\<lambda>pin.
            rbind (revalidate_pin (hs_cwd h) (hs_fs_after h) (pl_source plan) pin) (\<lambda>_.
            rbind (retry ''session_attached'' event_id (session_payload sid tid ids) w) (\<lambda>known.
            Inr (ids, sid, tid, s, w1, known))))))))))))))))))) (\<lambda>(ids, sid, tid, s, w1, known).
       case (known, find_session sid s) of
         (Some r, _) \<Rightarrow> (keep_session sid n w1, Inr r)
       | (None, Some old) \<Rightarrow>
           if event_id = None \<and> sn_task old = tid \<and> sn_sources old = ids then
             wbind (of_option PyOther (session_receipt sid s))
               (\<lambda>r. (keep_session sid n w1, Inr r)) w
           else (w, Inl WorkspaceConflictError)
       | (None, None) \<Rightarrow> append_session h dr n sid tid ids event_id w1) w"

end
