(* ===== verification/Ws_Context.thy ===== *)
theory Ws_Context
  imports Ws_Methods
begin

text \<open>
  The methods of \<open>ContextWorkspace\<close> (\<open>src/leanctx_sdk/workspace.py\<close>) for context entries,
  checkpoints, packages, the policy and the end of a workspace, and the bounded view
  \<open>project_context\<close>.
\<close>

section \<open>Committing context\<close>

text \<open>What a completed session adds to the entries it commits.\<close>

record session_proof =
  pf_session :: pystr
  pf_sources :: "pystr list"
  pf_receipts :: "pystr list"
  pf_recovery :: "pystr list"
  pf_provenance :: json

definition receipt_proof :: "pystr \<Rightarrow> ctx_receipt \<Rightarrow> context_source \<Rightarrow> receipt_link \<Rightarrow> json res" where
  "receipt_proof cwd r source link =
     rbind (source_to_dict cwd source) (\<lambda>sd.
     Inr (JObj [(''schema_version'', JInt 1), (''session_id'', JStr (rp_session_id r)),
       (''task_id'', JStr (rp_task_id r)), (''plan_id'', opt_str (rp_plan_id r)),
       (''integrity_status'', JStr (rp_integrity r)),
       (''status'', opt_str (receipt_view_field (\<lambda>v. Some (vw_status v)) r)), (''source'', sd),
       (''receipt_link'', receipt_link_to_dict link),
       (''recovery_ref'', opt_str (receipt_view_field vw_recovery_ref r)),
       (''output_digest'', opt_str (receipt_view_field vw_output_digest r))]))"

text \<open>The attached sources whose binding, as it is recorded or bound here, is the receipt's source.\<close>

definition receipt_sources ::
  "host \<Rightarrow> workspace \<Rightarrow> ws_state \<Rightarrow> context_source \<Rightarrow> pystr list \<Rightarrow> (pystr \<times> source_anchor) list res" where
  "receipt_sources h w s source ids =
     rbind (mapr (\<lambda>i. rbind (of_option PyKeyError (map_of (s_sources s) i)) (\<lambda>durable.
       case effective_anchor w i durable of
         None \<Rightarrow> Inr []
       | Some a \<Rightarrow> rbind (same_source (hs_cwd h) source a) (\<lambda>same. Inr (if same then [(i, a)] else []))))
       ids) (\<lambda>xs. Inr (concat xs))"

definition prove_session :: "host \<Rightarrow> nat \<Rightarrow> session \<Rightarrow> ws_state \<Rightarrow> workspace \<Rightarrow> session_proof res" where
  "prove_session h n session s w =
     rbind (wtext 512 (JStr (ss_session_id session))) (\<lambda>sid.
     rbind (wtext 512 (JStr (ss_task_id session))) (\<lambda>tid.
     rbind (check (ss_state session = Completed) WorkspaceValidationError) (\<lambda>_.
     rbind (of_option WorkspaceValidationError (ss_plan session)) (\<lambda>plan.
     rbind (check (map_of (wk_live w) sid = Some n \<and>
         map_of (wk_bindings w) n = Some (session_binding_key w)) WorkspaceConflictError) (\<lambda>_.
     rbind (case filter (\<lambda>r. sn_session r = sid) (s_sessions s) of
              [r] \<Rightarrow> if sn_task r = tid then Inr r else Inl WorkspaceConflictError
            | _ \<Rightarrow> Inl WorkspaceConflictError) (\<lambda>durable.
     rbind (check (pl_session_id plan = sid) WorkspaceValidationError) (\<lambda>_.
     rbind (of_option WorkspaceValidationError (ss_receipt session)) (\<lambda>r.
     rbind (wtext 512 (JStr (rp_session_id r))) (\<lambda>rsid.
     rbind (wtext 512 (JStr (rp_task_id r))) (\<lambda>rtid.
     rbind (check (receipt_verify r \<and> rsid = sid \<and> rtid = tid \<and> rp_plan_id r = Some (pl_id plan))
       WorkspaceConflictError) (\<lambda>_.
     rbind (of_option WorkspaceConflictError (receipt_view_field (\<lambda>v. Some (vw_source v)) r)) (\<lambda>source.
     rbind (of_option WorkspaceConflictError (receipt_view_field vw_receipt_link r)) (\<lambda>link.
     rbind (receipt_sources h w s source (sn_sources durable)) (\<lambda>found.
     rbind (case found of [x] \<Rightarrow> Inr x | _ \<Rightarrow> Inl WorkspaceConflictError) (\<lambda>(i, a).
     rbind (validate_anchor_binding (hs_cwd h) (hs_fs h) a source) (\<lambda>_.
     rbind (check (p4_receipt_ref (rl_ref link)) WorkspaceValidationError) (\<lambda>_.
     rbind (wrefs MAX_ENTRY_REFS (jstrs [rl_ref link])) (\<lambda>receipts.
     rbind (case receipt_view_field vw_recovery_ref r of
              None \<Rightarrow> Inr [] | Some x \<Rightarrow> wrefs MAX_ENTRY_REFS (jstrs [x])) (\<lambda>recovery.
     rbind (receipt_proof (hs_cwd h) r source link) (\<lambda>proof.
     rbind (ws_digest proof) (\<lambda>d.
     Inr \<lparr>pf_session = sid, pf_sources = [i], pf_receipts = receipts, pf_recovery = recovery,
       pf_provenance = JObj [(''session_id'', JStr sid), (''task_id'', JStr tid),
         (''source_ids'', jstrs [i]), (''receipt_refs'', jstrs receipts),
         (''recovery_refs'', jstrs recovery), (''receipt_proof'', proof),
         (''receipt_proof_digest'', JStr d)]\<rparr>)))))))))))))))))))))"

text \<open>One entry of a commit: its lineage comes from the session, never from the caller.\<close>

definition normal_entry ::
  "ws_policy \<Rightarrow> ws_state \<Rightarrow> session_proof option \<Rightarrow> bool \<Rightarrow> ctx_entry list \<Rightarrow> json \<Rightarrow> ctx_entry res" where
  "normal_entry p s proof retried normalized raw =
     rbind (entry_from_input raw) (\<lambda>e.
     rbind (check (en_id e \<notin> set (map en_id normalized) \<and>
         (retried \<or> en_id e \<notin> set (map en_id (s_entries s)))) WorkspaceConflictError) (\<lambda>_.
     rbind (check (case proof of None \<Rightarrow> True
         | Some f \<Rightarrow> en_session e = None \<or> en_session e = Some (pf_session f)) WorkspaceConflictError) (\<lambda>_.
     rbind (check (en_receipts e = [] \<and> en_recovery e = []) WorkspaceValidationError) (\<lambda>_.
     rbind (case proof of
              None \<Rightarrow> rbind (check (en_session e = None) WorkspaceValidationError) (\<lambda>_. Inr (en_sources e))
            | Some f \<Rightarrow>
                let ids = (if en_sources e = [] then pf_sources f else en_sources e) in
                rbind (check (ids = pf_sources f) WorkspaceConflictError) (\<lambda>_. Inr ids)) (\<lambda>ids.
     rbind (check (list_all (\<lambda>i. i \<in> set (map fst (s_sources s))) ids) WorkspaceValidationError) (\<lambda>_.
     rbind (mk_entry (JStr (en_id e)) (JStr (en_category e)) (JStr (en_value e)) (jstrs ids)
         (opt_str (map_option pf_session proof))
         (jstrs (case proof of None \<Rightarrow> [] | Some f \<Rightarrow> pf_receipts f))
         (jstrs (case proof of None \<Rightarrow> [] | Some f \<Rightarrow> pf_recovery f))) (\<lambda>e'.
     rbind (reject_sensitive (entry_to_dict e')) (\<lambda>_.
     rbind (check (en_category e' \<in> set (po_categories p)) WorkspacePolicyError) (\<lambda>_.
     rbind (check (int (length (en_value e')) \<le> po_entry_bytes p) WorkspacePolicyError) (\<lambda>_.
     Inr e'))))))))))"

fun normal_entries ::
  "ws_policy \<Rightarrow> ws_state \<Rightarrow> session_proof option \<Rightarrow> bool \<Rightarrow> ctx_entry list \<Rightarrow> json list \<Rightarrow>
     ctx_entry list res" where
  "normal_entries p s proof retried done_so_far [] = Inr done_so_far"
| "normal_entries p s proof retried done_so_far (raw # raws) =
     rbind (normal_entry p s proof retried done_so_far raw) (\<lambda>e.
     normal_entries p s proof retried (done_so_far @ [e]) raws)"

definition commit_payload :: "session_proof option \<Rightarrow> ctx_entry list \<Rightarrow> json" where
  "commit_payload proof entries =
     JObj [(''entries'', JArr (map entry_to_dict entries)),
       (''provenance'', case proof of None \<Rightarrow> JNull | Some f \<Rightarrow> pf_provenance f)]"

definition commit_checks :: "ws_policy \<Rightarrow> ws_state \<Rightarrow> ctx_entry list \<Rightarrow> unit res" where
  "commit_checks p s entries =
     rbind (check (list_all (\<lambda>e. en_id e \<notin> set (map en_id (s_entries s))) entries)
       WorkspaceConflictError) (\<lambda>_.
     rbind (check (int (length (s_entries s @ entries)) \<le> po_context_entries p) WorkspacePolicyError) (\<lambda>_.
     rbind (context_bytes (s_entries s @ entries)) (\<lambda>n.
     check (int n \<le> po_context_bytes p) WorkspacePolicyError)))"

definition commit_context ::
  "host \<Rightarrow> draw \<Rightarrow> json list \<Rightarrow> (nat \<times> session) option \<Rightarrow> pystr option \<Rightarrow> workspace \<Rightarrow>
     workspace \<times> ws_receipt res" where
  "commit_context h dr entries session event_id w =
     wbind (rbind (check (entries \<noteq> []) WorkspaceValidationError) (\<lambda>_.
            rbind (read_state w) (\<lambda>s.
            rbind (require_active s) (\<lambda>_.
            rbind (case session of None \<Rightarrow> Inr None
                   | Some (n, x) \<Rightarrow> rbind (prove_session h n x s w) (\<lambda>f. Inr (Some f))) (\<lambda>proof.
            rbind (state_policy s) (\<lambda>p.
            rbind (normal_entries p s proof (event_id \<noteq> None) [] entries) (\<lambda>normalized.
            Inr (p, s, proof, normalized)))))))) (\<lambda>(p, s, proof, normalized).
     let payload = commit_payload proof normalized in
     unless_known (retry ''context_committed'' event_id payload w) (\<lambda>_.
     wbind (commit_checks p s normalized) (\<lambda>_.
     append_event h dr ''context_committed'' payload event_id (Inr ()) [] w) w) w) w"

section \<open>Checkpoints\<close>

definition checkpoint_unsigned :: "workspace \<Rightarrow> ws_state \<Rightarrow> pystr \<Rightarrow> (pystr \<times> json) list res" where
  "checkpoint_unsigned w s i =
     rbind (logical_state s) (\<lambda>logical.
     rbind (logical_digest s) (\<lambda>sd.
     rbind (state_policy s) (\<lambda>p.
     rbind (domain_digest ''leanctx.workspace.policy.v1'' (policy_to_dict p)) (\<lambda>pd.
     rbind (domain_digest ''leanctx.project-context.state.v1''
       (JArr (map entry_to_dict (s_entries s)))) (\<lambda>cd.
     rbind (of_option WorkspaceCorruptError (s_identity s)) (\<lambda>ident.
     Inr [(''schema_version'', JStr ''leanctx.context-checkpoint/v2''), (''checkpoint_id'', JStr i),
       (''workspace_id'', JStr (workspace_id w)), (''state_digest'', JStr sd),
       (''state_schema_version'', JStr ''leanctx.workspace.state/v1''),
       (''workspace_state_ref'', JStr (''event:'' @ s_last s)), (''logical_state'', logical),
       (''source_anchors'', jat ''sources'' logical),
       (''recovery_refs'', jstrs (entry_recovery_refs (s_entries s))),
       (''package_pins'', jat ''package_pins'' logical),
       (''package_lock_digest'', jat ''package_lock_digest'' logical), (''policy_digest'', JStr pd),
       (''project_context_digest'', JStr cd),
       (''lineage'', JObj [(''kind'', JStr ''workspace''), (''workspace_id'', JStr (workspace_id w)),
          (''state_id'', JStr (wi_state_id ident))]), (''engine_identity'', engine_identity),
       (''sdk_contract'', JStr ''leanctx-product-sdk-research/p6'')]))))))"

definition make_checkpoint :: "workspace \<Rightarrow> ws_state \<Rightarrow> pystr \<Rightarrow> checkpoint res" where
  "make_checkpoint w s i =
     rbind (checkpoint_unsigned w s i) (\<lambda>u.
     rbind (envelope_digest (JObj u)) (\<lambda>d.
     checkpoint_from_dict (JObj (u @ [(''envelope_digest'', JStr d)]))))"

definition save_checkpoint ::
  "host \<Rightarrow> draw \<Rightarrow> pystr option \<Rightarrow> pystr \<Rightarrow> pystr option \<Rightarrow> workspace \<Rightarrow> workspace \<times> checkpoint res" where
  "save_checkpoint h dr checkpoint_id fresh event_id w =
     wbind (rbind (read_state w) (\<lambda>s.
            rbind (require_active s) (\<lambda>_.
            rbind (case checkpoint_id of None \<Rightarrow> Inr fresh | Some c \<Rightarrow> wuuid (JStr c)) (\<lambda>i.
            make_checkpoint w s i)))) (\<lambda>c.
       (case append_event h dr ''checkpoint_created'' (JObj [(''checkpoint'', checkpoint_to_dict c)])
               event_id (Inr ()) [] w of
          (w', Inl e) \<Rightarrow> (w', Inl e)
        | (w', Inr r) \<Rightarrow> (w', Inr c))) w"

text \<open>A checkpoint a caller presents must be the one that is stored.\<close>

definition require_stored :: "ws_state \<Rightarrow> checkpoint \<Rightarrow> unit res" where
  "require_stored s c =
     rbind (of_option WorkspaceConflictError (map_of (s_checkpoints s) (ck_id c))) (\<lambda>stored.
     rbind (same_canonical (checkpoint_to_dict stored) (checkpoint_to_dict c)) (\<lambda>same.
     check same WorkspaceConflictError))"

definition restore ::
  "host \<Rightarrow> draw \<Rightarrow> checkpoint \<Rightarrow> pystr option \<Rightarrow> workspace \<Rightarrow> workspace \<times> ws_receipt res" where
  "restore h dr c event_id w =
     wbind (rbind (check (ck_workspace c = workspace_id w) WorkspaceConflictError) (\<lambda>_.
            rbind (read_state w) (\<lambda>s.
            rbind (require_stored s c) (\<lambda>_.
            verify_checkpoint_sources (hs_cwd h) (hs_fs h) (hs_fs_after h) c)))) (\<lambda>_.
       (case append_event h dr ''workspace_restored''
               (JObj [(''checkpoint_id'', JStr (ck_id c)),
                  (''checkpoint_envelope_digest'', JStr (ck_envelope c))]) event_id
               (verify_checkpoint_sources (hs_cwd h) (hs_fs_after h) (hs_fs_after h) c) [] w of
          (w', Inl e) \<Rightarrow> (w', Inl e)
        | (w', Inr r) \<Rightarrow>
            wbind (rbind (read_state w') logical_digest) (\<lambda>d.
            wbind (check (d = ck_state_digest c) WorkspaceCorruptError) (\<lambda>_. (w', Inr r)) w') w')) w"

section \<open>Packages\<close>

definition pin_package ::
  "host \<Rightarrow> draw \<Rightarrow> package_pin \<Rightarrow> pystr option \<Rightarrow> workspace \<Rightarrow> workspace \<times> ws_receipt res" where
  "pin_package h dr pin event_id w =
     wbind (read_state w) (\<lambda>s.
     append_event h dr ''package_pinned''
       (JObj [(''pin'', pin_to_dict pin), (''previous_lock_digest'', opt_str (s_lock s))])
       event_id (Inr ()) [] w) w"

text \<open>What the code reads of a \<open>CheckpointPackageInspection\<close>.\<close>

record package_inspection =
  pi_name :: json
  pi_version :: json
  pi_digest :: json
  pi_content :: json
  pi_signature :: json
  pi_signer :: json
  pi_checkpoint :: checkpoint

definition inspected_package :: "package_inspection \<Rightarrow> json res" where
  "inspected_package i =
     rbind (wtext 128 (pi_name i)) (\<lambda>name.
     rbind (wtext 64 (pi_version i)) (\<lambda>version.
     rbind (wdigest (pi_digest i)) (\<lambda>digest.
     rbind (wdigest (pi_content i)) (\<lambda>content.
     Inr (JObj [(''name'', JStr name), (''version'', JStr version), (''package_digest'', JStr digest),
       (''content_hash'', JStr content), (''signature_state'', pi_signature i),
       (''signer_public_key'', pi_signer i)])))))"

definition record_sealed_package ::
  "host \<Rightarrow> draw \<Rightarrow> package_inspection \<Rightarrow> workspace \<Rightarrow> workspace \<times> ws_receipt res" where
  "record_sealed_package h dr i w =
     wbind (rbind (check (ck_workspace (pi_checkpoint i) = workspace_id w) WorkspaceConflictError) (\<lambda>_.
            inspected_package i)) (\<lambda>package.
     append_event h dr ''workspace_sealed''
       (JObj [(''checkpoint_id'', JStr (ck_id (pi_checkpoint i))),
          (''checkpoint_envelope_digest'', JStr (ck_envelope (pi_checkpoint i))), (''package'', package)])
       None (Inr ()) [] w) w"

definition seed_from_package ::
  "host \<Rightarrow> draw \<Rightarrow> package_inspection \<Rightarrow> bool \<Rightarrow> bool \<Rightarrow> workspace \<Rightarrow> workspace \<times> ws_receipt res" where
  "seed_from_package h dr i trusted_signer allow_unsigned w =
     wbind (rbind (check (ck_workspace (pi_checkpoint i) = workspace_id w) WorkspaceConflictError) (\<lambda>_.
            inspected_package i)) (\<lambda>package.
       (case append_event h dr ''workspace_seeded''
               (JObj [(''checkpoint'', checkpoint_to_dict (pi_checkpoint i)), (''package'', package),
                  (''admission'', JObj [(''trusted_signer'', JBool trusted_signer),
                     (''allow_unsigned'', JBool allow_unsigned)])]) None (Inr ()) [] w of
          (w', Inl e) \<Rightarrow> (w', Inl e)
        | (w', Inr r) \<Rightarrow>
            wbind (rbind (read_state w') logical_digest) (\<lambda>d.
            wbind (check (d = ck_state_digest (pi_checkpoint i)) WorkspaceCorruptError)
              (\<lambda>_. (w', Inr r)) w') w')) w"

section \<open>The bounded view\<close>

text \<open>The loop of \<open>project_context\<close>: \<open>n\<close> is the start of the last suffix that was looked at.\<close>

fun pick_suffix :: "int \<Rightarrow> int \<Rightarrow> ctx_entry list \<Rightarrow> nat \<Rightarrow> ctx_entry list \<Rightarrow> ctx_entry list res" where
  "pick_suffix entry_limit byte_limit eligible 0 selected = Inr selected"
| "pick_suffix entry_limit byte_limit eligible (Suc n) selected =
     (let candidate = drop n eligible in
      if entry_limit < int (length candidate)
      then pick_suffix entry_limit byte_limit eligible n selected
      else rbind (context_bytes candidate) (\<lambda>b.
        if int b \<le> byte_limit then pick_suffix entry_limit byte_limit eligible n candidate
        else if selected \<noteq> [] then Inr selected
        else pick_suffix entry_limit byte_limit eligible n selected))"

definition bounded_limit :: "int option \<Rightarrow> int \<Rightarrow> int res" where
  "bounded_limit limit maximum =
     (case limit of
        None \<Rightarrow> Inr maximum
      | Some l \<Rightarrow>
          rbind (wpositive (JInt l)) (\<lambda>_.
          rbind (check (l \<le> maximum) WorkspacePolicyError) (\<lambda>_. Inr l)))"

definition view_context ::
  "pystr list option \<Rightarrow> int option \<Rightarrow> int option \<Rightarrow> ws_state \<Rightarrow> project_context res" where
  "view_context selected limit max_bytes s =
     rbind (state_policy s) (\<lambda>p.
     rbind (of_option WorkspaceCorruptError (s_identity s)) (\<lambda>ident.
     rbind (case selected of
              None \<Rightarrow> Inr categories
            | Some cs \<Rightarrow> rbind (check (set cs \<subseteq> set categories) WorkspaceValidationError) (\<lambda>_. Inr cs)) (\<lambda>cs.
     rbind (bounded_limit limit (po_context_entries p)) (\<lambda>entry_limit.
     rbind (bounded_limit max_bytes (po_context_bytes p)) (\<lambda>byte_limit.
     let eligible = filter (\<lambda>e. en_category e \<in> set cs) (s_entries s) in
     rbind (pick_suffix entry_limit byte_limit eligible (length eligible) []) (\<lambda>picked.
     rbind (logical_digest s) (\<lambda>d.
     mk_project_context (wi_id ident) d picked (int (length (s_entries s)) - int (length eligible))
       (int (length eligible) - int (length picked)))))))))"

definition ws_project_context ::
  "pystr list option \<Rightarrow> int option \<Rightarrow> int option \<Rightarrow> workspace \<Rightarrow> project_context res" where
  "ws_project_context selected limit max_bytes w =
     rbind (read_state w) (view_context selected limit max_bytes)"

section \<open>Policy and end\<close>

definition tighten_policy ::
  "host \<Rightarrow> draw \<Rightarrow> ws_policy \<Rightarrow> pystr option \<Rightarrow> workspace \<Rightarrow> workspace \<times> ws_receipt res" where
  "tighten_policy h dr q event_id w =
     unless_known (retry_with ''policy_tightened'' event_id (jat ''policy'') (policy_to_dict q) w) (\<lambda>_.
     wbind (rbind (read_state w) (\<lambda>s.
            rbind (require_active s) (\<lambda>_.
            rbind (state_policy s) (\<lambda>p.
            rbind (check (is_tightening q p) WorkspacePolicyError) (\<lambda>_.
            rbind (check (list_all (\<lambda>e. en_category e \<in> set (po_categories q)) (s_entries s))
              WorkspacePolicyError) (\<lambda>_.
            rbind (check (po_external q \<or> list_all (\<lambda>a. an_kind (snd a) = ''filesystem'') (s_sources s))
              WorkspacePolicyError) (\<lambda>_.
            rbind (ensure_bounds q True (s\<lparr>s_policy := Some q\<rparr>)) (\<lambda>_.
            ws_digest (policy_to_dict p))))))))) (\<lambda>d.
     append_event h dr ''policy_tightened''
       (JObj [(''policy'', policy_to_dict q), (''previous_policy_digest'', JStr d)])
       event_id (Inr ()) [] w) w) w"

definition ws_complete :: "host \<Rightarrow> draw \<Rightarrow> pystr option \<Rightarrow> workspace \<Rightarrow> workspace \<times> ws_receipt res" where
  "ws_complete h dr event_id w =
     append_event h dr ''workspace_completed'' (JObj []) event_id (Inr ()) [] w"

definition ws_abort ::
  "host \<Rightarrow> draw \<Rightarrow> pystr \<Rightarrow> pystr option \<Rightarrow> workspace \<Rightarrow> workspace \<times> ws_receipt res" where
  "ws_abort h dr reason event_id w =
     wbind (rbind (wtext 128 (JStr reason)) (\<lambda>_. reject_sensitive (JStr reason))) (\<lambda>_.
     append_event h dr ''workspace_aborted'' (JObj [(''reason_code'', JStr reason)]) event_id
       (Inr ()) [] w) w"

end
