(* ===== verification/Ws_Exchange.thy ===== *)
theory Ws_Exchange
  imports Ws_Context
begin

text \<open>
  The methods of \<open>ContextWorkspace\<close> (\<open>src/leanctx_sdk/workspace.py\<close>) that make a workspace or
  involve two: \<open>create\<close>, \<open>fork\<close>, \<open>create_handoff\<close>, \<open>admit_handoff\<close> and \<open>apply_handoff\<close>. A new
  workspace is written into a temporary directory, which is renamed when it is complete; its journal
  is the model's value for it.
\<close>

section \<open>New workspaces\<close>

definition empty_dir :: events_dir where
  "empty_dir = \<lparr>ed_names = [], ed_inodes = []\<rparr>"

definition write_record :: "draw \<Rightarrow> nat \<Rightarrow> json \<Rightarrow> events_dir \<Rightarrow> events_dir res" where
  "write_record dr sequence event d =
     rbind (wdigest (jat ''event_digest'' event)) (\<lambda>digest.
     rbind (ws_canonical event) (\<lambda>bytes.
     case write_event (dr_io dr) (event_name sequence digest) (bytes @ [CHR 0x0A]) (dr_names dr) (dr_inode dr) d of
       (d', x) \<Rightarrow> rbind x (\<lambda>_. Inr d')))"

definition created_record :: "ws_identity \<Rightarrow> ws_policy \<Rightarrow> pystr \<Rightarrow> json res" where
  "created_record ident p i =
     event_record (wi_id ident) 1 i ''workspace_created''
       (JObj [(''identity'', identity_to_dict ident), (''policy'', policy_to_dict p)]) ZERO_DIGEST"

definition new_identity :: "host \<Rightarrow> pystr \<Rightarrow> pystr \<Rightarrow> ws_identity res" where
  "new_identity h i name =
     rbind (wtext 128 (JStr name)) (\<lambda>_.
     rbind (reject_sensitive (JStr name)) (\<lambda>_.
     mk_identity (JStr i) (JStr name) (JStr (hs_now h))))"

definition chosen_id :: "pystr option \<Rightarrow> pystr \<Rightarrow> pystr res" where
  "chosen_id given fresh = (case given of None \<Rightarrow> Inr fresh | Some i \<Rightarrow> wuuid (JStr i))"

definition require_free :: "host \<Rightarrow> pystr list \<Rightarrow> pystr \<Rightarrow> unit res" where
  "require_free h known i =
     check (i \<notin> set known \<and> i \<notin> set (map fst (hs_workspaces h))) WorkspaceAlreadyExistsError"

text \<open>
  \<open>create\<close>. The failure of the first event is not handled there, so the internal exception leaves
  the method.
\<close>

definition create_workspace ::
  "host \<Rightarrow> draw \<Rightarrow> pystr \<Rightarrow> pystr \<Rightarrow> ws_policy option \<Rightarrow> pystr option \<Rightarrow> pystr \<Rightarrow> workspace res" where
  "create_workspace h dr root name policy given fresh =
     rbind (chosen_id given fresh) (\<lambda>i.
     rbind (new_identity h i name) (\<lambda>ident.
     rbind (require_free h [] i) (\<lambda>_.
     rbind (created_record ident (case policy of None \<Rightarrow> default_policy | Some p \<Rightarrow> p) (dr_uuid dr)) (\<lambda>event.
     rbind (on_err (\<lambda>_. PyOther) (apply_event False event empty_state)) (\<lambda>s.
     rbind (write_record dr 1 event empty_dir) (\<lambda>d.
     rbind (check (hs_locked h) WorkspaceLockError) (\<lambda>_.
     mk_workspace root d s)))))))"

section \<open>Forks\<close>

record fork_request =
  fr_name :: pystr
  fr_policy :: "ws_policy option"
  fr_workspace :: "pystr option"
  fr_fork :: "pystr option"
  fr_event :: "pystr option"
  fr_execution :: "pystr option"
  fr_bindings :: "(pystr \<times> context_source) list option"

text \<open>What \<open>fork\<close> draws for the child: its identifier, the events' and the fork's, two temporary files.\<close>

record fork_draw =
  fd_workspace :: pystr
  fd_event :: pystr
  fd_fork :: pystr
  fd_created :: draw
  fd_forked :: draw

definition bind_sources ::
  "host \<Rightarrow> (pystr \<times> context_source) list option \<Rightarrow> (pystr \<times> source_anchor) list \<Rightarrow>
     (pystr \<times> source_anchor) list res" where
  "bind_sources h bindings sources =
     (case bindings of
        None \<Rightarrow> Inr []
      | Some bs \<Rightarrow>
          rbind (check (set (map fst bs) \<subseteq> set (map fst sources)) WorkspaceValidationError) (\<lambda>_.
          mapr (\<lambda>q. rbind (of_option PyKeyError (map_of sources (fst q))) (\<lambda>a.
            rbind (bind_portable_anchor (hs_cwd h) (hs_fs h) (hs_fs_after h) a (snd q)) (\<lambda>b.
            Inr (fst q, b)))) (sort_key fst bs)))"

definition projection_failure :: "fail_kind \<times> ws_state \<Rightarrow> exn" where
  "projection_failure f = raise_projection (of_fail (fst f), None)"

text \<open>The child of a checkpoint.\<close>

definition fork_child ::
  "host \<Rightarrow> fork_draw \<Rightarrow> fork_request \<Rightarrow> checkpoint \<Rightarrow> workspace \<Rightarrow> workspace res" where
  "fork_child h fd r c w =
     rbind (chosen_id (fr_workspace r) (fd_workspace fd)) (\<lambda>i.
     rbind (chosen_id (fr_event r) (fd_event fd)) (\<lambda>ev.
     rbind (new_identity h i (fr_name r)) (\<lambda>ident.
     rbind (create_fork c i (fr_name r) ev (fr_policy r)
       (case fr_fork r of None \<Rightarrow> fd_fork fd | Some f \<Rightarrow> f) (fr_execution r)) (\<lambda>fork.
     rbind (require_free h [workspace_id w] i) (\<lambda>_.
     rbind (created_record ident (in_effective (fk_policy fork)) (dr_uuid (fd_created fd))) (\<lambda>created.
     rbind (wdigest (jat ''event_digest'' created)) (\<lambda>digest.
     rbind (event_record i 2 ev ''workspace_forked''
       (JObj [(''fork'', fork_to_dict fork), (''inherited_state'', content_state (ck_logical c))]) digest)
       (\<lambda>forked.
     rbind (on_err projection_failure (apply_event False created empty_state)) (\<lambda>s1.
     rbind (on_err projection_failure (apply_event False forked s1)) (\<lambda>s2.
     rbind (bind_sources h (fr_bindings r) (s_sources s2)) (\<lambda>bound.
     rbind (write_record (fd_created fd) 1 created empty_dir) (\<lambda>d1.
     rbind (write_record (fd_forked fd) 2 forked d1) (\<lambda>d2.
     rbind (check (hs_locked h) WorkspaceLockError) (\<lambda>_.
     rbind (mk_workspace (wk_root w) d2 s2) (\<lambda>child.
     Inr (child\<lparr>wk_bound := bound\<rparr>))))))))))))))))"

definition fork_workspace ::
  "host \<Rightarrow> draw \<Rightarrow> pystr \<Rightarrow> fork_draw \<Rightarrow> fork_request \<Rightarrow> checkpoint option \<Rightarrow> workspace \<Rightarrow>
     workspace \<times> workspace res" where
  "fork_workspace h dr fresh fd r from_checkpoint w =
     wbind (rbind (read_state w) require_active) (\<lambda>_.
       (case (case from_checkpoint of None \<Rightarrow> save_checkpoint h dr None fresh None w | Some c \<Rightarrow> (w, Inr c)) of
          (w1, Inl e) \<Rightarrow> (w1, Inl e)
        | (w1, Inr c) \<Rightarrow>
            (w1, rbind (read_state w1) (\<lambda>s. rbind (require_stored s c) (\<lambda>_. fork_child h fd r c w1))))) w"

section \<open>Handoffs\<close>

definition state_lineage :: "ws_state \<Rightarrow> fork_lineage option res" where
  "state_lineage s =
     (case s_fork s of None \<Rightarrow> Inr None | Some l \<Rightarrow> rbind (lineage_from_dict l) (\<lambda>x. Inr (Some x)))"

definition ws_create_handoff ::
  "checkpoint \<Rightarrow> pystr \<Rightarrow> pystr \<Rightarrow> pystr list \<Rightarrow> pystr option \<Rightarrow> pystr option \<Rightarrow> pystr \<Rightarrow> workspace \<Rightarrow>
     handoff res" where
  "ws_create_handoff c target task entry_ids role given fresh w =
     rbind (read_state w) (\<lambda>s.
     rbind (require_stored s c) (\<lambda>_.
     rbind (state_lineage s) (\<lambda>lineage.
     create_handoff c target task entry_ids role (case given of None \<Rightarrow> fresh | Some i \<Rightarrow> i) lineage)))"

text \<open>The state of the workspace a handoff comes from, when it can be read.\<close>

definition source_state :: "host \<Rightarrow> pystr \<Rightarrow> workspace \<Rightarrow> ws_state option res" where
  "source_state h i w =
     (case (if i = workspace_id w then read_state w
            else rbind (open_workspace (wk_root w) i (map_of (hs_workspaces h) i)) read_state) of
        Inr s \<Rightarrow> Inr (Some s)
      | Inl e \<Rightarrow> if is_workspace_error e then Inr None else Inl e)"

definition source_checkpoint_ok :: "state_ref \<Rightarrow> ws_state option \<Rightarrow> bool" where
  "source_checkpoint_ok r s =
     (case s of
        None \<Rightarrow> False
      | Some x \<Rightarrow>
          (case map_of (s_checkpoints x) (sr_checkpoint r) of
             None \<Rightarrow> False
           | Some c \<Rightarrow> ck_workspace c = sr_workspace r \<and> ck_state_digest c = sr_digest r \<and>
               ck_envelope c = sr_envelope r))"

definition admission_lineage_ok ::
  "pystr \<Rightarrow> state_ref \<Rightarrow> ws_state option \<Rightarrow> fork_lineage option \<Rightarrow> fork_lineage option \<Rightarrow> bool" where
  "admission_lineage_ok receiver_id r s stored_lineage receiver \<longleftrightarrow>
     source_checkpoint_ok r s \<and> stored_lineage = sr_lineage r \<and>
     (sr_workspace r = receiver_id \<or>
      (case (sr_lineage r, receiver) of
         (None, Some l) \<Rightarrow> names_parent r l
       | (Some l, Some l') \<Rightarrow> sibling_forks l l'
       | _ \<Rightarrow> False))"

definition entry_evidence :: "state_ref \<Rightarrow> ctx_entry \<Rightarrow> evidence_ref res" where
  "entry_evidence r e =
     mk_evidence (JStr (sr_workspace r)) (JStr (sr_checkpoint r)) (JStr (sr_digest r))
       (map JStr (en_sources e)) (map JStr (en_receipts e)) (map JStr (en_recovery e))"

text \<open>An entry of the handoff that the receiver has with another content.\<close>

definition entry_conflict ::
  "state_ref \<Rightarrow> state_ref \<Rightarrow> (pystr \<times> ctx_entry) list \<Rightarrow> json \<Rightarrow> conflict_entry list res" where
  "entry_conflict source receiver existing raw =
     rbind (entry_from_dict raw) (\<lambda>e.
     case map_of existing (en_id e) of
       None \<Rightarrow> Inr []
     | Some current \<Rightarrow>
         rbind (same_canonical (entry_to_dict current) (entry_to_dict e)) (\<lambda>same.
         if same then Inr []
         else rbind (entry_evidence receiver current) (\<lambda>left.
              rbind (entry_evidence source e) (\<lambda>right.
              rbind (create_conflict
                (JStr (if en_category e = ''decisions'' then ''DECISION'' else ''PROJECT_CONTEXT''))
                (JStr (en_id e)) JNull (entry_to_dict current) (entry_to_dict e) [left, right]) (\<lambda>c.
              Inr [c])))))"

definition available_sources :: "workspace \<Rightarrow> ws_state \<Rightarrow> pystr list" where
  "available_sources w s =
     sort (map fst (filter (\<lambda>q. an_binding (snd q) \<noteq> None \<or> fst q \<in> set (map fst (wk_bound w)))
       (s_sources s)))"

definition admit_handoff :: "host \<Rightarrow> handoff \<Rightarrow> checkpoint \<Rightarrow> workspace \<Rightarrow> admission res" where
  "admit_handoff h ho c w =
     rbind (read_state w) (\<lambda>s.
     rbind (require_stored s c) (\<lambda>_.
     rbind (state_lineage s) (\<lambda>receiver.
     rbind (source_state h (sr_workspace (ho_source ho)) w) (\<lambda>src.
     rbind (case src of None \<Rightarrow> Inr None | Some x \<Rightarrow> state_lineage x) (\<lambda>stored_lineage.
     let ok = admission_lineage_ok (workspace_id w) (ho_source ho) src stored_lineage receiver in
     rbind (state_ref_from_checkpoint c receiver) (\<lambda>ref.
     rbind (mapr (entry_conflict (ho_source ho) ref (map (\<lambda>e. (en_id e, e)) (rev (s_entries s))))
       (ho_entries ho)) (\<lambda>conflicts.
     rbind (create_report None (ho_source ho) ref (JStr (if ok then ''exact'' else ''unknown''))
       (concat conflicts)) (\<lambda>report.
     evaluate_verified ho c ok (Some report) (available_sources w s)))))))))"

definition ws_apply_handoff ::
  "host \<Rightarrow> draw \<Rightarrow> draw \<Rightarrow> pystr \<Rightarrow> handoff \<Rightarrow> checkpoint option \<Rightarrow> pystr option \<Rightarrow> workspace \<Rightarrow>
     workspace \<times> ws_receipt res" where
  "ws_apply_handoff h dr0 dr fresh ho receiver_checkpoint event_id w =
     wbind (read_state w) (\<lambda>s.
     case map_of (s_handoffs s) (ho_id ho) of
       Some previous \<Rightarrow>
         (w, rbind (check (hr_digest previous = ho_digest ho) WorkspaceConflictError) (\<lambda>_.
             of_option PyKeyError (map_of (s_receipts s) (hr_event previous))))
     | None \<Rightarrow>
         (case (case receiver_checkpoint of None \<Rightarrow> save_checkpoint h dr0 None fresh None w
                | Some c \<Rightarrow> (w, Inr c)) of
            (w1, Inl e) \<Rightarrow> (w1, Inl e)
          | (w1, Inr c) \<Rightarrow>
              wbind (rbind (admit_handoff h ho c w1) (\<lambda>adm.
                     rbind (check (ad_decision adm = ''rejected'' \<longrightarrow>
                         ''POLICY_DOWNGRADE'' \<notin> set (ad_reasons adm)) WorkspacePolicyError) (\<lambda>_.
                     rbind (check (ad_decision adm \<noteq> ''rejected'') WorkspaceConflictError) (\<lambda>_.
                     Inr adm)))) (\<lambda>adm.
              append_event h dr ''handoff_applied''
                (JObj [(''handoff'', handoff_to_dict ho), (''admission'', admission_to_dict adm)])
                event_id (Inr ()) [] w1) w1)) w"

end
