(* ===== verification/Ws_Replay.thy ===== *)
theory Ws_Replay
  imports Ws_Demo Ws_Exchange
begin

text \<open>
  An event is applied twice: when it is appended, in the order its items were built, and when the
  journal is read again, in the order of their keys. Both give the same state, but for the order of
  items in the values that the state keeps as they were given: the events and the checkpoints.
\<close>

section \<open>Validators and the order of items\<close>

named_theorems sorted_same "operations that do not see the order of the items of an object"

declare identity.dec_jsort [sorted_same] policy.dec_jsort [sorted_same] anchor.dec_jsort [sorted_same]
  entry.dec_jsort [sorted_same] pin.dec_jsort [sorted_same] fork.dec_jsort [sorted_same]
  state_ref.dec_jsort [sorted_same] lineage.dec_jsort [sorted_same] evidence.dec_jsort [sorted_same]

lemma jsort_const_iff [simp]:
  "jsort v = JStr s \<longleftrightarrow> v = JStr s" "jsort v = JInt n \<longleftrightarrow> v = JInt n"
  "jsort v = JBool b \<longleftrightarrow> v = JBool b"
  "JStr s = jsort v \<longleftrightarrow> v = JStr s"
  by (cases v; auto)+

lemma jstrs_jsort_iff [simp]: "jstrs ids = jsort v \<longleftrightarrow> jstrs ids = v"
proof (cases v)
  case (JArr xs)
  have "map JStr ids = map jsort xs \<longleftrightarrow> map JStr ids = xs"
  proof (induction ids arbitrary: xs)
    case (Cons i ids)
    then show ?case by (cases xs) auto
  qed auto
  then show ?thesis by (simp add: JArr jstrs_def)
qed (auto simp: jstrs_def)

lemma opt_str_jsort_iff [simp]: "jsort v = opt_str x \<longleftrightarrow> v = opt_str x"
  by (cases x) auto

lemma jitems_wf: "json_wf v \<Longrightarrow> x \<in> set (jitems v) \<Longrightarrow> json_wf x"
  by (cases v) (auto simp: jitems_def list_all_iff)

lemma mapr_jitems_jsort:
  assumes "\<And>x. json_wf x \<Longrightarrow> f (jsort x) = f x" "list_all json_wf xs"
  shows "mapr f (map jsort xs) = mapr f xs"
  using assms(2) by (induction xs) (simp_all add: assms(1))

lemma entry_from_input_jsort [sorted_same]: "json_wf v \<Longrightarrow> entry_from_input (jsort v) = entry_from_input v"
  by (simp add: entry_from_input_def entry.dec_jsort)

lemma list_all2_py_eq_jsort [simp]:
  "list_all2 (\<lambda>e v. py_eq (f e) v) es (map jsort vs) \<longleftrightarrow> list_all2 (\<lambda>e v. py_eq (f e) v) es vs"
  by (simp add: list_all2_map2)

lemma py_eq_arr_jsort [simp]:
  "py_eq a (JArr (map jsort xs)) = py_eq a (JArr xs)" "py_eq (JArr (map jsort xs)) a = py_eq (JArr xs) a"
  using py_eq_jsort [of a "JArr xs"] py_eq_jsort [of "JArr xs" a] by simp_all

lemma has_nonfinite_jsort [simp]: "has_nonfinite (jsort v) = has_nonfinite v"
proof (induction v rule: json_induct)
  case (Obj kvs)
  have "(\<exists>p \<in> set kvs. has_nonfinite (jsort (snd p))) = (\<exists>p \<in> set kvs. has_nonfinite (snd p))"
    using Obj by (intro bex_cong refl) (metis prod.collapse)
  then show ?case by (simp add: list_ex_iff)
qed (auto simp: list_ex_iff)

lemma ws_canonical_jsort [simp]: "ws_canonical (jsort v) = ws_canonical v"
  by (simp add: ws_canonical_def canonical_bytes_def canonical_json_def dumps_jsort del: dumps.simps)

lemma digests_jsort [simp]:
  "ws_digest (jsort v) = ws_digest v" "domain_digest d (jsort v) = domain_digest d v"
  by (simp_all add: ws_digest_def domain_digest_def)

lemma mk_receipt_link_jsort [simp]:
  "mk_receipt_link (jsort a) (jsort b) (jsort c) (jsort d) (jsort e) = mk_receipt_link a b c d e"
proof -
  have "on_str f (jsort v) = on_str f v" for f :: "pystr \<Rightarrow> pystr res" and v
    by (cases v) (simp_all add: on_str_def)
  then show ?thesis by (simp add: mk_receipt_link_def)
qed

section \<open>One branch at a time\<close>

lemma apply_created_jsort:
  assumes "json_wf payload"
  shows "apply_created (jsort event) (jsort payload) s = apply_created event payload s"
  using assms
  by (cases "jget ''workspace_id'' event") (simp_all add: apply_created_def trying_def sorted_same jfield_def jget_jsort_any)

lemma apply_policy_jsort: "json_wf payload \<Longrightarrow> apply_policy (jsort payload) p s = apply_policy payload p s"
  by (simp add: apply_policy_def sorted_same)

lemma apply_session_jsort: "apply_session (jsort payload) p s = apply_session payload p s"
  by (simp add: apply_session_def)

lemma apply_pin_jsort: "json_wf payload \<Longrightarrow> apply_pin (jsort payload) s = apply_pin payload s"
  by (simp add: apply_pin_def sorted_same)

lemma apply_restored_jsort: "apply_restored (jsort payload) p s = apply_restored payload p s"
  by (simp add: apply_restored_def)

lemma apply_sealed_jsort: "apply_sealed (jsort payload) s = apply_sealed payload s"
  by (simp add: apply_sealed_def)

lemma apply_aborted_jsort: "apply_aborted (jsort payload) s = apply_aborted payload s"
  by (simp add: apply_aborted_def)

lemma apply_source_jsort:
  "json_wf payload \<Longrightarrow> apply_source u v (jsort payload) p s = apply_source u v payload p s"
  by (simp add: apply_source_def sorted_same cong: option.case_cong bool.case_cong)

lemma proof_names_source_jsort [simp]: "proof_names_source source (jsort v) = proof_names_source source v"
  by (rule ext) (simp add: proof_names_source_def cong: option.case_cong)

lemma check_proof_jsort [simp]: "check_proof ss sid tid ids rs rec d (jsort v) = check_proof ss sid tid ids rs rec d v"
  by (simp add: check_proof_def Let_def)

lemma check_provenance_jsort [simp]: "check_provenance s (jsort v) es = check_provenance s v es"
  by (simp add: check_provenance_def Let_def)

lemma apply_context_jsort:
  assumes "json_wf payload"
  shows "apply_context (jsort payload) p s = apply_context payload p s"
proof (cases "is_arr (jat ''entries'' payload)")
  case True
  have wf: "list_all json_wf (jitems (jat ''entries'' payload))"
    using assms jitems_wf [OF jat_wf] by (auto simp: list_all_iff)
  show ?thesis
    using True by (simp add: apply_context_def Let_def jitems_jsort sorted_same mapr_jitems_jsort [OF _ wf])
qed (simp add: apply_context_def need_def)


section \<open>Logical states and checkpoints\<close>

lemma jsort_objI:
  assumes "distinct (map fst xs)" "distinct (map fst ys)"
    "\<And>k. map_option jsort (map_of xs k) = map_option jsort (map_of ys k)"
  shows "jsort (JObj xs) = jsort (JObj ys)"
proof -
  have m: "map_of (map (map_prod id jsort) (sort_key fst zs)) = (\<lambda>k. map_option jsort (map_of zs k))"
    for zs :: "(pystr \<times> json) list"
    by (rule ext) (simp add: map_of_map_items map_of_sort_items)
  have k: "map fst (map (map_prod id jsort) (sort_key fst zs)) = sort (map fst zs)"
    for zs :: "(pystr \<times> json) list"
    by (simp add: sort_key_map_fst comp_def)
  have "map (map_prod id jsort) (sort_key fst xs) = map (map_prod id jsort) (sort_key fst ys)"
    using assms by (intro sorted_key_list_unique) (simp_all only: k m sorted_sort distinct_sort)
  then show ?thesis by (simp add: sort_items_map)
qed

lemma logical_components_jsort [sorted_same]:
  assumes "json_wf v"
  shows "logical_components (jsort v) w = logical_components v w"
proof (cases "is_arr (jat ''sources'' v) \<and> is_arr (jat ''entries'' v) \<and> is_arr (jat ''package_pins'' v)")
  case True
  have wf: "list_all json_wf (jitems (jat k v))" for k
    using assms jitems_wf [OF jat_wf] by (auto simp: list_all_iff)
  show ?thesis
    using True assms
    by (simp add: logical_components_def Let_def jitems_jsort sorted_same mapr_jitems_jsort [OF _ wf])
next
  case False
  then show ?thesis by (auto simp add: logical_components_def)
qed

definition norm_ck :: "checkpoint \<Rightarrow> checkpoint" where
  "norm_ck c =
     c\<lparr>ck_logical := jsort (ck_logical c), ck_anchors := map jsort (ck_anchors c),
       ck_recovery := map jsort (ck_recovery c), ck_pins := map jsort (ck_pins c),
       ck_lineage := jsort (ck_lineage c), ck_engine := jsort (ck_engine c)\<rparr>"

lemma norm_ck_simps [simp]:
  "ck_id (norm_ck c) = ck_id c" "ck_workspace (norm_ck c) = ck_workspace c"
  "ck_state_digest (norm_ck c) = ck_state_digest c" "ck_state_ref (norm_ck c) = ck_state_ref c"
  "ck_lock (norm_ck c) = ck_lock c" "ck_policy_digest (norm_ck c) = ck_policy_digest c"
  "ck_context_digest (norm_ck c) = ck_context_digest c" "ck_envelope (norm_ck c) = ck_envelope c"
  "ck_logical (norm_ck c) = jsort (ck_logical c)" "ck_anchors (norm_ck c) = map jsort (ck_anchors c)"
  "ck_recovery (norm_ck c) = map jsort (ck_recovery c)" "ck_pins (norm_ck c) = map jsort (ck_pins c)"
  "ck_lineage (norm_ck c) = jsort (ck_lineage c)" "ck_engine (norm_ck c) = jsort (ck_engine c)"
  by (simp_all add: norm_ck_def)

lemma norm_ck_idem [simp]: "norm_ck (norm_ck c) = norm_ck c"
  by (simp add: norm_ck_def jsort_idem comp_def)

lemma unsigned_dict_norm: "jsort (JObj (unsigned_dict (norm_ck c))) = jsort (JObj (unsigned_dict c))"
  by (rule jsort_objI) (auto simp: unsigned_dict_def jsort_idem comp_def)

lemma envelope_norm [simp]:
  "envelope_digest (JObj (unsigned_dict (norm_ck c))) = envelope_digest (JObj (unsigned_dict c))"
  unfolding envelope_digest_def
  by (metis digests_jsort(2) unsigned_dict_norm)

lemma validate_projections_norm:
  "json_wf (ck_logical c) \<Longrightarrow> validate_projections (norm_ck c) = validate_projections c"
  by (simp add: validate_projections_def logical_components_jsort)

lemma reject_sensitive_arr [simp]: "reject_sensitive (JArr (map jsort xs)) = reject_sensitive (JArr xs)"
  using reject_sensitive_jsort [of "JArr xs"] by simp

lemma wrefs_arr [simp]: "wrefs n (JArr (map jsort xs)) = wrefs n (JArr xs)"
  using wrefs_jsort [of n "JArr xs"] by simp


lemma norm_ck_lit:
  "\<lparr>ck_id = a, ck_workspace = b, ck_state_digest = c, ck_state_ref = d, ck_logical = jsort l,
     ck_anchors = map jsort x, ck_recovery = map jsort y, ck_pins = map jsort z, ck_lock = e,
     ck_policy_digest = f, ck_context_digest = g, ck_lineage = jsort m, ck_engine = jsort n,
     ck_envelope = h\<rparr> =
   norm_ck \<lparr>ck_id = a, ck_workspace = b, ck_state_digest = c, ck_state_ref = d, ck_logical = l,
     ck_anchors = x, ck_recovery = y, ck_pins = z, ck_lock = e,
     ck_policy_digest = f, ck_context_digest = g, ck_lineage = m, ck_engine = n,
     ck_envelope = h\<rparr>"
  by (simp add: norm_ck_def)

lemma mk_checkpoint_jsort:
  assumes "json_wf v" "is_arr (jat ''source_anchors'' v)" "is_arr (jat ''recovery_refs'' v)"
    "is_arr (jat ''package_pins'' v)"
  shows "mk_checkpoint (jsort v) = rbind (mk_checkpoint v) (\<lambda>c. Inr (norm_ck c))"
  using assms
  by (simp add: mk_checkpoint_def Let_def rbind_assoc jitems_jsort norm_ck_lit validate_projections_norm
      reject_sensitive_jsort)

lemma checkpoint_from_dict_jsort:
  assumes "json_wf v"
  shows "checkpoint_from_dict (jsort v) = rbind (checkpoint_from_dict v) (\<lambda>c. Inr (norm_ck c))"
proof (cases "is_arr (jat ''source_anchors'' v) \<and> is_arr (jat ''recovery_refs'' v) \<and>
    is_arr (jat ''package_pins'' v)")
  case True
  then show ?thesis
    using mk_checkpoint_jsort [OF assms] by (simp add: checkpoint_from_dict_def rbind_assoc)
qed (auto simp: checkpoint_from_dict_def rbind_assoc)


section \<open>The branches that keep what they were given\<close>

text \<open>Two states that differ in the order of items of their checkpoints.\<close>

definition like :: "ws_state \<Rightarrow> ws_state \<Rightarrow> bool" where
  "like t u \<longleftrightarrow>
     u = t\<lparr>s_checkpoints := s_checkpoints u, s_events := s_events u\<rparr> \<and>
     map (map_prod id norm_ck) (s_checkpoints t) = map (map_prod id norm_ck) (s_checkpoints u) \<and>
     map jsort (s_events t) = map jsort (s_events u)"

lemma like_refl [simp]: "like t t"
  by (simp add: like_def)

lemma dict_put_norm:
  "map (map_prod id norm_ck) (dict_put k (norm_ck c) d) = map (map_prod id norm_ck) (dict_put k c d)"
  by (induction d) auto

lemma checkpoint_logical:
  assumes "checkpoint_from_dict v = Inr c"
  shows "ck_logical c = jat ''logical_state'' v"
  using assms unfolding checkpoint_from_dict_def mk_checkpoint_def Let_def rbind_eq_Inr_iff by auto

lemma apply_checkpoint_jsort:
  assumes "apply_checkpoint payload s = Inr t" "json_wf payload"
  shows "\<exists>u. apply_checkpoint (jsort payload) s = Inr u \<and> like t u"
proof -
  obtain c where c: "checkpoint_from_dict (jat ''checkpoint'' payload) = Inr c"
    using assms(1) by (auto simp: apply_checkpoint_def rbind_eq_Inr_iff trying_Inr)
  then have wf: "json_wf (ck_logical c)"
    using checkpoint_logical assms(2) by simp
  have "apply_checkpoint (jsort payload) s =
      rbind (apply_checkpoint payload s) (\<lambda>t. Inr (s\<lparr>s_checkpoints := dict_put (ck_id c) (norm_ck c) (s_checkpoints s)\<rparr>))"
    using assms(2) c wf
    by (simp add: apply_checkpoint_def checkpoint_from_dict_jsort rbind_assoc trying_def logical_components_jsort)
  moreover have "t = s\<lparr>s_checkpoints := dict_put (ck_id c) c (s_checkpoints s)\<rparr>"
    using assms(1) c by (auto simp: apply_checkpoint_def rbind_eq_Inr_iff trying_Inr)
  ultimately show ?thesis using assms(1) by (simp add: like_def dict_put_norm)
qed


lemma seed_admission_jsort [simp]: "seed_admission (jsort a) (jsort b) = seed_admission a b"
  by (simp add: seed_admission_def Let_def split: json.split)

lemma apply_seeded_jsort:
  assumes "apply_seeded payload p s = Inr t" "json_wf payload"
  shows "\<exists>u. apply_seeded (jsort payload) p s = Inr u \<and> like t u"
proof -
  obtain c where c: "checkpoint_from_dict (jat ''checkpoint'' payload) = Inr c"
    using assms(1) by (auto simp: apply_seeded_def rbind_eq_Inr_iff trying_Inr)
  then have wf: "json_wf (ck_logical c)"
    using checkpoint_logical assms(2) by simp
  let ?put = "\<lambda>t c. t\<lparr>s_checkpoints := dict_put (ck_id c) c (s_checkpoints s)\<rparr>"
  have bounds: "ensure_bounds q b (?put t c) = ensure_bounds q b t"
      "ensure_all_external (?put t c) xs = ensure_all_external t xs" for q b t c xs
    by (simp_all add: ensure_bounds_def ensure_all_external_def ensure_external_def state_policy_def)
  have comp: "with_components lc (?put s c) = ?put (with_components lc s) c" for lc c
    by (simp add: with_components_def)
  have "apply_seeded (jsort payload) p s = rbind (apply_seeded payload p s) (\<lambda>t. Inr (?put t (norm_ck c)))"
    using assms(2) c wf
    by (simp add: apply_seeded_def checkpoint_from_dict_jsort rbind_assoc trying_def logical_components_jsort
        Let_def comp bounds norm_ck_simps)
  moreover have "s_checkpoints t = dict_put (ck_id c) c (s_checkpoints s)"
    using assms(1) c by (auto simp: apply_seeded_def Let_def rbind_eq_Inr_iff trying_Inr with_components_def)
  ultimately show ?thesis using assms(1) by (simp add: like_def dict_put_norm)
qed

lemma json_wf_jsort: "json_wf v \<Longrightarrow> json_wf (jsort v)"
proof (induction v rule: json_induct)
  case (Obj kvs)
  have "map fst (map (map_prod id jsort) (sort_key fst kvs)) = sort (map fst kvs)"
    by (simp add: sort_key_map_fst comp_def)
  then have "distinct (map fst (map (map_prod id jsort) (sort_key fst kvs)))"
    using Obj.prems unfolding json_wf_obj_iff by (simp only: distinct_sort)
  then show ?case
    using Obj unfolding json_wf_obj_iff jsort.simps sort_items_map by fastforce
qed (auto simp: list_all_iff)

lemma py_mapping_jsort:
  "is_obj v \<Longrightarrow> py_mapping (jsort v) = Inr (map (map_prod id jsort) (sort_key fst (obj_items v)))"
  by (cases v) (simp_all add: py_mapping_def sort_items_map obj_items_def)

lemma dict_put_wf: "json_wf (JObj kvs) \<Longrightarrow> json_wf v \<Longrightarrow> json_wf (JObj (dict_put k v kvs))"
  by (auto simp: list_all_iff distinct_dict_put dest!: set_dict_put)

lemma logical_of_mapping:
  assumes "json_wf v" "is_obj v"
  shows "jsort (JObj (dict_put k (JStr a) (map (map_prod id jsort) (sort_key fst (obj_items v))))) =
    jsort (JObj (dict_put k (JStr a) (obj_items v)))"
proof (rule jsort_objI)
  have d: "distinct (map fst (obj_items v))" using assms by (cases v) (simp_all add: obj_items_def)
  then show "distinct (map fst (dict_put k (JStr a) (obj_items v)))" by (rule distinct_dict_put)
  have "map fst (map (map_prod id jsort) (sort_key fst (obj_items v))) = sort (map fst (obj_items v))"
    by (simp add: sort_key_map_fst comp_def)
  then have "distinct (map fst (map (map_prod id jsort) (sort_key fst (obj_items v))))"
    using d by (simp only: distinct_sort)
  then show "distinct (map fst (dict_put k (JStr a) (map (map_prod id jsort) (sort_key fst (obj_items v)))))"
    by (rule distinct_dict_put)
  fix k'
  show "map_option jsort (map_of (dict_put k (JStr a) (map (map_prod id jsort) (sort_key fst (obj_items v)))) k') =
    map_option jsort (map_of (dict_put k (JStr a) (obj_items v)) k')"
    by (simp add: map_of_dict_put map_of_map_items map_of_sort_items option.map_comp comp_def jsort_idem)
qed

lemma apply_forked_jsort:
  assumes "json_wf payload" "is_obj (jat ''inherited_state'' payload)"
  shows "apply_forked eid (jsort payload) i p s = apply_forked eid payload i p s"
proof -
  let ?v = "jat ''inherited_state'' payload"
  have m: "py_mapping ?v = Inr (obj_items ?v)"
    using assms(2) by (cases ?v) (simp_all add: py_mapping_def obj_items_def)
  let ?L = "\<lambda>a kvs. JObj (dict_put ''workspace_id'' (JStr a) kvs)"
  have wf: "json_wf (JObj (obj_items ?v))"
    using jat_wf [OF assms(1), of "''inherited_state''"] assms(2) by (cases ?v) (simp_all add: obj_items_def)
  have wf': "json_wf (JObj (map (map_prod id jsort) (sort_key fst (obj_items ?v))))"
    using json_wf_jsort [OF wf] by (simp only: jsort.simps sort_items_map)
  have "logical_components (?L a (map (map_prod id jsort) (sort_key fst (obj_items ?v)))) b =
      logical_components (?L a (obj_items ?v)) b" for a b
    using logical_components_jsort [OF dict_put_wf [OF wf]] logical_components_jsort [OF dict_put_wf [OF wf']]
      logical_of_mapping [OF jat_wf [OF assms(1)] assms(2)]
    by (metis json_wf.simps(5))
  then show ?thesis
    using assms m by (simp add: apply_forked_def fork.dec_jsort py_mapping_jsort trying_def Let_def)
qed


section \<open>Handoffs\<close>

lemma px_sensitive_jsort: "px_sensitive (jsort v) = px_sensitive v"
proof (induction v rule: json_induct)
  case (Obj kvs)
  have "(\<exists>p \<in> set kvs. forbidden_key (fst p) \<or> px_sensitive (jsort (snd p))) =
      (\<exists>p \<in> set kvs. forbidden_key (fst p) \<or> px_sensitive (snd p))"
    using Obj by (intro bex_cong refl) (metis prod.collapse)
  then show ?case by (simp add: list_ex_iff)
qed (auto simp: list_ex_iff)

definition norm_ho :: "handoff \<Rightarrow> handoff" where
  "norm_ho h =
     h\<lparr>ho_entries := map jsort (ho_entries h), ho_anchors := map jsort (ho_anchors h),
       ho_packages := map jsort (ho_packages h)\<rparr>"

lemma norm_ho_simps [simp]:
  "ho_id (norm_ho h) = ho_id h" "ho_source (norm_ho h) = ho_source h" "ho_target (norm_ho h) = ho_target h"
  "ho_floor (norm_ho h) = ho_floor h" "ho_digest (norm_ho h) = ho_digest h"
  "ho_entries (norm_ho h) = map jsort (ho_entries h)" "ho_anchors (norm_ho h) = map jsort (ho_anchors h)"
  "ho_packages (norm_ho h) = map jsort (ho_packages h)"
  by (simp_all add: norm_ho_def)

lemma handoff_unsigned_sorted:
  "jsort (JObj (handoff_unsigned a b c d e (map jsort es) (map jsort as) f (map jsort ps) g)) =
   jsort (JObj (handoff_unsigned a b c d e es as f ps g))"
  by (rule jsort_objI) (auto simp: handoff_unsigned_def jsort_idem comp_def)

lemma same_sorted:
  assumes "jsort a = jsort b"
  shows "px_reject_sensitive a = px_reject_sensitive b" "domain_digest x a = domain_digest x b"
    "py_eq a v = py_eq b v"
proof -
  have "px_sensitive a = px_sensitive b" using assms px_sensitive_jsort by metis
  then show "px_reject_sensitive a = px_reject_sensitive b" by (simp add: px_reject_sensitive_def)
  show "domain_digest x a = domain_digest x b" using assms digests_jsort(2) by metis
  show "py_eq a v = py_eq b v" using assms py_eq_jsort(1) by metis
qed

lemma px_handoff_unsigned [simp]:
  "px_reject_sensitive (JObj (handoff_unsigned a b c d e (map jsort es) (map jsort as) f (map jsort ps) g)) =
   px_reject_sensitive (JObj (handoff_unsigned a b c d e es as f ps g))"
  "domain_digest x (JObj (handoff_unsigned a b c d e (map jsort es) (map jsort as) f (map jsort ps) g)) =
   domain_digest x (JObj (handoff_unsigned a b c d e es as f ps g))"
  by (rule same_sorted [OF handoff_unsigned_sorted])+

lemma pfree_text_jsort [simp]: "pfree_text n (jsort v) = pfree_text n v"
  by (simp add: pfree_text_def)

lemma mk_handoff_jsort:
  assumes "list_all json_wf es" "list_all json_wf as" "list_all json_wf ps"
  shows "mk_handoff (jsort a) b (jsort c) (jsort d) (jsort e) (map jsort es) (map jsort as) (map jsort rs)
      (map jsort ps) g (jsort k) =
    rbind (mk_handoff a b c d e es as rs ps g k) (\<lambda>h. Inr (norm_ho h))"
  by (simp add: mk_handoff_def rbind_assoc Let_def sorted_same norm_ho_def
      mapr_jitems_jsort [OF _ assms(1)] mapr_jitems_jsort [OF _ assms(2)] mapr_jitems_jsort [OF _ assms(3)])

lemma py_eq_arr:
  assumes "py_eq v w" "jget k v = Some (JArr xs)"
  shows "is_arr (jat k w)"
proof -
  obtain u where "jget k w = Some u" "py_norm u = py_norm (JArr xs)"
    using py_eq_jget [OF assms(1), of k] assms(2) by (cases "jget k w") auto
  then show ?thesis by (cases u) (auto simp: jat_def split: option.splits)
qed

lemma py_tuple_items: "is_arr v \<Longrightarrow> py_tuple v = Inr (jitems v) \<and> py_tuple (jsort v) = Inr (map jsort (jitems v))"
  by (cases v) (auto simp: jitems_def is_arr_def)

lemma handoff_to_dict_norm: "py_eq (handoff_to_dict (norm_ho h)) v = py_eq (handoff_to_dict h) v"
proof -
  have "jsort (handoff_to_dict (norm_ho h)) = jsort (handoff_to_dict h)"
    unfolding handoff_to_dict_def
    by (rule jsort_objI) (auto simp: handoff_unsigned_def norm_ho_def jsort_idem comp_def)
  then show ?thesis by (rule same_sorted(3))
qed

lemma handoff_from_dict_jsort:
  assumes "handoff_from_dict v = Inr h" "json_wf v"
  shows "handoff_from_dict (jsort v) = Inr (norm_ho h)"
proof -
  have eq: "py_eq (handoff_to_dict h) v"
    using assms(1) by (auto simp: handoff_from_dict_def rbind_eq_Inr_iff check_eq_Inr_iff)
  have arr: "is_arr (jat ''selected_entries'' v)" "is_arr (jat ''source_anchors'' v)"
      "is_arr (jat ''recovery_refs'' v)" "is_arr (jat ''package_refs'' v)"
    using py_eq_arr [OF eq]
    by (simp_all add: handoff_to_dict_def handoff_unsigned_def jget_def jstrs_def)
  have wf: "list_all json_wf (jitems (jat k v))" for k
    using assms(2) jitems_wf [OF jat_wf] by (auto simp: list_all_iff)
  have "handoff_from_dict (jsort v) = rbind (handoff_from_dict v) (\<lambda>h. Inr (norm_ho h))"
    using assms(2)
    by (simp add: handoff_from_dict_def rbind_assoc sorted_same py_tuple_items jitems_jsort arr mk_handoff_jsort
        wf handoff_to_dict_norm)
  then show ?thesis using assms(1) by simp
qed

lemma report_empty_jsort:
  assumes "report_from_dict v = Inr r" "cr_entries r = []" "json_wf v"
  shows "report_from_dict (jsort v) = Inr r"
proof -
  have arr: "is_arr (jat ''entries'' v)"
    using assms(1) by (auto simp: report_from_dict_def rbind_eq_Inr_iff check_eq_Inr_iff)
  obtain es where es: "mapr conflict_from_dict (jitems (jat ''entries'' v)) = Inr es" "cr_entries r = sort_key conflict_order es"
    using assms(1) by (auto simp: report_from_dict_def create_report_def Let_def rbind_eq_Inr_iff check_eq_Inr_iff)
  then have "es = []" using assms(2) by (metis sort_key_Nil_iff)
  then have "jitems (jat ''entries'' v) = []" using mapr_length [OF es(1)] by simp
  then have "report_from_dict (jsort v) = report_from_dict v"
    using assms(3) arr
    by (simp add: report_from_dict_def sorted_same state_ref.opt_jsort jitems_jsort create_report_def)
  then show ?thesis using assms(1) by simp
qed

lemma admission_jsort:
  assumes "admission_from_dict v = Inr a" "cr_entries (ad_conflicts a) = []" "json_wf v"
  shows "admission_from_dict (jsort v) = Inr a"
proof -
  have arr: "is_arr (jat ''reason_codes'' v)"
    using assms(1) by (auto simp: admission_from_dict_def rbind_eq_Inr_iff check_eq_Inr_iff)
  obtain r where r: "report_from_dict (jat ''conflicts'' v) = Inr r" "ad_conflicts a = r"
    using assms(1) by (auto simp: admission_from_dict_def mk_admission_def Let_def rbind_eq_Inr_iff check_eq_Inr_iff)
  then have r': "report_from_dict (jsort (jat ''conflicts'' v)) = Inr r"
    using report_empty_jsort assms(2,3) by simp
  have "admission_from_dict (jsort v) = admission_from_dict v"
    using arr r(1) r' by (simp add: admission_from_dict_def jitems_jsort mk_admission_def)
  then show ?thesis using assms(1) by simp
qed


lemma py_tuple_wf: "py_tuple v = Inr xs \<Longrightarrow> json_wf v \<Longrightarrow> list_all json_wf xs"
  by (cases v) (auto simp: py_tuple_def list_all_iff)

lemma handoff_parts:
  assumes "handoff_from_dict v = Inr h" "json_wf v"
  shows "list_all json_wf (ho_entries h)" "list_all json_wf (ho_anchors h)" "list_all json_wf (ho_packages h)"
proof -
  obtain e a r p where parts: "py_tuple (jat ''selected_entries'' v) = Inr e"
      "py_tuple (jat ''source_anchors'' v) = Inr a" "py_tuple (jat ''recovery_refs'' v) = Inr r"
      "py_tuple (jat ''package_refs'' v) = Inr p"
    and h: "ho_entries h = e" "ho_anchors h = a" "ho_packages h = p"
    using assms(1) unfolding handoff_from_dict_def mk_handoff_def Let_def rbind_eq_Inr_iff by auto
  show "list_all json_wf (ho_entries h)" "list_all json_wf (ho_anchors h)" "list_all json_wf (ho_packages h)"
    using parts[THEN py_tuple_wf] assms(2) by (simp_all add: h)
qed

lemma import_anchors_jsort:
  "list_all json_wf raws \<Longrightarrow> import_anchors d s (map jsort raws) im = import_anchors d s raws im"
  by (induction d s raws im rule: import_anchors.induct)
    (simp_all add: sorted_same cong: option.case_cong rbind_cong)

lemma append_entries_jsort:
  "list_all json_wf raws \<Longrightarrow> append_entries p s ids (map jsort raws) by_id ap = append_entries p s ids raws by_id ap"
  by (induction p s ids raws by_id ap rule: append_entries.induct)
    (simp_all add: sorted_same cong: option.case_cong rbind_cong)

lemma check_package_jsort: "json_wf raw \<Longrightarrow> check_package s (jsort raw) = check_package s raw"
  by (simp add: check_package_def sorted_same)

lemma apply_handoff_jsort:
  assumes "apply_handoff eid payload i p s = Inr t" "json_wf payload"
  shows "apply_handoff eid (jsort payload) i p s = Inr t"
proof -
  obtain h a where h: "handoff_from_dict (jat ''handoff'' payload) = Inr h"
      "admission_from_dict (jat ''admission'' payload) = Inr a"
    using assms(1) by (auto simp: apply_handoff_def rbind_eq_Inr_iff trying_Inr)
  have none: "cr_entries (ad_conflicts a) = []"
    using assms(1) h by (auto simp: apply_handoff_def rbind_eq_Inr_iff trying_Inr need_Inr)
  have "handoff_from_dict (jat ''handoff'' (jsort payload)) = Inr (norm_ho h)"
      "admission_from_dict (jat ''admission'' (jsort payload)) = Inr a"
    using handoff_from_dict_jsort [OF h(1)] admission_jsort [OF h(2) none] assms(2) by simp_all
  note dec = h this
  note wf = handoff_parts [OF h(1) jat_wf [OF assms(2)]]
  have "apply_handoff eid (jsort payload) i p s = apply_handoff eid payload i p s"
    using dec
    by (simp add: apply_handoff_def Let_def import_anchors_jsort [OF wf(2)] append_entries_jsort [OF wf(1)]
        mapr_jitems_jsort [of "check_package s", OF check_package_jsort wf(3)] trying_def cong: option.case_cong)
  then show ?thesis using assms(1) by simp
qed


section \<open>Any event\<close>

lemma trust_from_dict_more: "trust_from_dict v x = Inr t \<Longrightarrow> trust_from_dict True x = Inr t"
  by (auto simp: trust_from_dict_def rbind_eq_Inr_iff check_eq_Inr_iff keep_ws_def on_err_eq_Inr_iff
      split: if_splits)

lemma anchor_from_dict_more:
  assumes "anchor_from_dict v x = Inr a"
  shows "anchor_from_dict True x = Inr a"
  using assms trust_from_dict_more
  unfolding anchor_from_dict_def anchor_from_dict_at_def rbind_eq_Inr_iff incompatible_def on_err_eq_Inr_iff
  by blast

lemma apply_source_more:
  assumes "apply_source u v payload p s = Inr t"
  shows "apply_source u True payload p s = Inr t"
proof -
  obtain a where a: "anchor_from_dict v (jat ''anchor'' payload) = Inr a"
    using assms by (auto simp: apply_source_def rbind_eq_Inr_iff trying_Inr)
  then show ?thesis
    using assms anchor_from_dict_more [OF a] by (simp add: apply_source_def)
qed

text \<open>
  A fork event must carry its inherited state as an object, as \<open>fork\<close> builds it: \<open>dict(..)\<close> of a list
  of objects would take two of their keys, in their order.
\<close>

definition plain_payload :: "pystr \<Rightarrow> json \<Rightarrow> bool" where
  "plain_payload kind payload \<longleftrightarrow>
     json_wf payload \<and> (kind = ''workspace_forked'' \<longrightarrow> is_obj (jat ''inherited_state'' payload))"

lemma apply_kind_jsort:
  assumes "apply_kind v e h i p s = Inr t" "plain_payload (eh_kind h) (eh_payload h)"
  shows "\<exists>u. apply_kind True (jsort e) (h\<lparr>eh_payload := jsort (eh_payload h)\<rparr>) i p s = Inr u \<and> like t u"
proof -
  have wf: "json_wf (eh_payload h)" using assms(2) by (simp add: plain_payload_def)
  let ?k = "eh_kind h"
  consider (source) "?k = ''source_attached'' \<or> ?k = ''source_updated''" | (checkpoint) "?k = ''checkpoint_created''"
    | (seeded) "?k = ''workspace_seeded''" | (handoff) "?k = ''handoff_applied''"
    | (forked) "?k = ''workspace_forked''"
    | (rest) "?k \<notin> {''source_attached'', ''source_updated'', ''checkpoint_created'', ''workspace_seeded'',
        ''handoff_applied'', ''workspace_forked''}"
    by blast
  then show ?thesis
  proof cases
    case source
    then show ?thesis
      using assms(1) apply_source_more [of _ v "eh_payload h" p s t]
      by (auto simp: apply_kind_def Let_def apply_source_jsort [OF wf])
  next
    case checkpoint
    then show ?thesis
      using assms(1) apply_checkpoint_jsort [OF _ wf] by (simp add: apply_kind_def Let_def)
  next
    case seeded
    then show ?thesis
      using assms(1) apply_seeded_jsort [OF _ wf] by (simp add: apply_kind_def Let_def)
  next
    case handoff
    then show ?thesis
      using assms(1) apply_handoff_jsort [OF _ wf] by (simp add: apply_kind_def Let_def)
  next
    case forked
    then show ?thesis
      using assms apply_forked_jsort [OF wf] by (simp add: apply_kind_def Let_def plain_payload_def)
  next
    case rest
    then have "apply_kind True (jsort e) (h\<lparr>eh_payload := jsort (eh_payload h)\<rparr>) i p s = apply_kind v e h i p s"
      by (simp add: apply_kind_def Let_def apply_policy_jsort apply_session_jsort
          apply_context_jsort apply_pin_jsort apply_restored_jsort apply_sealed_jsort apply_aborted_jsort wf)
    then show ?thesis using assms(1) by simp
  qed
qed

lemma event_head_jsort:
  assumes "event_head e = Inr h"
  shows "event_head (jsort e) = Inr (h\<lparr>eh_payload := jsort (eh_payload h)\<rparr>)"
  using assms unfolding event_head_def rbind_eq_Inr_iff jfield_def of_option_eq_Inr_iff
  by (auto simp: jget_jsort_any reject_sensitive_jsort)

lemma event_head_wf: "event_head e = Inr h \<Longrightarrow> json_wf e \<Longrightarrow> json_wf (eh_payload h)"
  using event_head_Inr jget_wf by blast

lemma jitems_jsort_any [simp]: "jitems (jsort v) = map jsort (jitems v)"
  by (cases v) (simp_all add: jitems_def)

lemma str_case_jsort: "(case jsort v of JStr i \<Rightarrow> f i | _ \<Rightarrow> r) = (case v of JStr i \<Rightarrow> f i | _ \<Rightarrow> r)"
  by (cases v) simp_all

lemma receipt_lineage_jsort:
  assumes "json_wf payload"
  shows "receipt_lineage kind (jsort payload) = receipt_lineage kind payload"
proof -
  have wf: "list_all json_wf (jitems (jat k payload))" for k
    using assms jitems_wf [OF jat_wf] by (auto simp: list_all_iff)
  have strs: "mapr (\<lambda>v. case v of JStr i \<Rightarrow> Inr i | _ \<Rightarrow> Inl e) (map jsort xs) =
      mapr (\<lambda>v. case v of JStr i \<Rightarrow> Inr i | _ \<Rightarrow> Inl e) xs" for xs and e :: exn
    by (rule mapr_jsort) (rule str_case_jsort)
  show ?thesis
    using assms by (simp add: receipt_lineage_def str_case_jsort strs mapr_jitems_jsort [OF _ wf] sorted_same)
qed

lemma like_fields:
  assumes "like t u"
  shows "s_identity u = s_identity t" "s_policy u = s_policy t" "s_lifecycle u = s_lifecycle t"
    "s_sources u = s_sources t" "s_sessions u = s_sessions t" "s_entries u = s_entries t"
    "s_pins u = s_pins t" "s_lock u = s_lock t" "s_fork u = s_fork t" "s_handoffs u = s_handoffs t"
    "s_receipts u = s_receipts t" "s_last u = s_last t" "length (s_events u) = length (s_events t)"
    "map fst (s_checkpoints u) = map fst (s_checkpoints t)"
proof -
  let ?u = "t\<lparr>s_checkpoints := s_checkpoints u, s_events := s_events u\<rparr>"
  have u: "u = ?u" "map jsort (s_events t) = map jsort (s_events u)"
      "map (map_prod id norm_ck) (s_checkpoints t) = map (map_prod id norm_ck) (s_checkpoints u)"
    using assms by (simp_all add: like_def)
  show "s_identity u = s_identity t" "s_policy u = s_policy t" "s_lifecycle u = s_lifecycle t"
    "s_sources u = s_sources t" "s_sessions u = s_sessions t" "s_entries u = s_entries t"
    "s_pins u = s_pins t" "s_lock u = s_lock t" "s_fork u = s_fork t" "s_handoffs u = s_handoffs t"
    "s_receipts u = s_receipts t" "s_last u = s_last t"
    by (subst u(1), simp)+
  show "length (s_events u) = length (s_events t)" using map_eq_imp_length_eq [OF u(2)] by simp
  have "map fst (map (map_prod id norm_ck) (s_checkpoints t)) = map fst (map (map_prod id norm_ck) (s_checkpoints u))"
    using u(3) by simp
  then show "map fst (s_checkpoints u) = map fst (s_checkpoints t)" by (simp add: comp_def)
qed

lemma like_digest:
  assumes "like t u"
  shows "state_digest u = state_digest t"
proof -
  have "state_dict i p u = state_dict i p t" for i p
    by (simp add: state_dict_def like_fields [OF assms])
  then show ?thesis by (simp add: state_digest_def like_fields [OF assms] cong: option.case_cong)
qed

lemma like_receipt:
  assumes "like t u" "json_wf e"
  shows "receipt_for_event u (jsort e) = receipt_for_event t e"
proof -
  have wf: "json_wf payload" if "jget ''payload'' e = Some payload" for payload
    using that assms(2) jget_wf by blast
  have "(case (jget ''payload'' (jsort e), jget ''kind'' (jsort e)) of
           (Some payload, Some (JStr kind)) \<Rightarrow>
             if is_obj payload then Inr (payload, kind) else Inl WorkspaceIncompatibleError
         | _ \<Rightarrow> Inl WorkspaceIncompatibleError) =
      rbind (case (jget ''payload'' e, jget ''kind'' e) of
           (Some payload, Some (JStr kind)) \<Rightarrow>
             if is_obj payload then Inr (payload, kind) else Inl WorkspaceIncompatibleError
         | _ \<Rightarrow> Inl WorkspaceIncompatibleError) (\<lambda>(payload, kind). Inr (jsort payload, kind))"
    by (auto simp: jget_jsort_any split: option.split json.split)
  then show ?thesis
    unfolding receipt_for_event_def like_digest [OF assms(1)] like_fields(1) [OF assms(1)]
    by (simp add: rbind_assoc receipt_lineage_jsort wf split: option.split json.split)
qed


lemma like_record:
  assumes "like m u"
  shows "like (m\<lparr>s_events := s_events m @ [e], s_last := g\<rparr>) (u\<lparr>s_events := s_events u @ [jsort e], s_last := g\<rparr>)"
    "like (m\<lparr>s_receipts := rs\<rparr>) (u\<lparr>s_receipts := rs\<rparr>)"
  using assms unfolding like_def by (cases m; cases u; simp add: jsort_idem)+

lemma like_bounds: "like m u \<Longrightarrow> ensure_bounds p x u = ensure_bounds p x m"
  by (simp add: ensure_bounds_def like_fields)

lemma apply_tail_jsort:
  assumes "apply_tail e h m = Inr t" "like m u" "json_wf e"
  shows "\<exists>u'. apply_tail (jsort e) (h\<lparr>eh_payload := x\<rparr>) u = Inr u' \<and> like t u' \<and>
    s_events u' = s_events u @ [jsort e]"
proof -
  let ?m = "m\<lparr>s_events := s_events m @ [e], s_last := eh_digest h\<rparr>"
  let ?u = "u\<lparr>s_events := s_events u @ [jsort e], s_last := eh_digest h\<rparr>"
  obtain i p r where r: "s_identity m = Some i" "s_policy m = Some p" "ensure_bounds p False ?m = Inr ()"
      "receipt_for_event ?m e = Inr r" "eh_id h \<notin> set (map fst (s_receipts m))"
      "t = ?m\<lparr>s_receipts := dict_put (eh_id h) r (s_receipts m)\<rparr>"
    using assms(1) unfolding apply_tail_def Let_def
    by (auto simp: rbind_eq_Inr_iff trying_Inr need_Inr split: option.splits)
  note same = like_fields [OF assms(2)]
  have l: "like ?m ?u" by (rule like_record(1) [OF assms(2)])
  have "receipt_for_event ?u (jsort e) = Inr r" "ensure_bounds p False ?u = Inr ()"
    using like_receipt [OF l assms(3)] like_bounds [OF l] r(3,4) by simp_all
  then have "apply_tail (jsort e) (h\<lparr>eh_payload := x\<rparr>) u = Inr (?u\<lparr>s_receipts := dict_put (eh_id h) r (s_receipts m)\<rparr>)"
    using r(1,2,5) by (simp add: apply_tail_def Let_def same trying_def need_def)
  moreover have "like t (?u\<lparr>s_receipts := dict_put (eh_id h) r (s_receipts m)\<rparr>)"
    using like_record(2) [OF l] unfolding r(6) .
  ultimately show ?thesis by (intro exI conjI) (assumption+, simp)
qed

lemma apply_kind_events:
  assumes "apply_kind v e h i p s = Inr t" "core_ok s" "s_policy s = Some p" "s_lifecycle s = ''active''"
  shows "s_events t = s_events s"
  using apply_kind_step [OF assms] by (simp add: step_ok_def same_log_def)

lemma apply_event_jsort:
  assumes "apply_event v e s = Inr t" "json_wf e" "core_ok s"
    "jget ''kind'' e = Some (JStr ''workspace_forked'') \<Longrightarrow> is_obj (jat ''inherited_state'' (jat ''payload'' e))"
  shows "\<exists>u. apply_event True (jsort e) s = Inr u \<and> like t u \<and> s_events u = s_events s @ [jsort e]"
proof -
  obtain h m where h: "event_head e = Inr h" "apply_tail e h m = Inr t"
    and m: "if eh_kind h = ''workspace_created'' then apply_created e (eh_payload h) s = Inr m
     else (\<exists>i p. s_identity s = Some i \<and> s_policy s = Some p \<and> s_events s \<noteq> [] \<and>
       s_lifecycle s = ''active'' \<and> apply_kind v e h i p s = Inr m)"
    using apply_event_Inr [OF assms(1)] by blast
  let ?h = "h\<lparr>eh_payload := jsort (eh_payload h)\<rparr>"
  have head: "event_head (jsort e) = Inr ?h" by (rule event_head_jsort [OF h(1)])
  have wf: "json_wf (eh_payload h)" by (rule event_head_wf [OF h(1) assms(2)])
  show ?thesis
  proof (cases "eh_kind h = ''workspace_created''")
    case True
    then have "apply_created (jsort e) (jsort (eh_payload h)) s = Inr m" "s_events m = s_events s"
      using m apply_created_jsort [OF wf] apply_created_Inr [of e "eh_payload h" s m] by auto
    moreover obtain u where "apply_tail (jsort e) ?h m = Inr u" "like t u" "s_events u = s_events m @ [jsort e]"
      using apply_tail_jsort [OF h(2) like_refl assms(2)] by blast
    ultimately show ?thesis
      using True by (intro exI [of _ u]) (simp add: apply_event_def head trying_def)
  next
    case False
    then obtain i p where ip: "s_identity s = Some i" "s_policy s = Some p" "s_events s \<noteq> []"
        "s_lifecycle s = ''active''" "apply_kind v e h i p s = Inr m"
      using m by auto
    have "plain_payload (eh_kind h) (eh_payload h)"
      using wf assms(4) event_head_Inr [OF h(1)] by (auto simp: plain_payload_def jat_def)
    then obtain n where n: "apply_kind True (jsort e) ?h i p s = Inr n" "like m n"
      using apply_kind_jsort [OF ip(5)] by blast
    have "s_events n = s_events s" using apply_kind_events [OF n(1) assms(3) ip(2,4)] .
    moreover obtain u where "apply_tail (jsort e) ?h n = Inr u" "like t u" "s_events u = s_events n @ [jsort e]"
      using apply_tail_jsort [OF h(2) n(2) assms(2)] by blast
    ultimately show ?thesis
      using False ip n(1) by (intro exI [of _ u]) (simp add: apply_event_def head trying_def need_def)
  qed
qed

end
