(* ===== verification/Ws_Method_Facts.thy ===== *)
theory Ws_Method_Facts
  imports Ws_Replay
begin

text \<open>
  What the methods of a workspace do: the bounded view is the longest suffix that fits, an append
  changes the journal or raises, and a state that is read is within the bounds of its policy.
\<close>

section \<open>States that are read\<close>

lemma read_state_Inr:
  assumes "read_state w = Inr s"
  obtains i p where "project (wk_dir w) (workspace_id w) = Inr s" "state_ok s" "s_identity s = Some i"
    "wi_id i = workspace_id w" "s_policy s = Some p" "policy_ok p" "identity_ok i" "s_events s \<noteq> []"
    "ensure_bounds p False s = Inr ()"
proof -
  have p: "project (wk_dir w) (workspace_id w) = Inr s"
    using assms by (simp add: read_state_def read_journal_def on_err_eq_Inr_iff)
  have ok: "state_ok s" "map_option wi_id (s_identity s) = Some (workspace_id w)"
    using project_Inr(1,3,5) [OF p] by auto
  obtain i where i: "s_identity s = Some i" "wi_id i = workspace_id w" using ok(2) by auto
  then have "s_events s \<noteq> []" using ok(1) by (auto simp: state_ok_def log_ok_def)
  moreover from this obtain q where q: "s_policy s = Some q"
    using ok(1) by (auto simp: state_ok_def log_ok_def)
  ultimately show thesis
    using that [OF p ok(1) i q] ok(1) i q by (simp add: state_ok_def core_ok_def log_ok_def)
qed

section \<open>The size of a context\<close>

lemma entries_json_ok: "list_all entry_ok es \<Longrightarrow> json_ok (JArr (map entry_to_dict es))"
  using entry.enc_ok by (auto simp: list_all_iff)

lemma context_bytes_total:
  "list_all entry_ok es \<Longrightarrow> context_bytes es = Inr (length (dumps (JArr (map entry_to_dict es))))"
  unfolding context_bytes_def by (subst ws_canonical_ok [OF entries_json_ok]) simp_all

lemma length_join_Cons: "length (join_with sep xs) \<le> length (join_with sep (x # xs))"
  by (cases xs) auto

lemma context_grows:
  "length (dumps (JArr (map entry_to_dict es))) \<le> length (dumps (JArr (map entry_to_dict (e # es))))"
  using length_join_Cons by simp

section \<open>The bounded view\<close>

definition fits :: "int \<Rightarrow> int \<Rightarrow> ctx_entry list \<Rightarrow> bool" where
  "fits entry_limit byte_limit es \<longleftrightarrow>
     int (length es) \<le> entry_limit \<and> int (length (dumps (JArr (map entry_to_dict es)))) \<le> byte_limit"

fun longest_fit :: "int \<Rightarrow> int \<Rightarrow> ctx_entry list \<Rightarrow> ctx_entry list" where
  "longest_fit entry_limit byte_limit [] = []"
| "longest_fit entry_limit byte_limit (e # es) =
     (if fits entry_limit byte_limit (e # es) then e # es else longest_fit entry_limit byte_limit es)"

lemma fits_Cons: "fits l b (e # es) \<Longrightarrow> fits l b es"
  using context_grows [of es e] by (auto simp: fits_def)

lemma fits_drop: "fits l b es \<Longrightarrow> fits l b (drop n es)"
proof (induction n arbitrary: es)
  case (Suc n)
  then show ?case by (cases es) (auto dest: fits_Cons)
qed simp

lemma longest_fit_skip:
  assumes "\<And>m. m < n \<Longrightarrow> \<not> fits l b (drop m es)" "n \<le> length es"
  shows "longest_fit l b es = longest_fit l b (drop n es)"
  using assms
proof (induction n arbitrary: es)
  case (Suc n)
  then obtain x xs where es: "es = x # xs" by (cases es) auto
  have "\<not> fits l b es" using Suc.prems(1) [of 0] by simp
  moreover have "longest_fit l b xs = longest_fit l b (drop n xs)"
    using Suc.prems(2) by (intro Suc.IH) (use Suc.prems(1) [of "Suc _"] in \<open>auto simp: es\<close>)
  ultimately show ?case by (simp add: es)
qed simp

lemma not_fits_longer:
  assumes "\<not> fits l b (drop n es)" "m \<le> n"
  shows "\<not> fits l b (drop m es)"
  using assms fits_drop [of l b "drop m es" "n - m"] by auto

lemma longest_fit_step:
  assumes "n < length es"
  shows "longest_fit l b (drop n es) =
    (if fits l b (drop n es) then drop n es else longest_fit l b (drop (Suc n) es))"
  using assms by (subst (1 2 3) Cons_nth_drop_Suc [symmetric]) auto

lemma pick_suffix_longest:
  assumes "list_all entry_ok es" "n \<le> length es"
  shows "pick_suffix l b es n (longest_fit l b (drop n es)) = Inr (longest_fit l b es)"
  using assms(2)
proof (induction n)
  case (Suc n)
  have "list_all entry_ok (drop n es)"
    using assms(1) by (auto simp: list_all_iff dest: in_set_dropD)
  note bytes = context_bytes_total [OF this]
  have n: "n < length es" using Suc.prems by simp
  let ?c = "drop n es"
  have IH: "pick_suffix l b es n (longest_fit l b ?c) = Inr (longest_fit l b es)"
    using Suc by simp
  have stop: "longest_fit l b es = longest_fit l b (drop (Suc n) es)" if "\<not> fits l b ?c"
    using not_fits_longer [OF that] Suc.prems by (intro longest_fit_skip) (auto simp: less_Suc_eq_le)
  show ?case
  proof (cases "fits l b ?c")
    case True
    then show ?thesis
      using IH n by (simp add: longest_fit_step [OF n] fits_def bytes Let_def del: dumps.simps)
  next
    case False
    then show ?thesis
      using IH stop n
      by (auto simp: longest_fit_step [OF n] fits_def bytes Let_def simp del: dumps.simps)
  qed
qed simp


lemma pick_suffix_all:
  assumes "list_all entry_ok es"
  shows "pick_suffix l b es (length es) [] = Inr (longest_fit l b es)"
  using pick_suffix_longest [OF assms order_refl, of l b] by simp

lemma longest_fit_length: "length (longest_fit l b es) \<le> length es"
  by (induction l b es rule: longest_fit.induct) auto

lemma lock_strict: "package_lock ps = Inr l \<Longrightarrow> json_ok (opt_str l)"
  by (auto simp: package_lock_def rbind_eq_Inr_iff strict_utf8_def opt_str_def
      dest!: ws_digest_shape domain_digest_shape is_digest_strict split: if_splits)

lemma logical_digest_total:
  assumes "state_ok s" "s_identity s = Some i" "s_policy s = Some p"
  shows "\<exists>d. logical_digest s = Inr d \<and> is_digest d"
proof -
  have core: "core_ok s" using assms(1) by (simp add: state_ok_def)
  have "list_all json_ok (map (\<lambda>q. anchor_to_dict (snd q)) (sort_key fst (s_sources s)))"
    using core anchor.enc_ok by (auto simp: core_ok_def sources_ok_def list_all_iff)
  moreover have "list_all json_ok (map (\<lambda>q. pin_to_dict (snd q)) (sort_key fst (s_pins s)))"
    using core pin.enc_ok by (auto simp: core_ok_def pins_ok_def list_all_iff)
  moreover have "list_all json_ok (map entry_to_dict (s_entries s))"
    using core entry.enc_ok by (auto simp: core_ok_def entries_ok_def list_all_iff)
  moreover have "json_ok (opt_str (s_lock s))" "json_ok (policy_to_dict p)" "strict_utf8 (wi_id i)"
    using core assms(2,3) lock_strict policy.enc_ok is_uuid_strict
    by (auto simp: core_ok_def identity_ok_def)
  ultimately have "json_ok (logical_dict (wi_id i) (state_components p s))"
    by (simp add: logical_dict_def state_components_def strict_utf8_def)
  then show ?thesis
    using assms(2,3) domain_digest_shape
    by (auto simp: logical_digest_def logical_state_def domain_digest_ok)
qed

text \<open>The limits a caller may ask for: within those of the policy.\<close>

definition limit_within :: "int option \<Rightarrow> int \<Rightarrow> bool" where
  "limit_within limit maximum \<longleftrightarrow> (case limit of None \<Rightarrow> True | Some l \<Rightarrow> 0 < l \<and> l \<le> maximum)"

definition limit_value :: "int option \<Rightarrow> int \<Rightarrow> int" where
  "limit_value limit maximum = (case limit of None \<Rightarrow> maximum | Some l \<Rightarrow> l)"

lemma bounded_limit_ok: "limit_within l m \<Longrightarrow> bounded_limit l m = Inr (limit_value l m)"
  by (auto simp: limit_within_def limit_value_def bounded_limit_def wpositive_def split: option.splits)

lemma view_context_total:
  assumes "state_ok s" "s_identity s = Some i" "s_policy s = Some p"
    "set cs \<subseteq> set categories" "limit_within l (po_context_entries p)" "limit_within b (po_context_bytes p)"
  defines "eligible \<equiv> filter (\<lambda>e. en_category e \<in> set cs) (s_entries s)"
  defines "chosen \<equiv> longest_fit (limit_value l (po_context_entries p)) (limit_value b (po_context_bytes p)) eligible"
  shows "\<exists>d. logical_digest s = Inr d \<and> view_context (Some cs) l b s =
    Inr \<lparr>pc_workspace = wi_id i, pc_digest = d, pc_entries = chosen,
      pc_filtered = int (length (s_entries s)) - int (length eligible),
      pc_omitted = int (length eligible) - int (length chosen)\<rparr>"
proof -
  obtain d where d: "logical_digest s = Inr d" "is_digest d"
    using logical_digest_total [OF assms(1-3)] by blast
  have core: "core_ok s" using assms(1) by (simp add: state_ok_def)
  then have "list_all entry_ok eligible"
    by (auto simp: eligible_def core_ok_def entries_ok_def list_all_iff)
  note pick = pick_suffix_all [OF this]
  have "is_uuid (wi_id i)" using core assms(2) by (simp add: core_ok_def identity_ok_def)
  moreover have "length eligible \<le> length (s_entries s)" by (simp add: eligible_def)
  moreover have "length chosen \<le> length eligible" by (simp add: chosen_def longest_fit_length)
  ultimately have "mk_project_context (wi_id i) d chosen
      (int (length (s_entries s)) - int (length eligible)) (int (length eligible) - int (length chosen)) =
    Inr \<lparr>pc_workspace = wi_id i, pc_digest = d, pc_entries = chosen,
      pc_filtered = int (length (s_entries s)) - int (length eligible),
      pc_omitted = int (length eligible) - int (length chosen)\<rparr>"
    using d(2) by (simp add: mk_project_context_def wuuid_def wdigest_def on_text_def)
  then have "view_context (Some cs) l b s = Inr \<lparr>pc_workspace = wi_id i, pc_digest = d, pc_entries = chosen,
      pc_filtered = int (length (s_entries s)) - int (length eligible),
      pc_omitted = int (length eligible) - int (length chosen)\<rparr>"
    using assms(2-4) d(1) bounded_limit_ok [OF assms(5)] bounded_limit_ok [OF assms(6)] pick
    unfolding view_context_def Let_def state_policy_def
    by (simp add: chosen_def eligible_def)
  then show ?thesis using d(1) by blast
qed

section \<open>An append\<close>


lemma state_digest_receipts [simp]: "state_digest (s\<lparr>s_receipts := rs\<rparr>) = state_digest s"
proof -
  have "state_dict i p (s\<lparr>s_receipts := rs\<rparr>) = state_dict i p s" for i p
    by (simp add: state_dict_def)
  then show ?thesis by (simp add: state_digest_def cong: option.case_cong)
qed

lemma receipt_for_event_receipts [simp]:
  "receipt_for_event (s\<lparr>s_receipts := rs\<rparr>) event = receipt_for_event s event"
  by (simp add: receipt_for_event_def)

lemma apply_event_receipt:
  assumes "apply_event v event s = Inr t" "state_ok s"
  shows "\<exists>r. receipt_for_event t event = Inr r \<and> s_receipts t = s_receipts s @ [(wr_event_id r, r)]"
proof -
  obtain h m where h: "event_head event = Inr h" "apply_tail event h m = Inr t" "step_ok s m"
    using apply_event_mid [OF assms] by blast
  let ?m = "m\<lparr>s_events := s_events m @ [event], s_last := eh_digest h\<rparr>"
  obtain r where r: "receipt_for_event ?m event = Inr r" "eh_id h \<notin> set (map fst (s_receipts m))"
      "t = ?m\<lparr>s_receipts := dict_put (eh_id h) r (s_receipts m)\<rparr>"
    using h(2) unfolding apply_tail_def Let_def
    by (auto simp: rbind_eq_Inr_iff trying_Inr need_Inr split: option.splits)
  have "receipt_for_event t event = Inr r"
    using r(1) unfolding r(3) receipt_for_event_receipts .
  moreover have "wr_event_id r = eh_id h"
    using receipt_for_event_Inr [OF r(1)] event_head_Inr [OF h(1)] by (auto simp: receipt_fits_def)
  moreover have "dict_put (eh_id h) r (s_receipts m) = s_receipts m @ [(eh_id h, r)]"
    using r(2) by (intro dict_put_new) auto
  moreover have "s_receipts m = s_receipts s" using h(3) by (simp add: step_ok_def same_log_def)
  ultimately show ?thesis using r(3) by simp
qed

text \<open>
  An append that writes the event of receipt \<open>r\<close>, with the state \<open>t\<close> after it; \<open>y\<close> is what the write
  returns, and \<open>w'\<close> the workspace it leaves.
\<close>

definition attempts ::
  "draw \<Rightarrow> pystr \<Rightarrow> json \<Rightarrow> workspace \<Rightarrow> ws_state \<Rightarrow> json \<Rightarrow> ws_state \<Rightarrow> workspace \<Rightarrow> ws_receipt \<Rightarrow>
     unit res \<Rightarrow> bool"
where
  "attempts dr kind payload w s event t w' r y \<longleftrightarrow>
     read_state w = Inr s \<and> s_lifecycle s = ''active'' \<and>
     event_record (workspace_id w) (int (length (s_events s)) + 1) (wr_event_id r) kind payload (s_last s) = Inr event \<and>
     (\<exists>v. apply_event v event s = Inr t) \<and> s_receipts t = s_receipts s @ [(wr_event_id r, r)] \<and>
     (\<exists>d. write_event (dr_io dr) (event_name (length (s_events s) + 1) (wr_event_digest r))
        (dumps event @ [CHR 0x0A]) (dr_names dr) (dr_inode dr) (wk_dir w) = (d, y) \<and> w' = w\<lparr>wk_dir := d\<rparr>)"

lemma known_event_Inr:
  "known_event kind i f v s = Inr x \<Longrightarrow> x = map_of (s_receipts s) i"
  by (auto simp: known_event_def rbind_eq_Inr_iff split: option.splits)

lemma known_event_Some:
  assumes "known_event kind i f v s = Inr (Some r)"
  shows "\<exists>e. find_event i s = Some e \<and> jat ''kind'' e = JStr kind \<and>
    dumps (f (jat ''payload'' e)) = dumps v"
  using assms
  by (auto simp: known_event_def rbind_eq_Inr_iff of_option_eq_Inr_iff check_eq_Inr_iff same_canonical_def
      dest: ws_canonical_Inr split: option.splits)

definition append_id :: "draw \<Rightarrow> pystr option \<Rightarrow> pystr" where
  "append_id dr event_id = (case event_id of None \<Rightarrow> dr_uuid dr | Some e \<Rightarrow> e)"

lemma append_checks_Inr:
  assumes "append_checks h dr kind payload event_id evidence w = Inr (i, verified, s, known)"
  shows "i = append_id dr event_id \<and> read_state w = Inr s \<and> known_event kind i id payload s = Inr known \<and>
    kind \<in> set event_kinds \<and> kind \<noteq> ''workspace_created'' \<and> set (jkeys payload) = set (payload_keys kind) \<and>
    is_obj payload \<and> reject_sensitive payload = Inr () \<and> hs_locked h \<and>
    verified_evidence h kind payload evidence = Inr verified \<and> (event_id \<noteq> None \<longrightarrow> is_uuid i)"
  using assms unfolding append_checks_def rbind_eq_Inr_iff check_eq_Inr_iff
  by (cases event_id) (auto simp: append_id_def exact_Inr wuuid_Inr)

lemma next_event_Inr:
  assumes "next_event fault kind i payload v pre s wid = Inr (event, t, f, data)"
  shows "\<exists>g p. s_lifecycle s = ''active'' \<and> s_policy s = Some p \<and>
    int (length (s_events s)) + 1 \<le> po_events p \<and>
    event_record wid (int (length (s_events s)) + 1) i kind payload (s_last s) = Inr event \<and>
    apply_event v event s = Inr t \<and> jat ''event_digest'' event = JStr g \<and> is_digest g \<and> pre = Inr () \<and>
    f = event_name (length (s_events s) + 1) g \<and> data = dumps event @ [CHR 0x0A]"
  using assms unfolding next_event_def rbind_eq_Inr_iff check_eq_Inr_iff on_err_eq_Inr_iff
    state_policy_def of_option_eq_Inr_iff
  by (auto simp: wdigest_Inr dest!: ws_canonical_Inr)

lemma append_event_cases:
  assumes "append_event h dr kind payload event_id pre evidence w = (w', x)"
  obtains (failed) e where "x = Inl e" "w' = w"
  | (known) s e r where "x = Inr r" "w' = w" "read_state w = Inr s"
      "map_of (s_receipts s) (append_id dr event_id) = Some r"
      "find_event (append_id dr event_id) s = Some e" "jat ''kind'' e = JStr kind"
      "dumps (jat ''payload'' e) = dumps payload"
  | (attempt) s event t r y where "x = rbind y (\<lambda>_. Inr r)" "attempts dr kind payload w s event t w' r y"
      "wr_event_id r = append_id dr event_id" "map_of (s_receipts s) (append_id dr event_id) = None"
      "kind \<in> set event_kinds" "is_obj payload" "reject_sensitive payload = Inr ()"
proof (cases "append_checks h dr kind payload event_id evidence w")
  case (Inl e)
  then show thesis using assms failed by (auto simp: append_event_def)
next
  case (Inr c)
  obtain i v s k where c: "c = (i, v, s, k)" by (cases c)
  note checks = append_checks_Inr [OF Inr [unfolded c]]
  show thesis
  proof (cases k)
    case (Some r)
    then have "x = Inr r" "w' = w" using assms Inr by (simp_all add: append_event_def c)
    then show thesis
      using known checks known_event_Some [of kind i id payload s r] known_event_Inr [of kind i id payload s k] Some
      by auto
  next
    case None
    show thesis
    proof (cases "next_event (dr_io dr) kind i payload v pre s (workspace_id w)")
      case (Inl e)
      then show thesis using assms \<open>append_checks _ _ _ _ _ _ _ = _\<close> None failed
        by (auto simp: append_event_def publish_event_def c)
    next
      case (Inr q)
      obtain event t f data where q: "q = (event, t, f, data)" by (cases q)
      obtain d y where y: "write_event (dr_io dr) f data (dr_names dr) (dr_inode dr) (wk_dir w) = (d, y)"
        by fastforce
      have x: "x = rbind y (\<lambda>_. receipt_for_event t event)" "w' = w\<lparr>wk_dir := d\<rparr>"
        using assms \<open>append_checks _ _ _ _ _ _ _ = _\<close> None Inr y
        by (cases y; simp add: append_event_def publish_event_def c q)+
      obtain g where g: "s_lifecycle s = ''active''"
          "event_record (workspace_id w) (int (length (s_events s)) + 1) i kind payload (s_last s) = Inr event"
          "apply_event v event s = Inr t" "jat ''event_digest'' event = JStr g"
          "f = event_name (length (s_events s) + 1) g" "data = dumps event @ [CHR 0x0A]"
        using next_event_Inr [OF Inr [unfolded q]] by blast
      have ok: "state_ok s" using checks read_state_Inr by blast
      obtain r where r: "receipt_for_event t event = Inr r" "s_receipts t = s_receipts s @ [(wr_event_id r, r)]"
        using apply_event_receipt [OF g(3) ok] by blast
      have "jget ''event_id'' event = Some (JStr i)"
        using g(2) unfolding event_record_def Let_def rbind_eq_Inr_iff
        by (auto simp: event_unsigned_def jget_def)
      moreover obtain j where "receipt_fits j event r" using receipt_for_event_Inr [OF r(1)] by blast
      ultimately have ids: "wr_event_id r = i" "wr_event_digest r = g"
        using g(4) by (auto simp: receipt_fits_def jat_def)
      show thesis
      proof (rule attempt)
        show "x = rbind y (\<lambda>_. Inr r)" using x(1) r(1) by simp
        show "attempts dr kind payload w s event t w' r y"
          unfolding attempts_def ids using checks g r(2) x(2) y by (auto simp: ids)
        show "wr_event_id r = append_id dr event_id" "map_of (s_receipts s) (append_id dr event_id) = None"
          using checks ids known_event_Inr [of kind i id payload s k] None by auto
        show "kind \<in> set event_kinds" "is_obj payload" "reject_sensitive payload = Inr ()"
          using checks by simp_all
      qed
    qed
  qed
qed


section \<open>The size of an event\<close>

lemma nat_text_length: "n < 10 ^ Suc k \<Longrightarrow> length (nat_text n) \<le> Suc k"
proof (induction k arbitrary: n)
  case 0
  then show ?case by (simp add: nat_text.simps)
next
  case (Suc k)
  have "n div 10 < 10 ^ Suc k" using Suc.prems by auto
  from Suc.IH [OF this] show ?case by (subst nat_text.simps) auto
qed

lemma length_dumps_obj:
  "length (dumps (JObj kvs)) \<le> 2 + sum_list (map (\<lambda>p. length (quote (fst p)) + length (dumps (snd p)) + 2) kvs)"
proof -
  have "sum_list (map (\<lambda>x. length x + 1) (map item_text (sort_key fst kvs))) =
      sum_list (map (\<lambda>x. length x + 1) (map item_text kvs))"
    by (simp only: sum_mset_sum_list [symmetric] mset_map mset_sort)
  also have "\<dots> = sum_list (map (\<lambda>p. length (quote (fst p)) + length (dumps (snd p)) + 2) kvs)"
    by (simp add: item_text_def comp_def)
  finally show ?thesis
    unfolding dumps_obj using length_join [of "CHR '',''" "map item_text (sort_key fst kvs)"] by simp
qed

lemma uuid_length: "is_uuid s \<Longrightarrow> length s = 36"
  by (simp add: is_uuid_def)

lemma kind_length: "kind \<in> set event_kinds \<Longrightarrow> length kind \<le> 20"
  by (auto simp: event_kinds_def)

text \<open>What an event adds to its payload: at most 4000 bytes.\<close>

lemma event_size:
  assumes "event_record w (int n) eid kind payload previous = Inr e" "is_uuid w" "is_uuid eid"
    "kind \<in> set event_kinds" "n < 10 ^ 16" "length previous \<le> 71"
  shows "length (dumps e) \<le> length (dumps payload) + 4000"
proof -
  obtain g where g: "ws_digest (JObj (event_unsigned w (int n) eid kind payload previous)) = Inr g"
      "e = JObj (event_unsigned w (int n) eid kind payload previous @ [(''event_digest'', JStr g)])"
    using assms(1) unfolding event_record_def Let_def rbind_eq_Inr_iff sum.inject by metis
  have "length g = 71" using digest_length ws_digest_shape g(1) by blast
  moreover have "length (int_text (int n)) \<le> 16"
    using nat_text_length [of n 15] assms(5) by (simp add: int_text_def)
  moreover note uuid_length [OF assms(2)] uuid_length [OF assms(3)] kind_length [OF assms(4)] assms(6)
  moreover note length_quote [of w] length_quote [of eid] length_quote [of kind] length_quote [of previous]
    length_quote [of g] length_quote [of "''schema_version''"] length_quote [of "''workspace_id''"]
    length_quote [of "''sequence''"] length_quote [of "''event_id''"] length_quote [of "''kind''"]
    length_quote [of "''payload''"] length_quote [of "''previous_digest''"] length_quote [of "''event_digest''"]
    length_quote [of "''leanctx.workspace-event/v1''"]
  moreover note length_dumps_obj [of "event_unsigned w (int n) eid kind payload previous @ [(''event_digest'', JStr g)]"]
  ultimately show ?thesis
    unfolding g(2) by (simp add: event_unsigned_def del: dumps.simps(7))
qed

section \<open>A new event is read back\<close>

text \<open>
  What an append needs for its event to be read back: temporary names as the code makes them, an
  inode no file has, an event number of at most sixteen digits and a payload that leaves the event below
  the size the reader accepts. The writer does not test the last two.
\<close>

definition append_room :: "draw \<Rightarrow> pystr \<Rightarrow> json \<Rightarrow> workspace \<Rightarrow> ws_state \<Rightarrow> bool" where
  "append_room dr kind payload w s \<longleftrightarrow>
     list_all is_temporary (dr_names dr) \<and> dr_inode dr \<notin> snd ` set (ed_names (wk_dir w)) \<and>
     length (s_events s) + 1 < 10 ^ 16 \<and> json_ok payload \<and>
     (kind = ''workspace_forked'' \<longrightarrow> is_obj (jat ''inherited_state'' payload)) \<and>
     length (dumps payload) + 4000 < MAX_EVENT_BYTES"

lemma last_digest_ok: "state_ok s \<Longrightarrow> s_events s \<noteq> [] \<Longrightarrow> is_digest (s_last s)"
proof -
  assume ok: "state_ok s" "s_events s \<noteq> []"
  then have log: "log_ok s" by (simp add: state_ok_def)
  then have "length (s_events s) = length (s_receipts s)"
    by (auto simp: log_ok_def dest: list_all2_lengthD)
  then have ne: "s_receipts s \<noteq> []" using ok(2) by auto
  then show "is_digest (s_last s)"
    using receipt_of_log [OF log last_in_set [OF ne]] log by (auto simp: log_ok_def receipt_fits_def)
qed

text \<open>
  What the next reader sees after a write was attempted: the old state, if it raised, or the event, if
  it returned or raised after it had published.
\<close>

lemma attempt_read:
  assumes "attempts dr kind payload w s event t w' r y" "append_room dr kind payload w s" "kind \<in> set event_kinds"
    "is_obj payload" "reject_sensitive payload = Inr ()"
  obtains (unpublished) e where "y = Inl e" "read_state w' = Inr s" "dr_io dr = NoFault \<Longrightarrow> w' = w"
  | (published) u where "y = Inr () \<or> y = Inl WorkspaceIOError \<and> late_fault (dr_io dr)"
      "read_state w' = Inr u" "like t u" "s_events u = s_events s @ [jsort event]"
      "is_record event (workspace_id w) (Suc (length (s_events s))) (wr_event_id r) kind payload (wr_event_digest r)"
      "workspace_id w' = workspace_id w"
proof -
  let ?n = "Suc (length (s_events s))" and ?w = "workspace_id w"
  let ?f = "event_name ?n (wr_event_digest r)"
  obtain v d where a: "read_state w = Inr s"
      "event_record ?w (int ?n) (wr_event_id r) kind payload (s_last s) = Inr event"
      "apply_event v event s = Inr t" "s_receipts t = s_receipts s @ [(wr_event_id r, r)]"
      "write_event (dr_io dr) ?f (dumps event @ [CHR 0x0A]) (dr_names dr) (dr_inode dr) (wk_dir w) = (d, y)"
      "w' = w\<lparr>wk_dir := d\<rparr>"
    using assms(1) by (auto simp: attempts_def add.commute)
  note room = assms(2) [unfolded append_room_def]
  obtain i where s: "project (wk_dir w) ?w = Inr s" "state_ok s" "s_identity s = Some i" "wi_id i = ?w"
      "identity_ok i" "s_events s \<noteq> []"
    using read_state_Inr [OF a(1)] by blast
  obtain j r' where r: "receipt_for_event t event = Inr r'" "s_receipts t = s_receipts s @ [(wr_event_id r', r')]"
    using apply_event_receipt [OF a(3) s(2)] by blast
  then have "r' = r" using a(4) by simp
  then obtain j where fits: "receipt_fits j event r" using receipt_for_event_Inr r(1) by blast
  then have dig: "jget ''event_digest'' event = Some (JStr (wr_event_digest r))" "is_digest (wr_event_digest r)"
    by (simp_all add: receipt_fits_def)
  have rec: "record_ok ?w ?n (wr_event_id r) kind payload (s_last s)"
    using fits s(4,5,6) room assms(3-5) last_digest_ok [OF s(2,6)]
    by (auto simp: record_ok_def receipt_fits_def identity_ok_def)
  obtain g where g: "is_record event ?w ?n (wr_event_id r) kind payload g"
    using event_record_is_record [OF a(2)] fits by (auto simp: receipt_fits_def)
  then have gd: "g = wr_event_digest r" using fits by (auto simp: is_record_def receipt_fits_def)
  have "json_ok event" by (rule record_json_ok [OF rec a(2)])
  then have wf: "json_wf event" by (rule json_ok_wf)
  have fork: "is_obj (jat ''inherited_state'' (jat ''payload'' event))"
    if "jget ''kind'' event = Some (JStr ''workspace_forked'')"
    using that g room by (auto simp: is_record_def jat_def)
  obtain u where u: "apply_event True (jsort event) s = Inr u" "like t u" "s_events u = s_events s @ [jsort event]"
    using apply_event_jsort [OF a(3) wf _ fork] s(2) by (auto simp: state_ok_def)
  have n: "?n < 10 ^ 16" and inode: "dr_inode dr \<notin> snd ` set (ed_names (wk_dir w))"
    and names: "list_all is_temporary (dr_names dr)"
    using room by simp_all
  have event_name_file: "event_file ?f \<noteq> None" using event_file_name [OF n dig(2)] by simp
  have read: "read_state w' = read_journal d ?w" "read_state w = read_journal (wk_dir w) ?w"
    by (simp_all add: read_state_def a(6) workspace_id_def)
  from a(5) inode names event_name_file show thesis
  proof (cases rule: write_event_project)
    case (unpublished e)
    show thesis
    proof (rule that(1) [OF unpublished(1)])
      show "read_state w' = Inr s"
        using read a(1) unpublished(3) [of ?w] by (simp add: read_journal_def)
      show "w' = w" if "dr_io dr = NoFault" using unpublished(2) that a(6) by simp
    qed
  next
    case (published tmp)
    have "project d ?w = Inr u"
      unfolding published(4)
    proof (rule project_published [OF s(1) published(2,3) rec a(2) dig refl n _ u(1)])
      show "length (dumps event) < MAX_EVENT_BYTES"
        using room event_size [OF a(2)] rec last_digest_ok [OF s(2,6), THEN digest_length]
        by (simp add: record_ok_def)
    qed simp
    then have "read_state w' = Inr u" by (simp add: read(1) read_journal_def)
    then show thesis
      using published(1) u(2,3) g gd a(6) by (intro that(2)) (auto simp: workspace_id_def)
  qed
qed

lemma append_reads_back:
  assumes "attempts dr kind payload w s event t w' r (Inr ())" "append_room dr kind payload w s"
    "kind \<in> set event_kinds" "is_obj payload" "reject_sensitive payload = Inr ()"
  shows "\<exists>u. read_state w' = Inr u \<and> like t u \<and> s_events u = s_events s @ [jsort event] \<and>
    is_record event (workspace_id w) (Suc (length (s_events s))) (wr_event_id r) kind payload (wr_event_digest r) \<and>
    workspace_id w' = workspace_id w"
  using assms by (cases rule: attempt_read) auto

text \<open>The receipts of two states that differ in order only, and the last event of a log.\<close>

lemma find_snoc: "find P xs = None \<Longrightarrow> P x \<Longrightarrow> find P (xs @ [x]) = Some x"
  by (induction xs) (auto split: if_splits)

lemma appended_event_found:
  assumes "log_ok u" "s_events u = es @ [e]" "jget ''event_id'' e = Some (JStr i)"
  shows "find_event i u = Some e"
proof -
  let ?P = "\<lambda>x. jget ''event_id'' x = Some (JStr i)"
  have all: "list_all2 (\<lambda>e q. jget ''event_id'' e = Some (JStr (fst q))) (s_events u) (s_receipts u)"
    using assms(1) unfolding log_ok_def by (auto simp: receipt_fits_def elim!: list_all2_mono)
  have len: "length (s_events u) = length (s_receipts u)" using all by (rule list_all2_lengthD)
  have ids: "jget ''event_id'' (s_events u ! k) = Some (JStr (map fst (s_receipts u) ! k))"
    if "k < length (s_events u)" for k
    using list_all2_nthD [OF all that] that len by simp
  have dist: "distinct (map fst (s_receipts u))" using assms(1) by (simp add: log_ok_def)
  have "\<not> ?P x" if x: "x \<in> set es" for x
  proof
    assume p: "?P x"
    obtain k where k: "k < length es" "x = es ! k" using x by (auto simp: in_set_conv_nth)
    then have "map fst (s_receipts u) ! k = i" using ids [of k] p assms(2) by (simp add: nth_append)
    moreover have "map fst (s_receipts u) ! length es = i" using ids [of "length es"] assms(2,3) by simp
    ultimately show False
      using dist k(1) len assms(2) by (metis distinct_conv_nth length_append_singleton length_map less_SucI less_not_refl lessI)
  qed
  then have "find ?P es = None" by (auto simp: find_None_iff)
  then show ?thesis using assms(2,3) by (simp add: find_event_def find_snoc)
qed

text \<open>
  An append whose event is in the log can be made again, by any host that has the lock and accepts the
  evidence; it returns the receipt of the recorded event.
\<close>

lemma append_recorded:
  assumes "append_checks h dr kind payload (Some i) evidence w = Inr (j, v, s, k)"
    "read_state w' = Inr u" "hs_locked h'" "verified_evidence h' kind payload evidence = Inr v'"
    "known_event kind i id payload u = Inr (Some r)"
  shows "append_event h' dr' kind payload (Some i) pre' evidence w' = (w', Inr r)"
proof -
  have "append_checks h' dr' kind payload (Some i) evidence w' = Inr (i, v', u, Some r)"
    using assms by (auto simp: append_checks_def rbind_eq_Inr_iff check_eq_Inr_iff wuuid_Inr)
  then show ?thesis by (simp add: append_event_def)
qed

lemma append_again:
  assumes "append_event h dr kind payload (Some i) pre evidence w = (w', x)"
    "read_state w = Inr s" "append_room dr kind payload w s"
    "x = Inr r' \<or> read_state w' \<noteq> Inr s"
    "hs_locked h'" "verified_evidence h' kind payload evidence = Inr v'"
  shows "\<exists>r. append_event h' dr' kind payload (Some i) pre' evidence w' = (w', Inr r) \<and> (x = Inr r' \<longrightarrow> r = r')"
  using assms(1)
proof (cases rule: append_event_cases)
  case (failed e)
  then show ?thesis using assms(2,4) by simp
next
  case (known s' e r)
  obtain j v k where c: "append_checks h dr kind payload (Some i) evidence w = Inr (j, v, s, k)"
    using assms(1,2) known(1) append_checks_Inr
    by (fastforce simp: append_event_def split: sum.splits)
  have j: "j = i" using append_checks_Inr [OF c] by (simp add: append_id_def)
  then have ke: "known_event kind i id payload s = Inr k" using append_checks_Inr [OF c] by auto
  then have "known_event kind i id payload s = Inr (Some r)"
    using known_event_Inr [OF ke] known(3,4) assms(2) by (simp add: append_id_def)
  from append_recorded [OF c _ assms(5,6) this, of w'] show ?thesis
    using known assms(2) by simp
next
  case (attempt s' event t r y)
  have s: "s' = s" "wr_event_id r = i" using attempt(2,3) assms(2) by (simp_all add: attempts_def append_id_def)
  obtain j v k where c: "append_checks h dr kind payload (Some i) evidence w = Inr (j, v, s, k)"
  proof (cases "append_checks h dr kind payload (Some i) evidence w")
    case (Inl e)
    then have "x = Inl e" "w' = w" using assms(1) by (simp_all add: append_event_def)
    then show thesis using assms(2,4) by simp
  next
    case (Inr c)
    then show thesis using that append_checks_Inr assms(2) by (cases c) fastforce
  qed
  from attempt(2) [unfolded s(1)] assms(3) attempt(5-7) show ?thesis
  proof (cases rule: attempt_read)
    case (unpublished e)
    then show ?thesis using attempt(1) assms(4) by simp
  next
    case (published u)
    have x: "x = Inr r' \<longrightarrow> r = r'" using attempt(1) by (cases y) auto
    have rc: "map_of (s_receipts u) i = Some r"
      using like_fields(11) [OF published(3)] attempt(2,4) s by (simp add: attempts_def map_add_def append_id_def)
    have "state_ok u" using read_state_Inr published(2) by blast
    then have f: "find_event i u = Some (jsort event)"
      using appended_event_found [OF _ published(4)] published(5) s
      by (simp add: state_ok_def is_record_def jget_jsort_any)
    have fields: "jat ''kind'' (jsort event) = JStr kind" "jat ''payload'' (jsort event) = jsort payload"
      using published(5) by (simp_all add: is_record_def jat_def jget_jsort_any)
    have ok: "json_ok payload" using assms(3) by (simp add: append_room_def)
    have "known_event kind i id payload u = Inr (Some r)"
      using rc f fields by (simp add: known_event_def same_canonical_def ws_canonical_ok [OF ok])
    from append_recorded [OF c published(2) assms(5,6) this] x show ?thesis by blast
  qed
qed

end
