(* ===== verification/Ws_Calls.thy ===== *)
theory Ws_Calls
  imports Ws_Method_Facts
begin

text \<open>
  The calls a client of \<open>ContextWorkspace\<close> can make on one workspace, as data, and what holds of all
  of them: the only change any of them makes to a journal is to write events. A property of the
  journal that every append keeps, and that carries from one call to the next, is shown once for
  all methods.
\<close>

section \<open>Calls\<close>

datatype ws_call =
    BindSource host pystr context_source
  | AttachSource host draw source_anchor "ctx_receipt list" "pystr option"
  | UpdateSource host draw source_anchor "ctx_receipt list" "pystr option"
  | StartSession host draw pystr pystr context_source "pystr option" "pystr option" bool pystr pystr
      engine_reply nat "pystr option"
  | AttachSession host draw nat session "pystr list" "pystr option"
  | CommitContext host draw "json list" "(nat \<times> session) option" "pystr option"
  | SaveCheckpoint host draw "pystr option" pystr "pystr option"
  | Restore host draw checkpoint "pystr option"
  | PinPackage host draw package_pin "pystr option"
  | RecordSealed host draw package_inspection
  | SeedFrom host draw package_inspection bool bool
  | Tighten host draw ws_policy "pystr option"
  | Complete host draw "pystr option"
  | Abort host draw pystr "pystr option"
  | ForkWorkspace host draw pystr fork_draw fork_request "checkpoint option"
  | ApplyHandoff host draw draw pystr handoff "checkpoint option" "pystr option"

text \<open>The workspace a call leaves and the exception it raises, if any.\<close>

definition outcome :: "workspace \<times> 'a res \<Rightarrow> workspace \<times> exn option" where
  "outcome q = (fst q, case snd q of Inl e \<Rightarrow> Some e | Inr _ \<Rightarrow> None)"

fun run_call :: "ws_call \<Rightarrow> workspace \<Rightarrow> workspace \<times> exn option" where
  "run_call (BindSource h i source) w = outcome (bind_local_source h i source w)"
| "run_call (AttachSource h dr a evidence eid) w = outcome (attach_source h dr a evidence eid w)"
| "run_call (UpdateSource h dr a evidence eid) w = outcome (update_source h dr a evidence eid w)"
| "run_call (StartSession h dr task i source sid tid fail_open fs ft reply n eid) w =
     outcome (start_session h dr task i source sid tid fail_open fs ft reply n eid w)"
| "run_call (AttachSession h dr n x ids eid) w = outcome (attach_session h dr n x ids eid w)"
| "run_call (CommitContext h dr entries x eid) w = outcome (commit_context h dr entries x eid w)"
| "run_call (SaveCheckpoint h dr cid fresh eid) w = outcome (save_checkpoint h dr cid fresh eid w)"
| "run_call (Restore h dr c eid) w = outcome (restore h dr c eid w)"
| "run_call (PinPackage h dr pin eid) w = outcome (pin_package h dr pin eid w)"
| "run_call (RecordSealed h dr i) w = outcome (record_sealed_package h dr i w)"
| "run_call (SeedFrom h dr i trusted allow) w = outcome (seed_from_package h dr i trusted allow w)"
| "run_call (Tighten h dr q eid) w = outcome (tighten_policy h dr q eid w)"
| "run_call (Complete h dr eid) w = outcome (ws_complete h dr eid w)"
| "run_call (Abort h dr reason eid) w = outcome (ws_abort h dr reason eid w)"
| "run_call (ForkWorkspace h dr fresh fd r c) w = outcome (fork_workspace h dr fresh fd r c w)"
| "run_call (ApplyHandoff h dr0 dr fresh ho c eid) w = outcome (ws_apply_handoff h dr0 dr fresh ho c eid w)"

text \<open>The draws of the events a call may publish, in order.\<close>

fun call_draws :: "ws_call \<Rightarrow> draw list" where
  "call_draws (BindSource h i source) = []"
| "call_draws (AttachSource h dr a evidence eid) = [dr]"
| "call_draws (UpdateSource h dr a evidence eid) = [dr]"
| "call_draws (StartSession h dr task i source sid tid fail_open fs ft reply n eid) = [dr]"
| "call_draws (AttachSession h dr n x ids eid) = [dr]"
| "call_draws (CommitContext h dr entries x eid) = [dr]"
| "call_draws (SaveCheckpoint h dr cid fresh eid) = [dr]"
| "call_draws (Restore h dr c eid) = [dr]"
| "call_draws (PinPackage h dr pin eid) = [dr]"
| "call_draws (RecordSealed h dr i) = [dr]"
| "call_draws (SeedFrom h dr i trusted allow) = [dr]"
| "call_draws (Tighten h dr q eid) = [dr]"
| "call_draws (Complete h dr eid) = [dr]"
| "call_draws (Abort h dr reason eid) = [dr]"
| "call_draws (ForkWorkspace h dr fresh fd r c) = [dr]"
| "call_draws (ApplyHandoff h dr0 dr fresh ho c eid) = [dr0, dr]"

section \<open>Properties of the journal that every append keeps\<close>

locale journal_property =
  fixes keeps :: "draw list \<Rightarrow> workspace \<Rightarrow> workspace \<Rightarrow> bool"
  assumes same: "wk_dir w' = wk_dir w \<Longrightarrow> wk_created w' = wk_created w \<Longrightarrow> keeps drs w w'"
    and appended: "append_event h dr kind payload eid pre evidence w = (w', x) \<Longrightarrow> keeps [dr] w w'"
    and chained: "keeps xs w u \<Longrightarrow> keeps ys u v \<Longrightarrow> keeps (xs @ ys) w v"
begin

lemma kept: "keeps drs w w"
  by (rule same) simp_all

lemma relabel:
  assumes "keeps drs w v" "wk_dir u = wk_dir v" "wk_created u = wk_created v"
  shows "keeps drs w u"
  using chained [OF assms(1) same [OF assms(2,3), of "[]"]] by simp

lemma relabel_first:
  assumes "keeps drs v u" "wk_dir v = wk_dir w" "wk_created v = wk_created w"
  shows "keeps drs w u"
  using chained [OF same [OF assms(2,3), of "[]"] assms(1)] by simp

lemma bound:
  "keeps drs w v \<Longrightarrow> (\<And>a. r = Inr a \<Longrightarrow> keeps drs w (fst (f a))) \<Longrightarrow> keeps drs w (fst (wbind r f v))"
  by (simp add: wbind_def split: sum.split)

lemma unless:
  "keeps drs w v \<Longrightarrow> keeps drs w (fst (f ())) \<Longrightarrow> keeps drs w (fst (unless_known r f v))"
  by (simp add: unless_known_def wbind_def split: sum.split option.split)

lemma append_kept: "keeps [dr] w (fst (append_event h dr kind payload eid pre evidence w))"
  by (rule appended) (rule prod.collapse [symmetric])

lemma append_then:
  assumes "\<And>w' r. append_event h dr kind payload eid pre evidence w = (w', Inr r) \<Longrightarrow>
    keeps [dr] w w' \<Longrightarrow> keeps [dr] w (fst (f w' r))"
  shows "keeps [dr] w (fst (case append_event h dr kind payload eid pre evidence w of
    (w', Inl e) \<Rightarrow> (w', Inl e) | (w', Inr r) \<Rightarrow> f w' r))"
  using assms append_kept [of dr w h kind payload eid pre evidence]
  by (cases "append_event h dr kind payload eid pre evidence w") (auto split: sum.split)

lemmas steps = bound unless append_kept append_then kept

lemma attach_source_kept: "keeps [dr] w (fst (attach_source h dr a evidence eid w))"
  unfolding attach_source_def Let_def by (intro steps)

lemma update_source_kept: "keeps [dr] w (fst (update_source h dr a evidence eid w))"
  unfolding update_source_def by (intro steps)

lemma commit_context_kept: "keeps [dr] w (fst (commit_context h dr entries x eid w))"
  unfolding commit_context_def Let_def by (intro steps) (auto intro!: steps)

lemma save_checkpoint_kept: "keeps [dr] w (fst (save_checkpoint h dr cid fresh eid w))"
  unfolding save_checkpoint_def by (intro steps) simp

lemma restore_kept: "keeps [dr] w (fst (restore h dr c eid w))"
  unfolding restore_def by (intro steps) (simp_all add: wbind_def split: sum.split)

lemma pin_package_kept: "keeps [dr] w (fst (pin_package h dr pin eid w))"
  unfolding pin_package_def by (intro steps)

lemma record_sealed_kept: "keeps [dr] w (fst (record_sealed_package h dr i w))"
  unfolding record_sealed_package_def by (intro steps)

lemma seed_kept: "keeps [dr] w (fst (seed_from_package h dr i trusted allow w))"
  unfolding seed_from_package_def by (intro steps) (simp_all add: wbind_def split: sum.split)

lemma tighten_kept: "keeps [dr] w (fst (tighten_policy h dr q eid w))"
  unfolding tighten_policy_def by (intro steps)

lemma complete_kept: "keeps [dr] w (fst (ws_complete h dr eid w))"
  unfolding ws_complete_def by (intro steps)

lemma abort_kept: "keeps [dr] w (fst (ws_abort h dr reason eid w))"
  unfolding ws_abort_def by (intro steps)

lemma bind_kept: "keeps drs w (fst (bind_local_source h i source w))"
  unfolding bind_local_source_def by (intro bound kept) (simp add: same)

lemma append_session_kept: "keeps [dr] w (fst (append_session h dr n sid tid ids eid w))"
  unfolding append_session_def
  using append_kept [of dr w h "''session_attached''" "session_payload sid tid ids" eid "Inr ()" "[]"]
  by (cases "append_event h dr ''session_attached'' (session_payload sid tid ids) eid (Inr ()) [] w")
    (auto intro: relabel simp: release_session_def keep_session_def split: sum.split)

lemma claim_session_dir: "claim_session n w = Inr w1 \<Longrightarrow> wk_dir w1 = wk_dir w \<and> wk_created w1 = wk_created w"
  by (auto simp: claim_session_def split: option.splits if_splits)

lemma start_session_kept:
  "keeps [dr] w (fst (start_session h dr task i source sid tid fail_open fs ft reply n eid w))"
  unfolding start_session_def
proof (rule bound [OF kept], goal_cases)
  case (1 q)
  obtain s w1 where q: "q = (s, w1)" by (cases q)
  have "claim_session n w = Inr w1" using 1 unfolding q by (auto simp: rbind_eq_Inr_iff)
  from claim_session_dir [OF this]
  have "keeps [dr] w (fst (append_session h dr n (ss_session_id s) (ss_task_id s) [i] eid w1))"
    by (intro relabel_first [OF append_session_kept]) simp_all
  then show ?case
    unfolding q
    by (cases "append_session h dr n (ss_session_id s) (ss_task_id s) [i] eid w1") (auto split: sum.split)
qed

lemma attach_session_kept: "keeps [dr] w (fst (attach_session h dr n x ids eid w))"
  unfolding attach_session_def
proof (rule bound [OF kept], goal_cases)
  case (1 q)
  obtain xs sid tid s w1 known where q: "q = (xs, sid, tid, s, w1, known)" by (cases q)
  have "claim_session n w = Inr w1" using 1 unfolding q by (auto simp: rbind_eq_Inr_iff)
  note dir = claim_session_dir [OF this]
  have keep: "keeps [dr] w (keep_session sid n w1)"
    using dir by (intro same) (simp_all add: keep_session_def)
  have "keeps [dr] w (fst (append_session h dr n sid tid xs eid w1))"
    using dir by (intro relabel_first [OF append_session_kept]) simp_all
  then show ?case
    using keep unfolding q by (auto intro!: steps split: option.split)
qed

text \<open>A checkpoint that is taken first, or given.\<close>

lemma save_or_given:
  "keeps [dr] w (fst (case c of None \<Rightarrow> save_checkpoint h dr None fresh None w | Some c \<Rightarrow> (w, Inr c)))"
  by (cases c) (simp_all add: save_checkpoint_kept kept)

lemma fork_kept: "keeps [dr] w (fst (fork_workspace h dr fresh fd r c w))"
  unfolding fork_workspace_def
proof (rule bound [OF kept], goal_cases)
  case 1
  let ?q = "case c of None \<Rightarrow> save_checkpoint h dr None fresh None w | Some c \<Rightarrow> (w, Inr c)"
  show ?case
    using save_or_given [where c = c and h = h and fresh = fresh and dr = dr and w = w]
    by (cases ?q) (auto split: sum.split)
qed

lemma apply_handoff_kept: "keeps [dr0, dr] w (fst (ws_apply_handoff h dr0 dr fresh ho c eid w))"
  unfolding ws_apply_handoff_def
proof (rule bound [OF kept], goal_cases)
  case (1 s)
  let ?q = "case c of None \<Rightarrow> save_checkpoint h dr0 None fresh None w | Some c \<Rightarrow> (w, Inr c)"
  obtain w1 x where q: "?q = (w1, x)" by (cases ?q)
  have first: "keeps [dr0] w w1"
    using save_or_given [where c = c and h = h and fresh = fresh and dr = dr0 and w = w] by (simp add: q)
  have "keeps ([dr0] @ [dr]) w (fst (wbind r (\<lambda>adm. append_event h dr kind (f adm) eid pre ev w1) w1))"
    for r :: "admission res" and f kind pre ev
    by (rule chained [OF first]) (intro steps)
  moreover have "keeps ([dr0] @ [dr]) w w1" by (rule chained [OF first kept])
  ultimately show ?case unfolding q by (auto simp: kept split: option.split sum.split)
qed

lemma call_kept: "keeps (call_draws c) w (fst (run_call c w))"
  by (cases c) (simp_all add: outcome_def attach_source_kept update_source_kept commit_context_kept
      save_checkpoint_kept restore_kept pin_package_kept record_sealed_kept seed_kept tighten_kept
      complete_kept abort_kept bind_kept start_session_kept attach_session_kept fork_kept apply_handoff_kept)

end


section \<open>Files are only added\<close>

text \<open>
  \<open>writes drs d d'\<close>: \<open>d'\<close> is \<open>d\<close> after writes of events under some of the draws, in their order; a write may
  have failed.
\<close>

fun writes :: "draw list \<Rightarrow> events_dir \<Rightarrow> events_dir \<Rightarrow> bool" where
  "writes [] d d' \<longleftrightarrow> d' = d"
| "writes (dr # drs) d d' \<longleftrightarrow>
     writes drs d d' \<or>
     (\<exists>f data. writes drs (fst (write_event (dr_io dr) f data (dr_names dr) (dr_inode dr) d)) d')"

lemma writes_refl: "writes drs d d"
  by (induction drs arbitrary: d) auto

lemma writes_append: "writes xs d e \<Longrightarrow> writes ys e f \<Longrightarrow> writes (xs @ ys) d f"
  by (induction xs d e rule: writes.induct) auto

lemma append_writes:
  assumes "append_event h dr kind payload eid pre evidence w = (w', x)"
  shows "w' = w \<or> (\<exists>s f data. read_state w = Inr s \<and> s_lifecycle s = ''active'' \<and>
    w' = w\<lparr>wk_dir := fst (write_event (dr_io dr) f data (dr_names dr) (dr_inode dr) (wk_dir w))\<rparr>)"
  using assms
proof (cases rule: append_event_cases)
  case (attempt s event t r y)
  then show ?thesis unfolding attempts_def by (metis fst_conv)
qed simp_all

interpretation written: journal_property
  "\<lambda>drs w w'. writes drs (wk_dir w) (wk_dir w') \<and> wk_created w' = wk_created w"
proof
  fix h dr kind payload eid pre evidence w w' x
  assume "append_event h dr kind payload eid pre evidence w = (w', x)"
  from append_writes [OF this] show "writes [dr] (wk_dir w) (wk_dir w') \<and> wk_created w' = wk_created w"
    by (elim disjE exE conjE) (simp_all, blast)
qed (auto simp: writes_refl intro: writes_append)

section \<open>An ended workspace\<close>

definition ended :: "workspace \<Rightarrow> bool" where
  "ended w \<longleftrightarrow> (case read_state w of Inr s \<Rightarrow> s_lifecycle s \<noteq> ''active'' | Inl _ \<Rightarrow> False)"

lemma ended_same: "wk_dir w' = wk_dir w \<Longrightarrow> wk_created w' = wk_created w \<Longrightarrow> ended w' = ended w"
  unfolding ended_def read_state_def workspace_id_def by (elim ssubst) (rule refl)

lemma append_ended:
  assumes "append_event h dr kind payload eid pre evidence w = (w', x)" "ended w"
  shows "w' = w"
proof -
  obtain s where s: "read_state w = Inr s" "s_lifecycle s \<noteq> ''active''"
    using assms(2) unfolding ended_def by (cases "read_state w") auto
  then show ?thesis using append_writes [OF assms(1)] by (metis sum.inject(2))
qed

interpretation ended: journal_property
  "\<lambda>_ w w'. ended w \<longrightarrow> wk_dir w' = wk_dir w \<and> wk_created w' = wk_created w"
proof
  fix h dr kind payload eid pre evidence w w' x
  assume "append_event h dr kind payload eid pre evidence w = (w', x)"
  from append_ended [OF this] show "ended w \<longrightarrow> wk_dir w' = wk_dir w \<and> wk_created w' = wk_created w"
    by blast
next
  fix xs ys w u v
  assume "ended w \<longrightarrow> wk_dir u = wk_dir w \<and> wk_created u = wk_created w"
    "ended u \<longrightarrow> wk_dir v = wk_dir u \<and> wk_created v = wk_created u"
  then show "ended w \<longrightarrow> wk_dir v = wk_dir w \<and> wk_created v = wk_created w"
    using ended_same by metis
qed simp


section \<open>What a publication keeps\<close>

text \<open>Every name of the directory is still there, with the same inode and the same content.\<close>

definition keeps_files :: "events_dir \<Rightarrow> events_dir \<Rightarrow> bool" where
  "keeps_files d d' \<longleftrightarrow>
     (\<forall>n i. map_of (ed_names d) n = Some i \<longrightarrow>
        map_of (ed_names d') n = Some i \<and> map_of (ed_inodes d') i = map_of (ed_inodes d) i)"

lemma keeps_files_refl: "keeps_files d d"
  by (simp add: keeps_files_def)

lemma keeps_files_trans: "keeps_files d e \<Longrightarrow> keeps_files e f \<Longrightarrow> keeps_files d f"
  unfolding keeps_files_def by metis

text \<open>The directory with new names for one inode.\<close>

definition extends :: "nat \<Rightarrow> events_dir \<Rightarrow> events_dir \<Rightarrow> bool" where
  "extends i d d' \<longleftrightarrow>
     (\<exists>new. ed_names d' = ed_names d @ new \<and> snd ` set new \<subseteq> {i}) \<and>
     (\<forall>j. j \<noteq> i \<longrightarrow> map_of (ed_inodes d') j = map_of (ed_inodes d) j)"

lemma extends_put: "extends i d e \<Longrightarrow> extends i d (put_inode i f e)"
  by (auto simp: extends_def put_inode_def map_of_dict_put)

lemma extends_update: "extends i d e \<Longrightarrow> extends i d (update_inode i f e)"
  by (simp add: update_inode_def extends_put split: option.split)

lemma extends_name: "extends i d e \<Longrightarrow> extends i d (e\<lparr>ed_names := ed_names e @ [(n, i)]\<rparr>)"
  by (auto simp: extends_def)

lemma names_update [simp]: "ed_names (update_inode i f e) = ed_names e"
  by (simp add: update_inode_def put_inode_def split: option.split)

lemma extends_link: "extends i d e \<Longrightarrow> extends i d (link_file n i e)"
  using extends_name [OF extends_update, of i d e] by (simp add: link_file_def)

lemma extends_create: "extends i d d' \<Longrightarrow> extends i d (create_file n i d')"
  using extends_name [OF extends_put, of i d d'] by (simp add: create_file_def put_inode_def)

lemma extends_unlink:
  assumes "extends i d e" "n \<notin> fst ` set (ed_names d)"
  shows "extends i d (unlink_file n i e)"
proof -
  obtain new where new: "ed_names e = ed_names d @ new" "snd ` set new \<subseteq> {i}"
    using assms(1) by (auto simp: extends_def)
  have "filter (\<lambda>p. fst p \<noteq> n) (ed_names d) = ed_names d"
    using assms(2) by (intro filter_True) auto
  then have "ed_names (unlink_file n i e) = ed_names d @ filter (\<lambda>p. fst p \<noteq> n) new"
    by (simp add: unlink_file_def new)
  moreover have "extends i d (update_inode i (\<lambda>f. f\<lparr>in_links := in_links f - 1\<rparr>) e)"
    by (rule extends_update [OF assms(1)])
  moreover have "ed_inodes (unlink_file n i e) = ed_inodes (update_inode i (\<lambda>f. f\<lparr>in_links := in_links f - 1\<rparr>) e)"
    by (simp add: unlink_file_def)
  ultimately show ?thesis
    using new(2) unfolding extends_def by auto
qed

lemma extends_keeps:
  assumes "extends i d e" "i \<notin> snd ` set (ed_names d)"
  shows "keeps_files d e" "snd ` set (ed_names e) \<subseteq> insert i (snd ` set (ed_names d))"
proof -
  obtain new where new: "ed_names e = ed_names d @ new" "snd ` set new \<subseteq> {i}"
    using assms(1) by (auto simp: extends_def)
  then show "snd ` set (ed_names e) \<subseteq> insert i (snd ` set (ed_names d))" by auto
  have "j \<noteq> i" if "map_of (ed_names d) n = Some j" for n j
    using that assms(2) by (metis image_eqI map_of_SomeD snd_conv)
  then show "keeps_files d e"
    using assms(1) new(1) by (auto simp: keeps_files_def extends_def map_add_Some_iff)
qed

lemma extends_cleanup:
  "extends i d e \<Longrightarrow> n \<notin> fst ` set (ed_names d) \<Longrightarrow> extends i d (cleanup_temporary removed n i e)"
  by (simp add: cleanup_temporary_def extends_unlink)

lemma write_event_keeps:
  assumes "write_event fault f data names i d = (d', x)" "i \<notin> snd ` set (ed_names d)"
  shows "keeps_files d d' \<and> snd ` set (ed_names d') \<subseteq> insert i (snd ` set (ed_names d))"
proof -
  have start: "extends i d d" by (simp add: extends_def)
  have filled: "extends i d (write_data i part (create_file tmp i d))" for part tmp
    unfolding write_data_def by (intro extends_update extends_create start)
  from assms(1) have "extends i d d'"
  proof (cases rule: write_event_cases)
    case (untouched e)
    then show ?thesis using start by simp
  next
    case (unpublished e tmp part removed)
    then show ?thesis using extends_cleanup [OF filled] by simp
  next
    case (published tmp removed)
    then show ?thesis using extends_cleanup [OF extends_link [OF filled]] by simp
  qed
  then show ?thesis using extends_keeps assms(2) by blast
qed

lemma disjoint_mono: "Y \<subseteq> insert i Z \<Longrightarrow> i \<notin> X \<Longrightarrow> X \<inter> Z = {} \<Longrightarrow> X \<inter> Y = {}"
  by blast

lemma writes_keep:
  "writes drs d d' \<Longrightarrow> distinct (map dr_inode drs) \<Longrightarrow>
     set (map dr_inode drs) \<inter> snd ` set (ed_names d) = {} \<Longrightarrow> keeps_files d d'"
proof (induction drs arbitrary: d)
  case (Cons dr drs)
  show ?case
  proof (cases "writes drs d d'")
    case True
    then show ?thesis using Cons.prems(2,3) by (intro Cons.IH) auto
  next
    case False
    then obtain f data e x where
        e: "write_event (dr_io dr) f data (dr_names dr) (dr_inode dr) d = (e, x)" "writes drs e d'"
      using Cons.prems(1) unfolding writes.simps by (metis prod.collapse)
    have k: "keeps_files d e" "snd ` set (ed_names e) \<subseteq> insert (dr_inode dr) (snd ` set (ed_names d))"
      using write_event_keeps [OF e(1)] Cons.prems(3) by auto
    have new: "dr_inode dr \<notin> set (map dr_inode drs)" "set (map dr_inode drs) \<inter> snd ` set (ed_names d) = {}"
      and distinct: "distinct (map dr_inode drs)"
      using Cons.prems(2,3) by simp_all
    have "set (map dr_inode drs) \<inter> snd ` set (ed_names e) = {}" by (rule disjoint_mono [OF k(2) new])
    from Cons.IH [OF e(2) distinct this] show ?thesis by (rule keeps_files_trans [OF k(1)])
  qed
qed (simp add: keeps_files_refl)

end
