(* ===== verification/Ws_Method_Claims.thy ===== *)
theory Ws_Method_Claims
  imports Ws_Claims Ws_Calls
begin

text \<open>
  Properties of the methods of a workspace, over every journal that can be read, with their
  witnesses on the small journal.
\<close>

section \<open>The workspace of the small journal\<close>

definition demo_receipt :: ws_receipt where
  "demo_receipt = snd (hd (s_receipts demo_stored))"

definition demo_workspace :: workspace where
  "demo_workspace =
     \<lparr>wk_root = ''/r'', wk_created = demo_receipt, wk_dir = demo_dir, wk_bound = [], wk_live = [],
      wk_bindings = []\<rparr>"

definition demo_host :: host where
  "demo_host =
     \<lparr>hs_cwd = ''/'', hs_now = ''2025-01-01T00:00:00Z'', hs_fs = FsDir 0 [], hs_fs_after = FsDir 0 [],
      hs_locked = True, hs_workspaces = []\<rparr>"

definition demo_draw :: draw where
  "demo_draw = \<lparr>dr_uuid = demo_uuid (CHR ''2''), dr_names = [demo_tmp], dr_inode = 1, dr_io = NoFault\<rparr>"

lemma demo_stored_ok: "state_ok demo_stored"
  using apply_event_ok(1) [OF demo_stored_facts(1) empty_state_ok] .

lemma demo_stored_receipt:
  "s_receipts demo_stored = [(demo_uuid (CHR ''1''), demo_receipt)]" "wr_workspace demo_receipt = demo_id"
proof -
  have log: "log_ok demo_stored" using demo_stored_ok by (simp add: state_ok_def)
  obtain r where r: "s_receipts demo_stored = [(wr_event_id r, r)]" "receipt_for_event demo_stored (jsort demo_created) = Inr r"
    using apply_event_receipt [OF demo_stored_facts(1) empty_state_ok] by (auto simp: empty_state_def)
  obtain i where i: "s_identity demo_stored = Some i" "receipt_fits i (jsort demo_created) r"
    using receipt_for_event_Inr [OF r(2)] by blast
  obtain g where "is_record (jsort demo_created) demo_id 1 (demo_uuid (CHR ''1'')) ''workspace_created''
     (jsort (created_payload demo_identity default_policy)) g"
    using demo_created_is_record by blast
  then show "s_receipts demo_stored = [(demo_uuid (CHR ''1''), demo_receipt)]" "wr_workspace demo_receipt = demo_id"
    using r(1) i by (auto simp: demo_receipt_def receipt_fits_def is_record_def demo_stored_facts demo_identity_id)
qed

lemma demo_read_state: "read_state demo_workspace = Inr demo_stored" "workspace_id demo_workspace = demo_id"
  by (simp_all add: demo_workspace_def workspace_id_def read_state_def read_journal_def
      demo_stored_receipt demo_project)

lemma demo_stored_active: "s_lifecycle demo_stored = ''active''" "s_handoffs demo_stored = []"
proof -
  have ok: "created_ok demo_identity default_policy (demo_uuid (CHR ''1''))"
    by (rule demo_created_ok) (simp add: is_hex_def)
  obtain g where "is_record (jsort demo_created) demo_id 1 (demo_uuid (CHR ''1'')) ''workspace_created''
     (jsort (created_payload demo_identity default_policy)) g"
    using demo_created_is_record by blast
  then obtain r where "apply_event True (jsort demo_created) empty_state =
      Inr ((created_state demo_identity default_policy)\<lparr>s_events := [jsort demo_created],
        s_last := g, s_receipts := [(demo_uuid (CHR ''1''), r)]\<rparr>)"
    using created_accepted [OF ok] unfolding demo_identity_id by blast
  then have eq: "demo_stored = (created_state demo_identity default_policy)\<lparr>s_events := [jsort demo_created],
        s_last := g, s_receipts := [(demo_uuid (CHR ''1''), r)]\<rparr>"
    using demo_stored_facts(1) by simp
  show "s_lifecycle demo_stored = ''active''" "s_handoffs demo_stored = []"
    unfolding eq by (simp_all add: created_state_def empty_state_def)
qed

section \<open>Reading\<close>

text \<open>
  C22. A workspace that is read is within the limits of its policy: events, sources, sessions, entries,
  packages, the size of each entry and the size of the whole context.
\<close>
theorem read_state_within_bounds:
  assumes "read_state w = Inr s"
  shows "\<exists>p. s_policy s = Some p \<and> int (length (s_events s)) \<le> po_events p \<and>
    int (length (s_sources s)) \<le> po_sources p \<and> int (length (s_sessions s)) \<le> po_sessions p \<and>
    int (length (s_entries s)) \<le> po_context_entries p \<and> length (s_pins s) \<le> MAX_PACKAGE_PINS \<and>
    (\<forall>e \<in> set (s_entries s). int (length (en_value e)) \<le> po_entry_bytes p) \<and>
    int (length (dumps (JArr (map entry_to_dict (s_entries s))))) \<le> po_context_bytes p"
proof -
  obtain p where p: "state_ok s" "s_policy s = Some p" "ensure_bounds p False s = Inr ()"
    using read_state_Inr [OF assms] by blast
  have "list_all entry_ok (s_entries s)"
    using p(1) by (auto simp: state_ok_def core_ok_def entries_ok_def list_all_iff)
  then show ?thesis
    using p(2,3) unfolding ensure_bounds_def rbind_eq_Inr_iff check_eq_Inr_iff
    by (auto simp: context_bytes_total list_all_iff simp del: dumps.simps)
qed

lemma read_state_within_bounds_witness:
  "\<exists>p. s_policy demo_stored = Some p \<and> int (length (s_events demo_stored)) \<le> po_events p"
  using read_state_within_bounds [OF demo_read_state(1)] by blast

text \<open>
  C8. The bounded view of a workspace never fails on limits within the policy and returns the longest
  end of the entries of the chosen categories that has at most the given number of entries and bytes,
  with the numbers of entries it left out for their category and for the limits.
\<close>
theorem bounded_view_is_longest:
  assumes "read_state w = Inr s" "s_policy s = Some p" "set cs \<subseteq> set categories"
    "limit_within l (po_context_entries p)" "limit_within b (po_context_bytes p)"
  shows "\<exists>c. ws_project_context (Some cs) l b w = Inr c \<and>
    pc_entries c = longest_fit (limit_value l (po_context_entries p)) (limit_value b (po_context_bytes p))
      (filter (\<lambda>e. en_category e \<in> set cs) (s_entries s)) \<and>
    pc_filtered c = int (length (filter (\<lambda>e. en_category e \<notin> set cs) (s_entries s))) \<and>
    pc_filtered c + pc_omitted c + int (length (pc_entries c)) = int (length (s_entries s)) \<and>
    logical_digest s = Inr (pc_digest c) \<and> pc_workspace c = workspace_id w"
proof -
  obtain i where i: "state_ok s" "s_identity s = Some i" "wi_id i = workspace_id w"
    using read_state_Inr [OF assms(1)] by blast
  have "length (filter (\<lambda>e. en_category e \<in> set cs) (s_entries s)) +
      length (filter (\<lambda>e. en_category e \<notin> set cs) (s_entries s)) = length (s_entries s)"
    by (rule sum_length_filter_compl)
  then show ?thesis
    using view_context_total [OF i(1,2) assms(2-5)] assms(1) i(3)
    by (auto simp: ws_project_context_def)
qed

lemma bounded_view_is_longest_witness:
  "\<exists>c. ws_project_context (Some [''facts'']) (Some 5) None demo_workspace = Inr c \<and> pc_workspace c = demo_id"
proof -
  have "limit_within (Some 5) (po_context_entries default_policy)" "limit_within None (po_context_bytes default_policy)"
    "set [''facts''] \<subseteq> set categories"
    by (simp_all add: limit_within_def default_policy_def categories_def)
  from bounded_view_is_longest [OF demo_read_state(1) demo_stored_facts(3) this(3,1,2)] show ?thesis
    by (auto simp: demo_read_state)
qed


section \<open>Appending\<close>

text \<open>The journal of a workspace as a log of events, when it can be read.\<close>

definition log_of :: "workspace \<Rightarrow> json list option" where
  "log_of w = (case read_state w of Inl _ \<Rightarrow> None | Inr s \<Rightarrow> Some (s_events s))"

text \<open>An event of a log with its kind, payload and identifier.\<close>

definition logs :: "json \<Rightarrow> pystr \<Rightarrow> json \<Rightarrow> pystr \<Rightarrow> bool" where
  "logs e kind payload i \<longleftrightarrow>
     jget ''kind'' e = Some (JStr kind) \<and> jget ''event_id'' e = Some (JStr i) \<and>
     dumps (jat ''payload'' e) = dumps payload"

text \<open>
  C1. The journal is an append-only log, whatever system call of a write fails. For an append with room
  (\<open>append_room\<close>: a payload of JSON values with more than 4000 bytes to spare below 16 MiB, the largest event that
  is read; an object as the inherited state of a fork; temporary names as the code makes them; an inode no file
  of the directory has; fewer than \<open>10 ^ 16 - 1\<close> events in the log): if it returns a
  receipt, it has either found the event in the log, and left the workspace as it was, or the next reader sees the
  log with one event more, which has the kind, the payload and the identifier of the call. If it raises, the next
  reader sees the state from before, and without a failed write the workspace itself is as it was; or the exception
  is \<open>WorkspaceIOError\<close>, a call of the write failed after the link, and the next reader sees the log with that one
  event more.
\<close>
theorem append_refines_log:
  assumes "append_event h dr kind payload eid pre evidence w = (w', x)" "read_state w = Inr s"
    "append_room dr kind payload w s"
  shows "case x of
      Inl e \<Rightarrow>
        (read_state w' = Inr s \<and> (dr_io dr = NoFault \<longrightarrow> w' = w)) \<or>
        (e = WorkspaceIOError \<and> late_fault (dr_io dr) \<and>
         (\<exists>ev. log_of w' = Some (s_events s @ [ev]) \<and> logs ev kind payload (append_id dr eid)))
    | Inr r \<Rightarrow>
        (w' = w \<and> (\<exists>e \<in> set (s_events s). logs e kind payload (append_id dr eid))) \<or>
        (\<exists>e. log_of w' = Some (s_events s @ [e]) \<and> logs e kind payload (wr_event_id r) \<and>
           wr_event_id r = append_id dr eid)"
proof -
  from assms(1) show ?thesis
  proof (cases rule: append_event_cases)
    case (failed e)
    then show ?thesis using assms(2) by simp
  next
    case (known s' e r)
    then have "e \<in> set (s_events s)" "jget ''event_id'' e = Some (JStr (append_id dr eid))"
      using assms(2) by (auto simp: find_event_def find_Some_iff)
    then show ?thesis
      using known by (auto simp: logs_def jat_def split: option.splits)
  next
    case (attempt s' event t r y)
    have s: "s' = s" using attempt(2) assms(2) by (simp add: attempts_def)
    from attempt(2) [unfolded s] assms(3) attempt(5-7) show ?thesis
    proof (cases rule: attempt_read)
      case (unpublished e)
      then show ?thesis using attempt(1) by simp
    next
      case (published u)
      have "log_of w' = Some (s_events s @ [jsort event]) \<and> logs (jsort event) kind payload (append_id dr eid)"
        using published(2,4,5) attempt(3)
        by (simp add: log_of_def logs_def is_record_def jget_jsort_any jat_def dumps_jsort)
      then show ?thesis using published(1) attempt(1,3) by auto
    qed
  qed
qed


text \<open>Ending a workspace succeeds whenever there is room for one more event.\<close>

lemma next_name_free:
  assumes "project d w = Inr s" "is_digest g" "Suc (length (s_events s)) < 10 ^ 16"
  shows "event_name (Suc (length (s_events s))) g \<notin> set (map fst (ed_names d))"
proof
  let ?f = "event_name (Suc (length (s_events s))) g"
  have ef: "event_file ?f = Some (Suc (length (s_events s)), remove_prefix ''sha256:'' g)"
    by (rule event_file_name [OF assms(3,2)])
  have head: "?f \<noteq> ''.workspace.lock''" "\<not> is_temporary ?f"
    using event_file_head [of ?f] ef by auto
  assume "?f \<in> set (map fst (ed_names d))"
  then have "?f \<in> set (published d)" using head by (simp add: published_def)
  then obtain k where k: "k < length (published d)" "?f = published d ! k" by (auto simp: in_set_conv_nth)
  have len: "length (published d) = length (s_events s)"
    using replay_ok_events [OF project_Inr(7) [OF assms(1)]] by simp
  show False
    using replay_sequence [OF project_Inr(7) [OF assms(1)], of k] k ef len by auto
qed

lemma write_event_total:
  assumes "f \<notin> set (map fst (ed_names d))" "tmp \<in> set (take 8 names)" "tmp \<notin> set (map fst (ed_names d))"
  shows "\<exists>d'. write_event NoFault f data names i d = (d', Inr ())"
proof -
  have "tmp \<in> set (filter (\<lambda>n. n \<notin> set (map fst (ed_names d))) (take 8 names))" using assms by simp
  then obtain t ts where "filter (\<lambda>n. n \<notin> set (map fst (ed_names d))) (take 8 names) = t # ts"
    by (metis list.exhaust empty_iff empty_set)
  then show ?thesis using assms(1) by (simp add: write_event_def Let_def)
qed

lemma append_complete_ok:
  assumes s: "read_state w = Inr s" "s_lifecycle s = ''active''" "s_policy s = Some p"
    "int (length (s_events s)) + 1 \<le> po_events p" "hs_locked h"
    and id: "is_uuid (append_id dr eid)" "map_of (s_receipts s) (append_id dr eid) = None"
    and room: "append_room dr ''workspace_completed'' (JObj []) w s"
    and tmp: "tmp \<in> set (take 8 (dr_names dr))" "tmp \<notin> set (map fst (ed_names (wk_dir w)))"
    and io: "dr_io dr = NoFault"
  shows "\<exists>w' r t e. append_event h dr ''workspace_completed'' (JObj []) eid (Inr ()) [] w = (w', Inr r) \<and>
    attempts dr ''workspace_completed'' (JObj []) w s e t w' r (Inr ()) \<and> s_lifecycle t = ''completed''"
proof -
  let ?k = "''workspace_completed''" and ?i = "append_id dr eid" and ?n = "Suc (length (s_events s))"
  obtain i q where q: "project (wk_dir w) (workspace_id w) = Inr s" "state_ok s" "s_identity s = Some i"
      "wi_id i = workspace_id w" "identity_ok i" "s_events s \<noteq> []" "ensure_bounds p False s = Inr ()"
    using read_state_Inr [OF s(1)] s(3) by (metis option.inject)
  have rec: "record_ok (workspace_id w) ?n ?i ?k (JObj []) (s_last s)"
    using q(4-6) id last_digest_ok [OF q(2,6)]
    by (auto simp: record_ok_def event_kinds_def reject_dull identity_ok_def)
  obtain e g where e: "event_record (workspace_id w) (int ?n) ?i ?k (JObj []) (s_last s) = Inr e"
      "is_record e (workspace_id w) ?n ?i ?k (JObj []) g"
    using event_record_total [OF rec] event_record_is_record id(1) by blast
  have dig: "is_digest g" "jat ''event_digest'' e = JStr g" "json_ok e"
    using e(2) record_json_ok [OF rec e(1)] by (auto simp: is_record_def jat_def)
  let ?m = "s\<lparr>s_lifecycle := ''completed''\<rparr>"
  have "ensure_bounds p False (?m\<lparr>s_events := s_events ?m @ [e], s_last := g\<rparr>) = Inr ()"
    using q(7) s(4) by (simp add: ensure_bounds_def rbind_eq_Inr_iff check_eq_Inr_iff)
  then obtain r where r: "apply_event False e s =
      Inr (?m\<lparr>s_events := s_events ?m @ [e], s_last := g, s_receipts := s_receipts ?m @ [(?i, r)]\<rparr>)"
    using plain_event_accepted [OF e(2), of s i p False ?m p] q s id
    by (auto simp: plain_kinds_def payload_keys_def jkeys_def reject_dull apply_kind_def apply_completed_def
        map_of_eq_None_iff image_iff)
  obtain d where d: "write_event (dr_io dr) (event_name ?n g) (dumps e @ [CHR 0x0A]) (dr_names dr) (dr_inode dr)
      (wk_dir w) = (d, Inr ())"
    unfolding io using write_event_total [OF next_name_free [OF q(1) dig(1)] tmp, of "dumps e @ [CHR 0x0A]" "dr_inode dr"] room
    by (auto simp: append_room_def)
  have checks: "append_checks h dr ?k (JObj []) eid [] w = Inr (?i, False, s, None)"
    using s id by (cases eid) (auto simp: append_checks_def event_kinds_def exact_def payload_keys_def jkeys_def
        reject_dull verified_evidence_def known_event_def append_id_def wuuid_def on_text_def)
  let ?t = "?m\<lparr>s_events := s_events ?m @ [e], s_last := g, s_receipts := s_receipts ?m @ [(?i, r)]\<rparr>"
  have "next_event (dr_io dr) ?k ?i (JObj []) False (Inr ()) s (workspace_id w) = Inr (e, ?t, event_name ?n g, dumps e @ [CHR 0x0A])"
    using s e(1) r dig io
    by (simp add: next_event_def state_policy_def wdigest_def on_text_def ws_canonical_ok add.commute del: dumps.simps)
  then have pub: "publish_event dr ?k ?i (JObj []) False (Inr ()) s (workspace_id w) (wk_dir w) = (d, Inr (e, ?t))"
    using d by (simp add: publish_event_def)
  obtain r' where r': "receipt_for_event ?t e = Inr r'" "s_receipts ?t = s_receipts s @ [(wr_event_id r', r')]"
    using apply_event_receipt [OF r q(2)] by blast
  obtain j where "receipt_fits j e r'" using receipt_for_event_Inr [OF r'(1)] by blast
  then have ids: "wr_event_id r' = ?i" "wr_event_digest r' = g"
    using r'(2) e(2) by (auto simp: is_record_def receipt_fits_def)
  have "append_event h dr ?k (JObj []) eid (Inr ()) [] w = (w\<lparr>wk_dir := d\<rparr>, Inr r')"
    using checks pub r'(1) by (simp add: append_event_def)
  moreover have "attempts dr ?k (JObj []) w s e ?t (w\<lparr>wk_dir := d\<rparr>) r' (Inr ())"
    unfolding attempts_def ids using s e(1) r d r'(2) ids by (auto simp: add.commute simp del: dumps.simps)
  ultimately show ?thesis by (intro exI conjI) (assumption+, simp)
qed


lemma demo_room: "append_room demo_draw ''workspace_completed'' (JObj []) demo_workspace demo_stored"
  using demo_fresh [of "event_name 2 ZERO_DIGEST"]
  by (simp add: append_room_def demo_draw_def demo_workspace_def demo_dir_def demo_stored_facts MAX_EVENT_BYTES_def
      demo_tmp_def is_temporary_def starts_with_def)

lemma demo_tmp_free: "demo_tmp \<in> set (take 8 (dr_names demo_draw))" "demo_tmp \<notin> set (map fst (ed_names (wk_dir demo_workspace)))"
    "dr_io demo_draw = NoFault"
proof -
  have "is_temporary demo_tmp" by (simp add: demo_tmp_def is_temporary_def starts_with_def)
  then have "demo_tmp \<noteq> demo_file" using event_file_head [of demo_file] demo_name by auto
  then show "demo_tmp \<in> set (take 8 (dr_names demo_draw))" "demo_tmp \<notin> set (map fst (ed_names (wk_dir demo_workspace)))"
    "dr_io demo_draw = NoFault"
    by (simp_all add: demo_draw_def demo_workspace_def demo_dir_def)
qed

lemma demo_append_id: "append_id demo_draw None = demo_uuid (CHR ''2'')" "append_id demo_draw (Some x) = x"
  by (simp_all add: append_id_def demo_draw_def)

lemma demo_limits:
  "int (length (s_events demo_stored)) + 1 \<le> po_events default_policy" "hs_locked demo_host"
  by (simp_all add: demo_stored_facts default_policy_def demo_host_def)

lemma demo_new_id:
  assumes "eid = None \<or> eid = Some (demo_uuid (CHR ''2''))"
  shows "is_uuid (append_id demo_draw eid)" "map_of (s_receipts demo_stored) (append_id demo_draw eid) = None"
proof -
  have "append_id demo_draw eid = demo_uuid (CHR ''2'')" using assms by (auto simp: demo_append_id)
  then show "is_uuid (append_id demo_draw eid)" "map_of (s_receipts demo_stored) (append_id demo_draw eid) = None"
    using demo_uuid_ok [of "CHR ''2''"] by (simp_all add: is_hex_def demo_stored_receipt demo_uuid_def)
qed

lemma demo_complete:
  assumes "eid = None \<or> eid = Some (demo_uuid (CHR ''2''))"
  shows "\<exists>w' r. append_event demo_host demo_draw ''workspace_completed'' (JObj []) eid (Inr ()) [] demo_workspace = (w', Inr r)"
  using append_complete_ok [OF demo_read_state(1) demo_stored_active(1) demo_stored_facts(3) demo_limits
      demo_new_id [OF assms] demo_room demo_tmp_free] by blast

lemma append_refines_log_witness:
  "\<exists>w' x. append_event demo_host demo_draw ''workspace_completed'' (JObj []) None (Inr ()) [] demo_workspace = (w', Inr x) \<and>
    ((w' = demo_workspace \<and> (\<exists>e \<in> set (s_events demo_stored). logs e ''workspace_completed'' (JObj []) (append_id demo_draw None))) \<or>
     (\<exists>e. log_of w' = Some (s_events demo_stored @ [e]) \<and> logs e ''workspace_completed'' (JObj []) (wr_event_id x)))"
proof -
  obtain w' x where a: "append_event demo_host demo_draw ''workspace_completed'' (JObj []) None (Inr ()) [] demo_workspace = (w', Inr x)"
    using demo_complete by blast
  show ?thesis using append_refines_log [OF a demo_read_state(1) demo_room] a by auto
qed

text \<open>
  C12. An append can be repeated. Take an append with a given identifier, and with room (\<open>append_room\<close>: the payload, the
  temporary names, the inode and the number of events are as in \<open>append_refines_log\<close>), that returned, or that
  raised with its event published. A second call with the same kind, payload, identifier and evidence on the
  workspace it left, at another time, in another directory, with another view of the file system, another draw and
  another last step before publishing, and with whatever failing of its writes, returns the receipt of the first
  call and leaves the workspace as it is, provided that it gets the lock and that its evidence is accepted.
\<close>
theorem append_retry_same:
  assumes "append_event h dr kind payload (Some i) pre evidence w = (w', x)" "read_state w = Inr s"
    "append_room dr kind payload w s" "x = Inr r \<or> read_state w' \<noteq> Inr s"
    "hs_locked h'" "verified_evidence h' kind payload evidence = Inr v"
  shows "\<exists>r'. append_event h' dr' kind payload (Some i) pre' evidence w' = (w', Inr r') \<and> (x = Inr r \<longrightarrow> r' = r)"
  by (rule append_again [OF assms])

definition demo_later :: host where
  "demo_later = demo_host\<lparr>hs_now := ''2026-01-01T00:00:00Z'', hs_cwd := ''/tmp''\<rparr>"

lemma append_retry_same_witness:
  "\<exists>w' r. append_event demo_later demo_draw ''workspace_completed'' (JObj []) (Some (demo_uuid (CHR ''2''))) (Inr ()) [] w' = (w', Inr r)"
proof -
  obtain w' r where a: "append_event demo_host demo_draw ''workspace_completed'' (JObj []) (Some (demo_uuid (CHR ''2'')))
      (Inr ()) [] demo_workspace = (w', Inr r)"
    using demo_complete by blast
  have "hs_locked demo_later" "verified_evidence demo_later ''workspace_completed'' (JObj []) [] = Inr False"
    by (simp_all add: demo_later_def demo_host_def verified_evidence_def)
  from append_retry_same [OF a demo_read_state(1) demo_room disjI1 [OF refl] this] show ?thesis by blast
qed

text \<open>
  C13. A workspace can be completed. Let it be active and have fewer events than its policy allows; let the call
  get the lock, its event identifier be a UUID no event has, one of its first eight temporary names be free, no
  system call of its write fail, and the append have room (\<open>append_room\<close>: temporary names as the code makes them, an
  inode no file of the directory has, fewer than \<open>10 ^ 16 - 1\<close> events in the log). Then the call succeeds, the next reader sees the workspace completed with one event more, and no later append
  changes it.
\<close>
theorem complete_ends_workspace:
  assumes "read_state w = Inr s" "s_lifecycle s = ''active''" "s_policy s = Some p"
    "int (length (s_events s)) + 1 \<le> po_events p" "hs_locked h" "is_uuid (append_id dr eid)"
    "map_of (s_receipts s) (append_id dr eid) = None" "append_room dr ''workspace_completed'' (JObj []) w s"
    "tmp \<in> set (take 8 (dr_names dr))" "tmp \<notin> set (map fst (ed_names (wk_dir w)))" "dr_io dr = NoFault"
  shows "\<exists>w' r u. ws_complete h dr eid w = (w', Inr r) \<and> read_state w' = Inr u \<and> s_lifecycle u = ''completed'' \<and>
    length (s_events u) = Suc (length (s_events s)) \<and>
    (\<forall>h' dr' kind payload eid' pre ev. fst (append_event h' dr' kind payload eid' pre ev w') = w')"
proof -
  obtain w' r t e where a: "append_event h dr ''workspace_completed'' (JObj []) eid (Inr ()) [] w = (w', Inr r)"
      "attempts dr ''workspace_completed'' (JObj []) w s e t w' r (Inr ())" "s_lifecycle t = ''completed''"
    using append_complete_ok [OF assms] by blast
  obtain u where u: "read_state w' = Inr u" "like t u" "s_events u = s_events s @ [jsort e]"
    using append_reads_back [OF a(2) assms(8)] by (auto simp: event_kinds_def reject_dull)
  have l: "s_lifecycle u = ''completed''" using like_fields(3) [OF u(2)] a(3) by simp
  have "ended w'" by (simp add: ended_def u(1) l)
  then have "fst (append_event h' dr' kind payload eid' pre ev w') = w'" for h' dr' kind payload eid' pre ev
    using append_ended [of h' dr' kind payload eid' pre ev w'] by (metis prod.collapse)
  then show ?thesis using a(1) u l by (auto simp: ws_complete_def)
qed


lemma complete_ends_workspace_witness:
  "\<exists>w' r u. ws_complete demo_host demo_draw None demo_workspace = (w', Inr r) \<and> read_state w' = Inr u \<and>
     s_lifecycle u = ''completed'' \<and> length (s_events u) = 2"
  using complete_ends_workspace [OF demo_read_state(1) demo_stored_active(1) demo_stored_facts(3) demo_limits
      demo_new_id [of None] demo_room demo_tmp_free]
  by (auto simp: demo_stored_facts)

section \<open>Every method\<close>

text \<open>
  C9. No method of a workspace removes, renames or changes a file of its journal: whatever the call does,
  and whether it returns or raises, every name of the events directory keeps its inode and its content.
\<close>
theorem calls_keep_files:
  assumes "distinct (map dr_inode (call_draws c))"
    "set (map dr_inode (call_draws c)) \<inter> snd ` set (ed_names (wk_dir w)) = {}"
  shows "keeps_files (wk_dir w) (wk_dir (fst (run_call c w)))"
  using written.call_kept [where c = c and w = w] writes_keep [OF _ assms] by blast

lemma calls_keep_files_witness:
  "keeps_files demo_dir (wk_dir (fst (run_call (Complete demo_host demo_draw None) demo_workspace))) \<and>
   fst ` set (ed_names demo_dir) = {demo_file}"
proof -
  have "distinct (map dr_inode (call_draws (Complete demo_host demo_draw None)))"
    "set (map dr_inode (call_draws (Complete demo_host demo_draw None))) \<inter> snd ` set (ed_names (wk_dir demo_workspace)) = {}"
    by (simp_all add: demo_draw_def demo_workspace_def demo_dir_def)
  from calls_keep_files [OF this] show ?thesis
    by (simp add: demo_workspace_def demo_dir_def del: run_call.simps)
qed

text \<open>
  C10. Once a workspace is completed or aborted, no method changes its journal any more.
\<close>
theorem ended_journal_frozen:
  assumes "read_state w = Inr s" "s_lifecycle s \<noteq> ''active''"
  shows "wk_dir (fst (run_call c w)) = wk_dir w \<and> ended (fst (run_call c w))"
proof -
  have e: "ended w" using assms by (simp add: ended_def)
  then have "wk_dir (fst (run_call c w)) = wk_dir w \<and> wk_created (fst (run_call c w)) = wk_created w"
    using ended.call_kept [where c = c and w = w] by blast
  then show ?thesis using ended_same e by blast
qed

lemma ended_journal_frozen_witness:
  "\<exists>w s. read_state w = Inr s \<and> s_lifecycle s = ''completed'' \<and>
     wk_dir (fst (run_call (Abort demo_host demo_draw ''stop'' None) w)) = wk_dir w"
proof -
  obtain w' r t e where a: "attempts demo_draw ''workspace_completed'' (JObj []) demo_workspace demo_stored e t w' r (Inr ())"
      "s_lifecycle t = ''completed''"
    using append_complete_ok [OF demo_read_state(1) demo_stored_active(1) demo_stored_facts(3) demo_limits
        demo_new_id [of None] demo_room demo_tmp_free] by blast
  obtain v where "read_state w' = Inr v" "like t v"
    using append_reads_back [OF a(1) demo_room] by (auto simp: event_kinds_def reject_dull)
  then have w: "read_state w' = Inr v" "s_lifecycle v = ''completed''" using like_fields(3) a(2) by metis+
  then show ?thesis using ended_journal_frozen [OF w(1), where c = "Abort demo_host demo_draw ''stop'' None"]
    by (auto simp del: run_call.simps)
qed

end
