(* ===== verification/Px_Delta.thy ===== *)
theory Px_Delta
  imports Ws_Exchange
begin

text \<open>
  The delta between two checkpoints (\<open>DeltaItemV1\<close> and \<open>ContextDeltaV1\<close> of
  \<open>src/leanctx_sdk/parallel_context.py\<close>) and the method of \<open>ContextWorkspace\<close> that computes it. A
  checkpoint has decoded its logical state, so the fields read from an item of the state are strings
  and arrays of strings.
\<close>

section \<open>Items\<close>

record delta_item =
  di_category :: pystr
  di_action :: pystr
  di_key :: pystr
  di_before :: json
  di_after :: json
  di_evidence :: "evidence_ref list"

definition delta_categories :: "pystr list" where
  "delta_categories = [''source'', ''project_context'', ''package'', ''policy'', ''lineage'']"

definition delta_actions :: "pystr \<Rightarrow> pystr list" where
  "delta_actions category =
     (if category = ''source'' then
        [''added'', ''removed'', ''revision_changed'', ''freshness_changed'',
         ''recovery_availability_changed'']
      else if category = ''project_context'' then
        [''added'', ''removed'', ''superseded'', ''contradicted'', ''provenance_changed'']
      else if category = ''package'' then
        [''pin_added'', ''pin_removed'', ''digest_changed'', ''trust_changed'']
      else if category = ''policy'' then [''effective_changed'']
      else [''fork_ancestry'', ''checkpoint_reference''])"

definition mk_delta_item ::
  "json \<Rightarrow> json \<Rightarrow> json \<Rightarrow> json \<Rightarrow> json \<Rightarrow> evidence_ref list \<Rightarrow> delta_item res" where
  "mk_delta_item category action key before after refs =
     rbind (member delta_categories category) (\<lambda>c.
     rbind (member (delta_actions c) action) (\<lambda>a.
     rbind (wtext 512 key) (\<lambda>k.
     rbind (check (refs \<noteq> []) WorkspaceValidationError) (\<lambda>_.
     Inr \<lparr>di_category = c, di_action = a, di_key = k, di_before = before, di_after = after,
       di_evidence = sorted_evidence refs\<rparr>))))"

definition delta_item_to_dict :: "delta_item \<Rightarrow> json" where
  "delta_item_to_dict i =
     JObj [(''schema_version'', JStr ''leanctx.delta-item/v1''), (''category'', JStr (di_category i)),
       (''action'', JStr (di_action i)), (''stable_key'', JStr (di_key i)),
       (''before'', di_before i), (''after'', di_after i),
       (''evidence_refs'', JArr (map evidence_to_dict (di_evidence i)))]"

definition delta_item_keys :: "pystr list" where
  "delta_item_keys = [''schema_version'', ''category'', ''action'', ''stable_key'', ''before'',
     ''after'', ''evidence_refs'']"

definition delta_item_from_dict :: "json \<Rightarrow> delta_item res" where
  "delta_item_from_dict v =
     rbind (exact delta_item_keys v) (\<lambda>_.
     rbind (check (jat ''schema_version'' v = JStr ''leanctx.delta-item/v1'' \<and>
         is_arr (jat ''evidence_refs'' v)) WorkspaceIncompatibleError) (\<lambda>_.
     rbind (mapr evidence_from_dict (jitems (jat ''evidence_refs'' v))) (\<lambda>refs.
     rbind (mk_delta_item (jat ''category'' v) (jat ''action'' v) (jat ''stable_key'' v)
       (jat ''before'' v) (jat ''after'' v) refs) (\<lambda>i.
     rbind (check (py_eq (delta_item_to_dict i) v) WorkspaceConflictError) (\<lambda>_. Inr i)))))"

text \<open>\<open>_evidence_ref\<close>; without a value the reference names the checkpoint only.\<close>

definition checkpoint_evidence :: "checkpoint \<Rightarrow> json \<Rightarrow> evidence_ref res" where
  "checkpoint_evidence c v =
     mk_evidence (JStr (ck_workspace c)) (JStr (ck_id c)) (JStr (ck_state_digest c))
       (map JStr (sort (remdups (strs_of (jat ''source_ids'' v) @
          (case jat ''source_id'' v of JStr s \<Rightarrow> [s] | _ \<Rightarrow> [])))))
       (map JStr (sort (remdups (strs_of (jat ''receipt_refs'' v)))))
       (map JStr (sort (remdups (strs_of (jat ''recovery_refs'' v)))))"

definition opt_value :: "json option \<Rightarrow> json" where
  "opt_value x = (case x of None \<Rightarrow> JNull | Some v \<Rightarrow> v)"

definition present :: "(checkpoint \<times> json option) list \<Rightarrow> (checkpoint \<times> json) list" where
  "present xs = concat (map (\<lambda>(c, x). case x of None \<Rightarrow> [] | Some v \<Rightarrow> [(c, v)]) xs)"

definition value_evidence :: "(checkpoint \<times> json option) list \<Rightarrow> evidence_ref list res" where
  "value_evidence xs = mapr (\<lambda>(c, v). checkpoint_evidence c v) (present xs)"

definition plain_evidence :: "(checkpoint \<times> json option) list \<Rightarrow> evidence_ref list res" where
  "plain_evidence xs = mapr (\<lambda>(c, v). checkpoint_evidence c JNull) (present xs)"

section \<open>Deltas\<close>

record delta =
  dl_base :: state_ref
  dl_target :: state_ref
  dl_items :: "delta_item list"
  dl_conflicts :: conflict_report
  dl_id :: pystr

definition MAX_DELTA_ITEMS :: nat where "MAX_DELTA_ITEMS = 512"
definition MAX_DELTA_BYTES :: nat where "MAX_DELTA_BYTES = 512 * 1024"

definition delta_bounds :: json where
  "delta_bounds =
     JObj [(''max_items'', JInt (int MAX_DELTA_ITEMS)), (''max_bytes'', JInt (int MAX_DELTA_BYTES))]"

text \<open>The items in the order of their category, key, action and digest.\<close>

type_synonym delta_rank = "pystr \<times> pystr \<times> pystr \<times> pystr"

definition delta_rank :: "delta_item \<Rightarrow> delta_rank res" where
  "delta_rank i =
     rbind (domain_digest ''leanctx.delta-item.v1'' (delta_item_to_dict i)) (\<lambda>d.
     Inr (di_category i, di_key i, di_action i, d))"

definition ranked_items :: "delta_item list \<Rightarrow> delta_item list res" where
  "ranked_items items =
     rbind (mapr delta_rank items) (\<lambda>ranks. Inr (map snd (sort_key fst (zip ranks items))))"

definition delta_unsigned ::
  "state_ref \<Rightarrow> state_ref \<Rightarrow> delta_item list \<Rightarrow> conflict_report \<Rightarrow> (pystr \<times> json) list" where
  "delta_unsigned base target items conflicts =
     [(''schema_version'', JStr ''leanctx.context-delta/v1''), (''base'', state_ref_to_dict base),
      (''target'', state_ref_to_dict target), (''items'', JArr (map delta_item_to_dict items)),
      (''conflicts'', report_to_dict conflicts), (''bounds'', delta_bounds)]"

definition mk_delta ::
  "state_ref \<Rightarrow> state_ref \<Rightarrow> delta_item list \<Rightarrow> conflict_report \<Rightarrow> json \<Rightarrow> delta res" where
  "mk_delta base target items conflicts delta_id =
     rbind (check (length items \<le> MAX_DELTA_ITEMS) WorkspacePolicyError) (\<lambda>_.
     rbind (ranked_items items) (\<lambda>expected.
     rbind (check (py_eq (JArr (map delta_item_to_dict items)) (JArr (map delta_item_to_dict expected)))
       WorkspaceValidationError) (\<lambda>_.
     rbind (check (cr_base conflicts = Some base \<and> cr_left conflicts = base \<and>
         cr_right conflicts = target) WorkspaceConflictError) (\<lambda>_.
     let unsigned_part = JObj (delta_unsigned base target items conflicts) in
     rbind (ws_canonical unsigned_part) (\<lambda>bytes.
     rbind (check (length bytes \<le> MAX_DELTA_BYTES) WorkspacePolicyError) (\<lambda>_.
     rbind (domain_digest ''leanctx.context-delta.v1'' unsigned_part) (\<lambda>d.
     rbind (check (delta_id = JStr d) WorkspaceConflictError) (\<lambda>_.
     Inr \<lparr>dl_base = base, dl_target = target, dl_items = items, dl_conflicts = conflicts,
       dl_id = d\<rparr>))))))))"

definition delta_to_dict :: "delta \<Rightarrow> json" where
  "delta_to_dict d =
     JObj (delta_unsigned (dl_base d) (dl_target d) (dl_items d) (dl_conflicts d) @
       [(''delta_id'', JStr (dl_id d))])"

definition delta_keys :: "pystr list" where
  "delta_keys = [''schema_version'', ''base'', ''target'', ''items'', ''conflicts'', ''bounds'',
     ''delta_id'']"

definition delta_from_dict :: "json \<Rightarrow> delta res" where
  "delta_from_dict v =
     rbind (exact delta_keys v) (\<lambda>_.
     rbind (check (jat ''schema_version'' v = JStr ''leanctx.context-delta/v1'' \<and>
         is_arr (jat ''items'' v)) WorkspaceIncompatibleError) (\<lambda>_.
     rbind (check (py_eq (jat ''bounds'' v) delta_bounds) WorkspaceIncompatibleError) (\<lambda>_.
     rbind (state_ref_from_dict (jat ''base'' v)) (\<lambda>base.
     rbind (state_ref_from_dict (jat ''target'' v)) (\<lambda>target.
     rbind (mapr delta_item_from_dict (jitems (jat ''items'' v))) (\<lambda>items.
     rbind (report_from_dict (jat ''conflicts'' v)) (\<lambda>conflicts.
     rbind (mk_delta base target items conflicts (jat ''delta_id'' v)) (\<lambda>d.
     rbind (check (py_eq (delta_to_dict d) v) WorkspaceConflictError) (\<lambda>_. Inr d)))))))))"

section \<open>Comparing two checkpoints\<close>

text \<open>What one part of the comparison finds: its items and its conflicts.\<close>

type_synonym findings = "delta_item list \<times> conflict_entry list"

definition join_findings :: "findings list \<Rightarrow> findings" where
  "join_findings fs = (concat (map fst fs), concat (map snd fs))"

definition union_keys :: "('k::linorder \<times> 'v) list \<Rightarrow> ('k \<times> 'v) list \<Rightarrow> 'k list" where
  "union_keys left right = sort (remdups (map fst left @ map fst right))"

definition over_keys ::
  "(pystr \<Rightarrow> json option \<Rightarrow> json option \<Rightarrow> findings res) \<Rightarrow> (pystr \<times> json) list \<Rightarrow>
     (pystr \<times> json) list \<Rightarrow> findings res" where
  "over_keys f left right =
     rbind (mapr (\<lambda>k. f k (map_of left k) (map_of right k)) (union_keys left right))
       (\<lambda>fs. Inr (join_findings fs))"

text \<open>A value on one side only, or on both; \<open>changed\<close> handles two values with different texts.\<close>

definition compare_values ::
  "pystr \<Rightarrow> pystr \<Rightarrow> pystr \<Rightarrow> (json \<Rightarrow> json \<Rightarrow> evidence_ref list \<Rightarrow> findings res) \<Rightarrow> pystr \<Rightarrow>
     json option \<Rightarrow> json option \<Rightarrow> evidence_ref list \<Rightarrow> findings res" where
  "compare_values category added removed changed key before after refs =
     (case (before, after) of
        (None, _) \<Rightarrow>
          rbind (mk_delta_item (JStr category) (JStr added) (JStr key) JNull (opt_value after) refs)
            (\<lambda>i. Inr ([i], []))
      | (Some b, None) \<Rightarrow>
          rbind (mk_delta_item (JStr category) (JStr removed) (JStr key) b JNull refs) (\<lambda>i. Inr ([i], []))
      | (Some b, Some a) \<Rightarrow>
          rbind (same_canonical b a) (\<lambda>same. if same then Inr ([], []) else changed b a refs))"

definition changed_field :: "pystr \<Rightarrow> json \<Rightarrow> json \<Rightarrow> bool" where
  "changed_field name b a \<longleftrightarrow> \<not> py_eq (jat name b) (jat name a)"

definition changing_fields :: "pystr list" where
  "changing_fields = [''revision'', ''freshness'', ''recovery'']"

definition without_keys :: "pystr list \<Rightarrow> json \<Rightarrow> json" where
  "without_keys names v = JObj (filter (\<lambda>p. fst p \<notin> set names) (obj_items v))"

definition source_actions :: "json \<Rightarrow> json \<Rightarrow> pystr list" where
  "source_actions b a =
     (if changed_field ''revision'' b a then [''revision_changed''] else []) @
     (if changed_field ''freshness'' b a then [''freshness_changed''] else []) @
     (if changed_field ''recovery'' b a then [''recovery_availability_changed''] else [])"

definition changed_source :: "pystr \<Rightarrow> json \<Rightarrow> json \<Rightarrow> evidence_ref list \<Rightarrow> findings res" where
  "changed_source key b a refs =
     (let actions = source_actions b a in
     rbind (if actions = [] then Inr False
            else same_canonical (without_keys changing_fields b) (without_keys changing_fields a)) (\<lambda>rest.
     rbind (check rest WorkspaceConflictError) (\<lambda>_.
     rbind (mapr (\<lambda>x. mk_delta_item (JStr ''source'') (JStr x) (JStr key) b a refs) actions) (\<lambda>items.
     if ''revision_changed'' \<in> set actions then
       rbind (create_conflict (JStr ''SOURCE_REVISION'') (JStr key) JNull b a refs) (\<lambda>c. Inr (items, [c]))
     else Inr (items, [])))))"

definition source_delta ::
  "checkpoint \<Rightarrow> checkpoint \<Rightarrow> pystr \<Rightarrow> json option \<Rightarrow> json option \<Rightarrow> findings res" where
  "source_delta base target key before after =
     rbind (value_evidence [(base, before), (target, after)])
       (compare_values ''source'' ''added'' ''removed'' (changed_source key) key before after)"

definition same_meaning :: "json \<Rightarrow> json \<Rightarrow> bool" where
  "same_meaning b a \<longleftrightarrow>
     py_eq (jat ''category'' b) (jat ''category'' a) \<and> py_eq (jat ''value'' b) (jat ''value'' a)"

definition entry_category :: "json \<Rightarrow> pystr" where
  "entry_category v =
     (if jat ''category'' v = JStr ''decisions'' then ''DECISION'' else ''PROJECT_CONTEXT'')"

definition changed_entry :: "pystr \<Rightarrow> json \<Rightarrow> json \<Rightarrow> evidence_ref list \<Rightarrow> findings res" where
  "changed_entry key b a refs =
     (let same = same_meaning b a in
     rbind (mk_delta_item (JStr ''project_context'')
       (JStr (if same then ''provenance_changed'' else ''contradicted'')) (JStr key) b a refs) (\<lambda>i.
     if same then Inr ([i], [])
     else rbind (create_conflict (JStr (entry_category a)) (JStr key) JNull b a refs) (\<lambda>c.
       Inr ([i], [c]))))"

definition entry_delta ::
  "checkpoint \<Rightarrow> checkpoint \<Rightarrow> pystr \<Rightarrow> json option \<Rightarrow> json option \<Rightarrow> findings res" where
  "entry_delta base target key before after =
     rbind (value_evidence [(base, before), (target, after)])
       (compare_values ''project_context'' ''added'' ''removed'' (changed_entry key) key before after)"

definition changed_pin :: "pystr \<Rightarrow> json \<Rightarrow> json \<Rightarrow> evidence_ref list \<Rightarrow> findings res" where
  "changed_pin key b a refs =
     rbind (mk_delta_item (JStr ''package'')
       (JStr (if changed_field ''trust_state'' b a then ''trust_changed'' else ''digest_changed''))
       (JStr key) b a refs) (\<lambda>i.
     rbind (create_conflict (JStr ''PACKAGE'') (JStr key) JNull b a refs) (\<lambda>c. Inr ([i], [c])))"

definition pin_delta ::
  "checkpoint \<Rightarrow> checkpoint \<Rightarrow> pystr \<Rightarrow> json option \<Rightarrow> json option \<Rightarrow> findings res" where
  "pin_delta base target key before after =
     rbind (plain_evidence [(base, before), (target, after)])
       (compare_values ''package'' ''pin_added'' ''pin_removed'' (changed_pin key) key before after)"

definition package_key :: "json \<Rightarrow> pystr" where
  "package_key p = jstr (jat ''name'' p) @ ''@'' @ jstr (jat ''version'' p)"

definition pins_by_key :: "json list \<Rightarrow> (pystr \<times> json) list" where
  "pins_by_key pins = py_dict (map (\<lambda>p. (package_key p, p)) pins)"

definition policy_delta :: "checkpoint \<Rightarrow> checkpoint \<Rightarrow> json \<Rightarrow> json \<Rightarrow> findings res" where
  "policy_delta base target b a =
     rbind (same_canonical b a) (\<lambda>same.
     if same then Inr ([], [])
     else rbind (plain_evidence [(base, Some b), (target, Some a)]) (\<lambda>refs.
          rbind (mk_delta_item (JStr ''policy'') (JStr ''effective_changed'') (JStr ''workspace-policy'')
            b a refs) (\<lambda>i.
          rbind (create_conflict (JStr ''POLICY'') (JStr ''workspace-policy'') JNull b a refs) (\<lambda>c.
          Inr ([i], [c])))))"

definition checkpoint_name :: "checkpoint \<Rightarrow> json" where
  "checkpoint_name c =
     JObj [(''workspace_id'', JStr (ck_workspace c)), (''checkpoint_id'', JStr (ck_id c))]"

definition lineage_item :: "checkpoint \<Rightarrow> checkpoint \<Rightarrow> delta_item res" where
  "lineage_item base target =
     rbind (plain_evidence [(base, Some JNull), (target, Some JNull)]) (\<lambda>refs.
     mk_delta_item (JStr ''lineage'')
       (JStr (if ck_workspace base \<noteq> ck_workspace target then ''fork_ancestry''
          else ''checkpoint_reference''))
       (JStr (ck_workspace target)) (checkpoint_name base) (checkpoint_name target) refs)"

definition portable_sources :: "checkpoint \<Rightarrow> json" where
  "portable_sources c = JArr (map portable_anchor (jitems (jat ''sources'' (ck_logical c))))"

definition state_pins :: "checkpoint \<Rightarrow> json list" where
  "state_pins c = jitems (jat ''package_pins'' (ck_logical c))"

text \<open>The comparison itself, before its items are ordered.\<close>

definition checkpoint_findings :: "checkpoint \<Rightarrow> checkpoint \<Rightarrow> findings res" where
  "checkpoint_findings base target =
     rbind (keyed (portable_sources base) ''source_id'') (\<lambda>left_sources.
     rbind (keyed (portable_sources target) ''source_id'') (\<lambda>right_sources.
     rbind (over_keys (source_delta base target) left_sources right_sources) (\<lambda>sources.
     rbind (checkpoint_entries base) (\<lambda>left_entries.
     rbind (checkpoint_entries target) (\<lambda>right_entries.
     rbind (over_keys (entry_delta base target) left_entries right_entries) (\<lambda>entries.
     let left_pins = pins_by_key (state_pins base); right_pins = pins_by_key (state_pins target) in
     rbind (check (length left_pins = length (state_pins base) \<and>
         length right_pins = length (state_pins target)) WorkspaceConflictError) (\<lambda>_.
     rbind (over_keys (pin_delta base target) left_pins right_pins) (\<lambda>pins.
     rbind (policy_delta base target (jat ''policy'' (ck_logical base)) (jat ''policy'' (ck_logical target)))
       (\<lambda>policy.
     rbind (lineage_item base target) (\<lambda>lineage.
     Inr (join_findings [sources, entries, pins, policy, ([lineage], [])])))))))))))"

definition delta_between ::
  "checkpoint \<Rightarrow> checkpoint \<Rightarrow> json \<Rightarrow> fork_lineage option \<Rightarrow> fork_lineage option \<Rightarrow> delta res" where
  "delta_between base target ancestry base_lineage target_lineage =
     rbind (member ancestries ancestry) (\<lambda>_.
     rbind (state_ref_from_checkpoint base base_lineage) (\<lambda>base_ref.
     rbind (state_ref_from_checkpoint target target_lineage) (\<lambda>target_ref.
     rbind (checkpoint_findings base target) (\<lambda>(items, conflicts).
     rbind (ranked_items items) (\<lambda>selected.
     rbind (check (length selected \<le> MAX_DELTA_ITEMS) WorkspacePolicyError) (\<lambda>_.
     rbind (create_report (Some base_ref) base_ref target_ref ancestry conflicts) (\<lambda>report.
     let payload = JObj (delta_unsigned base_ref target_ref selected report) in
     rbind (ws_canonical payload) (\<lambda>bytes.
     rbind (check (length bytes \<le> MAX_DELTA_BYTES) WorkspacePolicyError) (\<lambda>_.
     rbind (domain_digest ''leanctx.context-delta.v1'' payload) (\<lambda>digest.
     mk_delta base_ref target_ref selected report (JStr digest)))))))))))"

text \<open>\<open>ContextDeltaV1.between\<close> claims no ancestry.\<close>

definition plain_delta :: "checkpoint \<Rightarrow> checkpoint \<Rightarrow> delta res" where
  "plain_delta base target = delta_between base target (JStr ''unknown'') None None"

section \<open>The method of the workspace\<close>

text \<open>The parent a fork's lineage names.\<close>

definition lineage_names :: "fork_lineage \<Rightarrow> checkpoint \<Rightarrow> bool" where
  "lineage_names l c \<longleftrightarrow>
     fl_parent l = ck_workspace c \<and> fl_checkpoint l = ck_id c \<and> fl_digest l = ck_state_digest c \<and>
     fl_envelope l = ck_envelope c"

definition context_delta :: "checkpoint \<Rightarrow> checkpoint \<Rightarrow> workspace \<Rightarrow> delta res" where
  "context_delta base target w =
     rbind (read_state w) (\<lambda>s.
     rbind (require_stored s target) (\<lambda>_.
     rbind (if ck_workspace base = ck_workspace target then require_stored s base
            else rbind (of_option WorkspaceConflictError (s_fork s)) (\<lambda>v.
                 rbind (lineage_from_dict v) (\<lambda>l.
                 check (lineage_names l base) WorkspaceConflictError))) (\<lambda>_.
     rbind (state_lineage s) (\<lambda>lineage.
     delta_between base target (JStr ''exact'')
       (if ck_workspace base = workspace_id w then lineage else None) lineage))))"

end
