(* ===== verification/Px_Reconcile.thy ===== *)
theory Px_Reconcile
  imports Px_Delta
begin

text \<open>
  The reconciliation of two forks of one checkpoint (\<open>NarrowReconciliationV1\<close> of
  \<open>src/leanctx_sdk/parallel_context.py\<close>) and the method of \<open>ContextWorkspace\<close> that asks for it.
\<close>

section \<open>The record\<close>

record reconciliation =
  rc_id :: pystr
  rc_ancestor :: state_ref
  rc_left :: state_ref
  rc_right :: state_ref
  rc_mode :: pystr
  rc_selected :: "pystr list"
  rc_conflicts :: conflict_report
  rc_result :: pystr
  rc_digest :: pystr

definition rec_modes :: "pystr list" where
  "rec_modes = [''knowledge'', ''decisions'', ''accepted_handoff'']"

definition rec_unsigned ::
  "pystr \<Rightarrow> state_ref \<Rightarrow> state_ref \<Rightarrow> state_ref \<Rightarrow> pystr \<Rightarrow> pystr list \<Rightarrow> conflict_report \<Rightarrow> pystr \<Rightarrow>
     (pystr \<times> json) list" where
  "rec_unsigned i ancestor left right mode selected conflicts result =
     [(''schema_version'', JStr ''leanctx.narrow-reconciliation/v1''), (''reconciliation_id'', JStr i),
      (''common_ancestor'', state_ref_to_dict ancestor), (''left'', state_ref_to_dict left),
      (''right'', state_ref_to_dict right), (''mode'', JStr mode),
      (''selected_entry_ids'', jstrs selected), (''conflicts'', report_to_dict conflicts),
      (''result'', JStr result)]"

definition mk_reconciliation ::
  "json \<Rightarrow> state_ref \<Rightarrow> state_ref \<Rightarrow> state_ref \<Rightarrow> json \<Rightarrow> json list \<Rightarrow> conflict_report \<Rightarrow> json \<Rightarrow> json \<Rightarrow>
     reconciliation res" where
  "mk_reconciliation rid ancestor left right mode0 selected conflicts result0 digest =
     rbind (wuuid rid) (\<lambda>i.
     rbind (member rec_modes mode0) (\<lambda>mode.
     rbind (member [''applicable'', ''manual_required'', ''rejected''] result0) (\<lambda>result.
     rbind (punique MAX_DELTA_ITEMS selected) (\<lambda>ids.
     rbind (check ((result = ''manual_required'') = (cr_entries conflicts \<noteq> [])) WorkspaceConflictError) (\<lambda>_.
     rbind (check (cr_base conflicts = Some ancestor \<and> cr_left conflicts = left \<and>
         cr_right conflicts = right \<and> cr_ancestry conflicts = ''diverged'') WorkspaceConflictError) (\<lambda>_.
     rbind (domain_digest ''leanctx.narrow-reconciliation.v1''
       (JObj (rec_unsigned i ancestor left right mode ids conflicts result))) (\<lambda>d.
     rbind (check (digest = JStr d) WorkspaceConflictError) (\<lambda>_.
     Inr \<lparr>rc_id = i, rc_ancestor = ancestor, rc_left = left, rc_right = right, rc_mode = mode,
       rc_selected = ids, rc_conflicts = conflicts, rc_result = result, rc_digest = d\<rparr>))))))))"

definition reconciliation_to_dict :: "reconciliation \<Rightarrow> json" where
  "reconciliation_to_dict r =
     JObj (rec_unsigned (rc_id r) (rc_ancestor r) (rc_left r) (rc_right r) (rc_mode r) (rc_selected r)
         (rc_conflicts r) (rc_result r) @ [(''reconciliation_digest'', JStr (rc_digest r))])"

definition rec_keys :: "pystr list" where
  "rec_keys = [''schema_version'', ''reconciliation_id'', ''common_ancestor'', ''left'', ''right'',
     ''mode'', ''selected_entry_ids'', ''conflicts'', ''result'', ''reconciliation_digest'']"

definition reconciliation_from_dict :: "json \<Rightarrow> reconciliation res" where
  "reconciliation_from_dict v =
     rbind (exact rec_keys v) (\<lambda>_.
     rbind (check (jat ''schema_version'' v = JStr ''leanctx.narrow-reconciliation/v1'' \<and>
         is_arr (jat ''selected_entry_ids'' v)) WorkspaceIncompatibleError) (\<lambda>_.
     rbind (state_ref_from_dict (jat ''common_ancestor'' v)) (\<lambda>ancestor.
     rbind (state_ref_from_dict (jat ''left'' v)) (\<lambda>left.
     rbind (state_ref_from_dict (jat ''right'' v)) (\<lambda>right.
     rbind (report_from_dict (jat ''conflicts'' v)) (\<lambda>conflicts.
     rbind (mk_reconciliation (jat ''reconciliation_id'' v) ancestor left right (jat ''mode'' v)
       (jitems (jat ''selected_entry_ids'' v)) conflicts (jat ''result'' v)
       (jat ''reconciliation_digest'' v)) (\<lambda>r.
     rbind (check (py_eq (reconciliation_to_dict r) v) WorkspaceConflictError) (\<lambda>_. Inr r))))))))"

section \<open>Comparing two forks\<close>

text \<open>The entries of the handoff that a reconciliation may use, in the mode for handoffs.\<close>

definition ref_names :: "state_ref \<Rightarrow> checkpoint \<Rightarrow> bool" where
  "ref_names r c \<longleftrightarrow>
     sr_workspace r = ck_workspace c \<and> sr_checkpoint r = ck_id c \<and> sr_digest r = ck_state_digest c \<and>
     sr_envelope r = ck_envelope c"

definition handoff_fits :: "handoff \<Rightarrow> admission \<Rightarrow> checkpoint \<Rightarrow> checkpoint \<Rightarrow> bool" where
  "handoff_fits ho adm left right \<longleftrightarrow>
     ad_decision adm = ''admitted'' \<and> ad_handoff adm = ho_id ho \<and>
     ad_handoff_digest adm = ho_digest ho \<and> ref_names (ho_source ho) left \<and>
     ho_target ho = ck_workspace right \<and> ad_receiver adm = ck_workspace right \<and>
     cr_left (ad_conflicts adm) = ho_source ho \<and> ref_names (cr_right (ad_conflicts adm)) right"

definition accepted_ids ::
  "pystr \<Rightarrow> handoff option \<Rightarrow> admission option \<Rightarrow> checkpoint \<Rightarrow> checkpoint \<Rightarrow> pystr list option res" where
  "accepted_ids mode ho adm left right =
     (if mode = ''accepted_handoff'' then
        (case (ho, adm) of
           (Some h, Some a) \<Rightarrow>
             rbind (check (handoff_fits h a left right) WorkspaceConflictError) (\<lambda>_.
             rbind (mapr entry_from_dict (ho_entries h)) (\<lambda>es. Inr (Some (map en_id es))))
         | _ \<Rightarrow> Inl WorkspaceValidationError)
      else rbind (check (ho = None \<and> adm = None) WorkspaceValidationError) (\<lambda>_. Inr None))"

definition allowed_categories :: "pystr \<Rightarrow> pystr list" where
  "allowed_categories mode =
     (if mode = ''accepted_handoff'' then
        [''facts'', ''decisions'', ''constraints'', ''unresolved_questions'']
      else if mode = ''decisions'' then [''decisions'']
      else [''facts'', ''constraints'', ''unresolved_questions''])"

text \<open>The entries of one side that the ancestor does not have, or has with another content.\<close>

definition changed_from ::
  "(pystr \<times> json) list \<Rightarrow> (pystr \<times> json) list \<Rightarrow> (pystr \<times> json) list res" where
  "changed_from ancestor entries =
     rbind (mapr (\<lambda>(k, v). case map_of ancestor k of
              None \<Rightarrow> Inr [(k, v)]
            | Some a \<Rightarrow> rbind (same_canonical v a) (\<lambda>same. Inr (if same then [] else [(k, v)]))) entries)
       (\<lambda>xs. Inr (concat xs))"

definition in_scope :: "pystr list \<Rightarrow> pystr list option \<Rightarrow> pystr \<Rightarrow> json option \<Rightarrow> json option \<Rightarrow> bool" where
  "in_scope allowed accepted key left right \<longleftrightarrow>
     (case accepted of None \<Rightarrow> True | Some ids \<Rightarrow> key \<in> set ids) \<and>
     (\<forall>v \<in> set_option left \<union> set_option right.
        case jat ''category'' v of JStr c \<Rightarrow> c \<in> set allowed | _ \<Rightarrow> False)"

text \<open>One key changed on some side: it is selected, is a conflict, or is left out.\<close>

type_synonym verdicts = "pystr list \<times> conflict_entry list"

definition reconcile_key ::
  "checkpoint \<Rightarrow> checkpoint \<Rightarrow> checkpoint \<Rightarrow> pystr list \<Rightarrow> pystr list option \<Rightarrow> (pystr \<times> json) list \<Rightarrow>
     pystr \<Rightarrow> json option \<Rightarrow> json option \<Rightarrow> verdicts res" where
  "reconcile_key ancestor left right allowed accepted known key l r =
     (if \<not> in_scope allowed accepted key l r then Inr ([], [])
      else case (l, r) of
        (Some x, Some y) \<Rightarrow>
          rbind (same_canonical x y) (\<lambda>same.
          if same then Inr ([key], [])
          else rbind (value_evidence [(ancestor, map_of known key), (left, l), (right, r)]) (\<lambda>refs.
               rbind (create_conflict (JStr (entry_category x)) (JStr key) (opt_value (map_of known key))
                 x y refs) (\<lambda>c. Inr ([], [c]))))
      | _ \<Rightarrow> Inr ([key], []))"

definition reconcile_keys ::
  "checkpoint \<Rightarrow> checkpoint \<Rightarrow> checkpoint \<Rightarrow> pystr list \<Rightarrow> pystr list option \<Rightarrow> verdicts res" where
  "reconcile_keys ancestor left right allowed accepted =
     rbind (checkpoint_entries ancestor) (\<lambda>known.
     rbind (checkpoint_entries left) (\<lambda>left_entries.
     rbind (checkpoint_entries right) (\<lambda>right_entries.
     rbind (changed_from known left_entries) (\<lambda>ls.
     rbind (changed_from known right_entries) (\<lambda>rs.
     rbind (mapr (\<lambda>k. reconcile_key ancestor left right allowed accepted known k (map_of ls k) (map_of rs k))
       (union_keys ls rs)) (\<lambda>vs.
     Inr (concat (map fst vs), concat (map snd vs))))))))"

definition reconcile_between ::
  "checkpoint \<Rightarrow> checkpoint \<Rightarrow> checkpoint \<Rightarrow> pystr \<Rightarrow> pystr option \<Rightarrow> pystr \<Rightarrow> handoff option \<Rightarrow>
     admission option \<Rightarrow> fork_lineage option \<Rightarrow> fork_lineage option \<Rightarrow> reconciliation res" where
  "reconcile_between ancestor left right mode given fresh ho adm left_lineage right_lineage =
     rbind (check (mode \<in> set rec_modes) WorkspaceValidationError) (\<lambda>_.
     rbind (accepted_ids mode ho adm left right) (\<lambda>accepted.
     rbind (chosen_id given fresh) (\<lambda>i.
     rbind (reconcile_keys ancestor left right (allowed_categories mode) accepted) (\<lambda>(selected, conflicts).
     rbind (state_ref_from_checkpoint ancestor None) (\<lambda>ancestor_ref.
     rbind (state_ref_from_checkpoint left left_lineage) (\<lambda>left_ref.
     rbind (state_ref_from_checkpoint right right_lineage) (\<lambda>right_ref.
     rbind (create_report (Some ancestor_ref) left_ref right_ref (JStr ''diverged'') conflicts) (\<lambda>report.
     let result = (if conflicts = [] then ''applicable'' else ''manual_required'') in
     rbind (domain_digest ''leanctx.narrow-reconciliation.v1''
       (JObj (rec_unsigned i ancestor_ref left_ref right_ref mode (sort selected) report result))) (\<lambda>d.
     mk_reconciliation (JStr i) ancestor_ref left_ref right_ref (JStr mode) (map JStr (sort selected))
       report (JStr result) (JStr d))))))))))"

section \<open>The method of the workspace\<close>

definition has_checkpoint :: "ws_state \<Rightarrow> checkpoint \<Rightarrow> bool" where
  "has_checkpoint s c \<longleftrightarrow>
     (case map_of (s_checkpoints s) (ck_id c) of
        None \<Rightarrow> False | Some k \<Rightarrow> py_eq (checkpoint_to_dict k) (checkpoint_to_dict c))"

definition check_accepted ::
  "handoff option \<Rightarrow> admission option \<Rightarrow> checkpoint \<Rightarrow> checkpoint \<Rightarrow> fork_lineage \<Rightarrow> fork_lineage \<Rightarrow> unit res" where
  "check_accepted ho adm left right ll rl =
     (case (ho, adm) of
        (Some h, Some a) \<Rightarrow>
          rbind (state_ref_from_checkpoint left (Some ll)) (\<lambda>left_ref.
          rbind (state_ref_from_checkpoint right (Some rl)) (\<lambda>right_ref.
          check (ho_source h = left_ref \<and> ho_target h = ck_workspace right \<and>
            ad_receiver a = ck_workspace right \<and> cr_left (ad_conflicts a) = left_ref \<and>
            cr_right (ad_conflicts a) = right_ref) WorkspaceConflictError))
      | _ \<Rightarrow> Inl WorkspaceValidationError)"

text \<open>\<open>same_object\<close> says whether \<open>other\<close> is the workspace object itself.\<close>

definition narrow_reconciliation ::
  "workspace \<Rightarrow> bool \<Rightarrow> checkpoint \<Rightarrow> checkpoint \<Rightarrow> checkpoint \<Rightarrow> pystr \<Rightarrow> pystr option \<Rightarrow> pystr \<Rightarrow>
     handoff option \<Rightarrow> admission option \<Rightarrow> workspace \<Rightarrow> reconciliation res" where
  "narrow_reconciliation other same_object ancestor left right mode given fresh ho adm w =
     rbind (check (\<not> same_object) WorkspaceValidationError) (\<lambda>_.
     rbind (read_state w) (\<lambda>ls.
     rbind (read_state other) (\<lambda>rs.
     rbind (check (has_checkpoint ls left \<and> has_checkpoint rs right \<and> s_fork ls \<noteq> None \<and>
         s_fork rs \<noteq> None) WorkspaceConflictError) (\<lambda>_.
     rbind (lineage_from_dict (opt_value (s_fork ls))) (\<lambda>ll.
     rbind (lineage_from_dict (opt_value (s_fork rs))) (\<lambda>rl.
     rbind (check (lineage_names ll ancestor \<and> lineage_names rl ancestor) WorkspaceConflictError) (\<lambda>_.
     rbind (if mode = ''accepted_handoff'' then check_accepted ho adm left right ll rl else Inr ()) (\<lambda>_.
     reconcile_between ancestor left right mode given fresh ho adm (Some ll) (Some rl)))))))))"

end
