(* ===== verification/Strict_Fields.thy ===== *)
theory Strict_Fields
  imports Ws_Checkpoint
begin

text \<open>
  The field checks the preview readers share (\<open>src/leanctx_sdk/context_store.py\<close> and
  \<open>src/leanctx_sdk/gateway.py\<close>). Each takes any JSON value and raises \<open>InstanceProtocolError\<close>; the
  length of a text that has no UTF-8 encoding raises \<open>UnicodeEncodeError\<close> instead.
\<close>

definition MAX_SAFE :: int where "MAX_SAFE = 2 ^ 53 - 1"

definition bad :: "bool \<Rightarrow> unit res" where
  "bad wrong = check (\<not> wrong) InstanceProtocolError"

lemma bad_Inr [ok_simps]: "bad b = Inr u \<longleftrightarrow> \<not> b"
  by (simp add: bad_def ok_simps)

definition has_fields :: "pystr list \<Rightarrow> pystr list \<Rightarrow> json \<Rightarrow> unit res" where
  "has_fields required optional v =
     rbind (bad (\<not> is_obj v)) (\<lambda>_.
     rbind (bad (\<not> set required \<subseteq> set (jkeys v))) (\<lambda>_.
     bad (\<not> set (jkeys v) \<subseteq> set required \<union> set optional)))"

lemma has_fields_Inr [ok_simps]:
  "has_fields required optional v = Inr u \<longleftrightarrow>
     is_obj v \<and> set required \<subseteq> set (jkeys v) \<and> set (jkeys v) \<subseteq> set required \<union> set optional"
  by (auto simp: has_fields_def ok_simps)

definition int_in :: "int \<Rightarrow> int \<Rightarrow> json \<Rightarrow> int res" where
  "int_in lo hi v =
     (case v of JInt i \<Rightarrow> if lo \<le> i \<and> i \<le> hi then Inr i else Inl InstanceProtocolError
      | _ \<Rightarrow> Inl InstanceProtocolError)"

lemma int_in_Inr [ok_simps]: "int_in lo hi v = Inr i \<longleftrightarrow> v = JInt i \<and> lo \<le> i \<and> i \<le> hi"
  by (auto simp: int_in_def split: json.splits)

definition is_version :: "int \<Rightarrow> json \<Rightarrow> bool" where
  "is_version expected v \<longleftrightarrow> v = JInt expected"

definition bool_of :: "json \<Rightarrow> bool res" where
  "bool_of v = (case v of JBool b \<Rightarrow> Inr b | _ \<Rightarrow> Inl InstanceProtocolError)"

lemma bool_of_Inr [ok_simps]: "bool_of v = Inr b \<longleftrightarrow> v = JBool b"
  by (auto simp: bool_of_def split: json.splits)

text \<open>\<open>any(ord(ch) < 0x20 or ord(ch) == 0x7F for ch in value)\<close>.\<close>

definition has_control_or_del :: "pystr \<Rightarrow> bool" where
  "has_control_or_del s \<longleftrightarrow> list_ex (\<lambda>c. byte c < 32 \<or> byte c = 127) s"

definition encoded_length :: "pystr \<Rightarrow> nat res" where
  "encoded_length s = (if strict_utf8 s then Inr (length s) else Inl PyUnicodeEncodeError)"

lemma encoded_length_Inr [ok_simps]: "encoded_length s = Inr n \<longleftrightarrow> strict_utf8 s \<and> n = length s"
  by (auto simp: encoded_length_def)

definition plain_text :: "nat \<Rightarrow> json \<Rightarrow> pystr res" where
  "plain_text maximum v =
     (case v of JStr s \<Rightarrow>
        rbind (encoded_length s) (\<lambda>n.
        rbind (bad (n > maximum \<or> has_control_or_del s)) (\<lambda>_. Inr s))
      | _ \<Rightarrow> Inl InstanceProtocolError)"

definition plain_ok :: "nat \<Rightarrow> pystr \<Rightarrow> bool" where
  "plain_ok maximum s \<longleftrightarrow> strict_utf8 s \<and> length s \<le> maximum \<and> \<not> has_control_or_del s"

lemma plain_text_Inr [ok_simps]: "plain_text n v = Inr s \<longleftrightarrow> v = JStr s \<and> plain_ok n s"
  by (cases v) (auto simp: plain_text_def plain_ok_def ok_simps)

text \<open>\<open>not value.strip()\<close>: nothing but whitespace.\<close>

definition blank :: "pystr \<Rightarrow> bool" where
  "blank s \<longleftrightarrow> list_all re_space (code_points s)"

text \<open>\<open>value in allowed\<close> for a tuple of strings.\<close>

definition one_of :: "pystr list \<Rightarrow> json \<Rightarrow> pystr res" where
  "one_of allowed v =
     (case v of JStr s \<Rightarrow> if s \<in> set allowed then Inr s else Inl InstanceProtocolError
      | _ \<Rightarrow> Inl InstanceProtocolError)"

lemma one_of_Inr [ok_simps]: "one_of allowed v = Inr s \<longleftrightarrow> v = JStr s \<and> s \<in> set allowed"
  by (auto simp: one_of_def split: json.splits)

definition digest_of :: "json \<Rightarrow> pystr res" where
  "digest_of v =
     (case v of JStr s \<Rightarrow> if is_digest s then Inr s else Inl InstanceProtocolError
      | _ \<Rightarrow> Inl InstanceProtocolError)"

lemma digest_of_Inr [ok_simps]: "digest_of v = Inr s \<longleftrightarrow> v = JStr s \<and> is_digest s"
  by (auto simp: digest_of_def split: json.splits)

definition list_upto :: "nat \<Rightarrow> json \<Rightarrow> json list res" where
  "list_upto maximum v =
     (case v of JArr xs \<Rightarrow> if length xs \<le> maximum then Inr xs else Inl InstanceProtocolError
      | _ \<Rightarrow> Inl InstanceProtocolError)"

lemma list_upto_Inr [ok_simps]: "list_upto n v = Inr xs \<longleftrightarrow> v = JArr xs \<and> length xs \<le> n"
  by (auto simp: list_upto_def split: json.splits)

text \<open>A field that may be absent, and one that may be absent or null.\<close>

definition opt_field :: "(json \<Rightarrow> 'a res) \<Rightarrow> pystr \<Rightarrow> json \<Rightarrow> 'a option res" where
  "opt_field f k v =
     (case jget k v of None \<Rightarrow> Inr None | Some x \<Rightarrow> rbind (f x) (\<lambda>a. Inr (Some a)))"

definition opt_value_of :: "(json \<Rightarrow> 'a res) \<Rightarrow> json \<Rightarrow> 'a option res" where
  "opt_value_of f v = (if v = JNull then Inr None else rbind (f v) (\<lambda>a. Inr (Some a)))"

definition field_or :: "json \<Rightarrow> pystr \<Rightarrow> json \<Rightarrow> json" where
  "field_or dflt k v = (case jget k v of None \<Rightarrow> dflt | Some x \<Rightarrow> x)"

fun index_of :: "'a \<Rightarrow> 'a list \<Rightarrow> nat" where
  "index_of x [] = 0"
| "index_of x (y # ys) = (if x = y then 0 else Suc (index_of x ys))"

text \<open>\<open>any(key(a) >= key(b) for a, b in zip(xs, xs[1:]))\<close>.\<close>

definition not_increasing :: "('a \<Rightarrow> 'k::linorder) \<Rightarrow> 'a list \<Rightarrow> bool" where
  "not_increasing key xs \<longleftrightarrow> list_ex (\<lambda>(a, b). key a \<ge> key b) (zip xs (drop 1 xs))"

text \<open>\<open>strict_json_loads\<close> of a reply, its failure reported as a protocol error.\<close>

definition reply_document :: "nat \<Rightarrow> pystr \<Rightarrow> json res" where
  "reply_document maximum raw =
     rbind (bad (length raw > maximum)) (\<lambda>_.
     on_err (\<lambda>e. if e = ValidationError then InstanceProtocolError else e) (strict_json_loads raw))"

end
