(* ===== verification/Planning.thy ===== *)
theory Planning
  imports Strict_Fields
begin

text \<open>
  The planner's requests and replies (\<open>src/leanctx_sdk/planning.py\<close>): descriptors of sources, plans
  with their selections, statistics and evidence, and the source plan that binds a plan to the
  sources it selects. The dictionaries the code builds are records with an encoder.
\<close>

section \<open>Bounds and names\<close>

definition MAX_PLAN_REQUEST_BYTES :: nat where "MAX_PLAN_REQUEST_BYTES = 64 * 1024"
definition MAX_PLAN_QUERY_BYTES :: nat where "MAX_PLAN_QUERY_BYTES = 16 * 1024"
definition MAX_PLAN_TOKENS :: int where "MAX_PLAN_TOKENS = 1048576"
definition MAX_PLAN_CANDIDATES :: int where "MAX_PLAN_CANDIDATES = 256"
definition MAX_PLAN_SOURCES :: nat where "MAX_PLAN_SOURCES = 64"
definition MAX_SOURCE_CONTENT :: nat where "MAX_SOURCE_CONTENT = 64 * 1024"
definition MAX_PROTOCOL_ITEMS :: nat where "MAX_PROTOCOL_ITEMS = 256"
definition MAX_IDENTIFIER_BYTES :: nat where "MAX_IDENTIFIER_BYTES = 256"
definition MAX_REFERENCE_BYTES :: nat where "MAX_REFERENCE_BYTES = 1024"
definition MAX_U64 :: int where "MAX_U64 = 2 ^ 64 - 1"
definition MAX_EXTENSION_BYTES :: nat where "MAX_EXTENSION_BYTES = 64 * 1024"
definition MAX_EXTENSION_DEPTH :: nat where "MAX_EXTENSION_DEPTH = 8"
definition MAX_PLAN_RESPONSE :: nat where "MAX_PLAN_RESPONSE = 16 * 1024 * 1024"

definition source_types :: "pystr list" where
  "source_types = [''filesystem'', ''issue_tracker'', ''relational_database'', ''other'']"

definition source_permissions :: "pystr list" where
  "source_permissions = [''permitted'', ''denied'', ''unknown'']"

definition plan_classifications :: "pystr list" where
  "plan_classifications = [''Public'', ''Internal'', ''Confidential'', ''Restricted'']"

definition plan_dispositions :: "pystr list" where
  "plan_dispositions = [''selected'', ''excluded'', ''deferred'']"

definition plan_reasons :: "pystr list" where
  "plan_reasons = [''relevant'', ''required'', ''cache_hit'', ''budget_exceeded'', ''lower_utility'',
     ''policy_excluded'', ''deferred_for_later'', ''other'']"

definition evidence_kinds :: "pystr list" where
  "evidence_kinds = [''ProviderReceipt'', ''RuntimeLog'', ''SignedBatch'', ''QualityMeasurement'',
     ''ExperimentOutcome'']"

definition signature_statuses :: "pystr list" where
  "signature_statuses = [''Verified'', ''Unverified'', ''NotSigned'']"

section \<open>Fields\<close>

definition req :: "bool \<Rightarrow> unit res" where
  "req b = check b ValidationError"

lemma req_Inr [ok_simps]: "req b = Inr u \<longleftrightarrow> b"
  by (simp add: req_def ok_simps)

text \<open>\<open>_is_control\<close>: the category Cc.\<close>

definition has_cc :: "pystr \<Rightarrow> bool" where
  "has_cc s \<longleftrightarrow> list_ex (\<lambda>c. c < 32 \<or> 127 \<le> c \<and> c \<le> 159) (code_points s)"

definition pl_text :: "nat \<Rightarrow> bool \<Rightarrow> bool \<Rightarrow> json \<Rightarrow> pystr res" where
  "pl_text maximum controls reject_nul v =
     (case v of
        JStr s \<Rightarrow>
          rbind (req (strict_utf8 s)) (\<lambda>_.
          rbind (req (s \<noteq> [])) (\<lambda>_.
          rbind (req (length s \<le> maximum)) (\<lambda>_.
          rbind (req (\<not> (reject_nul \<and> has_nul s))) (\<lambda>_.
          rbind (req (\<not> (controls \<and> has_cc s))) (\<lambda>_.
          rbind (req (\<not> blank s)) (\<lambda>_. Inr s))))))
      | _ \<Rightarrow> Inl ValidationError)"

lemma pl_text_Inr [ok_simps]:
  "pl_text n c z v = Inr s \<longleftrightarrow>
     v = JStr s \<and> strict_utf8 s \<and> s \<noteq> [] \<and> length s \<le> n \<and> \<not> (z \<and> has_nul s) \<and>
     \<not> (c \<and> has_cc s) \<and> \<not> blank s"
  by (cases v) (auto simp: pl_text_def ok_simps)

definition ident_of :: "json \<Rightarrow> pystr res" where
  "ident_of v = pl_text MAX_IDENTIFIER_BYTES True True v"

definition refer_of :: "json \<Rightarrow> pystr res" where
  "refer_of v = pl_text MAX_REFERENCE_BYTES True True v"

text \<open>An optional value: absent, null or checked.\<close>

definition nullable :: "(json \<Rightarrow> 'a res) \<Rightarrow> json \<Rightarrow> 'a option res" where
  "nullable f v = (if v = JNull then Inr None else rbind (f v) (\<lambda>a. Inr (Some a)))"

definition integer :: "int \<Rightarrow> int \<Rightarrow> json \<Rightarrow> int res" where
  "integer lo hi v =
     (case v of JInt i \<Rightarrow> rbind (req (lo \<le> i \<and> i \<le> hi)) (\<lambda>_. Inr i) | _ \<Rightarrow> Inl ValidationError)"

lemma integer_Inr [ok_simps]: "integer lo hi v = Inr i \<longleftrightarrow> v = JInt i \<and> lo \<le> i \<and> i \<le> hi"
  by (cases v) (auto simp: integer_def ok_simps)

definition enum :: "pystr list \<Rightarrow> json \<Rightarrow> pystr res" where
  "enum allowed v =
     (case v of JStr s \<Rightarrow> rbind (req (s \<in> set allowed)) (\<lambda>_. Inr s) | _ \<Rightarrow> Inl ValidationError)"

lemma enum_Inr [ok_simps]: "enum allowed v = Inr s \<longleftrightarrow> v = JStr s \<and> s \<in> set allowed"
  by (cases v) (auto simp: enum_def ok_simps)

definition exact_fields :: "pystr list \<Rightarrow> pystr list \<Rightarrow> json \<Rightarrow> unit res" where
  "exact_fields required optional v =
     rbind (req (is_obj v)) (\<lambda>_.
     req (set required \<subseteq> set (jkeys v) \<and> set (jkeys v) \<subseteq> set required \<union> set optional))"

lemma exact_fields_Inr [ok_simps]:
  "exact_fields required optional v = Inr u \<longleftrightarrow>
     is_obj v \<and> set required \<subseteq> set (jkeys v) \<and> set (jkeys v) \<subseteq> set required \<union> set optional"
  by (auto simp: exact_fields_def ok_simps)

definition array_upto :: "nat \<Rightarrow> json \<Rightarrow> json list res" where
  "array_upto maximum v =
     (case v of JArr xs \<Rightarrow> rbind (req (length xs \<le> maximum)) (\<lambda>_. Inr xs) | _ \<Rightarrow> Inl ValidationError)"

lemma array_upto_Inr [ok_simps]: "array_upto n v = Inr xs \<longleftrightarrow> v = JArr xs \<and> length xs \<le> n"
  by (cases v) (auto simp: array_upto_def ok_simps)

text \<open>
  \<open>_TIMESTAMP_RE\<close>. In a pattern for \<open>str\<close> the class \<open>\d\<close> is every decimal digit of Unicode, and
  \<open>int\<close> reads them all: the runs of ten digits start at these code points.
\<close>

definition digit_zeros :: "nat list" where
  "digit_zeros = [
    48, 1632, 1776, 1984, 2406, 2534, 2662, 2790, 2918, 3046, 3174, 3302, 3430, 3558, 3664, 3792,
    3872, 4160, 4240, 6112, 6160, 6470, 6608, 6784, 6800, 6992, 7088, 7232, 7248, 42528, 43216,
    43264, 43472, 43504, 43600, 44016, 65296, 66720, 68912, 69734, 69872, 69942, 70096, 70384,
    70736, 70864, 71248, 71360, 71472, 71904, 72016, 72784, 73040, 73120, 92768, 92864, 93008,
    120782, 120792, 120802, 120812, 120822, 123200, 123632, 125264, 130032]"

definition decimal_digit :: "nat \<Rightarrow> nat option" where
  "decimal_digit c = map_option (\<lambda>z. c - z) (find (\<lambda>z. z \<le> c \<and> c < z + 10) digit_zeros)"

fun decimal_number :: "nat \<Rightarrow> nat list \<Rightarrow> nat option" where
  "decimal_number acc [] = Some acc"
| "decimal_number acc (c # cs) =
     (case decimal_digit c of None \<Rightarrow> None | Some d \<Rightarrow> decimal_number (acc * 10 + d) cs)"

definition number_at :: "nat list \<Rightarrow> nat \<Rightarrow> nat \<Rightarrow> nat option" where
  "number_at ps i n = decimal_number 0 (take n (drop i ps))"

definition timestamp_fields :: "pystr \<Rightarrow> nat list option" where
  "timestamp_fields s =
     (let ps = code_points s in
      if length ps = 20 \<and> ps ! 4 = 45 \<and> ps ! 7 = 45 \<and> ps ! 10 = 84 \<and> ps ! 13 = 58 \<and>
         ps ! 16 = 58 \<and> ps ! 19 = 90
      then those [number_at ps 0 4, number_at ps 5 2, number_at ps 8 2, number_at ps 11 2,
             number_at ps 14 2, number_at ps 17 2]
      else None)"

definition timestamp :: "json \<Rightarrow> pystr res" where
  "timestamp v =
     rbind (ident_of v) (\<lambda>s.
     rbind (of_option ValidationError (timestamp_fields s)) (\<lambda>f.
     rbind (req (ts_valid f)) (\<lambda>_. Inr s)))"

definition hex_any :: "char \<Rightarrow> bool" where
  "hex_any c \<longleftrightarrow> is_hex c \<or> 65 \<le> byte c \<and> byte c \<le> 70"

definition projection_digest :: "json \<Rightarrow> pystr res" where
  "projection_digest v =
     (case v of
        JStr s \<Rightarrow>
          let candidate = remove_prefix ''sha256:'' s in
          rbind (req (length candidate = 64 \<and> list_all hex_any candidate)) (\<lambda>_. Inr s)
      | _ \<Rightarrow> Inl ValidationError)"

section \<open>Extensions\<close>

text \<open>The test \<open>_extension_value\<close> makes of a value once its parts have passed.\<close>

definition extension_size :: "json \<Rightarrow> unit res" where
  "extension_size v = rbind (canonical_bytes v) (\<lambda>b. req (length b \<le> MAX_EXTENSION_BYTES))"

text \<open>\<open>_extension_value\<close> of a value at a depth; the depth of its parts is one more.\<close>

primrec extension_value :: "json \<Rightarrow> nat \<Rightarrow> unit res" where
  "extension_value JNull d = rbind (req (d \<le> MAX_EXTENSION_DEPTH)) (\<lambda>_. extension_size JNull)"
| "extension_value (JBool b) d = rbind (req (d \<le> MAX_EXTENSION_DEPTH)) (\<lambda>_. extension_size (JBool b))"
| "extension_value (JInt i) d = rbind (req (d \<le> MAX_EXTENSION_DEPTH)) (\<lambda>_. extension_size (JInt i))"
| "extension_value (JFloat r) d =
     rbind (req (d \<le> MAX_EXTENSION_DEPTH)) (\<lambda>_.
     rbind (req (\<not> has_nonfinite (JFloat r))) (\<lambda>_. extension_size (JFloat r)))"
| "extension_value (JStr s) d =
     rbind (req (d \<le> MAX_EXTENSION_DEPTH)) (\<lambda>_.
     rbind (encoded_length s) (\<lambda>n.
     rbind (req (n \<le> MAX_EXTENSION_BYTES)) (\<lambda>_. extension_size (JStr s))))"
| "extension_value (JArr xs) d =
     rbind (req (d \<le> MAX_EXTENSION_DEPTH)) (\<lambda>_.
     rbind (req (length xs \<le> MAX_PROTOCOL_ITEMS)) (\<lambda>_.
     rbind (mapr (\<lambda>f. f (Suc d)) (map extension_value xs)) (\<lambda>_. extension_size (JArr xs))))"
| "extension_value (JObj kvs) d =
     rbind (req (d \<le> MAX_EXTENSION_DEPTH)) (\<lambda>_.
     rbind (req (length kvs \<le> MAX_PROTOCOL_ITEMS)) (\<lambda>_.
     rbind (mapr (\<lambda>p. rbind (ident_of (JStr (fst p))) (\<lambda>_. snd p (Suc d)))
       (map (map_prod id extension_value) kvs)) (\<lambda>_. extension_size (JObj kvs))))"

definition ext_of :: "pystr list \<Rightarrow> json \<Rightarrow> (pystr \<times> json) list res" where
  "ext_of reserved v =
     (let items = filter (\<lambda>p. fst p \<notin> set reserved) (obj_items v) in
     rbind (mapr (\<lambda>p. rbind (ident_of (JStr (fst p))) (\<lambda>_. extension_value (snd p) 0)) items) (\<lambda>_.
     rbind (req (length items \<le> MAX_PROTOCOL_ITEMS)) (\<lambda>_. Inr items)))"

section \<open>Sources and requests\<close>

record descriptor =
  dp_object :: pystr
  dp_source :: pystr
  dp_type :: pystr
  dp_content :: pystr
  dp_revision :: "pystr option"
  dp_owner :: "pystr option"
  dp_observed :: "pystr option"
  dp_valid :: "pystr option"
  dp_classification :: "pystr option"
  dp_permission :: pystr

definition descriptor_of :: "json \<Rightarrow> descriptor res" where
  "descriptor_of v =
     rbind (exact_fields [''object_ref'', ''source_id'', ''source_type'', ''content_digest''] [''revision'',
       ''owner'', ''observed_at'', ''valid_until'', ''classification'', ''permission''] v) (\<lambda>_.
     rbind (refer_of (jat ''object_ref'' v)) (\<lambda>obj.
     rbind (ident_of (jat ''source_id'' v)) (\<lambda>source.
     rbind (enum source_types (jat ''source_type'' v)) (\<lambda>ty.
     rbind (on_str validate_digest (jat ''content_digest'' v)) (\<lambda>content.
     rbind (nullable refer_of (jat ''revision'' v)) (\<lambda>revision.
     rbind (nullable refer_of (jat ''owner'' v)) (\<lambda>owner.
     rbind (nullable timestamp (jat ''observed_at'' v)) (\<lambda>observed.
     rbind (nullable timestamp (jat ''valid_until'' v)) (\<lambda>valid.
     rbind (enum source_permissions (field_or (JStr ''unknown'') ''permission'' v)) (\<lambda>permission.
     rbind (nullable (enum plan_classifications) (jat ''classification'' v)) (\<lambda>classification.
     rbind (req (case (observed, valid) of (Some a, Some b) \<Rightarrow> a < b | _ \<Rightarrow> True)) (\<lambda>_.
     Inr \<lparr>dp_object = obj, dp_source = source, dp_type = ty, dp_content = content,
       dp_revision = revision, dp_owner = owner, dp_observed = observed, dp_valid = valid,
       dp_classification = classification, dp_permission = permission\<rparr>))))))))))))"

definition descriptor_json :: "descriptor \<Rightarrow> json" where
  "descriptor_json d =
     JObj [(''object_ref'', JStr (dp_object d)), (''source_id'', JStr (dp_source d)),
       (''source_type'', JStr (dp_type d)), (''content_digest'', JStr (dp_content d)),
       (''revision'', opt_str (dp_revision d)), (''owner'', opt_str (dp_owner d)),
       (''observed_at'', opt_str (dp_observed d)), (''valid_until'', opt_str (dp_valid d)),
       (''classification'', opt_str (dp_classification d)),
       (''permission'', JStr (dp_permission d))]"

record planning_request =
  pq_task :: pystr
  pq_query :: pystr
  pq_budget :: int
  pq_candidates :: int

definition mk_planning_request :: "json \<Rightarrow> json \<Rightarrow> json \<Rightarrow> json \<Rightarrow> planning_request res" where
  "mk_planning_request task_id query budget_tokens max_candidates =
     rbind (ident_of task_id) (\<lambda>t.
     rbind (pl_text MAX_PLAN_QUERY_BYTES False True query) (\<lambda>q.
     rbind (integer 1 MAX_PLAN_TOKENS budget_tokens) (\<lambda>b.
     rbind (integer 1 MAX_PLAN_CANDIDATES max_candidates) (\<lambda>m.
     Inr \<lparr>pq_task = t, pq_query = q, pq_budget = b, pq_candidates = m\<rparr>))))"

definition planning_request_json :: "planning_request \<Rightarrow> json" where
  "planning_request_json r =
     JObj [(''schema_version'', JInt 1), (''transport_version'', JInt 1),
       (''engine_interface_version'', JStr ENGINE_INTERFACE_VERSION), (''task_id'', JStr (pq_task r)),
       (''query'', JStr (pq_query r)), (''budget_tokens'', JInt (pq_budget r)),
       (''max_candidates'', JInt (pq_candidates r))]"

definition planning_request_to_dict :: "planning_request \<Rightarrow> json res" where
  "planning_request_to_dict r =
     rbind (canonical_bytes (planning_request_json r)) (\<lambda>b.
     rbind (req (length b \<le> MAX_PLAN_REQUEST_BYTES)) (\<lambda>_. Inr (planning_request_json r)))"

record instance_source =
  is_descriptor :: descriptor
  is_content :: pystr

definition mk_instance_source :: "json \<Rightarrow> json \<Rightarrow> instance_source res" where
  "mk_instance_source desc content =
     rbind (descriptor_of desc) (\<lambda>d.
     rbind (pl_text MAX_SOURCE_CONTENT False False content) (\<lambda>s.
     rbind (req (dp_content d = sha256_digest s)) (\<lambda>_.
     Inr \<lparr>is_descriptor = d, is_content = s\<rparr>)))"

definition instance_source_to_dict :: "instance_source \<Rightarrow> json" where
  "instance_source_to_dict s =
     JObj [(''descriptor'', descriptor_json (is_descriptor s)), (''content'', JStr (is_content s))]"

section \<open>Plans\<close>

text \<open>A digest of evidence with a version: 64 hexadecimal digits after the optional prefixes.\<close>

definition versioned_digest :: "pystr \<Rightarrow> bool" where
  "versioned_digest s \<longleftrightarrow>
     (let d = remove_prefix ''blake3:'' (remove_prefix ''sha256:'' s) in
      length d = 64 \<and> list_all hex_any d)"

definition evidence_fields :: "pystr list" where
  "evidence_fields = [''schema_version'', ''kind'', ''uri'', ''digest'', ''signature_status'',
     ''media_type'']"

definition plan_evidence :: "json \<Rightarrow> json res" where
  "plan_evidence v =
     rbind (req (is_obj v)) (\<lambda>_.
     rbind (ext_of evidence_fields v) (\<lambda>ext.
     rbind (req (set [''kind'', ''uri'', ''digest'', ''signature_status''] \<subseteq> set (jkeys v))) (\<lambda>_.
     rbind (nullable (integer 1 1) (jat ''schema_version'' v)) (\<lambda>version.
     rbind (enum evidence_kinds (jat ''kind'' v)) (\<lambda>kind.
     rbind (ident_of (jat ''uri'' v)) (\<lambda>uri.
     rbind (ident_of (jat ''digest'' v)) (\<lambda>digest.
     rbind (req (version \<noteq> None \<longrightarrow> versioned_digest digest)) (\<lambda>_.
     rbind (enum signature_statuses (jat ''signature_status'' v)) (\<lambda>status.
     rbind (nullable ident_of (jat ''media_type'' v)) (\<lambda>media.
     Inr (JObj ((case version of None \<Rightarrow> [] | Some i \<Rightarrow> [(''schema_version'', JInt i)]) @
       [(''kind'', JStr kind), (''uri'', JStr uri), (''digest'', JStr digest),
        (''signature_status'', JStr status)] @
       (case media of None \<Rightarrow> [] | Some m \<Rightarrow> [(''media_type'', JStr m)]) @ ext))))))))))))"

record selection =
  sl_source :: pystr
  sl_provider :: pystr
  sl_disposition :: pystr
  sl_tokens :: int
  sl_reasons :: "pystr list"
  sl_digest :: "pystr option"
  sl_detail :: "pystr option"

definition selection_of :: "json \<Rightarrow> selection res" where
  "selection_of v =
     rbind (exact_fields [''source_ref'', ''provider'', ''disposition'', ''token_count'', ''reason_codes'']
       [''sha256_digest'', ''reason_detail''] v) (\<lambda>_.
     rbind (array_upto MAX_PROTOCOL_ITEMS (jat ''reason_codes'' v)) (\<lambda>rs.
     rbind (req (rs \<noteq> [])) (\<lambda>_.
     rbind (mapr (enum plan_reasons) rs) (\<lambda>reasons.
     rbind (req (distinct reasons)) (\<lambda>_.
     rbind (ident_of (jat ''source_ref'' v)) (\<lambda>source.
     rbind (ident_of (jat ''provider'' v)) (\<lambda>provider.
     rbind (enum plan_dispositions (jat ''disposition'' v)) (\<lambda>disposition.
     rbind (integer 0 MAX_U64 (jat ''token_count'' v)) (\<lambda>tokens.
     rbind (nullable projection_digest (jat ''sha256_digest'' v)) (\<lambda>digest.
     rbind (nullable ident_of (jat ''reason_detail'' v)) (\<lambda>detail.
     Inr \<lparr>sl_source = source, sl_provider = provider, sl_disposition = disposition,
       sl_tokens = tokens, sl_reasons = reasons, sl_digest = digest, sl_detail = detail\<rparr>)))))))))))"

definition opt_str_item :: "pystr \<Rightarrow> pystr option \<Rightarrow> (pystr \<times> json) list" where
  "opt_str_item k x = (case x of None \<Rightarrow> [] | Some s \<Rightarrow> [(k, JStr s)])"

definition selection_json :: "selection \<Rightarrow> json" where
  "selection_json s =
     JObj ([(''source_ref'', JStr (sl_source s)), (''provider'', JStr (sl_provider s)),
        (''disposition'', JStr (sl_disposition s)), (''token_count'', JInt (sl_tokens s)),
        (''reason_codes'', jstrs (sl_reasons s))] @
       opt_str_item ''sha256_digest'' (sl_digest s) @ opt_str_item ''reason_detail'' (sl_detail s))"

definition is_selected :: "selection \<Rightarrow> bool" where
  "is_selected s \<longleftrightarrow> sl_disposition s = ''selected''"

definition selected_tokens :: "selection list \<Rightarrow> int" where
  "selected_tokens ss = sum_list (map sl_tokens (filter is_selected ss))"

text \<open>The statistics of one provider.\<close>

definition provider_stats_of :: "pystr \<times> json \<Rightarrow> (pystr \<times> json) res" where
  "provider_stats_of p =
     rbind (ident_of (JStr (fst p))) (\<lambda>name.
     rbind (exact_fields [''candidates_offered'', ''candidates_selected'', ''tokens_used''] [] (snd p)) (\<lambda>_.
     rbind (integer 0 MAX_U64 (jat ''candidates_offered'' (snd p))) (\<lambda>offered.
     rbind (integer 0 MAX_U64 (jat ''candidates_selected'' (snd p))) (\<lambda>selected.
     rbind (req (selected \<le> offered)) (\<lambda>_.
     rbind (integer 0 MAX_U64 (jat ''tokens_used'' (snd p))) (\<lambda>used.
     Inr (name, JObj [(''candidates_offered'', JInt offered), (''candidates_selected'', JInt selected),
       (''tokens_used'', JInt used)])))))))"

text \<open>An optional part of the plan, checked when its key is there.\<close>

definition plan_part :: "(json \<Rightarrow> 'a list res) \<Rightarrow> pystr \<Rightarrow> json \<Rightarrow> 'a list res" where
  "plan_part f k v = (case jget k v of None \<Rightarrow> Inr [] | Some x \<Rightarrow> f x)"

definition stats_part :: "json \<Rightarrow> (pystr \<times> json) list res" where
  "stats_part v =
     rbind (req (is_obj v)) (\<lambda>_.
     rbind (req (length (obj_items v) \<le> MAX_PROTOCOL_ITEMS)) (\<lambda>_.
     mapr provider_stats_of (obj_items v)))"

definition policy_refs_part :: "json \<Rightarrow> pystr list res" where
  "policy_refs_part v =
     rbind (array_upto MAX_PROTOCOL_ITEMS v) (\<lambda>xs.
     rbind (mapr ident_of xs) (\<lambda>refs.
     rbind (req (distinct refs)) (\<lambda>_. Inr refs)))"

definition evidence_part :: "json \<Rightarrow> json list res" where
  "evidence_part v = rbind (array_upto MAX_PROTOCOL_ITEMS v) (mapr plan_evidence)"

record engine_plan =
  gp_id :: pystr
  gp_task :: pystr
  gp_budget :: int
  gp_selections :: "selection list"
  gp_digest :: "pystr option"
  gp_stats :: "(pystr \<times> json) list"
  gp_policy_refs :: "pystr list"
  gp_evidence :: "json list"
  gp_extensions :: "(pystr \<times> json) list"

text \<open>The plan without its digest; a part without items is left out.\<close>

definition plan_unsigned :: "engine_plan \<Rightarrow> (pystr \<times> json) list" where
  "plan_unsigned p =
     [(''schema_version'', JInt 1), (''context_plan_id'', JStr (gp_id p)),
      (''task_id'', JStr (gp_task p)), (''budget_tokens'', JInt (gp_budget p)),
      (''selections'', JArr (map selection_json (gp_selections p)))] @
     (if gp_stats p = [] then [] else [(''provider_stats'', JObj (gp_stats p))]) @
     (if gp_policy_refs p = [] then [] else [(''policy_decision_refs'', jstrs (gp_policy_refs p))]) @
     (if gp_evidence p = [] then [] else [(''evidence'', JArr (gp_evidence p))]) @
     gp_extensions p"

definition plan_json :: "engine_plan \<Rightarrow> json" where
  "plan_json p = JObj (plan_unsigned p @ opt_str_item ''projection_digest'' (gp_digest p))"

definition plan_fields :: "pystr list" where
  "plan_fields = [''schema_version'', ''context_plan_id'', ''task_id'', ''projection_digest'',
     ''budget_tokens'', ''selections'', ''provider_stats'', ''policy_decision_refs'', ''evidence'']"

definition check_plan_digest :: "engine_plan \<Rightarrow> engine_plan res" where
  "check_plan_digest p =
     (case gp_digest p of
        None \<Rightarrow> Inr p
      | Some d \<Rightarrow>
          rbind (canonical_bytes (JObj (plan_unsigned p))) (\<lambda>bytes.
          rbind (req (d = sha256_digest bytes)) (\<lambda>_. Inr p)))"

definition plan_of :: "json \<Rightarrow> engine_plan res" where
  "plan_of v =
     rbind (req (is_obj v)) (\<lambda>_.
     rbind (req (set [''schema_version'', ''context_plan_id'', ''task_id'', ''budget_tokens'',
       ''selections''] \<subseteq> set (jkeys v))) (\<lambda>_.
     rbind (ext_of plan_fields v) (\<lambda>ext.
     rbind (integer 1 1 (jat ''schema_version'' v)) (\<lambda>_.
     rbind (array_upto MAX_PROTOCOL_ITEMS (jat ''selections'' v)) (\<lambda>ss.
     rbind (mapr selection_of ss) (\<lambda>selections.
     rbind (req (distinct (map sl_source selections))) (\<lambda>_.
     rbind (integer 0 MAX_U64 (jat ''budget_tokens'' v)) (\<lambda>budget.
     rbind (req (selected_tokens selections \<le> budget)) (\<lambda>_.
     rbind (ident_of (jat ''context_plan_id'' v)) (\<lambda>i.
     rbind (ident_of (jat ''task_id'' v)) (\<lambda>task.
     rbind (nullable (on_str validate_digest) (jat ''projection_digest'' v)) (\<lambda>digest.
     rbind (plan_part stats_part ''provider_stats'' v) (\<lambda>stats.
     rbind (plan_part policy_refs_part ''policy_decision_refs'' v) (\<lambda>refs.
     rbind (plan_part evidence_part ''evidence'' v) (\<lambda>evidence.
     check_plan_digest
       \<lparr>gp_id = i, gp_task = task, gp_budget = budget, gp_selections = selections, gp_digest = digest,
        gp_stats = stats, gp_policy_refs = refs, gp_evidence = evidence,
        gp_extensions = ext\<rparr>)))))))))))))))"

section \<open>Replies\<close>

definition plan_document :: "pystr \<Rightarrow> json res" where
  "plan_document raw =
     rbind (req (length raw \<le> MAX_PLAN_RESPONSE)) (\<lambda>_. strict_json_loads raw)"

definition plan_header :: "json \<Rightarrow> unit res" where
  "plan_header v =
     rbind (integer 1 1 (jat ''schema_version'' v)) (\<lambda>_.
     rbind (integer 1 1 (jat ''transport_version'' v)) (\<lambda>_.
     req (jat ''engine_interface_version'' v = JStr ENGINE_INTERFACE_VERSION)))"

definition response_of :: "pystr \<Rightarrow> planning_request \<Rightarrow> engine_plan res" where
  "response_of raw request =
     rbind (plan_document raw) (\<lambda>v.
     rbind (exact_fields [''schema_version'', ''transport_version'', ''engine_interface_version'', ''plan'']
       [] v) (\<lambda>_.
     rbind (plan_header v) (\<lambda>_.
     rbind (plan_of (jat ''plan'' v)) (\<lambda>p.
     rbind (req (gp_task p = pq_task request)) (\<lambda>_.
     rbind (req (gp_budget p \<le> pq_budget request)) (\<lambda>_. Inr p))))))"

definition response_json :: "engine_plan \<Rightarrow> json" where
  "response_json p =
     JObj [(''schema_version'', JInt 1), (''transport_version'', JInt 1),
       (''engine_interface_version'', JStr ENGINE_INTERFACE_VERSION), (''plan'', plan_json p)]"

definition parse_context_plan :: "pystr \<Rightarrow> planning_request \<Rightarrow> engine_plan res" where
  "parse_context_plan raw request =
     rbind (planning_request_to_dict request) (\<lambda>_. response_of raw request)"

text \<open>A source plan is the plan with the descriptors of the sources it selects.\<close>

record source_plan =
  sp_plan :: engine_plan
  sp_bindings :: "descriptor list"
  sp_digest :: pystr

definition binds :: "descriptor \<Rightarrow> selection \<Rightarrow> bool" where
  "binds d s \<longleftrightarrow>
     sl_source s = dp_object d \<and> sl_provider s = dp_source d \<and> sl_digest s = Some (dp_content d)"

definition requested_sources ::
  "instance_source list \<Rightarrow> (pystr \<times> descriptor) list res" where
  "requested_sources sources =
     rbind (req (length sources \<le> MAX_PLAN_SOURCES)) (\<lambda>_.
     let items = map (\<lambda>s. (dp_object (is_descriptor s), is_descriptor s)) sources in
     rbind (req (distinct (map fst items))) (\<lambda>_. Inr items))"

definition check_requested :: "instance_source list option \<Rightarrow> descriptor list \<Rightarrow> unit res" where
  "check_requested sources bindings =
     (case sources of
        None \<Rightarrow> Inr ()
      | Some ss \<Rightarrow>
          rbind (requested_sources ss) (\<lambda>requested.
          req (list_all (\<lambda>b. map_of requested (dp_object b) = Some b) bindings)))"

definition parse_source_plan ::
  "pystr \<Rightarrow> planning_request \<Rightarrow> instance_source list option \<Rightarrow> source_plan res" where
  "parse_source_plan raw request sources =
     rbind (planning_request_to_dict request) (\<lambda>_.
     rbind (plan_document raw) (\<lambda>v.
     rbind (exact_fields [''result'', ''source_bindings'', ''binding_digest''] [] v) (\<lambda>_.
     rbind (canonical_bytes (jat ''result'' v)) (\<lambda>bytes.
     rbind (response_of bytes request) (\<lambda>p.
     rbind (req (gp_digest p \<noteq> None)) (\<lambda>_.
     rbind (array_upto MAX_PROTOCOL_ITEMS (jat ''source_bindings'' v)) (\<lambda>bs.
     rbind (mapr descriptor_of bs) (\<lambda>bindings.
     rbind (req (\<not> not_increasing dp_object bindings)) (\<lambda>_.
     let selected = filter is_selected (gp_selections p) in
     rbind (req (length selected = length bindings)) (\<lambda>_.
     rbind (req (list_all (\<lambda>b. list_ex (binds b) selected) bindings)) (\<lambda>_.
     rbind (on_str validate_digest (jat ''binding_digest'' v)) (\<lambda>supplied.
     rbind (canonical_bytes (JArr [response_json p, JArr (map descriptor_json bindings)])) (\<lambda>content.
     rbind (req (supplied = sha256_digest content)) (\<lambda>_.
     rbind (check_requested sources bindings) (\<lambda>_.
     Inr \<lparr>sp_plan = p, sp_bindings = bindings, sp_digest = supplied\<rparr>)))))))))))))))"

end
