(* ===== verification/Store.thy ===== *)
theory Store
  imports Strict_Fields
begin

text \<open>
  The reader of the instance's context store (\<open>src/leanctx_sdk/context_store.py\<close>): policy evidence
  and the lineage of a task. The call of the instance is an argument, which gives the bytes of its
  reply or the exception it raises.
\<close>

section \<open>Names and bounds\<close>

definition MAX_STORE_RESPONSE_BYTES :: nat where "MAX_STORE_RESPONSE_BYTES = 8 * 1024 * 1024"
definition MAX_EVIDENCE_RECORDS :: nat where "MAX_EVIDENCE_RECORDS = 4096"
definition MAX_LINEAGE_ITEMS :: nat where "MAX_LINEAGE_ITEMS = 4096"
definition MAX_STORE_REF :: nat where "MAX_STORE_REF = 512"
definition MAX_STORE_TEXT :: nat where "MAX_STORE_TEXT = 4096"

definition TASK_CLASSES :: "pystr list" where
  "TASK_CLASSES = [''bug_fix'', ''refactor'', ''test_addition'', ''documentation'', ''investigation'']"

definition LANGUAGES :: "pystr list" where
  "LANGUAGES = [''rust'', ''python'', ''type_script'', ''java_script'', ''go'', ''java'', ''c'', ''cpp'',
     ''c_sharp'', ''swift'', ''kotlin'', ''ruby'', ''php'', ''shell'', ''other'', ''none'']"

definition SIZES :: "pystr list" where
  "SIZES = [''tiny'', ''small'', ''medium'', ''large'', ''very_large'']"

definition STRATEGIES :: "pystr list" where
  "STRATEGIES = [''full'', ''map'', ''signatures'', ''aggressive'', ''entropy'', ''task'', ''reference'',
     ''diff'', ''lines'', ''auto'', ''other'']"

definition EVIDENCE_TIERS :: "pystr list" where
  "EVIDENCE_TIERS = [''mechanism'', ''deterministic_quality'', ''recorded_regression'',
     ''live_task_evaluation'', ''production_outcome'']"

definition VERDICTS :: "pystr list" where
  "VERDICTS = [''improved'', ''non_inferior'', ''regressed'', ''underpowered'']"

definition STEP_KINDS :: "pystr list" where
  "STEP_KINDS = [''task_started'', ''plan_created'', ''context_delivered'', ''model_invoked'',
     ''engine_invoked'', ''receipt_signed'', ''canonical_receipt_recorded'', ''outcome_recorded'',
     ''decision_recorded'']"

definition STORE_OUTCOMES :: "pystr list" where
  "STORE_OUTCOMES = [''accepted'', ''rejected'', ''unknown'']"

definition DELIVERY_OUTCOMES :: "pystr list" where
  "DELIVERY_OUTCOMES = [''delivered'', ''withheld'', ''failed'']"

definition DELIVERY_ERRORS :: "pystr list" where
  "DELIVERY_ERRORS = [''missing'', ''unreadable'', ''tampered'']"

definition GAPS :: "pystr list" where
  "GAPS = [''ledger_unverified'', ''no_plan_recorded'', ''no_delivery_recorded'',
     ''delivery_unverified'', ''deliveries_incomplete'', ''no_outcome_recorded'']"

text \<open>\<open>_int\<close> with its default bounds, and \<open>_signed\<close>.\<close>

definition count_of :: "json \<Rightarrow> int res" where
  "count_of v = int_in 0 MAX_SAFE v"

definition signed_of :: "json \<Rightarrow> int res" where
  "signed_of v = int_in (- MAX_SAFE) MAX_SAFE v"

lemma count_of_Inr [ok_simps]: "count_of v = Inr i \<longleftrightarrow> v = JInt i \<and> 0 \<le> i \<and> i \<le> MAX_SAFE"
  by (simp add: count_of_def ok_simps)

lemma signed_of_Inr [ok_simps]:
  "signed_of v = Inr i \<longleftrightarrow> v = JInt i \<and> - MAX_SAFE \<le> i \<and> i \<le> MAX_SAFE"
  by (simp add: signed_of_def ok_simps)

text \<open>\<open>_FIELD\<close>.\<close>

definition field_name_ok :: "pystr \<Rightarrow> bool" where
  "field_name_ok s \<longleftrightarrow>
     s \<noteq> [] \<and> length s \<le> 64 \<and> 97 \<le> byte (hd s) \<and> byte (hd s) \<le> 122 \<and>
     list_all (\<lambda>c. 97 \<le> byte c \<and> byte c \<le> 122 \<or> is_digit c \<or> byte c = 95) s"

section \<open>Policy evidence\<close>

record workload =
  wl_task_class :: pystr
  wl_language :: pystr
  wl_size :: pystr

record quality_evidence =
  qe_measured :: bool
  qe_retained :: "int option"
  qe_recoverable :: "int option"
  qe_lost :: "int option"
  qe_emitted :: "int option"
  qe_verified :: "int option"
  qe_failures :: "int option"
  qe_critical :: "int option"

record security_evidence =
  se_measured :: bool
  se_regressions :: "int option"

record outcome_record =
  or_workload :: workload
  or_strategy :: pystr
  or_day :: int
  or_samples :: int
  or_accepted :: int
  or_rejected :: int
  or_overrides :: int
  or_token_samples :: int
  or_signal_samples :: int
  or_bounce :: int
  or_expand :: int
  or_edit_failure :: int
  or_original :: int
  or_delivered :: int
  or_quality :: quality_evidence
  or_security :: security_evidence

record strategy_evaluation =
  ev_strategy :: pystr
  ev_tier :: pystr
  ev_verdict :: pystr
  ev_pairs :: int
  ev_powered :: bool
  ev_delta :: int
  ev_low :: int
  ev_high :: int
  ev_margin :: int

record policy_evidence =
  pe_records :: "outcome_record list"
  pe_evaluations :: "strategy_evaluation list"

definition workload_of :: "json \<Rightarrow> workload res" where
  "workload_of v =
     rbind (has_fields [''task_class'', ''language'', ''size''] [] v) (\<lambda>_.
     rbind (one_of TASK_CLASSES (jat ''task_class'' v)) (\<lambda>t.
     rbind (one_of LANGUAGES (jat ''language'' v)) (\<lambda>l.
     rbind (one_of SIZES (jat ''size'' v)) (\<lambda>s.
     Inr \<lparr>wl_task_class = t, wl_language = l, wl_size = s\<rparr>))))"

definition unmeasured_quality :: quality_evidence where
  "unmeasured_quality =
     \<lparr>qe_measured = False, qe_retained = None, qe_recoverable = None, qe_lost = None,
      qe_emitted = None, qe_verified = None, qe_failures = None, qe_critical = None\<rparr>"

definition measured_quality :: "json \<Rightarrow> quality_evidence res" where
  "measured_quality v =
     rbind (has_fields [''state'', ''retention'', ''recovery''] [] v) (\<lambda>_.
     let retention = jat ''retention'' v; recovery = jat ''recovery'' v in
     rbind (has_fields [''retained'', ''recoverable'', ''lost''] [] retention) (\<lambda>_.
     rbind (has_fields [''handles_emitted'', ''handles_verified'', ''failures'', ''critical_failures''] []
       recovery) (\<lambda>_.
     rbind (count_of (jat ''retained'' retention)) (\<lambda>retained.
     rbind (count_of (jat ''recoverable'' retention)) (\<lambda>recoverable.
     rbind (count_of (jat ''lost'' retention)) (\<lambda>lost.
     rbind (count_of (jat ''handles_emitted'' recovery)) (\<lambda>emitted.
     rbind (count_of (jat ''handles_verified'' recovery)) (\<lambda>verified.
     rbind (count_of (jat ''failures'' recovery)) (\<lambda>failures.
     rbind (count_of (jat ''critical_failures'' recovery)) (\<lambda>critical.
     rbind (bad (verified > emitted \<or> failures > emitted \<or> critical > failures)) (\<lambda>_.
     Inr \<lparr>qe_measured = True, qe_retained = Some retained, qe_recoverable = Some recoverable,
       qe_lost = Some lost, qe_emitted = Some emitted, qe_verified = Some verified,
       qe_failures = Some failures, qe_critical = Some critical\<rparr>)))))))))))"

definition quality_of :: "json \<Rightarrow> quality_evidence res" where
  "quality_of v =
     rbind (bad (\<not> is_obj v)) (\<lambda>_.
     if jat ''state'' v = JStr ''unmeasured'' then
       rbind (has_fields [''state''] [] v) (\<lambda>_. Inr unmeasured_quality)
     else rbind (bad (jat ''state'' v \<noteq> JStr ''measured'')) (\<lambda>_. measured_quality v))"

definition security_of :: "json \<Rightarrow> security_evidence res" where
  "security_of v =
     rbind (bad (\<not> is_obj v)) (\<lambda>_.
     if jat ''state'' v = JStr ''unmeasured'' then
       rbind (has_fields [''state''] [] v) (\<lambda>_. Inr \<lparr>se_measured = False, se_regressions = None\<rparr>)
     else rbind (bad (jat ''state'' v \<noteq> JStr ''measured'')) (\<lambda>_.
          rbind (has_fields [''state'', ''regressions''] [] v) (\<lambda>_.
          rbind (count_of (jat ''regressions'' v)) (\<lambda>n.
          Inr \<lparr>se_measured = True, se_regressions = Some n\<rparr>))))"

definition COUNTS :: "pystr list" where
  "COUNTS = [''observed_day'', ''samples'', ''accepted'', ''rejected'', ''explicit_overrides'',
     ''token_samples'', ''tokens_original'', ''tokens_delivered'']"

definition SIGNAL_COUNTS :: "pystr list" where
  "SIGNAL_COUNTS = [''signal_samples'', ''bounce_tasks'', ''expand_tasks'', ''edit_failure_tasks'']"

definition check_record :: "outcome_record \<Rightarrow> outcome_record res" where
  "check_record r =
     rbind (bad (or_samples r = 0)) (\<lambda>_.
     rbind (bad (or_accepted r + or_rejected r \<noteq> or_samples r)) (\<lambda>_.
     rbind (bad (or_overrides r > or_samples r \<or> or_token_samples r > or_samples r)) (\<lambda>_.
     rbind (bad (or_signal_samples r > or_samples r \<or> or_bounce r > or_signal_samples r \<or>
       or_expand r > or_signal_samples r \<or> or_edit_failure r > or_signal_samples r)) (\<lambda>_.
     rbind (bad (or_token_samples r = 0 \<and> (or_original r \<noteq> 0 \<or> or_delivered r \<noteq> 0))) (\<lambda>_.
     rbind (bad (or_delivered r > or_original r)) (\<lambda>_. Inr r))))))"

definition record_of :: "json \<Rightarrow> outcome_record res" where
  "record_of v =
     rbind (has_fields ([''workload'', ''strategy'', ''quality'', ''security''] @ COUNTS) SIGNAL_COUNTS v) (\<lambda>_.
     rbind (mapr (\<lambda>k. count_of (jat k v)) COUNTS) (\<lambda>cs.
     rbind (mapr (\<lambda>k. count_of (field_or (JInt 0) k v)) SIGNAL_COUNTS) (\<lambda>ss.
     rbind (workload_of (jat ''workload'' v)) (\<lambda>w.
     rbind (one_of STRATEGIES (jat ''strategy'' v)) (\<lambda>strategy.
     rbind (quality_of (jat ''quality'' v)) (\<lambda>quality.
     rbind (security_of (jat ''security'' v)) (\<lambda>security.
     check_record
       \<lparr>or_workload = w, or_strategy = strategy, or_day = cs ! 0, or_samples = cs ! 1,
        or_accepted = cs ! 2, or_rejected = cs ! 3, or_overrides = cs ! 4, or_token_samples = cs ! 5,
        or_signal_samples = ss ! 0, or_bounce = ss ! 1, or_expand = ss ! 2, or_edit_failure = ss ! 3,
        or_original = cs ! 6, or_delivered = cs ! 7, or_quality = quality,
        or_security = security\<rparr>)))))))"

definition check_evaluation :: "strategy_evaluation \<Rightarrow> strategy_evaluation res" where
  "check_evaluation e =
     rbind (bad (ev_strategy e = ''other'')) (\<lambda>_.
     rbind (bad (ev_low e > ev_high e \<or> ev_margin e < 0)) (\<lambda>_.
     rbind (bad (ev_powered e \<and> ev_pairs e = 0)) (\<lambda>_. Inr e)))"

definition evaluation_of :: "json \<Rightarrow> strategy_evaluation res" where
  "evaluation_of v =
     rbind (has_fields [''strategy'', ''evidence_tier'', ''verdict'', ''pairs'', ''powered'', ''delta_milli'',
       ''ci_low_milli'', ''ci_high_milli'', ''margin_milli''] [] v) (\<lambda>_.
     rbind (one_of STRATEGIES (jat ''strategy'' v)) (\<lambda>strategy.
     rbind (one_of EVIDENCE_TIERS (jat ''evidence_tier'' v)) (\<lambda>tier.
     rbind (one_of VERDICTS (jat ''verdict'' v)) (\<lambda>verdict.
     rbind (count_of (jat ''pairs'' v)) (\<lambda>pairs.
     rbind (bool_of (jat ''powered'' v)) (\<lambda>powered.
     rbind (signed_of (jat ''delta_milli'' v)) (\<lambda>delta.
     rbind (signed_of (jat ''ci_low_milli'' v)) (\<lambda>low.
     rbind (signed_of (jat ''ci_high_milli'' v)) (\<lambda>high.
     rbind (signed_of (jat ''margin_milli'' v)) (\<lambda>margin.
     check_evaluation
       \<lparr>ev_strategy = strategy, ev_tier = tier, ev_verdict = verdict, ev_pairs = pairs,
        ev_powered = powered, ev_delta = delta, ev_low = low, ev_high = high,
        ev_margin = margin\<rparr>))))))))))"

text \<open>\<open>_record_key\<close>, compared as a tuple.\<close>

definition record_key :: "outcome_record \<Rightarrow> nat \<times> nat \<times> nat \<times> nat \<times> int" where
  "record_key r =
     (index_of (wl_task_class (or_workload r)) TASK_CLASSES,
      index_of (wl_language (or_workload r)) LANGUAGES, index_of (wl_size (or_workload r)) SIZES,
      index_of (or_strategy r) STRATEGIES, or_day r)"

definition parse_policy_evidence :: "json \<Rightarrow> policy_evidence res" where
  "parse_policy_evidence v =
     rbind (has_fields [''schema_version'', ''records''] [''evaluations''] v) (\<lambda>_.
     rbind (bad (\<not> is_version 1 (jat ''schema_version'' v))) (\<lambda>_.
     rbind (list_upto MAX_EVIDENCE_RECORDS (jat ''records'' v)) (\<lambda>rs.
     rbind (mapr record_of rs) (\<lambda>records.
     rbind (bad (not_increasing record_key records)) (\<lambda>_.
     rbind (list_upto (length STRATEGIES) (field_or (JArr []) ''evaluations'' v)) (\<lambda>es.
     rbind (mapr evaluation_of es) (\<lambda>evaluations.
     rbind (bad (not_increasing (\<lambda>e. index_of (ev_strategy e) STRATEGIES) evaluations)) (\<lambda>_.
     Inr \<lparr>pe_records = records, pe_evaluations = evaluations\<rparr>))))))))"

section \<open>The lineage of a task\<close>

record lineage_step =
  st_sequence :: int
  st_kind :: pystr
  st_timestamp :: pystr
  st_fields :: "(pystr \<times> pystr) list"

record delivery_summary =
  su_outcome :: pystr
  su_destination :: pystr
  su_policy :: "pystr option"
  su_inspected :: int
  su_delivered :: int
  su_withheld :: int
  su_redactions :: int
  su_original :: int
  su_tokens :: int
  su_final :: "pystr option"

record lineage_delivery =
  de_digest :: pystr
  de_verified :: bool
  de_error :: "pystr option"
  de_summary :: "delivery_summary option"

record task_lineage =
  tl_task :: pystr
  tl_scope :: "pystr option"
  tl_steps :: "lineage_step list"
  tl_deliveries :: "lineage_delivery list"
  tl_ledger_error :: "pystr option"
  tl_outcome :: pystr
  tl_gaps :: "pystr list"

definition is_complete :: "task_lineage \<Rightarrow> bool" where
  "is_complete l \<longleftrightarrow> tl_gaps l = []"

definition step_fields :: "(pystr \<times> json) list \<Rightarrow> (pystr \<times> pystr) list res" where
  "step_fields items =
     mapr (\<lambda>(k, x). rbind (bad (\<not> field_name_ok k)) (\<lambda>_.
       rbind (plain_text MAX_STORE_REF x) (\<lambda>s. Inr (k, s)))) items"

definition step_of :: "json \<Rightarrow> lineage_step res" where
  "step_of v =
     rbind (has_fields [''sequence'', ''kind'', ''timestamp'', ''fields''] [] v) (\<lambda>_.
     rbind (bad (\<not> is_obj (jat ''fields'' v))) (\<lambda>_.
     rbind (step_fields (obj_items (jat ''fields'' v))) (\<lambda>fs.
     rbind (count_of (jat ''sequence'' v)) (\<lambda>n.
     rbind (one_of STEP_KINDS (jat ''kind'' v)) (\<lambda>kind.
     rbind (plain_text MAX_STORE_REF (jat ''timestamp'' v)) (\<lambda>t.
     Inr \<lparr>st_sequence = n, st_kind = kind, st_timestamp = t, st_fields = fs\<rparr>))))))"

definition summary_of :: "json \<Rightarrow> delivery_summary res" where
  "summary_of v =
     rbind (has_fields [''outcome'', ''destination'', ''policy_digest'', ''final_context'', ''inspected'',
       ''delivered'', ''withheld'', ''redactions'', ''tokens_original'', ''tokens_delivered''] [] v) (\<lambda>_.
     rbind (one_of DELIVERY_OUTCOMES (jat ''outcome'' v)) (\<lambda>outcome.
     rbind (plain_text MAX_STORE_REF (jat ''destination'' v)) (\<lambda>destination.
     rbind (opt_value_of digest_of (jat ''policy_digest'' v)) (\<lambda>policy.
     rbind (opt_value_of digest_of (jat ''final_context'' v)) (\<lambda>final.
     rbind (count_of (jat ''inspected'' v)) (\<lambda>inspected.
     rbind (count_of (jat ''delivered'' v)) (\<lambda>delivered.
     rbind (count_of (jat ''withheld'' v)) (\<lambda>withheld.
     rbind (count_of (jat ''redactions'' v)) (\<lambda>redactions.
     rbind (count_of (jat ''tokens_original'' v)) (\<lambda>original.
     rbind (count_of (jat ''tokens_delivered'' v)) (\<lambda>tokens.
     rbind (bad (tokens > original)) (\<lambda>_.
     Inr \<lparr>su_outcome = outcome, su_destination = destination, su_policy = policy,
       su_inspected = inspected, su_delivered = delivered, su_withheld = withheld,
       su_redactions = redactions, su_original = original, su_tokens = tokens,
       su_final = final\<rparr>))))))))))))"

definition delivery_of :: "json \<Rightarrow> lineage_delivery res" where
  "delivery_of v =
     rbind (has_fields [''digest'', ''verified''] [''error'', ''summary''] v) (\<lambda>_.
     rbind (bool_of (jat ''verified'' v)) (\<lambda>verified.
     rbind (bad (verified \<noteq> (jget ''summary'' v \<noteq> None) \<or> verified = (jget ''error'' v \<noteq> None))) (\<lambda>_.
     rbind (digest_of (jat ''digest'' v)) (\<lambda>digest.
     rbind (opt_field (one_of DELIVERY_ERRORS) ''error'' v) (\<lambda>err.
     rbind (if verified then rbind (summary_of (jat ''summary'' v)) (\<lambda>s. Inr (Some s)) else Inr None)
       (\<lambda>summary.
     Inr \<lparr>de_digest = digest, de_verified = verified, de_error = err, de_summary = summary\<rparr>))))))"

definition parse_task_lineage :: "json \<Rightarrow> task_lineage res" where
  "parse_task_lineage v =
     rbind (has_fields [''schema_version'', ''task_id'', ''steps'', ''deliveries'', ''outcome'', ''gaps'']
       [''scope'', ''ledger_error''] v) (\<lambda>_.
     rbind (bad (\<not> is_version 1 (jat ''schema_version'' v))) (\<lambda>_.
     rbind (list_upto (length GAPS) (jat ''gaps'' v)) (\<lambda>gs.
     rbind (mapr (one_of GAPS) gs) (\<lambda>gaps.
     rbind (bad (\<not> distinct gaps)) (\<lambda>_.
     rbind (opt_value_of (plain_text MAX_STORE_TEXT) (jat ''ledger_error'' v)) (\<lambda>ledger_error.
     rbind (bad ((ledger_error \<noteq> None) \<noteq> (''ledger_unverified'' \<in> set gaps))) (\<lambda>_.
     rbind (list_upto MAX_LINEAGE_ITEMS (jat ''steps'' v)) (\<lambda>ss.
     rbind (mapr step_of ss) (\<lambda>steps.
     rbind (list_upto MAX_LINEAGE_ITEMS (jat ''deliveries'' v)) (\<lambda>ds.
     rbind (mapr delivery_of ds) (\<lambda>deliveries.
     rbind (bad (list_ex (\<lambda>d. \<not> de_verified d) deliveries \<noteq> (''delivery_unverified'' \<in> set gaps))) (\<lambda>_.
     rbind (plain_text MAX_STORE_REF (jat ''task_id'' v)) (\<lambda>task.
     rbind (opt_field (plain_text MAX_STORE_TEXT) ''scope'' v) (\<lambda>scope.
     rbind (one_of STORE_OUTCOMES (jat ''outcome'' v)) (\<lambda>outcome.
     Inr \<lparr>tl_task = task, tl_scope = scope, tl_steps = steps, tl_deliveries = deliveries,
       tl_ledger_error = ledger_error, tl_outcome = outcome, tl_gaps = gaps\<rparr>)))))))))))))))"

section \<open>Requests and replies\<close>

definition request_item :: "pystr \<times> pystr option \<Rightarrow> (pystr \<times> json) list res" where
  "request_item p =
     (case snd p of
        None \<Rightarrow> Inr []
      | Some s \<Rightarrow>
          rbind (check (\<not> blank s) ValidationError) (\<lambda>_.
          rbind (encoded_length s) (\<lambda>n.
          rbind (check (n \<le> MAX_STORE_REF) ValidationError) (\<lambda>_. Inr [(fst p, JStr s)]))))"

definition store_request :: "pystr option \<Rightarrow> pystr option \<Rightarrow> pystr option \<Rightarrow> json res" where
  "store_request project tenant task =
     rbind (mapr request_item [(''project_id'', project), (''tenant_id'', tenant), (''task_id'', task)])
       (\<lambda>items.
     Inr (JObj ([(''schema_version'', JInt 1), (''transport_version'', JInt 1),
       (''engine_interface_version'', JStr ENGINE_INTERFACE_VERSION)] @ concat items)))"

text \<open>The instance: what it answers to an operation in a project root on a request.\<close>

type_synonym instance_call = "pystr \<Rightarrow> pystr \<Rightarrow> json \<Rightarrow> pystr res"

definition read_store :: "instance_call \<Rightarrow> pystr \<Rightarrow> pystr \<Rightarrow> json \<Rightarrow> pystr \<Rightarrow> json res" where
  "read_store engine operation root request body =
     rbind (engine operation root request) (\<lambda>raw.
     rbind (reply_document MAX_STORE_RESPONSE_BYTES raw) (\<lambda>document.
     rbind (has_fields [''schema_version'', ''transport_version'', ''engine_interface_version'', body] []
       document) (\<lambda>_.
     rbind (bad (\<not> is_version 1 (jat ''schema_version'' document) \<or>
       \<not> is_version 1 (jat ''transport_version'' document) \<or>
       jat ''engine_interface_version'' document \<noteq> JStr ENGINE_INTERFACE_VERSION)) (\<lambda>_.
     Inr (jat body document)))))"

definition read_policy_evidence ::
  "instance_call \<Rightarrow> pystr \<Rightarrow> pystr option \<Rightarrow> pystr option \<Rightarrow> policy_evidence res" where
  "read_policy_evidence engine root project tenant =
     rbind (store_request project tenant None) (\<lambda>request.
     rbind (read_store engine ''context-policy-evidence'' root request ''evidence'')
       parse_policy_evidence)"

definition read_task_lineage ::
  "instance_call \<Rightarrow> pystr \<Rightarrow> pystr \<Rightarrow> pystr option \<Rightarrow> pystr option \<Rightarrow> task_lineage res" where
  "read_task_lineage engine root task project tenant =
     rbind (check (\<not> blank task) ValidationError) (\<lambda>_.
     rbind (store_request project tenant (Some task)) (\<lambda>request.
     rbind (read_store engine ''context-lineage'' root request ''lineage'') parse_task_lineage))"

end
