(* ===== verification/Gateway.thy ===== *)
theory Gateway
  imports Store
begin

text \<open>
  The information gateway (\<open>src/leanctx_sdk/gateway.py\<close>): decision receipts, the admission of a model
  request before it leaves, the prepared bytes of an admitted request and the report of what the host
  saw. The call of the instance is an argument, as in \<open>Store\<close>.
\<close>

section \<open>Names and bounds\<close>

definition CLASSIFICATIONS :: "pystr list" where
  "CLASSIFICATIONS = [''public'', ''internal'', ''confidential'', ''restricted'']"

definition DISPOSITIONS :: "pystr list" where
  "DISPOSITIONS = [''forward'', ''rewritten'', ''refused'']"

definition MODES :: "pystr list" where
  "MODES = [''developer'', ''governed'', ''sovereign'']"

definition PRINCIPAL_KINDS :: "pystr list" where
  "PRINCIPAL_KINDS = [''person'', ''team'', ''organization'', ''project'', ''agent'', ''session'',
     ''workload'', ''unknown'']"

definition LOCALITIES :: "pystr list" where
  "LOCALITIES = [''local'', ''remote'', ''unknown'']"

definition GATEWAY_OUTCOMES :: "pystr list" where
  "GATEWAY_OUTCOMES = [''delivered'', ''withheld'', ''failed'']"

definition CONTEXT_DISPOSITIONS :: "pystr list" where
  "CONTEXT_DISPOSITIONS = [''allow'', ''allow_minimized'', ''allow_redacted'', ''allow_summary_only'',
     ''allow_local_model_only'', ''allow_with_approval'', ''quarantine'', ''deny'']"

definition TRANSFORMATIONS :: "pystr list" where
  "TRANSFORMATIONS = [''redaction'', ''classification'', ''selection'', ''deduplication'',
     ''structural_extraction'', ''compression'', ''summarization'', ''recovery'', ''reranking'']"

definition CATEGORIES :: "pystr list" where
  "CATEGORIES = [''secret'', ''pii'', ''prompt_injection'', ''classification'', ''policy'', ''custom'']"

definition SEVERITIES :: "pystr list" where
  "SEVERITIES = [''info'', ''low'', ''medium'', ''high'', ''critical'']"

definition COVERAGE_KINDS :: "pystr list" where
  "COVERAGE_KINDS = [''complete'', ''partial'', ''unsupported'', ''failed'', ''not_required'']"

definition DETECTOR_STATUSES :: "pystr list" where
  "DETECTOR_STATUSES = [''completed'', ''failed'', ''timed_out'', ''skipped'']"

definition MAX_REF :: nat where "MAX_REF = 512"
definition MAX_DECISIONS :: nat where "MAX_DECISIONS = 4096"
definition MAX_REASON_CODES :: nat where "MAX_REASON_CODES = 32"
definition MAX_SIGNALS :: nat where "MAX_SIGNALS = 32"
definition MAX_U32 :: int where "MAX_U32 = 2 ^ 32 - 1"
definition MAX_EGRESS_ATTEMPTS :: int where "MAX_EGRESS_ATTEMPTS = 32"
definition MAX_EGRESS_REPORT_BYTES :: nat where "MAX_EGRESS_REPORT_BYTES = 4096"
definition MAX_EGRESS_REQUEST_BYTES :: nat where "MAX_EGRESS_REQUEST_BYTES = 8 * 1024 * 1024"
definition MAX_EGRESS_RESPONSE_BYTES :: nat where "MAX_EGRESS_RESPONSE_BYTES = 16 * 1024 * 1024"

definition ref_of :: "json \<Rightarrow> pystr res" where
  "ref_of v =
     (case v of JStr s \<Rightarrow>
        rbind (bad (blank s)) (\<lambda>_.
        rbind (encoded_length s) (\<lambda>n.
        rbind (bad (n > MAX_REF \<or> has_control_or_del s)) (\<lambda>_. Inr s)))
      | _ \<Rightarrow> Inl InstanceProtocolError)"

definition reason_ok :: "pystr \<Rightarrow> bool" where
  "reason_ok s \<longleftrightarrow>
     3 \<le> length s \<and> length s \<le> 64 \<and> 97 \<le> byte (hd s) \<and> byte (hd s) \<le> 122 \<and>
     list_all (\<lambda>c. 97 \<le> byte c \<and> byte c \<le> 122 \<or> is_digit c \<or> byte c = 95 \<or> byte c = 46) s"

definition reason_of :: "json \<Rightarrow> pystr res" where
  "reason_of v =
     (case v of JStr s \<Rightarrow> if reason_ok s then Inr s else Inl InstanceProtocolError
      | _ \<Rightarrow> Inl InstanceProtocolError)"

definition reasons_of :: "json \<Rightarrow> pystr list res" where
  "reasons_of v = rbind (list_upto MAX_REASON_CODES v) (mapr reason_of)"

section \<open>Decision receipts\<close>

record principal =
  pr_kind :: pystr
  pr_id :: "pystr option"

definition is_known :: "principal \<Rightarrow> bool" where
  "is_known p \<longleftrightarrow> pr_kind p \<noteq> ''unknown''"

record destination =
  ds_provider :: pystr
  ds_locality :: pystr
  ds_model :: "pystr option"
  ds_managed :: bool
  ds_account :: "pystr option"
  ds_region :: "pystr option"

record coverage =
  co_kind :: pystr
  co_bytes_total :: int
  co_bytes :: int
  co_chunks_total :: int
  co_chunks :: int
  co_reason :: "pystr option"

definition coverage_complete :: "coverage \<Rightarrow> bool" where
  "coverage_complete c \<longleftrightarrow> co_kind c = ''complete''"

record signal =
  sg_detector :: pystr
  sg_version :: pystr
  sg_category :: pystr
  sg_severity :: pystr
  sg_evidence :: int
  sg_coverage :: coverage
  sg_status :: pystr
  sg_latency :: int
  sg_calibrated :: bool
  sg_confidence :: "int option"

definition satisfies_requirement :: "signal \<Rightarrow> bool" where
  "satisfies_requirement s \<longleftrightarrow> sg_status s = ''completed'' \<and> coverage_complete (sg_coverage s)"

record ctx_decision =
  dc_object :: pystr
  dc_disposition :: pystr
  dc_reasons :: "pystr list"
  dc_signals :: "signal list"
  dc_transformations :: "pystr list"

definition delivers_content :: "ctx_decision \<Rightarrow> bool" where
  "delivers_content d \<longleftrightarrow>
     index_of (dc_disposition d) CONTEXT_DISPOSITIONS
       \<le> index_of ''allow_local_model_only'' CONTEXT_DISPOSITIONS"

record object_key =
  ok_algorithm :: pystr
  ok_key :: pystr

record decision_receipt =
  dr_id :: pystr
  dr_mode :: pystr
  dr_principal :: principal
  dr_destination :: destination
  dr_sources :: "(pystr \<times> int) list"
  dr_security :: "(pystr \<times> int) list"
  dr_tokens :: "(pystr \<times> int) list"
  dr_outcome :: pystr
  dr_duration :: int
  dr_decisions :: "ctx_decision list"
  dr_policy :: "(pystr \<times> pystr) list option"
  dr_task :: "pystr option"
  dr_final :: "pystr option"
  dr_quality :: "json option"
  dr_version :: int
  dr_object_key :: "object_key option"

definition receipt_signals :: "decision_receipt \<Rightarrow> signal list" where
  "receipt_signals r = concat (map dc_signals (dr_decisions r))"

definition principal_of :: "json \<Rightarrow> principal res" where
  "principal_of v =
     rbind (has_fields [''kind''] [''id''] v) (\<lambda>_.
     rbind (one_of PRINCIPAL_KINDS (jat ''kind'' v)) (\<lambda>kind.
     if kind = ''unknown'' then
       rbind (bad (jget ''id'' v \<noteq> None)) (\<lambda>_. Inr \<lparr>pr_kind = kind, pr_id = None\<rparr>)
     else rbind (bad (jget ''id'' v = None)) (\<lambda>_.
          rbind (ref_of (jat ''id'' v)) (\<lambda>i. Inr \<lparr>pr_kind = kind, pr_id = Some i\<rparr>))))"

definition destination_of :: "json \<Rightarrow> destination res" where
  "destination_of v =
     rbind (has_fields [''provider'', ''locality''] [''model'', ''organization_managed'', ''account_ref'',
       ''region''] v) (\<lambda>_.
     rbind (opt_field ref_of ''model'' v) (\<lambda>model.
     rbind (opt_field ref_of ''account_ref'' v) (\<lambda>account.
     rbind (opt_field ref_of ''region'' v) (\<lambda>region.
     rbind (ref_of (jat ''provider'' v)) (\<lambda>provider.
     rbind (one_of LOCALITIES (jat ''locality'' v)) (\<lambda>locality.
     rbind (bool_of (field_or (JBool False) ''organization_managed'' v)) (\<lambda>managed.
     Inr \<lparr>ds_provider = provider, ds_locality = locality, ds_model = model, ds_managed = managed,
       ds_account = account, ds_region = region\<rparr>)))))))"

definition check_coverage :: "coverage \<Rightarrow> coverage res" where
  "check_coverage c =
     rbind (bad (co_bytes c > co_bytes_total c \<or> co_chunks c > co_chunks_total c)) (\<lambda>_.
     rbind (bad (co_kind c = ''complete'' \<and> co_bytes c \<noteq> co_bytes_total c)) (\<lambda>_.
     rbind (bad (co_kind c = ''partial'' \<and> co_bytes c = co_bytes_total c)) (\<lambda>_. Inr c)))"

definition coverage_of :: "json \<Rightarrow> coverage res" where
  "coverage_of v =
     rbind (has_fields [''kind'', ''bytes_total'', ''bytes_inspected'', ''chunks_total'',
       ''chunks_inspected''] [''reason''] v) (\<lambda>_.
     rbind (one_of COVERAGE_KINDS (jat ''kind'' v)) (\<lambda>kind.
     rbind (int_in 0 MAX_SAFE (jat ''bytes_total'' v)) (\<lambda>bt.
     rbind (int_in 0 MAX_SAFE (jat ''bytes_inspected'' v)) (\<lambda>bi.
     rbind (int_in 0 MAX_U32 (jat ''chunks_total'' v)) (\<lambda>ct.
     rbind (int_in 0 MAX_U32 (jat ''chunks_inspected'' v)) (\<lambda>ci.
     rbind (opt_field reason_of ''reason'' v) (\<lambda>reason.
     check_coverage \<lparr>co_kind = kind, co_bytes_total = bt, co_bytes = bi, co_chunks_total = ct,
       co_chunks = ci, co_reason = reason\<rparr>)))))))"

definition signal_of :: "json \<Rightarrow> signal res" where
  "signal_of v =
     rbind (has_fields [''detector'', ''category'', ''severity'', ''evidence_count'', ''coverage'',
       ''status'', ''latency_us''] [''calibrated'', ''confidence_milli''] v) (\<lambda>_.
     let detector = jat ''detector'' v in
     rbind (has_fields [''id'', ''version''] [] detector) (\<lambda>_.
     rbind (ref_of (jat ''id'' detector)) (\<lambda>i.
     rbind (ref_of (jat ''version'' detector)) (\<lambda>version.
     rbind (one_of CATEGORIES (jat ''category'' v)) (\<lambda>category.
     rbind (one_of SEVERITIES (jat ''severity'' v)) (\<lambda>severity.
     rbind (int_in 0 MAX_U32 (jat ''evidence_count'' v)) (\<lambda>evidence.
     rbind (coverage_of (jat ''coverage'' v)) (\<lambda>c.
     rbind (one_of DETECTOR_STATUSES (jat ''status'' v)) (\<lambda>status.
     rbind (int_in 0 MAX_SAFE (jat ''latency_us'' v)) (\<lambda>latency.
     rbind (bool_of (field_or (JBool False) ''calibrated'' v)) (\<lambda>calibrated.
     rbind (opt_field (int_in 0 1000) ''confidence_milli'' v) (\<lambda>confidence.
     rbind (bad (status \<in> {''failed'', ''timed_out''} \<and> coverage_complete c)) (\<lambda>_.
     Inr \<lparr>sg_detector = i, sg_version = version, sg_category = category, sg_severity = severity,
       sg_evidence = evidence, sg_coverage = c, sg_status = status, sg_latency = latency,
       sg_calibrated = calibrated, sg_confidence = confidence\<rparr>)))))))))))))"

definition decision_of :: "json \<Rightarrow> ctx_decision res" where
  "decision_of v =
     rbind (has_fields [''object'', ''disposition''] [''reason_codes'', ''signals'',
       ''required_transformations''] v) (\<lambda>_.
     rbind (list_upto MAX_SIGNALS (field_or (JArr []) ''signals'' v)) (\<lambda>ss.
     let transformations = field_or (JArr []) ''required_transformations'' v in
     rbind (bad (\<not> is_arr transformations)) (\<lambda>_.
     rbind (digest_of (jat ''object'' v)) (\<lambda>obj.
     rbind (one_of CONTEXT_DISPOSITIONS (jat ''disposition'' v)) (\<lambda>disposition.
     rbind (reasons_of (field_or (JArr []) ''reason_codes'' v)) (\<lambda>reasons.
     rbind (mapr signal_of ss) (\<lambda>signals.
     rbind (mapr (one_of TRANSFORMATIONS) (jitems transformations)) (\<lambda>ts.
     rbind (bad (disposition \<noteq> ''allow'' \<and> reasons = [])) (\<lambda>_.
     Inr \<lparr>dc_object = obj, dc_disposition = disposition, dc_reasons = reasons, dc_signals = signals,
       dc_transformations = ts\<rparr>)))))))))"

definition counts_of :: "pystr list \<Rightarrow> int \<Rightarrow> json \<Rightarrow> (pystr \<times> int) list res" where
  "counts_of names maximum v =
     rbind (has_fields names [] v) (\<lambda>_.
     mapr (\<lambda>k. rbind (int_in 0 maximum (jat k v)) (\<lambda>i. Inr (k, i))) names)"

definition count_at :: "pystr \<Rightarrow> (pystr \<times> int) list \<Rightarrow> int" where
  "count_at k d = (case map_of d k of Some i \<Rightarrow> i | None \<Rightarrow> 0)"

definition object_key_of :: "json \<Rightarrow> object_key res" where
  "object_key_of v =
     rbind (has_fields [''algorithm'', ''key_id''] [] v) (\<lambda>_.
     rbind (case jat ''key_id'' v of
              JStr s \<Rightarrow> if prefixed_hex ''rk-'' 32 s then Inr s else Inl InstanceProtocolError
            | _ \<Rightarrow> Inl InstanceProtocolError) (\<lambda>k.
     rbind (one_of [''hmac-sha256''] (jat ''algorithm'' v)) (\<lambda>a.
     Inr \<lparr>ok_algorithm = a, ok_key = k\<rparr>)))"

definition disposed :: "pystr \<Rightarrow> ctx_decision list \<Rightarrow> int" where
  "disposed name ds = int (length (filter (\<lambda>d. dc_disposition d = name) ds))"

definition receipt_policy :: "json \<Rightarrow> (pystr \<times> pystr) list res" where
  "receipt_policy v =
     rbind (has_fields [''id'', ''digest''] [''version''] v) (\<lambda>_.
     rbind (ref_of (jat ''id'' v)) (\<lambda>i.
     rbind (digest_of (jat ''digest'' v)) (\<lambda>d.
     rbind (opt_field ref_of ''version'' v) (\<lambda>version.
     Inr ([(''id'', i), (''digest'', d)] @
       (case version of None \<Rightarrow> [] | Some s \<Rightarrow> [(''version'', s)]))))))"

definition parse_decision_receipt :: "json \<Rightarrow> decision_receipt res" where
  "parse_decision_receipt v =
     rbind (has_fields [''schema_version'', ''receipt_id'', ''mode'', ''principal'', ''destination'',
       ''sources'', ''security'', ''tokens'', ''outcome'', ''duration_us''] [''task'', ''policy'',
       ''decisions'', ''final_context'', ''quality'', ''object_digest''] v) (\<lambda>_.
     rbind (int_in 1 2 (jat ''schema_version'' v)) (\<lambda>version.
     rbind (bad ((version = 2) \<noteq> (jget ''object_digest'' v \<noteq> None))) (\<lambda>_.
     rbind (opt_field object_key_of ''object_digest'' v) (\<lambda>key.
     rbind (list_upto MAX_DECISIONS (field_or (JArr []) ''decisions'' v)) (\<lambda>ds.
     rbind (mapr decision_of ds) (\<lambda>decisions.
     rbind (counts_of [''inspected'', ''permitted'', ''selected'', ''blocked''] MAX_U32
       (jat ''sources'' v)) (\<lambda>sources.
     rbind (bad (count_at ''selected'' sources > count_at ''permitted'' sources \<or>
       count_at ''permitted'' sources + count_at ''blocked'' sources > count_at ''inspected'' sources)) (\<lambda>_.
     rbind (counts_of [''redactions'', ''blocked_objects'', ''quarantined_objects'',
       ''injection_signals'', ''incomplete_coverage''] MAX_U32 (jat ''security'' v)) (\<lambda>security.
     rbind (bad (count_at ''blocked_objects'' security \<noteq> disposed ''deny'' decisions \<or>
       count_at ''quarantined_objects'' security \<noteq> disposed ''quarantine'' decisions)) (\<lambda>_.
     rbind (one_of GATEWAY_OUTCOMES (jat ''outcome'' v)) (\<lambda>outcome.
     rbind (opt_field digest_of ''final_context'' v) (\<lambda>final.
     rbind (bad ((outcome = ''delivered'') \<noteq> (final \<noteq> None))) (\<lambda>_.
     rbind (opt_field receipt_policy ''policy'' v) (\<lambda>policy.
     rbind (opt_value_of (\<lambda>q. rbind (bad (\<not> is_obj q)) (\<lambda>_. Inr q)) (jat ''quality'' v)) (\<lambda>quality.
     rbind (ref_of (jat ''receipt_id'' v)) (\<lambda>i.
     rbind (one_of MODES (jat ''mode'' v)) (\<lambda>mode0.
     rbind (principal_of (jat ''principal'' v)) (\<lambda>principal.
     rbind (destination_of (jat ''destination'' v)) (\<lambda>destination.
     rbind (counts_of [''original'', ''delivered''] MAX_SAFE (jat ''tokens'' v)) (\<lambda>tokens.
     rbind (int_in 0 MAX_SAFE (jat ''duration_us'' v)) (\<lambda>duration.
     rbind (opt_field ref_of ''task'' v) (\<lambda>task.
     Inr \<lparr>dr_id = i, dr_mode = mode0, dr_principal = principal, dr_destination = destination,
       dr_sources = sources, dr_security = security, dr_tokens = tokens, dr_outcome = outcome,
       dr_duration = duration, dr_decisions = decisions, dr_policy = policy, dr_task = task,
       dr_final = final, dr_quality = quality, dr_version = version,
       dr_object_key = key\<rparr>))))))))))))))))))))))"

section \<open>Receipt keys\<close>

text \<open>A key is its bytes.\<close>

definition receipt_key :: "nat list \<Rightarrow> nat list res" where
  "receipt_key k = rbind (check (length k = 32) ValidationError) (\<lambda>_. Inr k)"

definition receipt_key_id :: "nat list \<Rightarrow> pystr res" where
  "receipt_key_id k =
     rbind (receipt_key k) (\<lambda>b.
     Inr (''rk-'' @ take 32 (hmac_sha256_hex b ''leanctx.receipt.key-id.v2'')))"

definition keyed_object_digest :: "nat list \<Rightarrow> pystr \<Rightarrow> pystr res" where
  "keyed_object_digest k plain =
     rbind (check (is_digest plain) ValidationError) (\<lambda>_.
     rbind (receipt_key k) (\<lambda>b.
     Inr (''sha256:'' @ hmac_sha256_hex b (''leanctx.receipt.object.v2'' @ CHR 0x00 # plain))))"

section \<open>Admission of a request\<close>

record egress_admission =
  ea_disposition :: pystr
  ea_body :: "json option"
  ea_refusal :: "pystr option"
  ea_classification :: "pystr option"
  ea_receipt :: "decision_receipt option"

definition may_send :: "egress_admission \<Rightarrow> bool" where
  "may_send a \<longleftrightarrow> ea_disposition a \<noteq> ''refused''"

definition refusal_text :: "json \<Rightarrow> pystr res" where
  "refusal_text v =
     (case v of JStr s \<Rightarrow> rbind (bad (blank s)) (\<lambda>_. Inr s) | _ \<Rightarrow> Inl InstanceProtocolError)"

definition parse_egress_admission :: "json \<Rightarrow> egress_admission res" where
  "parse_egress_admission v =
     rbind (has_fields [''schema_version'', ''disposition''] [''body'', ''refusal'', ''classification'',
       ''receipt''] v) (\<lambda>_.
     rbind (bad (\<not> py_eq (jat ''schema_version'' v) (JInt 1))) (\<lambda>_.
     rbind (one_of DISPOSITIONS (jat ''disposition'' v)) (\<lambda>disposition.
     let body = jat ''body'' v; refusal = jat ''refusal'' v in
     rbind (if disposition = ''refused'' then
              rbind (bad (body \<noteq> JNull)) (\<lambda>_. rbind (refusal_text refusal) (\<lambda>s. Inr (None, Some s)))
            else rbind (bad (refusal \<noteq> JNull \<or> \<not> is_obj body)) (\<lambda>_. Inr (Some body, None))) (\<lambda>(b, r).
     rbind (opt_value_of (one_of CLASSIFICATIONS) (jat ''classification'' v)) (\<lambda>classification.
     rbind (opt_value_of parse_decision_receipt (jat ''receipt'' v)) (\<lambda>receipt.
     Inr \<lparr>ea_disposition = disposition, ea_body = b, ea_refusal = r,
       ea_classification = classification, ea_receipt = receipt\<rparr>))))))"

record egress_preparation =
  ep_decision :: egress_admission
  ep_body :: "pystr option"
  ep_digest :: "pystr option"

definition preparation_may_send :: "egress_preparation \<Rightarrow> bool" where
  "preparation_may_send p \<longleftrightarrow> may_send (ep_decision p) \<and> ep_body p \<noteq> None"

text \<open>Whether the receipt's outcome fits the disposition.\<close>

definition receipt_matches :: "egress_admission \<Rightarrow> bool" where
  "receipt_matches a \<longleftrightarrow>
     (case ea_receipt a of
        None \<Rightarrow> True
      | Some r \<Rightarrow>
          if ea_disposition a = ''refused'' then dr_outcome r \<noteq> ''delivered'' \<and> dr_final r = None
          else dr_outcome r = ''delivered'' \<and> dr_final r \<noteq> None)"

text \<open>The bytes to transmit: strict JSON, equal to the admitted body, with the receipt's digest.\<close>

definition prepared_bytes :: "egress_admission \<Rightarrow> json \<Rightarrow> pystr res" where
  "prepared_bytes a v =
     (case v of
        JStr s \<Rightarrow>
          rbind (bad (\<not> strict_utf8 s)) (\<lambda>_.
          rbind (reply_document (length s) s) (\<lambda>parsed.
          rbind (bad (case ea_body a of None \<Rightarrow> True | Some b \<Rightarrow> \<not> py_eq parsed b)) (\<lambda>_.
          rbind (bad (case ea_receipt a of
                        None \<Rightarrow> False
                      | Some r \<Rightarrow> dr_final r \<noteq> None \<and> dr_final r \<noteq> Some (sha256_ref s))) (\<lambda>_.
          Inr s))))
      | _ \<Rightarrow> Inl InstanceProtocolError)"

definition parse_egress_preparation :: "json \<Rightarrow> egress_preparation res" where
  "parse_egress_preparation v =
     rbind (has_fields [''schema_version'', ''decision''] [''prepared_body'', ''admission_receipt_digest''] v)
       (\<lambda>_.
     rbind (int_in 0 2 (jat ''schema_version'' v)) (\<lambda>version.
     rbind (bad (version \<noteq> 2)) (\<lambda>_.
     rbind (parse_egress_admission (jat ''decision'' v)) (\<lambda>decision.
     rbind (bad (\<not> receipt_matches decision)) (\<lambda>_.
     rbind (if ea_disposition decision = ''refused'' then
              rbind (bad (jat ''prepared_body'' v \<noteq> JNull)) (\<lambda>_. Inr None)
            else rbind (prepared_bytes decision (jat ''prepared_body'' v)) (\<lambda>s. Inr (Some s))) (\<lambda>body.
     rbind (opt_value_of digest_of (jat ''admission_receipt_digest'' v)) (\<lambda>digest.
     rbind (bad (digest \<noteq> None \<and> ea_receipt decision = None)) (\<lambda>_.
     Inr \<lparr>ep_decision = decision, ep_body = body, ep_digest = digest\<rparr>))))))))"

definition egress_request :: "pystr \<Rightarrow> pystr \<Rightarrow> json \<Rightarrow> json res" where
  "egress_request provider upstream body =
     rbind (check (\<not> blank provider) ValidationError) (\<lambda>_.
     rbind (check (starts_with ''https://'' upstream \<or> starts_with ''http://'' upstream)
       ValidationError) (\<lambda>_.
     rbind (check (is_obj body) ValidationError) (\<lambda>_.
     let request = JObj [(''schema_version'', JInt 1), (''provider'', JStr provider),
           (''upstream_base'', JStr upstream), (''body'', body)] in
     rbind (canonical_bytes request) (\<lambda>bytes.
     rbind (check (length bytes \<le> MAX_EGRESS_REQUEST_BYTES) ValidationError) (\<lambda>_. Inr request)))))"

definition admit_egress ::
  "instance_call \<Rightarrow> pystr \<Rightarrow> pystr \<Rightarrow> pystr \<Rightarrow> json \<Rightarrow> egress_admission res" where
  "admit_egress engine root provider upstream body =
     rbind (egress_request provider upstream body) (\<lambda>request.
     rbind (engine ''egress-admit'' root request) (\<lambda>raw.
     rbind (reply_document MAX_EGRESS_RESPONSE_BYTES raw) parse_egress_admission))"

definition MAX_EGRESS_REPLY :: nat where "MAX_EGRESS_REPLY = 32 * 1024 * 1024"

definition prepare_egress ::
  "instance_call \<Rightarrow> pystr \<Rightarrow> pystr \<Rightarrow> pystr \<Rightarrow> json \<Rightarrow> egress_preparation res" where
  "prepare_egress engine root provider upstream body =
     rbind (egress_request provider upstream body) (\<lambda>request.
     rbind (engine ''egress-prepare'' root request) (\<lambda>raw.
     rbind (reply_document MAX_EGRESS_REPLY raw) parse_egress_preparation))"

section \<open>Host reports\<close>

record host_report =
  hr_observation_digest :: pystr
  hr_observation :: json

definition TRANSPORTS :: "pystr list" where "TRANSPORTS = [''http'', ''websocket'']"

definition REPORT_RESULTS :: "pystr list" where
  "REPORT_RESULTS = [''response_observed'', ''no_response_observed'']"

definition REPORT_FAILURES :: "pystr list" where
  "REPORT_FAILURES = [''connect'', ''timeout'', ''cancelled'', ''other'']"

definition http_status_item :: "int option \<Rightarrow> (pystr \<times> json) list res" where
  "http_status_item status =
     (case status of
        None \<Rightarrow> Inr []
      | Some n \<Rightarrow>
          rbind (int_in 0 599 (JInt n)) (\<lambda>_.
          rbind (check (100 \<le> n) ValidationError) (\<lambda>_. Inr [(''http_status'', JInt n)])))"

definition failure_item :: "pystr option \<Rightarrow> (pystr \<times> json) list res" where
  "failure_item failure =
     (case failure of
        None \<Rightarrow> Inr []
      | Some s \<Rightarrow> rbind (one_of REPORT_FAILURES (JStr s)) (\<lambda>_. Inr [(''failure'', JStr s)]))"

definition host_report_request ::
  "pystr \<Rightarrow> int \<Rightarrow> pystr \<Rightarrow> pystr \<Rightarrow> int option \<Rightarrow> pystr option \<Rightarrow> json res" where
  "host_report_request digest attempt transport result status failure =
     rbind (digest_of (JStr digest)) (\<lambda>_.
     rbind (int_in 0 MAX_EGRESS_ATTEMPTS (JInt attempt)) (\<lambda>_.
     rbind (one_of TRANSPORTS (JStr transport)) (\<lambda>_.
     rbind (one_of REPORT_RESULTS (JStr result)) (\<lambda>_.
     rbind (check (attempt \<noteq> 0) ValidationError) (\<lambda>_.
     rbind (http_status_item status) (\<lambda>si.
     rbind (failure_item failure) (\<lambda>fi.
     rbind (check (if result = ''response_observed''
                   then failure = None \<and> (transport = ''http'' \<longrightarrow> status \<noteq> None)
                   else status = None \<and> failure \<noteq> None) ValidationError) (\<lambda>_.
     Inr (JObj ([(''schema_version'', JInt 1), (''admission_receipt_digest'', JStr digest),
       (''attempt'', JInt attempt), (''transport'', JStr transport), (''result'', JStr result)] @
       si @ fi))))))))))"

definition REPORTED :: "pystr list" where
  "REPORTED = [''admission_receipt_digest'', ''attempt'', ''transport'', ''result'', ''http_status'',
     ''failure'']"

definition same_field :: "json \<Rightarrow> json \<Rightarrow> pystr \<Rightarrow> bool" where
  "same_field observation request k \<longleftrightarrow>
     (case (jget k observation, jget k request) of
        (None, None) \<Rightarrow> True | (Some a, Some b) \<Rightarrow> py_eq a b | _ \<Rightarrow> False)"

definition expected_observation :: "json \<Rightarrow> json" where
  "expected_observation request = JObj (dict_put ''observer'' (JStr ''host_reported'') (obj_items request))"

definition parse_egress_host_report :: "json \<Rightarrow> json \<Rightarrow> host_report res" where
  "parse_egress_host_report v request =
     rbind (has_fields [''schema_version'', ''observation_digest'', ''observation''] [] v) (\<lambda>_.
     rbind (int_in 0 1 (jat ''schema_version'' v)) (\<lambda>version.
     rbind (bad (version \<noteq> 1)) (\<lambda>_.
     rbind (digest_of (jat ''observation_digest'' v)) (\<lambda>digest.
     let observation = jat ''observation'' v in
     rbind (has_fields [''schema_version'', ''admission_receipt_digest'', ''attempt'', ''transport'',
       ''observer'', ''result''] [''http_status'', ''failure''] observation) (\<lambda>_.
     rbind (int_in 0 1 (jat ''schema_version'' observation)) (\<lambda>oversion.
     rbind (bad (oversion \<noteq> 1)) (\<lambda>_.
     rbind (bad (jat ''observer'' observation \<noteq> JStr ''host_reported'')) (\<lambda>_.
     rbind (bad (\<not> list_all (same_field observation request) REPORTED)) (\<lambda>_.
     rbind (canonical_bytes (expected_observation request)) (\<lambda>bytes.
     rbind (bad (digest \<noteq> sha256_ref bytes)) (\<lambda>_.
     rbind (opt_value_of (int_in 0 599) (jat ''http_status'' observation)) (\<lambda>status.
     rbind (bad (case status of None \<Rightarrow> False | Some n \<Rightarrow> n < 100)) (\<lambda>_.
     rbind (opt_field (one_of REPORT_FAILURES) ''failure'' observation) (\<lambda>_.
     Inr \<lparr>hr_observation_digest = digest, hr_observation = observation\<rparr>))))))))))))))"

definition report_egress ::
  "instance_call \<Rightarrow> pystr \<Rightarrow> pystr \<Rightarrow> int \<Rightarrow> pystr \<Rightarrow> pystr \<Rightarrow> int option \<Rightarrow> pystr option \<Rightarrow>
     host_report res" where
  "report_egress engine root digest attempt transport result status failure =
     rbind (host_report_request digest attempt transport result status failure) (\<lambda>request.
     rbind (canonical_bytes request) (\<lambda>payload.
     rbind (check (length payload \<le> MAX_EGRESS_REPORT_BYTES) ValidationError) (\<lambda>_.
     rbind (engine ''egress-report'' root request) (\<lambda>raw.
     rbind (reply_document MAX_EGRESS_REPLY raw) (\<lambda>document.
     parse_egress_host_report document request)))))"

end
