(* ===== verification/Strict_Readers.thy ===== *)
theory Strict_Readers
  imports Planning Gateway
begin

text \<open>
  What a strict reader promises: every value it returns is well formed, and every well-formed value
  is returned for the document that writes it. The clients are the readers of lists and of optional
  fields.
\<close>

locale reader =
  fixes read :: "json \<Rightarrow> 'a res" and doc :: "'a \<Rightarrow> json" and ok :: "'a \<Rightarrow> bool"
  assumes sound: "read v = Inr a \<Longrightarrow> ok a"
    and complete: "ok a \<Longrightarrow> read (doc a) = Inr a"
begin

lemma ok_iff: "ok a \<longleftrightarrow> (\<exists>v. read v = Inr a)"
  using sound complete by blast

lemma list_sound: "mapr read vs = Inr as \<Longrightarrow> list_all ok as"
  unfolding list_all_iff using sound by (metis mapr_Inr_setD)

lemma list_complete: "list_all ok as \<Longrightarrow> mapr read (map doc as) = Inr as"
  by (rule mapr_map_id) (simp add: list_all_iff complete)

lemma opt_sound: "opt_field read k v = Inr x \<Longrightarrow> pred_option ok x"
  by (auto simp: opt_field_def rbind_eq_Inr_iff pred_option_def split: option.splits dest: sound)

end

section \<open>Sorted without repetition\<close>

lemma not_increasing_iff: "\<not> not_increasing key xs \<longleftrightarrow> sorted_wrt (\<lambda>a b. key a < key b) xs"
proof (induction xs)
  case Nil
  then show ?case by (simp add: not_increasing_def)
next
  case (Cons x xs)
  have trans: "sorted_wrt (\<lambda>a b. key a < key b) (y # ys) \<Longrightarrow> key x < key y \<Longrightarrow>
      \<forall>z \<in> set (y # ys). key x < key z" for y ys
    by auto
  show ?case
  proof (cases xs)
    case Nil
    then show ?thesis by (simp add: not_increasing_def)
  next
    case (Cons y ys)
    have "not_increasing key (x # xs) \<longleftrightarrow> key x \<ge> key y \<or> not_increasing key xs"
      by (simp add: not_increasing_def Cons)
    then show ?thesis
      using Cons.IH trans [of y ys] by (auto simp: Cons not_le)
  qed
qed

lemma sorted_keys_distinct:
  "sorted_wrt (\<lambda>a b. key a < (key b :: 'k::linorder)) xs \<Longrightarrow> distinct (map key xs)"
  by (induction xs) force+

section \<open>Optional fields of a written document\<close>

definition opt_doc :: "('a \<Rightarrow> json) \<Rightarrow> pystr \<Rightarrow> 'a option \<Rightarrow> (pystr \<times> json) list" where
  "opt_doc f k x = (case x of None \<Rightarrow> [] | Some a \<Rightarrow> [(k, f a)])"

lemma has_fields_exact: "map fst kvs = ks \<Longrightarrow> has_fields ks os (JObj kvs) = Inr ()"
  by (auto simp: ok_simps jkeys_def)

lemma jget_append:
  "jget k (JObj (xs @ ys)) = (case map_of xs k of None \<Rightarrow> jget k (JObj ys) | Some v \<Rightarrow> Some v)"
  by (simp add: jget_def map_add_def split: option.splits)

lemma jkeys_append: "set (jkeys (JObj (xs @ ys))) = fst ` set xs \<union> set (jkeys (JObj ys))"
  by (auto simp: jkeys_def)

lemma opt_doc_simps [simp]: "opt_doc f k None = []" "opt_doc f k (Some a) = [(k, f a)]"
  by (simp_all add: opt_doc_def)

end
