(* ===== verification/Store_Facts.thy ===== *)
theory Store_Facts
  imports Strict_Readers
begin

text \<open>
  What the readers of the context store accept: every value returned is well formed, every
  well-formed value is returned for the document that writes it, and a lineage without gaps is
  verified throughout.
\<close>

section \<open>Well-formed evidence\<close>

definition count_ok :: "int \<Rightarrow> bool" where
  "count_ok i \<longleftrightarrow> 0 \<le> i \<and> i \<le> MAX_SAFE"

definition workload_ok :: "workload \<Rightarrow> bool" where
  "workload_ok w \<longleftrightarrow>
     wl_task_class w \<in> set TASK_CLASSES \<and> wl_language w \<in> set LANGUAGES \<and> wl_size w \<in> set SIZES"

definition workload_doc :: "workload \<Rightarrow> json" where
  "workload_doc w =
     JObj [(''task_class'', JStr (wl_task_class w)), (''language'', JStr (wl_language w)),
       (''size'', JStr (wl_size w))]"

interpretation workload: reader workload_of workload_doc workload_ok
  by unfold_locales
    (auto simp: workload_of_def workload_ok_def workload_doc_def ok_simps jkeys_def)

definition quality_ok :: "quality_evidence \<Rightarrow> bool" where
  "quality_ok q \<longleftrightarrow> q = unmeasured_quality \<or>
     qe_measured q \<and>
     (case (qe_retained q, qe_recoverable q, qe_lost q, qe_emitted q, qe_verified q, qe_failures q,
            qe_critical q) of
        (Some a, Some b, Some c, Some e, Some v, Some f, Some x) \<Rightarrow>
          count_ok a \<and> count_ok b \<and> count_ok c \<and> count_ok e \<and> count_ok v \<and> count_ok f \<and>
          count_ok x \<and> v \<le> e \<and> f \<le> e \<and> x \<le> f
      | _ \<Rightarrow> False)"

definition quality_doc :: "quality_evidence \<Rightarrow> json" where
  "quality_doc q =
     (if qe_measured q then
        JObj [(''state'', JStr ''measured''),
          (''retention'', JObj [(''retained'', opt_int (qe_retained q)),
             (''recoverable'', opt_int (qe_recoverable q)), (''lost'', opt_int (qe_lost q))]),
          (''recovery'', JObj [(''handles_emitted'', opt_int (qe_emitted q)),
             (''handles_verified'', opt_int (qe_verified q)), (''failures'', opt_int (qe_failures q)),
             (''critical_failures'', opt_int (qe_critical q))])]
      else JObj [(''state'', JStr ''unmeasured'')])"

interpretation quality: reader quality_of quality_doc quality_ok
proof (unfold_locales, goal_cases)
  case (1 v q)
  then show ?case
    by (auto simp: quality_of_def measured_quality_def quality_ok_def count_ok_def Let_def ok_simps
        split: if_splits)
next
  case (2 q)
  show ?case
  proof (cases "qe_measured q")
    case False
    with 2 show ?thesis
      by (auto simp: quality_ok_def quality_of_def quality_doc_def unmeasured_quality_def ok_simps
          jkeys_def)
  next
    case True
    with 2 show ?thesis
      by (cases q) (auto simp: quality_ok_def quality_of_def measured_quality_def quality_doc_def
          unmeasured_quality_def count_ok_def opt_int_def ok_simps jkeys_def Let_def
          split: option.splits)
  qed
qed

definition security_ok :: "security_evidence \<Rightarrow> bool" where
  "security_ok s \<longleftrightarrow>
     (if se_measured s then (case se_regressions s of None \<Rightarrow> False | Some n \<Rightarrow> count_ok n)
      else se_regressions s = None)"

definition security_doc :: "security_evidence \<Rightarrow> json" where
  "security_doc s =
     (if se_measured s then
        JObj [(''state'', JStr ''measured''), (''regressions'', opt_int (se_regressions s))]
      else JObj [(''state'', JStr ''unmeasured'')])"

interpretation security: reader security_of security_doc security_ok
proof (unfold_locales, goal_cases)
  case (1 v s)
  then show ?case
    by (auto simp: security_of_def security_ok_def count_ok_def ok_simps split: if_splits)
next
  case (2 s)
  then show ?case
    by (cases s) (auto simp: security_of_def security_ok_def security_doc_def count_ok_def opt_int_def
        ok_simps jkeys_def split: option.splits if_splits)
qed

text \<open>The counts of a record agree with each other, as the instance promises.\<close>

definition record_ok :: "outcome_record \<Rightarrow> bool" where
  "record_ok r \<longleftrightarrow>
     workload_ok (or_workload r) \<and> or_strategy r \<in> set STRATEGIES \<and> quality_ok (or_quality r) \<and>
     security_ok (or_security r) \<and>
     list_all count_ok [or_day r, or_samples r, or_accepted r, or_rejected r, or_overrides r,
       or_token_samples r, or_original r, or_delivered r, or_signal_samples r, or_bounce r, or_expand r,
       or_edit_failure r] \<and>
     or_samples r \<noteq> 0 \<and> or_accepted r + or_rejected r = or_samples r \<and>
     or_overrides r \<le> or_samples r \<and> or_token_samples r \<le> or_samples r \<and>
     or_signal_samples r \<le> or_samples r \<and> or_bounce r \<le> or_signal_samples r \<and>
     or_expand r \<le> or_signal_samples r \<and> or_edit_failure r \<le> or_signal_samples r \<and>
     (or_token_samples r = 0 \<longrightarrow> or_original r = 0) \<and> or_delivered r \<le> or_original r"

definition record_doc :: "outcome_record \<Rightarrow> json" where
  "record_doc r =
     JObj [(''workload'', workload_doc (or_workload r)), (''strategy'', JStr (or_strategy r)),
       (''observed_day'', JInt (or_day r)), (''samples'', JInt (or_samples r)),
       (''accepted'', JInt (or_accepted r)), (''rejected'', JInt (or_rejected r)),
       (''explicit_overrides'', JInt (or_overrides r)), (''token_samples'', JInt (or_token_samples r)),
       (''signal_samples'', JInt (or_signal_samples r)), (''bounce_tasks'', JInt (or_bounce r)),
       (''expand_tasks'', JInt (or_expand r)), (''edit_failure_tasks'', JInt (or_edit_failure r)),
       (''tokens_original'', JInt (or_original r)), (''tokens_delivered'', JInt (or_delivered r)),
       (''quality'', quality_doc (or_quality r)), (''security'', security_doc (or_security r))]"

lemma check_record_Inr:
  "check_record r = Inr q \<longleftrightarrow> q = r \<and> or_samples r \<noteq> 0 \<and>
     or_accepted r + or_rejected r = or_samples r \<and> or_overrides r \<le> or_samples r \<and>
     or_token_samples r \<le> or_samples r \<and> or_signal_samples r \<le> or_samples r \<and>
     or_bounce r \<le> or_signal_samples r \<and> or_expand r \<le> or_signal_samples r \<and>
     or_edit_failure r \<le> or_signal_samples r \<and>
     (or_token_samples r = 0 \<longrightarrow> or_original r = 0 \<and> or_delivered r = 0) \<and>
     or_delivered r \<le> or_original r"
  unfolding check_record_def rbind_eq_Inr_iff bad_Inr by (auto simp: not_less)

lemma counts_8:
  "mapr f COUNTS = Inr cs \<longleftrightarrow> length cs = 8 \<and> (\<forall>i < 8. f (COUNTS ! i) = Inr (cs ! i))"
  unfolding mapr_Inr_iff list_all2_conv_all_nth by (auto simp: COUNTS_def)

lemma counts_4:
  "mapr f SIGNAL_COUNTS = Inr cs \<longleftrightarrow>
     length cs = 4 \<and> (\<forall>i < 4. f (SIGNAL_COUNTS ! i) = Inr (cs ! i))"
  unfolding mapr_Inr_iff list_all2_conv_all_nth by (auto simp: SIGNAL_COUNTS_def)

lemma count_of_ok: "count_of v = Inr i \<Longrightarrow> count_ok i"
  by (simp add: ok_simps count_ok_def)

lemma record_of_sound: "record_of v = Inr r \<Longrightarrow> record_ok r"
proof -
  assume "record_of v = Inr r"
  then obtain cs ss w s q x where
    cs: "mapr (\<lambda>k. count_of (jat k v)) COUNTS = Inr cs"
    and ss: "mapr (\<lambda>k. count_of (field_or (JInt 0) k v)) SIGNAL_COUNTS = Inr ss"
    and parts: "workload_of (jat ''workload'' v) = Inr w" "s \<in> set STRATEGIES"
      "quality_of (jat ''quality'' v) = Inr q" "security_of (jat ''security'' v) = Inr x"
    and r: "check_record
       \<lparr>or_workload = w, or_strategy = s, or_day = cs ! 0, or_samples = cs ! 1,
        or_accepted = cs ! 2, or_rejected = cs ! 3, or_overrides = cs ! 4, or_token_samples = cs ! 5,
        or_signal_samples = ss ! 0, or_bounce = ss ! 1, or_expand = ss ! 2, or_edit_failure = ss ! 3,
        or_original = cs ! 6, or_delivered = cs ! 7, or_quality = q, or_security = x\<rparr> = Inr r"
    unfolding record_of_def rbind_eq_Inr_iff by (auto simp: one_of_Inr)
  have "count_ok (cs ! i)" if "i < 8" for i
    using cs that count_of_ok unfolding counts_8 by blast
  moreover have "count_ok (ss ! i)" if "i < 4" for i
    using ss that count_of_ok unfolding counts_4 by blast
  ultimately show ?thesis
    using r workload.sound [OF parts(1)] parts(2) quality.sound [OF parts(3)] security.sound [OF parts(4)]
    unfolding check_record_Inr record_ok_def by (auto simp: count_ok_def)
qed

lemma record_of_complete: "record_ok r \<Longrightarrow> record_of (record_doc r) = Inr r"
proof -
  assume ok: "record_ok r"
  have counts: "mapr (\<lambda>k. count_of (jat k (record_doc r))) COUNTS =
      Inr [or_day r, or_samples r, or_accepted r, or_rejected r, or_overrides r, or_token_samples r,
        or_original r, or_delivered r]"
    using ok by (simp add: COUNTS_def record_doc_def record_ok_def count_ok_def count_of_def int_in_def)
  have signals: "mapr (\<lambda>k. count_of (field_or (JInt 0) k (record_doc r))) SIGNAL_COUNTS =
      Inr [or_signal_samples r, or_bounce r, or_expand r, or_edit_failure r]"
    using ok by (simp add: SIGNAL_COUNTS_def field_or_def record_doc_def record_ok_def count_ok_def
        count_of_def int_in_def)
  have keys: "has_fields ([''workload'', ''strategy'', ''quality'', ''security''] @ COUNTS) SIGNAL_COUNTS
      (record_doc r) = Inr ()"
    by (simp add: ok_simps record_doc_def jkeys_def COUNTS_def SIGNAL_COUNTS_def)
  have fields: "jat ''workload'' (record_doc r) = workload_doc (or_workload r)"
    "jat ''strategy'' (record_doc r) = JStr (or_strategy r)"
    "jat ''quality'' (record_doc r) = quality_doc (or_quality r)"
    "jat ''security'' (record_doc r) = security_doc (or_security r)"
    by (simp_all add: record_doc_def)
  have "one_of STRATEGIES (JStr (or_strategy r)) = Inr (or_strategy r)"
    using ok by (simp add: one_of_Inr record_ok_def)
  moreover have "check_record r = Inr r"
    using ok unfolding check_record_Inr by (auto simp: record_ok_def count_ok_def)
  ultimately show ?thesis
    unfolding record_of_def counts signals keys fields
    using ok by (cases r) (simp add: record_ok_def workload.complete quality.complete security.complete)
qed

interpretation outcome: reader record_of record_doc record_ok
  by unfold_locales (rule record_of_sound record_of_complete; assumption)+

definition evaluation_ok :: "strategy_evaluation \<Rightarrow> bool" where
  "evaluation_ok e \<longleftrightarrow>
     ev_strategy e \<in> set STRATEGIES - {''other''} \<and> ev_tier e \<in> set EVIDENCE_TIERS \<and>
     ev_verdict e \<in> set VERDICTS \<and> count_ok (ev_pairs e) \<and>
     list_all (\<lambda>i. - MAX_SAFE \<le> i \<and> i \<le> MAX_SAFE) [ev_delta e, ev_low e, ev_high e, ev_margin e] \<and>
     ev_low e \<le> ev_high e \<and> 0 \<le> ev_margin e \<and> (ev_powered e \<longrightarrow> ev_pairs e \<noteq> 0)"

definition evaluation_doc :: "strategy_evaluation \<Rightarrow> json" where
  "evaluation_doc e =
     JObj [(''strategy'', JStr (ev_strategy e)), (''evidence_tier'', JStr (ev_tier e)),
       (''verdict'', JStr (ev_verdict e)), (''pairs'', JInt (ev_pairs e)),
       (''powered'', JBool (ev_powered e)), (''delta_milli'', JInt (ev_delta e)),
       (''ci_low_milli'', JInt (ev_low e)), (''ci_high_milli'', JInt (ev_high e)),
       (''margin_milli'', JInt (ev_margin e))]"

lemma check_evaluation_Inr:
  "check_evaluation e = Inr f \<longleftrightarrow> f = e \<and> ev_strategy e \<noteq> ''other'' \<and> ev_low e \<le> ev_high e \<and>
     0 \<le> ev_margin e \<and> (ev_powered e \<longrightarrow> ev_pairs e \<noteq> 0)"
  unfolding check_evaluation_def rbind_eq_Inr_iff bad_Inr by (auto simp: not_less)

lemma evaluation_of_complete: "evaluation_ok e \<Longrightarrow> evaluation_of (evaluation_doc e) = Inr e"
proof -
  assume ok: "evaluation_ok e"
  then have "check_evaluation e = Inr e"
    unfolding check_evaluation_Inr by (auto simp: evaluation_ok_def)
  with ok show ?thesis
    by (cases e) (simp add: evaluation_of_def evaluation_ok_def evaluation_doc_def count_ok_def
        has_fields_exact one_of_def count_of_def signed_of_def int_in_def bool_of_def)
qed

interpretation evaluation: reader evaluation_of evaluation_doc evaluation_ok
proof (unfold_locales, goal_cases)
  case (1 v e)
  then show ?case
    unfolding evaluation_of_def rbind_eq_Inr_iff check_evaluation_Inr
    by (auto simp: evaluation_ok_def count_ok_def one_of_Inr count_of_Inr signed_of_Inr)
qed (rule evaluation_of_complete)

definition evidence_ok :: "policy_evidence \<Rightarrow> bool" where
  "evidence_ok p \<longleftrightarrow>
     length (pe_records p) \<le> MAX_EVIDENCE_RECORDS \<and> list_all record_ok (pe_records p) \<and>
     sorted_wrt (\<lambda>a b. record_key a < record_key b) (pe_records p) \<and>
     length (pe_evaluations p) \<le> length STRATEGIES \<and> list_all evaluation_ok (pe_evaluations p) \<and>
     sorted_wrt (\<lambda>a b. index_of (ev_strategy a) STRATEGIES < index_of (ev_strategy b) STRATEGIES)
       (pe_evaluations p)"

definition evidence_doc :: "policy_evidence \<Rightarrow> json" where
  "evidence_doc p =
     JObj [(''schema_version'', JInt 1), (''records'', JArr (map record_doc (pe_records p))),
       (''evaluations'', JArr (map evaluation_doc (pe_evaluations p)))]"

interpretation evidence: reader parse_policy_evidence evidence_doc evidence_ok
proof (unfold_locales, goal_cases)
  case (1 v p)
  then obtain rs es where "mapr record_of rs = Inr (pe_records p)" "length rs \<le> MAX_EVIDENCE_RECORDS"
    "mapr evaluation_of es = Inr (pe_evaluations p)" "length es \<le> length STRATEGIES"
    "\<not> not_increasing record_key (pe_records p)"
    "\<not> not_increasing (\<lambda>e. index_of (ev_strategy e) STRATEGIES) (pe_evaluations p)"
    unfolding parse_policy_evidence_def rbind_eq_Inr_iff list_upto_Inr bad_Inr by auto
  then show ?case
    unfolding evidence_ok_def not_increasing_iff
    using outcome.list_sound evaluation.list_sound by (auto dest!: mapr_length)
next
  case (2 p)
  then show ?case
    using outcome.list_complete [of "pe_records p"] evaluation.list_complete [of "pe_evaluations p"]
    by (simp add: parse_policy_evidence_def evidence_ok_def evidence_doc_def ok_simps jkeys_def
        is_version_def field_or_def not_increasing_iff list_upto_def)
qed

text \<open>
  C26. The evidence reader accepts exactly the well-formed evidence. What \<open>parse_policy_evidence\<close>
  returns has at most 4096 records and one evaluation per known strategy, strictly sorted by
  workload, strategy and day, with counts in range that agree with each other: accepted and rejected
  tasks add up to the samples, no part counts more tasks than the whole, no tokens without token
  samples, unmeasured quality without any count. Conversely every such evidence is returned unchanged
  for the document that writes it.
\<close>

theorem evidence_accepted_exactly:
  "(parse_policy_evidence v = Inr p \<longrightarrow> evidence_ok p) \<and>
   (evidence_ok p \<longrightarrow> parse_policy_evidence (evidence_doc p) = Inr p)"
  using evidence.sound evidence.complete by blast

definition demo_outcome :: outcome_record where
  "demo_outcome =
     \<lparr>or_workload = \<lparr>wl_task_class = ''bug_fix'', wl_language = ''python'', wl_size = ''small''\<rparr>,
      or_strategy = ''map'', or_day = 20000, or_samples = 3, or_accepted = 2, or_rejected = 1,
      or_overrides = 0, or_token_samples = 2, or_signal_samples = 1, or_bounce = 0, or_expand = 1,
      or_edit_failure = 0, or_original = 900, or_delivered = 300, or_quality = unmeasured_quality,
      or_security = \<lparr>se_measured = True, se_regressions = Some 0\<rparr>\<rparr>"

definition demo_evaluation :: strategy_evaluation where
  "demo_evaluation =
     \<lparr>ev_strategy = ''map'', ev_tier = ''mechanism'', ev_verdict = ''improved'', ev_pairs = 40,
      ev_powered = True, ev_delta = 12, ev_low = - 3, ev_high = 25, ev_margin = 5\<rparr>"

definition demo_evidence :: policy_evidence where
  "demo_evidence = \<lparr>pe_records = [demo_outcome], pe_evaluations = [demo_evaluation]\<rparr>"

lemma demo_evidence_ok: "evidence_ok demo_evidence"
  by (simp add: evidence_ok_def demo_evidence_def demo_outcome_def demo_evaluation_def record_ok_def
      workload_ok_def quality_ok_def security_ok_def evaluation_ok_def count_ok_def MAX_SAFE_def
      TASK_CLASSES_def LANGUAGES_def SIZES_def STRATEGIES_def EVIDENCE_TIERS_def VERDICTS_def
      MAX_EVIDENCE_RECORDS_def)

lemma evidence_accepted_exactly_witness:
  "parse_policy_evidence (evidence_doc demo_evidence) = Inr demo_evidence \<and> evidence_ok demo_evidence"
  using evidence_accepted_exactly [of "evidence_doc demo_evidence" demo_evidence] demo_evidence_ok
  by blast

section \<open>Lineage\<close>

definition delivery_ok :: "lineage_delivery \<Rightarrow> bool" where
  "delivery_ok d \<longleftrightarrow>
     is_digest (de_digest d) \<and>
     (if de_verified d then
        de_error d = None \<and>
        (case de_summary d of None \<Rightarrow> False
         | Some s \<Rightarrow> su_outcome s \<in> set DELIVERY_OUTCOMES \<and> 0 \<le> su_tokens s \<and> su_tokens s \<le> su_original s)
      else de_summary d = None \<and>
        (case de_error d of None \<Rightarrow> False | Some e \<Rightarrow> e \<in> set DELIVERY_ERRORS))"

lemma summary_of_Inr:
  "summary_of v = Inr s \<Longrightarrow>
     su_outcome s \<in> set DELIVERY_OUTCOMES \<and> 0 \<le> su_tokens s \<and> su_tokens s \<le> su_original s"
  unfolding summary_of_def rbind_eq_Inr_iff bad_Inr one_of_Inr count_of_Inr by auto

lemma delivery_of_sound: "delivery_of v = Inr d \<Longrightarrow> delivery_ok d"
  unfolding delivery_of_def rbind_eq_Inr_iff bad_Inr digest_of_Inr delivery_ok_def
  by (auto simp: opt_field_def ok_simps dest: summary_of_Inr split: option.splits if_splits)

text \<open>
  C27. The gaps of a lineage tell the truth. In every lineage \<open>parse_task_lineage\<close> returns, the ledger
  has an error exactly when \<open>ledger_unverified\<close> is among the gaps, some delivery is unverified exactly
  when \<open>delivery_unverified\<close> is, a verified delivery has a summary that delivers no more tokens than
  there were and an unverified one has no summary but a known error. So a lineage without gaps
  (\<open>is_complete\<close>) has a verified ledger and verified deliveries only.
\<close>

theorem gaps_tell_truth:
  assumes "parse_task_lineage v = Inr l"
  shows "(tl_ledger_error l \<noteq> None) = (''ledger_unverified'' \<in> set (tl_gaps l)) \<and>
    (\<exists>d \<in> set (tl_deliveries l). \<not> de_verified d) = (''delivery_unverified'' \<in> set (tl_gaps l)) \<and>
    (\<forall>d \<in> set (tl_deliveries l). delivery_ok d) \<and> distinct (tl_gaps l) \<and> set (tl_gaps l) \<subseteq> set GAPS \<and>
    (is_complete l \<longrightarrow> tl_ledger_error l = None \<and> list_all de_verified (tl_deliveries l))"
proof -
  obtain gs ds where l: "mapr (one_of GAPS) gs = Inr (tl_gaps l)" "mapr delivery_of ds = Inr (tl_deliveries l)"
    "distinct (tl_gaps l)"
    "(tl_ledger_error l \<noteq> None) = (''ledger_unverified'' \<in> set (tl_gaps l))"
    "list_ex (\<lambda>d. \<not> de_verified d) (tl_deliveries l) = (''delivery_unverified'' \<in> set (tl_gaps l))"
    using assms unfolding parse_task_lineage_def rbind_eq_Inr_iff bad_Inr by auto
  have "set (tl_gaps l) \<subseteq> set GAPS"
    using l(1) by (auto dest!: mapr_Inr_setD simp: one_of_Inr)
  moreover have "\<forall>d \<in> set (tl_deliveries l). delivery_ok d"
    using l(2) delivery_of_sound by (blast dest: mapr_Inr_setD)
  ultimately show ?thesis
    using l(3-5) by (auto simp: is_complete_def list_ex_iff list_all_iff)
qed

definition demo_lineage_doc :: json where
  "demo_lineage_doc =
     JObj [(''schema_version'', JInt 1), (''task_id'', JStr ''t1''), (''steps'', JArr []),
       (''deliveries'', JArr [JObj [(''digest'', JStr (sha256_ref ''a'')), (''verified'', JBool False),
          (''error'', JStr ''missing'')]]),
       (''outcome'', JStr ''unknown''), (''gaps'', JArr [JStr ''delivery_unverified''])]"

definition demo_lineage :: task_lineage where
  "demo_lineage =
     \<lparr>tl_task = ''t1'', tl_scope = None, tl_steps = [],
      tl_deliveries = [\<lparr>de_digest = sha256_ref ''a'', de_verified = False, de_error = Some ''missing'',
        de_summary = None\<rparr>],
      tl_ledger_error = None, tl_outcome = ''unknown'', tl_gaps = [''delivery_unverified'']\<rparr>"

lemma demo_lineage_parses: "parse_task_lineage demo_lineage_doc = Inr demo_lineage"
  by (simp add: parse_task_lineage_def demo_lineage_doc_def demo_lineage_def has_fields_def jkeys_def
      is_version_def list_upto_def one_of_def GAPS_def opt_value_of_def MAX_LINEAGE_ITEMS_def
      delivery_of_def bool_of_def digest_of_def opt_field_def DELIVERY_ERRORS_def plain_text_def
      encoded_length_def strict_utf8_def has_control_or_del_def MAX_STORE_REF_def STORE_OUTCOMES_def
      bad_def)

lemma gaps_tell_truth_witness:
  "parse_task_lineage demo_lineage_doc = Inr demo_lineage \<and>
   (\<exists>d \<in> set (tl_deliveries demo_lineage). \<not> de_verified d) =
     (''delivery_unverified'' \<in> set (tl_gaps demo_lineage))"
  using gaps_tell_truth [OF demo_lineage_parses] demo_lineage_parses by blast

end
