(* ===== verification/Gateway_Facts.thy ===== *)
theory Gateway_Facts
  imports Strict_Readers Ws_Demo
begin

text \<open>
  What the gateway's readers promise: the bytes that may be sent are the admitted body under the
  digest of its receipt, a receipt's counts are those of its decisions, and a host report names the
  facts it was asked to record.
\<close>

section \<open>Receipts\<close>

definition coverage_ok :: "coverage \<Rightarrow> bool" where
  "coverage_ok c \<longleftrightarrow>
     0 \<le> co_bytes c \<and> co_bytes c \<le> co_bytes_total c \<and> 0 \<le> co_chunks c \<and>
     co_chunks c \<le> co_chunks_total c \<and> (co_kind c = ''complete'' \<longrightarrow> co_bytes c = co_bytes_total c) \<and>
     (co_kind c = ''partial'' \<longrightarrow> co_bytes c < co_bytes_total c)"

lemma coverage_of_sound: "coverage_of v = Inr c \<Longrightarrow> coverage_ok c"
  unfolding coverage_of_def check_coverage_def rbind_eq_Inr_iff bad_Inr int_in_Inr coverage_ok_def
  by auto

definition signal_ok :: "signal \<Rightarrow> bool" where
  "signal_ok s \<longleftrightarrow>
     coverage_ok (sg_coverage s) \<and> sg_status s \<in> set DETECTOR_STATUSES \<and>
     (coverage_complete (sg_coverage s) \<longrightarrow> sg_status s \<in> {''completed'', ''skipped''})"

lemma signal_of_sound:
  assumes "signal_of v = Inr s"
  shows "signal_ok s"
proof -
  have "coverage_of (jat ''coverage'' v) = Inr (sg_coverage s)"
    and status: "sg_status s \<in> set DETECTOR_STATUSES"
    and "\<not> (sg_status s \<in> {''failed'', ''timed_out''} \<and> coverage_complete (sg_coverage s))"
    using assms unfolding signal_of_def rbind_eq_Inr_iff bad_Inr one_of_Inr Let_def by fastforce+
  moreover have "sg_status s \<in> {''failed'', ''timed_out'', ''completed'', ''skipped''}"
    using status unfolding DETECTOR_STATUSES_def by auto
  ultimately show ?thesis
    using status coverage_of_sound unfolding signal_ok_def by blast
qed

definition decision_ok :: "ctx_decision \<Rightarrow> bool" where
  "decision_ok d \<longleftrightarrow>
     is_digest (dc_object d) \<and> dc_disposition d \<in> set CONTEXT_DISPOSITIONS \<and>
     list_all signal_ok (dc_signals d) \<and> length (dc_signals d) \<le> MAX_SIGNALS \<and>
     list_all reason_ok (dc_reasons d) \<and> (dc_disposition d \<noteq> ''allow'' \<longrightarrow> dc_reasons d \<noteq> [])"

lemma reason_of_Inr [ok_simps]: "reason_of v = Inr s \<longleftrightarrow> v = JStr s \<and> reason_ok s"
  by (auto simp: reason_of_def split: json.splits)

lemma decision_of_sound:
  assumes "decision_of v = Inr d"
  shows "decision_ok d"
proof -
  obtain ss rs where d: "is_digest (dc_object d)" "dc_disposition d \<in> set CONTEXT_DISPOSITIONS"
    "mapr signal_of ss = Inr (dc_signals d)" "length ss \<le> MAX_SIGNALS"
    "mapr reason_of rs = Inr (dc_reasons d)"
    "dc_disposition d \<noteq> ''allow'' \<longrightarrow> dc_reasons d \<noteq> []"
    using assms unfolding decision_of_def rbind_eq_Inr_iff bad_Inr one_of_Inr digest_of_Inr
      list_upto_Inr reasons_of_def Let_def by auto
  have "list_all signal_ok (dc_signals d)"
    using d(3) by (auto simp: list_all_iff dest!: mapr_Inr_setD signal_of_sound)
  moreover have "list_all reason_ok (dc_reasons d)"
    using d(5) by (auto simp: list_all_iff reason_of_Inr dest!: mapr_Inr_setD)
  ultimately show ?thesis
    using d by (auto simp: decision_ok_def dest: mapr_length)
qed

lemma counts_of_Inr:
  "counts_of names m v = Inr cs \<Longrightarrow> map fst cs = names \<and> (\<forall>(k, i) \<in> set cs. 0 \<le> i \<and> i \<le> m)"
  unfolding counts_of_def rbind_eq_Inr_iff
proof (elim exE conjE, goal_cases)
  case (1 u)
  then have "list_all2 (\<lambda>k p. fst p = k \<and> 0 \<le> snd p \<and> snd p \<le> m) names cs"
    unfolding mapr_Inr_iff by (auto simp: rbind_eq_Inr_iff int_in_Inr elim!: list_all2_mono)
  then show ?case
    by (induction names cs rule: list_all2_induct) auto
qed

definition receipt_ok :: "decision_receipt \<Rightarrow> bool" where
  "receipt_ok r \<longleftrightarrow>
     list_all decision_ok (dr_decisions r) \<and> length (dr_decisions r) \<le> MAX_DECISIONS \<and>
     map fst (dr_sources r) = [''inspected'', ''permitted'', ''selected'', ''blocked''] \<and>
     count_at ''selected'' (dr_sources r) \<le> count_at ''permitted'' (dr_sources r) \<and>
     count_at ''permitted'' (dr_sources r) + count_at ''blocked'' (dr_sources r)
       \<le> count_at ''inspected'' (dr_sources r) \<and>
     count_at ''blocked_objects'' (dr_security r) = disposed ''deny'' (dr_decisions r) \<and>
     count_at ''quarantined_objects'' (dr_security r) = disposed ''quarantine'' (dr_decisions r) \<and>
     (dr_outcome r = ''delivered'') = (dr_final r \<noteq> None) \<and> pred_option is_digest (dr_final r) \<and>
     (dr_version r = 2) = (dr_object_key r \<noteq> None) \<and> dr_version r \<in> {1, 2} \<and>
     (is_known (dr_principal r) \<longrightarrow> pr_id (dr_principal r) \<noteq> None)"

lemma principal_of_known: "principal_of v = Inr p \<Longrightarrow> is_known p \<Longrightarrow> pr_id p \<noteq> None"
  by (auto simp: principal_of_def is_known_def rbind_eq_Inr_iff bad_Inr split: if_splits)

lemma opt_field_Inr:
  "opt_field f k v = Inr x \<longleftrightarrow>
     (case jget k v of None \<Rightarrow> x = None | Some w \<Rightarrow> \<exists>a. x = Some a \<and> f w = Inr a)"
  by (auto simp: opt_field_def rbind_eq_Inr_iff split: option.splits)

lemma receipt_sound:
  assumes "parse_decision_receipt v = Inr r"
  shows "receipt_ok r"
proof -
  obtain ds where r: "1 \<le> dr_version r" "dr_version r \<le> 2"
    "(dr_version r = 2) = (jget ''object_digest'' v \<noteq> None)"
    "opt_field object_key_of ''object_digest'' v = Inr (dr_object_key r)"
    "length ds \<le> MAX_DECISIONS" "mapr decision_of ds = Inr (dr_decisions r)"
    "counts_of [''inspected'', ''permitted'', ''selected'', ''blocked''] MAX_U32 (jat ''sources'' v)
       = Inr (dr_sources r)"
    "\<not> count_at ''selected'' (dr_sources r) > count_at ''permitted'' (dr_sources r)"
    "\<not> count_at ''permitted'' (dr_sources r) + count_at ''blocked'' (dr_sources r)
       > count_at ''inspected'' (dr_sources r)"
    "count_at ''blocked_objects'' (dr_security r) = disposed ''deny'' (dr_decisions r)"
    "count_at ''quarantined_objects'' (dr_security r) = disposed ''quarantine'' (dr_decisions r)"
    "opt_field digest_of ''final_context'' v = Inr (dr_final r)"
    "(dr_outcome r = ''delivered'') = (dr_final r \<noteq> None)"
    "principal_of (jat ''principal'' v) = Inr (dr_principal r)"
    using assms unfolding parse_decision_receipt_def rbind_eq_Inr_iff bad_Inr int_in_Inr list_upto_Inr
    by (auto simp: not_less)
  have "list_all decision_ok (dr_decisions r)"
    using r(6) by (auto simp: list_all_iff dest!: mapr_Inr_setD decision_of_sound)
  moreover have "pred_option is_digest (dr_final r)"
    using r(12) by (auto simp: opt_field_Inr digest_of_Inr split: option.splits)
  moreover have "(jget ''object_digest'' v \<noteq> None) = (dr_object_key r \<noteq> None)"
    using r(4) by (auto simp: opt_field_Inr split: option.splits)
  ultimately show ?thesis
    using r counts_of_Inr [OF r(7)] principal_of_known [OF r(14)]
    by (auto simp: receipt_ok_def dest: mapr_length)
qed

text \<open>
  C28. A receipt's numbers are those of what it lists. In every receipt \<open>parse_decision_receipt\<close>
  returns, the counts of denied and quarantined objects are the numbers of decisions with that
  disposition, every decision but \<open>allow\<close> has a reason, no detector that failed or timed out claims
  complete coverage and none inspects more than the object holds, the counts of sources fit into each
  other, a final context is named exactly when the outcome is \<open>delivered\<close>, and the key of the object
  digests exactly in version 2.
\<close>

theorem receipt_counts_decisions:
  assumes "parse_decision_receipt v = Inr r"
  shows "receipt_ok r \<and> (\<forall>s \<in> set (receipt_signals r). signal_ok s)"
  using receipt_sound [OF assms]
  by (auto simp: receipt_ok_def receipt_signals_def list_all_iff decision_ok_def)

section \<open>Prepared bytes\<close>

lemma reply_document_Inr:
  "reply_document n raw = Inr v \<longleftrightarrow> length raw \<le> n \<and> strict_json_loads raw = Inr v"
  by (auto simp: reply_document_def rbind_eq_Inr_iff bad_Inr on_err_eq_Inr_iff not_less)

lemma prepared_bytes_Inr:
  "prepared_bytes a v = Inr s \<longleftrightarrow>
     v = JStr s \<and> strict_utf8 s \<and>
     (\<exists>parsed body. strict_json_loads s = Inr parsed \<and> ea_body a = Some body \<and> py_eq parsed body) \<and>
     (\<forall>r. ea_receipt a = Some r \<longrightarrow> dr_final r = None \<or> dr_final r = Some (sha256_ref s))"
  by (cases v) (auto simp: prepared_bytes_def rbind_eq_Inr_iff bad_Inr reply_document_Inr
      split: option.splits)

lemma admission_body:
  assumes "parse_egress_admission v = Inr a"
  shows "if ea_disposition a = ''refused'' then ea_body a = None \<and> ea_refusal a \<noteq> None
         else ea_refusal a = None \<and> (\<exists>body. ea_body a = Some body \<and> is_obj body)"
  using assms unfolding parse_egress_admission_def rbind_eq_Inr_iff bad_Inr Let_def
  by (auto split: if_splits simp: rbind_eq_Inr_iff bad_Inr)

text \<open>
  C23. Only the admitted bytes may be sent. A preparation that \<open>parse_egress_preparation\<close> returns may
  be sent exactly when its decision is not a refusal. Its body is then strict JSON whose value is the
  body the instance admitted, and when the decision has a receipt, the receipt says \<open>delivered\<close> and
  its final context is the SHA-256 of exactly these bytes. A refusal has no body to send, gives its
  reason, and its receipt, if any, delivers nothing.
\<close>

theorem prepared_bytes_admitted:
  assumes "parse_egress_preparation v = Inr p"
  shows "(preparation_may_send p \<longleftrightarrow> may_send (ep_decision p)) \<and>
    (case ep_body p of
       None \<Rightarrow> ea_refusal (ep_decision p) \<noteq> None \<and>
         (\<forall>r. ea_receipt (ep_decision p) = Some r \<longrightarrow> dr_outcome r \<noteq> ''delivered'')
     | Some s \<Rightarrow>
         (\<exists>parsed body. strict_json_loads s = Inr parsed \<and> ea_body (ep_decision p) = Some body \<and>
            py_eq parsed body) \<and>
         (\<forall>r. ea_receipt (ep_decision p) = Some r \<longrightarrow>
            dr_outcome r = ''delivered'' \<and> dr_final r = Some (sha256_ref s)))"
proof -
  let ?a = "ep_decision p"
  have a: "parse_egress_admission (jat ''decision'' v) = Inr ?a" and fits: "receipt_matches ?a"
    and body: "if ea_disposition ?a = ''refused'' then ep_body p = None
      else \<exists>s. ep_body p = Some s \<and> prepared_bytes ?a (jat ''prepared_body'' v) = Inr s"
    using assms unfolding parse_egress_preparation_def rbind_eq_Inr_iff bad_Inr
    by (auto simp: rbind_eq_Inr_iff bad_Inr split: if_splits)
  show ?thesis
  proof (cases "ea_disposition ?a = ''refused''")
    case True
    then show ?thesis
      using body admission_body [OF a] fits
      by (auto simp: preparation_may_send_def may_send_def receipt_matches_def)
  next
    case False
    then obtain s where "ep_body p = Some s" "prepared_bytes ?a (jat ''prepared_body'' v) = Inr s"
      using body by auto
    then show ?thesis
      using False fits unfolding prepared_bytes_Inr
      by (auto simp: preparation_may_send_def may_send_def receipt_matches_def)
  qed
qed

definition demo_receipt_doc :: "json list \<Rightarrow> int \<Rightarrow> json" where
  "demo_receipt_doc decisions denied =
     JObj [(''schema_version'', JInt 1), (''receipt_id'', JStr ''r''), (''mode'', JStr ''governed''),
       (''principal'', JObj [(''kind'', JStr ''unknown'')]),
       (''destination'', JObj [(''provider'', JStr ''p''), (''locality'', JStr ''remote'')]),
       (''sources'', JObj [(''inspected'', JInt 2), (''permitted'', JInt 1), (''selected'', JInt 1),
          (''blocked'', JInt 1)]),
       (''security'', JObj [(''redactions'', JInt 0), (''blocked_objects'', JInt denied),
          (''quarantined_objects'', JInt 0), (''injection_signals'', JInt 0),
          (''incomplete_coverage'', JInt 0)]),
       (''tokens'', JObj [(''original'', JInt 9), (''delivered'', JInt 2)]),
       (''outcome'', JStr ''delivered''), (''duration_us'', JInt 5), (''decisions'', JArr decisions),
       (''final_context'', JStr (sha256_ref ''{}''))]"

definition demo_denial :: json where
  "demo_denial =
     JObj [(''object'', JStr (sha256_ref ''x'')), (''disposition'', JStr ''deny''),
       (''reason_codes'', JArr [JStr ''secret''])]"

definition demo_decision_receipt :: decision_receipt where
  "demo_decision_receipt =
     \<lparr>dr_id = ''r'', dr_mode = ''governed'',
      dr_principal = \<lparr>pr_kind = ''unknown'', pr_id = None\<rparr>,
      dr_destination = \<lparr>ds_provider = ''p'', ds_locality = ''remote'', ds_model = None,
        ds_managed = False, ds_account = None, ds_region = None\<rparr>,
      dr_sources = [(''inspected'', 2), (''permitted'', 1), (''selected'', 1), (''blocked'', 1)],
      dr_security = [(''redactions'', 0), (''blocked_objects'', 1), (''quarantined_objects'', 0),
        (''injection_signals'', 0), (''incomplete_coverage'', 0)],
      dr_tokens = [(''original'', 9), (''delivered'', 2)], dr_outcome = ''delivered'', dr_duration = 5,
      dr_decisions = [\<lparr>dc_object = sha256_ref ''x'', dc_disposition = ''deny'',
        dc_reasons = [''secret''], dc_signals = [], dc_transformations = []\<rparr>],
      dr_policy = None, dr_task = None, dr_final = Some (sha256_ref ''{}''), dr_quality = None,
      dr_version = 1, dr_object_key = None\<rparr>"

lemmas gateway_bounds = MAX_SAFE_def MAX_U32_def MAX_REF_def MAX_DECISIONS_def MAX_REASON_CODES_def
  MAX_SIGNALS_def

lemmas gateway_names = CLASSIFICATIONS_def DISPOSITIONS_def MODES_def PRINCIPAL_KINDS_def
  LOCALITIES_def GATEWAY_OUTCOMES_def CONTEXT_DISPOSITIONS_def TRANSFORMATIONS_def

lemmas strict_eval = has_fields_def bad_def int_in_def one_of_def digest_of_def list_upto_def
  opt_field_def opt_value_of_def field_or_def bool_of_def encoded_length_def strict_utf8_def
  has_control_or_del_def blank_def re_space_def

lemma demo_denial_parses:
  "decision_of demo_denial = Inr \<lparr>dc_object = sha256_ref ''x'', dc_disposition = ''deny'',
     dc_reasons = [''secret''], dc_signals = [], dc_transformations = []\<rparr>"
  by (simp add: decision_of_def demo_denial_def strict_eval gateway_bounds gateway_names reasons_of_def
      reason_of_def reason_ok_def jitems_def)

lemma demo_ref_of: "ref_of (JStr ''r'') = Inr ''r''" "ref_of (JStr ''p'') = Inr ''p''"
  by (simp_all add: ref_of_def strict_eval gateway_bounds)

lemma demo_receipt_parses:
  "parse_decision_receipt (demo_receipt_doc [demo_denial] 1) = Inr demo_decision_receipt"
  by (simp add: parse_decision_receipt_def demo_receipt_doc_def demo_decision_receipt_def strict_eval
      gateway_bounds gateway_names demo_denial_parses demo_ref_of counts_of_def count_at_def disposed_def
      principal_of_def destination_of_def)

lemma receipt_counts_decisions_witness:
  "parse_decision_receipt (demo_receipt_doc [demo_denial] 1) = Inr demo_decision_receipt \<and>
   receipt_ok demo_decision_receipt"
  using receipt_counts_decisions [OF demo_receipt_parses] demo_receipt_parses by blast

definition demo_preparation_doc :: json where
  "demo_preparation_doc =
     JObj [(''schema_version'', JInt 2), (''decision'', JObj [(''schema_version'', JInt 1),
       (''disposition'', JStr ''forward''), (''body'', JObj []),
       (''receipt'', demo_receipt_doc [demo_denial] 1)]), (''prepared_body'', JStr ''{}'')]"

definition demo_preparation :: egress_preparation where
  "demo_preparation =
     \<lparr>ep_decision = \<lparr>ea_disposition = ''forward'', ea_body = Some (JObj []), ea_refusal = None,
        ea_classification = None, ea_receipt = Some demo_decision_receipt\<rparr>,
      ep_body = Some ''{}'', ep_digest = None\<rparr>"

lemma demo_empty_object: "strict_json_loads ''{}'' = Inr (JObj [])"
  by (simp add: strict_json_loads_def loads_def skip_ws_def is_ws_def Let_def)

lemma demo_admission_parses:
  "parse_egress_admission (JObj [(''schema_version'', JInt 1), (''disposition'', JStr ''forward''),
     (''body'', JObj []), (''receipt'', demo_receipt_doc [demo_denial] 1)]) =
   Inr (ep_decision demo_preparation)"
proof -
  have "demo_receipt_doc [demo_denial] 1 \<noteq> JNull"
    by (simp add: demo_receipt_doc_def)
  then show ?thesis
    by (simp add: parse_egress_admission_def demo_preparation_def strict_eval gateway_names
        demo_receipt_parses)
qed

lemma demo_preparation_parses: "parse_egress_preparation demo_preparation_doc = Inr demo_preparation"
proof -
  have "dr_outcome demo_decision_receipt = ''delivered''"
    and final: "dr_final demo_decision_receipt = Some (sha256_ref ''{}'')"
    by (simp_all add: demo_decision_receipt_def)
  then have "receipt_matches (ep_decision demo_preparation)"
    by (simp add: receipt_matches_def demo_preparation_def)
  moreover have "prepared_bytes (ep_decision demo_preparation) (JStr ''{}'') = Inr ''{}''"
    unfolding prepared_bytes_Inr using final
    by (simp add: demo_preparation_def demo_empty_object strict_utf8_def)
  ultimately show ?thesis
    by (simp add: parse_egress_preparation_def demo_preparation_doc_def demo_admission_parses strict_eval)
      (simp add: demo_preparation_def)
qed

lemma prepared_bytes_admitted_witness:
  "parse_egress_preparation demo_preparation_doc = Inr demo_preparation \<and>
   preparation_may_send demo_preparation = may_send (ep_decision demo_preparation)"
  using prepared_bytes_admitted [OF demo_preparation_parses] demo_preparation_parses by blast

section \<open>Host reports\<close>

definition opt_item_int :: "pystr \<Rightarrow> int option \<Rightarrow> (pystr \<times> json) list" where
  "opt_item_int k x = (case x of None \<Rightarrow> [] | Some i \<Rightarrow> [(k, JInt i)])"

definition report_doc ::
  "pystr \<Rightarrow> int \<Rightarrow> pystr \<Rightarrow> pystr \<Rightarrow> int option \<Rightarrow> pystr option \<Rightarrow> json" where
  "report_doc digest attempt transport result status failure =
     JObj ([(''schema_version'', JInt 1), (''admission_receipt_digest'', JStr digest),
       (''attempt'', JInt attempt), (''transport'', JStr transport), (''result'', JStr result)] @
       opt_item_int ''http_status'' status @ opt_item ''failure'' failure)"

lemma http_status_item_Inr:
  "http_status_item x = Inr y \<Longrightarrow> y = opt_item_int ''http_status'' x"
  by (auto simp: http_status_item_def opt_item_int_def rbind_eq_Inr_iff split: option.splits)

lemma failure_item_Inr: "failure_item x = Inr y \<Longrightarrow> y = opt_item ''failure'' x"
  by (auto simp: failure_item_def opt_item_def rbind_eq_Inr_iff split: option.splits)

lemma host_report_request_Inr:
  "host_report_request d a t r s f = Inr q \<Longrightarrow>
     q = report_doc d a t r s f \<and> 1 \<le> a \<and> a \<le> MAX_EGRESS_ATTEMPTS"
  unfolding host_report_request_def rbind_eq_Inr_iff check_eq_Inr_iff int_in_Inr
  by (auto simp: report_doc_def dest!: http_status_item_Inr failure_item_Inr)

lemma report_doc_fields:
  "jat ''admission_receipt_digest'' (report_doc d a t r s f) = JStr d"
  "jat ''attempt'' (report_doc d a t r s f) = JInt a"
  "jat ''transport'' (report_doc d a t r s f) = JStr t"
  "jat ''result'' (report_doc d a t r s f) = JStr r"
  "jget ''http_status'' (report_doc d a t r s f) = map_option JInt s"
  "jget ''failure'' (report_doc d a t r s f) = map_option JStr f"
  by (cases s; cases f; simp add: report_doc_def opt_item_int_def opt_item_def)+

lemma observed_doc:
  "expected_observation (report_doc d a t r s f) =
     JObj (obj_items (report_doc d a t r s f) @ [(''observer'', JStr ''host_reported'')])"
  by (cases s; cases f; simp add: expected_observation_def report_doc_def opt_item_int_def opt_item_def
      obj_items_def)

lemma observed_wf: "json_wf (expected_observation (report_doc d a t r s f))"
  unfolding observed_doc
  by (cases s; cases f; simp add: report_doc_def opt_item_int_def opt_item_def obj_items_def)

lemma jget_observed:
  assumes "k \<noteq> ''observer''"
  shows "jget k (expected_observation (report_doc d a t r s f)) = jget k (report_doc d a t r s f)"
  using assms unfolding observed_doc
  by (simp add: jget_def obj_items_def map_add_def report_doc_def split: option.split)

text \<open>The reported facts can be read off the observation that was digested.\<close>

lemma observed_determines:
  assumes "jsort (expected_observation (report_doc d a t r s f)) =
    jsort (expected_observation (report_doc d' a' t' r' s' f'))"
  shows "(d, a, t, r, s, f) = (d', a', t', r', s', f')"
proof -
  have get: "map_option jsort (jget k (report_doc d a t r s f)) =
      map_option jsort (jget k (report_doc d' a' t' r' s' f'))" if "k \<noteq> ''observer''" for k
    using arg_cong [OF assms, of "jget k"] that by (simp add: jget_jsort_any jget_observed)
  have at: "jsort (jat k (report_doc d a t r s f)) = jsort (jat k (report_doc d' a' t' r' s' f'))"
    if "k \<noteq> ''observer''" for k
    using get [OF that] by (auto simp: jat_def split: option.splits)
  have "s = s'"
    using get [of "''http_status''"] by (cases s; cases s') (simp_all add: report_doc_fields)
  moreover have "f = f'"
    using get [of "''failure''"] by (cases f; cases f') (simp_all add: report_doc_fields)
  ultimately show ?thesis
    using at [of "''admission_receipt_digest''"] at [of "''attempt''"] at [of "''transport''"]
      at [of "''result''"]
    by (simp add: report_doc_fields)
qed

lemma report_egress_Inr:
  assumes "report_egress e root d a t r s f = Inr x"
  shows "host_report_request d a t r s f = Inr (report_doc d a t r s f) \<and>
    list_all (same_field (hr_observation x) (report_doc d a t r s f)) REPORTED \<and>
    jat ''observer'' (hr_observation x) = JStr ''host_reported'' \<and>
    hr_observation_digest x = sha256_ref (dumps (expected_observation (report_doc d a t r s f)))"
proof -
  obtain q doc where q: "host_report_request d a t r s f = Inr q"
    and x: "parse_egress_host_report doc q = Inr x"
    using assms unfolding report_egress_def rbind_eq_Inr_iff by blast
  obtain bytes where "canonical_bytes (expected_observation q) = Inr bytes"
    "hr_observation_digest x = sha256_ref bytes"
    "list_all (same_field (hr_observation x) q) REPORTED"
    "jat ''observer'' (hr_observation x) = JStr ''host_reported''"
    using x unfolding parse_egress_host_report_def rbind_eq_Inr_iff bad_Inr Let_def by auto
  then show ?thesis
    using q host_report_request_Inr [OF q] by (auto simp: canonical_bytes_def dest!: canonical_json_Inr)
qed

text \<open>
  C31. A host report pins what the host saw. When \<open>report_egress\<close> returns, the observation the
  instance stored has the admission, attempt, transport, result, status and failure the caller
  reported and the observer \<open>host_reported\<close>. Two reports with one observation digest report the same
  six facts, in whatever process they were made and whatever the instance answered, unless the texts
  of the two observations are a SHA-256 collision.
\<close>

theorem host_report_pins_facts:
  assumes "report_egress e root d a t r s f = Inr x" "report_egress e' root' d' a' t' r' s' f' = Inr y"
    and "hr_observation_digest x = hr_observation_digest y"
  shows "list_all (same_field (hr_observation x) (report_doc d a t r s f)) REPORTED \<and>
    jat ''observer'' (hr_observation x) = JStr ''host_reported'' \<and>
    ((d, a, t, r, s, f) = (d', a', t', r', s', f') \<or>
     sha256_collision (dumps (expected_observation (report_doc d a t r s f)))
       (dumps (expected_observation (report_doc d' a' t' r' s' f'))))"
proof -
  note x = report_egress_Inr [OF assms(1)] and y = report_egress_Inr [OF assms(2)]
  from x y assms(3) have "dumps (expected_observation (report_doc d a t r s f)) =
      dumps (expected_observation (report_doc d' a' t' r' s' f')) \<or>
     sha256_collision (dumps (expected_observation (report_doc d a t r s f)))
       (dumps (expected_observation (report_doc d' a' t' r' s' f')))"
    by (metis sha256_ref_eqD)
  with x show ?thesis
    using observed_determines dumps_inject [OF observed_wf observed_wf] by metis
qed

text \<open>An instance that answers a report as it should.\<close>

definition demo_report_reply :: json where
  "demo_report_reply =
     (let q = report_doc (sha256_ref ''r'') 1 ''http'' ''response_observed'' (Some 200) None in
      JObj [(''schema_version'', JInt 1),
        (''observation_digest'', JStr (sha256_ref (dumps (expected_observation q)))),
        (''observation'', expected_observation q)])"

definition demo_reporter :: instance_call where
  "demo_reporter operation root request = Inr (dumps demo_report_reply)"

definition demo_observation :: json where
  "demo_observation =
     jsort (expected_observation
       (report_doc (sha256_ref ''r'') 1 ''http'' ''response_observed'' (Some 200) None))"

definition demo_report :: host_report where
  "demo_report =
     \<lparr>hr_observation_digest = sha256_ref (dumps demo_observation), hr_observation = demo_observation\<rparr>"

lemma demo_report_request:
  "host_report_request (sha256_ref ''r'') 1 ''http'' ''response_observed'' (Some 200) None =
   Inr (report_doc (sha256_ref ''r'') 1 ''http'' ''response_observed'' (Some 200) None)"
  by (simp add: host_report_request_def report_doc_def strict_eval http_status_item_def failure_item_def
      opt_item_int_def opt_item_def MAX_EGRESS_ATTEMPTS_def TRANSPORTS_def REPORT_RESULTS_def)

lemma demo_digest_fact: "utf8_valid (sha256_ref s)" "encodable (sha256_ref s)" "length (sha256_ref s) = 71"
  using printable_strict [OF sha256_ref_printable [of s]] digest_length [OF is_digest_sha256_ref [of s]]
  by (simp_all add: strict_utf8_def)

abbreviation demo_request :: json where
  "demo_request \<equiv> report_doc (sha256_ref ''r'') 1 ''http'' ''response_observed'' (Some 200) None"

lemma demo_request_lit:
  "demo_request =
   JObj [(''schema_version'', JInt 1), (''admission_receipt_digest'', JStr (sha256_ref ''r'')),
     (''attempt'', JInt 1), (''transport'', JStr ''http''), (''result'', JStr ''response_observed''),
     (''http_status'', JInt 200)]"
  by (simp add: report_doc_def opt_item_int_def opt_item_def)

lemma demo_observed_lit:
  "expected_observation demo_request =
   JObj [(''schema_version'', JInt 1), (''admission_receipt_digest'', JStr (sha256_ref ''r'')),
     (''attempt'', JInt 1), (''transport'', JStr ''http''), (''result'', JStr ''response_observed''),
     (''http_status'', JInt 200), (''observer'', JStr ''host_reported'')]"
  unfolding demo_request_lit by (simp add: expected_observation_def obj_items_def)

lemma demo_reply_lit:
  "demo_report_reply =
   JObj [(''schema_version'', JInt 1),
     (''observation_digest'', JStr (sha256_ref (dumps (expected_observation demo_request)))),
     (''observation'', expected_observation demo_request)]"
  by (simp only: demo_report_reply_def Let_def)

lemma demo_report_doc:
  "json_ok demo_request" "json_ok (expected_observation demo_request)" "json_ok demo_report_reply"
proof -
  show "json_ok demo_request"
    unfolding demo_request_lit by (simp add: demo_digest_fact)
  show observed: "json_ok (expected_observation demo_request)"
    unfolding demo_observed_lit by (simp add: demo_digest_fact)
  show "json_ok demo_report_reply"
    unfolding demo_reply_lit using observed by (simp add: demo_digest_fact)
qed

lemma demo_int_length: "length (int_text 1) = 1" "length (int_text 200) = 3"
  by code_simp+

lemma demo_report_size:
  "length (dumps demo_request) \<le> MAX_EGRESS_REPORT_BYTES"
  "length (dumps demo_report_reply) \<le> MAX_EGRESS_REPLY"
proof -
  have "weight (expected_observation demo_request) \<le> 3000"
    unfolding demo_observed_lit by (simp add: demo_digest_fact demo_int_length)
  then have "weight demo_report_reply \<le> MAX_EGRESS_REPLY"
    unfolding demo_reply_lit by (simp add: demo_digest_fact demo_int_length MAX_EGRESS_REPLY_def)
  then show "length (dumps demo_report_reply) \<le> MAX_EGRESS_REPLY"
    using length_dumps le_trans by blast
  have "weight demo_request \<le> MAX_EGRESS_REPORT_BYTES"
    unfolding demo_request_lit by (simp add: demo_digest_fact demo_int_length MAX_EGRESS_REPORT_BYTES_def)
  then show "length (dumps demo_request) \<le> MAX_EGRESS_REPORT_BYTES"
    using length_dumps le_trans by blast
qed

lemma has_fields_jsort [simp]: "has_fields r os (jsort v) = has_fields r os v"
  by (simp add: has_fields_def)

lemma demo_observation_fields:
  "jat ''schema_version'' (expected_observation demo_request) = JInt 1"
  "jat ''observer'' (expected_observation demo_request) = JStr ''host_reported''"
  "jat ''http_status'' (expected_observation demo_request) = JInt 200"
  "jget ''failure'' (expected_observation demo_request) = None"
  "has_fields [''schema_version'', ''admission_receipt_digest'', ''attempt'', ''transport'',
       ''observer'', ''result''] [''http_status'', ''failure''] (expected_observation demo_request) = Inr ()"
  "list_all (same_field demo_observation demo_request) REPORTED"
  unfolding demo_observation_def demo_observed_lit
  by (simp_all add: strict_eval same_field_def REPORTED_def jget_jsort_any demo_request_lit)

lemma demo_report_reads:
  "parse_egress_host_report (jsort demo_report_reply) demo_request = Inr demo_report"
proof -
  have reply: "jat ''observation'' (jsort demo_report_reply) = demo_observation"
    "jat ''observation_digest'' (jsort demo_report_reply) =
       JStr (sha256_ref (dumps (expected_observation demo_request)))"
    "jat ''schema_version'' (jsort demo_report_reply) = JInt 1"
    "has_fields [''schema_version'', ''observation_digest'', ''observation''] [] demo_report_reply = Inr ()"
    by (simp_all add: demo_reply_lit demo_observation_def has_fields_exact)
  have observed: "jat ''schema_version'' demo_observation = JInt 1"
    "jat ''observer'' demo_observation = JStr ''host_reported''"
    "jat ''http_status'' demo_observation = JInt 200" "jget ''failure'' demo_observation = None"
    "has_fields [''schema_version'', ''admission_receipt_digest'', ''attempt'', ''transport'',
       ''observer'', ''result''] [''http_status'', ''failure''] demo_observation = Inr ()"
    using demo_observation_fields by (simp_all add: demo_observation_def jget_jsort_any)
  have "dumps demo_observation = dumps (expected_observation demo_request)"
    by (simp only: demo_observation_def dumps_jsort)
  then show ?thesis
    unfolding parse_egress_host_report_def Let_def reply observed
    using demo_report_doc(2) demo_observation_fields(6)
    by (simp add: strict_eval(3-) bad_def reply(4) observed canonical_bytes_def canonical_json_ok
        demo_report_def)
qed

lemma demo_report_made:
  "report_egress demo_reporter ''/p'' (sha256_ref ''r'') 1 ''http'' ''response_observed'' (Some 200) None
   = Inr demo_report"
proof -
  have "canonical_bytes demo_report_reply = Inr (dumps demo_report_reply)"
    by (simp add: canonical_bytes_def canonical_json_ok demo_report_doc)
  then have "strict_json_loads (dumps demo_report_reply) = Inr (jsort demo_report_reply)"
    using strict_loads_canonical [OF demo_report_doc(3)] by (simp add: demo_reply_lit)
  then show ?thesis
    using demo_report_size demo_report_doc(1)
    by (simp add: report_egress_def demo_report_request demo_reporter_def canonical_bytes_def
        canonical_json_ok reply_document_def bad_def demo_report_reads)
qed

lemma host_report_pins_facts_witness:
  "report_egress demo_reporter ''/p'' (sha256_ref ''r'') 1 ''http'' ''response_observed'' (Some 200) None
   = Inr demo_report \<and>
   jat ''observer'' (hr_observation demo_report) = JStr ''host_reported''"
  using host_report_pins_facts [OF demo_report_made demo_report_made refl] demo_report_made by blast

end
