(* ===== verification/Planning_Facts.thy ===== *)
theory Planning_Facts
  imports Gateway_Facts
begin

text \<open>
  What the planner's readers promise: a plan stays within the budget of its request, and a source
  plan binds each selected entry to one of the sources, by the digest of its content.
\<close>

section \<open>Plans\<close>

definition selection_ok :: "selection \<Rightarrow> bool" where
  "selection_ok s \<longleftrightarrow>
     sl_disposition s \<in> set plan_dispositions \<and> 0 \<le> sl_tokens s \<and> sl_tokens s \<le> MAX_U64 \<and>
     sl_reasons s \<noteq> [] \<and> distinct (sl_reasons s) \<and> set (sl_reasons s) \<subseteq> set plan_reasons"

lemma selection_of_sound:
  assumes "selection_of v = Inr s"
  shows "selection_ok s"
proof -
  obtain rs where s: "rs \<noteq> []" "mapr (enum plan_reasons) rs = Inr (sl_reasons s)"
    "distinct (sl_reasons s)" "sl_disposition s \<in> set plan_dispositions"
    "0 \<le> sl_tokens s" "sl_tokens s \<le> MAX_U64"
    using assms unfolding selection_of_def rbind_eq_Inr_iff req_Inr enum_Inr integer_Inr by auto
  then have "set (sl_reasons s) \<subseteq> set plan_reasons" "length (sl_reasons s) = length rs"
    by (auto dest!: mapr_Inr_setD simp: enum_Inr mapr_length)
  with s show ?thesis
    by (auto simp: selection_ok_def)
qed

definition plan_ok :: "engine_plan \<Rightarrow> bool" where
  "plan_ok p \<longleftrightarrow>
     list_all selection_ok (gp_selections p) \<and> length (gp_selections p) \<le> MAX_PROTOCOL_ITEMS \<and>
     distinct (map sl_source (gp_selections p)) \<and> selected_tokens (gp_selections p) \<le> gp_budget p \<and>
     pred_option (\<lambda>d. d = sha256_ref (dumps (JObj (plan_unsigned p)))) (gp_digest p)"

lemma check_plan_digest_Inr:
  "check_plan_digest p = Inr q \<Longrightarrow>
     q = p \<and> pred_option (\<lambda>d. d = sha256_ref (dumps (JObj (plan_unsigned p)))) (gp_digest p)"
  by (auto simp: check_plan_digest_def rbind_eq_Inr_iff req_Inr sha256_digest_def canonical_bytes_def
      split: option.splits dest!: canonical_json_Inr)

lemma plan_of_sound:
  assumes "plan_of v = Inr p"
  shows "plan_ok p"
proof -
  obtain ss q where "check_plan_digest q = Inr p" "mapr selection_of ss = Inr (gp_selections q)"
    "length ss \<le> MAX_PROTOCOL_ITEMS" "distinct (map sl_source (gp_selections q))"
    "selected_tokens (gp_selections q) \<le> gp_budget q"
    using assms unfolding plan_of_def rbind_eq_Inr_iff req_Inr array_upto_Inr
    by (elim exE conjE) (rule that, assumption, simp_all)
  then show ?thesis
    using check_plan_digest_Inr [of q p]
    by (auto simp: plan_ok_def list_all_iff mapr_length dest!: mapr_Inr_setD selection_of_sound)
qed

lemma response_of_Inr:
  assumes "response_of raw request = Inr p"
  shows "plan_ok p \<and> gp_task p = pq_task request \<and> gp_budget p \<le> pq_budget request"
  using assms unfolding response_of_def rbind_eq_Inr_iff req_Inr by (auto dest: plan_of_sound)

text \<open>
  C25. A plan stays within its request. The plan \<open>parse_context_plan\<close> returns for a request is for
  the request's task, its budget is at most the requested one, itself at most 1048576, and the tokens
  of the selected entries together, none of them negative, are at most the budget; it has at most 256
  entries, each source once.
\<close>

theorem plan_within_budget:
  assumes "mk_planning_request task_id query budget_tokens max_candidates = Inr request"
    and "parse_context_plan raw request = Inr p"
  shows "JStr (gp_task p) = task_id \<and> gp_budget p \<le> pq_budget request \<and>
    pq_budget request \<le> MAX_PLAN_TOKENS \<and> selected_tokens (gp_selections p) \<le> gp_budget p \<and>
    (\<forall>s \<in> set (gp_selections p). 0 \<le> sl_tokens s \<and> (is_selected s \<longrightarrow> sl_tokens s \<le> gp_budget p)) \<and>
    length (gp_selections p) \<le> MAX_PROTOCOL_ITEMS \<and> distinct (map sl_source (gp_selections p))"
proof -
  have p: "plan_ok p" "gp_task p = pq_task request" "gp_budget p \<le> pq_budget request"
    using assms(2) response_of_Inr unfolding parse_context_plan_def rbind_eq_Inr_iff by blast+
  have nonneg: "0 \<le> sl_tokens s" if "s \<in> set (gp_selections p)" for s
    using p(1) that by (auto simp: plan_ok_def list_all_iff selection_ok_def)
  have "sl_tokens s \<le> selected_tokens (gp_selections p)"
    if "s \<in> set (gp_selections p)" "is_selected s" for s
    unfolding selected_tokens_def using that nonneg by (intro member_le_sum_list) auto
  moreover have "JStr (pq_task request) = task_id" "pq_budget request \<le> MAX_PLAN_TOKENS"
    using assms(1) unfolding mk_planning_request_def rbind_eq_Inr_iff ident_of_def pl_text_Inr integer_Inr
    by auto
  ultimately show ?thesis
    using p nonneg unfolding plan_ok_def by fastforce
qed

section \<open>Source plans\<close>

lemma distinct_same_size:
  assumes "distinct xs" "distinct ys" "length xs = length ys" "set xs \<subseteq> set ys"
  shows "set xs = set ys"
  using assms by (intro card_subset_eq) (auto simp: distinct_card)

lemma binds_all_selected:
  assumes distinct: "distinct (map sl_source ss)" "distinct (map dp_object bs)"
    and size: "length ss = length bs"
    and bound: "\<And>b. b \<in> set bs \<Longrightarrow> \<exists>s \<in> set ss. binds b s"
  shows "s \<in> set ss \<Longrightarrow> \<exists>!b. b \<in> set bs \<and> binds b s"
proof -
  assume s: "s \<in> set ss"
  have "dp_object ` set bs \<subseteq> sl_source ` set ss"
    using bound by (force simp: binds_def)
  then have "set (map dp_object bs) = set (map sl_source ss)"
    using distinct size by (intro distinct_same_size) auto
  then obtain b where b: "b \<in> set bs" "dp_object b = sl_source s"
    using s by (metis imageE imageI image_set)
  obtain s' where "s' \<in> set ss" "binds b s'"
    using bound b(1) by blast
  then have "s' = s"
    using s b(2) distinct(1) by (auto simp: binds_def distinct_map dest: inj_onD)
  then have "binds b s"
    using \<open>binds b s'\<close> by simp
  moreover have "b' = b" if "b' \<in> set bs" "binds b' s" for b'
    using that b distinct(2) by (auto simp: binds_def distinct_map dest: inj_onD)
  ultimately show ?thesis
    using b(1) by blast
qed

lemma check_requested_Inr:
  "check_requested (Some ss) bs = Inr u \<Longrightarrow> b \<in> set bs \<Longrightarrow> \<exists>s \<in> set ss. is_descriptor s = b"
  by (auto simp: check_requested_def requested_sources_def Let_def rbind_eq_Inr_iff req_Inr list_all_iff
      dest!: map_of_SomeD bspec)

lemma parse_source_plan_Inr:
  assumes "parse_source_plan raw request sources = Inr sp"
  shows "plan_ok (sp_plan sp) \<and> gp_task (sp_plan sp) = pq_task request \<and>
    gp_budget (sp_plan sp) \<le> pq_budget request \<and>
    sorted_wrt (\<lambda>a b. dp_object a < dp_object b) (sp_bindings sp) \<and>
    length (filter is_selected (gp_selections (sp_plan sp))) = length (sp_bindings sp) \<and>
    (\<forall>b \<in> set (sp_bindings sp). \<exists>s \<in> set (filter is_selected (gp_selections (sp_plan sp))). binds b s) \<and>
    sp_digest sp = sha256_ref (dumps (JArr [response_json (sp_plan sp),
      JArr (map descriptor_json (sp_bindings sp))])) \<and>
    check_requested sources (sp_bindings sp) = Inr ()"
proof -
  obtain bytes content where
    "response_of bytes request = Inr (sp_plan sp)"
    "canonical_bytes (JArr [response_json (sp_plan sp), JArr (map descriptor_json (sp_bindings sp))])
       = Inr content" "sp_digest sp = sha256_digest content"
    "\<not> not_increasing dp_object (sp_bindings sp)"
    "length (filter is_selected (gp_selections (sp_plan sp))) = length (sp_bindings sp)"
    "list_all (\<lambda>b. list_ex (binds b) (filter is_selected (gp_selections (sp_plan sp)))) (sp_bindings sp)"
    "check_requested sources (sp_bindings sp) = Inr ()"
    using assms unfolding parse_source_plan_def rbind_eq_Inr_iff req_Inr Let_def by auto
  then show ?thesis
    using response_of_Inr [of bytes request "sp_plan sp"] unfolding not_increasing_iff
    by (auto simp: list_all_iff list_ex_iff sha256_digest_def canonical_bytes_def dest!: canonical_json_Inr)
qed

text \<open>
  C24. A source plan binds exactly what it selects. When \<open>parse_source_plan\<close> returns for sources the
  caller made with \<open>InstanceSource\<close>, every selected entry of the plan has exactly one binding, every
  binding is the descriptor of one of the caller's sources, and the digest the entry carries is the
  SHA-256 of that source's content. The bindings are in the order of their object references, and the
  binding digest is that of the plan with them.
\<close>

theorem source_plan_binds_selected:
  assumes "parse_source_plan raw request (Some sources) = Inr sp"
    and "\<And>s. s \<in> set sources \<Longrightarrow> \<exists>d c. mk_instance_source d c = Inr s"
  shows "(\<forall>e \<in> set (gp_selections (sp_plan sp)). is_selected e \<longrightarrow>
      (\<exists>!b. b \<in> set (sp_bindings sp) \<and> binds b e) \<and>
      (\<exists>s \<in> set sources. is_descriptor s \<in> set (sp_bindings sp) \<and>
         sl_source e = dp_object (is_descriptor s) \<and> sl_digest e = Some (sha256_ref (is_content s)))) \<and>
    sorted_wrt (\<lambda>a b. dp_object a < dp_object b) (sp_bindings sp) \<and>
    length (sp_bindings sp) = length (filter is_selected (gp_selections (sp_plan sp))) \<and>
    sp_digest sp = sha256_ref (dumps (JArr [response_json (sp_plan sp),
      JArr (map descriptor_json (sp_bindings sp))]))"
proof -
  note sp = parse_source_plan_Inr [OF assms(1)]
  let ?ss = "filter is_selected (gp_selections (sp_plan sp))"
  have one: "\<exists>!b. b \<in> set (sp_bindings sp) \<and> binds b e" if "e \<in> set ?ss" for e
    using sp that unfolding plan_ok_def
    by (intro binds_all_selected [of ?ss]) (auto simp: distinct_map_filter sorted_keys_distinct)
  have "\<exists>s \<in> set sources. is_descriptor s \<in> set (sp_bindings sp) \<and>
      sl_source e = dp_object (is_descriptor s) \<and> sl_digest e = Some (sha256_ref (is_content s))"
    if e: "e \<in> set ?ss" for e
  proof -
    obtain b where b: "b \<in> set (sp_bindings sp)" "binds b e"
      using one [OF e] by blast
    then obtain s where s: "s \<in> set sources" "is_descriptor s = b"
      using sp check_requested_Inr by blast
    then have "dp_content b = sha256_ref (is_content s)"
      using assms(2) [OF s(1)]
      by (auto simp: mk_instance_source_def rbind_eq_Inr_iff req_Inr sha256_digest_def)
    with b s show ?thesis
      by (auto simp: binds_def intro!: bexI [of _ s])
  qed
  with one sp show ?thesis
    by auto
qed

section \<open>A reply\<close>

text \<open>An identifier, and what the text checks find of it.\<close>

abbreviation demo_object :: pystr where
  "demo_object \<equiv> ''00000000-0000-4000-8000-000000000001''"

definition demo_selection :: selection where
  "demo_selection =
     \<lparr>sl_source = demo_object, sl_provider = demo_object, sl_disposition = ''selected'', sl_tokens = 40,
      sl_reasons = [''relevant''], sl_digest = Some (sha256_ref ''x''), sl_detail = None\<rparr>"

definition demo_engine_plan :: "pystr option \<Rightarrow> engine_plan" where
  "demo_engine_plan d =
     \<lparr>gp_id = ''c'', gp_task = ''t'', gp_budget = 90, gp_selections = [demo_selection], gp_digest = d,
      gp_stats = [], gp_policy_refs = [], gp_evidence = [], gp_extensions = []\<rparr>"

definition demo_plan_digest :: pystr where
  "demo_plan_digest = sha256_ref (dumps (JObj (plan_unsigned (demo_engine_plan None))))"

abbreviation demo_engine_plan_signed :: engine_plan where
  "demo_engine_plan_signed \<equiv> demo_engine_plan (Some demo_plan_digest)"

definition demo_plan_doc :: json where
  "demo_plan_doc =
     JObj [(''budget_tokens'', JInt 90), (''context_plan_id'', JStr ''c''),
       (''projection_digest'', JStr demo_plan_digest), (''schema_version'', JInt 1),
       (''selections'', JArr [JObj [(''disposition'', JStr ''selected''), (''provider'', JStr demo_object),
          (''reason_codes'', JArr [JStr ''relevant'']), (''sha256_digest'', JStr (sha256_ref ''x'')),
          (''source_ref'', JStr demo_object), (''token_count'', JInt 40)]]),
       (''task_id'', JStr ''t'')]"

definition demo_plan_reply :: json where
  "demo_plan_reply =
     JObj [(''engine_interface_version'', JStr ENGINE_INTERFACE_VERSION), (''plan'', demo_plan_doc),
       (''schema_version'', JInt 1), (''transport_version'', JInt 1)]"

definition demo_planning_request :: planning_request where
  "demo_planning_request = \<lparr>pq_task = ''t'', pq_query = ''q'', pq_budget = 100, pq_candidates = 5\<rparr>"

lemmas plan_bounds = MAX_PLAN_REQUEST_BYTES_def MAX_PLAN_QUERY_BYTES_def MAX_PLAN_TOKENS_def
  MAX_PLAN_CANDIDATES_def MAX_PLAN_SOURCES_def MAX_SOURCE_CONTENT_def MAX_PROTOCOL_ITEMS_def
  MAX_IDENTIFIER_BYTES_def MAX_REFERENCE_BYTES_def MAX_U64_def MAX_PLAN_RESPONSE_def

lemmas plan_eval = pl_text_def req_def strict_utf8_def has_nul_def has_cc_def blank_def re_space_def
  ident_of_def refer_of_def integer_def enum_def exact_fields_def array_upto_def nullable_def on_str_def
  field_or_def

lemma demo_digests [simp]:
  "is_digest demo_plan_digest" "utf8_valid demo_plan_digest" "encodable demo_plan_digest"
  "length demo_plan_digest = 71"
  by (simp_all add: demo_plan_digest_def demo_digest_fact)

lemma validate_sha256 [simp]: "is_digest d \<Longrightarrow> validate_digest d = Inr d"
  by (simp add: validate_digest_Inr)

lemma projection_digest_sha256 [simp]: "projection_digest (JStr (sha256_ref s)) = Inr (sha256_ref s)"
  using sha256_hex_shape [of s]
  by (auto simp: projection_digest_def sha256_ref_def remove_prefix_def starts_with_def plan_eval hex_any_def
      list_all_iff)

lemma demo_request_made:
  "mk_planning_request (JStr ''t'') (JStr ''q'') (JInt 100) (JInt 5) = Inr demo_planning_request"
  by (simp add: mk_planning_request_def demo_planning_request_def plan_eval plan_bounds)

lemma demo_selection_read:
  "selection_of (JObj [(''disposition'', JStr ''selected''), (''provider'', JStr demo_object),
     (''reason_codes'', JArr [JStr ''relevant'']), (''sha256_digest'', JStr (sha256_ref ''x'')),
     (''source_ref'', JStr demo_object), (''token_count'', JInt 40)]) = Inr demo_selection"
  by (simp add: selection_of_def plan_eval plan_bounds plan_reasons_def plan_dispositions_def
      demo_selection_def jkeys_def)

lemma demo_plan_text: "json_ok (JObj (plan_unsigned (demo_engine_plan d)))"
  by (simp add: plan_unsigned_def demo_engine_plan_def selection_json_def demo_selection_def
      opt_str_item_def jstrs_def demo_digest_fact)

lemma demo_plan_checked: "check_plan_digest demo_engine_plan_signed = Inr demo_engine_plan_signed"
proof -
  have "plan_unsigned demo_engine_plan_signed = plan_unsigned (demo_engine_plan None)"
    by (simp add: plan_unsigned_def demo_engine_plan_def)
  moreover have "gp_digest demo_engine_plan_signed = Some demo_plan_digest"
    by (simp add: demo_engine_plan_def)
  ultimately show ?thesis
    using canonical_json_ok [OF demo_plan_text, of None]
    by (simp add: check_plan_digest_def canonical_bytes_def plan_eval sha256_digest_def
        demo_plan_digest_def [symmetric] del: dumps.simps)
qed

lemma demo_plan_read: "plan_of demo_plan_doc = Inr demo_engine_plan_signed"
proof -
  have "ext_of plan_fields demo_plan_doc = Inr []"
    by (simp add: ext_of_def plan_fields_def demo_plan_doc_def obj_items_def plan_eval)
  then show ?thesis
    using demo_plan_checked
    by (simp add: plan_of_def plan_eval plan_bounds demo_plan_doc_def demo_selection_read plan_part_def
        selected_tokens_def is_selected_def jkeys_def) (simp add: demo_engine_plan_def demo_selection_def)
qed

lemma demo_reply_sorted: "jsort demo_plan_reply = demo_plan_reply"
  by (simp add: demo_plan_reply_def demo_plan_doc_def)

lemma demo_reply_ok: "json_ok demo_plan_reply"
  by (simp add: demo_plan_reply_def demo_plan_doc_def demo_digest_fact ENGINE_INTERFACE_VERSION_def)

lemma demo_int_sizes: "length (int_text 90) = 2" "length (int_text 40) = 2"
  by code_simp+

lemma demo_reply_weight: "weight demo_plan_reply \<le> 3000"
  by (simp add: demo_plan_reply_def demo_plan_doc_def demo_digest_fact ENGINE_INTERFACE_VERSION_def
      demo_int_length demo_int_sizes)

lemma demo_reply_loads: "strict_json_loads (dumps demo_plan_reply) = Inr demo_plan_reply"
proof -
  have "canonical_bytes demo_plan_reply = Inr (dumps demo_plan_reply)"
    by (simp add: canonical_bytes_def canonical_json_ok demo_reply_ok)
  then show ?thesis
    using strict_loads_canonical [OF demo_reply_ok] demo_reply_sorted by (simp add: demo_plan_reply_def)
qed

lemma demo_response:
  "response_of (dumps demo_plan_reply) demo_planning_request = Inr demo_engine_plan_signed"
proof -
  have "length (dumps demo_plan_reply) \<le> MAX_PLAN_RESPONSE"
    using length_dumps [of demo_plan_reply] demo_reply_weight by (simp add: MAX_PLAN_RESPONSE_def)
  moreover have "jat ''plan'' demo_plan_reply = demo_plan_doc"
    by (simp add: demo_plan_reply_def)
  moreover have "gp_task demo_engine_plan_signed = ''t''" "gp_budget demo_engine_plan_signed = 90"
    by (simp_all add: demo_engine_plan_def)
  ultimately show ?thesis
    by (simp add: response_of_def plan_document_def req_def demo_reply_loads demo_plan_read
        demo_planning_request_def)
      (simp add: demo_plan_reply_def plan_header_def plan_eval jkeys_def ENGINE_INTERFACE_VERSION_def)
qed

lemma demo_request_written:
  "planning_request_to_dict demo_planning_request = Inr (planning_request_json demo_planning_request)"
proof -
  have doc: "planning_request_json demo_planning_request =
      JObj [(''schema_version'', JInt 1), (''transport_version'', JInt 1),
        (''engine_interface_version'', JStr ENGINE_INTERFACE_VERSION), (''task_id'', JStr ''t''),
        (''query'', JStr ''q''), (''budget_tokens'', JInt 100), (''max_candidates'', JInt 5)]"
    by (simp add: planning_request_json_def demo_planning_request_def)
  have "length (int_text 100) = 3" "length (int_text 5) = 1"
    by code_simp+
  then have "weight (planning_request_json demo_planning_request) \<le> MAX_PLAN_REQUEST_BYTES"
    unfolding doc by (simp add: ENGINE_INTERFACE_VERSION_def demo_int_length MAX_PLAN_REQUEST_BYTES_def)
  then have "length (dumps (planning_request_json demo_planning_request)) \<le> MAX_PLAN_REQUEST_BYTES"
    using length_dumps le_trans by blast
  moreover have "json_ok (planning_request_json demo_planning_request)"
    unfolding doc by (simp add: ENGINE_INTERFACE_VERSION_def)
  ultimately show ?thesis
    by (simp add: planning_request_to_dict_def canonical_bytes_def canonical_json_ok req_def)
qed

lemma demo_plan_parsed:
  "parse_context_plan (dumps demo_plan_reply) demo_planning_request = Inr demo_engine_plan_signed"
  by (simp add: parse_context_plan_def demo_request_written demo_response)

lemma plan_within_budget_witness:
  "parse_context_plan (dumps demo_plan_reply) demo_planning_request = Inr demo_engine_plan_signed \<and>
   selected_tokens (gp_selections demo_engine_plan_signed) \<le> gp_budget demo_engine_plan_signed"
  using plan_within_budget [OF demo_request_made demo_plan_parsed] demo_plan_parsed by blast

definition demo_source_doc :: json where
  "demo_source_doc =
     JObj [(''content_digest'', JStr (sha256_ref ''x'')), (''object_ref'', JStr demo_object),
       (''permission'', JStr ''permitted''), (''source_id'', JStr demo_object), (''source_type'', JStr ''filesystem'')]"

definition demo_source :: instance_source where
  "demo_source =
     \<lparr>is_descriptor = \<lparr>dp_object = demo_object, dp_source = demo_object, dp_type = ''filesystem'',
        dp_content = sha256_ref ''x'', dp_revision = None, dp_owner = None, dp_observed = None,
        dp_valid = None, dp_classification = None, dp_permission = ''permitted''\<rparr>,
      is_content = ''x''\<rparr>"

definition demo_binding_digest :: pystr where
  "demo_binding_digest = sha256_ref (dumps (JArr [response_json demo_engine_plan_signed,
     JArr [descriptor_json (is_descriptor demo_source)]]))"

definition demo_source_reply :: json where
  "demo_source_reply =
     JObj [(''binding_digest'', JStr demo_binding_digest), (''result'', demo_plan_reply),
       (''source_bindings'', JArr [demo_source_doc])]"

definition demo_source_plan :: source_plan where
  "demo_source_plan =
     \<lparr>sp_plan = demo_engine_plan_signed, sp_bindings = [is_descriptor demo_source],
      sp_digest = demo_binding_digest\<rparr>"

lemma demo_descriptor_read: "descriptor_of demo_source_doc = Inr (is_descriptor demo_source)"
  by (simp add: descriptor_of_def demo_source_doc_def demo_source_def plan_eval plan_bounds jkeys_def
      source_types_def source_permissions_def)

lemma demo_source_made: "mk_instance_source demo_source_doc (JStr ''x'') = Inr demo_source"
  by (simp add: mk_instance_source_def demo_descriptor_read plan_eval plan_bounds sha256_digest_def)
    (simp add: demo_source_def)

lemma demo_source_reply_ok: "json_ok demo_source_reply" "jsort demo_source_reply = demo_source_reply"
  using demo_reply_ok demo_reply_sorted
  by (simp_all add: demo_source_reply_def demo_source_doc_def demo_binding_digest_def demo_digest_fact)

lemma demo_binding_text:
  "json_ok (JArr [response_json demo_engine_plan_signed, JArr [descriptor_json (is_descriptor demo_source)]])"
  by (simp add: response_json_def plan_json_def plan_unsigned_def demo_engine_plan_def
      selection_json_def demo_selection_def opt_str_item_def jstrs_def demo_digest_fact
      ENGINE_INTERFACE_VERSION_def descriptor_json_def demo_source_def opt_str_def)

lemma demo_source_reply_loads:
  "plan_document (dumps demo_source_reply) = Inr demo_source_reply"
proof -
  have "canonical_bytes demo_source_reply = Inr (dumps demo_source_reply)"
    by (simp add: canonical_bytes_def canonical_json_ok demo_source_reply_ok)
  then have "strict_json_loads (dumps demo_source_reply) = Inr demo_source_reply"
    using strict_loads_canonical [OF demo_source_reply_ok(1)] demo_source_reply_ok(2)
    by (simp add: demo_source_reply_def)
  moreover have "weight demo_source_reply \<le> MAX_PLAN_RESPONSE"
    using demo_reply_weight
    by (simp add: demo_source_reply_def demo_source_doc_def demo_binding_digest_def demo_digest_fact
        MAX_PLAN_RESPONSE_def)
  then have "length (dumps demo_source_reply) \<le> MAX_PLAN_RESPONSE"
    using length_dumps le_trans by blast
  ultimately show ?thesis
    by (simp add: plan_document_def req_def)
qed

lemma demo_source_plan_parsed:
  "parse_source_plan (dumps demo_source_reply) demo_planning_request (Some [demo_source]) =
   Inr demo_source_plan"
proof -
  have reply: "jat ''result'' demo_source_reply = demo_plan_reply"
    "jat ''source_bindings'' demo_source_reply = JArr [demo_source_doc]"
    "jat ''binding_digest'' demo_source_reply = JStr demo_binding_digest"
    "exact_fields [''result'', ''source_bindings'', ''binding_digest''] [] demo_source_reply = Inr ()"
    by (simp_all add: demo_source_reply_def plan_eval jkeys_def)
  have selected: "filter is_selected (gp_selections demo_engine_plan_signed) = [demo_selection]"
    "gp_digest demo_engine_plan_signed = Some demo_plan_digest"
    "binds (is_descriptor demo_source) demo_selection"
    by (simp_all add: demo_engine_plan_def demo_selection_def is_selected_def binds_def demo_source_def)
  have texts: "canonical_bytes demo_plan_reply = Inr (dumps demo_plan_reply)"
    "canonical_bytes (JArr [response_json demo_engine_plan_signed,
       JArr [descriptor_json (is_descriptor demo_source)]]) =
     Inr (dumps (JArr [response_json demo_engine_plan_signed,
       JArr [descriptor_json (is_descriptor demo_source)]]))"
    by (simp_all only: canonical_bytes_def canonical_json_ok demo_reply_ok demo_binding_text)
  have digest: "is_digest demo_binding_digest"
    "sha256_digest (dumps (JArr [response_json demo_engine_plan_signed,
       JArr [descriptor_json (is_descriptor demo_source)]])) = demo_binding_digest"
    by (simp_all add: demo_binding_digest_def sha256_digest_def del: dumps.simps)
  have "check_requested (Some [demo_source]) [is_descriptor demo_source] = Inr ()"
    by (simp add: check_requested_def requested_sources_def req_def plan_bounds)
  then show ?thesis
    by (simp add: parse_source_plan_def demo_request_written demo_source_reply_loads reply selected
        demo_response texts digest demo_descriptor_read req_def array_upto_def MAX_PROTOCOL_ITEMS_def
        on_str_def not_increasing_def demo_source_plan_def del: dumps.simps)
qed

lemma source_plan_binds_selected_witness:
  "parse_source_plan (dumps demo_source_reply) demo_planning_request (Some [demo_source]) =
     Inr demo_source_plan \<and>
   is_descriptor demo_source \<in> set (sp_bindings demo_source_plan) \<and>
   sp_digest demo_source_plan = sha256_ref (dumps (JArr [response_json (sp_plan demo_source_plan),
     JArr (map descriptor_json (sp_bindings demo_source_plan))]))"
proof -
  have "\<exists>d c. mk_instance_source d c = Inr s" if "s \<in> set [demo_source]" for s
    using that demo_source_made by auto
  note plan = source_plan_binds_selected [OF demo_source_plan_parsed this]
  have "is_descriptor demo_source \<in> set (sp_bindings demo_source_plan)"
    by (simp add: demo_source_plan_def)
  with plan demo_source_plan_parsed show ?thesis
    by blast
qed

end
