(* ===== verification/Presenter.thy ===== *)
theory Presenter
  imports Planning
begin

text \<open>
  Presenter capabilities (\<open>src/leanctx_sdk/presenter.py\<close>): the bearer secret, the members of a
  request and the readers of a grant, of the use of presented text and of a revocation. The secret
  of a \<open>PresenterCapability\<close> is reachable through \<open>reveal\<close> only.
\<close>

section \<open>Capabilities\<close>

definition MAX_PRESENTER_TTL :: int where "MAX_PRESENTER_TTL = 24 * 60 * 60"

definition is_capability :: "pystr \<Rightarrow> bool" where
  "is_capability s \<longleftrightarrow> prefixed_hex ''lcp1_'' 64 s"

definition is_reference :: "pystr \<Rightarrow> bool" where
  "is_reference s \<longleftrightarrow> prefixed_hex ''presenter:'' 32 s"

datatype presenter_capability = PresenterCapability pystr

definition mk_capability :: "json \<Rightarrow> presenter_capability res" where
  "mk_capability v =
     (case v of
        JStr s \<Rightarrow> rbind (check (is_capability s) ValidationError) (\<lambda>_. Inr (PresenterCapability s))
      | _ \<Rightarrow> Inl ValidationError)"

primrec reveal :: "presenter_capability \<Rightarrow> pystr" where
  "reveal (PresenterCapability s) = s"

text \<open>\<open>repr\<close>, \<open>str\<close> and \<open>format\<close> give one text; pickling and both kinds of copy raise.\<close>

definition render_capability :: "presenter_capability \<Rightarrow> pystr" where
  "render_capability c = ''PresenterCapability(<redacted>)''"

definition duplicate_capability :: "presenter_capability \<Rightarrow> presenter_capability res" where
  "duplicate_capability c = Inl PyTypeError"

text \<open>The argument \<open>presenter\<close>: a held capability, or any other value.\<close>

datatype presenter_arg = Held presenter_capability | Lifetime json

definition presenter_request :: "presenter_arg \<Rightarrow> json res" where
  "presenter_request p =
     (case p of
        Held c \<Rightarrow> Inr (JObj [(''mode'', JStr ''renew'')])
      | Lifetime (JInt i) \<Rightarrow>
          rbind (check (1 \<le> i \<and> i \<le> MAX_PRESENTER_TTL) ValidationError) (\<lambda>_.
          Inr (JObj [(''mode'', JStr ''issue''), (''ttl_seconds'', JInt i)]))
      | Lifetime _ \<Rightarrow> Inl ValidationError)"

section \<open>Grants\<close>

record presenter_grant =
  gr_ref :: pystr
  gr_expires :: int
  gr_capability :: "presenter_capability option"

text \<open>A text accepted by a test, for \<open>isinstance(x, str)\<close> and a match.\<close>

definition str_where :: "(pystr \<Rightarrow> bool) \<Rightarrow> json \<Rightarrow> pystr res" where
  "str_where ok v =
     (case v of JStr s \<Rightarrow> rbind (bad (\<not> ok s)) (\<lambda>_. Inr s) | _ \<Rightarrow> Inl InstanceProtocolError)"

lemma str_where_Inr [ok_simps]: "str_where ok v = Inr s \<longleftrightarrow> v = JStr s \<and> ok s"
  by (cases v) (auto simp: str_where_def ok_simps)

definition issued_capability :: "json \<Rightarrow> pystr \<Rightarrow> presenter_capability res" where
  "issued_capability v content =
     rbind (str_where is_capability v) (\<lambda>secret.
     rbind (bad (sublist secret content)) (\<lambda>_. Inr (PresenterCapability secret)))"

definition parse_presenter_grant :: "json \<Rightarrow> pystr \<Rightarrow> bool \<Rightarrow> presenter_grant res" where
  "parse_presenter_grant v content issued =
     rbind (bad (\<not> is_obj v \<or>
       \<not> set (jkeys v) \<subseteq> {''presenter_ref'', ''expires_at_unix'', ''capability''})) (\<lambda>_.
     rbind (str_where is_reference (jat ''presenter_ref'' v)) (\<lambda>reference.
     rbind (int_in 1 MAX_U64 (jat ''expires_at_unix'' v)) (\<lambda>expires.
     rbind (bad ((jget ''capability'' v \<noteq> None) \<noteq> issued)) (\<lambda>_.
     rbind (if issued
            then rbind (issued_capability (jat ''capability'' v) content) (\<lambda>c. Inr (Some c))
            else Inr None) (\<lambda>capability.
     Inr \<lparr>gr_ref = reference, gr_expires = expires, gr_capability = capability\<rparr>)))))"

section \<open>Presented use\<close>

definition PRESENTED_USE_MODES :: "pystr list" where
  "PRESENTED_USE_MODES = [''check'', ''retain'', ''expand'']"

definition MAX_PRESENTED_CONTENT :: nat where "MAX_PRESENTED_CONTENT = 1024 * 1024"

definition is_recovery_id :: "pystr \<Rightarrow> bool" where
  "is_recovery_id s \<longleftrightarrow> prefixed_hex [] 64 s"

definition lower_or_underscore :: "char \<Rightarrow> bool" where
  "lower_or_underscore c \<longleftrightarrow> 97 \<le> byte c \<and> byte c \<le> 122 \<or> c = CHR ''_''"

definition is_use_reason :: "pystr \<Rightarrow> bool" where
  "is_use_reason s \<longleftrightarrow>
     list_ex (\<lambda>p. starts_with p s \<and>
       (let t = drop (length p) s in 1 \<le> length t \<and> length t \<le> 48 \<and> list_all lower_or_underscore t))
     [''lineage.'', ''recovery.'']"

definition presented_use_request :: "json \<Rightarrow> json \<Rightarrow> json res" where
  "presented_use_request mode v =
     (case mode of
        JStr m \<Rightarrow>
          rbind (check (m \<in> set PRESENTED_USE_MODES) ValidationError) (\<lambda>_.
          case v of
            JStr s \<Rightarrow>
              if m = ''expand'' then
                rbind (check (is_recovery_id s) ValidationError) (\<lambda>_.
                Inr (JObj [(''mode'', JStr m), (''recovery_id'', JStr s)]))
              else
                rbind (utf8_len s) (\<lambda>n.
                rbind (check (0 < n \<and> n \<le> MAX_PRESENTED_CONTENT) ValidationError) (\<lambda>_.
                Inr (JObj [(''mode'', JStr m), (''content'', JStr s)])))
          | _ \<Rightarrow> Inl ValidationError)
      | _ \<Rightarrow> Inl ValidationError)"

record presented_use =
  pu_ref :: pystr
  pu_usable :: bool
  pu_reason :: "pystr option"
  pu_sources :: "pystr list"
  pu_recovery :: "pystr option"
  pu_content :: "pystr option"

definition use_sources :: "json \<Rightarrow> pystr list res" where
  "use_sources v =
     (case v of
        JArr xs \<Rightarrow>
          rbind (mapr (str_where (\<lambda>s. s \<noteq> [])) xs) (\<lambda>ids.
          rbind (bad (\<not> distinct ids)) (\<lambda>_. Inr ids))
      | _ \<Rightarrow> Inl InstanceProtocolError)"

definition refused_use :: "pystr \<Rightarrow> pystr list \<Rightarrow> json \<Rightarrow> presented_use res" where
  "refused_use reference ids v =
     rbind (str_where is_use_reason (jat ''reason'' v)) (\<lambda>reason.
     rbind (bad (ids \<noteq> [] \<or> jget ''recovery_id'' v \<noteq> None \<or> jget ''content'' v \<noteq> None)) (\<lambda>_.
     Inr \<lparr>pu_ref = reference, pu_usable = False, pu_reason = Some reason, pu_sources = [],
       pu_recovery = None, pu_content = None\<rparr>))"

definition granted_use :: "pystr \<Rightarrow> pystr list \<Rightarrow> json \<Rightarrow> json \<Rightarrow> presenter_capability \<Rightarrow>
    presented_use res" where
  "granted_use reference ids v request capability =
     (let mode = jat ''mode'' request in
     rbind (bad (jget ''reason'' v \<noteq> None \<or> ids = [])) (\<lambda>_.
     rbind (bad ((jget ''recovery_id'' v \<noteq> None) \<noteq> (mode \<noteq> JStr ''check'') \<or>
       (jget ''content'' v \<noteq> None) \<noteq> (mode = JStr ''expand''))) (\<lambda>_.
     rbind (opt_value_of (str_where (\<lambda>s. is_recovery_id s \<and>
              (mode = JStr ''expand'' \<longrightarrow> JStr s = jat ''recovery_id'' request))) (jat ''recovery_id'' v))
       (\<lambda>recovery.
     rbind (opt_value_of (str_where (\<lambda>s. \<not> sublist (reveal capability) s)) (jat ''content'' v)) (\<lambda>content.
     Inr \<lparr>pu_ref = reference, pu_usable = True, pu_reason = None, pu_sources = ids,
       pu_recovery = recovery, pu_content = content\<rparr>)))))"

definition parse_presented_use :: "json \<Rightarrow> json \<Rightarrow> presenter_capability \<Rightarrow> presented_use res" where
  "parse_presented_use v request capability =
     rbind (has_fields [''schema_version'', ''presenter_ref'', ''usable'', ''source_ids'']
       [''reason'', ''recovery_id'', ''content''] v) (\<lambda>_.
     rbind (bad (\<not> is_version 1 (jat ''schema_version'' v))) (\<lambda>_.
     rbind (bool_of (jat ''usable'' v)) (\<lambda>usable.
     rbind (str_where is_reference (jat ''presenter_ref'' v)) (\<lambda>reference.
     rbind (use_sources (jat ''source_ids'' v)) (\<lambda>ids.
     if usable then granted_use reference ids v request capability
     else refused_use reference ids v)))))"

definition parse_presenter_revocation :: "json \<Rightarrow> (pystr \<times> bool) res" where
  "parse_presenter_revocation v =
     rbind (has_fields [''schema_version'', ''presenter_ref'', ''revoked''] [] v) (\<lambda>_.
     rbind (bad (\<not> is_version 1 (jat ''schema_version'' v))) (\<lambda>_.
     rbind (bool_of (jat ''revoked'' v)) (\<lambda>revoked.
     rbind (str_where is_reference (jat ''presenter_ref'' v)) (\<lambda>reference.
     Inr (reference, revoked)))))"

end
