(* ===== verification/Replies.thy ===== *)
theory Replies
  imports Planning
begin

text \<open>
  The replies of the instance (first half of \<open>src/leanctx_sdk/instance.py\<close>): invocation,
  observation, view and recovery records, and \<open>_parse_response\<close>, which joins them. A failed check
  of the protocol layer is reported as \<open>InstanceProtocolError\<close>; a value that has no hash and is
  looked up in a set raises \<open>TypeError\<close>.
\<close>

section \<open>Fields\<close>

definition MAX_REQUEST_BYTES :: nat where "MAX_REQUEST_BYTES = 64 * 1024"
definition MAX_RESPONSE_BYTES :: nat where "MAX_RESPONSE_BYTES = 16 * 1024 * 1024"
definition MAX_STDERR_BYTES :: nat where "MAX_STDERR_BYTES = 64 * 1024"
definition MAX_REFS :: nat where "MAX_REFS = 32"

text \<open>\<open>except ValidationError as exc: raise _protocol(str(exc))\<close>.\<close>

definition as_protocol :: "'a res \<Rightarrow> 'a res" where
  "as_protocol r = on_err (\<lambda>e. if e = ValidationError then InstanceProtocolError else e) r"

lemma as_protocol_Inr [ok_simps]: "as_protocol r = Inr a \<longleftrightarrow> r = Inr a"
  by (simp add: as_protocol_def ok_simps)

lemma as_protocol_simps [simp]: "as_protocol (Inr a) = Inr a"
  by (simp add: as_protocol_def)

definition int_of :: "json \<Rightarrow> int res" where
  "int_of v = (case v of JInt i \<Rightarrow> Inr i | _ \<Rightarrow> Inl InstanceProtocolError)"

lemma int_of_Inr [ok_simps]: "int_of v = Inr i \<longleftrightarrow> v = JInt i"
  by (cases v) (auto simp: int_of_def)

definition wire_string :: "nat \<Rightarrow> json \<Rightarrow> pystr res" where
  "wire_string maximum v =
     (case v of
        JStr s \<Rightarrow>
          rbind (bad (\<not> strict_utf8 s)) (\<lambda>_.
          rbind (bad (length s > maximum)) (\<lambda>_.
          rbind (bad (has_nul s)) (\<lambda>_. Inr s)))
      | _ \<Rightarrow> Inl InstanceProtocolError)"

lemma wire_string_Inr [ok_simps]:
  "wire_string n v = Inr s \<longleftrightarrow> v = JStr s \<and> strict_utf8 s \<and> length s \<le> n \<and> \<not> has_nul s"
  by (cases v) (auto simp: wire_string_def ok_simps not_less)

definition optional_digest :: "json \<Rightarrow> pystr option res" where
  "optional_digest v =
     (if v = JNull then Inr None
      else rbind (as_protocol (on_str validate_digest v)) (\<lambda>d. Inr (Some d)))"

lemma optional_digest_Inr [ok_simps]:
  "optional_digest v = Inr x \<longleftrightarrow>
     v = JNull \<and> x = None \<or> (\<exists>d. v = JStr d \<and> is_digest d \<and> x = Some d)"
  by (auto simp: optional_digest_def ok_simps)

definition optional_output_ref :: "json \<Rightarrow> pystr option res" where
  "optional_output_ref v =
     (if v = JNull then Inr None
      else rbind (as_protocol (on_str validate_output_ref v)) (\<lambda>d. Inr (Some d)))"

lemma optional_output_ref_Inr [ok_simps]:
  "optional_output_ref v = Inr x \<longleftrightarrow>
     v = JNull \<and> x = None \<or> (\<exists>d. v = JStr d \<and> prefixed_hex ''output:'' 64 d \<and> x = Some d)"
  by (auto simp: optional_output_ref_def ok_simps)

definition required_ref :: "json \<Rightarrow> pystr res" where
  "required_ref v = as_protocol (on_str validate_ref v)"

lemma required_ref_Inr [ok_simps]:
  "required_ref v = Inr s \<longleftrightarrow> v = JStr s \<and> s \<noteq> [] \<and> length s \<le> 512 \<and> printable_ascii s"
  by (auto simp: required_ref_def ok_simps)

definition required_digest :: "json \<Rightarrow> pystr res" where
  "required_digest v = rbind (optional_digest v) (of_option InstanceProtocolError)"

lemma required_digest_Inr [ok_simps]: "required_digest v = Inr d \<longleftrightarrow> v = JStr d \<and> is_digest d"
  by (auto simp: required_digest_def ok_simps)

text \<open>\<open>value in S\<close> for a set of strings, then the string itself.\<close>

definition set_member :: "pystr list \<Rightarrow> json \<Rightarrow> pystr res" where
  "set_member names v =
     rbind (in_set names v) (\<lambda>b.
     case v of JStr s \<Rightarrow> rbind (bad (\<not> b)) (\<lambda>_. Inr s) | _ \<Rightarrow> Inl InstanceProtocolError)"

lemma set_member_Inr [ok_simps]: "set_member names v = Inr s \<longleftrightarrow> v = JStr s \<and> s \<in> set names"
  by (cases v) (auto simp: set_member_def in_set_def ok_simps)

definition output_name :: "pystr \<Rightarrow> pystr" where
  "output_name digest = ''output:'' @ remove_prefix ''sha256:'' digest"

definition validate_pair :: "pystr option \<Rightarrow> pystr option \<Rightarrow> unit res" where
  "validate_pair output_ref output_digest =
     rbind (bad (output_ref \<noteq> None \<and> output_digest = None)) (\<lambda>_.
     case (output_ref, output_digest) of
       (Some r, Some d) \<Rightarrow> bad (r \<noteq> output_name d)
     | _ \<Rightarrow> Inr ())"

lemma validate_pair_Inr [ok_simps]:
  "validate_pair r d = Inr u \<longleftrightarrow> (\<forall>x. r = Some x \<longrightarrow> (\<exists>y. d = Some y \<and> x = output_name y))"
  by (auto simp: validate_pair_def ok_simps split: option.splits)

text \<open>A bounded list of distinct references, at least one.\<close>

definition reference_list :: "json \<Rightarrow> pystr list res" where
  "reference_list v =
     (case v of
        JArr xs \<Rightarrow>
          rbind (bad (\<not> (0 < length xs \<and> length xs \<le> MAX_REFS))) (\<lambda>_.
          rbind (mapr required_ref xs) (\<lambda>refs.
          rbind (bad (\<not> distinct refs)) (\<lambda>_. Inr refs)))
      | _ \<Rightarrow> Inl InstanceProtocolError)"

lemma reference_list_Inr [ok_simps]:
  "reference_list v = Inr refs \<longleftrightarrow>
     (\<exists>xs. v = JArr xs \<and> xs \<noteq> [] \<and> length xs \<le> MAX_REFS \<and> mapr required_ref xs = Inr refs \<and>
       distinct refs)"
  by (cases v) (auto simp: reference_list_def ok_simps)

section \<open>Observation parts\<close>

definition parse_measurement :: "json \<Rightarrow> measurement res" where
  "parse_measurement v =
     rbind (bad (\<not> is_obj v)) (\<lambda>_.
     rbind (has_fields [''name'', ''unit'', ''classification'', ''value''] [] v) (\<lambda>_.
     as_protocol (mk_measurement (jat ''name'' v) (jat ''unit'' v) (jat ''classification'' v)
       (jat ''value'' v))))"

definition parse_failure :: "json \<Rightarrow> failure option res" where
  "parse_failure v =
     (if v = JNull then Inr None
      else
        rbind (has_fields [''code'', ''retryable_by_host'', ''recovery_ref''] [] v) (\<lambda>_.
        rbind (set_member failure_codes (jat ''code'' v)) (\<lambda>code.
        rbind (opt_value_of required_ref (jat ''recovery_ref'' v)) (\<lambda>recovery.
        rbind (bool_of (jat ''retryable_by_host'' v)) (\<lambda>retryable.
        rbind (as_protocol (mk_failure code retryable recovery)) (\<lambda>f. Inr (Some f)))))))"

definition parse_receipt_link :: "json \<Rightarrow> pystr \<Rightarrow> receipt_link option res" where
  "parse_receipt_link v invocation_id =
     (if v = JNull then Inr None
      else
        rbind (has_fields [''schema_version'', ''receipt_id'', ''receipt_ref'', ''receipt_digest'',
          ''invocation_id''] [] v) (\<lambda>_.
        rbind (optional_digest (jat ''receipt_digest'' v)) (\<lambda>supplied.
        rbind (required_ref (jat ''receipt_ref'' v)) (\<lambda>ref.
        rbind (of_option InstanceProtocolError supplied) (\<lambda>digest.
        rbind (bad (ref \<noteq> ''receipt:'' @ digest)) (\<lambda>_.
        rbind (bad (jat ''invocation_id'' v \<noteq> JStr invocation_id)) (\<lambda>_.
        rbind (int_of (jat ''schema_version'' v)) (\<lambda>version.
        rbind (required_ref (jat ''receipt_id'' v)) (\<lambda>i.
        rbind (wire_string MAX_REF_BYTES (jat ''invocation_id'' v)) (\<lambda>vid.
        rbind (as_protocol (mk_receipt_link (JInt version) (JStr i) (JStr ref) (JStr digest) (JStr vid)))
          (\<lambda>l. Inr (Some l))))))))))))"

section \<open>Invocations\<close>

definition CAPABILITY_ID :: pystr where
  "CAPABILITY_ID = ''capability://leanctx/context-optimization''"

definition semver_parts :: "pystr \<Rightarrow> pystr list option" where
  "semver_parts s =
     (let ps = split_on (CHR ''.'') s in
      if length ps = 3 \<and> list_all (\<lambda>p. p \<noteq> [] \<and> list_all is_digit p) ps then Some ps else None)"

definition major_version :: "pystr \<Rightarrow> nat option" where
  "major_version s = map_option (\<lambda>ps. digits_value 0 (hd ps)) (semver_parts s)"

definition unsupported :: "bool \<Rightarrow> unit res" where
  "unsupported wrong = check (\<not> wrong) UnsupportedInstanceError"

lemma unsupported_Inr [ok_simps]: "unsupported b = Inr u \<longleftrightarrow> \<not> b"
  by (simp add: unsupported_def ok_simps)

record invocation =
  iv_id :: pystr
  iv_engine_version :: pystr
  iv_input_ref :: pystr
  iv_input_digest :: pystr
  iv_source_refs :: "pystr list"
  iv_policy_ref :: pystr
  iv_decision :: pystr

definition invocation_json :: "invocation \<Rightarrow> json" where
  "invocation_json i =
     JObj [(''schema_version'', JInt 1), (''invocation_id'', JStr (iv_id i)),
       (''engine'', JObj [(''engine_id'', JStr ''lean-ctx-local''),
          (''engine_version'', JStr (iv_engine_version i))]),
       (''operation'', JObj [(''capability_id'', JStr CAPABILITY_ID),
          (''capability_version'', JStr ''1.0.0'')]),
       (''input_ref'', JStr (iv_input_ref i)), (''input_digest'', JStr (iv_input_digest i)),
       (''source_refs'', jstrs (iv_source_refs i)),
       (''policy_admission'', JObj [(''policy_ref'', JStr (iv_policy_ref i)),
          (''decision'', JStr (iv_decision i))])]"

definition engine_of :: "json \<Rightarrow> pystr res" where
  "engine_of v =
     rbind (wire_string MAX_REF_BYTES (jat ''engine_id'' v)) (\<lambda>engine.
     rbind (wire_string MAX_REF_BYTES (jat ''engine_version'' v)) (\<lambda>version.
     rbind (unsupported (engine \<noteq> ''lean-ctx-local'' \<or> semver_parts version = None)) (\<lambda>_.
     rbind (unsupported (major_version version \<noteq> Some 3)) (\<lambda>_. Inr version))))"

definition operation_of :: "json \<Rightarrow> unit res" where
  "operation_of v =
     rbind (wire_string MAX_REF_BYTES (jat ''capability_id'' v)) (\<lambda>i.
     rbind (wire_string MAX_REF_BYTES (jat ''capability_version'' v)) (\<lambda>version.
     unsupported (i \<noteq> CAPABILITY_ID \<or> version \<noteq> ''1.0.0'')))"

definition parse_invocation :: "json \<Rightarrow> invocation res" where
  "parse_invocation v =
     rbind (has_fields [''schema_version'', ''invocation_id'', ''engine'', ''operation'', ''input_ref'',
       ''input_digest'', ''source_refs'', ''policy_admission''] [] v) (\<lambda>_.
     let engine = jat ''engine'' v; operation = jat ''operation'' v; policy = jat ''policy_admission'' v in
     rbind (bad (\<not> is_obj engine \<or> \<not> is_obj operation \<or> \<not> is_obj policy)) (\<lambda>_.
     rbind (has_fields [''engine_id'', ''engine_version''] [] engine) (\<lambda>_.
     rbind (has_fields [''capability_id'', ''capability_version''] [] operation) (\<lambda>_.
     rbind (has_fields [''policy_ref'', ''decision''] [] policy) (\<lambda>_.
     rbind (engine_of engine) (\<lambda>version.
     rbind (operation_of operation) (\<lambda>_.
     rbind (set_member [''admitted'', ''rejected''] (jat ''decision'' policy)) (\<lambda>decision.
     rbind (required_ref (jat ''policy_ref'' policy)) (\<lambda>policy_ref.
     rbind (wire_string MAX_REF_BYTES (jat ''invocation_id'' v)) (\<lambda>i.
     rbind (int_of (jat ''schema_version'' v)) (\<lambda>schema.
     rbind (bad (schema \<noteq> 1)) (\<lambda>_.
     rbind (required_ref (jat ''input_ref'' v)) (\<lambda>input_ref.
     rbind (required_digest (jat ''input_digest'' v)) (\<lambda>input_digest.
     rbind (reference_list (jat ''source_refs'' v)) (\<lambda>refs.
     rbind (bad (input_ref \<notin> set refs)) (\<lambda>_.
     Inr \<lparr>iv_id = i, iv_engine_version = version, iv_input_ref = input_ref,
       iv_input_digest = input_digest, iv_source_refs = refs, iv_policy_ref = policy_ref,
       iv_decision = decision\<rparr>))))))))))))))))"

section \<open>Observations\<close>

record observation =
  ob_id :: pystr
  ob_status :: pystr
  ob_output_ref :: "pystr option"
  ob_output_digest :: "pystr option"
  ob_lineage :: "pystr list"
  ob_measurements :: "measurement list"
  ob_failure :: "failure option"
  ob_receipt_link :: "receipt_link option"

text \<open>The mapping the code builds; the objects in it are written as their \<open>to_dict\<close>.\<close>

definition observation_json :: "observation \<Rightarrow> json" where
  "observation_json o' =
     JObj [(''schema_version'', JInt 1), (''invocation_id'', JStr (ob_id o')),
       (''status'', JStr (ob_status o')), (''output_ref'', opt_str (ob_output_ref o')),
       (''output_digest'', opt_str (ob_output_digest o')), (''source_lineage'', jstrs (ob_lineage o')),
       (''measurements'', JArr (map measurement_to_dict (ob_measurements o'))),
       (''failure'', opt_json failure_to_dict (ob_failure o')),
       (''receipt_link'', opt_json receipt_link_to_dict (ob_receipt_link o'))]"

definition measurements_of :: "json \<Rightarrow> measurement list res" where
  "measurements_of v =
     rbind (list_upto MAX_MEASUREMENTS v) (mapr parse_measurement)"

definition check_status :: "pystr \<Rightarrow> failure option \<Rightarrow> receipt_link option \<Rightarrow> unit res" where
  "check_status status failure link =
     rbind (bad (status \<in> {''succeeded'', ''degraded''} \<and> failure \<noteq> None)) (\<lambda>_.
     rbind (bad (status \<in> {''failed'', ''rejected''} \<and> failure = None)) (\<lambda>_.
     bad (status = ''succeeded'' \<and> link = None)))"

lemma check_status_Inr [ok_simps]:
  "check_status s f l = Inr u \<longleftrightarrow>
     (s \<in> {''succeeded'', ''degraded''} \<longrightarrow> f = None) \<and> (s \<in> {''failed'', ''rejected''} \<longrightarrow> f \<noteq> None) \<and>
     (s = ''succeeded'' \<longrightarrow> l \<noteq> None)"
  unfolding check_status_def rbind_eq_Inr_iff bad_Inr by (simp only: simp_thms de_Morgan_conj) argo

definition parse_observation :: "json \<Rightarrow> pystr \<Rightarrow> observation res" where
  "parse_observation v invocation_id =
     rbind (has_fields [''schema_version'', ''invocation_id'', ''status'', ''source_lineage'',
       ''measurements''] [''output_ref'', ''output_digest'', ''failure'', ''receipt_link''] v) (\<lambda>_.
     rbind (wire_string MAX_REF_BYTES (jat ''invocation_id'' v)) (\<lambda>i.
     rbind (bad (i \<noteq> invocation_id)) (\<lambda>_.
     rbind (int_of (jat ''schema_version'' v)) (\<lambda>schema.
     rbind (bad (schema \<noteq> 1)) (\<lambda>_.
     rbind (set_member instance_statuses (jat ''status'' v)) (\<lambda>status.
     rbind (optional_output_ref (jat ''output_ref'' v)) (\<lambda>output_ref.
     rbind (optional_digest (jat ''output_digest'' v)) (\<lambda>output_digest.
     rbind (validate_pair output_ref output_digest) (\<lambda>_.
     rbind (reference_list (jat ''source_lineage'' v)) (\<lambda>lineage.
     rbind (measurements_of (jat ''measurements'' v)) (\<lambda>measurements.
     rbind (parse_failure (jat ''failure'' v)) (\<lambda>failure.
     rbind (parse_receipt_link (jat ''receipt_link'' v) invocation_id) (\<lambda>link.
     rbind (check_status status failure link) (\<lambda>_.
     Inr \<lparr>ob_id = i, ob_status = status, ob_output_ref = output_ref, ob_output_digest = output_digest,
       ob_lineage = lineage, ob_measurements = measurements, ob_failure = failure,
       ob_receipt_link = link\<rparr>))))))))))))))"

section \<open>Responses\<close>

record wire_view =
  wv_text :: pystr
  wv_output_ref :: "pystr option"
  wv_output_digest :: "pystr option"

definition parse_view :: "json \<Rightarrow> wire_view res" where
  "parse_view v =
     rbind (has_fields [''text'', ''output_ref'', ''output_digest''] [] v) (\<lambda>_.
     rbind (wire_string MAX_TEXT_BYTES (jat ''text'' v)) (\<lambda>t.
     rbind (optional_output_ref (jat ''output_ref'' v)) (\<lambda>r.
     rbind (optional_digest (jat ''output_digest'' v)) (\<lambda>d.
     rbind (validate_pair r d) (\<lambda>_.
     rbind (bad (case d of None \<Rightarrow> False | Some x \<Rightarrow> sha256_digest t \<noteq> x)) (\<lambda>_.
     Inr \<lparr>wv_text = t, wv_output_ref = r, wv_output_digest = d\<rparr>))))))"

record wire_recovery =
  wr_recovery_ref :: pystr
  wr_source_ref :: pystr
  wr_source_digest :: pystr

definition parse_recovery :: "json \<Rightarrow> wire_recovery res" where
  "parse_recovery v =
     rbind (has_fields [''recovery_ref'', ''source_ref'', ''source_digest''] [] v) (\<lambda>_.
     rbind (required_digest (jat ''source_digest'' v)) (\<lambda>d.
     rbind (required_ref (jat ''recovery_ref'' v)) (\<lambda>r.
     rbind (required_ref (jat ''source_ref'' v)) (\<lambda>s.
     Inr \<lparr>wr_recovery_ref = r, wr_source_ref = s, wr_source_digest = d\<rparr>))))"

text \<open>View, invocation with observation (both or none), recovery.\<close>

record reply =
  re_view :: wire_view
  re_records :: "(invocation \<times> observation) option"
  re_recovery :: wire_recovery

definition version_mismatch :: "bool \<Rightarrow> unit res" where
  "version_mismatch wrong = check (\<not> wrong) CompatibilityError"

lemma version_mismatch_Inr [ok_simps]: "version_mismatch b = Inr u \<longleftrightarrow> \<not> b"
  by (simp add: version_mismatch_def ok_simps)

definition parse_records :: "json \<Rightarrow> json \<Rightarrow> wire_view \<Rightarrow> (invocation \<times> observation) option res" where
  "parse_records inv_value obs_value view =
     (if inv_value = JNull \<or> obs_value = JNull
      then rbind (bad (inv_value \<noteq> JNull \<or> obs_value \<noteq> JNull)) (\<lambda>_. Inr None)
      else
        rbind (parse_invocation inv_value) (\<lambda>i.
        rbind (parse_observation obs_value (iv_id i)) (\<lambda>ob.
        rbind (bad (ob_lineage ob \<noteq> iv_source_refs i)) (\<lambda>_.
        rbind (bad (ob_output_ref ob \<noteq> wv_output_ref view \<or>
          ob_output_digest ob \<noteq> wv_output_digest view)) (\<lambda>_.
        Inr (Some (i, ob)))))))"

definition parse_response :: "pystr \<Rightarrow> reply res" where
  "parse_response raw =
     rbind (reply_document MAX_RESPONSE_BYTES raw) (\<lambda>v.
     rbind (has_fields [''schema_version'', ''transport_version'', ''engine_interface_version'', ''view'',
       ''invocation'', ''observation'', ''recovery''] [] v) (\<lambda>_.
     rbind (int_of (jat ''schema_version'' v)) (\<lambda>schema.
     rbind (version_mismatch (schema \<noteq> 1)) (\<lambda>_.
     rbind (int_of (jat ''transport_version'' v)) (\<lambda>transport.
     rbind (version_mismatch (transport \<noteq> 1)) (\<lambda>_.
     rbind (version_mismatch (jat ''engine_interface_version'' v \<noteq> JStr ENGINE_INTERFACE_VERSION)) (\<lambda>_.
     rbind (parse_view (jat ''view'' v)) (\<lambda>view.
     rbind (parse_recovery (jat ''recovery'' v)) (\<lambda>recovery.
     rbind (parse_records (jat ''invocation'' v) (jat ''observation'' v) view) (\<lambda>records.
     Inr \<lparr>re_view = view, re_records = records, re_recovery = recovery\<rparr>))))))))))"

end
