(* ===== verification/Instance_Client.thy ===== *)
theory Instance_Client
  imports Replies
begin

text \<open>
  The subprocess client (second half of \<open>src/leanctx_sdk/instance.py\<close>): paths, the loop that feeds
  the process and collects its output under two bounds and one deadline, what an exit code means, and
  the four operations. The machine is a record of functions: directories, executables, temporary
  files and the process an argument vector starts. A process is the rounds of events the selector
  reports, its exit code (none: it outlives the deadline) and whether it can be reaped after a kill.
\<close>

section \<open>Paths\<close>

definition safe_relative_path :: "pystr \<Rightarrow> pystr res" where
  "safe_relative_path path =
     rbind (bad (\<not> strict_utf8 path)) (\<lambda>_.
     rbind (bad (path = [] \<or> length path > MAX_PATH_BYTES \<or> has_nul path)) (\<lambda>_.
     rbind (bad (os_isabs path \<or> has_control path)) (\<lambda>_.
     let normalized = os_normpath path in
     rbind (bad (normalized = [] \<or> normalized = ''.'' \<or> normalized = ''..'' \<or>
       starts_with ''../'' normalized)) (\<lambda>_. Inr normalized))))"

text \<open>What the process is given: its standard input, or a file it is named.\<close>

datatype payload = ByPipe pystr | ByFile pystr

datatype pipe_event =
    StdinWritten nat
  | StdinBlocked
  | StdinBroken
  | StdoutChunk pystr
  | StderrChunk pystr
  | PipeFailed

record child =
  ch_rounds :: "pipe_event list list"
  ch_code :: "int option"
  ch_reapable :: bool

record machine =
  m_cwd :: pystr
  m_isdir :: "pystr \<Rightarrow> bool"
  m_which :: "pystr \<Rightarrow> pystr option"
  m_executable :: "pystr \<Rightarrow> bool"
  m_temp :: "pystr \<Rightarrow> pystr option"
  m_spawn :: "pystr list \<Rightarrow> payload \<Rightarrow> child option"

definition validate_root :: "machine \<Rightarrow> pystr \<Rightarrow> pystr res" where
  "validate_root m project_root =
     rbind (check (project_root \<noteq> []) SourceUnavailableError) (\<lambda>_.
     rbind (check (\<not> has_nul project_root) SourceUnavailableError) (\<lambda>_.
     let root = os_abspath (m_cwd m) (os_normpath project_root) in
     rbind (encoded_length root) (\<lambda>n.
     rbind (check (n \<le> MAX_PATH_BYTES \<and> m_isdir m root) SourceUnavailableError) (\<lambda>_. Inr root))))"

definition resolve_binary :: "machine \<Rightarrow> pystr \<Rightarrow> pystr res" where
  "resolve_binary m binary =
     (let candidate = (if CHR ''/'' \<in> set binary then os_abspath (m_cwd m) binary
                       else (case m_which m binary of None \<Rightarrow> binary | Some p \<Rightarrow> p)) in
     rbind (check (m_executable m candidate) InstanceUnavailable) (\<lambda>_. Inr candidate))"

section \<open>The pipes\<close>

record pump =
  pm_sent :: nat
  pm_stdin :: bool
  pm_out :: pystr
  pm_out_open :: bool
  pm_err :: pystr
  pm_err_open :: bool

definition pump_start :: "payload \<Rightarrow> pump" where
  "pump_start p =
     \<lparr>pm_sent = 0, pm_stdin = (case p of ByPipe _ \<Rightarrow> True | ByFile _ \<Rightarrow> False), pm_out = [],
      pm_out_open = True, pm_err = [], pm_err_open = True\<rparr>"

definition pump_open :: "pump \<Rightarrow> bool" where
  "pump_open s \<longleftrightarrow> pm_stdin s \<or> pm_out_open s \<or> pm_err_open s"

definition pump_input :: "payload \<Rightarrow> pystr" where
  "pump_input p = (case p of ByPipe s \<Rightarrow> s | ByFile _ \<Rightarrow> [])"

text \<open>One write is of at most 512 bytes, one read of at most 65536.\<close>

definition feed :: "payload \<Rightarrow> nat \<Rightarrow> pump \<Rightarrow> pump" where
  "feed p sent s = s\<lparr>pm_sent := sent, pm_stdin := (sent \<noteq> length (pump_input p))\<rparr>"

definition read_out :: "pystr \<Rightarrow> pump \<Rightarrow> pump res" where
  "read_out chunk s =
     (if chunk = [] then Inr (s\<lparr>pm_out_open := False\<rparr>)
      else
        let out = pm_out s @ take 65536 chunk in
        rbind (bad (length out > MAX_RESPONSE_BYTES)) (\<lambda>_. Inr (s\<lparr>pm_out := out\<rparr>)))"

definition read_err :: "pystr \<Rightarrow> pump \<Rightarrow> pump res" where
  "read_err chunk s =
     (if chunk = [] then Inr (s\<lparr>pm_err_open := False\<rparr>)
      else
        let err = pm_err s @ take 65536 chunk in
        rbind (bad (length err > MAX_STDERR_BYTES)) (\<lambda>_. Inr (s\<lparr>pm_err := err\<rparr>)))"

text \<open>An event of a descriptor that is no longer registered does not occur.\<close>

fun pump_event :: "payload \<Rightarrow> pipe_event \<Rightarrow> pump \<Rightarrow> pump res" where
  "pump_event p (StdinWritten n) s =
     (if pm_stdin s
      then Inr (feed p (pm_sent s + min n (min 512 (length (pump_input p) - pm_sent s))) s)
      else Inr s)"
| "pump_event p StdinBlocked s = Inr s"
| "pump_event p StdinBroken s = (if pm_stdin s then Inr (feed p (length (pump_input p)) s) else Inr s)"
| "pump_event p (StdoutChunk chunk) s = (if pm_out_open s then read_out chunk s else Inr s)"
| "pump_event p (StderrChunk chunk) s = (if pm_err_open s then read_err chunk s else Inr s)"
| "pump_event p PipeFailed s = Inl InstanceExecutionError"

fun pump_events :: "payload \<Rightarrow> pipe_event list \<Rightarrow> pump \<Rightarrow> pump res" where
  "pump_events p [] s = Inr s"
| "pump_events p (e # es) s = rbind (pump_event p e s) (pump_events p es)"

text \<open>
  The loop \<open>while selector.get_map()\<close>. A round without events is the deadline; so is the end of the
  rounds, after which nothing happens any more.
\<close>

fun pump_rounds :: "payload \<Rightarrow> pipe_event list list \<Rightarrow> pump \<Rightarrow> pump res" where
  "pump_rounds p [] s = (if pump_open s then Inl InstanceTimeout else Inr s)"
| "pump_rounds p (es # rounds) s =
     (if \<not> pump_open s then Inr s
      else if es = [] then Inl InstanceTimeout
      else rbind (pump_events p es s) (pump_rounds p rounds))"

text \<open>A deadline or a broken bound ends in \<open>_kill_and_reap\<close>, whose own failure comes first.\<close>

definition after_kill :: "child \<Rightarrow> exn \<Rightarrow> exn" where
  "after_kill c e =
     (if e \<in> {InstanceTimeout, InstanceProtocolError} \<and> \<not> ch_reapable c then InstanceExecutionError else e)"

definition collect :: "child \<Rightarrow> payload \<Rightarrow> (pystr \<times> pystr \<times> int) res" where
  "collect c p =
     on_err (after_kill c)
       (rbind (pump_rounds p (ch_rounds c) (pump_start p)) (\<lambda>s.
        rbind (of_option InstanceTimeout (ch_code c)) (\<lambda>code.
        Inr (pm_out s, pm_err s, code))))"

section \<open>The end of a run\<close>

text \<open>
  \<open>stderr.decode("utf-8", "replace")\<close>; a byte that does not start an encoding is U+FFFD. (Python may
  write one U+FFFD for several such bytes; the search below cannot tell.)
\<close>

definition sequence_length :: "pystr \<Rightarrow> nat" where
  "sequence_length s =
     (let b = byte (hd s);
          n = (if b < 128 then 1 else if b < 224 then 2 else if b < 240 then 3 else 4)
      in if n \<le> length s \<and> strict_utf8 (take n s) then n else 0)"

function decode_replace :: "pystr \<Rightarrow> nat list" where
  "decode_replace [] = []"
| "decode_replace (x # s) =
     (let n = sequence_length (x # s) in
      if n = 0 then 65533 # decode_replace s
      else code_points (take n (x # s)) @ decode_replace (drop n (x # s)))"
  by pat_completeness auto
termination
  by (relation "measure length") auto

definition code_char :: "nat \<Rightarrow> bool" where
  "code_char c \<longleftrightarrow> 97 \<le> c \<and> c \<le> 122 \<or> 48 \<le> c \<and> c \<le> 57 \<or> c = 95"

definition code_after :: "nat list \<Rightarrow> pystr option" where
  "code_after cs =
     (if take 7 cs = map byte ''engine:'' then
        let w = takeWhile code_char (dropWhile re_space (drop 7 cs)) in
        if w = [] then None else Some (map char_of w)
      else None)"

text \<open>\<open>re.search(r"(?:^|\n)engine:\s*([a-z0-9_]+)", text)\<close>.\<close>

fun search_code :: "nat list \<Rightarrow> pystr option" where
  "search_code [] = None"
| "search_code (c # cs) =
     (if c = 10 \<and> code_after cs \<noteq> None then code_after cs else search_code cs)"

definition stderr_code :: "pystr \<Rightarrow> pystr option" where
  "stderr_code stderr =
     (let cs = decode_replace stderr in
      if code_after cs \<noteq> None then code_after cs else search_code cs)"

definition exit_error :: "pystr \<Rightarrow> exn" where
  "exit_error stderr =
     (case stderr_code stderr of
        None \<Rightarrow> InstanceExecutionError
      | Some code \<Rightarrow>
          if code \<in> set [''unsafe_root'', ''source_outside_root'', ''source_symlink'', ''policy_rejected'']
          then PolicyAdmissionError
          else if code = ''source_unavailable'' then SourceUnavailableError
          else if code = ''unsupported_mode'' then UnsupportedInstanceError
          else InstanceExecutionError)"

text \<open>The acknowledgement of the session starter, with its quotes and its newline.\<close>

definition CONTAINMENT_ACK :: pystr where
  "CONTAINMENT_ACK =
     CHR ''{'' # CHR 0x22 # ''leanctx_session_containment'' @ [CHR 0x22] @ '':1}'' @ [CHR 0x0A]"

definition containment :: "pystr \<Rightarrow> pystr" where
  "containment out = (if starts_with CONTAINMENT_ACK out then ''engine-starter'' else ''unavailable'')"

definition finish_run :: "pystr \<Rightarrow> pystr \<Rightarrow> int \<Rightarrow> pystr res" where
  "finish_run out err code =
     (let stdout = remove_prefix CONTAINMENT_ACK out in
      if code \<noteq> 0 then Inl (exit_error err)
      else
        rbind (bad (stdout = [])) (\<lambda>_.
        rbind (bad (\<not> strict_utf8 stdout)) (\<lambda>_. Inr stdout)))"

text \<open>The client: its binary, and what is known of the containment of its last completed run.\<close>

record client =
  cl_binary :: pystr
  cl_containment :: pystr

definition mk_client :: "pystr option \<Rightarrow> client" where
  "mk_client binary =
     \<lparr>cl_binary = (case binary of None \<Rightarrow> ''lean-ctx'' | Some b \<Rightarrow> b), cl_containment = ''unavailable''\<rparr>"

definition run_argv :: "pystr \<Rightarrow> pystr \<Rightarrow> pystr \<Rightarrow> pystr \<Rightarrow> pystr list" where
  "run_argv binary operation root request_path =
     [binary, ''engine'', operation, ''--project-root'', root, ''--json-file'', request_path]"

definition run_process ::
  "machine \<Rightarrow> client \<Rightarrow> pystr \<Rightarrow> pystr \<Rightarrow> pystr \<Rightarrow> payload \<Rightarrow> client \<times> pystr res" where
  "run_process m c operation root request_path p =
     (case rbind (resolve_binary m (cl_binary c)) (\<lambda>binary.
           rbind (of_option InstanceUnavailable (m_spawn m (run_argv binary operation root request_path) p))
             (\<lambda>ch. collect ch p)) of
        Inl e \<Rightarrow> (c, Inl e)
      | Inr (out, err, code) \<Rightarrow> (c\<lparr>cl_containment := containment out\<rparr>, finish_run out err code))"

text \<open>The file of a request is removed when the call ends.\<close>

definition send_request ::
  "machine \<Rightarrow> client \<Rightarrow> pystr \<Rightarrow> pystr \<Rightarrow> pystr \<Rightarrow> bool \<Rightarrow> client \<times> pystr res" where
  "send_request m c operation root content stdin =
     (if stdin then run_process m c operation root ''-'' (ByPipe content)
      else (case m_temp m root of
              None \<Rightarrow> (c, Inl PyOSError)
            | Some path \<Rightarrow> run_process m c operation root path (ByFile content)))"

definition invoke_bytes ::
  "machine \<Rightarrow> client \<Rightarrow> pystr \<Rightarrow> pystr \<Rightarrow> json \<Rightarrow> nat \<Rightarrow> bool \<Rightarrow> client \<times> pystr res" where
  "invoke_bytes m c operation project_root request maximum stdin =
     (case rbind (validate_root m project_root) (\<lambda>root.
           rbind (canonical_bytes request) (\<lambda>content.
           rbind (bad (length content > maximum)) (\<lambda>_. Inr (root, content)))) of
        Inl e \<Rightarrow> (c, Inl e)
      | Inr (root, content) \<Rightarrow> send_request m c operation root content stdin)"

definition invoke :: "machine \<Rightarrow> client \<Rightarrow> pystr \<Rightarrow> pystr \<Rightarrow> json \<Rightarrow> client \<times> reply res" where
  "invoke m c operation project_root request =
     (case invoke_bytes m c operation project_root request MAX_REQUEST_BYTES False of
        (c', r) \<Rightarrow> (c', rbind r parse_response))"

section \<open>Operations\<close>

definition instance_plan ::
  "machine \<Rightarrow> client \<Rightarrow> pystr \<Rightarrow> planning_request \<Rightarrow> client \<times> engine_plan res" where
  "instance_plan m c project_root request =
     (case planning_request_to_dict request of
        Inl e \<Rightarrow> (c, Inl e)
      | Inr doc \<Rightarrow>
          (case invoke_bytes m c ''context-plan'' project_root doc MAX_REQUEST_BYTES True of
             (c', r) \<Rightarrow> (c', rbind r (\<lambda>raw. parse_context_plan raw request))))"

definition plan_sources_request :: "planning_request \<Rightarrow> instance_source list \<Rightarrow> json res" where
  "plan_sources_request request sources =
     rbind (check (length sources \<le> 64) ValidationError) (\<lambda>_.
     rbind (check (distinct (map (dp_object \<circ> is_descriptor) sources)) ValidationError) (\<lambda>_.
     rbind (planning_request_to_dict request) (\<lambda>doc.
     Inr (JObj [(''planning'', doc), (''sources'', JArr (map instance_source_to_dict sources))]))))"

definition instance_plan_sources ::
  "machine \<Rightarrow> client \<Rightarrow> pystr \<Rightarrow> planning_request \<Rightarrow> instance_source list \<Rightarrow> client \<times> source_plan res" where
  "instance_plan_sources m c project_root request sources =
     (case plan_sources_request request sources of
        Inl e \<Rightarrow> (c, Inl e)
      | Inr doc \<Rightarrow>
          (case invoke_bytes m c ''context-plan-sources'' project_root doc (1024 * 1024) True of
             (c', r) \<Rightarrow> (c', rbind r (\<lambda>raw. parse_source_plan raw request (Some sources)))))"

definition build_view ::
  "context_source \<Rightarrow> wire_view \<Rightarrow> invocation \<Rightarrow> observation \<Rightarrow> wire_recovery \<Rightarrow> context_view res" where
  "build_view source view i ob recovery =
     rbind (bad (wr_source_ref recovery \<notin> set (iv_source_refs i))) (\<lambda>_.
     rbind (bad (ob_lineage ob \<noteq> iv_source_refs i)) (\<lambda>_.
     rbind (as_protocol (check_view
       \<lparr>vw_source = source, vw_text = Some (wv_text view), vw_output_ref = wv_output_ref view,
        vw_output_digest = wv_output_digest view, vw_source_ref = wr_source_ref recovery,
        vw_source_digest = wr_source_digest recovery, vw_recovery_ref = Some (wr_recovery_ref recovery),
        vw_status = ob_status ob, vw_measurements = ob_measurements ob, vw_failure = ob_failure ob,
        vw_receipt_link = ob_receipt_link ob, vw_invocation = invocation_json i,
        vw_observation = observation_json ob,
        vw_interface_version = ENGINE_INTERFACE_VERSION\<rparr>)) (\<lambda>v.
     rbind (check (\<not> (vw_status v = ''succeeded'' \<and> \<not> view_verify v)) ArtifactIntegrityError) (\<lambda>_.
     Inr v))))"

definition rejected_error :: "failure option \<Rightarrow> exn" where
  "rejected_error f =
     (case map_option fl_code f of
        None \<Rightarrow> InstanceRejected
      | Some code \<Rightarrow>
          if code = ''policy_rejected'' then PolicyAdmissionError
          else if code = ''source_unavailable'' then SourceUnavailableError
          else InstanceRejected)"

definition failed_error :: "failure option \<Rightarrow> exn" where
  "failed_error f =
     (case map_option fl_code f of
        None \<Rightarrow> InstanceExecutionError
      | Some code \<Rightarrow>
          if code = ''source_unavailable'' then SourceUnavailableError
          else if code = ''source_integrity_mismatch'' then ArtifactIntegrityError
          else if code = ''unsupported_operation'' then UnsupportedInstanceError
          else InstanceExecutionError)"

definition view_outcome :: "context_view \<Rightarrow> context_view res" where
  "view_outcome v =
     (if vw_status v = ''rejected'' then Inl (rejected_error (vw_failure v))
      else if vw_status v = ''failed'' then Inl (failed_error (vw_failure v))
      else Inr v)"

definition bound_view :: "context_source \<Rightarrow> reply \<Rightarrow> context_view res" where
  "bound_view source r =
     (case re_records r of
        None \<Rightarrow> Inl InstanceProtocolError
      | Some (i, ob) \<Rightarrow>
          let recovery = re_recovery r in
          rbind (bad (wr_source_ref recovery \<notin> set (iv_source_refs i))) (\<lambda>_.
          rbind (bad (cs_ref source \<noteq> None \<and> cs_ref source \<noteq> Some (wr_source_ref recovery))) (\<lambda>_.
          rbind (bad (cs_digest source \<noteq> None \<and> cs_digest source \<noteq> Some (wr_source_digest recovery))) (\<lambda>_.
          rbind (build_view source (re_view r) i ob recovery) view_outcome))))"

definition view_request :: "pystr \<Rightarrow> pystr \<Rightarrow> json" where
  "view_request path mode =
     JObj [(''schema_version'', JInt 1), (''transport_version'', JInt 1),
       (''engine_interface_version'', JStr ENGINE_INTERFACE_VERSION), (''path'', JStr path),
       (''mode'', JStr mode)]"

definition instance_view :: "machine \<Rightarrow> client \<Rightarrow> context_plan \<Rightarrow> client \<times> context_view res" where
  "instance_view m c plan =
     (let source = pl_source plan in
      case relative_path (m_cwd m) source of
        Inl e \<Rightarrow> (c, Inl e)
      | Inr path \<Rightarrow>
          (case invoke m c ''context-view'' (cs_root source) (view_request path (pl_mode plan)) of
             (c', r) \<Rightarrow> (c', rbind r (bound_view source))))"

definition recovered_from :: "pystr \<Rightarrow> pystr \<Rightarrow> pystr \<Rightarrow> reply \<Rightarrow> recovered res" where
  "recovered_from recovery_ref source_ref source_digest r =
     rbind (bad (re_records r \<noteq> None)) (\<lambda>_.
     rbind (check (re_recovery r = \<lparr>wr_recovery_ref = recovery_ref, wr_source_ref = source_ref,
       wr_source_digest = source_digest\<rparr>) ArtifactIntegrityError) (\<lambda>_.
     rbind (check (wv_output_digest (re_view r) = Some source_digest) ArtifactIntegrityError) (\<lambda>_.
     rbind (check (wv_output_ref (re_view r) \<in> {None, Some (output_name source_digest)})
       ArtifactIntegrityError) (\<lambda>_.
     as_protocol (mk_recovered (wv_text (re_view r)) source_ref source_digest recovery_ref)))))"

definition recover_request :: "pystr \<Rightarrow> pystr \<Rightarrow> pystr \<Rightarrow> pystr \<Rightarrow> json" where
  "recover_request path recovery_ref source_ref source_digest =
     JObj [(''schema_version'', JInt 1), (''transport_version'', JInt 1),
       (''engine_interface_version'', JStr ENGINE_INTERFACE_VERSION), (''path'', JStr path),
       (''recovery_ref'', JStr recovery_ref), (''source_ref'', JStr source_ref),
       (''source_digest'', JStr source_digest)]"

definition instance_recover ::
  "machine \<Rightarrow> client \<Rightarrow> pystr \<Rightarrow> pystr \<Rightarrow> pystr \<Rightarrow> pystr \<Rightarrow> pystr \<Rightarrow> client \<times> recovered res" where
  "instance_recover m c project_root path recovery_ref source_ref source_digest =
     (case rbind (validate_root m project_root) (\<lambda>root.
           rbind (safe_relative_path path) (\<lambda>rel.
           rbind (required_ref (JStr recovery_ref)) (\<lambda>_.
           rbind (required_ref (JStr source_ref)) (\<lambda>_.
           rbind (as_protocol (validate_digest source_digest)) (\<lambda>_. Inr (root, rel)))))) of
        Inl e \<Rightarrow> (c, Inl e)
      | Inr (root, rel) \<Rightarrow>
          (case invoke m c ''recover'' root
                  (recover_request rel recovery_ref source_ref source_digest) of
             (c', r) \<Rightarrow> (c', rbind r (recovered_from recovery_ref source_ref source_digest))))"

end
