(* ===== verification/Instance_Facts.thy ===== *)
theory Instance_Facts
  imports Instance_Client Ws_Demo
begin

text \<open>
  What the subprocess client promises: the loop over the pipes ends and keeps its bounds, a view it
  returns is bound to the plan's source and sealed when it succeeded, and a recovered text is the one
  the digest names.
\<close>

section \<open>The pipes\<close>

definition pump_measure :: "payload \<Rightarrow> pump \<Rightarrow> nat" where
  "pump_measure p s =
     (if pm_stdin s then Suc (length (pump_input p) - pm_sent s) else 0) +
     (if pm_out_open s then Suc (MAX_RESPONSE_BYTES - length (pm_out s)) else 0) +
     (if pm_err_open s then Suc (MAX_STDERR_BYTES - length (pm_err s)) else 0)"

definition pump_ok :: "payload \<Rightarrow> pump \<Rightarrow> bool" where
  "pump_ok p s \<longleftrightarrow>
     pm_sent s \<le> length (pump_input p) \<and> length (pm_out s) \<le> MAX_RESPONSE_BYTES \<and>
     length (pm_err s) \<le> MAX_STDERR_BYTES"

text \<open>An event that moves the loop on: bytes written or read, a pipe closed, or a failure.\<close>

fun progress :: "payload \<Rightarrow> pipe_event \<Rightarrow> pump \<Rightarrow> bool" where
  "progress p (StdinWritten n) s = (pm_stdin s \<and> (0 < n \<or> pm_sent s = length (pump_input p)))"
| "progress p StdinBlocked s = False"
| "progress p StdinBroken s = pm_stdin s"
| "progress p (StdoutChunk chunk) s = pm_out_open s"
| "progress p (StderrChunk chunk) s = pm_err_open s"
| "progress p PipeFailed s = True"

definition moved :: "payload \<Rightarrow> pump \<Rightarrow> pump \<Rightarrow> bool \<Rightarrow> bool" where
  "moved p s s' strict \<longleftrightarrow>
     pump_ok p s' \<and> pump_measure p s' \<le> pump_measure p s \<and>
     (strict \<longrightarrow> pump_measure p s' < pump_measure p s)"

lemma moved_refl: "pump_ok p s \<Longrightarrow> moved p s s False"
  by (simp add: moved_def)

lemma moved_trans: "moved p s t a \<Longrightarrow> moved p t u b \<Longrightarrow> moved p s u (a \<or> b)"
  by (auto simp: moved_def)

lemma feed_moved:
  assumes "pump_ok p s" "pm_stdin s" "pm_sent s \<le> n" "n \<le> length (pump_input p)"
  shows "moved p s (feed p n s) (pm_sent s < n \<or> n = length (pump_input p))"
  using assms by (auto simp: moved_def pump_ok_def pump_measure_def feed_def)

lemma read_out_moved:
  assumes "read_out chunk s = Inr s'" "pump_ok p s" "pm_out_open s"
  shows "moved p s s' True"
proof (cases "chunk = []")
  case True
  then show ?thesis
    using assms by (auto simp: read_out_def moved_def pump_ok_def pump_measure_def)
next
  case False
  define piece where "piece = take 65536 chunk"
  have "piece \<noteq> []"
    using False by (simp add: piece_def)
  then obtain k where "length piece = Suc k"
    by (cases piece) auto
  moreover have "s' = s\<lparr>pm_out := pm_out s @ piece\<rparr>" "length (pm_out s @ piece) \<le> MAX_RESPONSE_BYTES"
    using assms(1) False unfolding read_out_def piece_def [symmetric] Let_def
    by (simp_all add: rbind_eq_Inr_iff bad_Inr)
  ultimately show ?thesis
    using assms(2,3) by (auto simp: moved_def pump_ok_def pump_measure_def)
qed

lemma read_err_moved:
  assumes "read_err chunk s = Inr s'" "pump_ok p s" "pm_err_open s"
  shows "moved p s s' True"
proof (cases "chunk = []")
  case True
  then show ?thesis
    using assms by (auto simp: read_err_def moved_def pump_ok_def pump_measure_def)
next
  case False
  define piece where "piece = take 65536 chunk"
  have "piece \<noteq> []"
    using False by (simp add: piece_def)
  then obtain k where "length piece = Suc k"
    by (cases piece) auto
  moreover have "s' = s\<lparr>pm_err := pm_err s @ piece\<rparr>" "length (pm_err s @ piece) \<le> MAX_STDERR_BYTES"
    using assms(1) False unfolding read_err_def piece_def [symmetric] Let_def
    by (simp_all add: rbind_eq_Inr_iff bad_Inr)
  ultimately show ?thesis
    using assms(2,3) by (auto simp: moved_def pump_ok_def pump_measure_def)
qed

lemma pump_event_moved:
  assumes "pump_event p e s = Inr s'" "pump_ok p s"
  shows "moved p s s' (progress p e s)"
proof (cases e)
  case (StdinWritten n)
  show ?thesis
  proof (cases "pm_stdin s")
    case True
    define m where "m = pm_sent s + min n (min 512 (length (pump_input p) - pm_sent s))"
    have "pm_sent s \<le> m" "m \<le> length (pump_input p)" "s' = feed p m s"
      "0 < n \<Longrightarrow> pm_sent s < m \<or> m = length (pump_input p)"
      "pm_sent s = length (pump_input p) \<Longrightarrow> m = length (pump_input p)"
      using True assms StdinWritten by (auto simp: m_def pump_ok_def)
    then show ?thesis
      using feed_moved [OF assms(2) True, of m] StdinWritten by (auto simp: moved_def)
  next
    case False
    then show ?thesis
      using assms StdinWritten moved_refl by simp
  qed
next
  case StdinBroken
  then show ?thesis
    using assms feed_moved [OF assms(2), of "length (pump_input p)"] moved_refl [OF assms(2)]
    by (cases "pm_stdin s") (auto simp: pump_ok_def)
qed (use assms read_out_moved read_err_moved moved_refl in \<open>auto split: if_splits\<close>)

lemma pump_event_error: "pump_event p e s = Inl x \<Longrightarrow> x \<in> {InstanceProtocolError, InstanceExecutionError}"
  by (cases e) (auto simp: read_out_def read_err_def Let_def rbind_eq_Inl_iff bad_def check_eq_Inl_iff
      split: if_splits)

fun advances :: "payload \<Rightarrow> pipe_event list \<Rightarrow> pump \<Rightarrow> bool" where
  "advances p [] s = False"
| "advances p (e # es) s =
     (progress p e s \<or> (case pump_event p e s of Inl _ \<Rightarrow> True | Inr s' \<Rightarrow> advances p es s'))"

fun keeps_moving :: "payload \<Rightarrow> pipe_event list list \<Rightarrow> pump \<Rightarrow> bool" where
  "keeps_moving p [] s = True"
| "keeps_moving p (es # rounds) s =
     (pump_open s \<longrightarrow> advances p es s \<and>
        (case pump_events p es s of Inl _ \<Rightarrow> True | Inr s' \<Rightarrow> keeps_moving p rounds s'))"

lemma pump_events_moved:
  "pump_events p es s = Inr s' \<Longrightarrow> pump_ok p s \<Longrightarrow> moved p s s' (advances p es s)"
proof (induction es arbitrary: s)
  case (Cons e es)
  then obtain t where t: "pump_event p e s = Inr t" "pump_events p es t = Inr s'"
    by (auto simp: rbind_eq_Inr_iff)
  note first = pump_event_moved [OF t(1) Cons.prems(2)]
  then have "pump_ok p t"
    by (simp add: moved_def)
  from moved_trans [OF first Cons.IH [OF t(2) this]] t(1) show ?case
    by simp
qed (simp add: moved_refl)

lemma pump_events_error:
  "pump_events p es s = Inl x \<Longrightarrow> x \<in> {InstanceProtocolError, InstanceExecutionError}"
proof (induction es arbitrary: s)
  case (Cons e es)
  then show ?case
    using pump_event_error [of p e s x] by (auto simp: rbind_eq_Inl_iff)
qed simp

lemma pump_rounds_error:
  "pump_rounds p rounds s = Inl x \<Longrightarrow>
     x \<in> {InstanceTimeout, InstanceProtocolError, InstanceExecutionError}"
proof (induction rounds arbitrary: s)
  case (Cons es rounds)
  then show ?case
    using pump_events_error [of p es s x] by (auto simp: rbind_eq_Inl_iff split: if_splits)
qed (simp split: if_splits)

lemma pump_closed_measure: "pump_measure p s = 0 \<Longrightarrow> \<not> pump_open s"
  by (auto simp: pump_measure_def pump_open_def split: if_splits)

lemma pump_rounds_no_timeout:
  "keeps_moving p rounds s \<Longrightarrow> pump_ok p s \<Longrightarrow> pump_measure p s \<le> length rounds \<Longrightarrow>
     pump_rounds p rounds s \<noteq> Inl InstanceTimeout"
proof (induction rounds arbitrary: s)
  case Nil
  then show ?case
    using pump_closed_measure by simp
next
  case (Cons es rounds)
  show ?case
  proof (cases "pump_open s")
    case unfinished: True
    with Cons.prems(1) have adv: "advances p es s"
      by simp
    then have "es \<noteq> []"
      by auto
    show ?thesis
    proof (cases "pump_events p es s")
      case (Inl x)
      then have "x \<noteq> InstanceTimeout"
        using pump_events_error by blast
      with unfinished \<open>es \<noteq> []\<close> Inl show ?thesis
        by simp
    next
      case (Inr t)
      then have "pump_ok p t" "pump_measure p t < pump_measure p s"
        using pump_events_moved [OF _ Cons.prems(2)] adv by (auto simp: moved_def)
      then have "pump_rounds p rounds t \<noteq> Inl InstanceTimeout"
        using Cons.prems unfinished Inr by (intro Cons.IH) auto
      with unfinished \<open>es \<noteq> []\<close> Inr show ?thesis
        by simp
    qed
  qed simp
qed

lemma pump_start_ok: "pump_ok p (pump_start p)"
  by (simp add: pump_ok_def pump_start_def)

lemma pump_start_measure:
  "pump_measure p (pump_start p) \<le> length (pump_input p) + MAX_RESPONSE_BYTES + MAX_STDERR_BYTES + 3"
  by (simp add: pump_measure_def pump_start_def)

text \<open>
  C29. The loop over the pipes ends. Whatever a process writes, in whatever pieces, if every round of
  events moves something (a byte is written or read, or a pipe closes), the loop is over after at most
  as many rounds as there are bytes of input, 16 MiB of output, 64 KiB of errors and three pipes: it
  has collected everything or stopped at a bound, and never waits for its deadline.
\<close>

theorem pump_terminates:
  assumes "keeps_moving p rounds (pump_start p)"
    and "length (pump_input p) + MAX_RESPONSE_BYTES + MAX_STDERR_BYTES + 3 \<le> length rounds"
  shows "(\<exists>s. pump_rounds p rounds (pump_start p) = Inr s) \<or>
    (\<exists>e \<in> {InstanceProtocolError, InstanceExecutionError}. pump_rounds p rounds (pump_start p) = Inl e)"
proof -
  have "pump_rounds p rounds (pump_start p) \<noteq> Inl InstanceTimeout"
    using assms pump_start_measure [of p] by (intro pump_rounds_no_timeout pump_start_ok) auto
  then show ?thesis
    using pump_rounds_error [of p rounds "pump_start p"]
    by (cases "pump_rounds p rounds (pump_start p)") auto
qed


fun said_out :: "pipe_event list \<Rightarrow> pystr" where
  "said_out [] = []"
| "said_out (StdoutChunk chunk # es) = (if chunk = [] then [] else take 65536 chunk @ said_out es)"
| "said_out (_ # es) = said_out es"

fun said_err :: "pipe_event list \<Rightarrow> pystr" where
  "said_err [] = []"
| "said_err (StderrChunk chunk # es) = (if chunk = [] then [] else take 65536 chunk @ said_err es)"
| "said_err (_ # es) = said_err es"

lemma pump_events_append:
  "pump_events p (es @ fs) s = rbind (pump_events p es s) (pump_events p fs)"
proof (induction es arbitrary: s)
  case (Cons e es)
  then show ?case
    by (cases "pump_event p e s") simp_all
qed simp

lemma pump_event_out:
  "pump_event p e s = Inr s' \<Longrightarrow>
     pm_out s' = pm_out s @ (if pm_out_open s then said_out [e] else []) \<and>
     pm_out_open s' = (pm_out_open s \<and> e \<noteq> StdoutChunk [])"
  by (cases e) (auto simp: read_out_def read_err_def feed_def Let_def rbind_eq_Inr_iff split: if_splits)

lemma pump_event_err:
  "pump_event p e s = Inr s' \<Longrightarrow>
     pm_err s' = pm_err s @ (if pm_err_open s then said_err [e] else []) \<and>
     pm_err_open s' = (pm_err_open s \<and> e \<noteq> StderrChunk [])"
  by (cases e) (auto simp: read_out_def read_err_def feed_def Let_def rbind_eq_Inr_iff split: if_splits)

lemma said_Cons:
  "said_out (e # es) = (if e = StdoutChunk [] then [] else said_out [e] @ said_out es)"
  "said_err (e # es) = (if e = StderrChunk [] then [] else said_err [e] @ said_err es)"
  by (cases e; simp)+

lemma said_end: "said_out [StdoutChunk []] = []" "said_err [StderrChunk []] = []"
  by simp_all

lemma pump_events_said:
  "pump_events p es s = Inr s' \<Longrightarrow>
     pm_out s' = pm_out s @ (if pm_out_open s then said_out es else []) \<and>
     pm_err s' = pm_err s @ (if pm_err_open s then said_err es else [])"
proof (induction es arbitrary: s)
  case (Cons e es)
  then obtain t where t: "pump_event p e s = Inr t" "pump_events p es t = Inr s'"
    by (auto simp: rbind_eq_Inr_iff)
  from Cons.IH [OF t(2)] pump_event_out [OF t(1)] pump_event_err [OF t(1)] show ?case
    unfolding said_Cons [of e es] by (auto simp: said_end simp del: said_out.simps said_err.simps)
qed simp

lemma pump_rounds_events:
  "pump_rounds p rounds s = Inr s' \<Longrightarrow>
     \<exists>k. pump_events p (concat (take k rounds)) s = Inr s' \<and> \<not> pump_open s'"
proof (induction rounds arbitrary: s)
  case Nil
  then show ?case
    by (auto split: if_splits)
next
  case (Cons es rounds)
  show ?case
  proof (cases "pump_open s")
    case True
    then obtain t where t: "pump_events p es s = Inr t" "pump_rounds p rounds t = Inr s'"
      using Cons.prems by (auto simp: rbind_eq_Inr_iff split: if_splits)
    obtain k where "pump_events p (concat (take k rounds)) t = Inr s'" "\<not> pump_open s'"
      using Cons.IH [OF t(2)] by blast
    then show ?thesis
      using t(1) by (intro exI [of _ "Suc k"]) (simp add: pump_events_append)
  next
    case False
    then show ?thesis
      using Cons.prems by (intro exI [of _ 0]) simp
  qed
qed

lemma collect_Inr:
  "collect c p = Inr (out, err, code) \<longleftrightarrow>
     ch_code c = Some code \<and>
     (\<exists>s. pump_rounds p (ch_rounds c) (pump_start p) = Inr s \<and> out = pm_out s \<and> err = pm_err s)"
  by (auto simp: collect_def on_err_eq_Inr_iff rbind_eq_Inr_iff of_option_eq_Inr_iff)

text \<open>When the loop is over every stream has ended: what comes later is not part of it.\<close>

lemma pump_events_ended:
  "pump_events p es s = Inr s' \<Longrightarrow>
     pm_out_open s' = (pm_out_open s \<and> StdoutChunk [] \<notin> set es) \<and>
     pm_err_open s' = (pm_err_open s \<and> StderrChunk [] \<notin> set es)"
proof (induction es arbitrary: s)
  case (Cons e es)
  then obtain t where t: "pump_event p e s = Inr t" "pump_events p es t = Inr s'"
    by (auto simp: rbind_eq_Inr_iff)
  from Cons.IH [OF t(2)] pump_event_out [OF t(1)] pump_event_err [OF t(1)] show ?case
    by auto
qed simp

lemma said_ended:
  "StdoutChunk [] \<in> set es \<Longrightarrow> said_out (es @ fs) = said_out es"
  "StderrChunk [] \<in> set es \<Longrightarrow> said_err (es @ fs) = said_err es"
proof (induction es)
  case (Cons e es)
  {
    case 1
    then show ?case using Cons.IH(1) by (cases e) auto
  next
    case 2
    then show ?case using Cons.IH(2) by (cases e) auto
  }
qed simp_all

text \<open>The bytes of the input the process accepted.\<close>

fun accepted :: "pipe_event \<Rightarrow> nat" where
  "accepted (StdinWritten n) = min n 512"
| "accepted _ = 0"

lemma pump_events_fed:
  "pump_events p es s = Inr s' \<Longrightarrow> pump_ok p s \<Longrightarrow> pm_stdin s \<Longrightarrow> \<not> pm_stdin s' \<Longrightarrow>
     StdinBroken \<in> set es \<or> length (pump_input p) \<le> pm_sent s + sum_list (map accepted es)"
proof (induction es arbitrary: s)
  case (Cons e es)
  then obtain t where t: "pump_event p e s = Inr t" "pump_events p es t = Inr s'"
    by (auto simp: rbind_eq_Inr_iff)
  have ok: "pump_ok p t"
    using pump_event_moved [OF t(1) Cons.prems(2)] by (simp add: moved_def)
  have step: "e = StdinBroken \<or> pm_sent t \<le> pm_sent s + accepted e \<and>
      (pm_stdin t \<or> pm_sent t = length (pump_input p))"
    using t(1) Cons.prems(3)
    by (cases e) (auto simp: feed_def read_out_def read_err_def Let_def rbind_eq_Inr_iff split: if_splits)
  show ?case
  proof (cases "pm_stdin t")
    case True
    from Cons.IH [OF t(2) ok True Cons.prems(4)] step show ?thesis by auto
  next
    case False
    then show ?thesis using step by auto
  qed
qed simp

lemma ended_rounds:
  "StdoutChunk [] \<in> set (concat (take k rounds)) \<Longrightarrow> said_out (concat rounds) = said_out (concat (take k rounds))"
  "StderrChunk [] \<in> set (concat (take k rounds)) \<Longrightarrow> said_err (concat rounds) = said_err (concat (take k rounds))"
  using said_ended [of "concat (take k rounds)" "concat (drop k rounds)"]
  by (simp_all flip: concat_append)

text \<open>
  C30. The output of a run is what the process wrote. When a run is collected, the standard output is
  all the pieces the process wrote up to the end of that stream, in order and nothing else, and so is
  the error stream; they hold at most 16 MiB and 64 KiB. After the rounds the loop took, both streams have ended
  and the process has accepted its whole input or closed that pipe; and the exit code is the one of the process.
\<close>

theorem run_output_exact:
  assumes "collect c p = Inr (out, err, code)"
  shows "out = said_out (concat (ch_rounds c)) \<and> err = said_err (concat (ch_rounds c)) \<and>
    length out \<le> MAX_RESPONSE_BYTES \<and> length err \<le> MAX_STDERR_BYTES \<and> ch_code c = Some code \<and>
    (\<exists>k. StdoutChunk [] \<in> set (concat (take k (ch_rounds c))) \<and>
       StderrChunk [] \<in> set (concat (take k (ch_rounds c))) \<and>
       (StdinBroken \<in> set (concat (take k (ch_rounds c))) \<or>
        length (pump_input p) \<le> sum_list (map accepted (concat (take k (ch_rounds c))))))"
proof -
  obtain s k where s: "pump_events p (concat (take k (ch_rounds c))) (pump_start p) = Inr s" "\<not> pump_open s"
    "out = pm_out s" "err = pm_err s" "ch_code c = Some code"
    using assms pump_rounds_events unfolding collect_Inr by blast
  let ?es = "concat (take k (ch_rounds c))"
  have ended: "StdoutChunk [] \<in> set ?es" "StderrChunk [] \<in> set ?es"
    using pump_events_ended [OF s(1)] s(2) by (simp_all add: pump_start_def pump_open_def)
  have "StdinBroken \<in> set ?es \<or> length (pump_input p) \<le> sum_list (map accepted ?es)"
  proof (cases p)
    case (ByPipe x)
    then show ?thesis
      using pump_events_fed [OF s(1) pump_start_ok] s(2) by (auto simp: pump_start_def pump_open_def)
  qed (simp add: pump_input_def)
  then show ?thesis
    using pump_events_said [OF s(1)] pump_events_moved [OF s(1) pump_start_ok] s(3-5) ended
      ended_rounds(1) [OF ended(1)] ended_rounds(2) [OF ended(2)]
    by (auto simp: pump_start_def moved_def pump_ok_def simp del: set_concat map_concat)
qed

definition demo_rounds :: "pipe_event list list" where
  "demo_rounds =
     [[StdinWritten 2, StdoutChunk ''ok''], [StderrChunk []], [StdinBlocked, StdoutChunk []]]"

definition demo_child :: child where
  "demo_child = \<lparr>ch_rounds = demo_rounds, ch_code = Some 0, ch_reapable = True\<rparr>"

lemma pump_closed:
  "\<not> pump_open s \<Longrightarrow> keeps_moving p rounds s" "\<not> pump_open s \<Longrightarrow> pump_rounds p rounds s = Inr s"
  by (cases rounds; simp)+

lemma demo_moves:
  "keeps_moving (ByPipe ''{}'') (demo_rounds @ rounds) (pump_start (ByPipe ''{}''))"
  "pump_rounds (ByPipe ''{}'') (demo_rounds @ rounds) (pump_start (ByPipe ''{}'')) =
     Inr \<lparr>pm_sent = 2, pm_stdin = False, pm_out = ''ok'', pm_out_open = False, pm_err = [],
       pm_err_open = False\<rparr>"
  by (simp_all add: demo_rounds_def pump_start_def pump_input_def feed_def read_out_def pump_closed
      read_err_def bad_def MAX_RESPONSE_BYTES_def pump_open_def numeral_2_eq_2)

lemma run_output_exact_witness:
  "collect demo_child (ByPipe ''{}'') = Inr (''ok'', [], 0) \<and>
   ''ok'' = said_out (concat demo_rounds)"
proof -
  have "collect demo_child (ByPipe ''{}'') = Inr (''ok'', [], 0)"
    using demo_moves(2) [of "[]"] by (simp add: collect_Inr demo_child_def)
  with run_output_exact [OF this] show ?thesis
    by (auto simp: demo_child_def)
qed

lemma pump_terminates_witness:
  "\<exists>rounds s. keeps_moving (ByPipe ''{}'') rounds (pump_start (ByPipe ''{}'')) \<and>
     pump_rounds (ByPipe ''{}'') rounds (pump_start (ByPipe ''{}'')) = Inr s"
proof -
  let ?rounds = "demo_rounds @ replicate (2 + MAX_RESPONSE_BYTES + MAX_STDERR_BYTES + 3) []"
  have "length (pump_input (ByPipe ''{}'')) + MAX_RESPONSE_BYTES + MAX_STDERR_BYTES + 3 \<le> length ?rounds"
    by (simp add: pump_input_def)
  from pump_terminates [OF demo_moves(1) this] demo_moves show ?thesis
    by fastforce
qed

end
