(* ===== verification/View_Facts.thy ===== *)
theory View_Facts
  imports Instance_Facts Protocol_Facts
begin

text \<open>
  What a view of the subprocess client says: it is of the plan's source, its records belong together, and
  a text with a digest is the one the digest names.
\<close>

section \<open>Replies\<close>

definition records_ok :: "pystr option \<Rightarrow> invocation \<times> observation \<Rightarrow> bool" where
  "records_ok d r \<longleftrightarrow>
     (let (i, ob) = r in
      ob_id ob = iv_id i \<and> ob_lineage ob = iv_source_refs i \<and> iv_input_ref i \<in> set (iv_source_refs i) \<and>
      ob_output_digest ob = d \<and>
      (ob_status ob \<in> {''succeeded'', ''degraded''} \<longrightarrow> ob_failure ob = None) \<and>
      (ob_status ob = ''succeeded'' \<longrightarrow> ob_receipt_link ob \<noteq> None))"

definition reply_ok :: "reply \<Rightarrow> bool" where
  "reply_ok r \<longleftrightarrow>
     pred_option (\<lambda>d. d = sha256_ref (wv_text (re_view r))) (wv_output_digest (re_view r)) \<and>
     pred_option (records_ok (wv_output_digest (re_view r))) (re_records r)"

lemma parse_view_Inr:
  "parse_view v = Inr w \<Longrightarrow> pred_option (\<lambda>d. d = sha256_ref (wv_text w)) (wv_output_digest w)"
  unfolding parse_view_def rbind_eq_Inr_iff bad_Inr sha256_digest_def
  by (elim exE conjE, simp only: sum.inject, hypsubst)
    (simp only: wire_view.select_convs split: option.splits, simp_all)

lemma parse_invocation_Inr: "parse_invocation v = Inr i \<Longrightarrow> iv_input_ref i \<in> set (iv_source_refs i)"
  unfolding parse_invocation_def rbind_eq_Inr_iff bad_Inr Let_def
  by (elim exE conjE, simp only: sum.inject, hypsubst) (simp only: invocation.select_convs not_not)

lemma parse_observation_Inr:
  "parse_observation v n = Inr ob \<Longrightarrow>
     ob_id ob = n \<and> (ob_status ob \<in> {''succeeded'', ''degraded''} \<longrightarrow> ob_failure ob = None) \<and>
     (ob_status ob = ''succeeded'' \<longrightarrow> ob_receipt_link ob \<noteq> None)"
  unfolding parse_observation_def rbind_eq_Inr_iff bad_Inr check_status_Inr
  by (elim exE conjE, simp only: sum.inject, hypsubst) (simp only: observation.select_convs not_not simp_thms)

lemma parse_records_Inr:
  assumes "parse_records a b w = Inr rs"
  shows "pred_option (records_ok (wv_output_digest w)) rs"
proof (cases rs)
  case (Some r)
  then obtain i ob where r: "rs = Some (i, ob)"
    by (cases r) simp
  then have "parse_invocation a = Inr i" and ob: "parse_observation b (iv_id i) = Inr ob"
    and rest: "ob_lineage ob = iv_source_refs i" "ob_output_digest ob = wv_output_digest w"
    using assms by (auto simp: parse_records_def rbind_eq_Inr_iff bad_Inr split: if_splits)
  then show ?thesis
    unfolding r records_ok_def option.pred_inject Let_def prod.case
    using parse_invocation_Inr parse_observation_Inr [OF ob] by blast
qed simp

lemma parse_response_Inr:
  assumes "parse_response raw = Inr r"
  shows "reply_ok r"
proof -
  obtain v a b where "parse_view v = Inr (re_view r)" "parse_records a b (re_view r) = Inr (re_records r)"
    using assms unfolding parse_response_def rbind_eq_Inr_iff by auto
  then show ?thesis
    unfolding reply_ok_def using parse_view_Inr parse_records_Inr by blast
qed

section \<open>Views\<close>

lemma view_checked:
  "check_view v = Inr w \<Longrightarrow> w = v \<and> vw_status v \<in> set instance_statuses"
  by (auto simp: check_view_def rbind_eq_Inr_iff check_eq_Inr_iff)

lemma build_view_Inr:
  assumes "build_view source w i ob recovery = Inr v"
  shows "vw_source v = source \<and> vw_text v = Some (wv_text w) \<and> vw_output_digest v = wv_output_digest w \<and>
    vw_source_ref v = wr_source_ref recovery \<and> vw_source_digest v = wr_source_digest recovery \<and>
    vw_status v = ob_status ob \<and> vw_failure v = ob_failure ob \<and> vw_receipt_link v = ob_receipt_link ob \<and>
    vw_invocation v = invocation_json i \<and> vw_observation v = observation_json ob \<and>
    vw_status v \<in> set instance_statuses \<and> (vw_status v = ''succeeded'' \<longrightarrow> view_verify v) \<and>
    vw_source_ref v \<in> set (iv_source_refs i)"
proof -
  let ?w = "\<lparr>vw_source = source, vw_text = Some (wv_text w), vw_output_ref = wv_output_ref w,
      vw_output_digest = wv_output_digest w, vw_source_ref = wr_source_ref recovery,
      vw_source_digest = wr_source_digest recovery, vw_recovery_ref = Some (wr_recovery_ref recovery),
      vw_status = ob_status ob, vw_measurements = ob_measurements ob, vw_failure = ob_failure ob,
      vw_receipt_link = ob_receipt_link ob, vw_invocation = invocation_json i,
      vw_observation = observation_json ob, vw_interface_version = ENGINE_INTERFACE_VERSION\<rparr>"
  have "wr_source_ref recovery \<in> set (iv_source_refs i)" "check_view ?w = Inr v"
    "vw_status v = ''succeeded'' \<longrightarrow> view_verify v"
    using assms unfolding build_view_def rbind_eq_Inr_iff bad_Inr check_eq_Inr_iff as_protocol_Inr by auto
  moreover from this(2) have "v = ?w" "vw_status v \<in> set instance_statuses"
    using view_checked by (blast, metis)
  ultimately show ?thesis
    by simp
qed

text \<open>
  C36. A view is of the plan's source, and its records belong to it. If \<open>view\<close> returns, the source is the
  plan's and the pinned reference and digest of that source, where it has them, are the ones that were
  read; the reference is one of the sources the invocation admitted, and the observation is of that
  invocation, its lineage and the text that came with it; a digest of the output is the SHA-256 of the
  text. A failed or rejected observation never comes back as a view, and one that succeeded has a
  receipt and passes its own check.
\<close>

theorem view_of_plan:
  assumes "instance_view m c plan = (c', Inr v)"
  shows "vw_source v = pl_source plan \<and>
    pred_option (\<lambda>r. r = vw_source_ref v) (cs_ref (pl_source plan)) \<and>
    pred_option (\<lambda>d. d = vw_source_digest v) (cs_digest (pl_source plan)) \<and>
    (\<exists>i ob. vw_invocation v = invocation_json i \<and> vw_observation v = observation_json ob \<and>
       records_ok (vw_output_digest v) (i, ob) \<and> vw_source_ref v \<in> set (iv_source_refs i) \<and>
       vw_status v = ob_status ob \<and> vw_receipt_link v = ob_receipt_link ob) \<and>
    (\<exists>t. vw_text v = Some t \<and> pred_option (\<lambda>d. d = sha256_ref t) (vw_output_digest v)) \<and>
    vw_status v \<in> {''succeeded'', ''degraded''} \<and> (vw_status v = ''succeeded'' \<longrightarrow> view_verify v)"
proof -
  let ?s = "pl_source plan"
  obtain raw r where "parse_response raw = Inr r" and bound: "bound_view ?s r = Inr v"
    using assms
    by (auto simp: instance_view_def invoke_def Let_def rbind_eq_Inr_iff split: sum.splits prod.splits)
  then have r: "reply_ok r"
    using parse_response_Inr by blast
  obtain i ob where records: "re_records r = Some (i, ob)"
    using bound by (auto simp: bound_view_def split: option.splits)
  have pins: "cs_ref ?s \<noteq> None \<longrightarrow> cs_ref ?s = Some (wr_source_ref (re_recovery r))"
    "cs_digest ?s \<noteq> None \<longrightarrow> cs_digest ?s = Some (wr_source_digest (re_recovery r))"
    and built: "\<exists>w. build_view ?s (re_view r) i ob (re_recovery r) = Inr w \<and> view_outcome w = Inr v"
    using bound unfolding bound_view_def records option.case prod.case Let_def rbind_eq_Inr_iff bad_Inr
    by blast+
  have v: "build_view ?s (re_view r) i ob (re_recovery r) = Inr v"
    "vw_status v \<noteq> ''failed''" "vw_status v \<noteq> ''rejected''"
    using built by (auto simp: view_outcome_def split: if_splits)
  note this' = build_view_Inr [OF v(1)]
  have "vw_status v \<in> {''succeeded'', ''degraded''}"
    using this' v(2,3) by (auto simp: instance_statuses_def)
  moreover have "records_ok (vw_output_digest v) (i, ob)"
    "pred_option (\<lambda>d. d = sha256_ref (wv_text (re_view r))) (vw_output_digest v)"
    using r this' unfolding reply_ok_def records by simp_all
  moreover have "pred_option (\<lambda>r. r = vw_source_ref v) (cs_ref ?s)"
    "pred_option (\<lambda>d. d = vw_source_digest v) (cs_digest ?s)"
    using pins this' by (cases "cs_ref ?s"; cases "cs_digest ?s"; simp)+
  ultimately show ?thesis
    using this' by blast
qed

section \<open>An instance that answers\<close>

definition shown_invocation :: invocation where
  "shown_invocation =
     \<lparr>iv_id = ''n'', iv_engine_version = ''3.1.0'', iv_input_ref = ''src:1'',
      iv_input_digest = sha256_ref ''src'', iv_source_refs = [''src:1''], iv_policy_ref = ''y'',
      iv_decision = ''admitted''\<rparr>"

definition shown_link :: receipt_link where
  "shown_link =
     \<lparr>rl_id = ''r'', rl_ref = ''receipt:'' @ sha256_ref ''r'', rl_digest = sha256_ref ''r'',
      rl_invocation_id = ''n''\<rparr>"

definition shown_name :: pystr where "shown_name = ''output:'' @ sha256_hex ''ok''"

definition shown_observation :: observation where
  "shown_observation =
     \<lparr>ob_id = ''n'', ob_status = ''succeeded'', ob_output_ref = Some shown_name,
      ob_output_digest = Some (sha256_ref ''ok''), ob_lineage = [''src:1''], ob_measurements = [],
      ob_failure = None, ob_receipt_link = Some shown_link\<rparr>"

definition shown_invocation_doc :: json where
  "shown_invocation_doc =
     JObj [(''engine'', JObj [(''engine_id'', JStr ''lean-ctx-local''), (''engine_version'', JStr ''3.1.0'')]),
       (''input_digest'', JStr (sha256_ref ''src'')), (''input_ref'', JStr ''src:1''),
       (''invocation_id'', JStr ''n''),
       (''operation'', JObj [(''capability_id'', JStr CAPABILITY_ID), (''capability_version'', JStr ''1.0.0'')]),
       (''policy_admission'', JObj [(''decision'', JStr ''admitted''), (''policy_ref'', JStr ''y'')]),
       (''schema_version'', JInt 1), (''source_refs'', JArr [JStr ''src:1''])]"

definition shown_link_doc :: json where
  "shown_link_doc =
     JObj [(''invocation_id'', JStr ''n''), (''receipt_digest'', JStr (sha256_ref ''r'')),
       (''receipt_id'', JStr ''r''), (''receipt_ref'', JStr (''receipt:'' @ sha256_ref ''r'')),
       (''schema_version'', JInt 1)]"

definition shown_observation_doc :: json where
  "shown_observation_doc =
     JObj [(''invocation_id'', JStr ''n''), (''measurements'', JArr []),
       (''output_digest'', JStr (sha256_ref ''ok'')), (''output_ref'', JStr shown_name),
       (''receipt_link'', shown_link_doc), (''schema_version'', JInt 1),
       (''source_lineage'', JArr [JStr ''src:1'']), (''status'', JStr ''succeeded'')]"

definition shown_reply_doc :: json where
  "shown_reply_doc =
     JObj [(''engine_interface_version'', JStr ENGINE_INTERFACE_VERSION), (''invocation'', shown_invocation_doc),
       (''observation'', shown_observation_doc),
       (''recovery'', JObj [(''recovery_ref'', JStr ''rec:1''), (''source_digest'', JStr (sha256_ref ''src'')),
          (''source_ref'', JStr ''src:1'')]),
       (''schema_version'', JInt 1), (''transport_version'', JInt 1),
       (''view'', JObj [(''output_digest'', JStr (sha256_ref ''ok'')), (''output_ref'', JStr shown_name),
          (''text'', JStr ''ok'')])]"

definition shown_reply :: reply where
  "shown_reply =
     \<lparr>re_view = \<lparr>wv_text = ''ok'', wv_output_ref = Some shown_name,
        wv_output_digest = Some (sha256_ref ''ok'')\<rparr>,
      re_records = Some (shown_invocation, shown_observation),
      re_recovery = \<lparr>wr_recovery_ref = ''rec:1'', wr_source_ref = ''src:1'',
        wr_source_digest = sha256_ref ''src''\<rparr>\<rparr>"

lemma output_ref_text: "prefixed_hex ''output:'' 64 s \<Longrightarrow> printable_ascii s \<and> length s = 71"
  by (auto simp: prefixed_hex_decomp printable_ascii_def list_all_iff is_hex_def) force+

lemma shown_texts [simp]:
  "is_digest (sha256_ref s)" "utf8_valid (sha256_ref s)" "encodable (sha256_ref s)"
  "length (sha256_ref s) = 71" "prefixed_hex ''output:'' 64 shown_name" "utf8_valid shown_name"
  "encodable shown_name" "length shown_name = 71"
  "optional_output_ref (JStr shown_name) = Inr (Some shown_name)" "output_name (sha256_ref ''ok'') = shown_name"
proof -
  show "is_digest (sha256_ref s)" "utf8_valid (sha256_ref s)" "encodable (sha256_ref s)"
    "length (sha256_ref s) = 71"
    using printable_strict [OF sha256_ref_printable [of s]] digest_length [OF is_digest_sha256_ref [of s]]
    by (simp_all add: strict_utf8_def is_digest_sha256_ref)
  show hex: "prefixed_hex ''output:'' 64 shown_name"
    by (auto simp: shown_name_def prefixed_hex_decomp sha256_hex_shape)
  then have "printable_ascii shown_name" "length shown_name = 71"
    using output_ref_text by blast+
  then show "utf8_valid shown_name" "encodable shown_name" "length shown_name = 71"
    using printable_strict by (simp_all add: strict_utf8_def)
  show "optional_output_ref (JStr shown_name) = Inr (Some shown_name)"
    using hex by (simp add: optional_output_ref_Inr)
  show "output_name (sha256_ref ''ok'') = shown_name"
    by (simp add: output_name_def shown_name_def remove_prefix_def starts_with_def sha256_ref_def)
qed

lemma shown_tail [simp]: "utf8_valid (CHR '':'' # sha256_ref s)" "encodable (CHR '':'' # sha256_ref s)"
  using printable_strict [of "CHR '':'' # sha256_ref s"] sha256_ref_printable [of s]
  by (simp_all add: strict_utf8_def printable_ascii_def)

lemma shown_refs [simp]:
  "required_ref (JStr ''src:1'') = Inr ''src:1''" "required_ref (JStr ''rec:1'') = Inr ''rec:1''"
  "required_ref (JStr ''y'') = Inr ''y''" "required_ref (JStr ''r'') = Inr ''r''"
  "required_ref (JStr (''receipt:'' @ sha256_ref ''r'')) = Inr (''receipt:'' @ sha256_ref ''r'')"
  subgoal by code_simp
  subgoal by code_simp
  subgoal by code_simp
  subgoal by code_simp
  subgoal
    using sha256_ref_printable [of "''r''"] by (simp add: required_ref_Inr printable_ascii_def)
  done

lemma shown_invocation_read: "parse_invocation shown_invocation_doc = Inr shown_invocation"
proof -
  have "engine_of (JObj [(''engine_id'', JStr ''lean-ctx-local''), (''engine_version'', JStr ''3.1.0'')]) =
      Inr ''3.1.0''"
    "operation_of (JObj [(''capability_id'', JStr CAPABILITY_ID), (''capability_version'', JStr ''1.0.0'')]) =
      Inr ()"
    "set_member [''admitted'', ''rejected''] (JStr ''admitted'') = Inr ''admitted''"
    "wire_string MAX_REF_BYTES (JStr ''n'') = Inr ''n''"
    by code_simp+
  moreover have "required_digest (JStr (sha256_ref ''src'')) = Inr (sha256_ref ''src'')"
    by (simp add: required_digest_Inr)
  moreover have "reference_list (JArr [JStr ''src:1'']) = Inr [''src:1'']"
    by (simp add: reference_list_def bad_def MAX_REFS_def)
  ultimately show ?thesis
    by (simp add: parse_invocation_def shown_invocation_doc_def has_fields_def jkeys_def bad_def int_of_def
        shown_invocation_def Let_def)
qed

lemma shown_link_read: "parse_receipt_link shown_link_doc ''n'' = Inr (Some shown_link)"
proof -
  have "optional_digest (JStr (sha256_ref ''r'')) = Inr (Some (sha256_ref ''r''))"
    by (simp add: optional_digest_Inr)
  moreover have "wire_string MAX_REF_BYTES (JStr ''n'') = Inr ''n''" "ptext MAX_REF_BYTES True ''n'' = Inr ''n''"
    "validate_ref ''r'' = Inr ''r''"
    by code_simp+
  moreover have "validate_ref (''receipt:'' @ sha256_ref ''r'') = Inr (''receipt:'' @ sha256_ref ''r'')"
    using sha256_ref_printable [of "''r''"] by (simp add: validate_ref_Inr printable_ascii_def)
  moreover have "validate_digest (sha256_ref ''r'') = Inr (sha256_ref ''r'')"
    by (simp add: validate_digest_Inr)
  moreover have "mk_receipt_link (JInt 1) (JStr ''r'') (JStr (''receipt:'' @ sha256_ref ''r''))
      (JStr (sha256_ref ''r'')) (JStr ''n'') = Inr shown_link"
    using calculation by (simp add: mk_receipt_link_def on_str_def shown_link_def)
  ultimately show ?thesis
    using shown_refs
    by (simp add: parse_receipt_link_def shown_link_doc_def has_fields_def jkeys_def bad_def int_of_def)
qed

lemma shown_observation_read: "parse_observation shown_observation_doc ''n'' = Inr shown_observation"
proof -
  have "wire_string MAX_REF_BYTES (JStr ''n'') = Inr ''n''"
    "set_member instance_statuses (JStr ''succeeded'') = Inr ''succeeded''"
    by code_simp+
  moreover have "reference_list (JArr [JStr ''src:1'']) = Inr [''src:1'']"
    by (simp add: reference_list_def bad_def MAX_REFS_def)
  moreover have "optional_digest (JStr (sha256_ref ''ok'')) = Inr (Some (sha256_ref ''ok''))"
    by (simp add: optional_digest_Inr)
  moreover have "measurements_of (JArr []) = Inr []"
    by code_simp
  moreover have "validate_pair (Some shown_name) (Some (sha256_ref ''ok'')) = Inr ()"
    by (simp add: validate_pair_Inr)
  ultimately show ?thesis
    using shown_link_read
    by (simp add: parse_observation_def shown_observation_doc_def has_fields_def jkeys_def bad_def int_of_def
        parse_failure_def check_status_def shown_observation_def)
qed

lemma shown_reply_ok: "json_ok shown_reply_doc" "jsort shown_reply_doc = shown_reply_doc"
  by (simp_all add: shown_reply_doc_def shown_invocation_doc_def shown_observation_doc_def shown_link_doc_def
      ENGINE_INTERFACE_VERSION_def CAPABILITY_ID_def)

lemma shown_reply_short: "length (dumps shown_reply_doc) \<le> 20000"
proof -
  have "length (int_text 1) = 1"
    by code_simp
  then have "weight shown_reply_doc \<le> 20000"
    by (simp add: shown_reply_doc_def shown_invocation_doc_def shown_observation_doc_def shown_link_doc_def
        ENGINE_INTERFACE_VERSION_def CAPABILITY_ID_def)
  then show ?thesis
    using length_dumps le_trans by blast
qed

lemma shown_reply_read: "parse_response (dumps shown_reply_doc) = Inr shown_reply"
proof -
  have "strict_json_loads (dumps shown_reply_doc) = Inr shown_reply_doc"
    using strict_loads_canonical [OF shown_reply_ok(1)] shown_reply_ok
    by (simp add: canonical_bytes_def canonical_json_ok shown_reply_doc_def)
  then have doc: "reply_document MAX_RESPONSE_BYTES (dumps shown_reply_doc) = Inr shown_reply_doc"
    using shown_reply_short by (simp add: reply_document_def bad_def MAX_RESPONSE_BYTES_def del: dumps.simps)
  have "parse_view (jat ''view'' shown_reply_doc) = Inr (re_view shown_reply)"
  proof -
    have "wire_string MAX_TEXT_BYTES (JStr ''ok'') = Inr ''ok''"
      by (simp add: wire_string_Inr strict_utf8_def MAX_TEXT_BYTES_def has_nul_def)
    moreover have "optional_digest (JStr (sha256_ref ''ok'')) = Inr (Some (sha256_ref ''ok''))"
      by (simp add: optional_digest_Inr)
    moreover have "validate_pair (Some shown_name) (Some (sha256_ref ''ok'')) = Inr ()"
      by (simp add: validate_pair_Inr)
    ultimately show ?thesis
      by (simp add: shown_reply_doc_def parse_view_def has_fields_def jkeys_def bad_def sha256_digest_def
          shown_reply_def)
  qed
  moreover have "parse_recovery (jat ''recovery'' shown_reply_doc) = Inr (re_recovery shown_reply)"
  proof -
    have "required_digest (JStr (sha256_ref ''src'')) = Inr (sha256_ref ''src'')"
      by (simp add: required_digest_Inr)
    then show ?thesis
      by (simp add: shown_reply_doc_def parse_recovery_def has_fields_def jkeys_def bad_def shown_reply_def)
  qed
  moreover have "parse_records shown_invocation_doc shown_observation_doc (re_view shown_reply) =
      Inr (re_records shown_reply)"
  proof -
    have "shown_invocation_doc \<noteq> JNull" "shown_observation_doc \<noteq> JNull" "iv_id shown_invocation = ''n''"
      by (simp_all add: shown_invocation_doc_def shown_observation_doc_def shown_invocation_def)
    then show ?thesis
      by (simp add: parse_records_def shown_invocation_read shown_observation_read)
        (simp add: shown_reply_def shown_observation_def shown_invocation_def bad_def)
  qed
  moreover have "jat ''invocation'' shown_reply_doc = shown_invocation_doc"
    "jat ''observation'' shown_reply_doc = shown_observation_doc"
    "jat ''schema_version'' shown_reply_doc = JInt 1" "jat ''transport_version'' shown_reply_doc = JInt 1"
    "jat ''engine_interface_version'' shown_reply_doc = JStr ENGINE_INTERFACE_VERSION"
    "has_fields [''schema_version'', ''transport_version'', ''engine_interface_version'', ''view'',
       ''invocation'', ''observation'', ''recovery''] [] shown_reply_doc = Inr ()"
    by (simp_all add: shown_reply_doc_def has_fields_def jkeys_def bad_def)
  ultimately show ?thesis
    using doc by (simp add: parse_response_def int_of_def version_mismatch_def shown_reply_def del: dumps.simps)
qed

definition shown_child :: child where
  "shown_child =
     \<lparr>ch_rounds = [[StdoutChunk (dumps shown_reply_doc)], [StdoutChunk [], StderrChunk []]],
      ch_code = Some 0, ch_reapable = True\<rparr>"

definition shown_machine :: machine where
  "shown_machine =
     \<lparr>m_cwd = ''/p'', m_isdir = (\<lambda>d. d = ''/p''), m_which = (\<lambda>_. Some ''/bin/lean-ctx''),
      m_executable = (\<lambda>b. b = ''/bin/lean-ctx''), m_temp = (\<lambda>_. Some ''/p/q''),
      m_spawn = (\<lambda>argv p. Some shown_child)\<rparr>"

lemma shown_collected: "collect shown_child (ByFile content) = Inr (dumps shown_reply_doc, [], 0)"
proof -
  have "take 65536 (dumps shown_reply_doc) = dumps shown_reply_doc" "dumps shown_reply_doc \<noteq> []"
    "\<not> length (dumps shown_reply_doc) > MAX_RESPONSE_BYTES"
    using shown_reply_short by (simp_all add: MAX_RESPONSE_BYTES_def del: dumps.simps)
      (simp add: shown_reply_doc_def)
  then have "pump_rounds (ByFile content) (ch_rounds shown_child) (pump_start (ByFile content)) =
      Inr \<lparr>pm_sent = 0, pm_stdin = False, pm_out = dumps shown_reply_doc, pm_out_open = False, pm_err = [],
        pm_err_open = False\<rparr>"
    by (simp add: shown_child_def pump_start_def read_out_def read_err_def bad_def pump_open_def
        del: dumps.simps)
  then show ?thesis
    by (simp add: collect_Inr shown_child_def)
qed

lemma shown_run:
  "finish_run (dumps shown_reply_doc) [] 0 = Inr (dumps shown_reply_doc)"
proof -
  have "esc_char (CHR ''e'') = ''e''"
    by code_simp
  then have "quote (CHR ''e'' # s) = CHR 0x22 # CHR ''e'' # tl (tl (quote (CHR ''e'' # s)))" for s
    by (simp add: quote_def)
  moreover obtain u where "dumps shown_reply_doc = CHR ''{'' # quote ''engine_interface_version'' @ u"
    unfolding shown_reply_doc_def by (simp add: ENGINE_INTERFACE_VERSION_def)
  ultimately obtain t where t: "dumps shown_reply_doc = CHR ''{'' # CHR 0x22 # CHR ''e'' # t"
    by (metis append_Cons)
  then have "remove_prefix CONTAINMENT_ACK (dumps shown_reply_doc) = dumps shown_reply_doc"
    by (simp add: remove_prefix_def starts_with_def CONTAINMENT_ACK_def)
  moreover have "strict_utf8 (dumps shown_reply_doc)"
    using dumps_valid [OF shown_reply_ok(1)] by (simp add: strict_utf8_def)
  ultimately show ?thesis
    using t by (simp add: finish_run_def bad_def del: dumps.simps)
qed

lemma shown_view:
  "\<exists>c' v. instance_view shown_machine (mk_client None) sample_plan = (c', Inr v) \<and> vw_status v = ''succeeded''"
proof -
  have root: "validate_root shown_machine ''/p'' = Inr ''/p''"
  proof -
    have "os_abspath ''/p'' (os_normpath ''/p'') = ''/p''" "encoded_length ''/p'' = Inr 2" "has_nul ''/p'' = False"
      by code_simp+
    then show ?thesis
      by (simp add: validate_root_def shown_machine_def MAX_PATH_BYTES_def)
  qed
  have "json_ok (view_request ''a.py'' ''aggressive'')"
    by (simp add: view_request_def ENGINE_INTERFACE_VERSION_def)
  moreover have "weight (view_request ''a.py'' ''aggressive'') \<le> MAX_REQUEST_BYTES"
  proof -
    have "length (int_text 1) = 1"
      by code_simp
    then show ?thesis
      by (simp add: view_request_def ENGINE_INTERFACE_VERSION_def MAX_REQUEST_BYTES_def)
  qed
  then have "length (dumps (view_request ''a.py'' ''aggressive'')) \<le> MAX_REQUEST_BYTES"
    using length_dumps le_trans by blast
  ultimately have invoked: "\<exists>c'. invoke shown_machine (mk_client None) ''context-view'' ''/p''
      (view_request ''a.py'' ''aggressive'') = (c', Inr shown_reply)"
    using root shown_run shown_collected shown_reply_read
    by (simp add: invoke_def invoke_bytes_def canonical_bytes_def canonical_json_ok bad_def send_request_def
        run_process_def shown_machine_def resolve_binary_def mk_client_def del: dumps.simps)
  let ?v = "\<lparr>vw_source = sample_source, vw_text = Some ''ok'', vw_output_ref = Some shown_name,
      vw_output_digest = Some (sha256_ref ''ok''), vw_source_ref = ''src:1'',
      vw_source_digest = sha256_ref ''src'', vw_recovery_ref = Some ''rec:1'',
      vw_status = ''succeeded'', vw_measurements = [], vw_failure = None,
      vw_receipt_link = Some shown_link, vw_invocation = invocation_json shown_invocation,
      vw_observation = observation_json shown_observation, vw_interface_version = ENGINE_INTERFACE_VERSION\<rparr>"
  have "view_verify ?v"
    by (simp add: view_verify_def shown_link_def jget_def get_eq_def opt_str_def view_invocation_id_def
        invocation_json_def observation_json_def shown_invocation_def shown_observation_def jstrs_def)
  moreover have "check_view ?v = Inr ?v"
  proof -
    have "validate_output_ref shown_name = Inr shown_name" "validate_digest (sha256_ref s) = Inr (sha256_ref s)"
      "validate_ref ''src:1'' = Inr ''src:1''" "validate_ref ''rec:1'' = Inr ''rec:1''" for s
      by (simp_all add: validate_output_ref_Inr validate_digest_Inr validate_ref_Inr printable_ascii_def)
    moreover have "''output:'' @ remove_prefix ''sha256:'' (sha256_ref ''ok'') = shown_name"
      using shown_texts(10) by (simp add: output_name_def)
    ultimately show ?thesis
      by (simp add: check_view_def utf8_len_def strict_utf8_def protocol_consts opt_check_def
          sha256_digest_def instance_statuses_def invocation_json_def observation_json_def)
  qed
  ultimately have "bound_view sample_source shown_reply = Inr ?v"
    by (simp add: bound_view_def shown_reply_def shown_invocation_def shown_observation_def bad_def
        build_view_def view_outcome_def sample_source_def)
  then show ?thesis
    using invoked sample_relative_path
    by (auto simp: instance_view_def sample_plan_def sample_source_def shown_machine_def)
qed

lemma view_of_plan_witness:
  "\<exists>c' v. instance_view shown_machine (mk_client None) sample_plan = (c', Inr v) \<and> view_verify v \<and>
     vw_source v = pl_source sample_plan"
proof -
  obtain c' v where "instance_view shown_machine (mk_client None) sample_plan = (c', Inr v)"
    "vw_status v = ''succeeded''"
    using shown_view by blast
  with view_of_plan [OF this(1)] show ?thesis
    by blast
qed

end
