(* ===== verification/Execution_Request.thy ===== *)
theory Execution_Request
  imports Replies
begin

text \<open>
  The caller's half of a source execution (\<open>src/leanctx_sdk/source_execution.py\<close>): tasks, execution
  plans and outcome requests. Each check is given the exception it raises: \<open>InstanceProtocolError\<close>
  for data of the instance (\<open>protocol=True\<close>), \<open>ValidationError\<close> for data of the caller.
\<close>

section \<open>Fields\<close>

definition MAX_EXEC_U32 :: int where "MAX_EXEC_U32 = 2 ^ 32 - 1"
definition MAX_EXEC_TASK :: nat where "MAX_EXEC_TASK = 16 * 1024"
definition MAX_LIST_ITEMS :: nat where "MAX_LIST_ITEMS = 256"
definition LOCAL_NATIVE :: pystr where "LOCAL_NATIVE = ''local-native''"
definition EXEC_CAPABILITY :: pystr where
  "EXEC_CAPABILITY = ''capability://leanctx/context-optimization''"
definition EXEC_CAPABILITY_VERSION :: pystr where "EXEC_CAPABILITY_VERSION = ''1.0.0''"

definition fail_if :: "exn \<Rightarrow> bool \<Rightarrow> unit res" where
  "fail_if e wrong = check (\<not> wrong) e"

lemma fail_if_Inr [ok_simps]: "fail_if e b = Inr u \<longleftrightarrow> \<not> b"
  by (simp add: fail_if_def ok_simps)

definition ex_mapping :: "exn \<Rightarrow> json \<Rightarrow> unit res" where
  "ex_mapping e v =
     rbind (fail_if e (\<not> is_obj v)) (\<lambda>_.
     rbind (on_err (\<lambda>x. if x = ValidationError then e else x) (canonical_bytes v)) (\<lambda>_. Inr ()))"

text \<open>The text of a field; \<open>printable\<close> and \<open>controls\<close> are the options of \<open>_text\<close>.\<close>

definition ex_text_with :: "nat \<Rightarrow> bool \<Rightarrow> bool \<Rightarrow> exn \<Rightarrow> json \<Rightarrow> pystr res" where
  "ex_text_with maximum printable controls e v =
     (case v of
        JStr s \<Rightarrow>
          rbind (fail_if e (\<not> strict_utf8 s)) (\<lambda>_.
          rbind (fail_if e (s = [] \<or> length s > maximum \<or> has_nul s)) (\<lambda>_.
          rbind (fail_if e (controls \<and> has_cc s)) (\<lambda>_.
          rbind (fail_if e (printable \<and> \<not> printable_ascii s)) (\<lambda>_. Inr s))))
      | _ \<Rightarrow> Inl e)"

lemma ex_text_with_Inr [ok_simps]:
  "ex_text_with n p c e v = Inr s \<longleftrightarrow>
     v = JStr s \<and> strict_utf8 s \<and> s \<noteq> [] \<and> length s \<le> n \<and> \<not> has_nul s \<and> \<not> (c \<and> has_cc s) \<and>
     (p \<longrightarrow> printable_ascii s)"
  by (cases v) (auto simp: ex_text_with_def ok_simps not_less)

definition ex_text :: "exn \<Rightarrow> json \<Rightarrow> pystr res" where
  "ex_text e v = ex_text_with MAX_REF_BYTES False True e v"

definition ex_integer :: "int \<Rightarrow> exn \<Rightarrow> json \<Rightarrow> int res" where
  "ex_integer maximum e v =
     (case v of JInt i \<Rightarrow> rbind (fail_if e (\<not> (0 \<le> i \<and> i \<le> maximum))) (\<lambda>_. Inr i) | _ \<Rightarrow> Inl e)"

lemma ex_integer_Inr [ok_simps]: "ex_integer m e v = Inr i \<longleftrightarrow> v = JInt i \<and> 0 \<le> i \<and> i \<le> m"
  by (cases v) (auto simp: ex_integer_def ok_simps)

definition exact_version :: "exn \<Rightarrow> json \<Rightarrow> unit res" where
  "exact_version e v = fail_if e (v \<noteq> JInt 1)"

lemma exact_version_Inr [ok_simps]: "exact_version e v = Inr u \<longleftrightarrow> v = JInt 1"
  by (simp add: exact_version_def ok_simps)

definition ex_optional_text :: "exn \<Rightarrow> json \<Rightarrow> pystr option res" where
  "ex_optional_text e v = (if v = JNull then Inr None else rbind (ex_text e v) (\<lambda>s. Inr (Some s)))"

definition ex_strings :: "exn \<Rightarrow> json \<Rightarrow> pystr list res" where
  "ex_strings e v =
     (case v of
        JArr xs \<Rightarrow>
          rbind (fail_if e (length xs > MAX_LIST_ITEMS)) (\<lambda>_.
          rbind (mapr (ex_text e) xs) (\<lambda>ss.
          rbind (fail_if e (\<not> distinct ss)) (\<lambda>_. Inr ss)))
      | _ \<Rightarrow> Inl e)"

text \<open>\<open>value not in S\<close> for a set of strings.\<close>

definition ex_member :: "exn \<Rightarrow> pystr list \<Rightarrow> json \<Rightarrow> unit res" where
  "ex_member e names v = rbind (in_set names v) (\<lambda>b. fail_if e (\<not> b))"

text \<open>\<open>cast(str, value[key])\<close> of a value that has passed its check.\<close>

definition str_at :: "pystr \<Rightarrow> json \<Rightarrow> pystr" where
  "str_at k v = (case jat k v of JStr s \<Rightarrow> s | _ \<Rightarrow> [])"

text \<open>A check of each listed field, and of each that is present and not null.\<close>

definition each_field :: "(json \<Rightarrow> 'a res) \<Rightarrow> pystr list \<Rightarrow> json \<Rightarrow> unit res" where
  "each_field f ks v = rbind (mapr (\<lambda>k. f (jat k v)) ks) (\<lambda>_. Inr ())"

definition each_present :: "(json \<Rightarrow> 'a res) \<Rightarrow> pystr list \<Rightarrow> json \<Rightarrow> unit res" where
  "each_present f ks v =
     rbind (mapr (\<lambda>k. rbind (f (jat k v)) (\<lambda>_. Inr ())) (filter (\<lambda>k. jat k v \<noteq> JNull) ks)) (\<lambda>_. Inr ())"

definition has_required :: "exn \<Rightarrow> pystr list \<Rightarrow> json \<Rightarrow> unit res" where
  "has_required e required v = fail_if e (\<not> set required \<subseteq> set (jkeys v))"

definition exact_set :: "exn \<Rightarrow> pystr list \<Rightarrow> json \<Rightarrow> unit res" where
  "exact_set e ks v = fail_if e (set (jkeys v) \<noteq> set ks)"

text \<open>The optional fields that are null are left out.\<close>

definition without_nulls :: "pystr list \<Rightarrow> json \<Rightarrow> json" where
  "without_nulls optional v =
     JObj (filter (\<lambda>p. \<not> (fst p \<in> set optional \<and> snd p = JNull)) (obj_items v))"

section \<open>Tasks\<close>

definition task_required :: "pystr list" where
  "task_required = [''schema_version'', ''task_id'', ''trace_id'', ''project_id'', ''session_id'',
     ''agent_id'', ''complexity'', ''created_at'']"

definition task_optional :: "pystr list" where
  "task_optional = [''parent_task_id'', ''tenant_id'', ''intent'', ''task_class'', ''risk_class'',
     ''quality_requirement_milli'', ''cost_budget_micros'', ''latency_budget_ms'',
     ''data_classification'', ''region_policy_ref'', ''model_policy_ref'', ''context_state_ref'',
     ''outcome_contract_ref'']"

definition task_parent :: "exn \<Rightarrow> pystr \<Rightarrow> json \<Rightarrow> unit res" where
  "task_parent e task_id v =
     rbind (ex_optional_text e (jat ''parent_task_id'' v)) (\<lambda>parent.
     fail_if e (parent = Some task_id))"

definition validate_task :: "exn \<Rightarrow> json \<Rightarrow> planning_request \<Rightarrow> pystr \<Rightarrow> json res" where
  "validate_task e v request tenant_id =
     rbind (ex_mapping e v) (\<lambda>_.
     rbind (has_required e task_required v) (\<lambda>_.
     rbind (exact_version e (jat ''schema_version'' v)) (\<lambda>_.
     rbind (ex_text e (jat ''task_id'' v)) (\<lambda>task_id.
     rbind (fail_if e (task_id \<noteq> pq_task request)) (\<lambda>_.
     rbind (each_field (ex_text e) [''trace_id'', ''project_id'', ''session_id'', ''agent_id''] v) (\<lambda>_.
     rbind (ex_member e [''unknown'', ''low'', ''medium'', ''high'', ''critical''] (jat ''complexity'' v))
       (\<lambda>_.
     rbind (ex_text e (jat ''created_at'' v)) (\<lambda>_.
     rbind (fail_if e (jget ''tenant_id'' v \<noteq> Some (JStr tenant_id))) (\<lambda>_.
     rbind (task_parent e task_id v) (\<lambda>_.
     rbind (each_present (ex_text e) [''intent'', ''task_class'', ''region_policy_ref'',
       ''model_policy_ref'', ''context_state_ref'', ''outcome_contract_ref''] v) (\<lambda>_.
     rbind (each_present (ex_member e [''low'', ''medium'', ''high'', ''critical'']) [''risk_class''] v) (\<lambda>_.
     rbind (each_present (ex_integer 1000 e) [''quality_requirement_milli''] v) (\<lambda>_.
     rbind (each_present (ex_integer MAX_U64 e) [''cost_budget_micros'', ''latency_budget_ms''] v) (\<lambda>_.
     rbind (each_present (ex_member e plan_classifications) [''data_classification''] v) (\<lambda>_.
     let normalized = without_nulls task_optional v in
     rbind (canonical_bytes normalized) (\<lambda>bytes.
     rbind (fail_if e (length bytes > MAX_EXEC_TASK)) (\<lambda>_. Inr normalized)))))))))))))))))"

section \<open>Plans\<close>

definition exec_plan_required :: "pystr list" where
  "exec_plan_required = [''schema_version'', ''plan_id'', ''task_id'', ''context_budget_tokens'',
     ''context_strategy'', ''knowledge_refs'', ''capability_ids'', ''model'', ''provider'',
     ''reasoning_allocation_milli'', ''max_retries'', ''fallback_refs'', ''stop_condition'',
     ''expected_cost_micros'', ''expected_quality_milli'', ''expected_latency_ms'']"

definition exec_plan_optional :: "pystr list" where
  "exec_plan_optional = [''context_budget_policy'', ''estimates'', ''policy_decision_ref'',
     ''scheduler_decision_ref'', ''executor_agent_id'', ''context_plan_id'', ''capability_bindings'']"

definition context_strategies :: "pystr list" where
  "context_strategies = [''minimal'', ''balanced'', ''comprehensive'', ''cached_first'']"

definition stop_conditions :: "pystr list" where
  "stop_conditions = [''on_completion'', ''on_acceptance'', ''on_budget_exhaustion'', ''on_error'',
     ''manual'']"

definition budget_policy_check :: "exn \<Rightarrow> int \<Rightarrow> json \<Rightarrow> unit res" where
  "budget_policy_check e budget policy =
     (if policy = JNull then Inr ()
      else
        rbind (ex_mapping e policy) (\<lambda>_.
        if jat ''kind'' policy = JStr ''token_limit'' then
          rbind (exact_set e [''kind'', ''tokens''] policy) (\<lambda>_.
          rbind (ex_integer MAX_U64 e (jat ''tokens'' policy)) (\<lambda>tokens. fail_if e (tokens \<noteq> budget)))
        else if jat ''kind'' policy = JStr ''no_token_limit'' then
          fail_if e (set (jkeys policy) \<noteq> {''kind''} \<or> budget \<noteq> 0)
        else Inl e))"

definition estimate_names :: "(pystr \<times> pystr \<times> int) list" where
  "estimate_names = [(''cost_micros'', ''expected_cost_micros'', MAX_U64),
     (''quality_milli'', ''expected_quality_milli'', 1000),
     (''latency_ms'', ''expected_latency_ms'', MAX_U64)]"

definition estimates_check :: "exn \<Rightarrow> json \<Rightarrow> json \<Rightarrow> unit res" where
  "estimates_check e estimates plan =
     (if estimates = JNull then Inr ()
      else
        rbind (ex_mapping e estimates) (\<lambda>_.
        rbind (exact_set e (map fst estimate_names) estimates) (\<lambda>_.
        rbind (mapr (\<lambda>(k, _, m). each_present (ex_integer m e) [k] estimates) estimate_names) (\<lambda>_.
        fail_if e (list_ex (\<lambda>(k, x, _). jat k estimates \<notin> {JNull, jat x plan}) estimate_names)))))"

text \<open>The bindings of capabilities, each of a different one; \<open>seen\<close> is the set of the loop.\<close>

fun bindings_check :: "exn \<Rightarrow> pystr list \<Rightarrow> pystr list \<Rightarrow> json list \<Rightarrow> unit res" where
  "bindings_check e capabilities seen [] = Inr ()"
| "bindings_check e capabilities seen (b # bs) =
     rbind (ex_mapping e b) (\<lambda>_.
     rbind (exact_set e [''capability_id'', ''version''] b) (\<lambda>_.
     rbind (ex_text e (jat ''capability_id'' b)) (\<lambda>i.
     rbind (ex_text e (jat ''version'' b)) (\<lambda>version.
     rbind (fail_if e (i \<notin> set capabilities \<or> i \<in> set seen)) (\<lambda>_.
     rbind (fail_if e (semver_parts version = None)) (\<lambda>_.
     bindings_check e capabilities (i # seen) bs))))))"

definition capability_bindings_check :: "exn \<Rightarrow> pystr list \<Rightarrow> json \<Rightarrow> unit res" where
  "capability_bindings_check e capabilities v =
     (case v of
        JNull \<Rightarrow> Inr ()
      | JArr bs \<Rightarrow>
          rbind (fail_if e (length bs \<noteq> length capabilities)) (\<lambda>_. bindings_check e capabilities [] bs)
      | _ \<Rightarrow> Inl e)"

definition plan_numbers :: "exn \<Rightarrow> json \<Rightarrow> unit res" where
  "plan_numbers e v =
     rbind (ex_integer 1000 e (jat ''reasoning_allocation_milli'' v)) (\<lambda>_.
     rbind (ex_integer MAX_EXEC_U32 e (jat ''max_retries'' v)) (\<lambda>_.
     rbind (ex_strings e (jat ''fallback_refs'' v)) (\<lambda>_.
     rbind (ex_member e stop_conditions (jat ''stop_condition'' v)) (\<lambda>_.
     rbind (each_field (ex_integer MAX_U64 e) [''expected_cost_micros'', ''expected_latency_ms''] v) (\<lambda>_.
     rbind (ex_integer 1000 e (jat ''expected_quality_milli'' v)) (\<lambda>_. Inr ()))))))"

definition context_plan_id_check :: "exn \<Rightarrow> bool \<Rightarrow> json \<Rightarrow> unit res" where
  "context_plan_id_check e allowed v =
     (if v = JNull then Inr ()
      else rbind (fail_if e (\<not> allowed)) (\<lambda>_. rbind (ex_text e v) (\<lambda>_. Inr ())))"

definition validate_plan :: "exn \<Rightarrow> json \<Rightarrow> pystr \<Rightarrow> bool \<Rightarrow> json res" where
  "validate_plan e v task_id allow_context_plan_id =
     rbind (ex_mapping e v) (\<lambda>_.
     rbind (has_required e exec_plan_required v) (\<lambda>_.
     rbind (exact_version e (jat ''schema_version'' v)) (\<lambda>_.
     rbind (ex_text e (jat ''task_id'' v)) (\<lambda>plan_task.
     rbind (fail_if e (plan_task \<noteq> task_id)) (\<lambda>_.
     rbind (ex_text e (jat ''plan_id'' v)) (\<lambda>_.
     rbind (ex_integer MAX_U64 e (jat ''context_budget_tokens'' v)) (\<lambda>budget.
     rbind (ex_member e context_strategies (jat ''context_strategy'' v)) (\<lambda>_.
     rbind (ex_strings e (jat ''knowledge_refs'' v)) (\<lambda>_.
     rbind (ex_strings e (jat ''capability_ids'' v)) (\<lambda>capabilities.
     rbind (fail_if e (capabilities = [])) (\<lambda>_.
     rbind (each_field (ex_text e) [''model'', ''provider''] v) (\<lambda>_.
     rbind (plan_numbers e v) (\<lambda>_.
     rbind (context_plan_id_check e allow_context_plan_id (jat ''context_plan_id'' v)) (\<lambda>_.
     rbind (budget_policy_check e budget (jat ''context_budget_policy'' v)) (\<lambda>_.
     rbind (estimates_check e (jat ''estimates'' v) v) (\<lambda>_.
     rbind (each_present (ex_text e) [''policy_decision_ref'', ''scheduler_decision_ref'',
       ''executor_agent_id''] v) (\<lambda>_.
     rbind (capability_bindings_check e capabilities (jat ''capability_bindings'' v)) (\<lambda>_.
     let kept = without_nulls exec_plan_optional v;
         normalized = (if allow_context_plan_id then kept
                       else JObj (filter (\<lambda>p. fst p \<noteq> ''context_plan_id'') (obj_items kept))) in
     rbind (ex_mapping e normalized) (\<lambda>_. Inr normalized)))))))))))))))))))"

section \<open>Requests\<close>

definition native_binding :: json where
  "native_binding = JObj [(''capability_id'', JStr EXEC_CAPABILITY),
     (''version'', JStr EXEC_CAPABILITY_VERSION)]"

text \<open>A plan of the local instance: its provider, model and only capability.\<close>

definition local_native :: "json \<Rightarrow> bool" where
  "local_native plan \<longleftrightarrow>
     jat ''provider'' plan = JStr LOCAL_NATIVE \<and> jat ''model'' plan = JStr LOCAL_NATIVE \<and>
     jat ''capability_ids'' plan = JArr [JStr EXEC_CAPABILITY]"

definition natively_bound :: "json \<Rightarrow> bool" where
  "natively_bound plan \<longleftrightarrow> py_eq (jat ''capability_bindings'' plan) (JArr [native_binding])"

definition validate_execution_request ::
  "json \<Rightarrow> json \<Rightarrow> planning_request \<Rightarrow> pystr \<Rightarrow> (json \<times> json) res" where
  "validate_execution_request task plan request tenant_id =
     rbind (validate_task ValidationError task request tenant_id) (\<lambda>t.
     rbind (validate_plan ValidationError plan (str_at ''task_id'' t) False) (\<lambda>p.
     rbind (fail_if ValidationError (\<not> local_native p)) (\<lambda>_.
     rbind (fail_if ValidationError (\<not> natively_bound p)) (\<lambda>_. Inr (t, p)))))"

section \<open>Outcomes\<close>

definition MAX_OUTCOME_SIGNALS :: nat where "MAX_OUTCOME_SIGNALS = 16"
definition MAX_OUTCOME_TASK :: nat where "MAX_OUTCOME_TASK = 256"
definition MAX_OUTCOME_REQUEST :: nat where "MAX_OUTCOME_REQUEST = 1024 * 1024"

definition outcome_signal_types :: "pystr list" where
  "outcome_signal_types = [''build_success'', ''tests_passing'', ''lint_clean'', ''typecheck_passing'',
     ''human_acceptance'', ''pr_merge'', ''ci_passing'', ''correction'', ''rollback'']"

definition signal_value :: "json \<Rightarrow> json res" where
  "signal_value v =
     (if v = JStr ''unknown'' then Inr v
      else
        rbind (ex_mapping ValidationError v) (\<lambda>_.
        if set (jkeys v) = {''boolean''} then
          (case jat ''boolean'' v of JBool b \<Rightarrow> Inr (JObj [(''boolean'', JBool b)])
           | _ \<Rightarrow> Inl ValidationError)
        else if set (jkeys v) = {''count''} then
          rbind (ex_integer MAX_EXEC_U32 ValidationError (jat ''count'' v)) (\<lambda>n.
          Inr (JObj [(''count'', JInt n)]))
        else Inl ValidationError))"

definition outcome_signal :: "json \<Rightarrow> json res" where
  "outcome_signal v =
     rbind (ex_mapping ValidationError v) (\<lambda>_.
     rbind (exact_set ValidationError [''signal_type'', ''value''] v) (\<lambda>_.
     rbind (ex_text_with MAX_REF_BYTES True True ValidationError (jat ''signal_type'' v)) (\<lambda>s.
     rbind (fail_if ValidationError (s \<notin> set outcome_signal_types)) (\<lambda>_.
     rbind (signal_value (jat ''value'' v)) (\<lambda>x.
     Inr (JObj [(''signal_type'', JStr s), (''value'', x)]))))))"

definition validate_outcome_request :: "pystr \<Rightarrow> pystr \<Rightarrow> pystr \<Rightarrow> json list \<Rightarrow> json res" where
  "validate_outcome_request task_id receipt_digest decision_digest signals =
     rbind (ex_text_with MAX_OUTCOME_TASK False True ValidationError (JStr task_id)) (\<lambda>t.
     rbind (validate_digest receipt_digest) (\<lambda>r.
     rbind (validate_digest decision_digest) (\<lambda>d.
     rbind (fail_if ValidationError (\<not> (0 < length signals \<and> length signals \<le> MAX_OUTCOME_SIGNALS)))
       (\<lambda>_.
     rbind (mapr outcome_signal signals) (\<lambda>ss.
     let request = JObj [(''task_id'', JStr t), (''receipt_digest'', JStr r),
           (''context_decision_digest'', JStr d), (''signals'', JArr ss)] in
     rbind (canonical_bytes request) (\<lambda>bytes.
     rbind (fail_if ValidationError (length bytes > MAX_OUTCOME_REQUEST)) (\<lambda>_. Inr request)))))))"

end
