(* ===== verification/Execution.thy ===== *)
theory Execution
  imports Execution_Request
begin

text \<open>
  The instance's half of a source execution (\<open>src/leanctx_sdk/source_execution.py\<close>): the response
  with its joins (scope, plan, view, observation, lineage, receipt), its second version with the
  receipt document, and the response to an outcome.
\<close>

abbreviation perr :: exn where "perr \<equiv> InstanceProtocolError"

definition MAX_EXECUTION_VIEW :: nat where "MAX_EXECUTION_VIEW = 1024 * 1024"
definition MAX_RECEIPT_DOCUMENT :: nat where "MAX_RECEIPT_DOCUMENT = 1024 * 1024"
definition MAX_V2_RESPONSE :: nat where "MAX_V2_RESPONSE = 4 * 1024 * 1024"
definition MAX_V2_WRAPPER :: nat where "MAX_V2_WRAPPER = 64 * 1024"
definition INPUT_REF_PREFIX :: pystr where "INPUT_REF_PREFIX = ''input:source-materialization-sha256:''"
definition EVIDENCE_PREFIX :: pystr where "EVIDENCE_PREFIX = ''artifact://execution/evidence/''"
definition TASK_REF_PREFIX :: pystr where "TASK_REF_PREFIX = ''task:sha256:''"
definition PLAN_REF_PREFIX :: pystr where "PLAN_REF_PREFIX = ''plan:sha256:''"

section \<open>Scope\<close>

definition execution_scope :: "source_plan \<Rightarrow> pystr list \<Rightarrow> unit res" where
  "execution_scope sp source_ids =
     rbind (bad (list_ex (\<lambda>s. sl_source s \<notin> set source_ids \<or> sl_provider s \<notin> set source_ids)
       (gp_selections (sp_plan sp)))) (\<lambda>_.
     bad (list_ex (\<lambda>b. dp_object b \<notin> set source_ids \<or> dp_source b \<notin> set source_ids \<or>
       dp_permission b \<noteq> ''permitted'') (sp_bindings sp)))"

lemma execution_scope_Inr [ok_simps]:
  "execution_scope sp ids = Inr u \<longleftrightarrow>
     (\<forall>s \<in> set (gp_selections (sp_plan sp)). sl_source s \<in> set ids \<and> sl_provider s \<in> set ids) \<and>
     (\<forall>b \<in> set (sp_bindings sp). dp_object b \<in> set ids \<and> dp_source b \<in> set ids \<and>
        dp_permission b = ''permitted'')"
  by (auto simp: execution_scope_def rbind_eq_Inr_iff bad_Inr list_ex_iff)

section \<open>Invocation and lineage\<close>

definition digest_suffix :: "pystr \<Rightarrow> pystr \<Rightarrow> pystr res" where
  "digest_suffix stem s =
     rbind (bad (\<not> starts_with stem s)) (\<lambda>_.
     as_protocol (validate_digest (''sha256:'' @ drop (length stem) s)))"

record exec_invocation =
  xi_id :: pystr
  xi_engine_id :: pystr
  xi_engine_version :: pystr
  xi_input_ref :: pystr
  xi_input_digest :: pystr
  xi_source_refs :: "pystr list"
  xi_policy_ref :: pystr

definition exec_invocation_of :: "json \<Rightarrow> exec_invocation res" where
  "exec_invocation_of v =
     rbind (ex_mapping perr v) (\<lambda>_.
     rbind (exact_set perr [''schema_version'', ''invocation_id'', ''engine'', ''operation'', ''input_ref'',
       ''input_digest'', ''source_refs'', ''policy_admission''] v) (\<lambda>_.
     rbind (exact_version perr (jat ''schema_version'' v)) (\<lambda>_.
     rbind (ex_text perr (jat ''invocation_id'' v)) (\<lambda>i.
     let engine = jat ''engine'' v; operation = jat ''operation'' v; policy = jat ''policy_admission'' v in
     rbind (ex_mapping perr engine) (\<lambda>_.
     rbind (exact_set perr [''engine_id'', ''engine_version''] engine) (\<lambda>_.
     rbind (ex_text perr (jat ''engine_id'' engine)) (\<lambda>engine_id.
     rbind (ex_text perr (jat ''engine_version'' engine)) (\<lambda>version.
     rbind (bad (semver_parts version = None)) (\<lambda>_.
     rbind (ex_mapping perr operation) (\<lambda>_.
     rbind (exact_set perr [''capability_id'', ''capability_version''] operation) (\<lambda>_.
     rbind (bad (jat ''capability_id'' operation \<noteq> JStr EXEC_CAPABILITY \<or>
       jat ''capability_version'' operation \<noteq> JStr EXEC_CAPABILITY_VERSION)) (\<lambda>_.
     rbind (ex_mapping perr policy) (\<lambda>_.
     rbind (bad (set (jkeys policy) \<noteq> {''policy_ref'', ''decision''} \<or>
       jat ''decision'' policy \<noteq> JStr ''admitted'')) (\<lambda>_.
     rbind (ex_text_with MAX_REF_BYTES True True perr (jat ''policy_ref'' policy)) (\<lambda>policy_ref.
     rbind (required_ref (jat ''input_ref'' v)) (\<lambda>input_ref.
     rbind (as_protocol (on_str validate_digest (jat ''input_digest'' v))) (\<lambda>input_digest.
     rbind (reference_list (jat ''source_refs'' v)) (\<lambda>refs.
     rbind (bad (input_ref \<notin> set refs)) (\<lambda>_.
     Inr \<lparr>xi_id = i, xi_engine_id = engine_id, xi_engine_version = version, xi_input_ref = input_ref,
       xi_input_digest = input_digest, xi_source_refs = refs,
       xi_policy_ref = policy_ref\<rparr>)))))))))))))))))))"

datatype lineage_kind = KInput | KEvidence | KTask | KPlan

text \<open>A reference of the lineage is of one kind and carries the digest of that kind.\<close>

definition lineage_kind_of :: "(lineage_kind \<Rightarrow> pystr) \<Rightarrow> pystr \<Rightarrow> lineage_kind res" where
  "lineage_kind_of digest ref =
     (let bound = (\<lambda>stem k. rbind (digest_suffix stem ref) (\<lambda>d.
                    rbind (bad (d \<noteq> digest k)) (\<lambda>_. Inr k))) in
      if starts_with INPUT_REF_PREFIX ref then bound INPUT_REF_PREFIX KInput
      else if starts_with EVIDENCE_PREFIX ref then bound EVIDENCE_PREFIX KEvidence
      else if starts_with TASK_REF_PREFIX ref then bound TASK_REF_PREFIX KTask
      else if starts_with PLAN_REF_PREFIX ref then bound PLAN_REF_PREFIX KPlan
      else Inl perr)"

definition lineage_digests :: "pystr \<Rightarrow> pystr \<Rightarrow> pystr \<Rightarrow> pystr \<Rightarrow> lineage_kind \<Rightarrow> pystr" where
  "lineage_digests input evidence plan task k =
     (case k of KInput \<Rightarrow> input | KEvidence \<Rightarrow> evidence | KTask \<Rightarrow> task | KPlan \<Rightarrow> plan)"

definition validate_lineage :: "exec_invocation \<Rightarrow> pystr \<Rightarrow> pystr \<Rightarrow> pystr \<Rightarrow> unit res" where
  "validate_lineage i source_plan_digest execution_plan_digest task_digest =
     rbind (bad (length (xi_source_refs i) \<noteq> 4)) (\<lambda>_.
     rbind (digest_suffix INPUT_REF_PREFIX (xi_input_ref i)) (\<lambda>d.
     rbind (bad (d \<noteq> xi_input_digest i)) (\<lambda>_.
     rbind (mapr (lineage_kind_of (lineage_digests (xi_input_digest i) source_plan_digest
       execution_plan_digest task_digest)) (xi_source_refs i)) (\<lambda>kinds.
     bad (\<not> list_all (\<lambda>k. count_list kinds k = 1) [KInput, KEvidence, KTask, KPlan])))))"

section \<open>Receipts\<close>

record canonical_receipt =
  cr_id :: pystr
  cr_ref :: pystr
  cr_digest :: pystr

definition canonical_receipt_of :: "json \<Rightarrow> canonical_receipt res" where
  "canonical_receipt_of v =
     rbind (ex_mapping perr v) (\<lambda>_.
     rbind (exact_set perr [''receipt_id'', ''receipt_ref'', ''receipt_digest'', ''outcome''] v) (\<lambda>_.
     rbind (ex_text_with MAX_REF_BYTES True True perr (jat ''receipt_id'' v)) (\<lambda>i.
     rbind (as_protocol (on_str validate_digest (jat ''receipt_digest'' v))) (\<lambda>d.
     rbind (required_ref (jat ''receipt_ref'' v)) (\<lambda>r.
     rbind (bad (r \<noteq> ''id:'' @ d)) (\<lambda>_.
     rbind (bad (jat ''outcome'' v \<noteq> JStr ''unknown'')) (\<lambda>_.
     Inr \<lparr>cr_id = i, cr_ref = r, cr_digest = d\<rparr>)))))))"

section \<open>Source execution\<close>

record execution_context =
  ec_request :: planning_request
  ec_source_ids :: "pystr list"
  ec_task :: json
  ec_plan :: json
  ec_tenant :: pystr
  ec_revision :: int
  ec_binding :: pystr
  ec_evaluation :: "pystr option"

record source_execution =
  se_revision :: int
  se_source_plan :: source_plan
  se_plan :: json
  se_view :: wire_view
  se_invocation :: exec_invocation
  se_observation :: observation
  se_receipt :: canonical_receipt

text \<open>The envelope of a response: its version, tenant and governance revision.\<close>

definition envelope :: "int \<Rightarrow> pystr \<Rightarrow> int \<Rightarrow> json \<Rightarrow> int res" where
  "envelope version tenant revision v =
     rbind (exact_set perr [''schema_version'', ''tenant_id'', ''governance_revision'', ''execution''] v) (\<lambda>_.
     rbind (bad (jat ''schema_version'' v \<noteq> JInt version)) (\<lambda>_.
     rbind (bad (jat ''tenant_id'' v \<noteq> JStr tenant)) (\<lambda>_.
     rbind (ex_integer MAX_U64 perr (jat ''governance_revision'' v)) (\<lambda>r.
     rbind (bad (r \<noteq> revision)) (\<lambda>_. Inr r)))))"

text \<open>What the execution plan says of the source plan it executes.\<close>

definition plan_joins :: "engine_plan \<Rightarrow> json \<Rightarrow> unit res" where
  "plan_joins result plan =
     rbind (bad (jat ''context_plan_id'' plan \<noteq> JStr (gp_id result))) (\<lambda>_.
     rbind (bad (jat ''context_budget_tokens'' plan \<noteq> JInt (gp_budget result))) (\<lambda>_.
     rbind (bad (\<not> local_native plan)) (\<lambda>_.
     bad (\<not> natively_bound plan))))"

text \<open>The declared plan with the two fields the instance may add.\<close>

definition expected_plan :: "json \<Rightarrow> json \<Rightarrow> json res" where
  "expected_plan declared plan =
     (let e = JObj (dict_put ''context_plan_id'' (jat ''context_plan_id'' plan) (obj_items declared)) in
      if jget ''context_autopilot_decision_ref'' e \<noteq> None then Inr e
      else (case jat ''context_autopilot_decision_ref'' plan of
              JStr d \<Rightarrow>
                rbind (bad (d = [])) (\<lambda>_.
                Inr (JObj (dict_put ''context_autopilot_decision_ref'' (JStr d) (obj_items e))))
            | _ \<Rightarrow> Inl perr))"

definition evaluation_check :: "pystr option \<Rightarrow> engine_plan \<Rightarrow> unit res" where
  "evaluation_check time result =
     (case time of
        None \<Rightarrow> Inr ()
      | Some t \<Rightarrow>
          bad (jat ''evaluation_time'' (jat ''context_plan_evaluation_v1'' (plan_json result)) \<noteq> JStr t))"

definition execution_view :: "json \<Rightarrow> wire_view res" where
  "execution_view v =
     rbind (parse_view v) (\<lambda>view.
     rbind (bad (wv_output_digest view = None \<or> wv_output_ref view = None)) (\<lambda>_.
     rbind (bad (length (wv_text view) > MAX_EXECUTION_VIEW)) (\<lambda>_. Inr view)))"

definition execution_observation :: "json \<Rightarrow> exec_invocation \<Rightarrow> wire_view \<Rightarrow> observation res" where
  "execution_observation v i view =
     rbind (parse_observation v (xi_id i)) (\<lambda>ob.
     rbind (bad (ob_status ob \<noteq> ''succeeded'')) (\<lambda>_.
     rbind (bad (ob_lineage ob \<noteq> xi_source_refs i)) (\<lambda>_.
     rbind (bad (ob_output_ref ob \<noteq> wv_output_ref view \<or> ob_output_digest ob \<noteq> wv_output_digest view)) (\<lambda>_.
     Inr ob))))"

definition execution_plan_of :: "execution_context \<Rightarrow> engine_plan \<Rightarrow> json \<Rightarrow> json res" where
  "execution_plan_of c result v =
     rbind (validate_plan perr v (pq_task (ec_request c)) True) (\<lambda>plan.
     rbind (plan_joins result plan) (\<lambda>_.
     rbind (expected_plan (ec_plan c) plan) (\<lambda>expected.
     rbind (bad (\<not> py_eq expected plan)) (\<lambda>_.
     rbind (evaluation_check (ec_evaluation c) result) (\<lambda>_. Inr plan)))))"

definition execution_source_plan :: "execution_context \<Rightarrow> json \<Rightarrow> source_plan res" where
  "execution_source_plan c v =
     rbind (as_protocol (rbind (canonical_bytes v) (\<lambda>b. parse_source_plan b (ec_request c) None))) (\<lambda>sp.
     rbind (execution_scope sp (ec_source_ids c)) (\<lambda>_.
     rbind (validate_digest (ec_binding c)) (\<lambda>binding.
     rbind (bad (sp_digest sp \<noteq> binding)) (\<lambda>_. Inr sp))))"

definition execution_body :: "execution_context \<Rightarrow> int \<Rightarrow> json \<Rightarrow> source_execution res" where
  "execution_body c revision v =
     rbind (ex_mapping perr v) (\<lambda>_.
     rbind (exact_set perr [''schema_version'', ''transport_version'', ''engine_interface_version'',
       ''source_plan'', ''execution_plan'', ''view'', ''invocation'', ''observation'',
       ''canonical_receipt''] v) (\<lambda>_.
     rbind (exact_version perr (jat ''schema_version'' v)) (\<lambda>_.
     rbind (exact_version perr (jat ''transport_version'' v)) (\<lambda>_.
     rbind (bad (jat ''engine_interface_version'' v \<noteq> JStr ENGINE_INTERFACE_VERSION)) (\<lambda>_.
     rbind (execution_source_plan c (jat ''source_plan'' v)) (\<lambda>sp.
     rbind (execution_plan_of c (sp_plan sp) (jat ''execution_plan'' v)) (\<lambda>plan.
     rbind (execution_view (jat ''view'' v)) (\<lambda>view.
     rbind (exec_invocation_of (jat ''invocation'' v)) (\<lambda>i.
     rbind (execution_observation (jat ''observation'' v) i view) (\<lambda>ob.
     rbind (canonical_bytes (jat ''source_plan'' v)) (\<lambda>sbytes.
     rbind (canonical_bytes (jat ''execution_plan'' v)) (\<lambda>pbytes.
     rbind (canonical_bytes (ec_task c)) (\<lambda>tbytes.
     rbind (validate_lineage i (sha256_digest sbytes) (sha256_digest pbytes) (sha256_digest tbytes)) (\<lambda>_.
     rbind (canonical_receipt_of (jat ''canonical_receipt'' v)) (\<lambda>receipt.
     Inr \<lparr>se_revision = revision, se_source_plan = sp, se_plan = plan, se_view = view,
       se_invocation = i, se_observation = ob, se_receipt = receipt\<rparr>)))))))))))))))"

definition parse_source_execution :: "pystr \<Rightarrow> execution_context \<Rightarrow> source_execution res" where
  "parse_source_execution raw c =
     rbind (as_protocol (strict_json_loads raw)) (\<lambda>v.
     rbind (envelope 1 (ec_tenant c) (ec_revision c) v) (\<lambda>revision.
     execution_body c revision (jat ''execution'' v)))"

section \<open>The second version\<close>

definition receipt_document :: "json \<Rightarrow> pystr res" where
  "receipt_document v =
     (case v of
        JStr s \<Rightarrow>
          rbind (bad (\<not> strict_utf8 s)) (\<lambda>_.
          rbind (bad (length s > MAX_RECEIPT_DOCUMENT)) (\<lambda>_. Inr s))
      | _ \<Rightarrow> Inl perr)"

definition parse_source_execution_v2 ::
  "pystr \<Rightarrow> execution_context \<Rightarrow> (source_execution \<times> pystr) res" where
  "parse_source_execution_v2 raw c =
     rbind (reply_document (MAX_V2_RESPONSE + MAX_V2_WRAPPER) raw) (\<lambda>v.
     rbind (envelope 2 (ec_tenant c) (ec_revision c) v) (\<lambda>revision.
     let execution = jat ''execution'' v in
     rbind (ex_mapping perr execution) (\<lambda>_.
     rbind (exact_set perr [''schema_version'', ''execution'', ''receipt_document_json''] execution) (\<lambda>_.
     rbind (bad (jat ''schema_version'' execution \<noteq> JInt 2)) (\<lambda>_.
     rbind (receipt_document (jat ''receipt_document_json'' execution)) (\<lambda>document.
     let nested = jat ''execution'' execution in
     rbind (ex_mapping perr nested) (\<lambda>_.
     rbind (as_protocol (canonical_bytes (JObj [(''schema_version'', JInt 2), (''execution'', nested),
       (''receipt_document_json'', JStr document)]))) (\<lambda>inner.
     rbind (bad (length inner > MAX_V2_RESPONSE)) (\<lambda>_.
     rbind (as_protocol (canonical_bytes (JObj [(''schema_version'', JInt 1),
       (''tenant_id'', JStr (ec_tenant c)), (''governance_revision'', JInt revision),
       (''execution'', nested)]))) (\<lambda>wrapper.
     rbind (parse_source_execution wrapper (c\<lparr>ec_revision := revision\<rparr>)) (\<lambda>x.
     rbind (bad (cr_digest (se_receipt x) \<noteq> sha256_digest document)) (\<lambda>_.
     Inr (x, document)))))))))))))"

section \<open>Outcomes\<close>

definition receipt_fields :: "pystr list" where
  "receipt_fields = [''schema_version'', ''receipt_id'', ''lineage'', ''chain'', ''status'', ''values'',
     ''outcome'', ''evidence_refs'', ''issued_at'', ''signer'', ''signature'']"

text \<open>The evidence of kind \<open>runtime\<close>: at least one, all of the decision.\<close>

definition runtime_evidence :: "pystr \<Rightarrow> json \<Rightarrow> unit res" where
  "runtime_evidence decision v =
     (case v of
        JArr refs \<Rightarrow>
          let runtime = filter (\<lambda>r. is_obj r \<and> jat ''kind'' r = JStr ''runtime'') refs in
          rbind (bad (runtime = [])) (\<lambda>_.
          bad (list_ex (\<lambda>r. jat ''digest'' r \<noteq> JStr decision \<or>
            jat ''uri'' r \<noteq> JStr (EVIDENCE_PREFIX @ drop 7 decision)) runtime))
      | _ \<Rightarrow> Inl perr)"

definition receipt_joins :: "pystr \<Rightarrow> pystr \<Rightarrow> pystr \<Rightarrow> pystr \<Rightarrow> pystr \<Rightarrow> unit res" where
  "receipt_joins document receipt_id acceptance task_id decision =
     rbind (as_protocol (strict_json_loads document)) (\<lambda>v.
     rbind (ex_mapping perr v) (\<lambda>_.
     rbind (exact_set perr receipt_fields v) (\<lambda>_.
     rbind (exact_version perr (jat ''schema_version'' v)) (\<lambda>_.
     rbind (as_protocol (canonical_bytes v)) (\<lambda>bytes.
     rbind (bad (bytes \<noteq> document)) (\<lambda>_.
     rbind (as_protocol (canonical_bytes (JObj (filter (\<lambda>p. fst p \<notin> {''receipt_id'', ''signature''})
       (obj_items v))))) (\<lambda>identity.
     rbind (bad (sha256_digest identity \<noteq> receipt_id)) (\<lambda>_.
     rbind (bad (jat ''receipt_id'' v \<noteq> JStr receipt_id)) (\<lambda>_.
     rbind (bad (jat ''state'' (jat ''outcome'' v) \<noteq> JStr acceptance)) (\<lambda>_.
     rbind (bad (\<not> is_obj (jat ''chain'' v))) (\<lambda>_.
     rbind (as_protocol (on_str validate_digest (jat ''previous_receipt_id'' (jat ''chain'' v)))) (\<lambda>_.
     rbind (bad (jat ''task_id'' (jat ''lineage'' v) \<noteq> JStr task_id)) (\<lambda>_.
     runtime_evidence decision (jat ''evidence_refs'' v))))))))))))))"

record outcome_reply =
  oc_receipt_id :: pystr
  oc_receipt_digest :: pystr
  oc_original :: pystr
  oc_acceptance :: pystr
  oc_recorded :: bool
  oc_document :: pystr

definition outcome_body :: "json \<Rightarrow> pystr \<Rightarrow> pystr \<Rightarrow> pystr \<Rightarrow> outcome_reply res" where
  "outcome_body v task_id receipt_digest decision =
     rbind (ex_mapping perr v) (\<lambda>_.
     rbind (exact_set perr [''schema_version'', ''receipt_id'', ''receipt_digest'',
       ''original_receipt_digest'', ''acceptance'', ''already_recorded'', ''receipt_document_json''] v) (\<lambda>_.
     rbind (exact_version perr (jat ''schema_version'' v)) (\<lambda>_.
     rbind (ex_text_with MAX_OUTCOME_TASK False True perr (JStr task_id)) (\<lambda>task.
     rbind (as_protocol (validate_digest receipt_digest)) (\<lambda>supplied.
     rbind (as_protocol (validate_digest decision)) (\<lambda>decided.
     rbind (as_protocol (on_str validate_digest (jat ''receipt_id'' v))) (\<lambda>receipt_id.
     rbind (as_protocol (on_str validate_digest (jat ''receipt_digest'' v))) (\<lambda>successor.
     rbind (as_protocol (on_str validate_digest (jat ''original_receipt_digest'' v))) (\<lambda>original.
     rbind (bad (original \<noteq> supplied)) (\<lambda>_.
     rbind (one_of [''accepted'', ''rejected''] (jat ''acceptance'' v)) (\<lambda>acceptance.
     rbind (bool_of (jat ''already_recorded'' v)) (\<lambda>recorded.
     rbind (ex_text_with MAX_RECEIPT_DOCUMENT False False perr (jat ''receipt_document_json'' v)) (\<lambda>document.
     rbind (bad (sha256_digest document \<noteq> successor)) (\<lambda>_.
     rbind (receipt_joins document receipt_id acceptance task decided) (\<lambda>_.
     Inr \<lparr>oc_receipt_id = receipt_id, oc_receipt_digest = successor, oc_original = original,
       oc_acceptance = acceptance, oc_recorded = recorded, oc_document = document\<rparr>)))))))))))))))"

definition parse_outcome_response ::
  "pystr \<Rightarrow> pystr \<Rightarrow> pystr \<Rightarrow> pystr \<Rightarrow> pystr \<Rightarrow> outcome_reply res" where
  "parse_outcome_response raw task_id receipt_digest decision tenant_id =
     rbind (reply_document (MAX_V2_RESPONSE + MAX_V2_WRAPPER) raw) (\<lambda>v.
     rbind (exact_set perr [''schema_version'', ''tenant_id'', ''outcome''] v) (\<lambda>_.
     rbind (exact_version perr (jat ''schema_version'' v)) (\<lambda>_.
     rbind (bad (jat ''tenant_id'' v \<noteq> JStr tenant_id)) (\<lambda>_.
     outcome_body (jat ''outcome'' v) task_id receipt_digest decision))))"

end
