(* ===== verification/Provider.thy ===== *)
theory Provider
  imports Execution_Request
begin

text \<open>
  Provider execution (\<open>src/leanctx_sdk/provider_execution.py\<close>): the request for a concrete provider
  plan and the response with its usage, cost, failure and output.
\<close>

definition MAX_SAFE_INTEGER :: int where "MAX_SAFE_INTEGER = 9007199254740991"
definition MAX_PROVIDER_RESPONSE :: nat where "MAX_PROVIDER_RESPONSE = 1024 * 1024"
definition MAX_PROVIDER_OUTPUT :: nat where "MAX_PROVIDER_OUTPUT = 256 * 1024"
definition MAX_PROVIDER_TOKENS :: int where "MAX_PROVIDER_TOKENS = 65536"

definition provider_statuses :: "pystr list" where
  "provider_statuses = [''succeeded'', ''failed'', ''rejected'', ''timed_out'', ''dispatch_uncertain'']"

definition usage_counters :: "pystr list" where
  "usage_counters = [''cache_read_input_tokens'', ''cache_write_input_tokens'', ''output_tokens'',
     ''total_input_tokens'', ''uncached_input_tokens'']"

definition bounded_text :: "nat \<Rightarrow> bool \<Rightarrow> bool \<Rightarrow> exn \<Rightarrow> json \<Rightarrow> pystr res" where
  "bounded_text maximum nonempty controls e v =
     (case v of
        JStr s \<Rightarrow>
          rbind (fail_if e (\<not> strict_utf8 s)) (\<lambda>_.
          rbind (fail_if e ((nonempty \<and> s = []) \<or> length s > maximum)) (\<lambda>_.
          rbind (fail_if e (controls \<and> has_cc s)) (\<lambda>_. Inr s)))
      | _ \<Rightarrow> Inl e)"

lemma bounded_text_Inr [ok_simps]:
  "bounded_text n ne c e v = Inr s \<longleftrightarrow>
     v = JStr s \<and> strict_utf8 s \<and> (ne \<longrightarrow> s \<noteq> []) \<and> length s \<le> n \<and> \<not> (c \<and> has_cc s)"
  by (cases v) (auto simp: bounded_text_def ok_simps not_less)

definition wire_text :: "json \<Rightarrow> pystr res" where
  "wire_text v = bounded_text MAX_REF_BYTES True True InstanceProtocolError v"

section \<open>Requests\<close>

text \<open>The plan names a provider and a model, a budget within the request's and no retry.\<close>

definition provider_plan_check :: "json \<Rightarrow> planning_request \<Rightarrow> unit res" where
  "provider_plan_check p request =
     rbind (check (case jat ''context_plan_id'' p of JStr s \<Rightarrow> s \<noteq> [] | _ \<Rightarrow> False) ValidationError) (\<lambda>_.
     rbind (ex_integer (pq_budget request) ValidationError (jat ''context_budget_tokens'' p)) (\<lambda>budget.
     rbind (check (1 \<le> budget) ValidationError) (\<lambda>_.
     rbind (check (str_at ''provider'' p \<notin> {''local-native'', ''auto''} \<and>
       str_at ''model'' p \<notin> {''local-native'', ''auto''}) ValidationError) (\<lambda>_.
     rbind (check (jat ''max_retries'' p = JInt 0 \<and> jat ''fallback_refs'' p = JArr []) ValidationError) (\<lambda>_.
     rbind (bounded_text MAX_REF_BYTES True True ValidationError (jat ''provider'' p)) (\<lambda>_.
     rbind (bounded_text MAX_REF_BYTES True True ValidationError (jat ''model'' p)) (\<lambda>_. Inr ())))))))"

definition validate_provider_request ::
  "json \<Rightarrow> json \<Rightarrow> planning_request \<Rightarrow> pystr \<Rightarrow> json \<Rightarrow> (json \<times> json \<times> int) res" where
  "validate_provider_request task plan request tenant_id max_output_tokens =
     rbind (validate_task ValidationError task request tenant_id) (\<lambda>t.
     rbind (validate_plan ValidationError plan (str_at ''task_id'' t) True) (\<lambda>p.
     rbind (provider_plan_check p request) (\<lambda>_.
     rbind (ex_integer MAX_PROVIDER_TOKENS ValidationError max_output_tokens) (\<lambda>tokens.
     rbind (check (1 \<le> tokens) ValidationError) (\<lambda>_. Inr (t, p, tokens))))))"

section \<open>Usage and cost\<close>

definition counter_of :: "json \<Rightarrow> int option res" where
  "counter_of v =
     (if v = JNull then Inr None
      else rbind (ex_integer MAX_SAFE_INTEGER InstanceProtocolError v) (\<lambda>i. Inr (Some i)))"

record usage =
  us_state :: pystr
  us_cache_read :: "int option"
  us_cache_write :: "int option"
  us_output :: "int option"
  us_total :: "int option"
  us_uncached :: "int option"

definition usage_counts :: "usage \<Rightarrow> int option list" where
  "usage_counts u = [us_cache_read u, us_cache_write u, us_output u, us_total u, us_uncached u]"

definition check_usage :: "usage \<Rightarrow> unit res" where
  "check_usage u =
     (if us_state u = ''unavailable'' then bad (list_ex (\<lambda>c. c \<noteq> None) (usage_counts u))
      else
        rbind (bad (list_ex (\<lambda>c. c = None) (usage_counts u))) (\<lambda>_.
        bad (the (us_total u) \<noteq>
             the (us_uncached u) + the (us_cache_write u) + the (us_cache_read u))))"

definition parse_usage :: "json \<Rightarrow> usage res" where
  "parse_usage v =
     rbind (ex_mapping InstanceProtocolError v) (\<lambda>_.
     rbind (exact_set InstanceProtocolError (''state'' # usage_counters) v) (\<lambda>_.
     rbind (one_of [''measured'', ''estimated'', ''unavailable''] (jat ''state'' v)) (\<lambda>state.
     rbind (mapr (\<lambda>k. counter_of (jat k v)) usage_counters) (\<lambda>cs.
     let u = \<lparr>us_state = state, us_cache_read = cs ! 0, us_cache_write = cs ! 1, us_output = cs ! 2,
       us_total = cs ! 3, us_uncached = cs ! 4\<rparr> in
     rbind (check_usage u) (\<lambda>_. Inr u)))))"

datatype cost = CostUnavailable | Cost pystr int

definition priced_estimate :: "cost \<Rightarrow> bool" where
  "priced_estimate c =
     (case c of CostUnavailable \<Rightarrow> False | Cost basis _ \<Rightarrow> basis = ''usage_priced_estimate'')"

definition parse_cost :: "json \<Rightarrow> cost res" where
  "parse_cost v =
     rbind (ex_mapping InstanceProtocolError v) (\<lambda>_.
     if jat ''basis'' v = JStr ''unavailable'' then
       rbind (exact_set InstanceProtocolError [''basis''] v) (\<lambda>_. Inr CostUnavailable)
     else
       rbind (one_of [''usage_priced_estimate'', ''observed_charge''] (jat ''basis'' v)) (\<lambda>basis.
       rbind (exact_set InstanceProtocolError [''basis'', ''micros''] v) (\<lambda>_.
       rbind (ex_integer MAX_SAFE_INTEGER InstanceProtocolError (jat ''micros'' v)) (\<lambda>m.
       Inr (Cost basis m)))))"

section \<open>Failure and output\<close>

record provider_failure =
  pf_code :: pystr
  pf_recovery :: "pystr option"

definition recovery_needed :: "pystr \<Rightarrow> pystr option \<Rightarrow> unit res" where
  "recovery_needed code recovery =
     rbind (bad (code = ''policy_rejected'' \<and> recovery \<noteq> None)) (\<lambda>_.
     bad (code \<in> {''source_unavailable'', ''source_integrity_mismatch''} \<and> recovery = None))"

definition parse_provider_failure :: "json \<Rightarrow> provider_failure res" where
  "parse_provider_failure v =
     rbind (ex_mapping InstanceProtocolError v) (\<lambda>_.
     rbind (has_fields [''code'', ''retryable_by_host''] [''recovery_ref''] v) (\<lambda>_.
     rbind (one_of failure_codes (jat ''code'' v)) (\<lambda>code.
     rbind (bool_of (jat ''retryable_by_host'' v)) (\<lambda>retryable.
     rbind (opt_value_of required_ref (jat ''recovery_ref'' v)) (\<lambda>recovery.
     rbind (bad retryable) (\<lambda>_.
     rbind (recovery_needed code recovery) (\<lambda>_.
     Inr \<lparr>pf_code = code, pf_recovery = recovery\<rparr>)))))))"

record provider_output =
  po_content :: pystr
  po_digest :: pystr

definition parse_output :: "json \<Rightarrow> provider_output res" where
  "parse_output v =
     rbind (ex_mapping InstanceProtocolError v) (\<lambda>_.
     rbind (exact_set InstanceProtocolError [''content'', ''sha256_digest''] v) (\<lambda>_.
     rbind (bounded_text MAX_PROVIDER_OUTPUT False False InstanceProtocolError (jat ''content'' v)) (\<lambda>content.
     rbind (as_protocol (on_str validate_digest (jat ''sha256_digest'' v))) (\<lambda>digest.
     rbind (bad (digest \<noteq> sha256_digest content)) (\<lambda>_.
     Inr \<lparr>po_content = content, po_digest = digest\<rparr>)))))"

section \<open>Responses\<close>

record provider_reply =
  pv_attempt :: pystr
  pv_task :: pystr
  pv_plan :: pystr
  pv_context_digest :: pystr
  pv_request_digest :: pystr
  pv_provider :: pystr
  pv_model :: pystr
  pv_status :: pystr
  pv_usage :: usage
  pv_cost :: cost
  pv_output :: "provider_output option"
  pv_failure :: "provider_failure option"

definition provider_required :: "pystr list" where
  "provider_required = [''schema_version'', ''transport_version'', ''engine_interface_version'',
     ''attempt_id'', ''task_id'', ''plan_id'', ''context_digest'', ''request_digest'', ''provider'',
     ''model'', ''status'', ''acceptance'', ''usage'', ''cost'']"

definition check_provider_status ::
  "pystr \<Rightarrow> provider_output option \<Rightarrow> provider_failure option \<Rightarrow> unit res" where
  "check_provider_status status output failure =
     (if status = ''succeeded'' then bad (output = None \<or> failure \<noteq> None)
      else bad (output \<noteq> None \<or> failure = None))"

definition provider_response_of :: "json \<Rightarrow> json \<Rightarrow> json \<Rightarrow> pystr \<Rightarrow> provider_reply res" where
  "provider_response_of v task plan tenant_id =
     rbind (has_fields provider_required [''output'', ''failure''] v) (\<lambda>_.
     rbind (exact_version InstanceProtocolError (jat ''schema_version'' v)) (\<lambda>_.
     rbind (exact_version InstanceProtocolError (jat ''transport_version'' v)) (\<lambda>_.
     rbind (bad (jat ''engine_interface_version'' v \<noteq> JStr ENGINE_INTERFACE_VERSION)) (\<lambda>_.
     rbind (bad (jat ''tenant_id'' task \<noteq> JStr tenant_id)) (\<lambda>_.
     rbind (wire_text (jat ''attempt_id'' v)) (\<lambda>attempt.
     rbind (wire_text (jat ''task_id'' v)) (\<lambda>task_id.
     rbind (wire_text (jat ''plan_id'' v)) (\<lambda>plan_id.
     rbind (bad (JStr task_id \<noteq> jat ''task_id'' task \<or> JStr plan_id \<noteq> jat ''plan_id'' plan)) (\<lambda>_.
     rbind (as_protocol (on_str validate_digest (jat ''context_digest'' v))) (\<lambda>context_digest.
     rbind (as_protocol (on_str validate_digest (jat ''request_digest'' v))) (\<lambda>request_digest.
     rbind (wire_text (jat ''provider'' v)) (\<lambda>provider.
     rbind (wire_text (jat ''model'' v)) (\<lambda>model.
     rbind (bad (JStr provider \<noteq> jat ''provider'' plan \<or> JStr model \<noteq> jat ''model'' plan)) (\<lambda>_.
     rbind (one_of provider_statuses (jat ''status'' v)) (\<lambda>status.
     rbind (bad (jat ''acceptance'' v \<noteq> JStr ''unknown'')) (\<lambda>_.
     rbind (parse_usage (jat ''usage'' v)) (\<lambda>usage.
     rbind (parse_cost (jat ''cost'' v)) (\<lambda>cost.
     rbind (bad (priced_estimate cost \<and> us_state usage = ''unavailable'')) (\<lambda>_.
     rbind (opt_value_of parse_output (jat ''output'' v)) (\<lambda>output.
     rbind (opt_value_of parse_provider_failure (jat ''failure'' v)) (\<lambda>failure.
     rbind (check_provider_status status output failure) (\<lambda>_.
     Inr \<lparr>pv_attempt = attempt, pv_task = task_id, pv_plan = plan_id,
       pv_context_digest = context_digest, pv_request_digest = request_digest, pv_provider = provider,
       pv_model = model, pv_status = status, pv_usage = usage, pv_cost = cost, pv_output = output,
       pv_failure = failure\<rparr>))))))))))))))))))))))"

definition parse_provider_response :: "pystr \<Rightarrow> json \<Rightarrow> json \<Rightarrow> pystr \<Rightarrow> provider_reply res" where
  "parse_provider_response raw task plan tenant_id =
     rbind (reply_document MAX_PROVIDER_RESPONSE raw) (\<lambda>v. provider_response_of v task plan tenant_id)"

end
