(* ===== verification/Remote.thy ===== *)
theory Remote
  imports Presenter Execution Provider
begin

text \<open>
  The authenticated HTTP path of the Enterprise operations
  (\<open>_AuthenticatedInstanceTransport\<close> of \<open>src/leanctx_sdk/enterprise_instance.py\<close>): identifiers and
  credentials, the request with its headers, and the response under a deadline. The network is an
  argument, from requests to exchanges; an \<^emph>\<open>exchange\<close> says what the peer did and after how many looks
  at the clock the deadline came. A URL and a timeout are given as checked.
\<close>

section \<open>Identifiers and credentials\<close>

definition MAX_CREDENTIAL :: nat where "MAX_CREDENTIAL = 4096"

definition lower_ascii :: "char \<Rightarrow> char" where
  "lower_ascii c = (if 65 \<le> byte c \<and> byte c \<le> 90 then char_of (byte c + 32) else c)"

text \<open>
  \<open>str(uuid.UUID(value))\<close> is the text of 32 hexadecimal digits in groups of 8, 4, 4, 4 and 12; it
  equals \<open>value.lower()\<close> only for a value written that way. The nil UUID is refused.
\<close>

definition canonical_uuid :: "json \<Rightarrow> pystr res" where
  "canonical_uuid v =
     (case v of
        JStr s \<Rightarrow>
          let canonical = map lower_ascii s in
          rbind (check (is_uuid canonical) ValidationError) (\<lambda>_.
          rbind (check (list_ex (\<lambda>c. c \<notin> set ''0-'') canonical) ValidationError) (\<lambda>_. Inr canonical))
      | _ \<Rightarrow> Inl ValidationError)"

lemma canonical_uuid_Inr [ok_simps]:
  "canonical_uuid v = Inr u \<longleftrightarrow>
     (\<exists>s. v = JStr s \<and> u = map lower_ascii s \<and> is_uuid u \<and> list_ex (\<lambda>c. c \<notin> set ''0-'') u)"
  by (cases v) (auto simp: canonical_uuid_def Let_def ok_simps)

definition configured_uuid :: "json \<Rightarrow> pystr res" where
  "configured_uuid v =
     on_err (\<lambda>e. if e = ValidationError then ConfigurationError else e) (canonical_uuid v)"

definition validate_credential :: "json \<Rightarrow> pystr res" where
  "validate_credential v =
     (case v of
        JStr s \<Rightarrow>
          rbind (check (is_ascii s) ConfigurationError) (\<lambda>_.
          rbind (check (0 < length s \<and> length s \<le> MAX_CREDENTIAL \<and>
            list_all (\<lambda>c. 33 \<le> byte c \<and> byte c \<le> 126) s) ConfigurationError) (\<lambda>_. Inr s))
      | _ \<Rightarrow> Inl ConfigurationError)"

definition source_ids_of :: "json list \<Rightarrow> pystr list res" where
  "source_ids_of ids =
     rbind (check (length ids \<le> MAX_PLAN_SOURCES) ValidationError) (\<lambda>_.
     rbind (mapr canonical_uuid ids) (\<lambda>normalized.
     rbind (check (distinct normalized) ValidationError) (\<lambda>_. Inr normalized)))"

definition validate_u64 :: "json \<Rightarrow> int res" where
  "validate_u64 v = int_in 0 MAX_U64 v"

definition validate_input_u64 :: "json \<Rightarrow> int res" where
  "validate_input_u64 v = ex_integer MAX_U64 ValidationError v"

section \<open>Exchanges\<close>

datatype connect = Connected | NoSocket | ConnectTimeout | ConnectFailed

datatype body_event = ReadChunk pystr | ReadFailed

record exchange =
  xc_clock :: nat
  xc_connect :: connect
  xc_answered :: bool
  xc_status :: int
  xc_length :: "pystr option"
  xc_reads :: "body_event list"

record http_request =
  hq_path :: pystr
  hq_headers :: "(pystr \<times> pystr) list"
  hq_body :: pystr

type_synonym network = "http_request \<Rightarrow> exchange"

text \<open>\<open>_remaining\<close>: look number \<open>i\<close> at the clock.\<close>

definition remaining :: "exchange \<Rightarrow> nat \<Rightarrow> unit res" where
  "remaining x i = check (i < xc_clock x) InstanceTimeout"

lemma remaining_Inr [ok_simps]: "remaining x i = Inr u \<longleftrightarrow> i < xc_clock x"
  by (simp add: remaining_def ok_simps)

text \<open>A failure of the socket is a timeout once the deadline has come.\<close>

definition net_error :: "exchange \<Rightarrow> nat \<Rightarrow> exn" where
  "net_error x i = (if i < xc_clock x then InstanceUnavailable else InstanceTimeout)"

definition connected :: "exchange \<Rightarrow> unit res" where
  "connected x =
     rbind (remaining x 0) (\<lambda>_.
     case xc_connect x of
       ConnectTimeout \<Rightarrow> Inl InstanceTimeout
     | ConnectFailed \<Rightarrow> Inl (net_error x 1)
     | NoSocket \<Rightarrow> rbind (remaining x 1) (\<lambda>_. Inl InstanceUnavailable)
     | Connected \<Rightarrow> rbind (remaining x 1) (\<lambda>_. rbind (remaining x 2) (\<lambda>_. remaining x 3)))"

lemma connected_Inr [ok_simps]: "connected x = Inr u \<longleftrightarrow> xc_connect x = Connected \<and> 3 < xc_clock x"
  by (cases "xc_connect x") (auto simp: connected_def ok_simps)

text \<open>
  \<open>int(content_length)\<close> of a header, read as Latin-1: a decimal number with a sign and single
  underscores, and at most 4300 digits.
\<close>

fun header_digits :: "int \<Rightarrow> pystr \<Rightarrow> int option" where
  "header_digits acc [] = None"
| "header_digits acc [c] = (if is_digit c then Some (acc * 10 + int (byte c - 48)) else None)"
| "header_digits acc (c # d # cs) =
     (if \<not> is_digit c then None
      else if d = CHR ''_'' then header_digits (acc * 10 + int (byte c - 48)) cs
      else header_digits (acc * 10 + int (byte c - 48)) (d # cs))"

definition header_space :: "char \<Rightarrow> bool" where
  "header_space c \<longleftrightarrow> re_space (byte c)"

definition header_int :: "pystr \<Rightarrow> int option" where
  "header_int s =
     (let t = rev (dropWhile header_space (rev (dropWhile header_space s)));
          number = (\<lambda>u. if length (filter is_digit u) \<le> 4300 then header_digits 0 u else None) in
      case t of
        [] \<Rightarrow> None
      | c # u \<Rightarrow>
          if c = CHR ''-'' then map_option uminus (number u)
          else if c = CHR ''+'' then number u
          else number t)"

definition declared_length :: "nat \<Rightarrow> pystr option \<Rightarrow> unit res" where
  "declared_length maximum header =
     (case header of
        None \<Rightarrow> Inr ()
      | Some s \<Rightarrow>
          (case header_int s of
             None \<Rightarrow> Inl InstanceProtocolError
           | Some n \<Rightarrow> bad (n < 0 \<or> n > int maximum)))"

definition check_http_status :: "int \<Rightarrow> bool \<Rightarrow> unit res" where
  "check_http_status status unsupported_route =
     rbind (bad (300 \<le> status \<and> status < 400)) (\<lambda>_.
     rbind (check (\<not> (unsupported_route \<and> status \<in> {404, 405, 501})) UnsupportedInstanceError) (\<lambda>_.
     rbind (check (status \<noteq> 401) InstanceRejected) (\<lambda>_.
     rbind (check (status \<noteq> 403) PolicyAdmissionError) (\<lambda>_.
     check (200 \<le> status \<and> status < 300)
       (if status \<ge> 500 then InstanceUnavailable else InstanceRejected)))))"

lemma check_http_status_Inr [ok_simps]:
  "check_http_status st u = Inr a \<longleftrightarrow> 200 \<le> st \<and> st < 300"
  by (auto simp: check_http_status_def ok_simps)

text \<open>
  \<open>_read_response\<close>: pieces of at most 64 KiB until the stream ends. A peer that says nothing more is
  met by the deadline.
\<close>

fun read_response :: "exchange \<Rightarrow> nat \<Rightarrow> nat \<Rightarrow> pystr \<Rightarrow> body_event list \<Rightarrow> pystr res" where
  "read_response x maximum i got [] = Inl InstanceTimeout"
| "read_response x maximum i got (e # es) =
     rbind (remaining x i) (\<lambda>_.
     case e of
       ReadFailed \<Rightarrow> Inl (net_error x (i + 1))
     | ReadChunk c \<Rightarrow>
         let piece = take (min (64 * 1024) (maximum + 1 - length got)) c in
         if piece = [] then Inr got
         else
           rbind (bad (length (got @ piece) > maximum)) (\<lambda>_.
           read_response x maximum (i + 1) (got @ piece) es))"

definition PRESENTER_HEADER :: pystr where "PRESENTER_HEADER = ''x-leanctx-presenter''"

definition request_headers :: "pystr \<Rightarrow> pystr \<Rightarrow> presenter_capability option \<Rightarrow> (pystr \<times> pystr) list" where
  "request_headers credential payload presenter =
     [(''Accept'', ''application/json''), (''Content-Type'', ''application/json''),
      (''Content-Length'', int_text (int (length payload))),
      (''Authorization'', ''Bearer '' @ credential)] @
     (case presenter of None \<Rightarrow> [] | Some c \<Rightarrow> [(PRESENTER_HEADER, reveal c)]) @
     [(''Connection'', ''close'')]"

definition http_request_of ::
  "pystr \<Rightarrow> pystr \<Rightarrow> pystr \<Rightarrow> presenter_capability option \<Rightarrow> http_request" where
  "http_request_of credential path payload presenter =
     \<lparr>hq_path = path, hq_headers = request_headers credential payload presenter, hq_body = payload\<rparr>"

definition post_json ::
  "network \<Rightarrow> pystr \<Rightarrow> pystr \<Rightarrow> pystr \<Rightarrow> nat \<Rightarrow> presenter_capability option \<Rightarrow> bool \<Rightarrow> pystr res" where
  "post_json net credential path payload maximum presenter unsupported_route =
     (let x = net (http_request_of credential path payload presenter) in
      rbind (connected x) (\<lambda>_.
      rbind (remaining x 4) (\<lambda>_.
      rbind (check (xc_answered x) (net_error x 5)) (\<lambda>_.
      rbind (remaining x 5) (\<lambda>_.
      rbind (check_http_status (xc_status x) unsupported_route) (\<lambda>_.
      rbind (declared_length maximum (xc_length x)) (\<lambda>_.
      read_response x maximum 6 [] (xc_reads x))))))))"

end
