(* ===== verification/Enterprise.thy ===== *)
theory Enterprise
  imports Remote
begin

text \<open>
  The Enterprise operations (\<open>EnterpriseInstanceClient\<close> and \<open>InstanceContextClient\<close> of
  \<open>src/leanctx_sdk/enterprise_instance.py\<close>): plan, materialize, execute, provider execution, outcome,
  presented use, revocation and guarded read. Each checks its arguments, sends one request and binds the
  response to what was asked.
\<close>

definition MAX_REMOTE_REQUEST :: nat where "MAX_REMOTE_REQUEST = 64 * 1024"
definition MAX_REMOTE_RESPONSE :: nat where "MAX_REMOTE_RESPONSE = 1024 * 1024"
definition MAX_MATERIALIZED :: nat where "MAX_MATERIALIZED = 1024 * 1024"
definition MAX_MATERIALIZATION :: nat where
  "MAX_MATERIALIZATION = MAX_REMOTE_RESPONSE + MAX_MATERIALIZED"
definition MAX_EXECUTION :: nat where
  "MAX_EXECUTION = MAX_REMOTE_RESPONSE + MAX_MATERIALIZED + MAX_REMOTE_RESPONSE"
definition MAX_PRESENTER_ENVELOPE :: nat where "MAX_PRESENTER_ENVELOPE = 512"
definition MAX_SOURCE_PLAN_REQUEST :: nat where "MAX_SOURCE_PLAN_REQUEST = 1024 * 1024"

record enterprise =
  en_credential :: pystr
  en_tenant :: pystr

definition mk_enterprise :: "json \<Rightarrow> json \<Rightarrow> enterprise res" where
  "mk_enterprise credential tenant_id =
     rbind (validate_credential credential) (\<lambda>c.
     rbind (configured_uuid tenant_id) (\<lambda>t. Inr \<lparr>en_credential = c, en_tenant = t\<rparr>))"

section \<open>Requests\<close>

text \<open>The canonical bytes of a body within its bound.\<close>

definition request_body :: "nat \<Rightarrow> json \<Rightarrow> pystr res" where
  "request_body maximum doc =
     rbind (canonical_bytes doc) (\<lambda>b.
     rbind (check (length b \<le> maximum) ValidationError) (\<lambda>_. Inr b))"

lemma request_body_Inr [ok_simps]:
  "request_body n doc = Inr b \<longleftrightarrow> canonical_bytes doc = Inr b \<and> length b \<le> n"
  by (auto simp: request_body_def ok_simps)

definition plan_body :: "planning_request \<Rightarrow> pystr list \<Rightarrow> json res" where
  "plan_body request ids =
     rbind (planning_request_to_dict request) (\<lambda>doc.
     Inr (JObj [(''planning'', doc), (''source_ids'', JArr (map JStr ids))]))"

text \<open>The governance revision and the binding digest a caller expects.\<close>

record expectation =
  ex_ids :: "pystr list"
  ex_revision :: int
  ex_digest :: pystr

definition expectation_of :: "pystr list \<Rightarrow> json \<Rightarrow> json \<Rightarrow> expectation res" where
  "expectation_of ids revision digest =
     rbind (validate_input_u64 revision) (\<lambda>r.
     rbind (on_str validate_digest digest) (\<lambda>d.
     Inr \<lparr>ex_ids = ids, ex_revision = r, ex_digest = d\<rparr>))"

definition evaluation_items :: "json \<Rightarrow> (pystr \<times> json) list res" where
  "evaluation_items evaluation =
     (if evaluation = JNull then Inr []
      else rbind (timestamp evaluation) (\<lambda>t. Inr [(''planning_evaluation_time'', JStr t)]))"

definition evaluation_time_of :: "json \<Rightarrow> pystr option" where
  "evaluation_time_of evaluation = (case evaluation of JStr t \<Rightarrow> Some t | _ \<Rightarrow> None)"

text \<open>The members of a materialization; a presenter comes before the evaluation time.\<close>

definition materialization_items ::
  "planning_request \<Rightarrow> expectation \<Rightarrow> (pystr \<times> json) list res \<Rightarrow> json \<Rightarrow> (pystr \<times> json) list res" where
  "materialization_items request e presenter evaluation =
     rbind (planning_request_to_dict request) (\<lambda>doc.
     rbind presenter (\<lambda>ps.
     rbind (evaluation_items evaluation) (\<lambda>ts.
     Inr ([(''planning'', doc), (''source_ids'', JArr (map JStr (ex_ids e))),
           (''expected_governance_revision'', JInt (ex_revision e)),
           (''expected_binding_digest'', JStr (ex_digest e))] @ ps @ ts))))"

section \<open>Responses\<close>

text \<open>An envelope: its fields, its version and the tenant of the client.\<close>

definition tenant_envelope :: "pystr list \<Rightarrow> pystr \<Rightarrow> json \<Rightarrow> unit res" where
  "tenant_envelope keys tenant v =
     rbind (exact_set perr keys v) (\<lambda>_.
     rbind (bad (jat ''schema_version'' v \<noteq> JInt 1)) (\<lambda>_.
     rbind (as_protocol (canonical_uuid (jat ''tenant_id'' v))) (\<lambda>t.
     bad (t \<noteq> tenant))))"

definition remote_scope :: "source_plan \<Rightarrow> pystr list \<Rightarrow> unit res" where
  "remote_scope sp ids = execution_scope sp ids"

definition remote_source_plan :: "planning_request \<Rightarrow> pystr list \<Rightarrow> json \<Rightarrow> source_plan res" where
  "remote_source_plan request ids v =
     rbind (as_protocol (canonical_bytes v)) (\<lambda>b.
     rbind (as_protocol (parse_source_plan b request None)) (\<lambda>sp.
     rbind (remote_scope sp ids) (\<lambda>_. Inr sp)))"

record remote_plan =
  rp_revision :: int
  rp_plan :: source_plan

definition parse_plan_response ::
  "pystr \<Rightarrow> pystr \<Rightarrow> planning_request \<Rightarrow> pystr list \<Rightarrow> remote_plan res" where
  "parse_plan_response tenant raw request ids =
     rbind (as_protocol (strict_json_loads raw)) (\<lambda>v.
     rbind (tenant_envelope [''schema_version'', ''tenant_id'', ''governance_revision'', ''plan''] tenant v)
       (\<lambda>_.
     rbind (validate_u64 (jat ''governance_revision'' v)) (\<lambda>r.
     rbind (remote_source_plan request ids (jat ''plan'' v)) (\<lambda>sp.
     Inr \<lparr>rp_revision = r, rp_plan = sp\<rparr>))))"

record materialized =
  mz_revision :: int
  mz_plan :: source_plan
  mz_digest :: pystr
  mz_tokens :: int
  mz_content :: pystr

definition materialized_content :: "json \<Rightarrow> pystr res" where
  "materialized_content v = bounded_text MAX_MATERIALIZED False False perr v"

definition materialization_of ::
  "planning_request \<Rightarrow> expectation \<Rightarrow> int \<Rightarrow> json \<Rightarrow> materialized res" where
  "materialization_of request e revision m =
     rbind (exact_set perr [''schema_version'', ''transport_version'', ''engine_interface_version'', ''plan'',
       ''materialized_digest'', ''materialized_token_count'', ''content''] m) (\<lambda>_.
     rbind (bad (jat ''schema_version'' m \<noteq> JInt 1 \<or> jat ''transport_version'' m \<noteq> JInt 1)) (\<lambda>_.
     rbind (bad (jat ''engine_interface_version'' m \<noteq> JStr ENGINE_INTERFACE_VERSION)) (\<lambda>_.
     rbind (remote_source_plan request (ex_ids e) (jat ''plan'' m)) (\<lambda>sp.
     rbind (bad (sp_digest sp \<noteq> ex_digest e)) (\<lambda>_.
     rbind (as_protocol (on_str validate_digest (jat ''materialized_digest'' m))) (\<lambda>d.
     rbind (validate_u64 (jat ''materialized_token_count'' m)) (\<lambda>n.
     rbind (bad (n > gp_budget (sp_plan sp))) (\<lambda>_.
     rbind (materialized_content (jat ''content'' m)) (\<lambda>content.
     rbind (bad (sha256_digest content \<noteq> d)) (\<lambda>_.
     Inr \<lparr>mz_revision = revision, mz_plan = sp, mz_digest = d, mz_tokens = n,
       mz_content = content\<rparr>))))))))))"

definition materialization_keys :: "pystr list" where
  "materialization_keys = [''schema_version'', ''tenant_id'', ''governance_revision'', ''materialization'']"

definition parse_materialization ::
  "pystr \<Rightarrow> pystr \<Rightarrow> planning_request \<Rightarrow> expectation \<Rightarrow> materialized res" where
  "parse_materialization tenant raw request e =
     rbind (as_protocol (strict_json_loads raw)) (\<lambda>v.
     rbind (tenant_envelope materialization_keys tenant v) (\<lambda>_.
     rbind (validate_u64 (jat ''governance_revision'' v)) (\<lambda>r.
     rbind (bad (r \<noteq> ex_revision e)) (\<lambda>_.
     materialization_of request e r (jat ''materialization'' v)))))"

text \<open>The second version: the first one beside the grant of a presenter.\<close>

definition parse_materialization_v2 ::
  "pystr \<Rightarrow> pystr \<Rightarrow> planning_request \<Rightarrow> expectation \<Rightarrow> bool \<Rightarrow> (materialized \<times> presenter_grant) res" where
  "parse_materialization_v2 tenant raw request e issued =
     rbind (as_protocol (strict_json_loads raw)) (\<lambda>v.
     rbind (exact_set perr materialization_keys v) (\<lambda>_.
     rbind (bad (jat ''schema_version'' v \<noteq> JInt 2)) (\<lambda>_.
     let engine = jat ''materialization'' v in
     rbind (exact_set perr [''schema_version'', ''materialization'', ''presenter''] engine) (\<lambda>_.
     rbind (bad (jat ''schema_version'' engine \<noteq> JInt 2)) (\<lambda>_.
     rbind (as_protocol (canonical_bytes (JObj [(''schema_version'', JInt 1),
       (''tenant_id'', jat ''tenant_id'' v), (''governance_revision'', jat ''governance_revision'' v),
       (''materialization'', jat ''materialization'' engine)]))) (\<lambda>v1_raw.
     rbind (parse_materialization tenant v1_raw request e) (\<lambda>m.
     rbind (parse_presenter_grant (jat ''presenter'' engine) (mz_content m) issued) (\<lambda>grant.
     Inr (m, grant)))))))))"

definition presenter_response :: "pystr \<Rightarrow> pystr \<Rightarrow> pystr \<Rightarrow> bool \<Rightarrow> json res" where
  "presenter_response tenant raw field with_revision =
     rbind (as_protocol (strict_json_loads raw)) (\<lambda>v.
     rbind (tenant_envelope ([''schema_version'', ''tenant_id'', field] @
       (if with_revision then [''governance_revision''] else [])) tenant v) (\<lambda>_. Inr v))"

section \<open>Plan and materialization\<close>

definition enterprise_plan ::
  "network \<Rightarrow> enterprise \<Rightarrow> planning_request \<Rightarrow> json list \<Rightarrow> remote_plan res" where
  "enterprise_plan net c request source_ids =
     rbind (source_ids_of source_ids) (\<lambda>ids.
     rbind (plan_body request ids) (\<lambda>body.
     rbind (request_body MAX_REMOTE_REQUEST body) (\<lambda>payload.
     rbind (post_json net (en_credential c) ''/v1/engine/context-plan'' payload MAX_REMOTE_RESPONSE None False)
       (\<lambda>raw.
     parse_plan_response (en_tenant c) raw request ids))))"

definition enterprise_materialize ::
  "network \<Rightarrow> enterprise \<Rightarrow> planning_request \<Rightarrow> json list \<Rightarrow> json \<Rightarrow> json \<Rightarrow> json \<Rightarrow> materialized res" where
  "enterprise_materialize net c request source_ids revision digest evaluation =
     rbind (source_ids_of source_ids) (\<lambda>ids.
     rbind (expectation_of ids revision digest) (\<lambda>e.
     rbind (materialization_items request e (Inr []) evaluation) (\<lambda>items.
     rbind (request_body MAX_REMOTE_REQUEST (JObj items)) (\<lambda>payload.
     rbind (post_json net (en_credential c) ''/v1/engine/context-materialize'' payload MAX_MATERIALIZATION
       None False) (\<lambda>raw.
     parse_materialization (en_tenant c) raw request e)))))"

definition held_capability :: "presenter_arg \<Rightarrow> presenter_capability option" where
  "held_capability p = (case p of Held cap \<Rightarrow> Some cap | Lifetime _ \<Rightarrow> None)"

definition presenter_items :: "presenter_arg \<Rightarrow> (pystr \<times> json) list res" where
  "presenter_items p = rbind (presenter_request p) (\<lambda>doc. Inr [(''presenter'', doc)])"

definition enterprise_materialize_v2 ::
  "network \<Rightarrow> enterprise \<Rightarrow> planning_request \<Rightarrow> json list \<Rightarrow> json \<Rightarrow> json \<Rightarrow> presenter_arg \<Rightarrow> json \<Rightarrow>
     (materialized \<times> presenter_grant) res" where
  "enterprise_materialize_v2 net c request source_ids revision digest presenter evaluation =
     rbind (source_ids_of source_ids) (\<lambda>ids.
     rbind (expectation_of ids revision digest) (\<lambda>e.
     rbind (materialization_items request e (presenter_items presenter) evaluation) (\<lambda>items.
     rbind (request_body MAX_REMOTE_REQUEST (JObj items)) (\<lambda>payload.
     rbind (post_json net (en_credential c) ''/v1/engine/context-materialize-v2'' payload
       (MAX_MATERIALIZATION + MAX_PRESENTER_ENVELOPE) (held_capability presenter) True) (\<lambda>raw.
     parse_materialization_v2 (en_tenant c) raw request e (held_capability presenter = None))))))"

section \<open>Presented use and revocation\<close>

record use_answer =
  ua_revision :: int
  ua_use :: presented_use

definition enterprise_use ::
  "network \<Rightarrow> enterprise \<Rightarrow> presenter_capability \<Rightarrow> json list \<Rightarrow> json \<Rightarrow> json \<Rightarrow> json \<Rightarrow> use_answer res" where
  "enterprise_use net c cap source_ids revision mode v =
     rbind (source_ids_of source_ids) (\<lambda>ids.
     rbind (check (ids \<noteq> []) ValidationError) (\<lambda>_.
     rbind (validate_input_u64 revision) (\<lambda>r.
     rbind (presented_use_request mode v) (\<lambda>asked.
     rbind (canonical_bytes (JObj [(''schema_version'', JInt 1), (''source_ids'', JArr (map JStr ids)),
       (''expected_governance_revision'', JInt r), (''use'', asked)])) (\<lambda>payload.
     rbind (post_json net (en_credential c) ''/v1/engine/presented-use'' payload
       (MAX_MATERIALIZATION + MAX_PRESENTER_ENVELOPE) (Some cap) True) (\<lambda>raw.
     rbind (presenter_response (en_tenant c) raw ''use'' True) (\<lambda>envelope.
     rbind (validate_u64 (jat ''governance_revision'' envelope)) (\<lambda>answered.
     rbind (bad (answered \<noteq> r)) (\<lambda>_.
     rbind (parse_presented_use (jat ''use'' envelope) asked cap) (\<lambda>answer.
     rbind (bad (pu_usable answer \<and> set (pu_sources answer) \<noteq> set ids)) (\<lambda>_.
     Inr \<lparr>ua_revision = r, ua_use = answer\<rparr>)))))))))))"

definition enterprise_revoke ::
  "network \<Rightarrow> enterprise \<Rightarrow> presenter_capability \<Rightarrow> (pystr \<times> bool) res" where
  "enterprise_revoke net c cap =
     rbind (canonical_bytes (JObj [(''schema_version'', JInt 1)])) (\<lambda>payload.
     rbind (post_json net (en_credential c) ''/v1/engine/presenter-revoke'' payload
       MAX_PRESENTER_ENVELOPE (Some cap) True) (\<lambda>raw.
     rbind (presenter_response (en_tenant c) raw ''revocation'' False) (\<lambda>envelope.
     parse_presenter_revocation (jat ''revocation'' envelope))))"

section \<open>Execution\<close>

definition execution_request ::
  "json \<Rightarrow> json \<Rightarrow> planning_request \<Rightarrow> expectation \<Rightarrow> json \<Rightarrow> json res" where
  "execution_request task plan request e evaluation =
     rbind (materialization_items request e (Inr []) evaluation) (\<lambda>items.
     Inr (JObj [(''task'', task), (''plan'', plan), (''materialization'', JObj items)]))"

definition context_of ::
  "enterprise \<Rightarrow> planning_request \<Rightarrow> expectation \<Rightarrow> json \<Rightarrow> json \<Rightarrow> json \<Rightarrow> execution_context" where
  "context_of c request e task plan evaluation =
     \<lparr>ec_request = request, ec_source_ids = ex_ids e, ec_task = task, ec_plan = plan,
      ec_tenant = en_tenant c, ec_revision = ex_revision e, ec_binding = ex_digest e,
      ec_evaluation = evaluation_time_of evaluation\<rparr>"

definition enterprise_execute ::
  "network \<Rightarrow> enterprise \<Rightarrow> json \<Rightarrow> json \<Rightarrow> planning_request \<Rightarrow> json list \<Rightarrow> json \<Rightarrow> json \<Rightarrow> json \<Rightarrow>
     source_execution res" where
  "enterprise_execute net c task plan request source_ids revision digest evaluation =
     rbind (source_ids_of source_ids) (\<lambda>ids.
     rbind (validate_execution_request task plan request (en_tenant c)) (\<lambda>(t, p).
     rbind (expectation_of ids revision digest) (\<lambda>e.
     rbind (execution_request t p request e evaluation) (\<lambda>body.
     rbind (request_body MAX_SOURCE_PLAN_REQUEST body) (\<lambda>payload.
     rbind (post_json net (en_credential c) ''/v1/engine/context-execute'' payload MAX_EXECUTION None False)
       (\<lambda>raw.
     parse_source_execution raw (context_of c request e t p evaluation)))))))"

definition enterprise_execute_v2 ::
  "network \<Rightarrow> enterprise \<Rightarrow> json \<Rightarrow> json \<Rightarrow> planning_request \<Rightarrow> json list \<Rightarrow> json \<Rightarrow> json \<Rightarrow> json \<Rightarrow>
     (source_execution \<times> pystr) res" where
  "enterprise_execute_v2 net c task plan request source_ids revision digest evaluation =
     rbind (source_ids_of source_ids) (\<lambda>ids.
     rbind (validate_execution_request task plan request (en_tenant c)) (\<lambda>(t, p).
     rbind (expectation_of ids revision digest) (\<lambda>e.
     rbind (execution_request t p request e evaluation) (\<lambda>body.
     rbind (request_body MAX_SOURCE_PLAN_REQUEST body) (\<lambda>payload.
     rbind (post_json net (en_credential c) ''/v2/engine/context-execute'' payload
       (MAX_V2_RESPONSE + MAX_V2_WRAPPER) None False) (\<lambda>raw.
     parse_source_execution_v2 raw (context_of c request e t p evaluation)))))))"

definition provider_body ::
  "json \<Rightarrow> json \<Rightarrow> planning_request \<Rightarrow> expectation \<Rightarrow> json \<Rightarrow> int \<Rightarrow> json res" where
  "provider_body task plan request e evaluation tokens =
     rbind (materialization_items request e (Inr []) evaluation) (\<lambda>items.
     Inr (JObj [(''schema_version'', JInt 1), (''task'', task), (''plan'', plan),
       (''materialization'', JObj items), (''max_output_tokens'', JInt tokens)]))"

definition enterprise_provider ::
  "network \<Rightarrow> enterprise \<Rightarrow> json \<Rightarrow> json \<Rightarrow> planning_request \<Rightarrow> json list \<Rightarrow> json \<Rightarrow> json \<Rightarrow> json \<Rightarrow> json \<Rightarrow>
     provider_reply res" where
  "enterprise_provider net c task plan request source_ids revision digest max_output_tokens evaluation =
     rbind (source_ids_of source_ids) (\<lambda>ids.
     rbind (validate_provider_request task plan request (en_tenant c) max_output_tokens) (\<lambda>(t, p, n).
     rbind (expectation_of ids revision digest) (\<lambda>e.
     rbind (provider_body t p request e evaluation n) (\<lambda>body.
     rbind (request_body MAX_SOURCE_PLAN_REQUEST body) (\<lambda>payload.
     rbind (post_json net (en_credential c) ''/v1/engine/provider-execute'' payload MAX_PROVIDER_RESPONSE
       None False) (\<lambda>raw.
     parse_provider_response raw t p (en_tenant c)))))))"

definition enterprise_outcome ::
  "network \<Rightarrow> enterprise \<Rightarrow> pystr \<Rightarrow> pystr \<Rightarrow> pystr \<Rightarrow> json list \<Rightarrow> outcome_reply res" where
  "enterprise_outcome net c task_id receipt_digest decision signals =
     rbind (validate_outcome_request task_id receipt_digest decision signals) (\<lambda>body.
     rbind (request_body MAX_OUTCOME_REQUEST body) (\<lambda>payload.
     rbind (post_json net (en_credential c) ''/v1/engine/context-outcome'' payload
       (MAX_V2_RESPONSE + MAX_V2_WRAPPER) None False) (\<lambda>raw.
     parse_outcome_response raw task_id receipt_digest decision (en_tenant c))))"

section \<open>Guarded reads\<close>

definition context_path :: "json \<Rightarrow> pystr res" where
  "context_path v = bounded_text MAX_PATH_BYTES True True ValidationError v"

definition context_text :: "json \<Rightarrow> pystr res" where
  "context_text v = bounded_text MAX_TEXT_BYTES False False perr v"

definition context_receipt :: "json \<Rightarrow> json res" where
  "context_receipt v =
     rbind (has_fields [''schema_version'', ''receipt_id'', ''receipt_ref'', ''receipt_digest'', ''outcome'',
       ''delivery''] [''context_decision_ref'', ''outcome_observation_ref''] v) (\<lambda>_.
     rbind (bad (jat ''schema_version'' v \<noteq> JInt 1)) (\<lambda>_.
     rbind (required_ref (jat ''receipt_id'' v)) (\<lambda>_.
     rbind (as_protocol (on_str validate_digest (jat ''receipt_digest'' v))) (\<lambda>d.
     rbind (required_ref (jat ''receipt_ref'' v)) (\<lambda>r.
     rbind (bad (r \<noteq> ''id:'' @ d)) (\<lambda>_.
     rbind (bad (jat ''outcome'' v \<noteq> JStr ''unknown'')) (\<lambda>_.
     rbind (bad (jat ''delivery'' v \<noteq> JStr ''native_engine_view'')) (\<lambda>_.
     rbind (opt_field required_ref ''context_decision_ref'' v) (\<lambda>_.
     rbind (opt_field required_ref ''outcome_observation_ref'' v) (\<lambda>_. Inr v))))))))))"

record context_read =
  rd_text :: pystr
  rd_receipt :: json
  rd_raw :: json

definition only_text :: "json \<Rightarrow> pystr res" where
  "only_text content =
     (case content of
        JArr [item] \<Rightarrow>
          rbind (bad (jat ''type'' item \<noteq> JStr ''text'')) (\<lambda>_. context_text (jat ''text'' item))
      | _ \<Rightarrow> Inl perr)"

definition parse_context_read :: "pystr \<Rightarrow> context_read res" where
  "parse_context_read raw =
     rbind (as_protocol (strict_json_loads raw)) (\<lambda>v.
     rbind (exact_set perr [''result''] v) (\<lambda>_.
     let result = jat ''result'' v in
     rbind (bad (\<not> is_obj result)) (\<lambda>_.
     rbind (bad (jat ''isError'' result \<notin> {JNull, JBool False})) (\<lambda>_.
     rbind (only_text (jat ''content'' result)) (\<lambda>s.
     rbind (bad (\<not> is_obj (jat ''_meta'' result))) (\<lambda>_.
     rbind (context_receipt (jat ''canonical_receipt'' (jat ''_meta'' result))) (\<lambda>receipt.
     Inr \<lparr>rd_text = s, rd_receipt = receipt, rd_raw = v\<rparr>)))))))"

definition read_body :: "pystr \<Rightarrow> json" where
  "read_body path =
     JObj [(''name'', JStr ''ctx_read''),
       (''arguments'', JObj [(''path'', JStr path), (''mode'', JStr ''aggressive''),
          (''engine_interface'', JStr ''v1'')])]"

definition enterprise_read :: "network \<Rightarrow> pystr \<Rightarrow> json \<Rightarrow> context_read res" where
  "enterprise_read net credential path =
     rbind (context_path path) (\<lambda>p.
     rbind (request_body MAX_REMOTE_REQUEST (read_body p)) (\<lambda>payload.
     rbind (post_json net credential ''/v1/tools/call'' payload MAX_RESPONSE_BYTES None False) (\<lambda>raw.
     parse_context_read raw)))"

end
