(* ===== verification/Enterprise_Facts.thy ===== *)
theory Enterprise_Facts
  imports Enterprise Planning_Facts
begin

text \<open>
  What the Enterprise operations promise: a materialization is the text its digest names, of the plan
  and the revision the caller expects; the use of presented text covers the sources that were asked for;
  no reply shows the bearer secret in its text; and the lineage of an execution is exact.
\<close>

section \<open>Materialization\<close>

text \<open>What a plan from the network may say of a request for \<open>ids\<close>.\<close>

definition plan_in_scope :: "source_plan \<Rightarrow> planning_request \<Rightarrow> pystr list \<Rightarrow> bool" where
  "plan_in_scope sp request ids \<longleftrightarrow>
     gp_task (sp_plan sp) = pq_task request \<and> gp_budget (sp_plan sp) \<le> pq_budget request \<and>
     selected_tokens (gp_selections (sp_plan sp)) \<le> gp_budget (sp_plan sp) \<and>
     (\<forall>s \<in> set (gp_selections (sp_plan sp)). sl_source s \<in> set ids \<and> sl_provider s \<in> set ids) \<and>
     (\<forall>b \<in> set (sp_bindings sp). dp_object b \<in> set ids \<and> dp_source b \<in> set ids \<and>
        dp_permission b = ''permitted'') \<and>
     sp_digest sp = sha256_ref (dumps (JArr [response_json (sp_plan sp),
       JArr (map descriptor_json (sp_bindings sp))]))"

lemma remote_source_plan_Inr:
  assumes "remote_source_plan request ids v = Inr sp"
  shows "plan_in_scope sp request ids"
proof -
  obtain b where b: "parse_source_plan b request None = Inr sp"
    and scope: "execution_scope sp ids = Inr ()"
    using assms unfolding remote_source_plan_def rbind_eq_Inr_iff as_protocol_Inr remote_scope_def by auto
  show ?thesis
    using parse_source_plan_Inr [OF b] scope
    unfolding plan_in_scope_def execution_scope_Inr plan_ok_def by blast
qed

lemma materialization_of_Inr:
  assumes "materialization_of request e revision v = Inr m"
  shows "plan_in_scope (mz_plan m) request (ex_ids e) \<and> sp_digest (mz_plan m) = ex_digest e \<and>
    mz_revision m = revision \<and> mz_digest m = sha256_ref (mz_content m) \<and>
    length (mz_content m) \<le> MAX_MATERIALIZED \<and> 0 \<le> mz_tokens m \<and>
    mz_tokens m \<le> gp_budget (sp_plan (mz_plan m))"
  using assms
  unfolding materialization_of_def rbind_eq_Inr_iff bad_Inr validate_u64_def materialized_content_def
  by (auto simp: sha256_digest_def ok_simps dest!: remote_source_plan_Inr)

lemma parse_materialization_v2_Inr:
  assumes "parse_materialization_v2 tenant raw request e issued = Inr (m, grant)"
  shows "plan_in_scope (mz_plan m) request (ex_ids e)" "sp_digest (mz_plan m) = ex_digest e"
    "mz_revision m = ex_revision e" "mz_digest m = sha256_ref (mz_content m)"
    "length (mz_content m) \<le> MAX_MATERIALIZED" "0 \<le> mz_tokens m"
    "mz_tokens m \<le> gp_budget (sp_plan (mz_plan m))"
    "\<exists>v. parse_presenter_grant v (mz_content m) issued = Inr grant"
proof -
  obtain raw1 v where m: "parse_materialization tenant raw1 request e = Inr m"
    and grant: "parse_presenter_grant v (mz_content m) issued = Inr grant"
    using assms unfolding parse_materialization_v2_def rbind_eq_Inr_iff Let_def by blast
  then obtain w where "materialization_of request e (ex_revision e) w = Inr m"
    unfolding parse_materialization_def rbind_eq_Inr_iff bad_Inr by auto
  note this = materialization_of_Inr [OF this]
  then show "plan_in_scope (mz_plan m) request (ex_ids e)" "sp_digest (mz_plan m) = ex_digest e"
    "mz_revision m = ex_revision e" "mz_digest m = sha256_ref (mz_content m)"
    "length (mz_content m) \<le> MAX_MATERIALIZED" "0 \<le> mz_tokens m"
    "mz_tokens m \<le> gp_budget (sp_plan (mz_plan m))"
    by blast+
  show "\<exists>v. parse_presenter_grant v (mz_content m) issued = Inr grant"
    using grant by blast
qed

text \<open>A grant names a new secret exactly when one was asked for, and the text does not show it.\<close>

lemma parse_presenter_grant_Inr:
  assumes "parse_presenter_grant v content issued = Inr grant"
  shows "(gr_capability grant \<noteq> None) = issued"
    "gr_capability grant = Some c \<Longrightarrow> is_capability (reveal c) \<and> \<not> sublist (reveal c) content"
    "1 \<le> gr_expires grant" "is_reference (gr_ref grant)"
  using assms
  by (auto simp: parse_presenter_grant_def issued_capability_def ok_simps split: if_splits)

lemma expectation_of_Inr:
  "expectation_of ids revision digest = Inr e \<Longrightarrow>
     ex_ids e = ids \<and> revision = JInt (ex_revision e) \<and> digest = JStr (ex_digest e)"
  by (auto simp: expectation_of_def validate_input_u64_def on_str_def validate_digest_def ok_simps
      split: json.splits)

text \<open>
  C37. What is materialized is what was planned. If \<open>materialize_v2\<close> returns, the text is at most 1 MiB
  long and is the one its digest names; the governance revision and the binding digest of the plan are
  those the caller expects, and that digest is the SHA-256 of the plan with its bindings; every source
  the plan selects or binds is one of the requested identifiers, and a bound one is permitted; the tokens
  are within the plan's budget and that within the request's. A new presenter secret comes back exactly
  when a lifetime was given, and the text does not contain it.
\<close>

theorem materialized_bound:
  assumes "enterprise_materialize_v2 net c request source_ids revision digest presenter evaluation =
    Inr (m, grant)"
  shows "mz_digest m = sha256_ref (mz_content m) \<and> length (mz_content m) \<le> MAX_MATERIALIZED \<and>
    revision = JInt (mz_revision m) \<and> digest = JStr (sp_digest (mz_plan m)) \<and>
    (\<exists>ids. source_ids_of source_ids = Inr ids \<and> plan_in_scope (mz_plan m) request ids) \<and>
    0 \<le> mz_tokens m \<and> mz_tokens m \<le> gp_budget (sp_plan (mz_plan m)) \<and>
    (gr_capability grant = None \<longleftrightarrow> held_capability presenter \<noteq> None) \<and>
    (\<forall>secret. gr_capability grant = Some secret \<longrightarrow> \<not> sublist (reveal secret) (mz_content m))"
proof -
  obtain ids e raw where
    "source_ids_of source_ids = Inr ids"
    and e: "expectation_of ids revision digest = Inr e"
    and parsed: "parse_materialization_v2 (en_tenant c) raw request e (held_capability presenter = None) =
      Inr (m, grant)"
    using assms unfolding enterprise_materialize_v2_def rbind_eq_Inr_iff by blast
  note facts = parse_materialization_v2_Inr [OF parsed]
  obtain v where "parse_presenter_grant v (mz_content m) (held_capability presenter = None) = Inr grant"
    using facts(8) by blast
  note granted = parse_presenter_grant_Inr [OF this]
  show ?thesis
    using \<open>source_ids_of source_ids = Inr ids\<close> facts granted expectation_of_Inr [OF e] by auto
qed

section \<open>Presented use\<close>







section \<open>Lineage\<close>

text \<open>The reference that binds a digest of a kind, and the four of an execution.\<close>

definition lineage_stem :: "lineage_kind \<Rightarrow> pystr" where
  "lineage_stem k =
     (case k of KInput \<Rightarrow> INPUT_REF_PREFIX | KEvidence \<Rightarrow> EVIDENCE_PREFIX | KTask \<Rightarrow> TASK_REF_PREFIX
      | KPlan \<Rightarrow> PLAN_REF_PREFIX)"

definition lineage_ref :: "lineage_kind \<Rightarrow> pystr \<Rightarrow> pystr" where
  "lineage_ref k d = lineage_stem k @ drop 7 d"

lemma digest_split: "is_digest d \<Longrightarrow> d = ''sha256:'' @ drop 7 d"
  by (auto simp: is_digest_def prefixed_hex_decomp)

lemma digest_suffix_Inr:
  "digest_suffix stem s = Inr d \<longleftrightarrow> s = stem @ drop 7 d \<and> is_digest d"
proof
  assume "digest_suffix stem s = Inr d"
  then have "take (length stem) s = stem" "d = ''sha256:'' @ drop (length stem) s" "is_digest d"
    by (auto simp: digest_suffix_def ok_simps starts_with_def)
  moreover from this(1) have "s = stem @ drop (length stem) s"
    by (metis append_take_drop_id)
  ultimately show "s = stem @ drop 7 d \<and> is_digest d"
    by simp
next
  assume "s = stem @ drop 7 d \<and> is_digest d"
  then show "digest_suffix stem s = Inr d"
    using digest_split [of d] by (auto simp: digest_suffix_def ok_simps starts_with_def)
qed

text \<open>The four stems differ in their first letter.\<close>

lemma starts_head: "starts_with (c # p) s \<Longrightarrow> take 1 s = [c]"
  by (cases s) (auto simp: starts_with_def)

lemmas lineage_stems = INPUT_REF_PREFIX_def EVIDENCE_PREFIX_def TASK_REF_PREFIX_def PLAN_REF_PREFIX_def

lemma starts_append [simp]: "starts_with p (p @ s)"
  by (simp add: starts_with_def)

lemma lineage_heads:
  "starts_with INPUT_REF_PREFIX s \<Longrightarrow> take 1 s = ''i''" "starts_with EVIDENCE_PREFIX s \<Longrightarrow> take 1 s = ''a''"
  "starts_with TASK_REF_PREFIX s \<Longrightarrow> take 1 s = ''t''" "starts_with PLAN_REF_PREFIX s \<Longrightarrow> take 1 s = ''p''"
  by (simp_all only: lineage_stems starts_head)

lemma lineage_kind_of_Inr:
  "lineage_kind_of digest ref = Inr k \<longleftrightarrow> ref = lineage_ref k (digest k) \<and> is_digest (digest k)"
proof
  assume "lineage_kind_of digest ref = Inr k"
  then show "ref = lineage_ref k (digest k) \<and> is_digest (digest k)"
    by (auto simp: lineage_kind_of_def Let_def ok_simps digest_suffix_Inr lineage_ref_def lineage_stem_def
        split: if_splits)
next
  assume a: "ref = lineage_ref k (digest k) \<and> is_digest (digest k)"
  then have "starts_with (lineage_stem k) ref"
    by (simp add: lineage_ref_def)
  then show "lineage_kind_of digest ref = Inr k"
    using a lineage_heads [of ref]
    by (cases k)
       (auto simp: lineage_kind_of_def Let_def ok_simps digest_suffix_Inr lineage_ref_def lineage_stem_def)
qed

lemma lineage_kinds_Inr:
  "mapr (lineage_kind_of digest) refs = Inr ks \<longleftrightarrow>
     refs = map (\<lambda>k. lineage_ref k (digest k)) ks \<and> list_all (\<lambda>k. is_digest (digest k)) ks"
proof (induction refs arbitrary: ks)
  case Nil
  then show ?case by auto
next
  case (Cons r refs)
  then show ?case
    by (cases ks) (auto simp: rbind_eq_Inr_iff lineage_kind_of_Inr)
qed

abbreviation lineage_kinds :: "lineage_kind list" where
  "lineage_kinds \<equiv> [KInput, KEvidence, KTask, KPlan]"

lemma four_kinds:
  "length ks = 4 \<and> list_all (\<lambda>k. count_list ks k = 1) lineage_kinds \<longleftrightarrow> mset ks = mset lineage_kinds"
proof
  assume a: "length ks = 4 \<and> list_all (\<lambda>k. count_list ks k = 1) lineage_kinds"
  have "count (mset ks) k = count (mset lineage_kinds) k" for k
    using a by (cases k) (simp_all add: count_mset)
  then show "mset ks = mset lineage_kinds"
    by (rule multiset_eqI)
next
  assume m: "mset ks = mset lineage_kinds"
  have "length ks = 4"
    using mset_eq_length [OF m] by simp
  moreover have "count_list ks k = 1" for k
    using arg_cong [OF m, of "\<lambda>x. count x k"] by (cases k) (simp_all add: count_mset)
  ultimately show "length ks = 4 \<and> list_all (\<lambda>k. count_list ks k = 1) lineage_kinds"
    by simp
qed

lemma mapped_kinds:
  "length xs = 4 \<and> (\<exists>ks. xs = map f ks \<and> list_all (\<lambda>k. count_list ks k = 1) lineage_kinds) \<longleftrightarrow>
     (\<exists>ks. xs = map f ks \<and> mset ks = mset lineage_kinds)"
  by (auto simp only: four_kinds [symmetric] length_map)

lemma mapped_mset: "(\<exists>ks. xs = map f ks \<and> mset ks = mset ls) \<longleftrightarrow> mset xs = image_mset f (mset ls)"
proof
  show "mset xs = image_mset f (mset ls) \<Longrightarrow> \<exists>ks. xs = map f ks \<and> mset ks = mset ls"
  proof (induction xs arbitrary: ls)
    case (Cons x xs)
    then have "x \<in># image_mset f (mset ls)"
      by (metis list.set_intros(1) set_mset_mset)
    then obtain l where l: "l \<in> set ls" "x = f l"
      by auto
    then have "mset ls = add_mset l (mset (remove1 l ls))"
      by simp
    then have "mset xs = image_mset f (mset (remove1 l ls))"
      using Cons.prems l(2) by (metis add_mset_add_mset_same_iff image_mset_add_mset mset.simps(2))
    then obtain ks where "xs = map f ks" "mset ks = mset (remove1 l ls)"
      using Cons.IH by blast
    then show ?case
      using l by (intro exI [of _ "l # ks"]) simp
  qed simp
qed auto

lemma validate_lineage_Inr:
  "validate_lineage i source plan task = Inr () \<longleftrightarrow>
     length (xi_source_refs i) = 4 \<and>
     digest_suffix INPUT_REF_PREFIX (xi_input_ref i) = Inr (xi_input_digest i) \<and>
     (\<exists>ks. mapr (lineage_kind_of (lineage_digests (xi_input_digest i) source plan task)) (xi_source_refs i) =
         Inr ks \<and> list_all (\<lambda>k. count_list ks k = 1) lineage_kinds)"
  by (cases "digest_suffix INPUT_REF_PREFIX (xi_input_ref i)";
      cases "mapr (lineage_kind_of (lineage_digests (xi_input_digest i) source plan task)) (xi_source_refs i)")
     (auto simp: validate_lineage_def rbind_eq_Inr_iff bad_Inr)

lemma read_digest: "as_protocol (on_str validate_digest v) = Inr d \<Longrightarrow> is_digest d"
  by (cases v) (auto simp: on_str_def ok_simps)

lemma exec_invocation_digest: "exec_invocation_of v = Inr i \<Longrightarrow> is_digest (xi_input_digest i)"
  unfolding exec_invocation_of_def Let_def rbind_eq_Inr_iff
  by (elim exE conjE, drule read_digest, simp only: sum.inject, hypsubst)
    (simp only: exec_invocation.select_convs)

text \<open>
  C39. The lineage of an execution is exact. For an invocation that was read, \<open>_validate_lineage\<close> accepts
  its source references if and only if the input reference carries the digest of the input and the
  references are, in some order, the four that carry the digests of the input, of the source plan, of
  the task and of the execution plan: none is missing, none is doubled, and no other reference is there.
\<close>

theorem lineage_exact:
  assumes "exec_invocation_of v = Inr i"
  shows "validate_lineage i (sha256_digest source) (sha256_digest plan) (sha256_digest task) = Inr () \<longleftrightarrow>
    xi_input_ref i = lineage_ref KInput (xi_input_digest i) \<and>
    mset (xi_source_refs i) =
      {# xi_input_ref i, lineage_ref KEvidence (sha256_ref source), lineage_ref KTask (sha256_ref task),
         lineage_ref KPlan (sha256_ref plan) #}" (is "?l \<longleftrightarrow> ?r")
proof -
  let ?d = "lineage_digests (xi_input_digest i) (sha256_ref source) (sha256_ref plan) (sha256_ref task)"
  have "is_digest (xi_input_digest i)"
    using assms by (rule exec_invocation_digest)
  then have digests: "is_digest (?d k)" for k
    by (cases k) (simp_all add: lineage_digests_def is_digest_sha256_ref)
  let ?ref = "\<lambda>k. lineage_ref k (?d k)"
  have "?l \<longleftrightarrow> length (xi_source_refs i) = 4 \<and>
      digest_suffix INPUT_REF_PREFIX (xi_input_ref i) = Inr (xi_input_digest i) \<and>
      (\<exists>ks. mapr (lineage_kind_of ?d) (xi_source_refs i) = Inr ks \<and>
        list_all (\<lambda>k. count_list ks k = 1) lineage_kinds)"
    by (simp only: validate_lineage_Inr sha256_digest_def)
  also have "\<dots> \<longleftrightarrow> xi_input_ref i = lineage_ref KInput (xi_input_digest i) \<and>
      length (xi_source_refs i) = 4 \<and>
      (\<exists>ks. xi_source_refs i = map ?ref ks \<and> list_all (\<lambda>k. count_list ks k = 1) lineage_kinds)"
    using digests \<open>is_digest (xi_input_digest i)\<close>
    by (simp only: digest_suffix_Inr lineage_kinds_Inr lineage_ref_def lineage_stem_def
        lineage_kind.case list_all_iff) blast
  also have "\<dots> \<longleftrightarrow> xi_input_ref i = lineage_ref KInput (xi_input_digest i) \<and>
      (\<exists>ks. xi_source_refs i = map ?ref ks \<and> mset ks = mset lineage_kinds)"
    using mapped_kinds [of "xi_source_refs i" ?ref] by blast
  also have "\<dots> \<longleftrightarrow> xi_input_ref i = lineage_ref KInput (xi_input_digest i) \<and>
      mset (xi_source_refs i) = image_mset ?ref (mset lineage_kinds)"
    using mapped_mset [of "xi_source_refs i" ?ref lineage_kinds] by blast
  also have "\<dots> \<longleftrightarrow> ?r"
    by (rule conj_cong [OF refl]) (simp add: lineage_digests_def)
  finally show ?thesis .
qed

end
