(* ===== verification/Remote_Demo.thy ===== *)
theory Remote_Demo
  imports Enterprise_Facts
begin

text \<open>
  An exchange with an Enterprise instance on which the properties of the operations are applied: a plan
  of one source, its materialization with a new presenter, a use of the presented text, and an
  invocation with its lineage.
\<close>

section \<open>A network that answers\<close>

definition answering :: "pystr \<Rightarrow> network" where
  "answering raw = (\<lambda>_. \<lparr>xc_clock = 100, xc_connect = Connected, xc_answered = True, xc_status = 200,
     xc_length = None, xc_reads = [ReadChunk raw, ReadChunk []]\<rparr>)"

lemma answering_posts:
  assumes "raw \<noteq> []" "length raw \<le> 65536" "length raw \<le> maximum"
  shows "post_json (answering raw) credential path payload maximum presenter route = Inr raw"
proof -
  have "take (min 65536 (maximum + 1)) raw = raw"
    using assms by simp
  then show ?thesis
    using assms
    by (simp add: post_json_def answering_def connected_def remaining_def check_http_status_def
        declared_length_def bad_def Let_def)
qed

lemma remote_ids: "source_ids_of [JStr demo_object] = Inr [demo_object]"
proof -
  have "canonical_uuid (JStr demo_object) = Inr demo_object"
    by code_simp
  then show ?thesis
    by (simp add: source_ids_of_def plan_bounds)
qed

section \<open>Materialization\<close>

definition remote_secret :: pystr where
  "remote_secret = ''lcp1_'' @ replicate 64 (CHR ''a'')"

definition remote_reference :: pystr where
  "remote_reference = ''presenter:'' @ replicate 32 (CHR ''b'')"

lemma remote_secrets [simp]:
  "utf8_valid remote_secret" "encodable remote_secret" "length remote_secret = 69"
  "utf8_valid remote_reference" "encodable remote_reference" "length remote_reference = 42"
  "is_capability remote_secret" "is_reference remote_reference"
  by code_simp+

definition remote_client :: enterprise where
  "remote_client = \<lparr>en_credential = ''key'', en_tenant = demo_object\<rparr>"

definition remote_content :: pystr where "remote_content = ''hello''"

definition remote_materialization :: json where
  "remote_materialization =
     JObj [(''content'', JStr remote_content),
       (''engine_interface_version'', JStr ENGINE_INTERFACE_VERSION),
       (''materialized_digest'', JStr (sha256_ref remote_content)),
       (''materialized_token_count'', JInt 5), (''plan'', demo_source_reply),
       (''schema_version'', JInt 1), (''transport_version'', JInt 1)]"

definition remote_grant_doc :: json where
  "remote_grant_doc =
     JObj [(''capability'', JStr remote_secret), (''expires_at_unix'', JInt 9),
       (''presenter_ref'', JStr remote_reference)]"

definition remote_answer :: json where
  "remote_answer =
     JObj [(''governance_revision'', JInt 5),
       (''materialization'', JObj [(''materialization'', remote_materialization),
          (''presenter'', remote_grant_doc), (''schema_version'', JInt 2)]),
       (''schema_version'', JInt 2), (''tenant_id'', JStr demo_object)]"

definition remote_answer_v1 :: json where
  "remote_answer_v1 =
     JObj [(''governance_revision'', JInt 5), (''materialization'', remote_materialization),
       (''schema_version'', JInt 1), (''tenant_id'', JStr demo_object)]"

definition remote_expectation :: expectation where
  "remote_expectation = \<lparr>ex_ids = [demo_object], ex_revision = 5, ex_digest = demo_binding_digest\<rparr>"

definition remote_materialized :: materialized where
  "remote_materialized =
     \<lparr>mz_revision = 5, mz_plan = demo_source_plan, mz_digest = sha256_ref remote_content, mz_tokens = 5,
      mz_content = remote_content\<rparr>"

definition remote_grant :: presenter_grant where
  "remote_grant =
     \<lparr>gr_ref = remote_reference, gr_expires = 9,
      gr_capability = Some (PresenterCapability remote_secret)\<rparr>"

lemma remote_docs_ok:
  "json_ok remote_answer" "jsort remote_answer = remote_answer" "json_ok remote_answer_v1"
  "jsort remote_answer_v1 = remote_answer_v1"
  using demo_source_reply_ok
  by (simp_all add: remote_answer_def remote_answer_v1_def remote_materialization_def remote_grant_doc_def
      remote_content_def demo_digest_fact ENGINE_INTERFACE_VERSION_def)

lemma remote_grant_read:
  "parse_presenter_grant remote_grant_doc remote_content True = Inr remote_grant"
proof -
  have "\<not> sublist remote_secret remote_content"
    by (rule notI) (drule sublist_length_le, simp add: remote_content_def)
  then show ?thesis
    by (simp add: parse_presenter_grant_def remote_grant_doc_def str_where_def bad_def issued_capability_def
        remote_grant_def int_in_def MAX_U64_def jkeys_def)
qed

lemma parse_source_plan_any:
  assumes "parse_source_plan raw request (Some sources) = Inr sp"
  shows "parse_source_plan raw request None = Inr sp"
proof -
  have "check_requested None bs = Inr ()" for bs
    by (simp add: check_requested_def)
  with assms show ?thesis
    unfolding parse_source_plan_def rbind_eq_Inr_iff Let_def by blast
qed

lemma remote_plan_read:
  "remote_source_plan demo_planning_request [demo_object] demo_source_reply = Inr demo_source_plan"
proof -
  have "canonical_bytes demo_source_reply = Inr (dumps demo_source_reply)"
    by (simp add: canonical_bytes_def canonical_json_ok demo_source_reply_ok)
  moreover have "execution_scope demo_source_plan [demo_object] = Inr ()"
    by (simp add: execution_scope_Inr demo_source_plan_def demo_engine_plan_def demo_selection_def
        demo_source_def)
  ultimately show ?thesis
    using parse_source_plan_any [OF demo_source_plan_parsed]
    by (simp add: remote_source_plan_def remote_scope_def del: dumps.simps)
qed

lemma remote_materialization_read:
  "materialization_of demo_planning_request remote_expectation 5 remote_materialization =
     Inr remote_materialized"
proof -
  have "materialized_content (JStr remote_content) = Inr remote_content"
    by (simp add: materialized_content_def bounded_text_def fail_if_def strict_utf8_def remote_content_def
        MAX_MATERIALIZED_def)
  moreover have "as_protocol (on_str validate_digest (JStr (sha256_ref remote_content))) =
      Inr (sha256_ref remote_content)"
    by (simp add: on_str_def is_digest_sha256_ref)
  moreover have "gp_budget (sp_plan demo_source_plan) = 90" "sp_digest demo_source_plan = demo_binding_digest"
    by (simp_all add: demo_source_plan_def demo_engine_plan_def)
  ultimately show ?thesis
    using remote_plan_read
    by (simp add: materialization_of_def remote_materialization_def remote_expectation_def bad_def
        exact_set_def fail_if_def jkeys_def validate_u64_def int_in_def MAX_U64_def sha256_digest_def
        remote_materialized_def insert_commute)
qed

lemma remote_tenant: "as_protocol (canonical_uuid (JStr demo_object)) = Inr demo_object"
  by code_simp

lemma remote_v1_parsed:
  "parse_materialization demo_object (dumps remote_answer_v1) demo_planning_request remote_expectation =
     Inr remote_materialized"
proof -
  have "strict_json_loads (dumps remote_answer_v1) = Inr remote_answer_v1"
    using strict_loads_canonical [OF remote_docs_ok(3)] remote_docs_ok(3,4)
    by (simp add: canonical_bytes_def canonical_json_ok remote_answer_v1_def)
  then show ?thesis
    using remote_materialization_read remote_tenant
    by (simp add: parse_materialization_def del: dumps.simps)
       (simp add: remote_answer_v1_def tenant_envelope_def exact_set_def fail_if_def jkeys_def
        materialization_keys_def bad_def validate_u64_def int_in_def MAX_U64_def remote_expectation_def
        insert_commute)
qed

lemma remote_v2_parsed:
  "parse_materialization_v2 demo_object (dumps remote_answer) demo_planning_request remote_expectation True =
     Inr (remote_materialized, remote_grant)"
proof -
  let ?v1 = "JObj [(''schema_version'', JInt 1), (''tenant_id'', JStr demo_object),
      (''governance_revision'', JInt 5), (''materialization'', remote_materialization)]"
  have loads: "strict_json_loads (dumps remote_answer) = Inr remote_answer"
    using strict_loads_canonical [OF remote_docs_ok(1)] remote_docs_ok(1,2)
    by (simp add: canonical_bytes_def canonical_json_ok remote_answer_def)
  have "json_ok ?v1"
    using remote_docs_ok(3) by (simp add: remote_answer_v1_def)
  moreover have "dumps ?v1 = dumps remote_answer_v1"
    by (simp add: remote_answer_v1_def)
  ultimately have v1: "canonical_bytes ?v1 = Inr (dumps remote_answer_v1)"
    by (simp only: canonical_bytes_def canonical_json_ok)
  have fields:
    "jat ''materialization'' remote_answer = JObj [(''materialization'', remote_materialization),
       (''presenter'', remote_grant_doc), (''schema_version'', JInt 2)]"
    "jat ''schema_version'' remote_answer = JInt 2" "jat ''tenant_id'' remote_answer = JStr demo_object"
    "jat ''governance_revision'' remote_answer = JInt 5"
    "exact_set perr materialization_keys remote_answer = Inr ()"
    "exact_set perr [''schema_version'', ''materialization'', ''presenter'']
       (jat ''materialization'' remote_answer) = Inr ()"
    by (simp_all add: remote_answer_def exact_set_def fail_if_def jkeys_def materialization_keys_def
        insert_commute)
  have "mz_content remote_materialized = remote_content"
    by (simp add: remote_materialized_def)
  then show ?thesis
    using fields
    by (simp add: parse_materialization_v2_def loads v1 remote_v1_parsed remote_grant_read bad_def Let_def
        del: dumps.simps)
qed

lemma remote_weights: "weight demo_source_reply \<le> 6000" "weight remote_answer \<le> 60000"
proof -
  have "length (int_text 5) = 1" "length (int_text 1) = 1" "length (int_text 2) = 1" "length (int_text 9) = 1"
    by code_simp+
  note ints = this
  show "weight demo_source_reply \<le> 6000"
    using demo_reply_weight
    by (simp add: demo_source_reply_def demo_source_doc_def demo_binding_digest_def demo_digest_fact)
  then show "weight remote_answer \<le> 60000"
    by (simp add: remote_answer_def remote_materialization_def remote_grant_doc_def remote_content_def
        demo_digest_fact ENGINE_INTERFACE_VERSION_def ints)
qed

lemma remote_posts:
  "post_json (answering (dumps remote_answer)) credential path payload
     (MAX_MATERIALIZATION + MAX_PRESENTER_ENVELOPE) presenter route = Inr (dumps remote_answer)"
proof (rule answering_posts)
  have "length (dumps remote_answer) \<le> 60000"
    using length_dumps remote_weights(2) le_trans by blast
  then show "length (dumps remote_answer) \<le> 65536"
    "length (dumps remote_answer) \<le> MAX_MATERIALIZATION + MAX_PRESENTER_ENVELOPE"
    by (simp_all add: MAX_MATERIALIZATION_def MAX_REMOTE_RESPONSE_def del: dumps.simps)
  show "dumps remote_answer \<noteq> []"
    by (simp add: remote_answer_def)
qed

text \<open>The request that asks for it, with a presenter for a minute.\<close>

lemma remote_asks:
  "\<exists>items payload. materialization_items demo_planning_request remote_expectation
       (presenter_items (Lifetime (JInt 60))) JNull = Inr items \<and>
     request_body MAX_REMOTE_REQUEST (JObj items) = Inr payload"
proof -
  let ?items = "[(''planning'', planning_request_json demo_planning_request),
    (''source_ids'', JArr [JStr demo_object]), (''expected_governance_revision'', JInt 5),
    (''expected_binding_digest'', JStr demo_binding_digest),
    (''presenter'', JObj [(''mode'', JStr ''issue''), (''ttl_seconds'', JInt 60)])]"
  have items: "materialization_items demo_planning_request remote_expectation
      (presenter_items (Lifetime (JInt 60))) JNull = Inr ?items"
    by (simp add: materialization_items_def presenter_items_def presenter_request_def MAX_PRESENTER_TTL_def
        evaluation_items_def demo_request_written remote_expectation_def)
  have doc: "planning_request_json demo_planning_request =
      JObj [(''schema_version'', JInt 1), (''transport_version'', JInt 1),
        (''engine_interface_version'', JStr ENGINE_INTERFACE_VERSION), (''task_id'', JStr ''t''),
        (''query'', JStr ''q''), (''budget_tokens'', JInt 100), (''max_candidates'', JInt 5)]"
    by (simp add: planning_request_json_def demo_planning_request_def)
  have ok: "json_ok (JObj ?items)"
    unfolding doc by (simp add: ENGINE_INTERFACE_VERSION_def demo_binding_digest_def demo_digest_fact)
  have "length (int_text 100) = 3" "length (int_text 5) = 1" "length (int_text 60) = 2"
    "length (int_text 1) = 1"
    by code_simp+
  then have "weight (JObj ?items) \<le> MAX_REMOTE_REQUEST"
    unfolding doc
    by (simp add: ENGINE_INTERFACE_VERSION_def demo_binding_digest_def demo_digest_fact
        MAX_REMOTE_REQUEST_def)
  then have "length (dumps (JObj ?items)) \<le> MAX_REMOTE_REQUEST"
    using length_dumps le_trans by blast
  then show ?thesis
    using items ok
    by (simp add: request_body_Inr canonical_bytes_def canonical_json_ok del: dumps.simps)
qed

lemma remote_materializes:
  "enterprise_materialize_v2 (answering (dumps remote_answer)) remote_client demo_planning_request
     [JStr demo_object] (JInt 5) (JStr demo_binding_digest) (Lifetime (JInt 60)) JNull =
   Inr (remote_materialized, remote_grant)"
proof -
  have "expectation_of [demo_object] (JInt 5) (JStr demo_binding_digest) = Inr remote_expectation"
    by (simp add: expectation_of_def validate_input_u64_def ex_integer_def fail_if_def MAX_U64_def on_str_def
        remote_expectation_def demo_binding_digest_def is_digest_sha256_ref)
  then show ?thesis
    using remote_asks remote_posts remote_v2_parsed remote_ids
    by (auto simp: enterprise_materialize_v2_def remote_client_def held_capability_def simp del: dumps.simps)
qed

lemma materialized_bound_witness:
  "\<not> sublist remote_secret remote_content \<and> plan_in_scope demo_source_plan demo_planning_request [demo_object]"
  using materialized_bound [OF remote_materializes] remote_ids
  by (simp add: remote_materialized_def remote_grant_def)

section \<open>Presented text\<close>

definition remote_recovery :: pystr where "remote_recovery = replicate 64 (CHR ''c'')"

lemma remote_recoveries [simp]:
  "utf8_valid remote_recovery" "encodable remote_recovery" "length remote_recovery = 64"
  "is_recovery_id remote_recovery"
  by code_simp+










section \<open>An invocation\<close>

definition remote_refs :: "pystr list" where
  "remote_refs = [lineage_ref KInput (sha256_ref ''i''), lineage_ref KPlan (sha256_ref ''p''),
     lineage_ref KTask (sha256_ref ''t''), lineage_ref KEvidence (sha256_ref ''s'')]"

definition remote_invocation :: exec_invocation where
  "remote_invocation =
     \<lparr>xi_id = ''n'', xi_engine_id = ''e'', xi_engine_version = ''1.0.0'',
      xi_input_ref = lineage_ref KInput (sha256_ref ''i''), xi_input_digest = sha256_ref ''i'',
      xi_source_refs = remote_refs, xi_policy_ref = ''y''\<rparr>"

definition remote_invocation_doc :: json where
  "remote_invocation_doc =
     JObj [(''schema_version'', JInt 1), (''invocation_id'', JStr ''n''),
       (''engine'', JObj [(''engine_id'', JStr ''e''), (''engine_version'', JStr ''1.0.0'')]),
       (''operation'', JObj [(''capability_id'', JStr EXEC_CAPABILITY),
          (''capability_version'', JStr EXEC_CAPABILITY_VERSION)]),
       (''input_ref'', JStr (lineage_ref KInput (sha256_ref ''i''))),
       (''input_digest'', JStr (sha256_ref ''i'')), (''source_refs'', JArr (map JStr remote_refs)),
       (''policy_admission'', JObj [(''policy_ref'', JStr ''y''), (''decision'', JStr ''admitted'')])]"

lemma lineage_ref_text:
  assumes "is_digest d"
  shows "lineage_ref k d \<noteq> []" "length (lineage_ref k d) \<le> 512" "printable_ascii (lineage_ref k d)"
  using assms is_digest_printable [OF assms] is_digest_length [OF assms]
  by (cases k; auto simp: lineage_ref_def lineage_stem_def lineage_stems printable_ascii_def list_all_iff
      dest: in_set_dropD)+

lemma remote_size: "remote_refs \<noteq> []" "length remote_refs \<le> MAX_REFS"
  by (simp_all add: remote_refs_def MAX_REFS_def)

lemma remote_refs_distinct: "distinct remote_refs"
  by (simp add: remote_refs_def lineage_ref_def lineage_stem_def lineage_stems)

lemma ex_mapping_ok: "json_ok v \<Longrightarrow> is_obj v \<Longrightarrow> ex_mapping e v = Inr ()"
  by (cases v) (simp_all add: ex_mapping_def fail_if_def canonical_bytes_def canonical_json_ok del: dumps.simps)

lemma lineage_ref_encodable: "is_digest d \<Longrightarrow> utf8_valid (lineage_ref k d) \<and> encodable (lineage_ref k d)"
  using printable_strict [OF lineage_ref_text(3)] by (simp add: strict_utf8_def)

lemma remote_invocation_ok: "json_ok remote_invocation_doc"
  using lineage_ref_encodable is_digest_sha256_ref
  by (simp add: remote_invocation_doc_def remote_refs_def demo_digest_fact EXEC_CAPABILITY_def
      EXEC_CAPABILITY_VERSION_def)

lemma remote_invocation_read: "exec_invocation_of remote_invocation_doc = Inr remote_invocation"
proof -
  have refs: "required_ref (JStr r) = Inr r" if "r \<in> set remote_refs" for r
    using that lineage_ref_text is_digest_sha256_ref by (auto simp: required_ref_Inr remote_refs_def)
  then have "reference_list (JArr (map JStr remote_refs)) = Inr remote_refs"
    using remote_refs_distinct
    by (auto simp: reference_list_Inr mapr_map_id remote_size)
  moreover have "required_ref (JStr (lineage_ref KInput (sha256_ref ''i''))) =
      Inr (lineage_ref KInput (sha256_ref ''i''))" "lineage_ref KInput (sha256_ref ''i'') \<in> set remote_refs"
    using refs by (simp_all add: remote_refs_def)
  moreover have "ex_text perr (JStr ''n'') = Inr ''n''" "ex_text perr (JStr ''e'') = Inr ''e''"
    "ex_text perr (JStr ''1.0.0'') = Inr ''1.0.0''" "semver_parts ''1.0.0'' \<noteq> None"
    "ex_text_with MAX_REF_BYTES True True perr (JStr ''y'') = Inr ''y''"
    by code_simp+
  moreover have "ex_mapping perr remote_invocation_doc = Inr ()"
    using remote_invocation_ok by (intro ex_mapping_ok) (simp_all add: remote_invocation_doc_def)
  ultimately show ?thesis
    by (simp add: exec_invocation_of_def remote_invocation_doc_def exact_set_def fail_if_def ex_mapping_ok
        exact_version_def jkeys_def bad_def on_str_def is_digest_sha256_ref remote_invocation_def
        EXEC_CAPABILITY_def EXEC_CAPABILITY_VERSION_def Let_def insert_commute)
qed

lemma lineage_exact_witness:
  "validate_lineage remote_invocation (sha256_digest ''s'') (sha256_digest ''p'') (sha256_digest ''t'') = Inr ()"
  unfolding lineage_exact [OF remote_invocation_read]
  by (simp add: remote_invocation_def remote_refs_def)

end
