(* ===== verification/Agent.thy ===== *)
theory Agent
  imports Instance_Client
begin

text \<open>
  The local coding-agent tools (\<open>src/leanctx_sdk/agent.py\<close>): the policy a host selects, the tool
  session over one persistent instance and its operations. The session is a state machine: it
  negotiates its capabilities once, numbers its requests, adds up the tokens of the results, and is
  closed by a crash, a malformed frame or its host. A \<^emph>\<open>turn\<close> is what the process does during one
  request, a \<^emph>\<open>cleanup\<close> what the system answers while the process group is ended.
\<close>

section \<open>Policies\<close>

definition MAX_AGENT_REQUEST :: nat where "MAX_AGENT_REQUEST = 1024 * 1024"
definition MAX_AGENT_RESPONSE :: nat where "MAX_AGENT_RESPONSE = 16 * 1024 * 1024"
definition AGENT_INTERFACE :: pystr where "AGENT_INTERFACE = ''1.0.0''"

definition READ_TOOLS :: "pystr list" where
  "READ_TOOLS = [''ctx_compose'', ''ctx_glob'', ''ctx_read'', ''ctx_search'', ''ctx_symbol'', ''ctx_tree'']"
definition WRITE_TOOLS :: "pystr list" where
  "WRITE_TOOLS = [''ctx_edit'', ''ctx_fill'', ''ctx_patch'']"
definition EXEC_TOOLS :: "pystr list" where
  "EXEC_TOOLS = [''ctx_shell'']"

definition admitted_pairs :: "(pystr \<times> int \<times> int \<times> pystr) list" where
  "admitted_pairs =
     [(''1.0.0'', 1, 1, ''3.11.0''), (''1.0.0'', 1, 1, ''3.11.3''), (''1.0.0'', 1, 1, ''3.11.4''),
      (''1.0.0'', 1, 1, ''3.11.5''), (''1.0.0'', 1, 1, ''3.12.0''), (''1.0.0'', 1, 1, ''3.12.1''),
      (''1.0.0'', 1, 1, ''3.12.2'')]"

record permissions =
  pe_write :: bool
  pe_execute :: bool

definition mk_permissions :: "json \<Rightarrow> json \<Rightarrow> permissions res" where
  "mk_permissions w x =
     (case (w, x) of
        (JBool a, JBool b) \<Rightarrow> Inr \<lparr>pe_write = a, pe_execute = b\<rparr>
      | _ \<Rightarrow> Inl ValidationError)"

text \<open>\<open>character.isalnum()\<close>: a word character other than the underscore.\<close>

definition alnum_point :: "nat \<Rightarrow> bool" where
  "alnum_point c \<longleftrightarrow> re_word c \<and> c \<noteq> 95"

definition executable_name :: "json \<Rightarrow> pystr res" where
  "executable_name v =
     (case v of
        JStr s \<Rightarrow>
          rbind (check (s \<noteq> [] \<and> CHR ''/'' \<notin> set s \<and>
            list_all (\<lambda>c. alnum_point c \<or> c \<in> {46, 95, 43, 45}) (code_points s)) ValidationError) (\<lambda>_.
          Inr s)
      | _ \<Rightarrow> Inl ValidationError)"

text \<open>
  The policy of commands. The names of variables and the longest time, a float, are given as checked;
  names are kept sorted and once.
\<close>

record exec_policy =
  xp_executables :: "pystr list"
  xp_env :: "pystr list"

definition mk_exec_policy :: "json list \<Rightarrow> pystr list \<Rightarrow> exec_policy res" where
  "mk_exec_policy executables env =
     rbind (mapr executable_name executables) (\<lambda>names.
     Inr \<lparr>xp_executables = sort (remdups names), xp_env = sort (remdups env)\<rparr>)"

record gitlab =
  gl_host :: pystr
  gl_project :: int
  gl_namespace :: pystr
  gl_glab :: pystr
  gl_config :: "pystr option"

definition gitlab_text :: "json \<Rightarrow> pystr res" where
  "gitlab_text v =
     (case v of JStr s \<Rightarrow> rbind (check (s \<noteq> [] \<and> \<not> has_cc s) ValidationError) (\<lambda>_. Inr s)
      | _ \<Rightarrow> Inl ValidationError)"

definition gitlab_path :: "json \<Rightarrow> pystr res" where
  "gitlab_path v =
     rbind (gitlab_text v) (\<lambda>s. rbind (check (os_isabs s) ValidationError) (\<lambda>_. Inr s))"

definition mk_gitlab :: "json \<Rightarrow> json \<Rightarrow> json \<Rightarrow> json \<Rightarrow> json \<Rightarrow> gitlab res" where
  "mk_gitlab host project namespace glab config =
     rbind (gitlab_text host) (\<lambda>h.
     rbind (gitlab_text namespace) (\<lambda>n.
     rbind (integer 1 9007199254740991 project) (\<lambda>p.
     rbind (gitlab_path glab) (\<lambda>g.
     rbind (nullable gitlab_path config) (\<lambda>c.
     Inr \<lparr>gl_host = h, gl_project = p, gl_namespace = n, gl_glab = g, gl_config = c\<rparr>)))))"

definition copy_gitlab :: "json \<Rightarrow> gitlab option res" where
  "copy_gitlab v =
     (if v = JNull then Inr None
      else
        rbind (check (is_obj v) ValidationError) (\<lambda>_.
        rbind (check ({''host'', ''project'', ''namespace'', ''glab''} \<subseteq> set (jkeys v) \<and>
          set (jkeys v) \<subseteq> {''host'', ''project'', ''namespace'', ''glab'', ''config_dir''})
          ValidationError) (\<lambda>_.
        rbind (mk_gitlab (jat ''host'' v) (jat ''project'' v) (jat ''namespace'' v) (jat ''glab'' v)
          (jat ''config_dir'' v)) (\<lambda>g. Inr (Some g)))))"

text \<open>The document of the policy file; the longest time is given in milliseconds.\<close>

definition gitlab_json :: "gitlab \<Rightarrow> json" where
  "gitlab_json g =
     JObj ([(''host'', JStr (gl_host g)), (''project'', JInt (gl_project g)),
            (''namespace'', JStr (gl_namespace g)), (''glab'', JStr (gl_glab g))] @
           (case gl_config g of None \<Rightarrow> [] | Some c \<Rightarrow> [(''config_dir'', JStr c)]))"

definition policy_document :: "permissions \<Rightarrow> exec_policy \<Rightarrow> int \<Rightarrow> gitlab option \<Rightarrow> json" where
  "policy_document p x max_ms g =
     JObj ([(''allow_exec'', JBool (pe_execute p)), (''allow_write'', JBool (pe_write p)),
            (''allowed_env'', JArr (map JStr (xp_env x))),
            (''allowed_executables'', JArr (map JStr (xp_executables x))),
            (''max_timeout_ms'', JInt max_ms), (''schema_version'', JInt 1)] @
           (case g of None \<Rightarrow> [] | Some h \<Rightarrow> [(''selected_gitlab'', gitlab_json h)]))"

section \<open>Sessions\<close>

record metrics =
  mt_calls :: int
  mt_original :: int
  mt_output :: int
  mt_saved :: int

text \<open>
  \<open>ag_reaped\<close> says that the process has been reaped, \<open>ag_failed\<close> that a failed cleanup is stored.
\<close>

record agent =
  ag_root :: pystr
  ag_task :: pystr
  ag_permissions :: permissions
  ag_policy :: exec_policy
  ag_gitlab :: "gitlab option"
  ag_capabilities :: "pystr list"
  ag_next_id :: int
  ag_closed :: bool
  ag_failed :: bool
  ag_reaped :: bool
  ag_metrics :: metrics

definition no_metrics :: metrics where
  "no_metrics = \<lparr>mt_calls = 0, mt_original = 0, mt_output = 0, mt_saved = 0\<rparr>"

text \<open>The root is the resolved one; the process has been started with the policy file.\<close>

definition mk_agent ::
  "pystr \<Rightarrow> pystr \<Rightarrow> permissions \<Rightarrow> exec_policy \<Rightarrow> json \<Rightarrow> agent res" where
  "mk_agent root task p x gitlab_source =
     rbind (encoded_length task) (\<lambda>n.
     rbind (check (n \<le> 16 * 1024) ValidationError) (\<lambda>_.
     rbind (check (\<not> (pe_execute p \<and> xp_executables x = [])) ConfigurationError) (\<lambda>_.
     rbind (copy_gitlab gitlab_source) (\<lambda>g.
     Inr \<lparr>ag_root = root, ag_task = task, ag_permissions = p, ag_policy = x, ag_gitlab = g,
       ag_capabilities = [], ag_next_id = 0, ag_closed = False, ag_failed = False, ag_reaped = False,
       ag_metrics = no_metrics\<rparr>))))"

subsection \<open>Cleanup\<close>

datatype signal_result = Delivered | NoProcess | Denied

text \<open>
  What ending the group meets: whether another caller owns the cleanup until this caller's time to wait for it
  is over, the stop of the leader, the kill of the group, the kill of the leader alone after a refused kill of
  the group, whether no live member was seen in it within a second, what a look at the group says after a
  refused kill, whether the leader was reaped in the first wait, the kill of the leader after that wait, and
  whether it was reaped in the second wait.
\<close>

record cleanup =
  cu_pending :: bool
  cu_stop :: signal_result
  cu_kill :: signal_result
  cu_leader :: signal_result
  cu_emptied :: bool
  cu_live :: "bool option"
  cu_waited :: bool
  cu_force :: signal_result
  cu_waited_again :: bool

definition kill_refused :: "cleanup \<Rightarrow> bool" where
  "kill_refused cu \<longleftrightarrow>
     (case cu_stop cu of
        NoProcess \<Rightarrow> False
      | Denied \<Rightarrow> True
      | Delivered \<Rightarrow> cu_kill cu = Denied)"

definition group_error :: "cleanup \<Rightarrow> bool" where
  "group_error cu \<longleftrightarrow> (if kill_refused cu then cu_live cu \<noteq> Some False else \<not> cu_emptied cu)"

text \<open>
  A \<open>PermissionError\<close> that nothing catches: of the kill of the leader in \<open>_kill_posix_tree\<close>, or of
  \<open>process.kill\<close> after the first wait.
\<close>

definition tree_escapes :: "cleanup \<Rightarrow> bool" where
  "tree_escapes cu \<longleftrightarrow> cu_stop cu = Delivered \<and> cu_kill cu = Denied \<and> cu_leader cu = Denied"

definition force_escapes :: "cleanup \<Rightarrow> bool" where
  "force_escapes cu \<longleftrightarrow> \<not> cu_waited cu \<and> cu_force cu = Denied"

definition terminate_once :: "cleanup \<Rightarrow> agent \<Rightarrow> agent \<times> unit res" where
  "terminate_once cu a =
     (if ag_reaped a then (a, Inr ())
      else if tree_escapes cu then (a, Inl PyOSError)
      else if force_escapes cu then (a, Inl PyOSError)
      else
        let reaped = cu_waited cu \<or> cu_waited_again cu in
        (a\<lparr>ag_reaped := reaped\<rparr>, check (\<not> group_error cu \<and> reaped) InstanceExecutionError))"

text \<open>\<open>_terminate\<close>: only an \<open>InstanceExecutionError\<close> of the cleanup is stored.\<close>

definition terminate :: "cleanup \<Rightarrow> agent \<Rightarrow> agent \<times> unit res" where
  "terminate cu a =
     (if cu_pending cu then (a, Inl InstanceExecutionError)
      else if ag_failed a then (a, Inl InstanceExecutionError)
      else
        (case terminate_once cu a of
           (a', Inr u) \<Rightarrow> (a', Inr u)
         | (a', Inl e) \<Rightarrow>
             (if e = InstanceExecutionError then a'\<lparr>ag_failed := True\<rparr> else a', Inl e)))"

text \<open>Ending a session for a reason; a failed cleanup takes precedence over it.\<close>

definition end_session :: "exn \<Rightarrow> cleanup \<Rightarrow> agent \<Rightarrow> agent \<times> 'a res" where
  "end_session e cu a =
     (case terminate cu (a\<lparr>ag_closed := True\<rparr>) of (a', r) \<Rightarrow> (a', rbind r (\<lambda>_. Inl e)))"

subsection \<open>Frames\<close>

text \<open>The reader: the lines of the output, the acknowledgement of the session starter taken off.\<close>

definition line_of :: "pystr \<Rightarrow> pystr" where
  "line_of s =
     take (min (Suc (length (takeWhile (\<lambda>c. c \<noteq> CHR 0x0A) s))) (MAX_AGENT_RESPONSE + 1)) s"

lemma line_of_length: "line_of s \<noteq> [] \<Longrightarrow> length s - length (line_of s) < length s"
  by (cases s) (auto simp: line_of_def MAX_AGENT_RESPONSE_def)

function reader_queue :: "pystr \<Rightarrow> pystr list" where
  "reader_queue s =
     (let raw = line_of s in
      if raw = [] \<or> length raw > MAX_AGENT_RESPONSE then [raw]
      else raw # reader_queue (drop (length raw) s))"
  by auto
termination
  by (relation "measure length") (auto simp: line_of_length)

definition reader_loop :: "pystr \<Rightarrow> pystr \<times> pystr list" where
  "reader_loop s =
     (if line_of s = CONTAINMENT_ACK
      then (''engine-starter'', reader_queue (drop (length (line_of s)) s))
      else (''unavailable'', reader_queue s))"

text \<open>
  An answer is malformed, which ends the session, an error of the instance, or a result.
\<close>

datatype answer = Malformed | Refused exn | Answered json

definition engine_error :: "json \<Rightarrow> answer" where
  "engine_error v =
     (if set (jkeys v) \<noteq> {''code'', ''message''} then Malformed
      else
        (case (jat ''code'' v, jat ''message'' v) of
           (JStr code, JStr _) \<Rightarrow>
             Refused (if code = ''permission_denied'' then AgentPermissionError
               else if code = ''unsupported_capability'' then UnsupportedCapabilityError
               else if code \<in> {''invalid_request'', ''invalid_state'', ''unsupported_interface''}
                 then InstanceProtocolError
               else InstanceExecutionError)
         | _ \<Rightarrow> Malformed))"

definition read_envelope :: "pystr \<Rightarrow> json \<Rightarrow> answer" where
  "read_envelope request_id v =
     (if jat ''id'' v \<noteq> JStr request_id then Malformed
      else
        (case jat ''ok'' v of
           JBool ok \<Rightarrow>
             if set (jkeys v) \<noteq> {''id'', ''ok'', if ok then ''result'' else ''error''} then Malformed
             else if \<not> ok then engine_error (jat ''error'' v)
             else if is_obj (jat ''result'' v) then Answered (jat ''result'' v)
             else Malformed
         | _ \<Rightarrow> Malformed))"

definition read_answer :: "pystr \<Rightarrow> pystr \<Rightarrow> answer" where
  "read_answer request_id raw =
     (if length raw > MAX_AGENT_RESPONSE \<or> last raw \<noteq> CHR 0x0A then Malformed
      else (case strict_json_loads raw of Inl _ \<Rightarrow> Malformed | Inr v \<Rightarrow> read_envelope request_id v))"

subsection \<open>Exchanges\<close>

datatype write_end = Written | WriteFailed | WriteExpired

text \<open>
  A turn: whether the process had exited, how the write ended, whether another caller cancelled
  meanwhile and what its cleanup meets, the line that came (none before the deadline; the empty line is the end
  of the output), what a cleanup of the exchange meets, and what the cleanup after the exchange meets.
\<close>

record turn =
  tn_exited :: bool
  tn_write :: write_end
  tn_cancelled :: "cleanup option"
  tn_line :: "pystr option"
  tn_cleanup :: cleanup
  tn_last :: cleanup

definition frame_of :: "(pystr \<times> json) list \<Rightarrow> int \<Rightarrow> json" where
  "frame_of request i = JObj (dict_put ''id'' (JStr (int_text i)) request)"

definition cancelled_meanwhile :: "turn \<Rightarrow> agent \<Rightarrow> agent" where
  "cancelled_meanwhile t a =
     (case tn_cancelled t of
        None \<Rightarrow> a
      | Some cu \<Rightarrow> fst (terminate cu (a\<lparr>ag_closed := True\<rparr>)))"

definition after_write :: "turn \<Rightarrow> agent \<Rightarrow> agent \<times> json res" where
  "after_write t a =
     (case tn_line t of
        None \<Rightarrow>
          (case terminate (tn_cleanup t) a of (a', r) \<Rightarrow> (a', rbind r (\<lambda>_. Inl InstanceTimeout)))
      | Some raw \<Rightarrow>
          if raw = [] then
            if ag_closed a then (a, Inl InstanceCrashed) else end_session InstanceCrashed (tn_cleanup t) a
          else
            (case read_answer (int_text (ag_next_id a)) raw of
               Malformed \<Rightarrow> end_session InstanceProtocolError (tn_cleanup t) a
             | Refused e \<Rightarrow> (a, Inl e)
             | Answered v \<Rightarrow> (a, Inr v)))"

definition agent_exchange :: "turn \<Rightarrow> (pystr \<times> json) list \<Rightarrow> agent \<Rightarrow> agent \<times> json res" where
  "agent_exchange t request a =
     (if ag_closed a then (a, Inl InstanceCrashed)
      else if ag_reaped a \<or> tn_exited t then end_session InstanceCrashed (tn_cleanup t) a
      else
        let a1 = a\<lparr>ag_next_id := ag_next_id a + 1\<rparr> in
        case rbind (encoded_length (dumps (frame_of request (ag_next_id a1)))) (\<lambda>n.
               bad (n > MAX_AGENT_REQUEST)) of
          Inl e \<Rightarrow> (a1, Inl e)
        | Inr _ \<Rightarrow>
            let a2 = cancelled_meanwhile t a1 in
            (case tn_write t of
               WriteExpired \<Rightarrow> (fst (terminate (tn_cleanup t) a2), Inl InstanceTimeout)
             | WriteFailed \<Rightarrow>
                 if ag_closed a2 then (a2, Inl InstanceCrashed)
                 else end_session InstanceCrashed (tn_cleanup t) a2
             | Written \<Rightarrow> after_write t a2))"

section \<open>Negotiation\<close>

definition expected_tools :: "permissions \<Rightarrow> gitlab option \<Rightarrow> pystr list" where
  "expected_tools p g =
     READ_TOOLS @ (if pe_write p then WRITE_TOOLS else []) @ (if pe_execute p then EXEC_TOOLS else []) @
     (if g = None then [] else [''ctx_provider''])"

definition hello_fields :: "pystr list" where
  "hello_fields = [''agent_tools_interface_version'', ''allow_exec'', ''allow_write'', ''capabilities'',
     ''engine_version'', ''schema_version'', ''transport_version'']"

definition admitted_engine :: "json \<Rightarrow> bool" where
  "admitted_engine v =
     (case v of JStr s \<Rightarrow> (AGENT_INTERFACE, 1, 1, s) \<in> set admitted_pairs | _ \<Rightarrow> False)"

definition accept_hello :: "permissions \<Rightarrow> gitlab option \<Rightarrow> json \<Rightarrow> pystr list res" where
  "accept_hello p g v =
     rbind (bad (set (jkeys v) \<noteq> set hello_fields)) (\<lambda>_.
     rbind (bad (jat ''schema_version'' v \<noteq> JInt 1 \<or> jat ''transport_version'' v \<noteq> JInt 1 \<or>
       jat ''agent_tools_interface_version'' v \<noteq> JStr AGENT_INTERFACE \<or>
       jat ''allow_write'' v \<noteq> JBool (pe_write p) \<or> jat ''allow_exec'' v \<noteq> JBool (pe_execute p))) (\<lambda>_.
     rbind (bad (\<not> admitted_engine (jat ''engine_version'' v))) (\<lambda>_.
     case jat ''capabilities'' v of
       JArr xs \<Rightarrow>
         rbind (bad (list_ex (\<lambda>x. \<not> is_str x) xs)) (\<lambda>_.
         let caps = strs_of (JArr xs) in
         rbind (bad (caps \<noteq> sort (remdups caps))) (\<lambda>_.
         rbind (bad (set caps \<noteq> set (expected_tools p g))) (\<lambda>_. Inr caps)))
     | _ \<Rightarrow> Inl InstanceProtocolError)))"

definition hello_request :: "(pystr \<times> json) list" where
  "hello_request = [(''op'', JStr ''hello''), (''schema_version'', JInt 1), (''transport_version'', JInt 1),
     (''agent_tools_interface_version'', JStr AGENT_INTERFACE), (''sdk_version'', JStr ''1.3.0'')]"

text \<open>The constructor says hello; any failure ends the process first.\<close>

definition agent_start :: "turn \<Rightarrow> agent \<Rightarrow> agent \<times> unit res" where
  "agent_start t a0 =
     (case agent_exchange t hello_request a0 of
        (a, r) \<Rightarrow>
          (case rbind r (accept_hello (ag_permissions a) (ag_gitlab a)) of
             Inr caps \<Rightarrow> (a\<lparr>ag_capabilities := caps\<rparr>, Inr ())
           | Inl e \<Rightarrow> (case terminate (tn_last t) a of (a', q) \<Rightarrow> (a', rbind q (\<lambda>_. Inl e)))))"

section \<open>Tools\<close>

record tool_result =
  to_tool :: pystr
  to_text :: pystr
  to_blocks :: "json list"
  to_original :: int
  to_output :: int
  to_saved :: int
  to_mode :: "pystr option"
  to_changed :: bool
  to_shell :: "json option"

definition token_count :: "json \<Rightarrow> int res" where
  "token_count v =
     (case v of JInt i \<Rightarrow> rbind (bad (i < 0)) (\<lambda>_. Inr i) | _ \<Rightarrow> Inl InstanceProtocolError)"

lemma token_count_Inr [ok_simps]: "token_count v = Inr i \<longleftrightarrow> v = JInt i \<and> 0 \<le> i"
  by (cases v) (auto simp: token_count_def ok_simps)

definition result_mode :: "json \<Rightarrow> pystr option res" where
  "result_mode v =
     (case v of JNull \<Rightarrow> Inr None | JStr s \<Rightarrow> Inr (Some s) | _ \<Rightarrow> Inl InstanceProtocolError)"

definition result_shell :: "json \<Rightarrow> json option res" where
  "result_shell v =
     (case v of JNull \<Rightarrow> Inr None | JObj _ \<Rightarrow> Inr (Some v) | _ \<Rightarrow> Inl InstanceProtocolError)"

definition result_blocks :: "json \<Rightarrow> json list res" where
  "result_blocks v =
     (case v of
        JArr bs \<Rightarrow> rbind (bad (list_ex (\<lambda>b. \<not> is_obj b) bs)) (\<lambda>_. Inr bs)
      | _ \<Rightarrow> Inl InstanceProtocolError)"

definition parse_tool_result :: "pystr \<Rightarrow> json \<Rightarrow> tool_result res" where
  "parse_tool_result tool v =
     rbind (bad (set (jkeys v) \<noteq> {''text'', ''content_blocks'', ''original_tokens'', ''output_tokens'',
       ''saved_tokens'', ''mode'', ''changed'', ''shell''})) (\<lambda>_.
     rbind (case jat ''text'' v of JStr s \<Rightarrow> Inr s | _ \<Rightarrow> Inl InstanceProtocolError) (\<lambda>s.
     rbind (result_mode (jat ''mode'' v)) (\<lambda>mode.
     rbind (token_count (jat ''original_tokens'' v)) (\<lambda>original.
     rbind (token_count (jat ''output_tokens'' v)) (\<lambda>output.
     rbind (token_count (jat ''saved_tokens'' v)) (\<lambda>saved.
     rbind (bad (output + saved \<noteq> original)) (\<lambda>_.
     rbind (bool_of (jat ''changed'' v)) (\<lambda>changed.
     rbind (result_shell (jat ''shell'' v)) (\<lambda>shell.
     rbind (result_blocks (jat ''content_blocks'' v)) (\<lambda>blocks.
     Inr \<lparr>to_tool = tool, to_text = s, to_blocks = blocks, to_original = original, to_output = output,
       to_saved = saved, to_mode = mode, to_changed = changed, to_shell = shell\<rparr>))))))))))"

definition add_metrics :: "metrics \<Rightarrow> tool_result \<Rightarrow> metrics" where
  "add_metrics m r =
     \<lparr>mt_calls = mt_calls m + 1, mt_original = mt_original m + to_original r,
      mt_output = mt_output m + to_output r, mt_saved = mt_saved m + to_saved r\<rparr>"

definition tool_request :: "pystr \<Rightarrow> (pystr \<times> json) list \<Rightarrow> (pystr \<times> json) list" where
  "tool_request tool arguments =
     [(''op'', JStr ''call''), (''tool'', JStr tool), (''arguments'', JObj arguments)]"

definition call_tool ::
  "turn \<Rightarrow> pystr \<Rightarrow> (pystr \<times> json) list \<Rightarrow> agent \<Rightarrow> agent \<times> tool_result res" where
  "call_tool t tool arguments a =
     (if tool \<notin> set (ag_capabilities a) then (a, Inl UnsupportedCapabilityError)
      else
        (case agent_exchange t (tool_request tool arguments) a of
           (a', Inl e) \<Rightarrow> (a', Inl e)
         | (a', Inr v) \<Rightarrow>
             (case parse_tool_result tool v of
                Inl e \<Rightarrow>
                  if e = InstanceProtocolError then end_session e (tn_last t) a' else (a', Inl e)
              | Inr r \<Rightarrow> (a'\<lparr>ag_metrics := add_metrics (ag_metrics a') r\<rparr>, Inr r))))"

definition agent_call ::
  "turn \<Rightarrow> pystr \<Rightarrow> (pystr \<times> json) list \<Rightarrow> agent \<Rightarrow> agent \<times> tool_result res" where
  "agent_call t tool arguments a =
     (if tool = [] then (a, Inl ValidationError)
      else if tool \<in> set EXEC_TOOLS then (a, Inl AgentPermissionError)
      else if tool \<in> set WRITE_TOOLS \<and> \<not> pe_write (ag_permissions a) then (a, Inl AgentPermissionError)
      else call_tool t tool arguments a)"

definition agent_read :: "turn \<Rightarrow> pystr \<Rightarrow> pystr \<Rightarrow> bool \<Rightarrow> agent \<Rightarrow> agent \<times> tool_result res" where
  "agent_read t path mode fresh a =
     call_tool t ''ctx_read'' [(''path'', JStr path), (''mode'', JStr mode), (''fresh'', JBool fresh)] a"

definition agent_search ::
  "turn \<Rightarrow> pystr \<Rightarrow> pystr \<Rightarrow> int \<Rightarrow> pystr option \<Rightarrow> agent \<Rightarrow> agent \<times> tool_result res" where
  "agent_search t pattern path max_results include a =
     call_tool t ''ctx_search''
       ([(''path'', JStr path), (''pattern'', JStr pattern), (''max_results'', JInt max_results)] @
        (case include of None \<Rightarrow> [] | Some i \<Rightarrow> [(''include'', JStr i)])) a"

definition agent_glob :: "turn \<Rightarrow> pystr \<Rightarrow> pystr \<Rightarrow> int \<Rightarrow> agent \<Rightarrow> agent \<times> tool_result res" where
  "agent_glob t pattern path max_results a =
     call_tool t ''ctx_glob''
       [(''path'', JStr path), (''pattern'', JStr pattern), (''max_results'', JInt max_results)] a"

definition agent_tree :: "turn \<Rightarrow> pystr \<Rightarrow> int \<Rightarrow> bool \<Rightarrow> agent \<Rightarrow> agent \<times> tool_result res" where
  "agent_tree t path depth show_hidden a =
     call_tool t ''ctx_tree''
       [(''path'', JStr path), (''depth'', JInt depth), (''show_hidden'', JBool show_hidden)] a"

definition agent_compose :: "turn \<Rightarrow> pystr option \<Rightarrow> pystr \<Rightarrow> agent \<Rightarrow> agent \<times> tool_result res" where
  "agent_compose t task path a =
     call_tool t ''ctx_compose'' [(''path'', JStr path),
       (''task'', JStr (case task of None \<Rightarrow> ag_task a | Some s \<Rightarrow> s))] a"

definition agent_symbol :: "turn \<Rightarrow> pystr \<Rightarrow> agent \<Rightarrow> agent \<times> tool_result res" where
  "agent_symbol t name a = call_tool t ''ctx_symbol'' [(''name'', JStr name)] a"

definition agent_patch ::
  "turn \<Rightarrow> pystr \<Rightarrow> pystr \<Rightarrow> (pystr \<times> json) list \<Rightarrow> agent \<Rightarrow> agent \<times> tool_result res" where
  "agent_patch t path op arguments a =
     (if \<not> pe_write (ag_permissions a) then (a, Inl AgentPermissionError)
      else call_tool t ''ctx_patch''
        (dict_put ''op'' (JStr op) (dict_put ''path'' (JStr path) arguments)) a)"

definition agent_create :: "turn \<Rightarrow> pystr \<Rightarrow> pystr \<Rightarrow> agent \<Rightarrow> agent \<times> tool_result res" where
  "agent_create t path s a = agent_patch t path ''create'' [(''new_text'', JStr s)] a"

definition agent_replace :: "turn \<Rightarrow> pystr \<Rightarrow> pystr \<Rightarrow> pystr \<Rightarrow> agent \<Rightarrow> agent \<times> tool_result res" where
  "agent_replace t path old new a =
     agent_patch t path ''replace_unique'' [(''old_text'', JStr old), (''new_text'', JStr new)] a"

section \<open>Commands\<close>

text \<open>The file system as \<open>run\<close> sees it; \<open>None\<close> is an \<open>OSError\<close> or a \<open>ValueError\<close>.\<close>

record folders =
  fo_real :: "pystr \<Rightarrow> pystr option"
  fo_isdir :: "pystr \<Rightarrow> bool"

definition checked_cwd :: "folders \<Rightarrow> pystr \<Rightarrow> pystr \<Rightarrow> pystr res" where
  "checked_cwd f root cwd =
     rbind (of_option AgentPermissionError (fo_real f root)) (\<lambda>real_root.
     rbind (of_option AgentPermissionError
       (fo_real f (if os_isabs cwd then cwd else os_join real_root cwd))) (\<lambda>real_cwd.
     rbind (check (os_commonpath2 real_root real_cwd = Some real_root \<and> fo_isdir f real_cwd)
       AgentPermissionError) (\<lambda>_.
     Inr (os_relpath ''/'' real_cwd real_root))))"

definition check_argv :: "exec_policy \<Rightarrow> pystr list \<Rightarrow> unit res" where
  "check_argv x argv =
     rbind (check (argv \<noteq> [] \<and> [] \<notin> set argv) ValidationError) (\<lambda>_.
     rbind (check (CHR ''/'' \<notin> set (hd argv) \<and> CHR 0x5C \<notin> set (hd argv)) AgentPermissionError) (\<lambda>_.
     check (xp_executables x = [] \<or> hd argv \<in> set (xp_executables x)) AgentPermissionError))"

definition check_env :: "exec_policy \<Rightarrow> (pystr \<times> json) list \<Rightarrow> unit res" where
  "check_env x env =
     rbind (check (list_all (\<lambda>p. is_str (snd p)) env) ValidationError) (\<lambda>_.
     check (set (map fst env) \<subseteq> set (xp_env x)) AgentPermissionError)"

text \<open>The check of the time of a command is on floats: its result, in milliseconds, is an argument.\<close>

definition run_arguments ::
  "folders \<Rightarrow> agent \<Rightarrow> pystr list \<Rightarrow> pystr \<Rightarrow> (pystr \<times> json) list \<Rightarrow> int res \<Rightarrow> (pystr \<times> json) list res" where
  "run_arguments f a argv cwd env time =
     rbind (check (pe_execute (ag_permissions a)) AgentPermissionError) (\<lambda>_.
     rbind (check_argv (ag_policy a) argv) (\<lambda>_.
     rbind time (\<lambda>ms.
     rbind (check_env (ag_policy a) env) (\<lambda>_.
     rbind (checked_cwd f (ag_root a) cwd) (\<lambda>d.
     Inr [(''argv'', JArr (map JStr argv)), (''cwd'', JStr d), (''env'', JObj env),
       (''timeout_ms'', JInt ms)])))))"

definition agent_run ::
  "folders \<Rightarrow> turn \<Rightarrow> pystr list \<Rightarrow> pystr \<Rightarrow> (pystr \<times> json) list \<Rightarrow> int res \<Rightarrow> agent \<Rightarrow>
     agent \<times> tool_result res" where
  "agent_run f t argv cwd env time a =
     (case run_arguments f a argv cwd env time of
        Inl e \<Rightarrow> (a, Inl e)
      | Inr arguments \<Rightarrow> call_tool t ''ctx_shell'' arguments a)"

section \<open>The end\<close>

definition agent_cancel :: "cleanup \<Rightarrow> agent \<Rightarrow> agent \<times> unit res" where
  "agent_cancel cu a = terminate cu (a\<lparr>ag_closed := True\<rparr>)"

definition agent_close :: "turn \<Rightarrow> agent \<Rightarrow> agent \<times> unit res" where
  "agent_close t a =
     (if ag_closed a then terminate (tn_last t) a
      else
        (case agent_exchange t [(''op'', JStr ''close'')] a of
           (a', r) \<Rightarrow>
             (case terminate (tn_last t) (a'\<lparr>ag_closed := True\<rparr>) of
                (a'', q) \<Rightarrow>
                  (a'', rbind q (\<lambda>_. case r of
                     Inl e \<Rightarrow> if is_instance e InstanceError then Inr () else Inl e
                   | Inr _ \<Rightarrow> Inr ())))))"

text \<open>A fresh session with the same policy; \<open>t'\<close> is the turn of its hello.\<close>

definition agent_reconnect :: "turn \<Rightarrow> turn \<Rightarrow> agent \<Rightarrow> agent \<times> unit res" where
  "agent_reconnect t t' a =
     (case agent_close t a of
        (a', Inl e) \<Rightarrow> (a', Inl e)
      | (a', Inr _) \<Rightarrow>
          agent_start t' (a'\<lparr>ag_capabilities := [], ag_next_id := 0, ag_closed := False,
            ag_failed := False, ag_reaped := False, ag_metrics := no_metrics\<rparr>))"

end
