(* ===== verification/Agent_Facts.thy ===== *)
theory Agent_Facts
  imports Agent Ws_Demo
begin

text \<open>
  What a tool session promises: only negotiated tools reach the instance, its metrics are those of the
  results it gave, a closed session stays closed, and an end is reported only when the process is reaped.
\<close>

section \<open>Frames\<close>

text \<open>What a step keeps: everything but the counter, the flags of the end and the metrics.\<close>

definition kept :: "agent \<Rightarrow> agent \<Rightarrow> bool" where
  "kept a a' \<longleftrightarrow>
     ag_root a' = ag_root a \<and> ag_task a' = ag_task a \<and> ag_permissions a' = ag_permissions a \<and>
     ag_policy a' = ag_policy a \<and> ag_gitlab a' = ag_gitlab a \<and> ag_capabilities a' = ag_capabilities a \<and>
     ag_next_id a \<le> ag_next_id a' \<and> (ag_closed a \<longrightarrow> ag_closed a') \<and> (ag_failed a \<longrightarrow> ag_failed a') \<and>
     (ag_reaped a \<longrightarrow> ag_reaped a')"

lemma kept_refl [intro, simp]: "kept a a"
  by (simp add: kept_def)

lemma kept_trans: "kept a b \<Longrightarrow> kept b c \<Longrightarrow> kept a c"
  by (simp add: kept_def)

lemma kept_closed: "kept a (a\<lparr>ag_closed := True\<rparr>)"
  by (simp add: kept_def)

lemma terminate_state:
  "kept a (fst (terminate cu a))" "ag_metrics (fst (terminate cu a)) = ag_metrics a"
  "ag_next_id (fst (terminate cu a)) = ag_next_id a" "ag_closed (fst (terminate cu a)) = ag_closed a"
  by (simp_all add: terminate_def terminate_once_def Let_def check_def kept_def)

lemma terminate_kept:
  assumes "terminate cu a = (a', r)"
  shows "kept a a'" "ag_metrics a' = ag_metrics a" "ag_next_id a' = ag_next_id a" "ag_closed a' = ag_closed a"
  using terminate_state [where a = a and cu = cu] assms by simp_all

lemma terminate_error: "terminate cu a = (a', Inl e) \<Longrightarrow> e = InstanceExecutionError \<or> e = PyOSError"
  by (simp add: terminate_def terminate_once_def Let_def check_def split: if_splits)

lemma end_session_state:
  "end_session e cu a =
     (fst (terminate cu (a\<lparr>ag_closed := True\<rparr>)),
      rbind (snd (terminate cu (a\<lparr>ag_closed := True\<rparr>))) (\<lambda>_. Inl e))"
  by (simp add: end_session_def split_beta)

lemma end_session_kept:
  assumes "end_session e cu a = (a', r)"
  shows "kept a a'" "ag_metrics a' = ag_metrics a" "ag_next_id a' = ag_next_id a" "ag_closed a'"
proof -
  have a': "a' = fst (terminate cu (a\<lparr>ag_closed := True\<rparr>))"
    using assms by (simp add: end_session_state)
  show "kept a a'"
    unfolding a' by (rule kept_trans [OF kept_closed terminate_state(1)])
  show "ag_metrics a' = ag_metrics a" "ag_next_id a' = ag_next_id a" "ag_closed a'"
    unfolding a' by (simp_all add: terminate_state)
qed

lemma end_session_error:
  assumes "end_session e cu a = (a', r)"
  shows "r = Inl e \<or> r = Inl InstanceExecutionError \<or> r = Inl PyOSError"
proof -
  obtain b q where b: "terminate cu (a\<lparr>ag_closed := True\<rparr>) = (b, q)"
    by fastforce
  with assms show ?thesis
    using terminate_error by (cases q) (auto simp: end_session_state)
qed

lemma cancelled_kept:
  "kept a (cancelled_meanwhile t a)" "ag_metrics (cancelled_meanwhile t a) = ag_metrics a"
  "ag_next_id (cancelled_meanwhile t a) = ag_next_id a"
  using kept_trans [OF kept_closed terminate_state(1)]
  by (simp_all add: cancelled_meanwhile_def terminate_state split: option.split)

lemma after_write_kept:
  assumes "after_write t a = (a', r)"
  shows "kept a a'" "ag_metrics a' = ag_metrics a" "ag_next_id a' = ag_next_id a"
proof -
  consider q where "terminate (tn_cleanup t) a = (a', q)"
    | e where "(end_session e (tn_cleanup t) a :: agent \<times> json res) = (a', r)" | "a' = a"
    using assms by (auto simp: after_write_def split: option.splits if_splits answer.splits prod.splits)
  then have "kept a a' \<and> ag_metrics a' = ag_metrics a \<and> ag_next_id a' = ag_next_id a"
  proof cases
    case (1 q)
    then show ?thesis using terminate_kept by simp
  next
    case (2 e)
    show ?thesis using end_session_kept(1-3) [OF 2] by blast
  qed simp
  then show "kept a a'" "ag_metrics a' = ag_metrics a" "ag_next_id a' = ag_next_id a"
    by blast+
qed

lemma exchange_kept:
  assumes "agent_exchange t items a = (a', r)"
  shows "kept a a'" "ag_metrics a' = ag_metrics a" "ag_next_id a' \<in> {ag_next_id a, ag_next_id a + 1}"
    "ag_closed a \<Longrightarrow> a' = a \<and> r = Inl InstanceCrashed"
proof -
  define a1 where "a1 = a\<lparr>ag_next_id := ag_next_id a + 1\<rparr>"
  define a2 where "a2 = cancelled_meanwhile t a1"
  have a1: "kept a a1" "ag_metrics a1 = ag_metrics a" "ag_next_id a1 = ag_next_id a + 1"
    by (simp_all add: kept_def a1_def)
  then have a2: "kept a a2" "ag_metrics a2 = ag_metrics a" "ag_next_id a2 = ag_next_id a + 1"
    using kept_trans [OF a1(1) cancelled_kept(1)] cancelled_kept(2,3) unfolding a2_def by simp_all
  consider "a' = a"
    | (ended) "(end_session InstanceCrashed (tn_cleanup t) a :: agent \<times> json res) = (a', r)"
    | "a' = a1" | "a' = a2"
    | (expired) "a' = fst (terminate (tn_cleanup t) a2)"
    | (failed) "(end_session InstanceCrashed (tn_cleanup t) a2 :: agent \<times> json res) = (a', r)"
    | (wrote) "after_write t a2 = (a', r)"
    using assms unfolding agent_exchange_def Let_def a1_def [symmetric] a2_def [symmetric]
    by (auto split: if_splits sum.splits write_end.splits)
  then have "kept a a' \<and> ag_metrics a' = ag_metrics a \<and> ag_next_id a' \<in> {ag_next_id a, ag_next_id a + 1}"
  proof cases
    case ended
    then show ?thesis using end_session_kept by blast
  next
    case expired
    then obtain q where "terminate (tn_cleanup t) a2 = (a', q)"
      by (metis prod.exhaust_sel)
    then show ?thesis using a2 terminate_kept kept_trans by (metis insertCI)
  next
    case failed
    then show ?thesis using a2 end_session_kept kept_trans by (metis insertCI)
  next
    case wrote
    then show ?thesis using a2 after_write_kept kept_trans by (metis insertCI)
  qed (use a1 a2 in auto)
  then show "kept a a'" "ag_metrics a' = ag_metrics a" "ag_next_id a' \<in> {ag_next_id a, ag_next_id a + 1}"
    by blast+
  show "a' = a \<and> r = Inl InstanceCrashed" if "ag_closed a"
    using assms that by (simp add: agent_exchange_def)
qed

text \<open>A call that gives a result adds it to the metrics; any other changes nothing there.\<close>

definition given :: "'a res \<Rightarrow> 'a list" where
  "given r = (case r of Inl _ \<Rightarrow> [] | Inr x \<Rightarrow> [x])"

definition honest :: "tool_result \<Rightarrow> bool" where
  "honest r \<longleftrightarrow> to_output r + to_saved r = to_original r \<and> 0 \<le> to_output r \<and> 0 \<le> to_saved r"

lemma parse_tool_result_Inr:
  "parse_tool_result tool v = Inr r \<Longrightarrow> honest r \<and> to_tool r = tool"
  unfolding parse_tool_result_def rbind_eq_Inr_iff bad_Inr token_count_Inr
  by (elim exE conjE, simp only: sum.inject, hypsubst)
    (simp only: honest_def tool_result.select_convs not_not simp_thms)

text \<open>How a call changes the session; its counter moves only if a request may have been sent.\<close>

definition effect :: "pystr \<Rightarrow> agent \<Rightarrow> agent \<Rightarrow> tool_result res \<Rightarrow> bool" where
  "effect tool a a' r \<longleftrightarrow>
     kept a a' \<and> ag_metrics a' = foldl add_metrics (ag_metrics a) (given r) \<and>
     list_all (\<lambda>x. honest x \<and> to_tool x = tool \<and> tool \<in> set (ag_capabilities a)) (given r) \<and>
     (ag_next_id a' = ag_next_id a \<or>
        ag_next_id a' = ag_next_id a + 1 \<and> tool \<in> set (ag_capabilities a) \<and> \<not> ag_closed a) \<and>
     (ag_closed a \<longrightarrow> a' = a \<and> given r = [])"

lemma effect_error:
  assumes "kept a a'" "ag_metrics a' = ag_metrics a" "ag_next_id a' \<in> {ag_next_id a, ag_next_id a + 1}"
    "tool \<in> set (ag_capabilities a)" "ag_closed a \<Longrightarrow> a' = a"
  shows "effect tool a a' (Inl e)"
  using assms by (auto simp: effect_def given_def)

lemma effect_refl: "effect tool a a (Inl e)"
  by (simp add: effect_def given_def)

lemma call_tool_effect:
  assumes "call_tool t tool args a = (a', r)"
  shows "effect tool a a' r"
proof (cases "tool \<in> set (ag_capabilities a)")
  case tool: True
  obtain b q where b: "agent_exchange t (tool_request tool args) a = (b, q)"
    by fastforce
  note sent = exchange_kept [OF b]
  show ?thesis
  proof (cases q)
    case (Inl e)
    then show ?thesis
      using assms b tool sent by (auto simp: call_tool_def intro: effect_error)
  next
    case q: (Inr v)
    then have live: "\<not> ag_closed a"
      using sent(4) by auto
    show ?thesis
    proof (cases "parse_tool_result tool v")
      case e: (Inl e)
      show ?thesis
      proof (cases "e = InstanceProtocolError")
        case True
        then have ended: "(end_session e (tn_last t) b :: agent \<times> tool_result res) = (a', r)"
          using assms b tool q e by (simp add: call_tool_def)
        obtain e' where "r = Inl e'"
          using end_session_error [OF ended] by blast
        moreover have "kept a a'"
          using sent(1) end_session_kept(1) [OF ended] by (rule kept_trans)
        ultimately show ?thesis
          using sent(2,3) end_session_kept(2,3) [OF ended] tool live by (auto intro!: effect_error)
      next
        case False
        then have "a' = b" "r = Inl e"
          using assms b tool q e by (simp_all add: call_tool_def)
        then show ?thesis
          using tool sent live by (auto intro: effect_error)
      qed
    next
      case (Inr x)
      then have "r = Inr x" "a' = b\<lparr>ag_metrics := add_metrics (ag_metrics b) x\<rparr>"
        using assms b tool q by (simp_all add: call_tool_def)
      moreover have "kept a a'"
        using sent(1) calculation(2) by (simp add: kept_def)
      ultimately show ?thesis
        using sent(2,3) parse_tool_result_Inr [OF Inr] tool live by (auto simp: effect_def given_def)
    qed
  qed
qed (use assms effect_refl in \<open>auto simp: call_tool_def\<close>)

section \<open>Sessions\<close>

text \<open>
  A session begins with an accepted hello and goes on with calls, commands and its end, in any order;
  the list is what its calls gave, in order. Reading and patching are calls of one tool.
\<close>

inductive session_run :: "agent \<Rightarrow> tool_result list \<Rightarrow> agent \<Rightarrow> bool" for a0 where
  begun: "agent_start t a0 = (a, Inr u) \<Longrightarrow> session_run a0 [] a"
| called: "session_run a0 rs a \<Longrightarrow> agent_call t tool args a = (a', r) \<Longrightarrow>
     session_run a0 (rs @ given r) a'"
| looked: "session_run a0 rs a \<Longrightarrow> tool \<in> set READ_TOOLS \<Longrightarrow> call_tool t tool args a = (a', r) \<Longrightarrow>
     session_run a0 (rs @ given r) a'"
| patched: "session_run a0 rs a \<Longrightarrow> agent_patch t path op args a = (a', r) \<Longrightarrow>
     session_run a0 (rs @ given r) a'"
| ran: "session_run a0 rs a \<Longrightarrow> agent_run f t argv cwd env time a = (a', r) \<Longrightarrow>
     session_run a0 (rs @ given r) a'"
| cancelled: "session_run a0 rs a \<Longrightarrow> agent_cancel cu a = (a', q) \<Longrightarrow> session_run a0 rs a'"
| ended: "session_run a0 rs a \<Longrightarrow> agent_close t a = (a', q) \<Longrightarrow> session_run a0 rs a'"

lemma agent_call_effect: "agent_call t tool args a = (a', r) \<Longrightarrow> effect tool a a' r"
  using call_tool_effect effect_refl by (auto simp: agent_call_def split: if_splits)

lemma agent_patch_effect: "agent_patch t path op args a = (a', r) \<Longrightarrow> effect ''ctx_patch'' a a' r"
  using call_tool_effect effect_refl by (auto simp: agent_patch_def split: if_splits)

lemma agent_run_effect: "agent_run f t argv cwd env time a = (a', r) \<Longrightarrow> effect ''ctx_shell'' a a' r"
  using call_tool_effect effect_refl by (auto simp: agent_run_def split: sum.splits)

lemma agent_cancel_kept:
  assumes "agent_cancel cu a = (a', q)"
  shows "kept a a'" "ag_metrics a' = ag_metrics a" "ag_next_id a' = ag_next_id a" "ag_closed a'"
  using terminate_kept [of cu "a\<lparr>ag_closed := True\<rparr>"] kept_trans [OF kept_closed] assms
  by (auto simp: agent_cancel_def)

lemma agent_close_kept:
  assumes "agent_close t a = (a', q)"
  shows "kept a a'" "ag_metrics a' = ag_metrics a" "ag_closed a'"
    "ag_closed a \<Longrightarrow> ag_next_id a' = ag_next_id a"
proof -
  obtain b r where b: "agent_exchange t [(''op'', JStr ''close'')] a = (b, r)"
    by fastforce
  obtain c p where c: "terminate (tn_last t) (b\<lparr>ag_closed := True\<rparr>) = (c, p)"
    by fastforce
  have "kept a a' \<and> ag_metrics a' = ag_metrics a \<and> ag_closed a' \<and>
    (ag_closed a \<longrightarrow> ag_next_id a' = ag_next_id a)"
  proof (cases "ag_closed a")
    case True
    then show ?thesis
      using assms terminate_kept by (simp add: agent_close_def)
  next
    case False
    then have "a' = c"
      using assms b c by (simp add: agent_close_def)
    then show ?thesis
      using False exchange_kept [OF b] terminate_kept [OF c] kept_trans [OF kept_closed]
      by (auto intro: kept_trans)
  qed
  then show "kept a a'" "ag_metrics a' = ag_metrics a" "ag_closed a'"
    "ag_closed a \<Longrightarrow> ag_next_id a' = ag_next_id a"
    by blast+
qed

lemma accept_hello_Inr:
  "accept_hello p g v = Inr caps \<Longrightarrow> set caps = set (expected_tools p g)"
  by (auto simp: accept_hello_def rbind_eq_Inr_iff bad_Inr Let_def split: json.splits)

lemma agent_start_Inr:
  assumes "agent_start t a0 = (a, Inr u)"
  shows "kept a0 (a\<lparr>ag_capabilities := ag_capabilities a0\<rparr>)" "ag_metrics a = ag_metrics a0"
    "set (ag_capabilities a) = set (expected_tools (ag_permissions a0) (ag_gitlab a0))"
proof -
  obtain b r where b: "agent_exchange t hello_request a0 = (b, r)"
    by fastforce
  note sent = exchange_kept [OF b]
  obtain caps where caps: "rbind r (accept_hello (ag_permissions b) (ag_gitlab b)) = Inr caps"
    "a = b\<lparr>ag_capabilities := caps\<rparr>"
    using assms b by (auto simp: agent_start_def rbind_eq_Inr_iff split: sum.splits prod.splits)
  show "kept a0 (a\<lparr>ag_capabilities := ag_capabilities a0\<rparr>)" "ag_metrics a = ag_metrics a0"
    using sent(1,2) caps(2) by (simp_all add: kept_def)
  have "set caps = set (expected_tools (ag_permissions b) (ag_gitlab b))"
    using caps(1) accept_hello_Inr by (auto simp: rbind_eq_Inr_iff)
  then show "set (ag_capabilities a) = set (expected_tools (ag_permissions a0) (ag_gitlab a0))"
    using sent(1) caps(2) by (simp add: kept_def)
qed

text \<open>The invariant of a session that began with \<open>a0\<close>.\<close>

definition session_ok :: "agent \<Rightarrow> tool_result list \<Rightarrow> agent \<Rightarrow> bool" where
  "session_ok a0 rs a \<longleftrightarrow>
     ag_permissions a = ag_permissions a0 \<and> ag_gitlab a = ag_gitlab a0 \<and> ag_policy a = ag_policy a0 \<and>
     ag_root a = ag_root a0 \<and>
     set (ag_capabilities a) = set (expected_tools (ag_permissions a0) (ag_gitlab a0)) \<and>
     ag_metrics a = foldl add_metrics (ag_metrics a0) rs \<and>
     (\<forall>x \<in> set rs. honest x \<and> to_tool x \<in> set (ag_capabilities a))"

lemma session_ok_effect: "session_ok a0 rs a \<Longrightarrow> effect tool a a' r \<Longrightarrow> session_ok a0 (rs @ given r) a'"
  by (auto simp: session_ok_def effect_def kept_def list_all_iff)

lemma session_ok_kept: "session_ok a0 rs a \<Longrightarrow> kept a a' \<Longrightarrow> ag_metrics a' = ag_metrics a \<Longrightarrow> session_ok a0 rs a'"
  by (auto simp: session_ok_def kept_def)

lemma session_run_ok: "session_run a0 rs a \<Longrightarrow> session_ok a0 rs a"
proof (induction rule: session_run.induct)
  case (begun t a u)
  then show ?case
    using agent_start_Inr [OF begun] by (simp add: session_ok_def kept_def)
next
  case (called rs a t tool args a' r)
  then show ?case using session_ok_effect agent_call_effect by blast
next
  case (looked rs a tool t args a' r)
  then show ?case using session_ok_effect call_tool_effect by blast
next
  case (patched rs a t path op args a' r)
  then show ?case using session_ok_effect agent_patch_effect by blast
next
  case (ran rs a f t argv cwd env time a' r)
  then show ?case using session_ok_effect agent_run_effect by blast
next
  case (cancelled rs a cu a' q)
  then show ?case using session_ok_kept agent_cancel_kept by blast
next
  case (ended rs a t a' q)
  then show ?case using session_ok_kept agent_close_kept by blast
qed

lemma mk_agent_Inr:
  assumes "mk_agent root task p x g = Inr a0"
  shows "ag_metrics a0 = no_metrics" "ag_permissions a0 = p" "ag_policy a0 = x" "ag_root a0 = root"
    "pe_execute p \<Longrightarrow> xp_executables x \<noteq> []"
  using assms by (auto simp: mk_agent_def rbind_eq_Inr_iff check_eq_Inr_iff)

section \<open>The claims\<close>

definition allowed_tool :: "agent \<Rightarrow> pystr \<Rightarrow> bool" where
  "allowed_tool a tool \<longleftrightarrow>
     tool \<in> set READ_TOOLS \<or> tool \<in> set WRITE_TOOLS \<and> pe_write (ag_permissions a) \<or>
     tool \<in> set EXEC_TOOLS \<and> pe_execute (ag_permissions a) \<or>
     tool = ''ctx_provider'' \<and> ag_gitlab a \<noteq> None"

lemma allowed_tool_expected:
  "tool \<in> set (expected_tools (ag_permissions a) (ag_gitlab a)) \<longleftrightarrow> allowed_tool a tool"
  unfolding expected_tools_def allowed_tool_def by (simp, argo)

text \<open>
  C32. Only tools the host permitted reach the instance. In every session, whatever was called, run,
  cancelled or refused before, a request leaves only for a reading tool, for a writing tool if the host
  gave the permission to write, for the command tool if it gave the permission to execute, and for the
  provider tool if it selected a GitLab source; and every result the session ever gave is of such a tool.
\<close>

theorem agent_tools_confined:
  assumes "session_run a0 rs a"
    and "call_tool t tool args a = (a', r)" "ag_next_id a' \<noteq> ag_next_id a"
  shows "allowed_tool a0 tool \<and> (\<forall>x \<in> set rs. allowed_tool a0 (to_tool x))"
proof -
  have ok: "session_ok a0 rs a"
    using assms(1) by (rule session_run_ok)
  moreover have "tool \<in> set (ag_capabilities a)"
    using call_tool_effect [OF assms(2)] assms(3) by (auto simp: effect_def)
  ultimately show ?thesis
    by (auto simp: session_ok_def list_all_iff allowed_tool_expected)
qed

lemma metrics_sum:
  "foldl add_metrics m rs =
     \<lparr>mt_calls = mt_calls m + int (length rs), mt_original = mt_original m + sum_list (map to_original rs),
      mt_output = mt_output m + sum_list (map to_output rs),
      mt_saved = mt_saved m + sum_list (map to_saved rs)\<rparr>"
  by (induction rs arbitrary: m) (simp_all add: add_metrics_def)

lemma honest_sums:
  "list_all honest rs \<Longrightarrow>
     sum_list (map to_output rs) + sum_list (map to_saved rs) = sum_list (map to_original rs) \<and>
     0 \<le> sum_list (map to_output rs) \<and> 0 \<le> sum_list (map to_saved rs)"
  by (induction rs) (auto simp: honest_def)

text \<open>
  C35. The metrics are those of the results. A session that began fresh counts exactly the results it gave
  and adds up their tokens, original, put out and saved each by itself: failures, timeouts and malformed frames add
  nothing. The tokens put out and the tokens saved together are the original ones, and none of the numbers is
  negative, so the saved share is between none and all.
\<close>

theorem metrics_add_up:
  assumes "mk_agent root task p x g = Inr a0" "session_run a0 rs a"
  shows "mt_calls (ag_metrics a) = int (length rs) \<and>
    mt_original (ag_metrics a) = sum_list (map to_original rs) \<and>
    mt_output (ag_metrics a) = sum_list (map to_output rs) \<and>
    mt_saved (ag_metrics a) = sum_list (map to_saved rs) \<and>
    mt_output (ag_metrics a) + mt_saved (ag_metrics a) = mt_original (ag_metrics a) \<and>
    0 \<le> mt_output (ag_metrics a) \<and>
    0 \<le> mt_saved (ag_metrics a) \<and> mt_saved (ag_metrics a) \<le> mt_original (ag_metrics a)"
proof -
  have "session_ok a0 rs a"
    using assms(2) by (rule session_run_ok)
  then have "ag_metrics a = foldl add_metrics no_metrics rs" "list_all honest rs"
    using mk_agent_Inr(1) [OF assms(1)] by (simp_all add: session_ok_def list_all_iff)
  then show ?thesis
    using honest_sums [of rs] by (simp add: metrics_sum no_metrics_def)
qed

text \<open>A cleanup that reports success has reaped the process; any other is stored, pending or escapes.\<close>

definition signal_escapes :: "cleanup \<Rightarrow> bool" where
  "signal_escapes cu \<longleftrightarrow> tree_escapes cu \<or> force_escapes cu"

definition cleanup_failed :: "cleanup \<Rightarrow> agent \<Rightarrow> exn \<Rightarrow> bool" where
  "cleanup_failed cu a e \<longleftrightarrow>
     e = InstanceExecutionError \<and> (ag_failed a \<or> cu_pending cu) \<or>
     e = PyOSError \<and> signal_escapes cu \<and> \<not> ag_reaped a"

lemma terminate_outcome:
  assumes "terminate cu a = (a', q)"
  shows "case q of Inr _ \<Rightarrow> ag_reaped a' \<and> \<not> ag_failed a' | Inl e \<Rightarrow> cleanup_failed cu a' e"
  using assms
  by (cases "ag_failed a"; cases "ag_reaped a"; cases "cu_pending cu"; cases "tree_escapes cu";
      cases "force_escapes cu";
      cases "\<not> group_error cu \<and> (cu_waited cu \<or> cu_waited_again cu)")
     (auto simp: terminate_def terminate_once_def Let_def check_def signal_escapes_def cleanup_failed_def)

lemma terminate_again: "ag_failed a \<Longrightarrow> terminate cu a = (a, Inl InstanceExecutionError)"
  by (simp add: terminate_def)

lemma cancel_outcome:
  assumes "agent_cancel cu a = (a', q)"
  shows "case q of Inr _ \<Rightarrow> ag_reaped a' \<and> \<not> ag_failed a' | Inl e \<Rightarrow> cleanup_failed cu a' e"
  using terminate_outcome assms by (simp add: agent_cancel_def)

lemma close_outcome:
  assumes "agent_close t a = (a', q)"
  shows "case q of
      Inr _ \<Rightarrow> ag_reaped a' \<and> \<not> ag_failed a'
    | Inl e \<Rightarrow> cleanup_failed (tn_last t) a' e \<or>
        ag_reaped a' \<and> \<not> ag_failed a' \<and> \<not> is_instance e InstanceError"
proof (cases "ag_closed a")
  case True
  then show ?thesis
    using terminate_outcome [of "tn_last t" a a' q] assms by (auto simp: agent_close_def split: sum.splits)
next
  case False
  obtain c r where c: "agent_exchange t [(''op'', JStr ''close'')] a = (c, r)" by fastforce
  obtain d p where d: "terminate (tn_last t) (c\<lparr>ag_closed := True\<rparr>) = (d, p)" by fastforce
  have "a' = d" "q = rbind p (\<lambda>_. case r of
      Inl e \<Rightarrow> if is_instance e InstanceError then Inr () else Inl e | Inr _ \<Rightarrow> Inr ())"
    using assms False c d by (simp_all add: agent_close_def)
  then show ?thesis
    using terminate_outcome [OF d] by (cases p; cases r) auto
qed

text \<open>
  C34. An end is reported only when there is one, and a failed cleanup is not forgotten. If closing or cancelling a
  session returns, the session is closed and its process has been reaped. If it raises because the process could not
  be ended, that failure is stored, and every later close and cancel raises it again, whatever the system answers
  then. The calls raise in three other ways only: \<open>InstanceExecutionError\<close>, not stored, if another caller still owns
  the cleanup; a \<open>PermissionError\<close> of a signal to the leader, not stored, with the process not reaped; and, for
  closing, an error of the close request that is not an \<open>InstanceError\<close>, after which the process has been reaped.
\<close>

theorem end_means_reaped:
  assumes "agent_close t a = (a', q) \<and> cu = tn_last t \<or> agent_cancel cu a = (a', q)"
  shows "ag_closed a' \<and>
    (case q of
       Inr _ \<Rightarrow> ag_reaped a' \<and> \<not> ag_failed a'
     | Inl e \<Rightarrow>
         e = InstanceExecutionError \<and> (ag_failed a' \<or> cu_pending cu) \<or>
         e = PyOSError \<and> signal_escapes cu \<and> \<not> ag_reaped a' \<or>
         ag_reaped a' \<and> \<not> ag_failed a' \<and> \<not> is_instance e InstanceError \<and> agent_cancel cu a \<noteq> (a', q)) \<and>
    (ag_failed a' \<longrightarrow> agent_close t' a' = (a', Inl InstanceExecutionError) \<and>
       agent_cancel cu' a' = (a', Inl InstanceExecutionError))"
proof -
  have closed: "ag_closed a'"
    using assms agent_close_kept(3) agent_cancel_kept(4) by blast
  then have again: "ag_failed a' \<longrightarrow> agent_close t' a' = (a', Inl InstanceExecutionError) \<and>
      agent_cancel cu' a' = (a', Inl InstanceExecutionError)"
    by (simp add: agent_close_def agent_cancel_def terminate_again)
  show ?thesis
  proof (cases "agent_cancel cu a = (a', q)")
    case True
    then show ?thesis using closed again cancel_outcome [OF True] by (auto simp: cleanup_failed_def split: sum.splits)
  next
    case False
    then have "agent_close t a = (a', q)" "cu = tn_last t" using assms by blast+
    then show ?thesis
      using closed again False close_outcome [of t a a' q] by (auto simp: cleanup_failed_def split: sum.splits)
  qed
qed

lemma run_arguments_Inr:
  "run_arguments f a argv cwd env time = Inr items \<Longrightarrow>
     pe_execute (ag_permissions a) \<and> check_argv (ag_policy a) argv = Inr () \<and>
     check_env (ag_policy a) env = Inr () \<and>
     (\<exists>d ms. checked_cwd f (ag_root a) cwd = Inr d \<and>
        items = [(''argv'', JArr (map JStr argv)), (''cwd'', JStr d), (''env'', JObj env),
          (''timeout_ms'', JInt ms)])"
  by (auto simp: run_arguments_def rbind_eq_Inr_iff check_eq_Inr_iff)

text \<open>
  C33. A command stays within the policy. If \<open>run\<close> sends a request, the host gave the permission to
  execute, the program is a bare name of the policy's list, which is not empty, every variable set for
  it is on the list of variables, and the working directory, with its links followed, exists and lies
  at or below the real project root.
\<close>

theorem command_confined:
  assumes "mk_agent root task p x g = Inr a0" "session_run a0 rs a"
    and "agent_run f t argv cwd env time a = (a', r)" "ag_next_id a' \<noteq> ag_next_id a"
  shows "pe_execute p \<and> hd argv \<in> set (xp_executables x) \<and> CHR ''/'' \<notin> set (hd argv) \<and>
    set (map fst env) \<subseteq> set (xp_env x) \<and>
    (\<exists>real_root real_cwd. fo_real f root = Some real_root \<and>
       fo_real f (if os_isabs cwd then cwd else os_join real_root cwd) = Some real_cwd \<and>
       os_commonpath2 real_root real_cwd = Some real_root \<and> fo_isdir f real_cwd)"
proof -
  have ok: "session_ok a0 rs a"
    using assms(2) by (rule session_run_ok)
  then have same: "ag_permissions a = p" "ag_policy a = x" "ag_root a = root"
    using mk_agent_Inr [OF assms(1)] by (simp_all add: session_ok_def)
  obtain items where "run_arguments f a argv cwd env time = Inr items"
    using assms(3,4) by (auto simp: agent_run_def split: sum.splits)
  from run_arguments_Inr [OF this] same show ?thesis
    using mk_agent_Inr(5) [OF assms(1)]
    by (auto simp: check_argv_def check_env_def checked_cwd_def rbind_eq_Inr_iff check_eq_Inr_iff
        of_option_eq_Inr_iff)
qed

section \<open>A session\<close>

text \<open>
  A host that allows commands but no writes starts a session and runs one command; the properties are
  applied to it.
\<close>

definition demo_permissions :: permissions where
  "demo_permissions = \<lparr>pe_write = False, pe_execute = True\<rparr>"

definition demo_exec :: exec_policy where
  "demo_exec = \<lparr>xp_executables = [''ls''], xp_env = [''LANG'']\<rparr>"

definition demo_caps :: "pystr list" where
  "demo_caps = [''ctx_compose'', ''ctx_glob'', ''ctx_read'', ''ctx_search'', ''ctx_shell'', ''ctx_symbol'',
     ''ctx_tree'']"

definition demo_hello :: json where
  "demo_hello = JObj [(''agent_tools_interface_version'', JStr ''1.0.0''), (''allow_exec'', JBool True),
     (''allow_write'', JBool False), (''capabilities'', JArr (map JStr demo_caps)),
     (''engine_version'', JStr ''3.12.2''), (''schema_version'', JInt 1), (''transport_version'', JInt 1)]"

definition demo_tool_outcome :: json where
  "demo_tool_outcome = JObj [(''changed'', JBool False), (''content_blocks'', JArr []), (''mode'', JNull),
     (''original_tokens'', JInt 9), (''output_tokens'', JInt 4), (''saved_tokens'', JInt 5),
     (''shell'', JNull), (''text'', JStr ''ok'')]"

definition demo_frame :: "pystr \<Rightarrow> json \<Rightarrow> json" where
  "demo_frame i v = JObj [(''id'', JStr i), (''ok'', JBool True), (''result'', v)]"

definition demo_cleanup :: cleanup where
  "demo_cleanup = \<lparr>cu_pending = False, cu_stop = Delivered, cu_kill = Delivered, cu_leader = Delivered,
     cu_emptied = True, cu_live = None, cu_waited = True, cu_force = Delivered, cu_waited_again = False\<rparr>"

definition demo_turn :: "pystr \<Rightarrow> json \<Rightarrow> turn" where
  "demo_turn i v = \<lparr>tn_exited = False, tn_write = Written, tn_cancelled = None,
     tn_line = Some (dumps (demo_frame i v) @ [CHR 0x0A]), tn_cleanup = demo_cleanup, tn_last = demo_cleanup\<rparr>"

lemma demo_frames_ok:
  "json_ok (demo_frame ''1'' demo_hello)" "json_ok (demo_frame ''2'' demo_tool_outcome)"
  by (simp_all add: demo_frame_def demo_hello_def demo_tool_outcome_def demo_caps_def)

lemma demo_frames_sorted:
  "jsort (demo_frame i demo_hello) = demo_frame i demo_hello"
  "jsort (demo_frame i demo_tool_outcome) = demo_frame i demo_tool_outcome"
  by (simp_all add: demo_frame_def demo_hello_def demo_tool_outcome_def demo_caps_def)

lemma demo_numbers: "int_text 1 = ''1''" "int_text 2 = ''2''" "int_text 9 = ''9''" "int_text 4 = ''4''"
  "int_text 5 = ''5''"
  by code_simp+

lemma demo_weights: "weight demo_tool_outcome \<le> 800" "weight demo_hello \<le> 4000"
  subgoal by (simp add: demo_tool_outcome_def demo_numbers)
  subgoal by (simp add: demo_hello_def demo_caps_def demo_numbers)
  done

lemma demo_frames_short:
  "weight (demo_frame ''1'' demo_hello) \<le> 9000" "weight (demo_frame ''2'' demo_tool_outcome) \<le> 9000"
  using demo_weights by (simp_all add: demo_frame_def)

lemma demo_answer:
  assumes "json_ok (demo_frame i v)" "jsort (demo_frame i v) = demo_frame i v"
    "weight (demo_frame i v) \<le> 9000" "is_obj v"
  shows "read_answer i (dumps (demo_frame i v) @ [CHR 0x0A]) = Answered v"
proof -
  have "strict_json_loads (dumps (demo_frame i v) @ [CHR 0x0A]) = Inr (demo_frame i v)"
    using strict_loads_line [OF assms(1)] assms(2) by (simp add: demo_frame_def)
  moreover have "length (dumps (demo_frame i v)) \<le> 9000"
    using length_dumps [of "demo_frame i v"] assms(3) by linarith
  ultimately show ?thesis
    using assms(4)
    by (simp add: read_answer_def MAX_AGENT_RESPONSE_def del: dumps.simps)
       (simp add: read_envelope_def demo_frame_def jkeys_def insert_commute)
qed

lemma demo_exchange:
  assumes "\<not> ag_closed a" "\<not> ag_reaped a" "json_ok (frame_of items (ag_next_id a + 1))"
    "weight (frame_of items (ag_next_id a + 1)) \<le> MAX_AGENT_REQUEST"
    "read_answer (int_text (ag_next_id a + 1)) (dumps (demo_frame i v) @ [CHR 0x0A]) = Answered w"
  shows "agent_exchange (demo_turn i v) items a = (a\<lparr>ag_next_id := ag_next_id a + 1\<rparr>, Inr w)"
proof -
  have "encoded_length (dumps (frame_of items (ag_next_id a + 1))) =
    Inr (length (dumps (frame_of items (ag_next_id a + 1))))"
    using dumps_valid [OF assms(3)] by (simp add: encoded_length_Inr strict_utf8_def)
  moreover have "length (dumps (frame_of items (ag_next_id a + 1))) \<le> MAX_AGENT_REQUEST"
    using length_dumps assms(4) le_trans by blast
  ultimately show ?thesis
    using assms(1,2,5)
    by (simp add: agent_exchange_def demo_turn_def bad_def cancelled_meanwhile_def after_write_def
        del: dumps.simps)
qed

definition demo_agent :: agent where
  "demo_agent = \<lparr>ag_root = ''/work'', ag_task = ''task'', ag_permissions = demo_permissions,
     ag_policy = demo_exec, ag_gitlab = None, ag_capabilities = [], ag_next_id = 0, ag_closed = False,
     ag_failed = False, ag_reaped = False, ag_metrics = no_metrics\<rparr>"

lemma demo_made: "mk_agent ''/work'' ''task'' demo_permissions demo_exec JNull = Inr demo_agent"
proof -
  have "encoded_length ''task'' = Inr 4"
    by code_simp
  then show ?thesis
    by (simp add: mk_agent_def copy_gitlab_def demo_agent_def demo_exec_def demo_permissions_def)
qed

definition demo_begun :: agent where
  "demo_begun = demo_agent\<lparr>ag_next_id := 1, ag_capabilities := demo_caps\<rparr>"

lemma demo_starts: "agent_start (demo_turn ''1'' demo_hello) demo_agent = (demo_begun, Inr ())"
proof -
  have "accept_hello demo_permissions None demo_hello = Inr demo_caps"
    by code_simp
  moreover have "agent_exchange (demo_turn ''1'' demo_hello) hello_request demo_agent =
    (demo_agent\<lparr>ag_next_id := ag_next_id demo_agent + 1\<rparr>, Inr demo_hello)"
    using demo_answer [OF demo_frames_ok(1) demo_frames_sorted(1) demo_frames_short(1)]
    by (intro demo_exchange)
       (simp_all add: demo_agent_def frame_of_def hello_request_def demo_numbers AGENT_INTERFACE_def
         MAX_AGENT_REQUEST_def demo_hello_def [symmetric] del: dumps.simps, simp add: demo_hello_def)
  ultimately show ?thesis
    by (simp add: agent_start_def demo_begun_def demo_agent_def)
qed

definition demo_folders :: folders where
  "demo_folders = \<lparr>fo_real = (\<lambda>p. if p \<in> {''/work'', ''/work/.''} then Some ''/work'' else None),
     fo_isdir = (\<lambda>p. p = ''/work'')\<rparr>"

definition demo_items :: "(pystr \<times> json) list" where
  "demo_items = [(''argv'', JArr [JStr ''ls'']), (''cwd'', JStr ''.''), (''env'', JObj [(''LANG'', JStr ''C'')]),
     (''timeout_ms'', JInt 5)]"

lemma demo_arguments:
  "run_arguments demo_folders demo_begun [''ls''] ''.'' [(''LANG'', JStr ''C'')] (Inr 5) = Inr demo_items"
  by code_simp

definition demo_result :: tool_result where
  "demo_result = \<lparr>to_tool = ''ctx_shell'', to_text = ''ok'', to_blocks = [], to_original = 9, to_output = 4,
     to_saved = 5, to_mode = None, to_changed = False, to_shell = None\<rparr>"

lemma demo_parsed: "parse_tool_result ''ctx_shell'' demo_tool_outcome = Inr demo_result"
  by code_simp

definition demo_ran :: agent where
  "demo_ran = demo_begun\<lparr>ag_next_id := 2, ag_metrics := add_metrics no_metrics demo_result\<rparr>"

lemma demo_calls:
  "call_tool (demo_turn ''2'' demo_tool_outcome) ''ctx_shell'' demo_items demo_begun = (demo_ran, Inr demo_result)"
proof -
  have "agent_exchange (demo_turn ''2'' demo_tool_outcome) (tool_request ''ctx_shell'' demo_items) demo_begun =
    (demo_begun\<lparr>ag_next_id := ag_next_id demo_begun + 1\<rparr>, Inr demo_tool_outcome)"
    using demo_answer [OF demo_frames_ok(2) demo_frames_sorted(2) demo_frames_short(2)]
    by (intro demo_exchange)
       (simp_all add: demo_begun_def demo_agent_def frame_of_def tool_request_def demo_numbers demo_items_def
         MAX_AGENT_REQUEST_def demo_tool_outcome_def [symmetric] del: dumps.simps, simp add: demo_tool_outcome_def)
  then show ?thesis
    by (simp add: call_tool_def demo_parsed demo_ran_def demo_begun_def demo_agent_def demo_caps_def)
qed

lemma demo_runs:
  "agent_run demo_folders (demo_turn ''2'' demo_tool_outcome) [''ls''] ''.'' [(''LANG'', JStr ''C'')] (Inr 5)
     demo_begun = (demo_ran, Inr demo_result)"
  by (simp add: agent_run_def demo_arguments demo_calls)

lemma demo_sessions: "session_run demo_agent [] demo_begun" "session_run demo_agent [demo_result] demo_ran"
proof -
  show begun: "session_run demo_agent [] demo_begun"
    by (rule session_run.begun [OF demo_starts])
  show "session_run demo_agent [demo_result] demo_ran"
    using session_run.ran [OF begun demo_runs] by (simp add: given_def)
qed

lemma demo_ids: "ag_next_id demo_ran = 2" "ag_next_id demo_begun = 1"
  by (simp_all add: demo_ran_def demo_begun_def)

lemma agent_tools_confined_witness:
  "allowed_tool demo_agent ''ctx_shell'' \<and> \<not> allowed_tool demo_agent ''ctx_patch''"
proof -
  have "allowed_tool demo_agent ''ctx_shell''"
    using agent_tools_confined [OF demo_sessions(1) demo_calls] by (simp add: demo_ids)
  moreover have "\<not> allowed_tool demo_agent ''ctx_patch''"
    by code_simp
  ultimately show ?thesis ..
qed

lemma metrics_add_up_witness:
  "mt_calls (ag_metrics demo_ran) = 1 \<and> mt_output (ag_metrics demo_ran) = 4 \<and> mt_saved (ag_metrics demo_ran) = 5"
  using metrics_add_up [OF demo_made demo_sessions(2)] by (simp add: demo_result_def)

lemma command_confined_witness:
  "pe_execute demo_permissions \<and> hd [''ls''] \<in> set (xp_executables demo_exec)"
  using command_confined [OF demo_made demo_sessions(1) demo_runs] by (simp add: demo_ids)

definition demo_stuck :: cleanup where
  "demo_stuck = demo_cleanup\<lparr>cu_emptied := False\<rparr>"

text \<open>A cleanup that succeeds, and one that leaves a member of the group alive.\<close>

lemma end_means_reaped_witness:
  "(\<exists>a'. agent_cancel demo_cleanup demo_ran = (a', Inr ()) \<and> ag_reaped a') \<and>
   (\<exists>a'. agent_cancel demo_stuck demo_ran = (a', Inl InstanceExecutionError) \<and>
      agent_cancel demo_cleanup a' = (a', Inl InstanceExecutionError))"
proof -
  note defs = agent_cancel_def terminate_def terminate_once_def demo_ran_def demo_begun_def demo_agent_def
    demo_stuck_def demo_cleanup_def group_error_def kill_refused_def tree_escapes_def force_escapes_def
  have good: "agent_cancel demo_cleanup demo_ran = (demo_ran\<lparr>ag_closed := True, ag_reaped := True\<rparr>, Inr ())"
    by (simp add: defs)
  let ?a = "demo_ran\<lparr>ag_closed := True, ag_failed := True, ag_reaped := True\<rparr>"
  have stuck: "agent_cancel demo_stuck demo_ran = (?a, Inl InstanceExecutionError)"
    by (simp add: defs)
  show ?thesis
    using end_means_reaped [OF disjI2 [OF good]] good end_means_reaped [OF disjI2 [OF stuck], of "demo_turn [] JNull" demo_cleanup]
      stuck by (intro conjI exI [of _ "demo_ran\<lparr>ag_closed := True, ag_reaped := True\<rparr>"] exI [of _ ?a]) simp_all
qed

end
