(* ===== verification/Packages.thy ===== *)
theory Packages
  imports Ws_Exchange Strict_Fields
begin

text \<open>
  Checkpoint packages (\<open>src/leanctx_sdk/checkpoint_package.py\<close>): what of a checkpoint is not portable,
  the provenance of a migrated snapshot, sealing and inspecting a package through the instance, and
  the three functions that tie packages to a workspace. Files and the instance are given as
  functions; the payload file a seal writes is the JSON value in it.
\<close>

section \<open>Portability\<close>

text \<open>A path of Windows with a drive: the second character is a colon, the third a slash.\<close>

definition drive_path :: "pystr \<Rightarrow> bool" where
  "drive_path s \<longleftrightarrow> (let ps = code_points s in 2 < length ps \<and> ps ! 1 = 58 \<and> ps ! 2 \<in> {47, 92})"

definition local_item :: "pystr \<Rightarrow> json \<Rightarrow> bool" where
  "local_item k v \<longleftrightarrow>
     (case v of
        JStr s \<Rightarrow>
          (k \<in> {''path'', ''project_root''} \<and> (os_isabs s \<or> drive_path s)) \<or>
          (k \<in> {''canonical_id'', ''immutable_ref''} \<and>
             (starts_with ''file:///'' s \<or> os_isabs s \<or> drive_path s))
      | _ \<Rightarrow> False)"

definition field_pointer :: "pystr \<Rightarrow> pystr \<Rightarrow> pystr" where
  "field_pointer pointer k = pointer @ CHR ''.'' # k"

definition index_pointer :: "pystr \<Rightarrow> nat \<Rightarrow> pystr" where
  "index_pointer pointer i = pointer @ CHR ''['' # nat_text i @ '']''"

text \<open>\<open>_non_portable_fields\<close>; a part is the function of its pointer.\<close>

primrec non_portable :: "json \<Rightarrow> pystr \<Rightarrow> pystr list" where
  "non_portable JNull = (\<lambda>_. [])"
| "non_portable (JBool b) = (\<lambda>_. [])"
| "non_portable (JInt i) = (\<lambda>_. [])"
| "non_portable (JFloat r) = (\<lambda>_. [])"
| "non_portable (JStr s) = (\<lambda>_. [])"
| "non_portable (JArr xs) = (\<lambda>pointer.
     sort (remdups (concat (map (\<lambda>(i, f). f (index_pointer pointer i))
       (zip [0..<length xs] (map non_portable xs))))))"
| "non_portable (JObj kvs) = (\<lambda>pointer.
     sort (remdups (concat (map (\<lambda>((k, v), (_, f)).
       (if local_item k v then [field_pointer pointer k] else []) @ f (field_pointer pointer k))
       (zip kvs (map (map_prod id non_portable) kvs))))))"

definition checkpoint_pointer :: pystr where "checkpoint_pointer = ''$.checkpoint''"

section \<open>Provenance of a migration\<close>

definition PACKAGE_ENVELOPE_SCHEMA :: pystr where
  "PACKAGE_ENVELOPE_SCHEMA = ''leanctx.ctxpkg-checkpoint/v1''"

definition INSPECT_SCHEMA :: pystr where
  "INSPECT_SCHEMA = ''leanctx.ctxpkg-checkpoint-inspect/v1''"

definition MIGRATION_SCHEMA :: pystr where
  "MIGRATION_SCHEMA = ''leanctx.snapshot-v1-migration/v1''"

definition MAX_PACKAGE_BYTES :: nat where "MAX_PACKAGE_BYTES = 16 * 1024 * 1024"
definition MAX_SNAPSHOT_BYTES :: nat where "MAX_SNAPSHOT_BYTES = 8 * 1024 * 1024"
definition MAX_PACK_OUTPUT :: nat where "MAX_PACK_OUTPUT = 16 * 1024 * 1024"
definition MAX_PACK_ERROR :: nat where "MAX_PACK_ERROR = 16 * 1024"

text \<open>\<open>bool(value)\<close>; a float is zero when its text is.\<close>

definition py_true :: "json \<Rightarrow> bool" where
  "py_true v =
     (case v of JNull \<Rightarrow> False | JBool b \<Rightarrow> b | JInt i \<Rightarrow> i \<noteq> 0 | JFloat r \<Rightarrow> r \<notin> {''0.0'', ''-0.0''}
      | JStr s \<Rightarrow> s \<noteq> [] | JArr xs \<Rightarrow> xs \<noteq> [] | JObj kvs \<Rightarrow> kvs \<noteq> [])"

record provenance =
  mp_snapshot :: pystr
  mp_digest :: pystr
  mp_checkpoint :: json
  mp_state :: pystr
  mp_limitations :: "pystr list"

definition legacy_id :: "json \<Rightarrow> pystr res" where
  "legacy_id v =
     rbind (check (py_true v) WorkspaceValidationError) (\<lambda>_.
     case v of
       JStr s \<Rightarrow>
         rbind (encoded_length s) (\<lambda>n.
         rbind (check (n \<le> 512) WorkspaceValidationError) (\<lambda>_. Inr s))
     | _ \<Rightarrow> Inl PyAttributeError)"

definition pack_digest :: "exn \<Rightarrow> json \<Rightarrow> pystr res" where
  "pack_digest e v = (case v of JStr s \<Rightarrow> rbind (check (is_digest s) e) (\<lambda>_. Inr s) | _ \<Rightarrow> Inl e)"

lemma pack_digest_Inr [ok_simps]: "pack_digest e v = Inr s \<longleftrightarrow> v = JStr s \<and> is_digest s"
  by (cases v) (auto simp: pack_digest_def ok_simps)

definition limitation :: "json \<Rightarrow> pystr res" where
  "limitation v =
     (case v of
        JStr s \<Rightarrow>
          rbind (encoded_length s) (\<lambda>n.
          rbind (check (n \<le> 2048) WorkspaceValidationError) (\<lambda>_. Inr s))
      | _ \<Rightarrow> Inl WorkspaceValidationError)"

definition mk_provenance ::
  "json \<Rightarrow> json \<Rightarrow> json \<Rightarrow> json \<Rightarrow> json list \<Rightarrow> json \<Rightarrow> json \<Rightarrow> provenance res" where
  "mk_provenance snapshot digest checkpoint_id state limitations origin contract =
     rbind (check (origin = JStr ''SnapshotV1'' \<and> contract = JStr MIGRATION_SCHEMA)
       WorkspaceIncompatibleError) (\<lambda>_.
     rbind (legacy_id snapshot) (\<lambda>s.
     rbind (pack_digest WorkspaceValidationError digest) (\<lambda>d.
     rbind (pack_digest WorkspaceValidationError state) (\<lambda>sd.
     rbind (check (length limitations \<le> 64) WorkspaceValidationError) (\<lambda>_.
     rbind (mapr limitation limitations) (\<lambda>ls.
     Inr \<lparr>mp_snapshot = s, mp_digest = d, mp_checkpoint = checkpoint_id, mp_state = sd,
       mp_limitations = ls\<rparr>))))))"

definition provenance_to_dict :: "provenance \<Rightarrow> json" where
  "provenance_to_dict p =
     JObj [(''origin'', JStr ''SnapshotV1''), (''legacy_snapshot_id'', JStr (mp_snapshot p)),
       (''legacy_snapshot_digest'', JStr (mp_digest p)), (''migration_contract'', JStr MIGRATION_SCHEMA),
       (''checkpoint_id'', mp_checkpoint p), (''state_digest'', JStr (mp_state p)),
       (''limitations'', jstrs (mp_limitations p))]"

definition exactly :: "pystr list \<Rightarrow> json \<Rightarrow> unit res" where
  "exactly ks v = check (is_obj v \<and> set (jkeys v) = set ks) WorkspaceIncompatibleError"

lemma exactly_Inr [ok_simps]: "exactly ks v = Inr u \<longleftrightarrow> is_obj v \<and> set (jkeys v) = set ks"
  by (simp add: exactly_def ok_simps)

definition provenance_from_dict :: "json \<Rightarrow> provenance res" where
  "provenance_from_dict v =
     rbind (exactly [''origin'', ''legacy_snapshot_id'', ''legacy_snapshot_digest'', ''migration_contract'',
       ''checkpoint_id'', ''state_digest'', ''limitations''] v) (\<lambda>_.
     case jat ''limitations'' v of
       JArr ls \<Rightarrow>
         mk_provenance (jat ''legacy_snapshot_id'' v) (jat ''legacy_snapshot_digest'' v)
           (jat ''checkpoint_id'' v) (jat ''state_digest'' v) ls (jat ''origin'' v)
           (jat ''migration_contract'' v)
     | _ \<Rightarrow> Inl WorkspaceIncompatibleError)"

text \<open>The provenance is of this checkpoint.\<close>

definition of_checkpoint :: "provenance \<Rightarrow> checkpoint \<Rightarrow> bool" where
  "of_checkpoint p c \<longleftrightarrow> mp_checkpoint p = JStr (ck_id c) \<and> mp_state p = ck_state_digest c"

section \<open>The instance\<close>

datatype pack_result = PackFailed | PackDone pystr pystr int

record pack_host =
  ph_expand :: "pystr \<Rightarrow> pystr"
  ph_resolve :: "pystr \<Rightarrow> pystr"
  ph_lstat :: "pystr \<Rightarrow> (bool \<times> bool \<times> nat) option"
  ph_stat :: "pystr \<Rightarrow> (bool \<times> nat) option"
  ph_run :: "pystr list \<Rightarrow> json option \<Rightarrow> pack_result"

text \<open>\<open>path.is_symlink()\<close>; \<open>ph_lstat\<close> says whether a path is a link, a regular file, and its size.\<close>

definition pack_link :: "pack_host \<Rightarrow> pystr \<Rightarrow> bool" where
  "pack_link h path = (case ph_lstat h path of None \<Rightarrow> False | Some (link, _) \<Rightarrow> link)"

definition pack_reply :: "pack_result \<Rightarrow> json res" where
  "pack_reply r =
     (case r of
        PackFailed \<Rightarrow> Inl WorkspaceIOError
      | PackDone out err code \<Rightarrow>
          rbind (check (length out \<le> MAX_PACK_OUTPUT \<and> length err \<le> MAX_PACK_ERROR) WorkspacePolicyError)
            (\<lambda>_.
          rbind (check (code = 0) WorkspaceIncompatibleError) (\<lambda>_.
          rbind (check (strict_utf8 out) WorkspaceIncompatibleError) (\<lambda>_.
          on_err (\<lambda>_. WorkspaceIncompatibleError) (strict_json_loads out)))))"

definition pack_call :: "pack_host \<Rightarrow> pystr list \<Rightarrow> json option \<Rightarrow> json res" where
  "pack_call h arguments payload = pack_reply (ph_run h (''pack'' # arguments) payload)"

section \<open>Inspection\<close>

record inspection =
  ci_path :: pystr
  ci_package :: package_inspection
  ci_migration :: "provenance option"
  ci_fields :: "pystr list"

definition signed :: "inspection \<Rightarrow> bool" where
  "signed i \<longleftrightarrow> pi_signature (ci_package i) = JStr ''signed_valid''"

definition pack_signer_ok :: "json \<Rightarrow> json \<Rightarrow> bool" where
  "pack_signer_ok state signer \<longleftrightarrow>
     (state = JStr ''signed_valid'' \<longrightarrow>
        (case signer of JStr s \<Rightarrow> prefixed_hex [] 64 s | _ \<Rightarrow> False)) \<and>
     (state = JStr ''unsigned'' \<longrightarrow> signer = JNull)"

definition incompatible_unless :: "bool \<Rightarrow> unit res" where
  "incompatible_unless b = check b WorkspaceIncompatibleError"

lemma incompatible_unless_Inr [ok_simps]: "incompatible_unless b = Inr u \<longleftrightarrow> b"
  by (simp add: incompatible_unless_def ok_simps)

definition check_identity :: "json \<Rightarrow> unit res" where
  "check_identity p =
     rbind (exactly [''schema_version'', ''kind'', ''layers'', ''name'', ''version'', ''package_digest'',
       ''content_hash'', ''signature_state'', ''signer_public_key''] p) (\<lambda>_.
     rbind (incompatible_unless (py_eq (jat ''schema_version'' p) (JInt 2) \<and>
       jat ''kind'' p = JStr ''context'')) (\<lambda>_.
     rbind (incompatible_unless (is_arr (jat ''layers'' p) \<and>
       length (filter (\<lambda>x. x = JStr ''checkpoint'') (jitems (jat ''layers'' p))) = 1)) (\<lambda>_.
     rbind (pack_digest WorkspaceIncompatibleError (jat ''package_digest'' p)) (\<lambda>_.
     rbind (pack_digest WorkspaceIncompatibleError (jat ''content_hash'' p)) (\<lambda>_.
     rbind (incompatible_unless (is_str (jat ''name'' p) \<and> is_str (jat ''version'' p))) (\<lambda>_.
     rbind (in_set [''signed_valid'', ''unsigned''] (jat ''signature_state'' p)) (\<lambda>known.
     rbind (incompatible_unless known) (\<lambda>_.
     incompatible_unless (pack_signer_ok (jat ''signature_state'' p) (jat ''signer_public_key'' p))))))))))"

definition declared_fields :: "json \<Rightarrow> pystr list \<Rightarrow> unit res" where
  "declared_fields declared expected =
     incompatible_unless (declared = JArr (map JStr expected))"

definition migration_of :: "json \<Rightarrow> checkpoint \<Rightarrow> provenance option res" where
  "migration_of v c =
     (if v = JNull then Inr None
      else
        rbind (provenance_from_dict v) (\<lambda>p.
        rbind (check (of_checkpoint p c) WorkspaceConflictError) (\<lambda>_. Inr (Some p))))"

definition portable_checkpoint :: "json \<Rightarrow> (checkpoint \<times> pystr list \<times> provenance option) res" where
  "portable_checkpoint v =
     rbind (incompatible_unless (is_obj v)) (\<lambda>_.
     rbind (exactly (if jget ''migration_provenance'' v \<noteq> None
       then [''schema_version'', ''checkpoint'', ''migration_provenance'', ''non_portable_fields'']
       else [''schema_version'', ''checkpoint'', ''non_portable_fields'']) v) (\<lambda>_.
     rbind (incompatible_unless (jat ''schema_version'' v = JStr PACKAGE_ENVELOPE_SCHEMA)) (\<lambda>_.
     rbind (checkpoint_from_dict (jat ''checkpoint'' v)) (\<lambda>c.
     let expected = non_portable (checkpoint_to_dict c) checkpoint_pointer in
     rbind (declared_fields (jat ''non_portable_fields'' v) expected) (\<lambda>_.
     rbind (migration_of (jat ''migration_provenance'' v) c) (\<lambda>m. Inr (c, expected, m)))))))"

definition inspection_of :: "pystr \<Rightarrow> json \<Rightarrow> inspection res" where
  "inspection_of path v =
     rbind (exactly [''schema_version'', ''package'', ''checkpoint''] v) (\<lambda>_.
     rbind (incompatible_unless (jat ''schema_version'' v = JStr INSPECT_SCHEMA)) (\<lambda>_.
     let p = jat ''package'' v in
     rbind (check_identity p) (\<lambda>_.
     rbind (portable_checkpoint (jat ''checkpoint'' v)) (\<lambda>(c, fields, m).
     Inr \<lparr>ci_path = path,
       ci_package = \<lparr>pi_name = jat ''name'' p, pi_version = jat ''version'' p,
         pi_digest = jat ''package_digest'' p, pi_content = jat ''content_hash'' p,
         pi_signature = jat ''signature_state'' p, pi_signer = jat ''signer_public_key'' p,
         pi_checkpoint = c\<rparr>,
       ci_migration = m, ci_fields = fields\<rparr>))))"

definition inspect_package :: "pack_host \<Rightarrow> pystr \<Rightarrow> inspection res" where
  "inspect_package h package_path =
     (let raw = ph_expand h package_path; path = ph_resolve h raw in
     rbind (check (\<not> pack_link h raw) WorkspacePolicyError) (\<lambda>_.
     rbind (of_option WorkspaceIOError (ph_stat h path)) (\<lambda>(regular, size).
     rbind (check (regular \<and> size \<le> MAX_PACKAGE_BYTES) WorkspacePolicyError) (\<lambda>_.
     rbind (pack_call h [''checkpoint-inspect'', path] None) (inspection_of path)))))"

section \<open>Sealing\<close>

text \<open>\<open>Path(...).suffix == ".ctxpkg"\<close>: the last component ends so and has a stem.\<close>

definition ctxpkg_path :: "pystr \<Rightarrow> bool" where
  "ctxpkg_path path \<longleftrightarrow>
     (let name = last (split_on slash path) in
      7 < length name \<and> drop (length name - 7) name = ''.ctxpkg'')"

definition seal_payload :: "checkpoint \<Rightarrow> provenance option \<Rightarrow> json" where
  "seal_payload c m =
     JObj ([(''schema_version'', JStr PACKAGE_ENVELOPE_SCHEMA), (''checkpoint'', checkpoint_to_dict c)] @
       (case m of None \<Rightarrow> [] | Some p \<Rightarrow> [(''migration_provenance'', provenance_to_dict p)]) @
       [(''non_portable_fields'', jstrs (non_portable (checkpoint_to_dict c) checkpoint_pointer))])"

definition seal_arguments :: "pystr \<Rightarrow> pystr \<Rightarrow> pystr \<Rightarrow> pystr \<Rightarrow> bool \<Rightarrow> pystr list" where
  "seal_arguments payload_path path name version sign =
     [''checkpoint-seal'', ''--checkpoint='' @ payload_path, ''--output='' @ path, ''--name='' @ name,
      ''--version='' @ version] @ (if sign then [] else [''--unsigned''])"

definition seal_package ::
  "pack_host \<Rightarrow> checkpoint \<Rightarrow> pystr \<Rightarrow> pystr \<Rightarrow> pystr \<Rightarrow> pystr \<Rightarrow> provenance option \<Rightarrow> bool \<Rightarrow>
     inspection res" where
  "seal_package h c destination payload_path name version m sign =
     (let raw = ph_expand h destination; path = ph_resolve h raw in
     rbind (check (\<not> pack_link h raw) WorkspaceValidationError) (\<lambda>_.
     rbind (check (ctxpkg_path path) WorkspaceValidationError) (\<lambda>_.
     rbind (check (case m of None \<Rightarrow> True | Some p \<Rightarrow> of_checkpoint p c) WorkspaceConflictError) (\<lambda>_.
     rbind (pack_call h (seal_arguments payload_path path name version sign) (Some (seal_payload c m)))
       (\<lambda>_. inspect_package h path)))))"

section \<open>Snapshots of version 1\<close>

record snapshot_inspection =
  si_id :: pystr
  si_digest :: pystr
  si_signer :: pystr

definition hex64 :: "json \<Rightarrow> pystr res" where
  "hex64 v =
     (case v of JStr s \<Rightarrow> rbind (incompatible_unless (prefixed_hex [] 64 s)) (\<lambda>_. Inr s)
      | _ \<Rightarrow> Inl WorkspaceIncompatibleError)"

definition snapshot_of :: "json \<Rightarrow> snapshot_inspection res" where
  "snapshot_of v =
     rbind (exactly [''schema_version'', ''snapshot_id'', ''artifact_digest'', ''signature_state'',
       ''signer_public_key''] v) (\<lambda>_.
     rbind (incompatible_unless (jat ''schema_version'' v = JStr ''leanctx.snapshot-v1-inspect/v1'' \<and>
       jat ''signature_state'' v = JStr ''signed_valid'')) (\<lambda>_.
     rbind (hex64 (jat ''snapshot_id'' v)) (\<lambda>i.
     rbind (pack_digest WorkspaceIncompatibleError (jat ''artifact_digest'' v)) (\<lambda>d.
     rbind (hex64 (jat ''signer_public_key'' v)) (\<lambda>k.
     Inr \<lparr>si_id = i, si_digest = d, si_signer = k\<rparr>)))))"

definition inspect_snapshot :: "pack_host \<Rightarrow> pystr \<Rightarrow> snapshot_inspection res" where
  "inspect_snapshot h snapshot_path =
     (let raw = ph_expand h snapshot_path in
     rbind (of_option WorkspaceIOError (ph_lstat h raw)) (\<lambda>(link, regular, size).
     rbind (check (\<not> link \<and> regular) WorkspacePolicyError) (\<lambda>_.
     rbind (check (size \<le> MAX_SNAPSHOT_BYTES) WorkspacePolicyError) (\<lambda>_.
     rbind (pack_call h [''snapshot-v1-inspect'', ph_resolve h raw] None) snapshot_of))))"

section \<open>Workspaces\<close>

definition seal_checkpoint_package ::
  "pack_host \<Rightarrow> host \<Rightarrow> draw \<Rightarrow> checkpoint \<Rightarrow> pystr \<Rightarrow> pystr \<Rightarrow> pystr \<Rightarrow> pystr \<Rightarrow> provenance option \<Rightarrow> bool \<Rightarrow>
     workspace \<Rightarrow> workspace \<times> inspection res" where
  "seal_checkpoint_package ph h dr c destination payload_path name version m sign w =
     wbind (rbind (check (ck_workspace c = workspace_id w) WorkspaceConflictError) (\<lambda>_.
            rbind (get_checkpoint (ck_id c) w) (\<lambda>stored.
            rbind (check (py_eq (checkpoint_to_dict stored) (checkpoint_to_dict c)) WorkspaceConflictError)
              (\<lambda>_. seal_package ph c destination payload_path name version m sign)))) (\<lambda>i.
       (case record_sealed_package h dr (ci_package i) w of
          (w', Inl e) \<Rightarrow> (w', Inl e)
        | (w', Inr r) \<Rightarrow> (w', Inr i))) w"

text \<open>Signed packages need a trusted signer, unsigned ones the explicit permission.\<close>

definition admit_package :: "inspection \<Rightarrow> bool \<Rightarrow> bool \<Rightarrow> unit res" where
  "admit_package i trusted_signer allow_unsigned =
     rbind (check (signed i \<longrightarrow> trusted_signer) WorkspacePolicyError) (\<lambda>_.
     check (\<not> signed i \<longrightarrow> allow_unsigned) WorkspacePolicyError)"

lemma admit_package_Inr [ok_simps]:
  "admit_package i trusted allow = Inr u \<longleftrightarrow> (if signed i then trusted else allow)"
  by (simp add: admit_package_def ok_simps)

definition seed_workspace ::
  "pack_host \<Rightarrow> host \<Rightarrow> draw \<Rightarrow> draw \<Rightarrow> pystr \<Rightarrow> pystr \<Rightarrow> pystr \<Rightarrow> bool \<Rightarrow> bool \<Rightarrow> workspace res" where
  "seed_workspace ph h dr dr' root package_path name trusted_signer allow_unsigned =
     rbind (inspect_package ph package_path) (\<lambda>i.
     rbind (admit_package i trusted_signer allow_unsigned) (\<lambda>_.
     let c = pi_checkpoint (ci_package i) in
     rbind (policy_from_dict (jat ''policy'' (ck_logical c))) (\<lambda>policy.
     rbind (create_workspace h dr root name (Some policy) (Some (ck_workspace c)) []) (\<lambda>w.
     (case seed_from_package h dr' (ci_package i) trusted_signer allow_unsigned w of
        (w', Inl e) \<Rightarrow> Inl e
      | (w', Inr r) \<Rightarrow> Inr w')))))"

definition migrate_snapshot ::
  "pack_host \<Rightarrow> host \<Rightarrow> draw \<Rightarrow> pystr \<Rightarrow> pystr \<Rightarrow> pystr list \<Rightarrow> workspace \<Rightarrow>
     workspace \<times> (checkpoint \<times> provenance) res" where
  "migrate_snapshot ph h dr fresh snapshot_path limitations w =
     wbind (rbind (check (limitations \<noteq> []) WorkspaceValidationError) (\<lambda>_.
            inspect_snapshot ph snapshot_path)) (\<lambda>s.
       (case save_checkpoint h dr None fresh None w of
          (w', Inl e) \<Rightarrow> (w', Inl e)
        | (w', Inr c) \<Rightarrow>
            (w', rbind (mk_provenance (JStr (si_id s)) (JStr (si_digest s)) (JStr (ck_id c))
                   (JStr (ck_state_digest c)) (map JStr limitations) (JStr ''SnapshotV1'')
                   (JStr MIGRATION_SCHEMA)) (\<lambda>p. Inr (c, p))))) w"

end
