(* ===== verification/Package_Facts.thy ===== *)
theory Package_Facts
  imports Packages Ws_Demo
begin

text \<open>
  What sealing keeps: the payload a package is sealed with reads back as the checkpoint, its provenance
  and the list of the fields that are not portable.
\<close>

lemma checkpoint_dict_keys:
  "is_obj (checkpoint_to_dict c)" "set (jkeys (checkpoint_to_dict c)) = set checkpoint_keys"
  by (auto simp: checkpoint_to_dict_def unsigned_dict_def checkpoint_keys_def jkeys_def)

text \<open>A checkpoint is built from what its reader looks at, so writing it gives the same values there.\<close>

lemma text_Inr: "on_text f v = Inr s \<Longrightarrow> v = JStr s"
  by (cases v) (auto simp: on_text_def split: if_splits)

lemma lock_Inr:
  "(if x = JNull then Inr None else rbind (wdigest x) (\<lambda>d. Inr (Some d))) = Inr l \<Longrightarrow> x = opt_str l"
  by (auto simp: opt_str_def wdigest_def ok_simps dest: text_Inr split: if_splits)

lemma items_of: "is_arr v \<Longrightarrow> JArr (jitems v) = v"
  by (cases v) (auto simp: jitems_def is_arr_def)

lemma mk_checkpoint_reads:
  assumes "mk_checkpoint v = Inr c" "is_arr (jat ''source_anchors'' v)" "is_arr (jat ''recovery_refs'' v)"
    "is_arr (jat ''package_pins'' v)"
  shows "list_all (\<lambda>k. jat k (checkpoint_to_dict c) = jat k v) checkpoint_keys"
proof -
  have "\<exists>cid wid sd pd cd ed lock sref.
      on_text is_uuid (jat ''checkpoint_id'' v) = Inr cid \<and> on_text is_uuid (jat ''workspace_id'' v) = Inr wid \<and>
      on_text is_digest (jat ''state_digest'' v) = Inr sd \<and>
      on_text is_digest (jat ''policy_digest'' v) = Inr pd \<and>
      on_text is_digest (jat ''project_context_digest'' v) = Inr cd \<and>
      on_text is_digest (jat ''envelope_digest'' v) = Inr ed \<and>
      (if jat ''package_lock_digest'' v = JNull then Inr None
       else rbind (wdigest (jat ''package_lock_digest'' v)) (\<lambda>d. Inr (Some d))) = Inr lock \<and>
      jat ''schema_version'' v = JStr ''leanctx.context-checkpoint/v2'' \<and>
      jat ''state_schema_version'' v = JStr ''leanctx.workspace.state/v1'' \<and>
      jat ''sdk_contract'' v = JStr ''leanctx-product-sdk-research/p6'' \<and>
      on_text (ref_ok 512) (jat ''workspace_state_ref'' v) = Inr sref \<and>
      c = \<lparr>ck_id = cid, ck_workspace = wid, ck_state_digest = sd, ck_state_ref = sref,
        ck_logical = jat ''logical_state'' v, ck_anchors = jitems (jat ''source_anchors'' v),
        ck_recovery = jitems (jat ''recovery_refs'' v), ck_pins = jitems (jat ''package_pins'' v),
        ck_lock = lock, ck_policy_digest = pd, ck_context_digest = cd, ck_lineage = jat ''lineage'' v,
        ck_engine = jat ''engine_identity'' v, ck_envelope = ed\<rparr>"
    using assms(1)
    unfolding mk_checkpoint_def Let_def rbind_eq_Inr_iff check_eq_Inr_iff wuuid_def wdigest_def wref_def
    by (elim exE conjE, simp only: sum.inject, hypsubst, intro exI conjI) (assumption | rule refl)+
  then show ?thesis
    using assms(2-4)
    by (elim exE conjE)
       (drule lock_Inr, (drule text_Inr)+,
         simp add: checkpoint_keys_def checkpoint_to_dict_def unsigned_dict_def items_of)
qed

lemma checkpoint_from_dict_cong:
  assumes "list_all (\<lambda>k. jat k w = jat k v) checkpoint_keys" "is_obj w" "set (jkeys w) = set checkpoint_keys"
    "checkpoint_from_dict v = Inr c"
  shows "checkpoint_from_dict w = Inr c"
proof -
  have same: "jat k w = jat k v" if "k \<in> set checkpoint_keys" for k
    using that assms(1) by (simp add: list_all_iff)
  have "mk_checkpoint w = mk_checkpoint v"
    using assms(1) by (simp add: checkpoint_keys_def mk_checkpoint_def)
  then show ?thesis
    using assms(1) assms(2-4) unfolding checkpoint_from_dict_def
    by (simp add: checkpoint_keys_def exact_def rbind_eq_Inr_iff check_eq_Inr_iff)
qed

lemma checkpoint_roundtrip:
  assumes "checkpoint_from_dict v = Inr c"
  shows "checkpoint_from_dict (checkpoint_to_dict c) = Inr c"
proof -
  have "list_all (\<lambda>k. jat k (checkpoint_to_dict c) = jat k v) checkpoint_keys"
    using assms unfolding checkpoint_from_dict_def rbind_eq_Inr_iff check_eq_Inr_iff
    by (intro mk_checkpoint_reads) blast+
  then show ?thesis
    using checkpoint_dict_keys assms by (rule checkpoint_from_dict_cong)
qed

section \<open>Provenance\<close>

definition provenance_made :: "provenance \<Rightarrow> bool" where
  "provenance_made p \<longleftrightarrow>
     (\<exists>s d i sd ls origin contract. mk_provenance s d i sd ls origin contract = Inr p)"

lemma limitation_Inr: "limitation v = Inr s \<Longrightarrow> v = JStr s"
  by (cases v) (auto simp: limitation_def ok_simps)

lemma provenance_roundtrip:
  assumes "provenance_made p"
  shows "provenance_from_dict (provenance_to_dict p) = Inr p"
proof -
  obtain s d i sd ls where p: "legacy_id s = Inr (mp_snapshot p)" "is_digest (mp_digest p)"
    "is_digest (mp_state p)" "length ls \<le> 64" "mapr limitation ls = Inr (mp_limitations p)"
    using assms by (auto simp: provenance_made_def mk_provenance_def ok_simps)
  have "s = JStr (mp_snapshot p)"
    using p(1) by (cases s) (auto simp: legacy_id_def ok_simps)
  moreover have "ls = map JStr (mp_limitations p)"
    using mapr_left_inverse [OF p(5), of JStr] limitation_Inr by metis
  ultimately show ?thesis
    using p
    by (simp add: provenance_from_dict_def provenance_to_dict_def exactly_def jkeys_def jstrs_def
        mk_provenance_def pack_digest_def insert_commute)
qed

section \<open>Packages\<close>

text \<open>
  C40. What is sealed is what is inspected. For a checkpoint that was read or made, and a provenance that
  was made for it, the payload \<open>seal\<close> hands to the instance is accepted by the reader of
  \<open>inspect\<close>, which returns that checkpoint, that provenance, and the pointers of all its fields that
  are not portable.
\<close>

theorem seal_inspect_roundtrip:
  assumes "checkpoint_from_dict v = Inr c"
    and "pred_option (\<lambda>p. provenance_made p \<and> of_checkpoint p c) m"
  shows "portable_checkpoint (seal_payload c m) =
      Inr (c, non_portable (checkpoint_to_dict c) checkpoint_pointer, m)"
proof -
  let ?fields = "non_portable (checkpoint_to_dict c) checkpoint_pointer"
  have c: "checkpoint_from_dict (checkpoint_to_dict c) = Inr c"
    using assms(1) by (rule checkpoint_roundtrip)
  show ?thesis
  proof (cases m)
    case None
    with c show ?thesis
      by (simp add: portable_checkpoint_def seal_payload_def incompatible_unless_def exactly_def jkeys_def
          declared_fields_def jstrs_def migration_of_def jget_def Let_def insert_commute)
  next
    case (Some p)
    then have p: "provenance_from_dict (provenance_to_dict p) = Inr p" "of_checkpoint p c"
      using assms(2) provenance_roundtrip by simp_all
    have "provenance_to_dict p \<noteq> JNull"
      by (simp add: provenance_to_dict_def)
    with Some c p show ?thesis
      by (simp add: portable_checkpoint_def seal_payload_def incompatible_unless_def exactly_def jkeys_def
          declared_fields_def jstrs_def migration_of_def jget_def Let_def insert_commute)
  qed
qed

section \<open>A checkpoint\<close>

text \<open>A checkpoint of an empty workspace, and the snapshot it was migrated from.\<close>

definition sealed_policy :: ws_policy where
  "sealed_policy =
     \<lparr>po_categories = categories, po_events = 9, po_context_entries = 9, po_entry_bytes = 9,
      po_context_bytes = 9, po_sources = 9, po_sessions = 9, po_external = False\<rparr>"

definition sealed_components :: components where
  "sealed_components = \<lparr>lc_policy = sealed_policy, lc_sources = [], lc_entries = [], lc_pins = [], lc_lock = None\<rparr>"

definition sealed_logical :: json where
  "sealed_logical = logical_dict demo_id sealed_components"

definition sealed_base :: checkpoint where
  "sealed_base =
     \<lparr>ck_id = demo_uuid (CHR ''2''), ck_workspace = demo_id,
      ck_state_digest = sha256_ref (''leanctx.workspace.state.v1'' @ CHR 0x0A # dumps sealed_logical),
      ck_state_ref = ''event:'' @ sha256_ref ''e'', ck_logical = sealed_logical, ck_anchors = [],
      ck_recovery = [], ck_pins = [], ck_lock = None,
      ck_policy_digest =
        sha256_ref (''leanctx.workspace.policy.v1'' @ CHR 0x0A # dumps (policy_to_dict sealed_policy)),
      ck_context_digest = sha256_ref (''leanctx.project-context.state.v1'' @ CHR 0x0A # dumps (JArr [])),
      ck_lineage = JObj [(''kind'', JStr ''workspace''), (''workspace_id'', JStr demo_id),
        (''state_id'', JStr ''s'')],
      ck_engine = engine_identity, ck_envelope = []\<rparr>"

definition sealed_checkpoint :: checkpoint where
  "sealed_checkpoint = sealed_base\<lparr>ck_envelope :=
     sha256_ref (''leanctx.checkpoint.envelope.v2'' @ CHR 0x0A # dumps (JObj (unsigned_dict sealed_base)))\<rparr>"

lemma sealed_event: "printable_ascii (''event:'' @ sha256_ref s)" "printable_ascii (CHR '':'' # sha256_ref s)"
  using sha256_ref_printable [of s, unfolded printable_ascii_def] by (simp_all add: printable_ascii_def)

lemma sealed_texts [simp]: "utf8_valid (sha256_ref s)" "encodable (sha256_ref s)"
  "utf8_valid (CHR '':'' # sha256_ref s)" "encodable (CHR '':'' # sha256_ref s)"
  using printable_strict [OF sha256_ref_printable [of s]] printable_strict [OF sealed_event(2) [of s]]
  by (simp_all add: strict_utf8_def)

lemma sealed_ids [simp]:
  "is_uuid demo_id" "utf8_valid demo_id" "encodable demo_id" "is_uuid (demo_uuid (CHR ''2''))"
  "utf8_valid (demo_uuid (CHR ''2''))" "encodable (demo_uuid (CHR ''2''))"
  by code_simp+

lemma sealed_policy_ok: "policy_ok sealed_policy"
proof -
  have "sorted categories \<and> distinct categories"
    by code_simp
  then show ?thesis
    by (simp add: policy_ok_def sealed_policy_def)
qed

lemma sealed_policy_json: "json_ok (policy_to_dict sealed_policy)"
  using policy.enc_ok [OF sealed_policy_ok] by blast

lemma sealed_logical_ok: "json_ok sealed_logical"
  using sealed_policy_json
  by (simp add: sealed_logical_def logical_dict_def sealed_components_def opt_str_def)

lemma sealed_size: "length (dumps sealed_logical) \<le> MAX_CHECKPOINT_BYTES"
proof -
  have ints: "length (int_text 9) = 1" "length demo_id = 36"
    by code_simp+
  then have "weight sealed_logical \<le> MAX_CHECKPOINT_BYTES"
    by (simp add: sealed_logical_def logical_dict_def sealed_components_def opt_str_def policy_to_dict_def
        sealed_policy_def jstrs_def categories_def MAX_CHECKPOINT_BYTES_def)
  then show ?thesis
    using length_dumps le_trans by blast
qed

lemma sealed_quiet: "reject_sensitive sealed_logical = Inr ()"
proof (rule reject_dull)
  have "dull_text ''leanctx.workspace.state/v1'' \<and> dull_text ''entries'' \<and> dull_text ''sources'' \<and>
      dull_text ''package_pins'' \<and> dull_text ''package_lock_digest'' \<and> dull_text ''workspace_id'' \<and>
      dull_text ''schema_version'' \<and> dull_text ''policy''"
    by code_simp
  moreover have "dull_text demo_id"
    by (rule uuid_dull) simp
  ultimately show "dull sealed_logical"
    using policy_dull [OF sealed_policy_ok]
    by (simp add: sealed_logical_def logical_dict_def sealed_components_def opt_str_def dull_text_safe)
qed

lemma sealed_read: "logical_components sealed_logical demo_id = Inr sealed_components"
proof -
  have "ws_canonical sealed_logical = Inr (dumps sealed_logical)"
    by (rule ws_canonical_ok [OF sealed_logical_ok])
  moreover have "policy_from_dict (policy_to_dict sealed_policy) = Inr sealed_policy"
    by (rule policy.dec_enc [OF sealed_policy_ok])
  moreover have "exact logical_keys sealed_logical = Inr ()"
    "jat ''schema_version'' sealed_logical = JStr ''leanctx.workspace.state/v1''"
    "jat ''workspace_id'' sealed_logical = JStr demo_id" "jat ''sources'' sealed_logical = JArr []"
    "jat ''entries'' sealed_logical = JArr []" "jat ''package_pins'' sealed_logical = JArr []"
    "jat ''policy'' sealed_logical = policy_to_dict sealed_policy"
    "jat ''package_lock_digest'' sealed_logical = JNull"
    by (auto simp: sealed_logical_def logical_dict_def exact_def logical_keys_def jkeys_def
        sealed_components_def sort_key_def opt_str_def)
  ultimately show ?thesis
    using sealed_size
    by (simp add: logical_components_def jitems_def package_lock_def opt_str_def sealed_components_def)
qed

lemma sealed_made: "checkpoint_from_dict (checkpoint_to_dict sealed_checkpoint) = Inr sealed_checkpoint"
proof -
  let ?c = sealed_checkpoint
  have same: "unsigned_dict ?c = unsigned_dict sealed_base"
    by (simp add: sealed_checkpoint_def unsigned_dict_def)
  have read: "wuuid (JStr (ck_id ?c)) = Inr (ck_id ?c)" "wuuid (JStr demo_id) = Inr demo_id"
    "wdigest (JStr (ck_state_digest ?c)) = Inr (ck_state_digest ?c)"
    "wdigest (JStr (ck_policy_digest ?c)) = Inr (ck_policy_digest ?c)"
    "wdigest (JStr (ck_context_digest ?c)) = Inr (ck_context_digest ?c)"
    "wdigest (JStr (ck_envelope ?c)) = Inr (ck_envelope ?c)"
    by (simp_all add: sealed_checkpoint_def sealed_base_def wuuid_def wdigest_def on_text_def)
  have "json_ok (JObj (unsigned_dict sealed_base))"
    using sealed_logical_ok by (simp add: unsigned_dict_def sealed_base_def opt_str_def engine_identity_def)
  then have envelope: "envelope_digest (JObj (unsigned_dict ?c)) = Inr (ck_envelope ?c)"
    unfolding same by (simp add: envelope_digest_def domain_digest_ok sealed_checkpoint_def del: dumps.simps)
  have state: "domain_digest ''leanctx.workspace.state.v1'' sealed_logical = Inr (ck_state_digest ?c)"
    "ws_canonical sealed_logical = Inr (dumps sealed_logical)"
    using sealed_logical_ok
    by (simp_all add: domain_digest_ok ws_canonical_ok sealed_checkpoint_def sealed_base_def del: dumps.simps)
  have projections: "validate_projections ?c = Inr ()"
    using sealed_read sealed_policy_json
    by (simp add: validate_projections_def sealed_checkpoint_def sealed_base_def domain_digest_ok
        sealed_components_def sort_key_def entry_recovery_refs_def jstrs_def del: dumps.simps)
  have refs: "wref 512 (JStr (''event:'' @ sha256_ref ''e'')) = Inr (''event:'' @ sha256_ref ''e'')"
    "wref 512 (JStr ''s'') = Inr ''s''" "wrefs MAX_RECEIPT_REFS (JArr []) = Inr []"
    "starts_with ''event:sha256:'' (''event:'' @ sha256_ref ''e'')" 
    "reject_sensitive (JArr []) = Inr ()"
    subgoal
      using sealed_event(1) [of "''e''"] digest_length [OF is_digest_sha256_ref [of "''e''"]]
      by (simp add: wref_def on_text_def ref_ok_def printable_text_ok)
    subgoal by code_simp
    subgoal by (simp add: wrefs_def unique_sorted_def)
    subgoal by (simp add: starts_with_def sha256_ref_def)
    subgoal by code_simp
    done
  have fields: "jat ''logical_state'' (checkpoint_to_dict ?c) = sealed_logical"
    "ck_logical ?c = sealed_logical" "ck_workspace ?c = demo_id"
    by (simp_all add: checkpoint_to_dict_def unsigned_dict_def sealed_checkpoint_def sealed_base_def)
  have whole: "\<lparr>ck_id = ck_id ?c, ck_workspace = demo_id, ck_state_digest = ck_state_digest ?c,
      ck_state_ref = ''event:'' @ sha256_ref ''e'', ck_logical = sealed_logical, ck_anchors = [],
      ck_recovery = [], ck_pins = [], ck_lock = None, ck_policy_digest = ck_policy_digest ?c,
      ck_context_digest = ck_context_digest ?c, ck_lineage = ck_lineage ?c, ck_engine = engine_identity,
      ck_envelope = ck_envelope ?c\<rparr> = ?c"
    by (simp add: sealed_checkpoint_def sealed_base_def)
  have "length (jitems (JArr [])) = 0"
    by (simp add: jitems_def)
  have "jat ''checkpoint_id'' (checkpoint_to_dict ?c) = JStr (ck_id ?c)"
    "jat ''workspace_id'' (checkpoint_to_dict ?c) = JStr demo_id"
    "jat ''state_digest'' (checkpoint_to_dict ?c) = JStr (ck_state_digest ?c)"
    "jat ''policy_digest'' (checkpoint_to_dict ?c) = JStr (ck_policy_digest ?c)"
    "jat ''project_context_digest'' (checkpoint_to_dict ?c) = JStr (ck_context_digest ?c)"
    "jat ''envelope_digest'' (checkpoint_to_dict ?c) = JStr (ck_envelope ?c)"
    "jat ''package_lock_digest'' (checkpoint_to_dict ?c) = JNull"
    "jat ''schema_version'' (checkpoint_to_dict ?c) = JStr ''leanctx.context-checkpoint/v2''"
    "jat ''state_schema_version'' (checkpoint_to_dict ?c) = JStr ''leanctx.workspace.state/v1''"
    "jat ''sdk_contract'' (checkpoint_to_dict ?c) = JStr ''leanctx-product-sdk-research/p6''"
    "jat ''workspace_state_ref'' (checkpoint_to_dict ?c) = JStr (''event:'' @ sha256_ref ''e'')"
    "jat ''source_anchors'' (checkpoint_to_dict ?c) = JArr []"
    "jat ''package_pins'' (checkpoint_to_dict ?c) = JArr []"
    "jat ''recovery_refs'' (checkpoint_to_dict ?c) = JArr []"
    "jat ''lineage'' (checkpoint_to_dict ?c) = ck_lineage ?c"
    "jat ''engine_identity'' (checkpoint_to_dict ?c) = engine_identity"
    by (simp_all add: checkpoint_to_dict_def unsigned_dict_def sealed_checkpoint_def sealed_base_def opt_str_def)
  note fields = fields this
  have parts: "jat ''kind'' (ck_lineage ?c) = JStr ''workspace''"
    "jat ''workspace_id'' (ck_lineage ?c) = JStr demo_id" "jat ''state_id'' (ck_lineage ?c) = JStr ''s''"
    "exact [''kind'', ''workspace_id'', ''state_id''] (ck_lineage ?c) = Inr ()"
    "exact [''interface_version'', ''schema_version'', ''transport_version''] engine_identity = Inr ()"
    "py_eq engine_identity engine_identity" "jitems (JArr []) = []"
    by (simp_all add: sealed_checkpoint_def sealed_base_def exact_def jkeys_def engine_identity_def jitems_def
        insert_commute)
  have "mk_checkpoint (checkpoint_to_dict ?c) = Inr ?c"
    by (simp only: mk_checkpoint_def fields parts read refs state sealed_quiet sealed_size rbind_simps Let_def whole
        projections envelope check_simps if_True simp_thms list.size zero_le)
  moreover have "is_obj sealed_logical" "is_obj (ck_lineage ?c)" "is_obj engine_identity" "is_arr (JArr [])"
    by (simp_all add: sealed_logical_def logical_dict_def sealed_checkpoint_def sealed_base_def
        engine_identity_def)
  moreover have "exact checkpoint_keys (checkpoint_to_dict ?c) = Inr ()"
    by (simp only: exact_def checkpoint_dict_keys simp_thms check_simps)
  ultimately show ?thesis
    by (simp only: checkpoint_from_dict_def fields rbind_simps check_simps simp_thms if_True)
qed

definition sealed_provenance :: provenance where
  "sealed_provenance =
     \<lparr>mp_snapshot = ''snap'', mp_digest = sha256_ref ''snap'', mp_checkpoint = JStr (ck_id sealed_checkpoint),
      mp_state = ck_state_digest sealed_checkpoint, mp_limitations = [''none'']\<rparr>"

lemma sealed_provenance_made: "provenance_made sealed_provenance"
proof -
  have "legacy_id (JStr ''snap'') = Inr ''snap''" "limitation (JStr ''none'') = Inr ''none''"
    by code_simp+
  then have "mk_provenance (JStr ''snap'') (JStr (sha256_ref ''snap'')) (JStr (ck_id sealed_checkpoint))
      (JStr (ck_state_digest sealed_checkpoint)) [JStr ''none''] (JStr ''SnapshotV1'')
      (JStr MIGRATION_SCHEMA) = Inr sealed_provenance"
    by (simp add: mk_provenance_def pack_digest_def sealed_provenance_def)
      (simp add: sealed_checkpoint_def sealed_base_def)
  then show ?thesis
    unfolding provenance_made_def by blast
qed

lemma seal_inspect_roundtrip_witness:
  "\<exists>fields. portable_checkpoint (seal_payload sealed_checkpoint (Some sealed_provenance)) =
     Inr (sealed_checkpoint, fields, Some sealed_provenance)"
proof -
  have "pred_option (\<lambda>p. provenance_made p \<and> of_checkpoint p sealed_checkpoint) (Some sealed_provenance)"
    using sealed_provenance_made by (simp add: of_checkpoint_def sealed_provenance_def)
  with seal_inspect_roundtrip [OF sealed_made this] show ?thesis
    by blast
qed

end
