(* ===== verification/Deprecation.thy ===== *)
theory Deprecation
  imports PyText
begin

text \<open>
  Renamed names (\<open>src/leanctx_sdk/_deprecation.py\<close>): the attribute hook of a module, a renamed
  keyword argument and a renamed environment variable. A warning is the pair of the old and the new
  name; the warnings of environment variables are given once, so the set of those given is state.
\<close>

definition DEPRECATED_NAMES :: "(pystr \<times> pystr) list" where
  "DEPRECATED_NAMES =
     [(''EngineError'', ''InstanceError''), (''EngineUnavailable'', ''InstanceUnavailable''),
      (''EngineProtocolError'', ''InstanceProtocolError''),
      (''EngineExecutionError'', ''InstanceExecutionError''), (''EngineTimeout'', ''InstanceTimeout''),
      (''EngineCrashed'', ''InstanceCrashed''), (''EngineRejected'', ''InstanceRejected''),
      (''UnsupportedEngineError'', ''UnsupportedInstanceError''),
      (''EngineUnavailableError'', ''InstanceUnavailableError''),
      (''EngineTimeoutError'', ''InstanceTimeoutError''),
      (''EngineProtocolErrorError'', ''InstanceProtocolErrorError''),
      (''EngineRejectedError'', ''InstanceRejectedError''),
      (''EngineExecutionErrorError'', ''InstanceExecutionErrorError''),
      (''EngineStatus'', ''InstanceStatus''), (''EngineClient'', ''InstanceClient''),
      (''SubprocessEngineClient'', ''SubprocessInstanceClient''),
      (''EnterpriseEngineClient'', ''EnterpriseInstanceClient''),
      (''EngineContextClient'', ''InstanceContextClient''),
      (''EnginePlanningClient'', ''InstancePlanningClient''),
      (''EnginePlanningRequest'', ''InstancePlanningRequest''), (''EngineSource'', ''InstanceSource''),
      (''EngineContextReadResult'', ''InstanceContextReadResult''),
      (''LocalCheckpointPackageEngine'', ''LocalCheckpointPackageInstance'')]"

type_synonym warning = "pystr \<times> pystr"

text \<open>The hook \<open>__getattr__\<close> of a module: an old name is the object of the new name.\<close>

definition module_getattr ::
  "pystr set \<Rightarrow> (pystr \<Rightarrow> 'a option) \<Rightarrow> pystr \<Rightarrow> warning list \<times> 'a res" where
  "module_getattr names namespace name =
     (if name \<in> names then
        (case map_of DEPRECATED_NAMES name of
           None \<Rightarrow> ([], Inl PyKeyError)
         | Some new \<Rightarrow> ([(name, new)], of_option PyKeyError (namespace new)))
      else ([], Inl PyAttributeError))"

definition renamed_kwarg ::
  "pystr \<Rightarrow> 'a option \<Rightarrow> pystr \<Rightarrow> 'a option \<Rightarrow> 'a option \<Rightarrow> warning list \<times> 'a option res" where
  "renamed_kwarg old_name old_value new_name new_value dflt =
     (case old_value of
        None \<Rightarrow> ([], Inr (case new_value of None \<Rightarrow> dflt | Some v \<Rightarrow> Some v))
      | Some v \<Rightarrow>
          if new_value \<noteq> None then ([], Inl PyTypeError) else ([(old_name, new_name)], Inr (Some v)))"

definition DEPRECATED_ENV :: "(pystr \<times> pystr) list" where
  "DEPRECATED_ENV =
     [(''LEANCTX_INSTANCE_BIN'', ''LEANCTX_ENGINE_BIN''),
      (''LEANCTX_INSTANCE_BINARY'', ''LEANCTX_ENGINE_BINARY''),
      (''LEANCTX_INSTANCE_PROOF_FILE'', ''LEANCTX_ENGINE_PROOF_FILE''),
      (''LEANCTX_REQUIRE_INSTANCE'', ''LEANCTX_REQUIRE_ENGINE''),
      (''LEANCTX_TEST_INSTANCE_BINARY'', ''LEANCTX_TEST_ENGINE_BINARY'')]"

text \<open>An empty variable counts as unset.\<close>

definition given_value :: "pystr option \<Rightarrow> bool" where
  "given_value v = (case v of None \<Rightarrow> False | Some s \<Rightarrow> s \<noteq> [])"

definition instance_env ::
  "pystr \<Rightarrow> (pystr \<Rightarrow> pystr option) \<Rightarrow> pystr set \<Rightarrow> pystr set \<times> warning list \<times> pystr option" where
  "instance_env name env warned =
     (if given_value (env name) then (warned, [], env name)
      else (case map_of DEPRECATED_ENV name of
        None \<Rightarrow> (warned, [], env name)
      | Some old \<Rightarrow>
          if given_value (env old)
          then (insert old warned, if old \<in> warned then [] else [(old, name)], env old)
          else (warned, [], None)))"

end
