(* ===== verification/Spec2Isabelle.thy ===== *)
theory Spec2Isabelle
  imports Session_Facts Ws_Files_Facts Ws_Method_Claims Px_Reconcile Store_Facts Planning_Facts Presenter View_Facts
    Remote_Demo Agent_Facts Package_Facts Deprecation
begin

text \<open>
  Verification library of the LeanCTX Python SDK (\<open>src/src/leanctx_sdk\<close>).

  \<^bold>\<open>The program.\<close> An agent asks the SDK for the context of a task. A \<^emph>\<open>source\<close> names a file
  under a project root; a \<^emph>\<open>plan\<close> binds the source to a task by a digest; the instance (a separate
  program) returns a \<^emph>\<open>view\<close>, the text of the source with its proof; a \<^emph>\<open>session\<close> leads from the
  plan to a sealed \<^emph>\<open>receipt\<close>. A \<^emph>\<open>workspace\<close> keeps what several sessions produce: sources, context
  entries, checkpoints, package pins, a policy, forks and handoffs. It is an event-sourced store:
  each event is one file of a directory, chained to the one before it by a digest, and the state is
  what replaying the events gives. \<^emph>\<open>Parallel context\<close> is the protocol by which one workspace is
  forked into several and context is handed between them. The instance is reached as a subprocess, over
  HTTP (the \<^emph>\<open>Enterprise\<close> operations) or as a long-lived process that an agent's tools talk to in frames.

  \<^bold>\<open>Theories and the code they model.\<close>
  \<^item> \<open>Prelude\<close>, \<open>Errors\<close>: results \<open>exn + 'a\<close> for code that may raise, sequencing, dictionaries
    in insertion order; the exception classes of \<open>errors.py\<close> with their hierarchy and flags.
  \<^item> \<open>Unicode_Words\<close>, \<open>PyText\<close>, \<open>PyFloat\<close>, \<open>PyPath\<close>, \<open>Sha256\<close>, \<open>Json\<close>, \<open>Json_Roundtrip\<close>: the
    parts of Python and its library the code computes with: UTF-8 text, number text, path
    normalisation, SHA-256 on words, the JSON reader and writer and their round trip.
  \<^item> \<open>Protocol\<close>, \<open>Protocol_Facts\<close> (\<open>protocol.py\<close>): sources, plans, measurements, links, views
    and recovered sources with every check of their constructors.
  \<^item> \<open>Session\<close>, \<open>Session_Facts\<close> (\<open>session.py\<close>, \<open>receipt.py\<close>): a session is a record, each
    method a function from a session to a session and a result.
  \<^item> \<open>Ws_Text\<close>, \<open>Ws_Values\<close>, \<open>Ws_Anchor\<close>, \<open>Ws_Records\<close>, \<open>Ws_Checkpoint\<close> (\<open>workspace.py\<close>): the
    validators and the credential scan, then policy, identity, source anchors, entries, pins,
    receipts, status, the logical state and checkpoints, each with its decoder.
  \<^item> \<open>Ws_State\<close>, \<open>Ws_Apply\<close>, \<open>Ws_Events\<close>: the state of a workspace, its guards, one function
    per kind of event (\<open>_apply_event_unchecked\<close>) and the step \<open>apply_event\<close>.
  \<^item> \<open>Px_Values\<close>, \<open>Px_Handoff\<close>, \<open>Px_Codecs\<close>, \<open>Px_Delta\<close>, \<open>Px_Reconcile\<close> (\<open>parallel_context.py\<close>):
    state references, lineage, policy inheritance, forks, conflicts, handoffs and their admission,
    deltas between two checkpoints and the narrow reconciliation of them.
  \<^item> \<open>Ws_Journal\<close>: the events directory as names and inodes, the reader of an event file,
    \<open>_project\<close>, the steps of \<open>_write_event\<close>, and the directory it leaves for each system call of it that
    may fail (\<open>io_fault\<close>).
  \<^item> \<open>Ws_Files\<close>, \<open>Ws_Files_Facts\<close>: a directory tree with inode numbers, opening a source without
    following links, pinning it and looking at it again.
  \<^item> \<open>Ws_Workspace\<close>, \<open>Ws_Methods\<close>, \<open>Ws_Context\<close>, \<open>Ws_Exchange\<close>: the methods of
    \<open>ContextWorkspace\<close>, each a function from a workspace to a workspace and a result: reading the
    state, appending with its retries and checks, sources and sessions, commits, checkpoints and the
    bounded view, packages, forks, handoffs and reconciliation.
  \<^item> \<open>Ws_Safe\<close>, \<open>Ws_Invariant\<close>, \<open>Ws_Runs\<close>, \<open>Ws_Journal_Facts\<close>, \<open>Ws_Replay\<close>, \<open>Ws_Demo\<close>, \<open>Ws_Claims\<close>,
    \<open>Ws_Method_Facts\<close>, \<open>Ws_Calls\<close>, \<open>Ws_Method_Claims\<close>: the invariant of the state, its preservation by
    every event, runs of events, the behaviour of the journal, the state as the replay of its files,
    what a call keeps of the files, the refinement of an append-only log, a small journal on which the
    properties are applied, and the properties.
  \<^item> \<open>Strict_Fields\<close>, \<open>Strict_Readers\<close>: what the readers of answers share.
  \<^item> \<open>Store\<close>, \<open>Store_Facts\<close> (\<open>context_store.py\<close>): policy evidence and task lineage.
  \<^item> \<open>Gateway\<close>, \<open>Gateway_Facts\<close> (\<open>gateway.py\<close>): decision receipts, the admission and preparation of
    what leaves the machine, and host reports.
  \<^item> \<open>Planning\<close>, \<open>Planning_Facts\<close> (\<open>planning.py\<close>): planning requests, context plans and source plans.
  \<^item> \<open>Replies\<close>, \<open>Instance_Client\<close>, \<open>Instance_Facts\<close>, \<open>View_Facts\<close> (\<open>instance.py\<close>): the readers of an
    answer, the loop over the pipes of the subprocess, and the four operations.
  \<^item> \<open>Execution_Request\<close>, \<open>Execution\<close>, \<open>Provider\<close> (\<open>source_execution.py\<close>,
    \<open>provider_execution.py\<close>): tasks and execution plans, the joins of an execution, outcomes, and
    provider executions.
  \<^item> \<open>Presenter\<close>, \<open>Remote\<close>, \<open>Enterprise\<close>, \<open>Enterprise_Facts\<close>, \<open>Remote_Demo\<close> (\<open>presenter.py\<close>,
    \<open>enterprise_instance.py\<close>): bearer capabilities, the HTTP exchange under its deadline, the nine
    operations, what they promise, and exchanges on which the promises are applied.
  \<^item> \<open>Agent\<close>, \<open>Agent_Facts\<close> (\<open>agent.py\<close>): the policies and the tool session as a state machine.
  \<^item> \<open>Packages\<close>, \<open>Package_Facts\<close> (\<open>checkpoint_package.py\<close>): sealing, inspecting, seeding, migrating.
  \<^item> \<open>Deprecation\<close> (\<open>_deprecation.py\<close>): renamed attributes, arguments and variables.

  \<^bold>\<open>What the lemmas show.\<close> The workspace: every reachable state satisfies the invariant, its history only
  grows, a publication is atomic, an append refines a log whatever call of its write fails (one that raises after
  the link has published its event), a retry gives the receipt of the recorded event, an ended workspace
  refuses. Sources, pinned sources, working directories and tools stay confined. What comes
  back from an instance is bound to what was asked (views, plans, materializations, presented text,
  executions, admissions, lineage) and to the text its digest names. The session of an agent reaches
  only negotiated tools, its metrics add up, and an end it reports is one; a failed cleanup is stored. Bounds hold (tokens, entries, events, output), the
  loop over the pipes ends, and readers accept what writers wrote.

  \<^bold>\<open>Conventions.\<close> A string is its UTF-8 bytes, an \<open>int\<close> of Python an \<open>int\<close>, a dictionary an
  association list in insertion order. A value of a class is a record that its \<open>mk_\<close> or
  \<open>_from_dict\<close> function returns when every check of \<open>__post_init__\<close> or \<open>from_dict\<close> passes; the
  checks stand in the order of the code and each has its exception. What the program draws at
  random (identifiers, temporary names), which system call of a write fails (\<open>dr_io\<close> of a \<open>draw\<close>), the clock and
  the working directory are arguments. So is what
  lies outside the program: the machine a subprocess runs on (\<open>machine\<close>: its events, in rounds, and
  its exit code), the network (\<open>network\<close>: from a request to what the peer did and when the deadline
  came), the turn of a tool process (\<open>turn\<close>) and what its cleanup meets (\<open>cleanup\<close>), the packaging
  program (\<open>pack_host\<close>). A codec is an interpretation of the locale of \<open>Ws_Values\<close>, whose laws say that a
  decoder accepts exactly the encoding of what it returns. The JSON decoder spends one unit of
  fuel per call and starts with more than the length of its input, which \<open>Json_Roundtrip\<close> shows to be
  enough for what the writer writes; every other loop recurses on the events, rounds or files it reads. \<open>append_room\<close> is the only bound added: it says of an append
  that its temporary names are as the code makes them, its inode is fresh, its sequence number fits the file name
  and its payload, a JSON value, the limit of the reader, which the writer does not check. The properties of
  appends that need it say so.

  \<^bold>\<open>What is not modelled.\<close> Locks, threads, sockets, signals to process groups, directory handles, the
  tests that compare two \<open>stat\<close> results of one path, the faults of making, renaming and syncing the directory of a
  new workspace, and Windows: a workspace is a snapshot of names and
  inodes, an exchange or a turn is what the peer did. Timeouts are floats the code only hands on; the
  names of environment variables, the parsing of a base URL, the constructors that choose an executable
  and the asynchronous facade are left out for the same reason. The public modules only re-export. The
  signing of packages and the archive format belong to the instance. SHA-256 is computed, so statements
  about digests name the two texts of a collision where one is possible.
\<close>

end
